(* ===== verification/Prelude.thy ===== *)
theory Prelude
  imports Main
begin

text \<open>
  Shared ground of the development: Go's 64-bit integer arithmetic, the pieces of Go's
  standard library the program uses on strings and sorted slices (\<open>strings\<close>, \<open>sort.Search\<close>),
  and the collections of lemmas that the component theories feed to the simplifier.
  Nothing here models a file of the repository by itself.
\<close>

section \<open>Collections\<close>

named_theorems frame_simps \<open>what an operation leaves unchanged\<close>
named_theorems step_defs \<open>the definitions a step of a component unfolds to\<close>
named_theorems inv_intros \<open>invariants and their preservation\<close>

section \<open>Go's int64\<close>

text \<open>
  A Go \<open>int64\<close> (and \<open>int\<close>, on the 64-bit platforms the program is built for) is an \<open>int\<close>
  between \<open>-2^63\<close> and \<open>2^63 - 1\<close>; an operation wraps its exact result around.
\<close>

definition wrap64 :: "int \<Rightarrow> int" where
  "wrap64 x = (x + 2 ^ 63) mod 2 ^ 64 - 2 ^ 63"

definition in64 :: "int \<Rightarrow> bool" where
  "in64 x \<longleftrightarrow> - (2 ^ 63) \<le> x \<and> x < 2 ^ 63"

definition add64 :: "int \<Rightarrow> int \<Rightarrow> int" where
  "add64 a b = wrap64 (a + b)"

definition sub64 :: "int \<Rightarrow> int \<Rightarrow> int" where
  "sub64 a b = wrap64 (a - b)"

definition mul64 :: "int \<Rightarrow> int \<Rightarrow> int" where
  "mul64 a b = wrap64 (a * b)"

lemma wrap64_id [simp]: "in64 x \<Longrightarrow> wrap64 x = x"
  by (simp add: wrap64_def in64_def)

lemma in64_wrap64 [simp]: "in64 (wrap64 x)"
  unfolding wrap64_def in64_def by (simp add: pos_mod_bound pos_mod_sign algebra_simps)

lemma add64_exact [simp]: "in64 (a + b) \<Longrightarrow> add64 a b = a + b"
  by (simp add: add64_def)

lemma sub64_exact [simp]: "in64 (a - b) \<Longrightarrow> sub64 a b = a - b"
  by (simp add: sub64_def)

lemma mul64_exact [simp]: "in64 (a * b) \<Longrightarrow> mul64 a b = a * b"
  by (simp add: mul64_def)

lemma in64_ops [simp, intro]:
  "in64 (add64 a b)" "in64 (sub64 a b)" "in64 (mul64 a b)"
  by (simp_all add: add64_def sub64_def mul64_def)

lemma in64I: "- (2 ^ 63) \<le> x \<Longrightarrow> x < 2 ^ 63 \<Longrightarrow> in64 x"
  by (simp add: in64_def)

section \<open>Strings\<close>

text \<open>A Go string is a byte sequence: a \<^typ>\<open>string\<close>, one \<^typ>\<open>char\<close> per byte.\<close>

definition has_prefix :: "string \<Rightarrow> string \<Rightarrow> bool" where
  "has_prefix s p \<longleftrightarrow> take (length p) s = p"

definition has_suffix :: "string \<Rightarrow> string \<Rightarrow> bool" where
  "has_suffix s p \<longleftrightarrow> length p \<le> length s \<and> drop (length s - length p) s = p"

definition trim_suffix :: "string \<Rightarrow> string \<Rightarrow> string" where
  "trim_suffix s p = (if has_suffix s p then take (length s - length p) s else s)"

fun str_contains :: "string \<Rightarrow> string \<Rightarrow> bool" where
  "str_contains [] p = (p = [])"
| "str_contains (c # cs) p = (has_prefix (c # cs) p \<or> str_contains cs p)"

lemma has_prefix_append [simp]: "has_prefix (p @ s) p"
  by (simp add: has_prefix_def)

lemma has_suffix_append [simp]: "has_suffix (s @ p) p"
  by (simp add: has_suffix_def)

lemma trim_suffix_append [simp]: "trim_suffix (s @ p) p = s"
  by (simp add: trim_suffix_def)

lemma has_prefix_iff: "has_prefix s p \<longleftrightarrow> (\<exists>r. s = p @ r)"
  by (metis append_eq_conv_conj append_take_drop_id has_prefix_def)

lemma str_contains_iff: "str_contains s p \<longleftrightarrow> (\<exists>a b. s = a @ p @ b)"
proof (induction s)
  case Nil
  then show ?case by simp
next
  case (Cons c cs)
  show ?case
  proof
    assume "str_contains (c # cs) p"
    then show "\<exists>a b. c # cs = a @ p @ b"
      using Cons by (metis append_Cons append_Nil has_prefix_iff str_contains.simps(2))
  next
    assume "\<exists>a b. c # cs = a @ p @ b"
    then obtain a b where ab: "c # cs = a @ p @ b" by blast
    show "str_contains (c # cs) p"
    proof (cases a)
      case Nil
      with ab have "has_prefix (c # cs) p" by (simp add: has_prefix_iff)
      then show ?thesis by simp
    next
      case (Cons x xs)
      with ab have "cs = xs @ p @ b" by simp
      with Cons.IH show ?thesis by auto
    qed
  qed
qed

section \<open>Binary search\<close>

text \<open>\<open>sort.Search(n, f)\<close> of Go's standard library, loop for loop.\<close>

function search_loop :: "(nat \<Rightarrow> bool) \<Rightarrow> nat \<Rightarrow> nat \<Rightarrow> nat" where
  "search_loop f i j =
     (if i < j then
        (let h = (i + j) div 2 in
         if \<not> f h then search_loop f (Suc h) j else search_loop f i h)
      else i)"
  by pat_completeness auto
termination
  by (relation "measure (\<lambda>(f, i, j). j - i)") auto

declare search_loop.simps [simp del]

definition sort_search :: "nat \<Rightarrow> (nat \<Rightarrow> bool) \<Rightarrow> nat" where
  "sort_search n f = search_loop f 0 n"

definition up_closed :: "nat \<Rightarrow> (nat \<Rightarrow> bool) \<Rightarrow> bool" where
  "up_closed n f \<longleftrightarrow> (\<forall>a b. a \<le> b \<longrightarrow> b < n \<longrightarrow> f a \<longrightarrow> f b)"

lemma search_loop_least:
  assumes "up_closed n f" "i \<le> j" "j \<le> n" "\<forall>k<i. \<not> f k" "j < n \<longrightarrow> f j"
  shows "search_loop f i j \<le> n \<and> (\<forall>k<search_loop f i j. \<not> f k) \<and>
    (search_loop f i j < n \<longrightarrow> f (search_loop f i j))"
  using assms
proof (induction f i j rule: search_loop.induct)
  case (1 f i j)
  show ?case
  proof (cases "i < j")
    case False
    then have "search_loop f i j = j" using "1.prems"(2) by (subst search_loop.simps) simp
    with "1.prems" False show ?thesis by simp
  next
    case True
    let ?h = "(i + j) div 2"
    have h: "i \<le> ?h" "?h < j" using True by auto
    show ?thesis
    proof (cases "f ?h")
      case True
      have "search_loop f i j = search_loop f i ?h"
        using \<open>i < j\<close> True by (subst search_loop.simps) simp
      moreover have "?h \<le> n" using h "1.prems"(3) by linarith
      ultimately show ?thesis
        using "1.IH"(2) [OF \<open>i < j\<close> refl] True "1.prems"(1,4) h(1) by auto
    next
      case False
      have below: "\<forall>k<Suc ?h. \<not> f k"
      proof (intro allI impI notI)
        fix k assume "k < Suc ?h" "f k"
        moreover have "?h < n" using h "1.prems" by simp
        ultimately show False using False "1.prems"(1) unfolding up_closed_def
          by (metis less_Suc_eq_le)
      qed
      have "search_loop f i j = search_loop f (Suc ?h) j"
        using \<open>i < j\<close> False by (subst search_loop.simps) simp
      then show ?thesis
        using "1.IH"(1) [OF \<open>i < j\<close> refl False "1.prems"(1) _ "1.prems"(3) below "1.prems"(5)]
          h(2) by simp
    qed
  qed
qed

lemma sort_search_least:
  assumes "up_closed n f"
  shows "sort_search n f \<le> n"
    and "k < sort_search n f \<Longrightarrow> \<not> f k"
    and "sort_search n f < n \<Longrightarrow> f (sort_search n f)"
  using search_loop_least [OF assms, of 0 n] by (auto simp: sort_search_def)

section \<open>Maps and lists\<close>

lemma map_upd_apply [simp]: "(m(k \<mapsto> v)) k = Some v"
  by simp

lemma dom_map_upd_Some: "m k = Some w \<Longrightarrow> dom (m(k \<mapsto> v)) = dom m"
  by auto

lemma fold_keeps:
  assumes "\<And>x s. x \<in> set xs \<Longrightarrow> P s \<Longrightarrow> P (f x s)" and "P s"
  shows "P (fold f xs s)"
  using assms by (induction xs arbitrary: s) auto

section \<open>Database outcomes\<close>

text \<open>
  A database call can fail for reasons outside the program. Which calls fail is an input of the
  model: a list of flags, one taken by each call, the rest of the calls succeeding.
\<close>

definition next_fault :: "bool list \<Rightarrow> bool" where
  "next_fault fs = (fs \<noteq> [] \<and> hd fs)"

definition rest_faults :: "bool list \<Rightarrow> bool list" where
  "rest_faults fs = tl fs"

lemma no_faults [simp]: "\<not> next_fault []" "rest_faults [] = []"
  by (simp_all add: next_fault_def rest_faults_def)

lemma fault_Cons [simp]: "next_fault (f # fs) = f" "rest_faults (f # fs) = fs"
  by (simp_all add: next_fault_def rest_faults_def)

end
