(* ===== verification/Float64.thy ===== *)
theory Float64
  imports Complex_Main Prelude
begin

text \<open>
  IEEE 754 binary64, the arithmetic of Go's \<open>float64\<close>: a value is a finite rational, negative
  zero, an infinity or NaN; an operation computes its exact rational result and rounds it to
  nearest, ties to even, with gradual underflow and overflow to infinity. The lemmas the
  components use are that rounding is monotone and leaves representable values unchanged.
\<close>

section \<open>Rounding\<close>

fun bitlen :: "nat \<Rightarrow> nat" where
  "bitlen n = (if n = 0 then 0 else Suc (bitlen (n div 2)))"

declare bitlen.simps [simp del]

lemma bitlen_bounds: "0 < n \<Longrightarrow> 2 ^ (bitlen n - 1) \<le> n \<and> n < 2 ^ bitlen n \<and> 0 < bitlen n"
proof (induction n rule: bitlen.induct)
  case (1 n)
  have b: "bitlen n = Suc (bitlen (n div 2))" using 1 by (subst bitlen.simps) simp
  show ?case
  proof (cases "n div 2 = 0")
    case True
    with "1.prems" have "n = 1" by auto
    with b True show ?thesis by (simp add: bitlen.simps)
  next
    case False
    with "1.prems" have IH: "2 ^ (bitlen (n div 2) - 1) \<le> n div 2" "n div 2 < 2 ^ bitlen (n div 2)"
      "0 < bitlen (n div 2)"
      using "1.IH" by auto
    then obtain k where k: "bitlen (n div 2) = Suc k" by (cases "bitlen (n div 2)") auto
    with b IH show ?thesis by auto
  qed
qed

lemma powi_two_nats: "(2::rat) powi (int a - int b) = 2 ^ a / 2 ^ b"
  by (simp add: power_int_diff)

lemma powi_two_add: "(2::rat) powi (a + b) = 2 powi a * 2 powi b"
  by (simp add: power_int_add)

definition flog2 :: "rat \<Rightarrow> int" where
  "flog2 x =
     (let (p, q) = quotient_of x;
          k = int (bitlen (nat p)) - int (bitlen (nat q))
      in if 2 powi k \<le> x then k else k - 1)"

lemma flog2_bounds:
  assumes "0 < x"
  shows "2 powi flog2 x \<le> x" and "x < 2 powi (flog2 x + 1)"
proof -
  obtain p q where pq: "quotient_of x = (p, q)" by (cases "quotient_of x")
  have q: "0 < q" using quotient_of_denom_pos [OF pq] .
  have x: "x = of_int p / of_int q" using quotient_of_div [OF pq] .
  have p: "0 < p" using assms x q by (simp add: zero_less_divide_iff)
  let ?bp = "bitlen (nat p)" and ?bq = "bitlen (nat q)"
  let ?k = "int ?bp - int ?bq"
  have bp: "2 ^ (?bp - 1) \<le> nat p" "nat p < 2 ^ ?bp" "0 < ?bp"
    and bq: "2 ^ (?bq - 1) \<le> nat q" "nat q < 2 ^ ?bq" "0 < ?bq"
    using bitlen_bounds [of "nat p"] bitlen_bounds [of "nat q"] p q by auto
  have P: "(2::rat) ^ (?bp - 1) \<le> of_int p" "of_int p < (2::rat) ^ ?bp"
    using bp p
    by (metis nat_0_le of_int_of_nat_eq of_nat_le_iff of_nat_numeral of_nat_power order_less_imp_le)
      (metis bp(2) nat_0_le of_int_of_nat_eq of_nat_less_iff of_nat_numeral of_nat_power order_less_imp_le p)
  have Q: "(2::rat) ^ (?bq - 1) \<le> of_int q" "of_int q < (2::rat) ^ ?bq"
    using bq q
    by (metis nat_0_le of_int_of_nat_eq of_nat_le_iff of_nat_numeral of_nat_power order_less_imp_le)
      (metis bq(2) nat_0_le of_int_of_nat_eq of_nat_less_iff of_nat_numeral of_nat_power order_less_imp_le q)
  have hi: "x < 2 powi (?k + 1)"
  proof -
    have "x < 2 ^ ?bp / 2 ^ (?bq - 1)" unfolding x
      using P Q p q by (intro frac_less) auto
    moreover have "?k + 1 = int ?bp - int (?bq - 1)" using bq(3) by (simp add: of_nat_diff)
    ultimately show ?thesis by (simp only: powi_two_nats)
  qed
  have lo: "2 powi (?k - 1) \<le> x"
  proof -
    have "2 ^ (?bp - 1) / 2 ^ ?bq \<le> x" unfolding x using P Q p q by (intro frac_le) auto
    moreover have "?k - 1 = int (?bp - 1) - int ?bq" using bp(3) by (simp add: of_nat_diff)
    ultimately show ?thesis by (simp only: powi_two_nats)
  qed
  show "2 powi flog2 x \<le> x" using lo by (auto simp: flog2_def pq Let_def)
  show "x < 2 powi (flog2 x + 1)" using hi by (auto simp: flog2_def pq Let_def)
qed

lemma flog2_mono: "0 < x \<Longrightarrow> x \<le> y \<Longrightarrow> flog2 x \<le> flog2 y"
proof (rule ccontr)
  assume "0 < x" "x \<le> y" "\<not> flog2 x \<le> flog2 y"
  then have "2 powi (flog2 y + 1) \<le> (2::rat) powi flog2 x"
    by (intro power_int_increasing) auto
  with flog2_bounds(1) [OF \<open>0 < x\<close>] flog2_bounds(2) [of y] \<open>0 < x\<close> \<open>x \<le> y\<close>
  show False by linarith
qed

definition round_half_even :: "rat \<Rightarrow> int" where
  "round_half_even r =
     (let f = \<lfloor>r\<rfloor>; d = r - of_int f in
      if d < 1 / 2 then f else if 1 / 2 < d then f + 1 else if even f then f else f + 1)"

lemma round_half_even_int [simp]: "round_half_even (of_int n) = n"
  by (simp add: round_half_even_def)

lemma round_half_even_bounds: "\<lfloor>r\<rfloor> \<le> round_half_even r" "round_half_even r \<le> \<lfloor>r\<rfloor> + 1"
  by (simp_all add: round_half_even_def Let_def)

lemma round_half_even_error: "\<bar>of_int (round_half_even r) - r\<bar> \<le> 1 / 2"
proof -
  define f where "f = \<lfloor>r\<rfloor>"
  have f: "of_int f \<le> r" "r < of_int f + 1" unfolding f_def by (rule of_int_floor_le) linarith
  show ?thesis
  proof (cases "round_half_even r = f")
    case True
    then have "r - of_int f \<le> 1 / 2"
      by (auto simp: round_half_even_def Let_def f_def split: if_splits)
    with f True show ?thesis by (simp add: abs_le_iff)
  next
    case False
    then have "round_half_even r = f + 1" "1 / 2 \<le> r - of_int f"
      by (auto simp: round_half_even_def Let_def f_def split: if_splits)
    with f show ?thesis by (simp add: abs_le_iff)
  qed
qed

lemma round_half_even_mono:
  assumes "r \<le> s"
  shows "round_half_even r \<le> round_half_even s"
proof (cases "\<lfloor>r\<rfloor> = \<lfloor>s\<rfloor>")
  case True
  with assms show ?thesis by (auto simp: round_half_even_def Let_def)
next
  case False
  with floor_mono [OF assms] have "\<lfloor>r\<rfloor> + 1 \<le> \<lfloor>s\<rfloor>" by simp
  with round_half_even_bounds [of r] round_half_even_bounds [of s] show ?thesis by linarith
qed

definition ulp_exp :: "rat \<Rightarrow> int" where
  "ulp_exp x = max (flog2 x - 52) (- 1074)"

definition rnd_pos :: "rat \<Rightarrow> rat" where
  "rnd_pos x = (let u = 2 powi ulp_exp x in of_int (round_half_even (x / u)) * u)"

definition rnd :: "rat \<Rightarrow> rat" where
  "rnd x = (if x = 0 then 0 else if 0 < x then rnd_pos x else - rnd_pos (- x))"

definition representable :: "rat \<Rightarrow> bool" where
  "representable x \<longleftrightarrow> (\<exists>m e. x = of_int m * 2 powi e \<and> \<bar>m\<bar> \<le> 2 ^ 53 \<and> - 1074 \<le> e)"

lemma rnd_pos_nonneg: "0 < x \<Longrightarrow> 0 \<le> rnd_pos x"
proof -
  assume "0 < x"
  then have "0 \<le> \<lfloor>x / 2 powi ulp_exp x\<rfloor>" by simp
  with round_half_even_bounds(1) [of "x / 2 powi ulp_exp x"]
  have "0 \<le> round_half_even (x / 2 powi ulp_exp x)" by linarith
  then show ?thesis unfolding rnd_pos_def Let_def by (intro mult_nonneg_nonneg) auto
qed

lemma rnd_pos_le_top: "0 < x \<Longrightarrow> ulp_exp x = flog2 x - 52 \<Longrightarrow> rnd_pos x \<le> 2 powi (flog2 x + 1)"
proof -
  assume x: "0 < x" and u: "ulp_exp x = flog2 x - 52"
  have "x / 2 powi (flog2 x - 52) < 2 ^ 53"
    using flog2_bounds(2) [OF x] by (simp add: power_int_diff power_int_add field_simps)
  then have "round_half_even (x / 2 powi (flog2 x - 52)) \<le> round_half_even (of_int (2 ^ 53))"
    by (intro round_half_even_mono) simp
  then have "rnd_pos x \<le> of_int (2 ^ 53) * 2 powi (flog2 x - 52)"
    unfolding rnd_pos_def u Let_def round_half_even_int by (intro mult_right_mono) (simp_all only: of_int_le_iff, simp)
  also have "\<dots> = 2 powi (flog2 x + 1)" by (simp add: power_int_diff power_int_add)
  finally show ?thesis .
qed

lemma rnd_pos_ge_bottom: "0 < x \<Longrightarrow> - 1022 \<le> flog2 x \<Longrightarrow> 2 powi flog2 x \<le> rnd_pos x"
proof -
  assume x: "0 < x" and e: "- 1022 \<le> flog2 x"
  then have u: "ulp_exp x = flog2 x - 52" by (simp add: ulp_exp_def)
  have "2 ^ 52 \<le> x / 2 powi (flog2 x - 52)"
    using flog2_bounds(1) [OF x] by (simp add: power_int_diff field_simps)
  then have "round_half_even (of_int (2 ^ 52)) \<le> round_half_even (x / 2 powi (flog2 x - 52))"
    by (intro round_half_even_mono) simp
  then have "of_int (2 ^ 52) * 2 powi (flog2 x - 52) \<le> rnd_pos x"
    unfolding rnd_pos_def u Let_def round_half_even_int by (intro mult_right_mono) (simp_all only: of_int_le_iff, simp)
  moreover have "of_int (2 ^ 52) * 2 powi (flog2 x - 52) = (2::rat) powi flog2 x"
    by (simp add: power_int_diff)
  ultimately show ?thesis by simp
qed

lemma rnd_pos_mono:
  assumes "0 < x" "x \<le> y"
  shows "rnd_pos x \<le> rnd_pos y"
proof (cases "ulp_exp x = ulp_exp y")
  case True
  have "x / 2 powi ulp_exp x \<le> y / 2 powi ulp_exp x"
    using assms by (intro divide_right_mono) auto
  then show ?thesis unfolding rnd_pos_def Let_def True [symmetric]
    by (intro mult_right_mono) (simp_all add: round_half_even_mono)
next
  case False
  have le: "flog2 x \<le> flog2 y" by (rule flog2_mono [OF assms])
  with False have y: "- 1022 \<le> flog2 y" and lt: "flog2 x < flog2 y"
    by (auto simp: ulp_exp_def max_def split: if_splits)
  have "rnd_pos x \<le> 2 powi (max (flog2 x) (- 1023) + 1)"
  proof (cases "- 1022 \<le> flog2 x")
    case True
    then show ?thesis using rnd_pos_le_top [OF assms(1)] by (simp add: ulp_exp_def)
  next
    case False
    then have u: "ulp_exp x = - 1074" by (simp add: ulp_exp_def)
    have "x < 2 powi (flog2 x + 1)" by (rule flog2_bounds(2) [OF assms(1)])
    also have "\<dots> \<le> 2 powi (- 1022)" using False by (intro power_int_increasing) auto
    finally have "x / 2 powi (- 1074) \<le> 2 powi (- 1022) / 2 powi (- 1074)"
      by (intro divide_right_mono) auto
    also have "\<dots> = (of_int (2 ^ 52) :: rat)"
      using powi_two_add [of "- 1074" 52] by simp
    finally have "round_half_even (x / 2 powi (- 1074)) \<le> round_half_even (of_int (2 ^ 52))"
      by (rule round_half_even_mono)
    then have "rnd_pos x \<le> of_int (2 ^ 52) * 2 powi (- 1074)"
      unfolding rnd_pos_def u Let_def round_half_even_int by (intro mult_right_mono) (simp_all only: of_int_le_iff, simp)
    also have "\<dots> = 2 powi (- 1022)"
      using powi_two_add [of 52 "- 1074"] by simp
    finally show ?thesis using False by simp
  qed
  also have "\<dots> \<le> 2 powi flog2 y" using lt y by (intro power_int_increasing) auto
  also have "\<dots> \<le> rnd_pos y" using assms y by (intro rnd_pos_ge_bottom) auto
  finally show ?thesis .
qed

lemma rnd_mono: "x \<le> y \<Longrightarrow> rnd x \<le> rnd y"
proof -
  assume xy: "x \<le> y"
  consider "0 < x" | "x \<le> 0" "0 \<le> y" | "y < 0" using xy by linarith
  then show ?thesis
  proof cases
    case 1
    with xy show ?thesis by (simp add: rnd_def rnd_pos_mono)
  next
    case 2
    have "rnd x \<le> 0" using 2 rnd_pos_nonneg [of "- x"] by (auto simp: rnd_def)
    moreover have "0 \<le> rnd y" using 2 rnd_pos_nonneg [of y] by (auto simp: rnd_def)
    ultimately show ?thesis by simp
  next
    case 3
    with xy show ?thesis using rnd_pos_mono [of "- y" "- x"] by (simp add: rnd_def)
  qed
qed

lemma rnd_pos_representable:
  assumes "0 < x" "representable x"
  shows "rnd_pos x = x"
proof -
  obtain m e where x: "x = of_int m * 2 powi e" and m: "\<bar>m\<bar> \<le> 2 ^ 53" and e: "- 1074 \<le> e"
    using assms(2) by (auto simp: representable_def)
  let ?u = "ulp_exp x"
  have scaled: "rnd_pos x = x" if "x / 2 powi ?u = of_int n" for n
  proof -
    have "x = of_int n * 2 powi ?u" using that by (simp add: field_simps)
    then show ?thesis unfolding rnd_pos_def Let_def that by simp
  qed
  show ?thesis
  proof (cases "?u \<le> e")
    case True
    have "(2::rat) powi e = 2 powi int (nat (e - ?u)) * 2 powi ?u"
      using True powi_two_add [of "e - ?u" ?u] by simp
    then have "(2::rat) powi e = 2 ^ nat (e - ?u) * 2 powi ?u"
      by (simp only: power_int_of_nat)
    then have "x = (of_int m * 2 ^ nat (e - ?u)) * 2 powi ?u"
      by (subst x) simp
    then have "x / 2 powi ?u = of_int m * 2 ^ nat (e - ?u)"
      by (simp add: nonzero_divide_eq_eq)
    then have "x / 2 powi ?u = of_int (m * 2 ^ nat (e - ?u))" by simp
    then show ?thesis by (rule scaled)
  next
    case False
    with e have u: "?u = flog2 x - 52" by (auto simp: ulp_exp_def max_def split: if_splits)
    have "2 powi flog2 x \<le> x" by (rule flog2_bounds(1) [OF assms(1)])
    also have x53: "x \<le> 2 powi (53 + e)"
    proof -
      have "(of_int m :: rat) \<le> of_int (2 ^ 53)" using m by (simp only: of_int_le_iff)
      then show ?thesis unfolding x powi_two_add by (intro mult_right_mono) auto
    qed
    finally have "flog2 x \<le> 53 + e"
      by (metis leI one_less_numeral_iff power_int_strict_increasing semiring_norm(76) verit_comp_simplify1(3))
    with False u have "?u = e + 1" by simp
    with u have "2 powi (53 + e) \<le> x"
      using flog2_bounds(1) [OF assms(1)] by (simp add: algebra_simps)
    with x53 have "x = 2 powi (53 + e)" by simp
    then have "x / 2 powi ?u = of_int (2 ^ 52)"
      using \<open>?u = e + 1\<close> by (simp add: power_int_add)
    then show ?thesis by (rule scaled)
  qed
qed

lemma representable_uminus [simp]: "representable (- x) \<longleftrightarrow> representable x"
proof -
  have "representable (- y)" if rep: "representable y" for y
  proof -
    obtain m e where "y = of_int m * 2 powi e" "\<bar>m\<bar> \<le> 2 ^ 53" "- 1074 \<le> e"
      using rep unfolding representable_def by blast
    then show ?thesis unfolding representable_def
      by (intro exI [of _ "- m"] exI [of _ e]) auto
  qed
  from this [of x] this [of "- x"] show ?thesis by auto
qed

lemma rnd_representable: "representable x \<Longrightarrow> rnd x = x"
  using rnd_pos_representable [of x] rnd_pos_representable [of "- x"] by (auto simp: rnd_def)

lemma representable_int: "\<bar>n\<bar> \<le> 2 ^ 53 \<Longrightarrow> representable (of_int n)"
  unfolding representable_def by (intro exI [of _ n] exI [of _ 0]) auto

lemma representable_0 [simp]: "representable 0" and representable_1 [simp]: "representable 1"
  using representable_int [of 0] representable_int [of 1] by auto

lemma rnd_0 [simp]: "rnd 0 = 0" by (simp add: rnd_def)

lemma rnd_1 [simp]: "rnd 1 = 1" by (simp add: rnd_representable)

lemma rnd_nonneg: "0 \<le> x \<Longrightarrow> 0 \<le> rnd x" using rnd_mono [of 0 x] by simp

lemma rnd_nonpos: "x \<le> 0 \<Longrightarrow> rnd x \<le> 0" using rnd_mono [of x 0] by simp

lemma rnd_uminus [simp]: "rnd (- x) = - rnd x" by (auto simp: rnd_def)

section \<open>Values and operations\<close>

datatype f64 = Fin rat | NegZero | Inf bool | NaN

text \<open>\<open>Inf True\<close> is negative infinity. Zero with a positive sign is \<open>Fin 0\<close>.\<close>

definition f_round :: "bool \<Rightarrow> rat \<Rightarrow> f64" where
  \<comment> \<open>the rounded exact result; the flag is the sign to give a zero\<close>
  "f_round neg x =
     (let y = rnd x in
      if y = 0 then (if neg then NegZero else Fin 0)
      else if 2 ^ 1024 \<le> \<bar>y\<bar> then Inf (y < 0)
      else Fin y)"

fun f_neg :: "f64 \<Rightarrow> f64" where
  "f_neg (Fin x) = (if x = 0 then NegZero else Fin (- x))"
| "f_neg NegZero = Fin 0"
| "f_neg (Inf s) = Inf (\<not> s)"
| "f_neg NaN = NaN"

fun f_sign :: "f64 \<Rightarrow> bool" where
  "f_sign (Fin x) = (x < 0)"
| "f_sign NegZero = True"
| "f_sign (Inf s) = s"
| "f_sign NaN = False"

fun f_val :: "f64 \<Rightarrow> rat" where
  "f_val (Fin x) = x"
| "f_val _ = 0"

fun f_finite :: "f64 \<Rightarrow> bool" where
  "f_finite (Fin x) = True"
| "f_finite NegZero = True"
| "f_finite _ = False"

definition f_is_nan :: "f64 \<Rightarrow> bool" where
  "f_is_nan a \<longleftrightarrow> a = NaN"

definition f_add :: "f64 \<Rightarrow> f64 \<Rightarrow> f64" where
  "f_add a b =
     (if f_is_nan a \<or> f_is_nan b then NaN
      else if \<not> f_finite a then (if \<not> f_finite b \<and> f_sign a \<noteq> f_sign b then NaN else a)
      else if \<not> f_finite b then b
      else let s = f_val a + f_val b in
           f_round (if s = 0 then a = NegZero \<and> b = NegZero else s < 0) s)"

definition f_sub :: "f64 \<Rightarrow> f64 \<Rightarrow> f64" where
  "f_sub a b = f_add a (f_neg b)"

definition f_mul :: "f64 \<Rightarrow> f64 \<Rightarrow> f64" where
  "f_mul a b =
     (if f_is_nan a \<or> f_is_nan b then NaN
      else if \<not> f_finite a \<or> \<not> f_finite b then
        (if (f_finite a \<and> f_val a = 0) \<or> (f_finite b \<and> f_val b = 0) then NaN
         else Inf (f_sign a \<noteq> f_sign b))
      else f_round (f_sign a \<noteq> f_sign b) (f_val a * f_val b))"

definition f_div :: "f64 \<Rightarrow> f64 \<Rightarrow> f64" where
  "f_div a b =
     (if f_is_nan a \<or> f_is_nan b then NaN
      else if \<not> f_finite a then (if \<not> f_finite b then NaN else Inf (f_sign a \<noteq> f_sign b))
      else if \<not> f_finite b then (if f_sign a \<noteq> f_sign b then NegZero else Fin 0)
      else if f_val b = 0 then (if f_val a = 0 then NaN else Inf (f_sign a \<noteq> f_sign b))
      else f_round (f_sign a \<noteq> f_sign b) (f_val a / f_val b))"

text \<open>Comparisons: false as soon as a NaN takes part; the two zeros are equal.\<close>

fun f_lt :: "f64 \<Rightarrow> f64 \<Rightarrow> bool" where
  "f_lt NaN _ = False"
| "f_lt _ NaN = False"
| "f_lt (Inf s) (Inf t) = (s \<and> \<not> t)"
| "f_lt (Inf s) _ = s"
| "f_lt _ (Inf t) = (\<not> t)"
| "f_lt a b = (f_val a < f_val b)"

definition f_eq :: "f64 \<Rightarrow> f64 \<Rightarrow> bool" where
  "f_eq a b \<longleftrightarrow>
     \<not> f_is_nan a \<and> \<not> f_is_nan b \<and>
     (if f_finite a \<and> f_finite b then f_val a = f_val b else a = b)"

definition f_le :: "f64 \<Rightarrow> f64 \<Rightarrow> bool" where
  "f_le a b \<longleftrightarrow> f_lt a b \<or> f_eq a b"

fun f_abs :: "f64 \<Rightarrow> f64" where
  "f_abs (Fin x) = Fin \<bar>x\<bar>"
| "f_abs NegZero = Fin 0"
| "f_abs (Inf _) = Inf False"
| "f_abs NaN = NaN"

definition f_max :: "f64 \<Rightarrow> f64 \<Rightarrow> f64" where
  \<comment> \<open>\<open>math.Max\<close>: an infinity beats NaN, and \<open>Max(+0, -0) = +0\<close>\<close>
  "f_max a b =
     (if a = Inf False \<or> b = Inf False then Inf False
      else if f_is_nan a \<or> f_is_nan b then NaN
      else if f_finite a \<and> f_finite b \<and> f_val a = 0 \<and> f_val b = 0
           then (if a = NegZero then b else a)
      else if f_lt b a then a else b)"

definition f_const :: "rat \<Rightarrow> f64" where
  \<comment> \<open>the value of a numeric literal\<close>
  "f_const x = f_round (x < 0) x"

definition f_of_int :: "int \<Rightarrow> f64" where
  "f_of_int n = f_round False (of_int n)"

text \<open>What a binary64 register can hold.\<close>

fun f_wf :: "f64 \<Rightarrow> bool" where
  "f_wf (Fin x) = (rnd x = x \<and> \<bar>x\<bar> < 2 ^ 1024)"
| "f_wf _ = True"

section \<open>Exact reasoning on operations that cannot overflow\<close>

lemma rnd_bound53: "\<bar>x\<bar> \<le> 2 ^ 53 \<Longrightarrow> \<bar>rnd x\<bar> \<le> 2 ^ 53"
  using rnd_mono [of x "of_int (2 ^ 53)"] rnd_mono [of "of_int (- (2 ^ 53))" x]
    rnd_representable [OF representable_int [of "2 ^ 53"]]
    rnd_representable [OF representable_int [of "- (2 ^ 53)"]]
  by (simp add: abs_le_iff)

lemma f_finite_not_nan: "f_finite a \<Longrightarrow> \<not> f_is_nan a"
  by (cases a) (simp_all add: f_is_nan_def)

lemma f_round_val:
  assumes "\<bar>x\<bar> \<le> 2 ^ 53"
  shows "f_finite (f_round n x)" "f_val (f_round n x) = rnd x"
proof -
  have "\<bar>rnd x\<bar> < 2 ^ 1024"
    by (rule le_less_trans [OF rnd_bound53 [OF assms]]) (rule power_strict_increasing; simp)
  then show "f_finite (f_round n x)" "f_val (f_round n x) = rnd x"
    by (simp_all add: f_round_def Let_def)
qed

lemma f_add_val:
  assumes "f_finite a" "f_finite b" "\<bar>f_val a + f_val b\<bar> \<le> 2 ^ 53"
  shows "f_finite (f_add a b)" "f_val (f_add a b) = rnd (f_val a + f_val b)"
  using assms by (simp_all add: f_add_def f_finite_not_nan Let_def f_round_val)

lemma f_mul_val:
  assumes "f_finite a" "f_finite b" "\<bar>f_val a * f_val b\<bar> \<le> 2 ^ 53"
  shows "f_finite (f_mul a b)" "f_val (f_mul a b) = rnd (f_val a * f_val b)"
  using assms by (simp_all add: f_mul_def f_finite_not_nan f_round_val)

lemma f_const_val:
  assumes "\<bar>x\<bar> \<le> 2 ^ 53"
  shows "f_finite (f_const x)" "f_val (f_const x) = rnd x"
  using assms by (simp_all add: f_const_def f_round_val)

lemma f_of_int_val:
  assumes "\<bar>n\<bar> \<le> 2 ^ 53"
  shows "f_finite (f_of_int n)" "f_val (f_of_int n) = of_int n"
proof -
  have "\<bar>of_int n :: rat\<bar> \<le> of_int (2 ^ 53)" using assms by (simp only: of_int_abs [symmetric] of_int_le_iff)
  then have "\<bar>of_int n :: rat\<bar> \<le> 2 ^ 53" by simp
  with rnd_representable [OF representable_int [OF assms]]
  show "f_finite (f_of_int n)" "f_val (f_of_int n) = of_int n"
    by (simp_all add: f_of_int_def f_round_val)
qed

lemma rnd_dyadic:
  assumes "\<bar>m\<bar> \<le> 2 ^ 53" "k \<le> 1074"
  shows "rnd (of_int m / 2 ^ k) = of_int m / 2 ^ k"
proof (rule rnd_representable)
  have "(of_int m / 2 ^ k :: rat) = of_int m * 2 powi (- int k)"
    by (simp add: power_int_minus divide_inverse)
  with assms show "representable (of_int m / 2 ^ k)"
    unfolding representable_def by (intro exI [of _ m] exI [of _ "- int k"]) simp
qed

lemma rnd_pos_error:
  assumes "0 < x"
  shows "\<bar>rnd_pos x - x\<bar> \<le> x / 2 ^ 53 + 1 / 2 ^ 1075"
proof -
  let ?u = "2 powi ulp_exp x :: rat"
  have u: "0 < ?u" by simp
  have "rnd_pos x - x = (of_int (round_half_even (x / ?u)) - x / ?u) * ?u"
    using u by (simp add: rnd_pos_def Let_def left_diff_distrib)
  then have "\<bar>rnd_pos x - x\<bar> = \<bar>of_int (round_half_even (x / ?u)) - x / ?u\<bar> * ?u"
    using u by (simp add: abs_mult)
  also have "\<dots> \<le> 1 / 2 * ?u"
    by (intro mult_right_mono round_half_even_error) simp
  finally have e: "\<bar>rnd_pos x - x\<bar> \<le> ?u / 2" by simp
  have "?u / 2 \<le> x / 2 ^ 53 + 1 / 2 ^ 1075"
  proof (cases "flog2 x - 52 \<le> - 1074")
    case True
    then have "ulp_exp x = - int 1074" by (simp add: ulp_exp_def)
    then have "?u = inverse (2 ^ 1074)" by (simp only: power_int_minus power_int_of_nat)
    moreover have "inverse (2 ^ 1074) / 2 = (1 / 2 ^ 1075 :: rat)"
      using power_Suc [of "2::rat" 1074] by (simp only: divide_inverse) simp
    ultimately have "?u / 2 = 1 / 2 ^ 1075" by (simp only:)
    with assms show ?thesis by simp
  next
    case False
    then have "ulp_exp x = flog2 x + - int 52" by (simp add: ulp_exp_def)
    then have "?u = 2 powi flog2 x * inverse (2 ^ 52)"
      by (simp only: powi_two_add power_int_minus power_int_of_nat)
    then have "?u / 2 = 2 powi flog2 x / 2 ^ 53" by (simp only:) simp
    also have "\<dots> \<le> x / 2 ^ 53" using flog2_bounds(1) [OF assms] by (intro divide_right_mono) auto
    finally show ?thesis by (simp add: add_increasing2)
  qed
  with e show ?thesis by linarith
qed

lemma rnd_error: "\<bar>rnd x - x\<bar> \<le> \<bar>x\<bar> / 2 ^ 53 + 1 / 2 ^ 1075"
proof (cases x "0::rat" rule: linorder_cases)
  case less
  with rnd_pos_error [of "- x"] show ?thesis by (simp add: rnd_def abs_minus_commute)
next
  case greater
  with rnd_pos_error [of x] show ?thesis by (simp add: rnd_def)
qed simp

lemma f_neg_val: "f_finite a \<Longrightarrow> f_finite (f_neg a)" "f_finite a \<Longrightarrow> f_val (f_neg a) = - f_val a"
  by (cases a; simp)+

lemma f_round_pos [simp]: "f_round False x \<noteq> NegZero"
  by (simp add: f_round_def Let_def)

lemma f_add_not_neg_zero:
  "f_finite a \<Longrightarrow> f_finite b \<Longrightarrow> 0 \<le> f_val a + f_val b \<Longrightarrow> a \<noteq> NegZero \<Longrightarrow> f_add a b \<noteq> NegZero"
  by (simp add: f_add_def f_finite_not_nan Let_def)

lemma f_sign_val: "f_finite a \<Longrightarrow> a \<noteq> NegZero \<Longrightarrow> f_sign a \<longleftrightarrow> f_val a < 0"
  by (cases a) simp_all

lemma f_div_val:
  assumes "f_finite a" "f_finite b" "f_val b \<noteq> 0" "\<bar>f_val a / f_val b\<bar> \<le> 2 ^ 53"
  shows "f_finite (f_div a b)" "f_val (f_div a b) = rnd (f_val a / f_val b)"
  using assms by (simp_all add: f_div_def f_finite_not_nan f_round_val)

lemma f_sub_val:
  assumes "f_finite a" "f_finite b" "\<bar>f_val a - f_val b\<bar> \<le> 2 ^ 53"
  shows "f_finite (f_sub a b)" "f_val (f_sub a b) = rnd (f_val a - f_val b)"
  using f_add_val [of a "f_neg b"] assms by (simp_all add: f_sub_def f_neg_val)

lemma tiny_le: "(1::rat) / 2 ^ 1075 \<le> 1 / 2 ^ 60"
  by (intro divide_left_mono power_increasing) simp_all

end
