(* ===== verification/Json.thy ===== *)
theory Json
  imports Float64
begin

text \<open>
  The part of Go's \<open>encoding/json\<close> the program relies on: decoding a parsed document into a
  struct. A document is a tree; text that does not parse is the absent tree. The rules are those
  of \<open>json.Unmarshal\<close>: an object's keys select struct fields without regard to case, unknown keys
  are skipped, a later key overwrites an earlier one, \<open>null\<close> leaves a field as it is, and a value
  of the wrong kind makes the whole decode fail. Nothing here maps to a file of the repository.
\<close>

section \<open>Documents\<close>

datatype json =
    JNull
  | JBool bool
  | JInt int            \<comment> \<open>a number literal without fraction and exponent\<close>
  | JDec bool rat       \<comment> \<open>any other number literal: its sign and its value\<close>
  | JStr string
  | JArr "json list"
  | JObj "(string \<times> json) list"

definition lower_char :: "char \<Rightarrow> char" where
  "lower_char c =
     (let n = of_char c :: nat in if 65 \<le> n \<and> n \<le> 90 then char_of (n + 32) else c)"

definition fold_key :: "string \<Rightarrow> string" where
  "fold_key s = map lower_char s"

lemma fold_key_Nil [simp]: "fold_key [] = []" by (simp add: fold_key_def)

section \<open>Struct fields\<close>

text \<open>
  A field setter takes the value found under the field's key and the struct, and returns the
  struct with the field set, or nothing when the value has the wrong kind.
\<close>

type_synonym 's setter = "json \<Rightarrow> 's \<Rightarrow> 's option"

definition str_field :: "((string \<Rightarrow> string) \<Rightarrow> 's \<Rightarrow> 's) \<Rightarrow> 's setter" where
  "str_field upd v s =
     (case v of JStr x \<Rightarrow> Some (upd (\<lambda>_. x) s) | JNull \<Rightarrow> Some s | _ \<Rightarrow> None)"

definition int_field :: "((int \<Rightarrow> int) \<Rightarrow> 's \<Rightarrow> 's) \<Rightarrow> 's setter" where
  "int_field upd v s =
     (case v of
        JInt n \<Rightarrow> if in64 n then Some (upd (\<lambda>_. n) s) else None
      | JNull \<Rightarrow> Some s
      | _ \<Rightarrow> None)"

definition bool_field :: "((bool \<Rightarrow> bool) \<Rightarrow> 's \<Rightarrow> 's) \<Rightarrow> 's setter" where
  "bool_field upd v s =
     (case v of JBool b \<Rightarrow> Some (upd (\<lambda>_. b) s) | JNull \<Rightarrow> Some s | _ \<Rightarrow> None)"

definition json_f64 :: "bool \<Rightarrow> rat \<Rightarrow> f64 option" where
  \<comment> \<open>\<open>strconv.ParseFloat\<close> on a number literal: an overflow is an error\<close>
  "json_f64 neg q = (case f_round neg q of Inf _ \<Rightarrow> None | x \<Rightarrow> Some x)"

definition f64_field :: "((f64 \<Rightarrow> f64) \<Rightarrow> 's \<Rightarrow> 's) \<Rightarrow> 's setter" where
  "f64_field upd v s =
     (case v of
        JInt n \<Rightarrow> map_option (\<lambda>x. upd (\<lambda>_. x) s) (json_f64 (n < 0) (of_int n))
      | JDec neg q \<Rightarrow> map_option (\<lambda>x. upd (\<lambda>_. x) s) (json_f64 neg q)
      | JNull \<Rightarrow> Some s
      | _ \<Rightarrow> None)"

definition raw_field :: "((json option \<Rightarrow> json option) \<Rightarrow> 's \<Rightarrow> 's) \<Rightarrow> 's setter" where
  \<comment> \<open>a \<open>json.RawMessage\<close> takes any value as it stands, \<open>null\<close> included\<close>
  "raw_field upd v s = Some (upd (\<lambda>_. Some v) s)"

fun decode_all :: "(json \<Rightarrow> 'a option) \<Rightarrow> json list \<Rightarrow> 'a list option" where
  "decode_all d [] = Some []"
| "decode_all d (v # vs) =
     (case d v of
        None \<Rightarrow> None
      | Some x \<Rightarrow> map_option (\<lambda>xs. x # xs) (decode_all d vs))"

definition list_field ::
  "(json \<Rightarrow> 'a option) \<Rightarrow> (('a list \<Rightarrow> 'a list) \<Rightarrow> 's \<Rightarrow> 's) \<Rightarrow> 's setter" where
  "list_field d upd v s =
     (case v of
        JArr vs \<Rightarrow> map_option (\<lambda>xs. upd (\<lambda>_. xs) s) (decode_all d vs)
      | JNull \<Rightarrow> Some (upd (\<lambda>_. []) s)
      | _ \<Rightarrow> None)"

section \<open>Structs\<close>

fun set_fields :: "(string \<times> 's setter) list \<Rightarrow> (string \<times> json) list \<Rightarrow> 's \<Rightarrow> 's option" where
  "set_fields fs [] s = Some s"
| "set_fields fs (kv # kvs) s =
     (case find (\<lambda>f. fold_key (fst f) = fold_key (fst kv)) fs of
        None \<Rightarrow> set_fields fs kvs s
      | Some f \<Rightarrow>
          (case snd f (snd kv) s of
             None \<Rightarrow> None
           | Some s' \<Rightarrow> set_fields fs kvs s'))"

definition unmarshal :: "(string \<times> 's setter) list \<Rightarrow> json \<Rightarrow> 's \<Rightarrow> 's option" where
  "unmarshal fs j s =
     (case j of JObj kvs \<Rightarrow> set_fields fs kvs s | JNull \<Rightarrow> Some s | _ \<Rightarrow> None)"

definition obj_field ::
  "(string \<times> 'a setter) list \<Rightarrow> ('s \<Rightarrow> 'a) \<Rightarrow> (('a \<Rightarrow> 'a) \<Rightarrow> 's \<Rightarrow> 's) \<Rightarrow> 's setter" where
  \<comment> \<open>a nested struct is decoded over what it already holds\<close>
  "obj_field fs get upd v s = map_option (\<lambda>x. upd (\<lambda>_. x) s) (unmarshal fs v (get s))"

lemmas json_defs = unmarshal_def str_field_def int_field_def bool_field_def f64_field_def
  raw_field_def list_field_def obj_field_def

lemma unmarshal_null [simp]: "unmarshal fs JNull s = Some s"
  by (simp add: unmarshal_def)

section \<open>Encoding\<close>

definition omit_empty :: "string \<Rightarrow> string \<Rightarrow> (string \<times> json) list" where
  "omit_empty k v = (if v = [] then [] else [(k, JStr v)])"

end
