(* ===== verification/Wire.thy ===== *)
theory Wire
  imports Json
begin

text \<open>
  The wire package (\<open>internal/wire\<close>): the envelope, the sixteen message types, the payload
  structs and the codec. A frame is a parsed JSON document; \<open>None\<close> is a frame that is not JSON.
\<close>

section \<open>Message types\<close>

abbreviation "TypeHello \<equiv> ''hello''"
abbreviation "TypeAuthRequired \<equiv> ''auth_required''"
abbreviation "TypeAuth \<equiv> ''auth''"
abbreviation "TypeAuthOK \<equiv> ''auth_ok''"
abbreviation "TypeAuthFail \<equiv> ''auth_fail''"
abbreviation "TypeStateSyncRequest \<equiv> ''state_sync_request''"
abbreviation "TypeStateSyncResponse \<equiv> ''state_sync_response''"
abbreviation "TypeTradeCommand \<equiv> ''trade_command''"
abbreviation "TypeAck \<equiv> ''ack''"
abbreviation "TypeOrderUpdate \<equiv> ''order_update''"
abbreviation "TypeDeltaReport \<equiv> ''delta_report''"
abbreviation "TypePing \<equiv> ''ping''"
abbreviation "TypePong \<equiv> ''pong''"
abbreviation "TypeKillSwitch \<equiv> ''kill_switch''"
abbreviation "TypeGracefulShutdown \<equiv> ''graceful_shutdown''"
abbreviation "TypeError \<equiv> ''error''"

definition message_types :: "string list" where
  "message_types =
     [TypeHello, TypeAuthRequired, TypeAuth, TypeAuthOK, TypeAuthFail,
      TypeStateSyncRequest, TypeStateSyncResponse, TypeTradeCommand, TypeAck, TypeOrderUpdate,
      TypeDeltaReport, TypePing, TypePong, TypeKillSwitch, TypeGracefulShutdown, TypeError]"

definition is_known :: "string \<Rightarrow> bool" where
  "is_known t = List.member message_types t"

definition schema_version :: string where
  "schema_version = ''v5.3.3''"

lemma is_known_types [simp]:
  "is_known TypeHello" "is_known TypeAuthRequired" "is_known TypeAuth" "is_known TypeAuthOK"
  "is_known TypeAuthFail" "is_known TypeStateSyncRequest" "is_known TypeStateSyncResponse"
  "is_known TypeTradeCommand" "is_known TypeAck" "is_known TypeOrderUpdate"
  "is_known TypeDeltaReport" "is_known TypePing" "is_known TypePong" "is_known TypeKillSwitch"
  "is_known TypeGracefulShutdown" "is_known TypeError"
  by (simp_all add: is_known_def message_types_def)

section \<open>The envelope and its codec\<close>

record envelope =
  env_msg_id :: string
  env_type :: string
  env_schema_version :: string
  env_timestamp_ms :: int
  env_account_id :: string
  env_payload :: "json option"

datatype wire_err = ErrSchemaMismatch | ErrUnknownType | ErrInvalidEnvelope | ErrDecodeFailed
  | ErrMarshal

definition empty_envelope :: envelope where
  "empty_envelope = \<lparr>env_msg_id = [], env_type = [], env_schema_version = [],
     env_timestamp_ms = 0, env_account_id = [], env_payload = None\<rparr>"

definition envelope_fields :: "(string \<times> envelope setter) list" where
  "envelope_fields =
     [(''msg_id'', str_field env_msg_id_update),
      (''type'', str_field env_type_update),
      (''schema_version'', str_field env_schema_version_update),
      (''timestamp_ms'', int_field env_timestamp_ms_update),
      (''account_id'', str_field env_account_id_update),
      (''payload'', raw_field env_payload_update)]"

definition marshal_envelope :: "envelope \<Rightarrow> json" where
  "marshal_envelope e = JObj (
     [(''msg_id'', JStr (env_msg_id e)),
      (''type'', JStr (env_type e)),
      (''schema_version'', JStr (env_schema_version e)),
      (''timestamp_ms'', JInt (env_timestamp_ms e))] @
     omit_empty ''account_id'' (env_account_id e) @
     [(''payload'', case env_payload e of None \<Rightarrow> JNull | Some p \<Rightarrow> p)])"

definition encode_envelope :: "envelope \<Rightarrow> wire_err + json" where
  "encode_envelope e =
     (let e = (if env_schema_version e = [] then e\<lparr>env_schema_version := schema_version\<rparr> else e)
      in if \<not> is_known (env_type e) then Inl ErrUnknownType
         else let e = (if env_payload e = None then e\<lparr>env_payload := Some (JObj [])\<rparr> else e)
              in Inr (marshal_envelope e))"

definition encode_message ::
  "string \<Rightarrow> string \<Rightarrow> int \<Rightarrow> string \<Rightarrow> json option \<Rightarrow> wire_err + json" where
  \<comment> \<open>the last argument is \<open>json.Marshal(payload)\<close>, nothing when the payload does not marshal\<close>
  "encode_message t msg_id now_ms account_id payload =
     (if \<not> is_known t then Inl ErrUnknownType
      else case payload of
        None \<Rightarrow> Inl ErrMarshal
      | Some raw \<Rightarrow> encode_envelope
          \<lparr>env_msg_id = msg_id, env_type = t, env_schema_version = schema_version,
           env_timestamp_ms = now_ms, env_account_id = account_id, env_payload = Some raw\<rparr>)"

definition decode_envelope :: "json option \<Rightarrow> wire_err + envelope" where
  "decode_envelope raw =
     (case Option.bind raw (\<lambda>j. unmarshal envelope_fields j empty_envelope) of
        None \<Rightarrow> Inl ErrInvalidEnvelope
      | Some env \<Rightarrow>
          if env_msg_id env = [] then Inl ErrInvalidEnvelope
          else if env_schema_version env \<noteq> schema_version then Inl ErrSchemaMismatch
          else if \<not> is_known (env_type env) then Inl ErrUnknownType
          else if env_payload env = None then Inl ErrInvalidEnvelope
          else Inr env)"

text \<open>\<open>DecodePayload[T]\<close>: the field table and the zero value of \<open>T\<close> select the payload type.\<close>

definition decode_payload :: "(string \<times> 's setter) list \<Rightarrow> 's \<Rightarrow> envelope \<Rightarrow> wire_err + 's" where
  "decode_payload fs zero env =
     (case Option.bind (env_payload env) (\<lambda>j. unmarshal fs j zero) of
        None \<Rightarrow> Inl ErrDecodeFailed
      | Some x \<Rightarrow> Inr x)"

lemma fold_key_envelope_fields:
  "fold_key ''msg_id'' = ''msg_id''" "fold_key ''type'' = ''type''"
  "fold_key ''schema_version'' = ''schema_version''"
  "fold_key ''timestamp_ms'' = ''timestamp_ms''"
  "fold_key ''account_id'' = ''account_id''" "fold_key ''payload'' = ''payload''"
  by (simp_all add: fold_key_def lower_char_def)

lemma unmarshal_marshal_envelope:
  assumes "in64 (env_timestamp_ms e)" "env_payload e = Some p"
  shows "unmarshal envelope_fields (marshal_envelope e) empty_envelope = Some e"
  using assms
  by (cases e) (simp add: marshal_envelope_def omit_empty_def json_defs envelope_fields_def
      fold_key_envelope_fields empty_envelope_def)

section \<open>Payload structs\<close>

text \<open>
  For each struct of the package: its record, its zero value, its table of JSON fields (the
  \<open>json:\<close> tags) and, for the payloads whose encoding the proofs follow, its marshalling, with
  the fields tagged \<open>omitempty\<close> left out when empty.
\<close>

record trade_command =
  tc_intent_kind :: string
  tc_client_order_id :: string
  tc_instance_id :: string
  tc_symbol :: string
  tc_side :: string
  tc_order_type :: string
  tc_quantity_decimal :: string
  tc_limit_price_decimal :: string
  tc_time_in_force :: string
  tc_valid_until_ms :: int
  tc_now_ms_at_saas :: int

definition zero_trade_command :: trade_command where
  "zero_trade_command = \<lparr>tc_intent_kind = [], tc_client_order_id = [], tc_instance_id = [], tc_symbol = [], tc_side = [], tc_order_type = [], tc_quantity_decimal = [], tc_limit_price_decimal = [], tc_time_in_force = [], tc_valid_until_ms = 0, tc_now_ms_at_saas = 0\<rparr>"

definition trade_command_fields :: "(string \<times> trade_command setter) list" where
  "trade_command_fields =
     [(''intent_kind'', str_field tc_intent_kind_update),
      (''client_order_id'', str_field tc_client_order_id_update),
      (''instance_id'', str_field tc_instance_id_update),
      (''symbol'', str_field tc_symbol_update),
      (''side'', str_field tc_side_update),
      (''order_type'', str_field tc_order_type_update),
      (''quantity_decimal'', str_field tc_quantity_decimal_update),
      (''limit_price_decimal'', str_field tc_limit_price_decimal_update),
      (''time_in_force'', str_field tc_time_in_force_update),
      (''valid_until_ms'', int_field tc_valid_until_ms_update),
      (''now_ms_at_saas'', int_field tc_now_ms_at_saas_update)]"

definition marshal_trade_command :: "trade_command \<Rightarrow> json" where
  "marshal_trade_command x = JObj (
     [(''intent_kind'', JStr (tc_intent_kind x)),
      (''client_order_id'', JStr (tc_client_order_id x)),
      (''instance_id'', JStr (tc_instance_id x)),
      (''symbol'', JStr (tc_symbol x)),
      (''side'', JStr (tc_side x)),
      (''order_type'', JStr (tc_order_type x)),
      (''quantity_decimal'', JStr (tc_quantity_decimal x))] @
     omit_empty ''limit_price_decimal'' (tc_limit_price_decimal x) @
     omit_empty ''time_in_force'' (tc_time_in_force x) @
     [(''valid_until_ms'', JInt (tc_valid_until_ms x)),
      (''now_ms_at_saas'', JInt (tc_now_ms_at_saas x))])"

record ack =
  ack_client_order_id :: string
  ack_status :: string
  ack_exchange_order_id :: string
  ack_exchange_now_ms :: int
  ack_reject_reason :: string

definition zero_ack :: ack where
  "zero_ack = \<lparr>ack_client_order_id = [], ack_status = [], ack_exchange_order_id = [], ack_exchange_now_ms = 0, ack_reject_reason = []\<rparr>"

definition ack_fields :: "(string \<times> ack setter) list" where
  "ack_fields =
     [(''client_order_id'', str_field ack_client_order_id_update),
      (''status'', str_field ack_status_update),
      (''exchange_order_id'', str_field ack_exchange_order_id_update),
      (''exchange_now_ms'', int_field ack_exchange_now_ms_update),
      (''reject_reason'', str_field ack_reject_reason_update)]"

definition marshal_ack :: "ack \<Rightarrow> json" where
  "marshal_ack x = JObj (
     [(''client_order_id'', JStr (ack_client_order_id x)),
      (''status'', JStr (ack_status x))] @
     omit_empty ''exchange_order_id'' (ack_exchange_order_id x) @
     [(''exchange_now_ms'', JInt (ack_exchange_now_ms x))] @
     omit_empty ''reject_reason'' (ack_reject_reason x))"

record fill =
  fl_fill_quantity_decimal :: string
  fl_fill_price_decimal :: string
  fl_fill_fee_asset :: string
  fl_fill_fee_amount_decimal :: string
  fl_filled_at_exchange_ms :: int
  fl_actual_slippage_bps :: f64
  fl_trade_id :: int
  fl_client_order_id :: string
  fl_exchange_order_id :: string

definition zero_fill :: fill where
  "zero_fill = \<lparr>fl_fill_quantity_decimal = [], fl_fill_price_decimal = [], fl_fill_fee_asset = [], fl_fill_fee_amount_decimal = [], fl_filled_at_exchange_ms = 0, fl_actual_slippage_bps = Fin 0, fl_trade_id = 0, fl_client_order_id = [], fl_exchange_order_id = []\<rparr>"

definition fill_fields :: "(string \<times> fill setter) list" where
  "fill_fields =
     [(''fill_quantity_decimal'', str_field fl_fill_quantity_decimal_update),
      (''fill_price_decimal'', str_field fl_fill_price_decimal_update),
      (''fill_fee_asset'', str_field fl_fill_fee_asset_update),
      (''fill_fee_amount_decimal'', str_field fl_fill_fee_amount_decimal_update),
      (''filled_at_exchange_ms'', int_field fl_filled_at_exchange_ms_update),
      (''actual_slippage_bps'', f64_field fl_actual_slippage_bps_update),
      (''trade_id'', int_field fl_trade_id_update),
      (''client_order_id'', str_field fl_client_order_id_update),
      (''exchange_order_id'', str_field fl_exchange_order_id_update)]"

record order_update =
  ou_client_order_id :: string
  ou_exchange_order_id :: string
  ou_status :: string
  ou_fills :: "fill list"
  ou_cumulative_filled_quantity_decimal :: string

definition zero_order_update :: order_update where
  "zero_order_update = \<lparr>ou_client_order_id = [], ou_exchange_order_id = [], ou_status = [], ou_fills = [], ou_cumulative_filled_quantity_decimal = []\<rparr>"

definition order_update_fields :: "(string \<times> order_update setter) list" where
  "order_update_fields =
     [(''client_order_id'', str_field ou_client_order_id_update),
      (''exchange_order_id'', str_field ou_exchange_order_id_update),
      (''status'', str_field ou_status_update),
      (''fills'', list_field (\<lambda>j. unmarshal fill_fields j zero_fill) ou_fills_update),
      (''cumulative_filled_quantity_decimal'', str_field ou_cumulative_filled_quantity_decimal_update)]"

record position =
  pos_symbol :: string
  pos_free_decimal :: string
  pos_locked_decimal :: string

definition zero_position :: position where
  "zero_position = \<lparr>pos_symbol = [], pos_free_decimal = [], pos_locked_decimal = []\<rparr>"

definition position_fields :: "(string \<times> position setter) list" where
  "position_fields =
     [(''symbol'', str_field pos_symbol_update),
      (''free_decimal'', str_field pos_free_decimal_update),
      (''locked_decimal'', str_field pos_locked_decimal_update)]"

record open_order =
  oo_client_order_id :: string
  oo_exchange_order_id :: string
  oo_symbol :: string
  oo_side :: string
  oo_order_type :: string
  oo_quantity_decimal :: string
  oo_filled_quantity_decimal :: string
  oo_limit_price_decimal :: string
  oo_status :: string
  oo_placed_at_ms :: int

definition zero_open_order :: open_order where
  "zero_open_order = \<lparr>oo_client_order_id = [], oo_exchange_order_id = [], oo_symbol = [], oo_side = [], oo_order_type = [], oo_quantity_decimal = [], oo_filled_quantity_decimal = [], oo_limit_price_decimal = [], oo_status = [], oo_placed_at_ms = 0\<rparr>"

definition open_order_fields :: "(string \<times> open_order setter) list" where
  "open_order_fields =
     [(''client_order_id'', str_field oo_client_order_id_update),
      (''exchange_order_id'', str_field oo_exchange_order_id_update),
      (''symbol'', str_field oo_symbol_update),
      (''side'', str_field oo_side_update),
      (''order_type'', str_field oo_order_type_update),
      (''quantity_decimal'', str_field oo_quantity_decimal_update),
      (''filled_quantity_decimal'', str_field oo_filled_quantity_decimal_update),
      (''limit_price_decimal'', str_field oo_limit_price_decimal_update),
      (''status'', str_field oo_status_update),
      (''placed_at_ms'', int_field oo_placed_at_ms_update)]"

record agent_error =
  ae_code :: string
  ae_message :: string
  ae_occurred_at_ms :: int

definition zero_agent_error :: agent_error where
  "zero_agent_error = \<lparr>ae_code = [], ae_message = [], ae_occurred_at_ms = 0\<rparr>"

definition agent_error_fields :: "(string \<times> agent_error setter) list" where
  "agent_error_fields =
     [(''code'', str_field ae_code_update),
      (''message'', str_field ae_message_update),
      (''occurred_at_ms'', int_field ae_occurred_at_ms_update)]"

record delta_since =
  ds_fills :: "fill list"
  ds_errors :: "agent_error list"

definition zero_delta_since :: delta_since where
  "zero_delta_since = \<lparr>ds_fills = [], ds_errors = []\<rparr>"

definition delta_since_fields :: "(string \<times> delta_since setter) list" where
  "delta_since_fields =
     [(''fills'', list_field (\<lambda>j. unmarshal fill_fields j zero_fill) ds_fills_update),
      (''errors'', list_field (\<lambda>j. unmarshal agent_error_fields j zero_agent_error) ds_errors_update)]"

record delta_report =
  dr_reported_at_ms :: int
  dr_positions :: "position list"
  dr_since_last_report :: delta_since

definition zero_delta_report :: delta_report where
  "zero_delta_report = \<lparr>dr_reported_at_ms = 0, dr_positions = [], dr_since_last_report = zero_delta_since\<rparr>"

definition delta_report_fields :: "(string \<times> delta_report setter) list" where
  "delta_report_fields =
     [(''reported_at_ms'', int_field dr_reported_at_ms_update),
      (''positions'', list_field (\<lambda>j. unmarshal position_fields j zero_position) dr_positions_update),
      (''since_last_report'', obj_field delta_since_fields dr_since_last_report dr_since_last_report_update)]"

record state_sync_response =
  ssr_reported_at_ms :: int
  ssr_positions :: "position list"
  ssr_open_orders :: "open_order list"
  ssr_since_last_fills :: "fill list"
  ssr_last_seen_msg_id :: string

definition zero_state_sync_response :: state_sync_response where
  "zero_state_sync_response = \<lparr>ssr_reported_at_ms = 0, ssr_positions = [], ssr_open_orders = [], ssr_since_last_fills = [], ssr_last_seen_msg_id = []\<rparr>"

definition state_sync_response_fields :: "(string \<times> state_sync_response setter) list" where
  "state_sync_response_fields =
     [(''reported_at_ms'', int_field ssr_reported_at_ms_update),
      (''positions'', list_field (\<lambda>j. unmarshal position_fields j zero_position) ssr_positions_update),
      (''open_orders'', list_field (\<lambda>j. unmarshal open_order_fields j zero_open_order) ssr_open_orders_update),
      (''since_last_fills'', list_field (\<lambda>j. unmarshal fill_fields j zero_fill) ssr_since_last_fills_update),
      (''last_seen_msg_id'', str_field ssr_last_seen_msg_id_update)]"

record kill_switch =
  ks_reason :: string
  ks_operator_user_id :: string
  ks_scope :: string
  ks_symbol :: string

definition zero_kill_switch :: kill_switch where
  "zero_kill_switch = \<lparr>ks_reason = [], ks_operator_user_id = [], ks_scope = [], ks_symbol = []\<rparr>"

definition kill_switch_fields :: "(string \<times> kill_switch setter) list" where
  "kill_switch_fields =
     [(''reason'', str_field ks_reason_update),
      (''operator_user_id'', str_field ks_operator_user_id_update),
      (''scope'', str_field ks_scope_update),
      (''symbol'', str_field ks_symbol_update)]"

definition marshal_kill_switch :: "kill_switch \<Rightarrow> json" where
  "marshal_kill_switch x = JObj (
     [(''reason'', JStr (ks_reason x)),
      (''operator_user_id'', JStr (ks_operator_user_id x)),
      (''scope'', JStr (ks_scope x)),
      (''symbol'', JStr (ks_symbol x))])"

record hello =
  he_agent_version :: string
  he_account_id :: string
  he_schema_version :: string
  he_platform :: string
  he_exchange :: string
  he_environment :: string

definition zero_hello :: hello where
  "zero_hello = \<lparr>he_agent_version = [], he_account_id = [], he_schema_version = [], he_platform = [], he_exchange = [], he_environment = []\<rparr>"

definition hello_fields :: "(string \<times> hello setter) list" where
  "hello_fields =
     [(''agent_version'', str_field he_agent_version_update),
      (''account_id'', str_field he_account_id_update),
      (''schema_version'', str_field he_schema_version_update),
      (''platform'', str_field he_platform_update),
      (''exchange'', str_field he_exchange_update),
      (''environment'', str_field he_environment_update)]"

definition marshal_hello :: "hello \<Rightarrow> json" where
  "marshal_hello x = JObj (
     [(''agent_version'', JStr (he_agent_version x)),
      (''account_id'', JStr (he_account_id x)),
      (''schema_version'', JStr (he_schema_version x))] @
     omit_empty ''platform'' (he_platform x) @
     omit_empty ''exchange'' (he_exchange x) @
     omit_empty ''environment'' (he_environment x))"

record auth =
  au_token :: string

definition zero_auth :: auth where
  "zero_auth = \<lparr>au_token = []\<rparr>"

definition auth_fields :: "(string \<times> auth setter) list" where
  "auth_fields =
     [(''token'', str_field au_token_update)]"

record auth_ok =
  ok_server_now_ms :: int
  ok_agent_id :: string
  ok_frozen :: bool

definition zero_auth_ok :: auth_ok where
  "zero_auth_ok = \<lparr>ok_server_now_ms = 0, ok_agent_id = [], ok_frozen = False\<rparr>"

definition auth_ok_fields :: "(string \<times> auth_ok setter) list" where
  "auth_ok_fields =
     [(''server_now_ms'', int_field ok_server_now_ms_update),
      (''agent_id'', str_field ok_agent_id_update),
      (''frozen'', bool_field ok_frozen_update)]"

definition marshal_auth_ok :: "auth_ok \<Rightarrow> json" where
  "marshal_auth_ok x = JObj (
     [(''server_now_ms'', JInt (ok_server_now_ms x)),
      (''agent_id'', JStr (ok_agent_id x))] @
     (if ok_frozen x then [(''frozen'', JBool True)] else []))"

record auth_fail =
  af_code :: string
  af_reason :: string

definition zero_auth_fail :: auth_fail where
  "zero_auth_fail = \<lparr>af_code = [], af_reason = []\<rparr>"

definition auth_fail_fields :: "(string \<times> auth_fail setter) list" where
  "auth_fail_fields =
     [(''code'', str_field af_code_update),
      (''reason'', str_field af_reason_update)]"

record ping =
  pi_server_now_ms :: int

definition zero_ping :: ping where
  "zero_ping = \<lparr>pi_server_now_ms = 0\<rparr>"

definition ping_fields :: "(string \<times> ping setter) list" where
  "ping_fields =
     [(''server_now_ms'', int_field pi_server_now_ms_update)]"

record pong =
  po_echo_msg_id :: string
  po_agent_now_ms :: int
  po_exchange_reachable :: bool

definition zero_pong :: pong where
  "zero_pong = \<lparr>po_echo_msg_id = [], po_agent_now_ms = 0, po_exchange_reachable = False\<rparr>"

definition pong_fields :: "(string \<times> pong setter) list" where
  "pong_fields =
     [(''echo_msg_id'', str_field po_echo_msg_id_update),
      (''agent_now_ms'', int_field po_agent_now_ms_update),
      (''exchange_reachable'', bool_field po_exchange_reachable_update)]"

record wire_error =
  we_code :: string
  we_message :: string
  we_ref_msg_id :: string

definition zero_wire_error :: wire_error where
  "zero_wire_error = \<lparr>we_code = [], we_message = [], we_ref_msg_id = []\<rparr>"

definition wire_error_fields :: "(string \<times> wire_error setter) list" where
  "wire_error_fields =
     [(''code'', str_field we_code_update),
      (''message'', str_field we_message_update),
      (''ref_msg_id'', str_field we_ref_msg_id_update)]"

record graceful_shutdown =
  gs_reason :: string
  gs_retry_in_ms :: int

definition zero_graceful_shutdown :: graceful_shutdown where
  "zero_graceful_shutdown = \<lparr>gs_reason = [], gs_retry_in_ms = 0\<rparr>"

definition graceful_shutdown_fields :: "(string \<times> graceful_shutdown setter) list" where
  "graceful_shutdown_fields =
     [(''reason'', str_field gs_reason_update),
      (''retry_in_ms'', int_field gs_retry_in_ms_update)]"

definition marshal_auth :: "auth \<Rightarrow> json" where
  "marshal_auth x = JObj [(''token'', JStr (au_token x))]"

definition marshal_auth_fail :: "auth_fail \<Rightarrow> json" where
  "marshal_auth_fail x = JObj [(''code'', JStr (af_code x)), (''reason'', JStr (af_reason x))]"

definition marshal_ping :: "ping \<Rightarrow> json" where
  "marshal_ping x = JObj [(''server_now_ms'', JInt (pi_server_now_ms x))]"

definition marshal_pong :: "pong \<Rightarrow> json" where
  "marshal_pong x = JObj [(''echo_msg_id'', JStr (po_echo_msg_id x)),
     (''agent_now_ms'', JInt (po_agent_now_ms x)),
     (''exchange_reachable'', JBool (po_exchange_reachable x))]"

definition marshal_wire_error :: "wire_error \<Rightarrow> json" where
  "marshal_wire_error x = JObj ([(''code'', JStr (we_code x)), (''message'', JStr (we_message x))] @
     omit_empty ''ref_msg_id'' (we_ref_msg_id x))"

definition marshal_graceful_shutdown :: "graceful_shutdown \<Rightarrow> json" where
  "marshal_graceful_shutdown x = JObj [(''reason'', JStr (gs_reason x)),
     (''retry_in_ms'', JInt (gs_retry_in_ms x))]"

section \<open>Properties of the codec\<close>

lemma lower_char_idem [simp]: "lower_char (lower_char c) = lower_char c"
proof (cases "65 \<le> (of_char c :: nat) \<and> of_char c \<le> (90 :: nat)")
  case True
  then have "(of_char c + 32 :: nat) < 256" by simp
  then have "of_char (char_of (of_char c + 32 :: nat)) = (of_char c + 32 :: nat)"
    by (simp only: of_char_of) simp
  with True show ?thesis by (simp add: lower_char_def Let_def)
next
  case False
  then show ?thesis by (auto simp: lower_char_def Let_def)
qed

lemma decode_payload_marshal:
  "env_payload env = Some j \<Longrightarrow> unmarshal fs j zero = Some x \<Longrightarrow>
     decode_payload fs zero env = Inr x"
  by (simp add: decode_payload_def)

lemma set_fields_append:
  "set_fields fs (xs @ ys) s = Option.bind (set_fields fs xs s) (set_fields fs ys)"
  by (induction xs arbitrary: s) (auto split: option.splits)

lemma unmarshal_trade_command:
  assumes "in64 (tc_valid_until_ms tc)" "in64 (tc_now_ms_at_saas tc)"
  shows "unmarshal trade_command_fields (marshal_trade_command tc) zero_trade_command = Some tc"
  using assms
  by (cases tc) (simp add: marshal_trade_command_def trade_command_fields_def zero_trade_command_def
      omit_empty_def json_defs fold_key_def lower_char_def)

lemma unmarshal_kill_switch:
  "unmarshal kill_switch_fields (marshal_kill_switch ks) zero_kill_switch = Some ks"
  by (cases ks) (simp add: marshal_kill_switch_def kill_switch_fields_def zero_kill_switch_def
      omit_empty_def json_defs fold_key_def lower_char_def)

lemma unmarshal_auth_ok:
  assumes "in64 (ok_server_now_ms a)"
  shows "unmarshal auth_ok_fields (marshal_auth_ok a) zero_auth_ok = Some a"
  using assms
  by (cases a) (simp add: marshal_auth_ok_def auth_ok_fields_def zero_auth_ok_def
      omit_empty_def json_defs fold_key_def lower_char_def)

lemma decode_marshal:
  assumes "in64 (env_timestamp_ms e)" "env_payload e = Some p" "env_msg_id e \<noteq> []"
    "env_schema_version e = schema_version" "is_known (env_type e)"
  shows "decode_envelope (Some (marshal_envelope e)) = Inr e"
  using assms by (simp add: decode_envelope_def unmarshal_marshal_envelope)

text \<open>A frame of the server, for the witnesses.\<close>

definition server_envelope :: "string \<Rightarrow> json \<Rightarrow> envelope" where
  "server_envelope t p = \<lparr>env_msg_id = ''m1'', env_type = t, env_schema_version = schema_version,
     env_timestamp_ms = 1, env_account_id = [], env_payload = Some p\<rparr>"

lemma server_envelope_decodes:
  "is_known t \<Longrightarrow>
     decode_envelope (Some (marshal_envelope (server_envelope t p))) = Inr (server_envelope t p)"
  by (rule decode_marshal) (simp_all add: server_envelope_def in64_def)

lemma encode_decode:
  assumes "encode_message t msg_id now acct (Some p) = Inr frame" "msg_id \<noteq> []" "in64 now"
  shows "decode_envelope (Some frame) =
    Inr \<lparr>env_msg_id = msg_id, env_type = t, env_schema_version = schema_version,
      env_timestamp_ms = now, env_account_id = acct, env_payload = Some p\<rparr>"
proof -
  let ?e = "\<lparr>env_msg_id = msg_id, env_type = t, env_schema_version = schema_version,
      env_timestamp_ms = now, env_account_id = acct, env_payload = Some p\<rparr>"
  have "schema_version \<noteq> []" by (simp add: schema_version_def)
  with assms have "is_known t" "frame = marshal_envelope ?e"
    by (auto simp: encode_message_def encode_envelope_def Let_def split: if_splits)
  with assms(2,3) unmarshal_marshal_envelope [of ?e p] show ?thesis
    by (simp add: decode_envelope_def)
qed

text \<open>
  C25: A message encoded by \<open>EncodeMessage\<close> with a message id and a timestamp in range decodes, on
  the other side, to the envelope it was built from: same id, type, account, time and payload,
  with the pinned schema version.
\<close>

theorem encode_decode_roundtrip:
  assumes "encode_message t msg_id now acct (Some p) = Inr frame" "msg_id \<noteq> []" "in64 now"
  shows "decode_envelope (Some frame) =
    Inr \<lparr>env_msg_id = msg_id, env_type = t, env_schema_version = schema_version,
      env_timestamp_ms = now, env_account_id = acct, env_payload = Some p\<rparr>"
  using assms by (rule encode_decode)

theorem encode_decode_roundtrip_witness:
  "\<exists>frame. encode_message TypePing ''01J'' 5 ''acc'' (Some (JObj [])) = Inr frame \<and>
     decode_envelope (Some frame) =
       Inr \<lparr>env_msg_id = ''01J'', env_type = TypePing, env_schema_version = schema_version,
         env_timestamp_ms = 5, env_account_id = ''acc'', env_payload = Some (JObj [])\<rparr>"
proof -
  let ?f = "marshal_envelope \<lparr>env_msg_id = ''01J'', env_type = TypePing,
    env_schema_version = schema_version, env_timestamp_ms = 5, env_account_id = ''acc'',
    env_payload = Some (JObj [])\<rparr>"
  have e: "encode_message TypePing ''01J'' 5 ''acc'' (Some (JObj [])) = Inr ?f"
    by (simp add: encode_message_def encode_envelope_def schema_version_def)
  show ?thesis using e encode_decode_roundtrip [OF e] by (auto simp: in64_def)
qed

end
