(* ===== verification/Idempotency.thy ===== *)
theory Idempotency
  imports Float64
begin

text \<open>
  The agent's idempotency store (\<open>internal/agent/idempotency.go\<close>, \<open>idempotency_sqlite.go\<close>): the
  record kept per client order id, the \<open>IdempotencyStore\<close> interface, and its two implementations.
  The decimal type of the shopspring package is a type parameter \<open>'d\<close> with a record of its
  operations.
\<close>

section \<open>The decimal package, as a parameter\<close>

record 'd dec_ops =
  d_parse :: "string \<Rightarrow> 'd option"      \<comment> \<open>\<open>decimal.NewFromString\<close>\<close>
  d_string :: "'d \<Rightarrow> string"
  d_zero :: 'd
  d_is_zero :: "'d \<Rightarrow> bool"
  d_is_positive :: "'d \<Rightarrow> bool"
  d_eq :: "'d \<Rightarrow> 'd \<Rightarrow> bool"
  d_lt :: "'d \<Rightarrow> 'd \<Rightarrow> bool"
  d_ge :: "'d \<Rightarrow> 'd \<Rightarrow> bool"
  d_add :: "'d \<Rightarrow> 'd \<Rightarrow> 'd"
  d_sub :: "'d \<Rightarrow> 'd \<Rightarrow> 'd"
  d_mul :: "'d \<Rightarrow> 'd \<Rightarrow> 'd"
  d_div :: "'d \<Rightarrow> 'd \<Rightarrow> 'd"
  d_floor :: "'d \<Rightarrow> 'd"
  d_round :: "'d \<Rightarrow> 'd"                  \<comment> \<open>\<open>Round(0)\<close>\<close>
  d_of_int :: "int \<Rightarrow> 'd"
  d_of_float :: "f64 \<Rightarrow> 'd"
  d_float :: "'d \<Rightarrow> f64"

section \<open>Records\<close>

datatype idem_status = IdemPending | IdemAccepted | IdemFilled | IdemCancelled | IdemRejected

fun idem_status_text :: "idem_status \<Rightarrow> string" where
  "idem_status_text IdemPending = ''pending''"
| "idem_status_text IdemAccepted = ''accepted''"
| "idem_status_text IdemFilled = ''filled''"
| "idem_status_text IdemCancelled = ''cancelled''"
| "idem_status_text IdemRejected = ''rejected''"

record 'd idem_rec =
  ir_client_order_id :: string
  ir_exchange_order_id :: string
  ir_status :: idem_status
  ir_market_ref :: 'd
  ir_submitted_at_ms :: int
  ir_last_updated_ms :: int

fun terminal_status :: "idem_status \<Rightarrow> bool" where
  "terminal_status IdemFilled = True"
| "terminal_status IdemCancelled = True"
| "terminal_status IdemRejected = True"
| "terminal_status _ = False"

definition is_terminal :: "'d idem_rec \<Rightarrow> bool" where
  "is_terminal r = terminal_status (ir_status r)"

section \<open>The interface\<close>

record ('s, 'd) idem_ops =
  io_get :: "string \<Rightarrow> 's \<Rightarrow> (string + 'd idem_rec option) \<times> 's"
  io_put :: "'d idem_rec \<Rightarrow> 's \<Rightarrow> (string + unit) \<times> 's"
  io_update :: "string \<Rightarrow> idem_status \<Rightarrow> string \<Rightarrow> int \<Rightarrow> 's \<Rightarrow> (string + unit) \<times> 's"

section \<open>\<open>MemoryStore\<close>\<close>

record 'd memory_store =
  ms_rows :: "string \<rightharpoonup> 'd idem_rec"

definition new_memory_store :: "'d memory_store" where
  "new_memory_store = \<lparr>ms_rows = Map.empty\<rparr>"

definition mem_get :: "string \<Rightarrow> 'd memory_store \<Rightarrow> (string + 'd idem_rec option) \<times> 'd memory_store" where
  "mem_get k m = (Inr (ms_rows m k), m)"

definition mem_put :: "'d idem_rec \<Rightarrow> 'd memory_store \<Rightarrow> (string + unit) \<times> 'd memory_store" where
  "mem_put rec m = (Inr (), m\<lparr>ms_rows := (ms_rows m)(ir_client_order_id rec \<mapsto> rec)\<rparr>)"

definition set_status :: "idem_status \<Rightarrow> string \<Rightarrow> int \<Rightarrow> 'd idem_rec \<Rightarrow> 'd idem_rec" where
  "set_status status xoid now rec =
     (let rec = rec\<lparr>ir_status := status\<rparr>;
          rec = (if xoid \<noteq> [] then rec\<lparr>ir_exchange_order_id := xoid\<rparr> else rec)
      in rec\<lparr>ir_last_updated_ms := now\<rparr>)"

definition mem_update ::
  "string \<Rightarrow> idem_status \<Rightarrow> string \<Rightarrow> int \<Rightarrow> 'd memory_store \<Rightarrow> (string + unit) \<times> 'd memory_store" where
  "mem_update k status xoid now m =
     (case ms_rows m k of
        None \<Rightarrow> (Inr (), m)
      | Some rec \<Rightarrow> (Inr (), m\<lparr>ms_rows := (ms_rows m)(k \<mapsto> set_status status xoid now rec)\<rparr>))"

definition memory_ops :: "('d memory_store, 'd) idem_ops" where
  "memory_ops = \<lparr>io_get = mem_get, io_put = mem_put, io_update = mem_update\<rparr>"

section \<open>\<open>SqliteStore\<close>\<close>

text \<open>
  A row of the \<open>idempotency\<close> table, keyed by its primary key, and the errors the driver will
  return: one entry is taken by each statement, \<open>Some\<close> text for a statement that fails.
\<close>

record sqlite_row =
  sq_exchange_order_id :: "string option"
  sq_status :: idem_status
  sq_market_ref_decimal :: "string option"
  sq_submitted_at_ms :: int
  sq_last_updated_ms :: int

record sqlite_store =
  sq_rows :: "string \<rightharpoonup> sqlite_row"
  sq_errors :: "string option list"

definition next_error :: "sqlite_store \<Rightarrow> string option" where
  "next_error s = (case sq_errors s of [] \<Rightarrow> None | e # _ \<Rightarrow> e)"

definition spend_error :: "sqlite_store \<Rightarrow> sqlite_store" where
  "spend_error s = s\<lparr>sq_errors := tl (sq_errors s)\<rparr>"

definition sql_get ::
  "'d dec_ops \<Rightarrow> string \<Rightarrow> sqlite_store \<Rightarrow> (string + 'd idem_rec option) \<times> sqlite_store" where
  "sql_get D k s =
     (let s' = spend_error s in
      case next_error s of
        Some e \<Rightarrow> (Inl (''agent.SqliteStore.Get: '' @ e), s')
      | None \<Rightarrow>
        (case sq_rows s k of
           None \<Rightarrow> (Inr None, s')
         | Some row \<Rightarrow>
           (let rec = \<lparr>ir_client_order_id = k,
                  ir_exchange_order_id = (case sq_exchange_order_id row of None \<Rightarrow> [] | Some x \<Rightarrow> x),
                  ir_status = sq_status row, ir_market_ref = d_zero D,
                  ir_submitted_at_ms = sq_submitted_at_ms row,
                  ir_last_updated_ms = sq_last_updated_ms row\<rparr>;
                ref = (case sq_market_ref_decimal row of None \<Rightarrow> [] | Some x \<Rightarrow> x)
            in if ref \<noteq> [] then
                 (case d_parse D ref of
                    None \<Rightarrow> (Inl (''agent.SqliteStore.Get: market_ref '' @ ref), s')
                  | Some d \<Rightarrow> (Inr (Some (rec\<lparr>ir_market_ref := d\<rparr>)), s'))
               else (Inr (Some rec), s'))))"

definition sql_put ::
  "'d dec_ops \<Rightarrow> 'd idem_rec \<Rightarrow> sqlite_store \<Rightarrow> (string + unit) \<times> sqlite_store" where
  "sql_put D rec s =
     (if ir_client_order_id rec = [] then (Inl ''agent.SqliteStore.Put: empty client_order_id'', s)
      else let s' = spend_error s in
        case next_error s of
          Some e \<Rightarrow> (Inl (''agent.SqliteStore.Put: '' @ e), s')
        | None \<Rightarrow> (Inr (), s'\<lparr>sq_rows := (sq_rows s)(ir_client_order_id rec \<mapsto>
            \<lparr>sq_exchange_order_id =
               (if ir_exchange_order_id rec = [] then None else Some (ir_exchange_order_id rec)),
             sq_status = ir_status rec,
             sq_market_ref_decimal =
               (if d_is_zero D (ir_market_ref rec) then None
                else Some (d_string D (ir_market_ref rec))),
             sq_submitted_at_ms = ir_submitted_at_ms rec,
             sq_last_updated_ms = ir_last_updated_ms rec\<rparr>)\<rparr>))"

definition sql_update ::
  "string \<Rightarrow> idem_status \<Rightarrow> string \<Rightarrow> int \<Rightarrow> sqlite_store \<Rightarrow> (string + unit) \<times> sqlite_store" where
  "sql_update k status xoid now s =
     (if k = [] then (Inl ''agent.SqliteStore.UpdateStatus: empty client_order_id'', s)
      else let s' = spend_error s in
        case next_error s of
          Some e \<Rightarrow> (Inl (''agent.SqliteStore.UpdateStatus: '' @ e), s')
        | None \<Rightarrow>
          if xoid \<noteq> [] then
            (Inr (), s'\<lparr>sq_rows := (sq_rows s)(k := map_option (\<lambda>row. row\<lparr>sq_status := status,
               sq_exchange_order_id := Some xoid, sq_last_updated_ms := now\<rparr>) (sq_rows s k))\<rparr>)
          else
            (Inr (), s'\<lparr>sq_rows := (sq_rows s)(k := map_option (\<lambda>row. row\<lparr>sq_status := status,
               sq_last_updated_ms := now\<rparr>) (sq_rows s k))\<rparr>))"

definition sql_purge :: "int \<Rightarrow> sqlite_store \<Rightarrow> (string + unit) \<times> sqlite_store" where
  "sql_purge before_ms s =
     (let s' = spend_error s in
      case next_error s of
        Some e \<Rightarrow> (Inl (''agent.SqliteStore.Purge: '' @ e), s')
      | None \<Rightarrow> (Inr (), s'\<lparr>sq_rows := (\<lambda>k. case sq_rows s k of
           None \<Rightarrow> None
         | Some row \<Rightarrow> if sq_last_updated_ms row < before_ms then None else Some row)\<rparr>))"

definition sqlite_ops :: "'d dec_ops \<Rightarrow> (sqlite_store, 'd) idem_ops" where
  "sqlite_ops D = \<lparr>io_get = sql_get D, io_put = sql_put D, io_update = sql_update\<rparr>"

section \<open>The interface's contract\<close>

text \<open>
  What the agent relies on: a store holds, per client order id, a status, an exchange order id and
  two times (the core of the record); \<open>Get\<close> reads it, \<open>Put\<close> replaces it, \<open>UpdateStatus\<close> changes
  an existing entry only, and a call that fails changes nothing.
\<close>

type_synonym idem_core = "idem_status \<times> string \<times> int \<times> int"

definition core_of :: "'d idem_rec \<Rightarrow> idem_core" where
  "core_of r = (ir_status r, ir_exchange_order_id r, ir_submitted_at_ms r, ir_last_updated_ms r)"

definition core_set :: "idem_status \<Rightarrow> string \<Rightarrow> int \<Rightarrow> idem_core \<Rightarrow> idem_core" where
  "core_set status xoid now c =
     (case c of (_, x, sub, _) \<Rightarrow> (status, if xoid \<noteq> [] then xoid else x, sub, now))"

locale idem_contract =
  fixes ops :: "('s, 'd) idem_ops"
    and view :: "'s \<Rightarrow> string \<rightharpoonup> idem_core"
  assumes get_view: "view (snd (io_get ops k s)) = view s"
    and get_ok: "fst (io_get ops k s) = Inr r \<Longrightarrow>
      map_option core_of r = view s k"
    and put_ok: "fst (io_put ops rec s) = Inr u \<Longrightarrow>
      view (snd (io_put ops rec s)) = (view s)(ir_client_order_id rec \<mapsto> core_of rec)"
    and put_err: "fst (io_put ops rec s) = Inl e \<Longrightarrow> view (snd (io_put ops rec s)) = view s"
    and update_ok: "fst (io_update ops k st x now s) = Inr u \<Longrightarrow>
      view (snd (io_update ops k st x now s)) = (view s)(k := map_option (core_set st x now) (view s k))"
    and update_err: "fst (io_update ops k st x now s) = Inl e \<Longrightarrow>
      view (snd (io_update ops k st x now s)) = view s"
begin

lemma dom_put: "dom (view s) \<subseteq> dom (view (snd (io_put ops rec s)))"
  by (cases "fst (io_put ops rec s)") (auto simp: put_ok put_err)

lemma dom_update: "dom (view (snd (io_update ops k st x now s))) = dom (view s)"
  by (cases "fst (io_update ops k st x now s)") (auto simp: update_ok update_err split: if_splits)

lemma put_other:
  "k \<noteq> ir_client_order_id rec \<Longrightarrow> view (snd (io_put ops rec s)) k = view s k"
  by (cases "fst (io_put ops rec s)") (auto simp: put_ok put_err)

lemma update_other:
  "k' \<noteq> k \<Longrightarrow> view (snd (io_update ops k st x now s)) k' = view s k'"
  by (cases "fst (io_update ops k st x now s)") (auto simp: update_ok update_err)

end

definition mem_view :: "'d memory_store \<Rightarrow> string \<rightharpoonup> idem_core" where
  "mem_view m k = map_option core_of (ms_rows m k)"

definition sql_core :: "sqlite_row \<Rightarrow> idem_core" where
  "sql_core row = (sq_status row, case sq_exchange_order_id row of None \<Rightarrow> [] | Some x \<Rightarrow> x,
     sq_submitted_at_ms row, sq_last_updated_ms row)"

definition sql_view :: "sqlite_store \<Rightarrow> string \<rightharpoonup> idem_core" where
  "sql_view s k = map_option sql_core (sq_rows s k)"

lemma core_set_status: "core_of (set_status st x now r) = core_set st x now (core_of r)"
  by (simp add: core_of_def core_set_def set_status_def)

interpretation memory_idem: idem_contract memory_ops mem_view
  by unfold_locales
    (auto simp: memory_ops_def mem_get_def mem_put_def mem_update_def mem_view_def core_set_status
      fun_eq_iff split: option.splits)

interpretation sqlite_idem: idem_contract "sqlite_ops D" sql_view for D
  by unfold_locales
    (auto simp: sqlite_ops_def sql_get_def sql_put_def sql_update_def sql_view_def sql_core_def
      core_of_def core_set_def spend_error_def next_error_def Let_def fun_eq_iff option.map_comp
      comp_def split: option.splits if_splits)

section \<open>The two implementations agree\<close>

datatype 'd idem_call = CallPut "'d idem_rec" | CallUpdate string idem_status string int

definition call_key :: "'d idem_call \<Rightarrow> string" where
  "call_key c = (case c of CallPut rec \<Rightarrow> ir_client_order_id rec | CallUpdate k _ _ _ \<Rightarrow> k)"

definition do_call :: "('s, 'd) idem_ops \<Rightarrow> 'd idem_call \<Rightarrow> 's \<Rightarrow> 's" where
  "do_call ops c s =
     (case c of CallPut rec \<Rightarrow> snd (io_put ops rec s)
      | CallUpdate k st x now \<Rightarrow> snd (io_update ops k st x now s))"

definition row_of :: "'d dec_ops \<Rightarrow> 'd idem_rec \<Rightarrow> sqlite_row" where
  "row_of D rec =
     \<lparr>sq_exchange_order_id =
        (if ir_exchange_order_id rec = [] then None else Some (ir_exchange_order_id rec)),
      sq_status = ir_status rec,
      sq_market_ref_decimal =
        (if d_is_zero D (ir_market_ref rec) then None else Some (d_string D (ir_market_ref rec))),
      sq_submitted_at_ms = ir_submitted_at_ms rec,
      sq_last_updated_ms = ir_last_updated_ms rec\<rparr>"

definition stores_match :: "'d dec_ops \<Rightarrow> 'd memory_store \<Rightarrow> sqlite_store \<Rightarrow> bool" where
  "stores_match D m s \<longleftrightarrow>
     sq_errors s = [] \<and> (\<forall>k. sq_rows s k = map_option (row_of D) (ms_rows m k)) \<and>
     (\<forall>k rec. ms_rows m k = Some rec \<longrightarrow> ir_client_order_id rec = k)"

lemma stores_match_call:
  "stores_match D m s \<Longrightarrow> call_key c \<noteq> [] \<Longrightarrow>
     stores_match D (do_call memory_ops c m) (do_call (sqlite_ops D) c s)"
  by (cases c)
    (auto simp: stores_match_def do_call_def call_key_def memory_ops_def sqlite_ops_def mem_put_def
      mem_update_def sql_put_def sql_update_def next_error_def spend_error_def row_of_def
      set_status_def Let_def split: option.splits)

lemma stores_match_run:
  "stores_match D m s \<Longrightarrow> (\<forall>c\<in>set cs. call_key c \<noteq> []) \<Longrightarrow>
     stores_match D (fold (do_call memory_ops) cs m) (fold (do_call (sqlite_ops D)) cs s)"
  by (induction cs arbitrary: m s) (auto simp: stores_match_call)

text \<open>
  C22: Refinement between the two \<open>IdempotencyStore\<close> implementations: after any sequence of \<open>Put\<close> and
  \<open>UpdateStatus\<close> calls with non-empty client order ids, starting empty and with no driver error,
  \<open>SqliteStore.Get\<close> returns exactly what \<open>MemoryStore.Get\<close> returns, the market reference included,
  given that the decimal package reads back what it prints and has one zero.
\<close>

theorem sqlite_store_refines_memory_store:
  assumes "\<And>x. d_parse D (d_string D x) = Some x" "\<And>x. d_string D x \<noteq> []"
    and "\<And>x. d_is_zero D x \<Longrightarrow> x = d_zero D" and "\<forall>c\<in>set cs. call_key c \<noteq> []"
  shows "fst (io_get (sqlite_ops D) k
      (fold (do_call (sqlite_ops D)) cs \<lparr>sq_rows = Map.empty, sq_errors = []\<rparr>)) =
    fst (io_get memory_ops k (fold (do_call memory_ops) cs new_memory_store))"
proof -
  let ?m = "fold (do_call memory_ops) cs new_memory_store"
  let ?s = "fold (do_call (sqlite_ops D)) cs \<lparr>sq_rows = Map.empty, sq_errors = []\<rparr>"
  have "stores_match D new_memory_store \<lparr>sq_rows = Map.empty, sq_errors = []\<rparr>"
    by (simp add: stores_match_def new_memory_store_def)
  from stores_match_run [OF this assms(4)] have m: "stores_match D ?m ?s" .
  show ?thesis
  proof (cases "ms_rows ?m k")
    case None
    with m show ?thesis
      by (auto simp: stores_match_def memory_ops_def sqlite_ops_def mem_get_def sql_get_def
          next_error_def Let_def)
  next
    case (Some rec)
    with m have "sq_rows ?s k = Some (row_of D rec)" "ir_client_order_id rec = k" "sq_errors ?s = []"
      by (auto simp: stores_match_def)
    with Some assms(1-3) show ?thesis
      by (cases rec) (auto simp: memory_ops_def sqlite_ops_def mem_get_def sql_get_def
          next_error_def row_of_def Let_def)
  qed
qed

definition unary_dec :: "nat dec_ops" where
  "unary_dec = \<lparr>d_parse = (\<lambda>s. if s = [] then None else Some (length s - 1)),
     d_string = (\<lambda>n. replicate (Suc n) CHR ''1''), d_zero = 0, d_is_zero = (\<lambda>n. n = 0),
     d_is_positive = (\<lambda>n. 0 < n), d_eq = (=), d_lt = (<), d_ge = (\<ge>), d_add = (+), d_sub = (-),
     d_mul = (*), d_div = (div), d_floor = id, d_round = id, d_of_int = nat,
     d_of_float = (\<lambda>x. nat \<lfloor>f_val x\<rfloor>), d_float = (\<lambda>n. f_of_int (int n))\<rparr>"

theorem sqlite_store_refines_memory_store_witness:
  "fst (io_get (sqlite_ops unary_dec) ''a''
      (fold (do_call (sqlite_ops unary_dec))
        [CallPut \<lparr>ir_client_order_id = ''a'', ir_exchange_order_id = [], ir_status = IdemPending,
           ir_market_ref = 7, ir_submitted_at_ms = 1, ir_last_updated_ms = 1\<rparr>,
         CallUpdate ''a'' IdemFilled ''x1'' 2] \<lparr>sq_rows = Map.empty, sq_errors = []\<rparr>)) =
    fst (io_get memory_ops ''a''
      (fold (do_call memory_ops)
        [CallPut \<lparr>ir_client_order_id = ''a'', ir_exchange_order_id = [], ir_status = IdemPending,
           ir_market_ref = 7, ir_submitted_at_ms = 1, ir_last_updated_ms = 1\<rparr>,
         CallUpdate ''a'' IdemFilled ''x1'' 2] new_memory_store))"
  by (rule sqlite_store_refines_memory_store)
    (auto simp: unary_dec_def call_key_def)

end
