(* ===== verification/Strconv.thy ===== *)
theory Strconv
  imports Float64 "HOL-Library.Char_ord"
begin

text \<open>
  The two conversions of Go's \<open>strconv\<close> the program sends amounts through:
  \<open>FormatFloat(x, 'f', 8, 64)\<close> and \<open>ParseFloat(s, 64)\<close> on decimal literals, infinities and NaN
  (hexadecimal literals and digit separators, which the program never writes, are refused).
\<close>

section \<open>Decimal digits\<close>

definition digit_char :: "nat \<Rightarrow> char" where
  "digit_char n = char_of (48 + n)"

definition is_digit :: "char \<Rightarrow> bool" where
  "is_digit c = (let n = of_char c :: nat in 48 \<le> n \<and> n \<le> 57)"

definition digit_val :: "char \<Rightarrow> nat" where
  "digit_val c = of_char c - 48"

lemma of_char_digit [simp]: "n < 10 \<Longrightarrow> of_char (digit_char n) = (48 + n :: nat)"
  unfolding digit_char_def by (subst of_char_of) simp

lemma digit_char_props [simp]:
  assumes "n < 10"
  shows "is_digit (digit_char n)" "digit_val (digit_char n) = n"
  using assms by (simp_all add: is_digit_def digit_val_def)

fun show_nat :: "nat \<Rightarrow> string" where
  "show_nat n = (if n < 10 then [digit_char n] else show_nat (n div 10) @ [digit_char (n mod 10)])"

declare show_nat.simps [simp del]

definition digits_val :: "string \<Rightarrow> nat" where
  "digits_val s = foldl (\<lambda>a c. a * 10 + digit_val c) 0 s"

lemma digits_val_snoc [simp]: "digits_val (s @ [c]) = digits_val s * 10 + digit_val c"
  by (simp add: digits_val_def)

lemma digits_val_Nil [simp]: "digits_val [] = 0"
  by (simp add: digits_val_def)

lemma show_nat_digits: "list_all is_digit (show_nat n)" "show_nat n \<noteq> []"
proof (induction n rule: show_nat.induct)
  case (1 n)
  case 1
  show ?case using "1.IH"(1) by (subst show_nat.simps) (auto simp: not_less)
  case 2
  show ?case by (subst show_nat.simps) simp
qed

lemma digits_val_show_nat [simp]: "digits_val (show_nat n) = n"
proof (induction n rule: show_nat.induct)
  case (1 n)
  show ?case
  proof (cases "n < 10")
    case True
    then have "digits_val ([] @ [digit_char n]) = n" by (simp only: digits_val_snoc) simp
    with True show ?thesis by (subst show_nat.simps) simp
  next
    case False
    with 1 show ?thesis by (subst show_nat.simps) simp
  qed
qed

definition show_int :: "int \<Rightarrow> string" where
  "show_int n = (if n < 0 then ''-'' @ show_nat (nat (- n)) else show_nat (nat n))"

definition hex_digit :: "nat \<Rightarrow> char" where
  "hex_digit d = (if d < 10 then char_of (48 + d) else char_of (87 + d))"

text \<open>\<open>n\<close> written with exactly \<open>k\<close> digits.\<close>

fun pad_digits :: "nat \<Rightarrow> nat \<Rightarrow> string" where
  "pad_digits 0 n = []"
| "pad_digits (Suc k) n = pad_digits k (n div 10) @ [digit_char (n mod 10)]"

lemma pad_digits_props: "list_all is_digit (pad_digits k n)" "length (pad_digits k n) = k"
  by (induction k arbitrary: n) auto

lemma digits_val_pad [simp]: "digits_val (pad_digits k n) = n mod 10 ^ k"
proof (induction k arbitrary: n)
  case (Suc k)
  have "n mod (10 * 10 ^ k) = 10 * (n div 10 mod 10 ^ k) + n mod 10"
    by (rule mod_mult2_eq)
  with Suc show ?case by simp
qed simp

section \<open>\<open>FormatFloat(x, 'f', 8, 64)\<close>\<close>

definition format8_nat :: "nat \<Rightarrow> string" where
  \<comment> \<open>\<open>n\<close> hundred-millionths\<close>
  "format8_nat n = show_nat (n div 10 ^ 8) @ ''.'' @ pad_digits 8 (n mod 10 ^ 8)"

definition scaled8 :: "rat \<Rightarrow> nat" where
  "scaled8 q = nat (round_half_even (\<bar>q\<bar> * 10 ^ 8))"

fun format8 :: "f64 \<Rightarrow> string" where
  "format8 (Fin q) = (if q < 0 then ''-'' else []) @ format8_nat (scaled8 q)"
| "format8 NegZero = ''-0.00000000''"
| "format8 (Inf neg) = (if neg then ''-Inf'' else ''+Inf'')"
| "format8 NaN = ''NaN''"

section \<open>\<open>ParseFloat\<close>\<close>

definition exponent_value :: "string \<Rightarrow> int option" where
  "exponent_value s =
     (let neg = (s \<noteq> [] \<and> hd s = CHR ''-'');
          ds = (if s \<noteq> [] \<and> (hd s = CHR ''-'' \<or> hd s = CHR ''+'') then tl s else s)
      in if ds = [] \<or> \<not> list_all is_digit ds then None
         else Some (if neg then - int (digits_val ds) else int (digits_val ds)))"

definition decimal_literal :: "string \<Rightarrow> rat option" where
  \<comment> \<open>an unsigned decimal literal: digits, point, digits, exponent\<close>
  "decimal_literal s =
     (let ip = takeWhile is_digit s; r = dropWhile is_digit s;
          (fp, r) = (if r \<noteq> [] \<and> hd r = CHR ''.''
                     then (takeWhile is_digit (tl r), dropWhile is_digit (tl r)) else ([], r));
          m = of_nat (digits_val (ip @ fp)) / 10 ^ length fp
      in if ip = [] \<and> fp = [] then None
         else if r = [] then Some m
         else if hd r = CHR ''e'' \<or> hd r = CHR ''E'' then
           map_option (\<lambda>e. m * 10 powi e) (exponent_value (tl r))
         else None)"

definition lower_ascii :: "string \<Rightarrow> string" where
  "lower_ascii s =
     map (\<lambda>c. let n = of_char c :: nat in if 65 \<le> n \<and> n \<le> 90 then char_of (n + 32) else c) s"

definition parse_float :: "string \<Rightarrow> f64 option" where
  "parse_float s =
     (let signed = (s \<noteq> [] \<and> (hd s = CHR ''-'' \<or> hd s = CHR ''+''));
          neg = (s \<noteq> [] \<and> hd s = CHR ''-'');
          body = (if signed then tl s else s); low = lower_ascii body
      in if low = ''inf'' \<or> low = ''infinity'' then Some (Inf neg)
         else if low = ''nan'' \<and> \<not> signed then Some NaN
         else case decimal_literal body of
           None \<Rightarrow> None
         | Some q \<Rightarrow> (case f_round neg (if neg then - q else q) of
             Inf _ \<Rightarrow> None | x \<Rightarrow> Some x))"

lemma takeWhile_digits_append:
  assumes "list_all is_digit ds" "r = [] \<or> \<not> is_digit (hd r)"
  shows "takeWhile is_digit (ds @ r) = ds" "dropWhile is_digit (ds @ r) = r"
  using assms by (cases r; auto simp: list_all_iff takeWhile_append dropWhile_append)+

lemma not_digit_point [simp]: "\<not> is_digit CHR ''.''"
  by (simp add: is_digit_def)

lemma digits_val_append: "digits_val (a @ b) = digits_val a * 10 ^ length b + digits_val b"
proof (induction b rule: rev_induct)
  case (snoc c b)
  have "digits_val (a @ b @ [c]) = digits_val (a @ b) * 10 + digit_val c"
    using digits_val_snoc [of "a @ b" c] by simp
  with snoc show ?case by (simp add: algebra_simps)
qed simp

lemma decimal_literal_point:
  assumes "list_all is_digit ip" "list_all is_digit fp" "ip \<noteq> []"
  shows "decimal_literal (ip @ ''.'' @ fp) = Some (of_nat (digits_val (ip @ fp)) / 10 ^ length fp)"
proof -
  have "takeWhile is_digit fp = fp" "dropWhile is_digit fp = []"
    using takeWhile_digits_append [of fp "[]"] assms(2) by (simp_all only: append_Nil2) auto
  moreover have "takeWhile is_digit (ip @ ''.'' @ fp) = ip"
    "dropWhile is_digit (ip @ ''.'' @ fp) = ''.'' @ fp"
    using assms(1) by (intro takeWhile_digits_append; simp)+
  ultimately show ?thesis using assms(3)
    by (simp add: decimal_literal_def Let_def takeWhile_eq_all_conv [THEN iffD2])
qed

lemma decimal_literal_format8: "decimal_literal (format8_nat n) = Some (of_nat n / 10 ^ 8)"
proof -
  have "digits_val (show_nat (n div 10 ^ 8) @ pad_digits 8 (n mod 10 ^ 8)) = n"
    unfolding digits_val_append pad_digits_props digits_val_show_nat digits_val_pad
    by (simp add: div_mult_mod_eq)
  with decimal_literal_point [OF show_nat_digits(1) pad_digits_props(1) show_nat_digits(2)]
  show ?thesis unfolding format8_nat_def by (simp only: pad_digits_props)
qed

lemma scaled8_error: "0 \<le> q \<Longrightarrow> \<bar>of_nat (scaled8 q) / 10 ^ 8 - q\<bar> \<le> 1 / (2 * 10 ^ 8)"
proof -
  assume q: "0 \<le> q"
  let ?r = "q * 10 ^ 8"
  have "0 \<le> \<lfloor>?r\<rfloor>" using q by simp
  then have nn: "0 \<le> round_half_even ?r" using round_half_even_bounds(1) [of ?r] by linarith
  then have s: "of_nat (scaled8 q) = (of_int (round_half_even ?r) :: rat)"
    using q by (simp add: scaled8_def)
  have "\<bar>of_int (round_half_even ?r) - ?r\<bar> \<le> 1 / 2" by (rule round_half_even_error)
  then have "\<bar>(of_int (round_half_even ?r) - ?r) / 10 ^ 8\<bar> \<le> 1 / 2 / 10 ^ 8"
    unfolding abs_divide by (simp add: divide_right_mono)
  then show ?thesis unfolding s by (simp add: diff_divide_distrib)
qed

end
