(* ===== verification/AgentClient.thy ===== *)
theory AgentClient
  imports Wire Idempotency Strconv
begin

text \<open>
  The agent (\<open>internal/agent\<close>): the trade-command pipeline, the kill switch latch, the delta-report
  buffer, asynchronous order events, the agent's side of the handshake and the reconnect loop.
  The idempotency store is reached through its interface, the exchange, the clock and the socket
  through an environment; frames written and orders submitted are kept as traces.
\<close>

section \<open>The exchange interface (\<open>exchange.go\<close>, \<open>events.go\<close>)\<close>

record 'd exchange_order =
  eo_client_order_id :: string
  eo_symbol :: string
  eo_side :: string
  eo_order_type :: string
  eo_quantity :: 'd
  eo_limit_price :: 'd
  eo_time_in_force :: string

record 'd exchange_fill =
  xf_quantity :: 'd
  xf_price :: 'd
  xf_fee_asset :: string
  xf_fee_amount :: 'd
  xf_filled_at_exchange_ms :: int
  xf_trade_id :: int

record 'd submit_result =
  sr_exchange_order_id :: string
  sr_accepted_at_ms :: int
  sr_market_ref :: 'd
  sr_fills :: "'d exchange_fill list"

record 'd ag_position =
  ap_symbol :: string
  ap_free :: 'd
  ap_locked :: 'd

record 'd order_event =
  oe_client_order_id :: string
  oe_exchange_order_id :: string
  oe_status :: string
  oe_side :: string
  oe_fill :: "'d exchange_fill option"
  oe_cumulative :: 'd

text \<open>
  The environment: the clock's n-th reading, whether the n-th socket write succeeds, what the
  n-th call of \<open>Submit\<close> and of \<open>Positions\<close> returns, and whether the exchange is reachable.
\<close>

record 'd agent_env =
  e_now :: "nat \<Rightarrow> int"
  e_write_ok :: "nat \<Rightarrow> bool"
  e_submit :: "nat \<Rightarrow> 'd exchange_order \<Rightarrow> string + 'd submit_result"
  e_positions :: "nat \<Rightarrow> string + 'd ag_position list"
  e_reachable :: "nat \<Rightarrow> bool"

section \<open>Client state and output (\<open>client.go\<close>)\<close>

datatype out_msg =
    OHello hello | OAuth auth | OAck ack | OErr wire_error | OOrderUpdate order_update
  | OPong pong | OStateSync state_sync_response | ODelta delta_report

record ('s, 'd) agent =
  ag_frozen :: bool
  ag_idem :: 's
  ag_delta_fills :: "fill list"
  ag_delta_errors :: "agent_error list"
  ag_conn :: bool                \<comment> \<open>a session's connection is installed\<close>
  ag_backoff_idx :: nat
  ag_ticks :: nat                \<comment> \<open>clock readings so far\<close>
  ag_writes :: nat               \<comment> \<open>socket writes so far\<close>
  ag_queries :: nat              \<comment> \<open>\<open>Positions\<close> calls so far\<close>
  ag_sent :: "out_msg list"      \<comment> \<open>frames written, oldest first\<close>
  ag_submits :: "'d exchange_order list"   \<comment> \<open>orders handed to \<open>Submit\<close>, oldest first\<close>

definition now_ms :: "'d agent_env \<Rightarrow> ('s, 'd) agent \<Rightarrow> int \<times> ('s, 'd) agent" where
  "now_ms env st = (e_now env (ag_ticks st), st\<lparr>ag_ticks := Suc (ag_ticks st)\<rparr>)"

text \<open>\<open>json.Marshal\<close> refuses the floats JSON cannot write.\<close>

definition fill_marshals :: "fill \<Rightarrow> bool" where
  "fill_marshals f = f_finite (fl_actual_slippage_bps f)"

fun marshals :: "out_msg \<Rightarrow> bool" where
  "marshals (OOrderUpdate ou) = list_all fill_marshals (ou_fills ou)"
| "marshals (OStateSync s) = list_all fill_marshals (ssr_since_last_fills s)"
| "marshals (ODelta dr) = list_all fill_marshals (ds_fills (dr_since_last_report dr))"
| "marshals _ = True"

definition send_typed :: "'d agent_env \<Rightarrow> out_msg \<Rightarrow> ('s, 'd) agent \<Rightarrow> bool \<times> ('s, 'd) agent" where
  "send_typed env m st =
     (let st = snd (now_ms env st) in
      if \<not> marshals m then (False, st)
      else let ok = e_write_ok env (ag_writes st);
               st = st\<lparr>ag_writes := Suc (ag_writes st)\<rparr>
           in if ok then (True, st\<lparr>ag_sent := ag_sent st @ [m]\<rparr>) else (False, st))"

definition send_ack :: "'d agent_env \<Rightarrow> ack \<Rightarrow> ('s, 'd) agent \<Rightarrow> ('s, 'd) agent" where
  "send_ack env a st = snd (send_typed env (OAck a) st)"

definition send_error ::
  "'d agent_env \<Rightarrow> string \<Rightarrow> string \<Rightarrow> string \<Rightarrow> ('s, 'd) agent \<Rightarrow> ('s, 'd) agent" where
  "send_error env code msg ref st =
     snd (send_typed env (OErr \<lparr>we_code = code, we_message = msg, we_ref_msg_id = ref\<rparr>) st)"

fun error_code_for_decode :: "wire_err \<Rightarrow> string" where
  "error_code_for_decode ErrSchemaMismatch = ''schema_mismatch''"
| "error_code_for_decode ErrUnknownType = ''unknown_type''"
| "error_code_for_decode ErrInvalidEnvelope = ''invalid_envelope''"
| "error_code_for_decode _ = ''decode_failed''"

definition format_decimal :: "'d dec_ops \<Rightarrow> 'd \<Rightarrow> string" where
  "format_decimal D d = format8 (d_float D d)"

section \<open>The delta buffer\<close>

definition delta_add_fill :: "fill \<Rightarrow> ('s, 'd) agent \<Rightarrow> ('s, 'd) agent" where
  "delta_add_fill f st = st\<lparr>ag_delta_fills := ag_delta_fills st @ [f]\<rparr>"

definition delta_add_error :: "agent_error \<Rightarrow> ('s, 'd) agent \<Rightarrow> ('s, 'd) agent" where
  "delta_add_error e st = st\<lparr>ag_delta_errors := ag_delta_errors st @ [e]\<rparr>"

definition delta_drain ::
  "('s, 'd) agent \<Rightarrow> (fill list \<times> agent_error list) \<times> ('s, 'd) agent" where
  "delta_drain st =
     ((ag_delta_fills st, ag_delta_errors st), st\<lparr>ag_delta_fills := [], ag_delta_errors := []\<rparr>)"

definition delta_requeue ::
  "fill list \<Rightarrow> agent_error list \<Rightarrow> ('s, 'd) agent \<Rightarrow> ('s, 'd) agent" where
  "delta_requeue fills errs st =
     st\<lparr>ag_delta_fills := fills @ ag_delta_fills st, ag_delta_errors := errs @ ag_delta_errors st\<rparr>"

definition positions_to_wire :: "'d dec_ops \<Rightarrow> 'd ag_position list \<Rightarrow> position list" where
  "positions_to_wire D ps =
     map (\<lambda>p. \<lparr>pos_symbol = ap_symbol p, pos_free_decimal = format_decimal D (ap_free p),
       pos_locked_decimal = format_decimal D (ap_locked p)\<rparr>) ps"

definition query_positions ::
  "'d agent_env \<Rightarrow> ('s, 'd) agent \<Rightarrow> (string + 'd ag_position list) \<times> ('s, 'd) agent" where
  "query_positions env st =
     (e_positions env (ag_queries st), st\<lparr>ag_queries := Suc (ag_queries st)\<rparr>)"

definition send_delta_report ::
  "'d agent_env \<Rightarrow> 'd dec_ops \<Rightarrow> ('s, 'd) agent \<Rightarrow> ('s, 'd) agent" where
  "send_delta_report env D st =
     (let (r, st) = query_positions env st;
          (ps, st) = (case r of
             Inr ps \<Rightarrow> (ps, st)
           | Inl e \<Rightarrow>
               let (t, st) = now_ms env st in
               ([], delta_add_error \<lparr>ae_code = ''positions_query_failed'', ae_message = e,
                      ae_occurred_at_ms = t\<rparr> st));
          ((fills, errs), st) = delta_drain st;
          (t, st) = now_ms env st;
          dr = \<lparr>dr_reported_at_ms = t, dr_positions = positions_to_wire D ps,
                dr_since_last_report = \<lparr>ds_fills = fills, ds_errors = errs\<rparr>\<rparr>;
          (ok, st) = send_typed env (ODelta dr) st
      in if ok then st else delta_requeue fills errs st)"

section \<open>Trade commands (\<open>tradecommand.go\<close>)\<close>

definition duplicate_ack :: "'d idem_rec \<Rightarrow> int \<Rightarrow> ack" where
  "duplicate_ack existing now =
     (if is_terminal existing then
        \<lparr>ack_client_order_id = ir_client_order_id existing, ack_status = ''duplicate_terminal'',
         ack_exchange_order_id = ir_exchange_order_id existing, ack_exchange_now_ms = now,
         ack_reject_reason = ''already '' @ idem_status_text (ir_status existing)\<rparr>
      else
        \<lparr>ack_client_order_id = ir_client_order_id existing, ack_status = ''duplicate_pending'',
         ack_exchange_order_id = ir_exchange_order_id existing, ack_exchange_now_ms = now,
         ack_reject_reason = []\<rparr>)"

definition plain_ack :: "string \<Rightarrow> string \<Rightarrow> int \<Rightarrow> string \<Rightarrow> ack" where
  "plain_ack cid status now reason =
     \<lparr>ack_client_order_id = cid, ack_status = status, ack_exchange_order_id = [],
      ack_exchange_now_ms = now, ack_reject_reason = reason\<rparr>"

definition compute_slippage_bps :: "'d dec_ops \<Rightarrow> string \<Rightarrow> 'd \<Rightarrow> 'd \<Rightarrow> f64" where
  "compute_slippage_bps D side ref fill =
     (if d_is_zero D ref then Fin 0
      else let bps = (\<lambda>diff. d_float D (d_mul D (d_div D diff ref) (d_of_int D 10000))) in
        if side = ''buy'' then bps (d_sub D fill ref)
        else if side = ''sell'' then bps (d_sub D ref fill)
        else Fin 0)"

text \<open>
  \<open>handleTradeCommand\<close> is cut at the two points where it waits on the exchange: intake (every
  check up to the pending record), the call of \<open>Submit\<close>, and the bookkeeping after it.
\<close>

record 'd accepted_cmd =
  ac_cmd :: trade_command
  ac_clk :: int
  ac_qty :: 'd
  ac_limit :: 'd

definition htc_intake ::
  "'d agent_env \<Rightarrow> ('s, 'd) idem_ops \<Rightarrow> 'd dec_ops \<Rightarrow> trade_command \<Rightarrow> string \<Rightarrow> ('s, 'd) agent
    \<Rightarrow> 'd accepted_cmd option \<times> ('s, 'd) agent" where
  "htc_intake env ops D tc msg_id st =
     (let cid = tc_client_order_id tc; (r, idem) = io_get ops cid (ag_idem st);
          st = st\<lparr>ag_idem := idem\<rparr>
      in case r of
        Inl e \<Rightarrow> (None, send_error env ''internal_error'' (''idempotency read: '' @ e) msg_id st)
      | Inr (Some existing) \<Rightarrow>
          (let (t, st) = now_ms env st in (None, send_ack env (duplicate_ack existing t) st))
      | Inr None \<Rightarrow>
        if ag_frozen st then
          (let (t, st) = now_ms env st in
           (None, send_ack env (plain_ack cid ''rejected'' t ''agent frozen by kill_switch'') st))
        else
          (let (clk, st) = now_ms env st;
               wall = (if tc_now_ms_at_saas tc > clk then tc_now_ms_at_saas tc else clk);
               refuse = (\<lambda>status reason. (None, send_ack env (plain_ack cid status clk reason) st))
           in if tc_valid_until_ms tc > 0 \<and> wall > tc_valid_until_ms tc then
                refuse ''expired'' ''valid_until_ms passed before submit''
              else case d_parse D (tc_quantity_decimal tc) of
                None \<Rightarrow> refuse ''rejected'' ''invalid quantity_decimal''
              | Some qty \<Rightarrow>
                if d_is_zero D qty then refuse ''rejected'' ''invalid quantity_decimal''
                else if tc_order_type tc = ''limit'' \<and> tc_limit_price_decimal tc = [] then
                  refuse ''rejected'' ''limit order missing limit_price_decimal''
                else if tc_order_type tc = ''limit'' \<and> d_parse D (tc_limit_price_decimal tc) = None then
                  refuse ''rejected'' ''invalid limit_price_decimal''
                else
                  (let limit = (if tc_order_type tc = ''limit''
                                then the (d_parse D (tc_limit_price_decimal tc)) else d_zero D);
                       (p, idem) = io_put ops \<lparr>ir_client_order_id = cid, ir_exchange_order_id = [],
                         ir_status = IdemPending, ir_market_ref = d_zero D, ir_submitted_at_ms = clk,
                         ir_last_updated_ms = clk\<rparr> (ag_idem st);
                       st = st\<lparr>ag_idem := idem\<rparr>
                   in case p of
                        Inl e \<Rightarrow> (None, send_error env ''internal_error'' e msg_id st)
                      | Inr _ \<Rightarrow>
                        (Some \<lparr>ac_cmd = tc, ac_clk = clk, ac_qty = qty, ac_limit = limit\<rparr>, st))))"

definition order_of :: "'d accepted_cmd \<Rightarrow> 'd exchange_order" where
  "order_of ac =
     (let tc = ac_cmd ac in
      \<lparr>eo_client_order_id = tc_client_order_id tc, eo_symbol = tc_symbol tc, eo_side = tc_side tc,
       eo_order_type = tc_order_type tc, eo_quantity = ac_qty ac, eo_limit_price = ac_limit ac,
       eo_time_in_force = tc_time_in_force tc\<rparr>)"

definition htc_submit ::
  "'d agent_env \<Rightarrow> 'd accepted_cmd \<Rightarrow> ('s, 'd) agent \<Rightarrow> (string + 'd submit_result) \<times> ('s, 'd) agent" where
  "htc_submit env ac st =
     (e_submit env (length (ag_submits st)) (order_of ac),
      st\<lparr>ag_submits := ag_submits st @ [order_of ac]\<rparr>)"

definition wire_fill :: "'d dec_ops \<Rightarrow> string \<Rightarrow> 'd \<Rightarrow> 'd exchange_fill \<Rightarrow> fill" where
  "wire_fill D side ref f =
     \<lparr>fl_fill_quantity_decimal = format_decimal D (xf_quantity f),
      fl_fill_price_decimal = format_decimal D (xf_price f),
      fl_fill_fee_asset = xf_fee_asset f,
      fl_fill_fee_amount_decimal = format_decimal D (xf_fee_amount f),
      fl_filled_at_exchange_ms = xf_filled_at_exchange_ms f,
      fl_actual_slippage_bps = compute_slippage_bps D side ref (xf_price f),
      fl_trade_id = xf_trade_id f, fl_client_order_id = [], fl_exchange_order_id = []\<rparr>"

definition named_fill :: "string \<Rightarrow> string \<Rightarrow> fill \<Rightarrow> fill" where
  "named_fill cid xoid f = f\<lparr>fl_client_order_id := cid, fl_exchange_order_id := xoid\<rparr>"

definition htc_finish ::
  "'d agent_env \<Rightarrow> ('s, 'd) idem_ops \<Rightarrow> 'd dec_ops \<Rightarrow> 'd accepted_cmd \<Rightarrow> string + 'd submit_result
    \<Rightarrow> ('s, 'd) agent \<Rightarrow> ('s, 'd) agent" where
  "htc_finish env ops D ac r st =
     (let tc = ac_cmd ac; cid = tc_client_order_id tc in
      case r of
        Inl e \<Rightarrow>
          (let (t, st) = now_ms env st;
               st = st\<lparr>ag_idem := snd (io_update ops cid IdemRejected [] t (ag_idem st))\<rparr>;
               (t, st) = now_ms env st
           in send_ack env (plain_ack cid ''rejected'' t e) st)
      | Inr res \<Rightarrow>
          (let ref = (if tc_order_type tc = ''limit'' then ac_limit ac else sr_market_ref res);
               st = send_ack env \<lparr>ack_client_order_id = cid, ack_status = ''accepted'',
                      ack_exchange_order_id = sr_exchange_order_id res,
                      ack_exchange_now_ms = sr_accepted_at_ms res, ack_reject_reason = []\<rparr> st;
               wfs = map (wire_fill D (tc_side tc) ref) (sr_fills res);
               cum = fold (\<lambda>f c. d_add D c (xf_quantity f)) (sr_fills res) (d_zero D);
               full = (sr_fills res \<noteq> [] \<and> d_ge D cum (ac_qty ac));
               st = (if sr_fills res = [] then st
                     else let st = fold (\<lambda>f. delta_add_fill
                                (named_fill cid (sr_exchange_order_id res) f)) wfs st;
                              ou = \<lparr>ou_client_order_id = cid,
                                    ou_exchange_order_id = sr_exchange_order_id res,
                                    ou_status = (if full then ''filled'' else ''partial_filled''),
                                    ou_fills = wfs,
                                    ou_cumulative_filled_quantity_decimal = format_decimal D cum\<rparr>
                          in snd (send_typed env (OOrderUpdate ou) st));
               (t, st) = now_ms env st;
               rec = \<lparr>ir_client_order_id = cid, ir_exchange_order_id = sr_exchange_order_id res,
                      ir_status = (if full then IdemFilled else IdemAccepted), ir_market_ref = ref,
                      ir_submitted_at_ms = ac_clk ac, ir_last_updated_ms = t\<rparr>
           in st\<lparr>ag_idem := snd (io_put ops rec (ag_idem st))\<rparr>))"

definition handle_trade_command ::
  "'d agent_env \<Rightarrow> ('s, 'd) idem_ops \<Rightarrow> 'd dec_ops \<Rightarrow> envelope \<Rightarrow> ('s, 'd) agent \<Rightarrow> ('s, 'd) agent" where
  "handle_trade_command env ops D e st =
     (case decode_payload trade_command_fields zero_trade_command e of
        Inl err \<Rightarrow> send_error env ''decode_failed'' ''wire: payload decode failed'' (env_msg_id e) st
      | Inr tc \<Rightarrow>
          (case htc_intake env ops D tc (env_msg_id e) st of
             (None, st) \<Rightarrow> st
           | (Some ac, st) \<Rightarrow> (case htc_submit env ac st of (r, st) \<Rightarrow> htc_finish env ops D ac r st)))"

section \<open>The other inbound messages (\<open>client.go\<close>)\<close>

definition handle_ping :: "'d agent_env \<Rightarrow> envelope \<Rightarrow> ('s, 'd) agent \<Rightarrow> ('s, 'd) agent" where
  "handle_ping env e st =
     (let (t, st) = now_ms env st in
      snd (send_typed env (OPong \<lparr>po_echo_msg_id = env_msg_id e, po_agent_now_ms = t,
        po_exchange_reachable = e_reachable env (ag_ticks st)\<rparr>) st))"

definition handle_kill_switch :: "'d agent_env \<Rightarrow> envelope \<Rightarrow> ('s, 'd) agent \<Rightarrow> ('s, 'd) agent" where
  "handle_kill_switch env e st =
     (case decode_payload kill_switch_fields zero_kill_switch e of
        Inl err \<Rightarrow> send_error env ''decode_failed'' ''wire: payload decode failed'' (env_msg_id e) st
      | Inr ks \<Rightarrow>
          (let st = (if ks_symbol ks = ''resume'' then st\<lparr>ag_frozen := False\<rparr>
                     else st\<lparr>ag_frozen := True\<rparr>);
               (t, st) = now_ms env st
           in send_ack env (plain_ack (env_msg_id e) ''accepted'' t []) st))"

definition send_state_sync_response ::
  "'d agent_env \<Rightarrow> 'd dec_ops \<Rightarrow> ('s, 'd) agent \<Rightarrow> bool \<times> ('s, 'd) agent" where
  "send_state_sync_response env D st =
     (let (r, st) = query_positions env st in
      case r of
        Inl e \<Rightarrow> (False, st)
      | Inr ps \<Rightarrow>
          (let (t, st) = now_ms env st in
           send_typed env (OStateSync \<lparr>ssr_reported_at_ms = t,
             ssr_positions = positions_to_wire D ps, ssr_open_orders = [],
             ssr_since_last_fills = [], ssr_last_seen_msg_id = []\<rparr>) st))"

definition dispatch_inbound ::
  "'d agent_env \<Rightarrow> ('s, 'd) idem_ops \<Rightarrow> 'd dec_ops \<Rightarrow> envelope \<Rightarrow> ('s, 'd) agent \<Rightarrow> ('s, 'd) agent" where
  "dispatch_inbound env ops D e st =
     (if env_type e = TypePing then handle_ping env e st
      else if env_type e = TypeTradeCommand then handle_trade_command env ops D e st
      else if env_type e = TypeKillSwitch then handle_kill_switch env e st
      else if env_type e = TypeGracefulShutdown then st
      else if env_type e = TypeStateSyncRequest then snd (send_state_sync_response env D st)
      else if env_type e = TypeError then st
      else send_error env ''unknown_type'' (''unexpected type post-handshake: '' @ env_type e)
             (env_msg_id e) st)"

definition read_loop_step ::
  "'d agent_env \<Rightarrow> ('s, 'd) idem_ops \<Rightarrow> 'd dec_ops \<Rightarrow> json option \<Rightarrow> ('s, 'd) agent \<Rightarrow> ('s, 'd) agent" where
  \<comment> \<open>one turn of \<open>runReadLoop\<close> on a frame that was read\<close>
  "read_loop_step env ops D frame st =
     (case decode_envelope frame of
        Inl err \<Rightarrow> send_error env (error_code_for_decode err) ''decode envelope'' [] st
      | Inr e \<Rightarrow> dispatch_inbound env ops D e st)"

section \<open>Asynchronous order events\<close>

definition map_event_status_to_idem :: "string \<Rightarrow> idem_status \<Rightarrow> idem_status" where
  "map_event_status_to_idem s current =
     (if s = ''filled'' then IdemFilled
      else if s = ''cancelled'' then IdemCancelled
      else if s = ''rejected'' then IdemRejected
      else if s = ''partial_filled'' then current
      else current)"

definition or_fallback :: "string \<Rightarrow> string \<Rightarrow> string" where
  "or_fallback primary fallback = (if primary \<noteq> [] then primary else fallback)"

definition zero_idem_rec :: "'d dec_ops \<Rightarrow> 'd idem_rec" where
  "zero_idem_rec D = \<lparr>ir_client_order_id = [], ir_exchange_order_id = [], ir_status = IdemPending,
     ir_market_ref = d_zero D, ir_submitted_at_ms = 0, ir_last_updated_ms = 0\<rparr>"

definition order_event_update ::
  "'d dec_ops \<Rightarrow> 'd order_event \<Rightarrow> 'd idem_rec \<Rightarrow> order_update" where
  "order_event_update D ev rec =
     (let cum = (case oe_fill ev of
            Some f \<Rightarrow> if d_is_zero D (oe_cumulative ev) then xf_quantity f else oe_cumulative ev
          | None \<Rightarrow> oe_cumulative ev)
      in \<lparr>ou_client_order_id = oe_client_order_id ev,
          ou_exchange_order_id = or_fallback (oe_exchange_order_id ev) (ir_exchange_order_id rec),
          ou_status = oe_status ev,
          ou_fills = (case oe_fill ev of
             None \<Rightarrow> []
           | Some f \<Rightarrow> [wire_fill D (oe_side ev) (ir_market_ref rec) f]),
          ou_cumulative_filled_quantity_decimal = format_decimal D cum\<rparr>)"

definition on_order_event ::
  "'d agent_env \<Rightarrow> ('s, 'd) idem_ops \<Rightarrow> 'd dec_ops \<Rightarrow> 'd order_event \<Rightarrow> ('s, 'd) agent \<Rightarrow> ('s, 'd) agent" where
  "on_order_event env ops D ev st =
     (if oe_client_order_id ev = [] then st
      else
        (let cid = oe_client_order_id ev; (r, idem) = io_get ops cid (ag_idem st);
             st = st\<lparr>ag_idem := idem\<rparr>;
             proceed = (\<lambda>rec readable st.
               let ou = order_event_update D ev rec;
                   st = fold (\<lambda>f. delta_add_fill (named_fill cid (ou_exchange_order_id ou) f))
                          (ou_fills ou) st;
                   new = map_event_status_to_idem (oe_status ev) (ir_status rec);
                   st = (if readable \<and> new \<noteq> ir_status rec then
                           (let (t, st) = now_ms env st in
                            st\<lparr>ag_idem := snd (io_update ops cid new (ou_exchange_order_id ou) t (ag_idem st))\<rparr>)
                         else st)
               in if \<not> ag_conn st then st else snd (send_typed env (OOrderUpdate ou) st))
         in case r of
              Inl e \<Rightarrow> proceed (zero_idem_rec D) False st
            | Inr None \<Rightarrow> st
            | Inr (Some rec) \<Rightarrow> proceed rec True st))"

end
