(* ===== verification/AgentSession.thy ===== *)
theory AgentSession
  imports AgentClient
begin

text \<open>
  The life of an agent process: its configuration (\<open>internal/agent/config.go\<close>), the agent's side
  of the handshake (\<open>handshake.go\<close>), one session and the reconnect loop (\<open>client.go\<close>), the choice
  of the store and the exchange (\<open>cmd/agent\<close>).
\<close>

section \<open>Configuration\<close>

record agent_config =
  ac_agent_id :: string
  ac_account_id :: string
  ac_saas_url :: string
  ac_saas_token :: string
  ac_exchange_name :: string
  ac_api_key :: string
  ac_api_secret :: string
  ac_base_url :: string
  ac_log_level :: string
  ac_log_path :: string
  ac_db_path :: string
  ac_retention_days :: int

definition exchange_environment :: "agent_config \<Rightarrow> string" where
  "exchange_environment c =
     (if ac_exchange_name c = ''mock'' then ''mock''
      else if str_contains (ac_base_url c) ''testnet'' then ''testnet''
      else if str_contains (ac_base_url c) ''binance.com'' then ''mainnet''
      else [])"

definition validate_agent_config :: "agent_config \<Rightarrow> string option" where
  \<comment> \<open>the error, if there is one\<close>
  "validate_agent_config c =
     (if ac_agent_id c = [] then Some ''agent: agent_id empty''
      else if ac_account_id c = [] then Some ''agent: account_id empty''
      else if ac_saas_url c = [] then Some ''agent: saas_url empty''
      else if ac_saas_token c = [] then Some ''agent: saas_token empty''
      else if ac_exchange_name c = [] then Some ''agent: exchange.name empty''
      else None)"

definition apply_agent_defaults :: "agent_config \<Rightarrow> agent_config" where
  "apply_agent_defaults c =
     (let c = (if ac_log_level c = [] then c\<lparr>ac_log_level := ''info''\<rparr> else c)
      in if ac_retention_days c = 0 then c\<lparr>ac_retention_days := 7\<rparr> else c)"

definition load_agent_config :: "agent_config \<Rightarrow> string + agent_config" where
  \<comment> \<open>\<open>LoadConfig\<close> on the parsed file\<close>
  "load_agent_config c =
     (case validate_agent_config c of Some e \<Rightarrow> Inl e | None \<Rightarrow> Inr (apply_agent_defaults c))"

datatype exchange_kind = UseMock | UseBinance

definition build_exchange :: "agent_config \<Rightarrow> string + exchange_kind" where
  "build_exchange c =
     (if ac_exchange_name c = ''mock'' then Inr UseMock
      else if ac_exchange_name c = ''binance_spot'' then
        (if ac_api_key c = [] \<or> ac_api_secret c = [] then
           Inl ''binance_spot requires exchange.api_key and exchange.api_secret in config''
         else Inr UseBinance)
      else Inl ''unsupported exchange.name'')"

definition purge_cutoff :: "agent_config \<Rightarrow> int \<Rightarrow> int" where
  \<comment> \<open>milliseconds; the retention is a \<open>time.Duration\<close> in nanoseconds, which wraps\<close>
  "purge_cutoff c now_ns =
     (now_ns + wrap64 (- mul64 (mul64 (ac_retention_days c) 24) 3600000000000)) div 1000000"

definition open_idempotency :: "agent_config \<Rightarrow> int \<Rightarrow> sqlite_store \<Rightarrow> sqlite_store option" where
  \<comment> \<open>the purge at start-up, whose failure is only logged; nothing for the in-memory store\<close>
  "open_idempotency c now_ns s =
     (if ac_db_path c = [] then None else Some (snd (sql_purge (purge_cutoff c now_ns) s)))"

section \<open>Backoff\<close>

definition default_backoff :: "int list" where
  "default_backoff =
     [500000000, 1000000000, 2000000000, 4000000000, 8000000000, 16000000000, 32000000000,
      60000000000]"

definition trunc64 :: "f64 \<Rightarrow> int" where
  \<comment> \<open>\<open>int64(x)\<close> for an \<open>x\<close> in range: the fraction is dropped\<close>
  "trunc64 x = (if 0 \<le> f_val x then \<lfloor>f_val x\<rfloor> else \<lceil>f_val x\<rceil>)"

definition backoff_jitter :: "f64 \<Rightarrow> f64" where
  \<comment> \<open>the default jitter on a draw of \<open>rand.Float64()\<close>\<close>
  "backoff_jitter u = f_add (f_const (4 / 5)) (f_mul u (f_const (2 / 5)))"

definition next_backoff :: "int list \<Rightarrow> f64 \<Rightarrow> ('s, 'd) agent \<Rightarrow> (int \<times> ('s, 'd) agent) option" where
  \<comment> \<open>nothing for the index panic of an empty sequence\<close>
  "next_backoff backoff jit st =
     (if backoff = [] then None
      else let idx = (if length backoff \<le> ag_backoff_idx st then length backoff - 1
                      else ag_backoff_idx st);
               scaled = trunc64 (f_mul (f_of_int (backoff ! idx)) jit)
           in Some (scaled, if idx < length backoff - 1 then st\<lparr>ag_backoff_idx := idx + 1\<rparr> else st))"

definition reset_backoff :: "('s, 'd) agent \<Rightarrow> ('s, 'd) agent" where
  "reset_backoff st = st\<lparr>ag_backoff_idx := 0\<rparr>"

section \<open>The handshake\<close>

datatype inbound = InFrame "json option" | InReadErr

datatype hs_result =
    HsOk
  | HsErr        \<comment> \<open>an error the reconnect loop retries\<close>
  | HsFatal      \<comment> \<open>\<open>errFatalAuth\<close>\<close>
  | HsPanic      \<comment> \<open>a nil payload pointer is read\<close>

fun read_one_envelope :: "inbound list \<Rightarrow> envelope option \<times> inbound list" where
  "read_one_envelope [] = (None, [])"
| "read_one_envelope (InReadErr # fs) = (None, fs)"
| "read_one_envelope (InFrame j # fs) =
     (case decode_envelope j of Inl _ \<Rightarrow> (None, fs) | Inr e \<Rightarrow> (Some e, fs))"

definition is_fatal_auth_code :: "string \<Rightarrow> bool" where
  "is_fatal_auth_code code \<longleftrightarrow>
     code = ''invalid_token'' \<or> code = ''revoked'' \<or> code = ''schema_mismatch'' \<or>
     code = ''account_mismatch''"

definition agent_version :: string where
  "agent_version = ''0.1.0''"

definition agent_handshake ::
  "'d agent_env \<Rightarrow> 'd dec_ops \<Rightarrow> agent_config \<Rightarrow> inbound list \<Rightarrow> ('s, 'd) agent
    \<Rightarrow> hs_result \<times> inbound list \<times> ('s, 'd) agent" where
  "agent_handshake env D cfg fs st =
     (let hello = \<lparr>he_agent_version = agent_version, he_account_id = ac_account_id cfg,
            he_schema_version = schema_version, he_platform = [],
            he_exchange = ac_exchange_name cfg, he_environment = exchange_environment cfg\<rparr>;
          (ok, st) = send_typed env (OHello hello) st
      in if \<not> ok then (HsErr, fs, st)
      else let (r, fs) = read_one_envelope fs
      in if r = None \<or> env_type (the r) \<noteq> TypeAuthRequired then (HsErr, fs, st)
      else let (ok, st) = send_typed env (OAuth \<lparr>au_token = ac_saas_token cfg\<rparr>) st
      in if \<not> ok then (HsErr, fs, st)
      else let (r, fs) = read_one_envelope fs
      in case r of
           None \<Rightarrow> (HsErr, fs, st)
         | Some e \<Rightarrow>
           if env_type e = TypeAuthFail then
             (case decode_payload auth_fail_fields zero_auth_fail e of
                Inl _ \<Rightarrow> (HsPanic, fs, st)
              | Inr f \<Rightarrow> (if is_fatal_auth_code (af_code f) then HsFatal else HsErr, fs, st))
           else if env_type e \<noteq> TypeAuthOK then (HsErr, fs, st)
           else (case decode_payload auth_ok_fields zero_auth_ok e of
                Inl _ \<Rightarrow> (HsPanic, fs, st)
              | Inr ok \<Rightarrow>
                (let st = st\<lparr>ag_frozen := ok_frozen ok\<rparr>; (r, fs) = read_one_envelope fs
                 in if r = None \<or> env_type (the r) \<noteq> TypeStateSyncRequest then (HsErr, fs, st)
                 else let (sent, st) = send_state_sync_response env D st
                 in (if sent then HsOk else HsErr, fs, st))))"

section \<open>A session and the reconnect loop\<close>

fun run_read_loop ::
  "'d agent_env \<Rightarrow> ('s, 'd) idem_ops \<Rightarrow> 'd dec_ops \<Rightarrow> inbound list \<Rightarrow> ('s, 'd) agent
    \<Rightarrow> ('s, 'd) agent" where
  "run_read_loop env ops D [] st = st"
| "run_read_loop env ops D (InReadErr # fs) st = st"
| "run_read_loop env ops D (InFrame j # fs) st =
     run_read_loop env ops D fs (read_loop_step env ops D j st)"

definition run_session ::
  "'d agent_env \<Rightarrow> ('s, 'd) idem_ops \<Rightarrow> 'd dec_ops \<Rightarrow> agent_config \<Rightarrow> inbound list option
    \<Rightarrow> ('s, 'd) agent \<Rightarrow> hs_result \<times> ('s, 'd) agent" where
  \<comment> \<open>the inbound frames of the connection, nothing when the dial fails\<close>
  "run_session env ops D cfg dial st =
     (case dial of
        None \<Rightarrow> (HsErr, st)
      | Some fs \<Rightarrow>
          (let st = st\<lparr>ag_conn := True\<rparr>; (r, fs, st) = agent_handshake env D cfg fs st
           in if r = HsOk
              then (HsOk, (run_read_loop env ops D fs (reset_backoff st))\<lparr>ag_conn := False\<rparr>)
              else (r, st\<lparr>ag_conn := False\<rparr>)))"

datatype run_end = RunFatal | RunPanic | RunCancelled

fun run_client ::
  "'d agent_env \<Rightarrow> ('s, 'd) idem_ops \<Rightarrow> 'd dec_ops \<Rightarrow> agent_config \<Rightarrow> int list
    \<Rightarrow> (inbound list option \<times> f64) list \<Rightarrow> ('s, 'd) agent \<Rightarrow> run_end \<times> int list \<times> ('s, 'd) agent" where
  \<comment> \<open>the sessions the loop goes through before its context is cancelled, each with the jitter
    drawn after it; the waits are returned\<close>
  "run_client env ops D cfg backoff [] st = (RunCancelled, [], st)"
| "run_client env ops D cfg backoff ((dial, jit) # rest) st =
     (let (r, st) = run_session env ops D cfg dial st in
      if r = HsPanic then (RunPanic, [], st)
      else if r = HsFatal then (RunFatal, [], st)
      else case next_backoff backoff jit st of
             None \<Rightarrow> (RunPanic, [], st)
           | Some (w, st) \<Rightarrow>
               (let (e, ws, st) = run_client env ops D cfg backoff rest st in (e, w # ws, st)))"

end
