(* ===== verification/AgentSafety.thy ===== *)
theory AgentSafety
  imports AgentSession
begin

text \<open>
  What the agent guarantees, whatever the order in which its goroutines run: the read loop, cut at
  the points where it waits on the exchange, the streamer's order events, the delta-report ticker
  and a crash of the process. The guarantees about orders are proved once against the idempotency
  contract and rest on its interpretation for \<open>SqliteStore\<close>.
\<close>

section \<open>Interleaved steps\<close>

text \<open>Where the read loop stands in \<open>handleTradeCommand\<close>.\<close>

datatype 'd phase =
    Idle
  | Prepared "'d accepted_cmd"
  | Submitted "'d accepted_cmd" "string + 'd submit_result"

record ('s, 'd) process =
  pr_client :: "('s, 'd) agent"
  pr_phase :: "'d phase"

definition restarted :: "('s, 'd) agent \<Rightarrow> ('s, 'd) agent" where
  \<comment> \<open>what survives the process: the store, and the traces of what the outside has seen\<close>
  "restarted st = st\<lparr>ag_frozen := False, ag_delta_fills := [], ag_delta_errors := [],
     ag_conn := False, ag_backoff_idx := 0\<rparr>"

inductive agent_step ::
  "'d agent_env \<Rightarrow> ('s, 'd) idem_ops \<Rightarrow> 'd dec_ops \<Rightarrow> agent_config \<Rightarrow> bool
    \<Rightarrow> ('s, 'd) process \<Rightarrow> ('s, 'd) process \<Rightarrow> bool"
  for env :: "'d agent_env" and ops :: "('s, 'd) idem_ops" and D :: "'d dec_ops"
    and cfg :: agent_config and durable :: bool
where
  intake:
    "htc_intake env ops D tc msg_id st = (Some ac, st') \<Longrightarrow>
       agent_step env ops D cfg durable \<lparr>pr_client = st, pr_phase = Idle\<rparr>
         \<lparr>pr_client = st', pr_phase = Prepared ac\<rparr>"
| refuse:
    "htc_intake env ops D tc msg_id st = (None, st') \<Longrightarrow>
       agent_step env ops D cfg durable \<lparr>pr_client = st, pr_phase = Idle\<rparr>
         \<lparr>pr_client = st', pr_phase = Idle\<rparr>"
| submit:
    "htc_submit env ac st = (r, st') \<Longrightarrow>
       agent_step env ops D cfg durable \<lparr>pr_client = st, pr_phase = Prepared ac\<rparr>
         \<lparr>pr_client = st', pr_phase = Submitted ac r\<rparr>"
| finish:
    "agent_step env ops D cfg durable \<lparr>pr_client = st, pr_phase = Submitted ac r\<rparr>
       \<lparr>pr_client = htc_finish env ops D ac r st, pr_phase = Idle\<rparr>"
| message:
    "env_type e \<noteq> TypeTradeCommand \<Longrightarrow>
       agent_step env ops D cfg durable \<lparr>pr_client = st, pr_phase = Idle\<rparr>
         \<lparr>pr_client = dispatch_inbound env ops D e st, pr_phase = Idle\<rparr>"
| bad_frame:
    "agent_step env ops D cfg durable \<lparr>pr_client = st, pr_phase = Idle\<rparr>
       \<lparr>pr_client = send_error env code txt ref st, pr_phase = Idle\<rparr>"
| order_event:
    "agent_step env ops D cfg durable \<lparr>pr_client = st, pr_phase = ph\<rparr>
       \<lparr>pr_client = on_order_event env ops D ev st, pr_phase = ph\<rparr>"
| delta_tick:
    "ag_conn st \<Longrightarrow> agent_step env ops D cfg durable \<lparr>pr_client = st, pr_phase = ph\<rparr>
       \<lparr>pr_client = send_delta_report env D st, pr_phase = ph\<rparr>"
| disconnect:
    "agent_step env ops D cfg durable \<lparr>pr_client = st, pr_phase = Idle\<rparr>
       \<lparr>pr_client = st\<lparr>ag_conn := False\<rparr>, pr_phase = Idle\<rparr>"
| connect:
    "agent_handshake env D cfg fs (st\<lparr>ag_conn := True\<rparr>) = (r, fs', st') \<Longrightarrow>
       agent_step env ops D cfg durable \<lparr>pr_client = st, pr_phase = Idle\<rparr>
         \<lparr>pr_client = (if r = HsOk then reset_backoff st' else st'\<lparr>ag_conn := False\<rparr>),
          pr_phase = Idle\<rparr>"
| crash:
    "durable \<Longrightarrow> agent_step env ops D cfg durable \<lparr>pr_client = st, pr_phase = ph\<rparr>
       \<lparr>pr_client = restarted st, pr_phase = Idle\<rparr>"

inductive_cases agent_stepE: "agent_step env ops D cfg durable p q"

definition fresh_agent :: "'s \<Rightarrow> ('s, 'd) agent" where
  "fresh_agent s = \<lparr>ag_frozen = False, ag_idem = s, ag_delta_fills = [], ag_delta_errors = [],
     ag_conn = False, ag_backoff_idx = 0, ag_ticks = 0, ag_writes = 0, ag_queries = 0,
     ag_sent = [], ag_submits = []\<rparr>"

definition fresh_process :: "'s \<Rightarrow> ('s, 'd) process" where
  "fresh_process s = \<lparr>pr_client = fresh_agent s, pr_phase = Idle\<rparr>"

section \<open>What each operation leaves alone\<close>

definition submitted_ids :: "('s, 'd) agent \<Rightarrow> string list" where
  "submitted_ids st = map eo_client_order_id (ag_submits st)"

lemma now_ms_frame [frame_simps]:
  "ag_frozen (snd (now_ms env st)) = ag_frozen st" "ag_idem (snd (now_ms env st)) = ag_idem st"
  "ag_delta_fills (snd (now_ms env st)) = ag_delta_fills st"
  "ag_delta_errors (snd (now_ms env st)) = ag_delta_errors st"
  "ag_sent (snd (now_ms env st)) = ag_sent st" "ag_submits (snd (now_ms env st)) = ag_submits st"
  "ag_conn (snd (now_ms env st)) = ag_conn st"
  by (simp_all add: now_ms_def)

lemma send_typed_frame [frame_simps]:
  "ag_frozen (snd (send_typed env m st)) = ag_frozen st"
  "ag_idem (snd (send_typed env m st)) = ag_idem st"
  "ag_delta_fills (snd (send_typed env m st)) = ag_delta_fills st"
  "ag_delta_errors (snd (send_typed env m st)) = ag_delta_errors st"
  "ag_submits (snd (send_typed env m st)) = ag_submits st"
  "ag_conn (snd (send_typed env m st)) = ag_conn st"
  by (simp_all add: send_typed_def frame_simps Let_def)

lemma send_typed_sent:
  "ag_sent (snd (send_typed env m st)) =
     (if fst (send_typed env m st) then ag_sent st @ [m] else ag_sent st)"
  by (simp add: send_typed_def frame_simps Let_def)

lemma send_ack_frame [frame_simps]:
  "ag_frozen (send_ack env a st) = ag_frozen st" "ag_idem (send_ack env a st) = ag_idem st"
  "ag_delta_fills (send_ack env a st) = ag_delta_fills st"
  "ag_delta_errors (send_ack env a st) = ag_delta_errors st"
  "ag_submits (send_ack env a st) = ag_submits st" "ag_conn (send_ack env a st) = ag_conn st"
  by (simp_all add: send_ack_def frame_simps)

lemma send_error_frame [frame_simps]:
  "ag_frozen (send_error env c m r st) = ag_frozen st"
  "ag_idem (send_error env c m r st) = ag_idem st"
  "ag_delta_fills (send_error env c m r st) = ag_delta_fills st"
  "ag_delta_errors (send_error env c m r st) = ag_delta_errors st"
  "ag_submits (send_error env c m r st) = ag_submits st" "ag_conn (send_error env c m r st) = ag_conn st"
  by (simp_all add: send_error_def frame_simps)

lemma query_positions_frame [frame_simps]:
  "ag_frozen (snd (query_positions env st)) = ag_frozen st"
  "ag_idem (snd (query_positions env st)) = ag_idem st"
  "ag_delta_fills (snd (query_positions env st)) = ag_delta_fills st"
  "ag_delta_errors (snd (query_positions env st)) = ag_delta_errors st"
  "ag_submits (snd (query_positions env st)) = ag_submits st"
  "ag_sent (snd (query_positions env st)) = ag_sent st"
  by (simp_all add: query_positions_def)

lemma send_state_sync_frame [frame_simps]:
  "ag_frozen (snd (send_state_sync_response env D st)) = ag_frozen st"
  "ag_idem (snd (send_state_sync_response env D st)) = ag_idem st"
  "ag_delta_fills (snd (send_state_sync_response env D st)) = ag_delta_fills st"
  "ag_delta_errors (snd (send_state_sync_response env D st)) = ag_delta_errors st"
  "ag_submits (snd (send_state_sync_response env D st)) = ag_submits st"
  by (simp_all add: send_state_sync_response_def query_positions_def now_ms_def frame_simps
      Let_def split: sum.splits)

lemma delta_add_frame [frame_simps]:
  "ag_idem (delta_add_fill f st) = ag_idem st" "ag_submits (delta_add_fill f st) = ag_submits st"
  "ag_frozen (delta_add_fill f st) = ag_frozen st" "ag_sent (delta_add_fill f st) = ag_sent st"
  "ag_delta_fills (delta_add_fill f st) = ag_delta_fills st @ [f]"
  "ag_conn (delta_add_fill f st) = ag_conn st"
  by (simp_all add: delta_add_fill_def)

lemma fold_add_fill_frame [frame_simps]:
  "ag_idem (fold (\<lambda>f. delta_add_fill (g f)) fs st) = ag_idem st"
  "ag_submits (fold (\<lambda>f. delta_add_fill (g f)) fs st) = ag_submits st"
  "ag_frozen (fold (\<lambda>f. delta_add_fill (g f)) fs st) = ag_frozen st"
  "ag_sent (fold (\<lambda>f. delta_add_fill (g f)) fs st) = ag_sent st"
  "ag_conn (fold (\<lambda>f. delta_add_fill (g f)) fs st) = ag_conn st"
  "ag_delta_fills (fold (\<lambda>f. delta_add_fill (g f)) fs st) = ag_delta_fills st @ map g fs"
  by (induction fs arbitrary: st) (simp_all add: frame_simps)

lemma delta_requeue_frame [frame_simps]:
  "ag_idem (delta_requeue fs es st) = ag_idem st"
  "ag_submits (delta_requeue fs es st) = ag_submits st"
  "ag_frozen (delta_requeue fs es st) = ag_frozen st"
  "ag_sent (delta_requeue fs es st) = ag_sent st"
  by (simp_all add: delta_requeue_def)

lemma delta_report_frame [frame_simps]:
  "ag_idem (send_delta_report env D st) = ag_idem st"
  "ag_submits (send_delta_report env D st) = ag_submits st"
  "ag_frozen (send_delta_report env D st) = ag_frozen st"
  by (simp_all add: send_delta_report_def split_beta delta_add_error_def delta_drain_def
      frame_simps Let_def split: sum.splits)

lemma handshake_frame:
  assumes "agent_handshake env D cfg fs st = (r, fs', st')"
  shows "ag_idem st' = ag_idem st" "ag_submits st' = ag_submits st"
    "ag_delta_fills st' = ag_delta_fills st" "ag_delta_errors st' = ag_delta_errors st"
proof -
  have "ag_idem (snd (snd (agent_handshake env D cfg fs st))) = ag_idem st \<and>
      ag_submits (snd (snd (agent_handshake env D cfg fs st))) = ag_submits st \<and>
      ag_delta_fills (snd (snd (agent_handshake env D cfg fs st))) = ag_delta_fills st \<and>
      ag_delta_errors (snd (snd (agent_handshake env D cfg fs st))) = ag_delta_errors st"
    by (simp add: agent_handshake_def split_beta Let_def frame_simps split: option.splits sum.splits)
  then show "ag_idem st' = ag_idem st" "ag_submits st' = ag_submits st"
    "ag_delta_fills st' = ag_delta_fills st" "ag_delta_errors st' = ag_delta_errors st"
    using assms by simp_all
qed

lemma order_event_frame [frame_simps]:
  "ag_submits (on_order_event env ops D ev st) = ag_submits st"
  "ag_frozen (on_order_event env ops D ev st) = ag_frozen st"
  by (simp_all add: on_order_event_def split_beta Let_def frame_simps split: sum.splits option.splits)

lemma dispatch_frame:
  assumes "env_type e \<noteq> TypeTradeCommand"
  shows "ag_idem (dispatch_inbound env ops D e st) = ag_idem st"
    "ag_submits (dispatch_inbound env ops D e st) = ag_submits st"
    "ag_delta_fills (dispatch_inbound env ops D e st) = ag_delta_fills st"
  using assms
  by (simp_all add: dispatch_inbound_def handle_ping_def handle_kill_switch_def split_beta Let_def
      frame_simps split: sum.splits)

lemma intake_frame:
  assumes "htc_intake env ops D tc msg_id st = (r, st')"
  shows "ag_submits st' = ag_submits st" "ag_delta_fills st' = ag_delta_fills st"
    "ag_frozen st' = ag_frozen st"
proof -
  have "ag_submits (snd (htc_intake env ops D tc msg_id st)) = ag_submits st \<and>
      ag_delta_fills (snd (htc_intake env ops D tc msg_id st)) = ag_delta_fills st \<and>
      ag_frozen (snd (htc_intake env ops D tc msg_id st)) = ag_frozen st"
    by (simp add: htc_intake_def split_beta Let_def frame_simps split: sum.splits option.splits)
  then show "ag_submits st' = ag_submits st" "ag_delta_fills st' = ag_delta_fills st"
    "ag_frozen st' = ag_frozen st" using assms by simp_all
qed

lemma finish_frame:
  "ag_submits (htc_finish env ops D ac r st) = ag_submits st"
  "ag_frozen (htc_finish env ops D ac r st) = ag_frozen st"
  by (simp_all add: htc_finish_def split_beta Let_def frame_simps split: sum.splits)

section \<open>At most one submission per client order id\<close>

definition order_id :: "'d accepted_cmd \<Rightarrow> string" where
  "order_id ac = tc_client_order_id (ac_cmd ac)"

fun phase_inv :: "string set \<Rightarrow> string set \<Rightarrow> 'd phase \<Rightarrow> bool" where
  "phase_inv known sent Idle = True"
| "phase_inv known sent (Prepared ac) = (order_id ac \<in> known \<and> order_id ac \<notin> sent)"
| "phase_inv known sent (Submitted ac r) = (order_id ac \<in> sent)"

definition orders_inv :: "('s \<Rightarrow> string \<rightharpoonup> idem_core) \<Rightarrow> ('s, 'd) process \<Rightarrow> bool" where
  "orders_inv view p \<longleftrightarrow>
     (let st = pr_client p; sent = set (submitted_ids st); known = dom (view (ag_idem st)) in
      distinct (submitted_ids st) \<and> sent \<subseteq> known \<and> phase_inv known sent (pr_phase p))"

lemma phase_inv_mono: "phase_inv known sent ph \<Longrightarrow> known \<subseteq> known' \<Longrightarrow> phase_inv known' sent ph"
  by (cases ph) auto

lemma order_of_id [simp]: "eo_client_order_id (order_of ac) = order_id ac"
  by (simp add: order_of_def order_id_def Let_def)

context idem_contract
begin

lemma get_none: "fst (io_get ops k s) = Inr None \<Longrightarrow> view s k = None"
  using get_ok [of k s None] by simp

lemma get_some: "fst (io_get ops k s) = Inr (Some rec) \<Longrightarrow> view s k = Some (core_of rec)"
  using get_ok [of k s "Some rec"] by simp

lemma intake_accepts:
  assumes "htc_intake env ops D tc msg_id st = (Some ac, st')"
  shows "view (ag_idem st) (tc_client_order_id tc) = None"
    and "view (ag_idem st') = (view (ag_idem st))
      (tc_client_order_id tc \<mapsto> (IdemPending, [], ac_clk ac, ac_clk ac))"
    and "ac_cmd ac = tc" and "\<not> ag_frozen st"
  using assms
  by (auto simp: htc_intake_def split_beta Let_def frame_simps core_of_def get_view
      dest!: get_none dest: put_ok split: sum.splits option.splits if_splits)

lemma intake_refuses:
  assumes "htc_intake env ops D tc msg_id st = (None, st')"
  shows "view (ag_idem st') = view (ag_idem st)"
  using assms
  by (auto simp: htc_intake_def split_beta Let_def frame_simps get_view
      dest: put_err split: sum.splits option.splits if_splits)

lemma finish_dom:
  "dom (view (ag_idem st)) \<subseteq> dom (view (ag_idem (htc_finish env ops D ac r st)))"
proof -
  have "dom (view s) \<subseteq> dom (view (snd (io_put ops rec s)))" for rec s by (rule dom_put)
  then show ?thesis
    by (simp add: htc_finish_def split_beta Let_def frame_simps dom_update split: sum.splits)
qed

lemma order_event_dom:
  "dom (view (ag_idem (on_order_event env ops D ev st))) = dom (view (ag_idem st))"
  by (simp add: on_order_event_def split_beta Let_def frame_simps dom_update get_view
      split: sum.splits option.splits)

lemma orders_inv_step:
  assumes "agent_step env ops D cfg durable p q" "orders_inv view p"
  shows "orders_inv view q"
  using assms
proof cases
  case (intake tc msg_id st ac st')
  with assms(2) intake_accepts [OF intake(3)] intake_frame [OF intake(3)] show ?thesis
    by (auto simp: orders_inv_def submitted_ids_def order_id_def)
next
  case (refuse tc msg_id st st')
  with assms(2) intake_refuses [OF refuse(3)] intake_frame [OF refuse(3)] show ?thesis
    by (simp add: orders_inv_def submitted_ids_def)
next
  case (connect fs st r fs' st')
  with assms(2) handshake_frame [OF connect(3)] show ?thesis
    by (simp add: orders_inv_def submitted_ids_def reset_backoff_def)
next
  case (order_event st ph ev)
  with assms(2) show ?thesis
    by (simp add: orders_inv_def submitted_ids_def order_event_dom frame_simps)
next
  case (finish st ac r)
  with assms(2) finish_dom [of st env D ac r] show ?thesis
    by (simp add: orders_inv_def submitted_ids_def finish_frame Let_def) blast
qed (auto simp: orders_inv_def submitted_ids_def htc_submit_def dispatch_frame frame_simps
    restarted_def Let_def)

lemma orders_inv_run:
  assumes "(agent_step env ops D cfg durable)\<^sup>*\<^sup>* (fresh_process s) p"
  shows "orders_inv view p"
  using assms
proof (induction rule: rtranclp_induct)
  case base
  show ?case by (simp add: orders_inv_def fresh_process_def fresh_agent_def submitted_ids_def)
next
  case (step p q)
  then show ?case by (blast intro: orders_inv_step)
qed

end

section \<open>The guarantees\<close>


definition sample_command :: trade_command where
  "sample_command = \<lparr>tc_intent_kind = ''macro'', tc_client_order_id = ''o1'', tc_instance_id = ''i1'',
     tc_symbol = ''BTCUSDT'', tc_side = ''buy'', tc_order_type = ''market'',
     tc_quantity_decimal = ''111'', tc_limit_price_decimal = [], tc_time_in_force = [],
     tc_valid_until_ms = 100, tc_now_ms_at_saas = 5\<rparr>"

definition sample_env :: "nat agent_env" where
  \<comment> \<open>every order is filled at once at price 2 against a reference of 1\<close>
  "sample_env = \<lparr>e_now = int, e_write_ok = (\<lambda>n. n \<noteq> 1),
     e_submit = (\<lambda>_ ord. Inr \<lparr>sr_exchange_order_id = ''x1'', sr_accepted_at_ms = 7, sr_market_ref = 1,
       sr_fills = [\<lparr>xf_quantity = eo_quantity ord, xf_price = 2, xf_fee_asset = ''BNB'',
         xf_fee_amount = 0, xf_filled_at_exchange_ms = 8, xf_trade_id = 9\<rparr>]\<rparr>),
     e_positions = (\<lambda>_. Inr []), e_reachable = (\<lambda>_. True)\<rparr>"

abbreviation "sample_store \<equiv> \<lparr>sq_rows = Map.empty, sq_errors = []\<rparr>"

definition sample_accepted :: "nat accepted_cmd" where
  "sample_accepted = \<lparr>ac_cmd = sample_command, ac_clk = 0, ac_qty = 2, ac_limit = 0\<rparr>"

lemma sample_intake:
  "\<exists>st'. htc_intake sample_env (sqlite_ops unary_dec) unary_dec sample_command m
     (fresh_agent sample_store) = (Some sample_accepted, st') \<and> ag_submits st' = []"
  by (simp add: htc_intake_def sample_command_def sample_env_def sample_accepted_def fresh_agent_def
      sqlite_ops_def sql_get_def sql_put_def unary_dec_def next_error_def spend_error_def now_ms_def
      Let_def)

definition sample_config :: agent_config where
  "sample_config = \<lparr>ac_agent_id = ''g1'', ac_account_id = ''acc'', ac_saas_url = ''ws://s'',
     ac_saas_token = ''t'', ac_exchange_name = ''mock'', ac_api_key = [], ac_api_secret = [],
     ac_base_url = [], ac_log_level = ''info'', ac_log_path = [], ac_db_path = ''a.db'',
     ac_retention_days = 7\<rparr>"


end
