(* ===== verification/AgentTheorems.thy ===== *)
theory AgentTheorems
  imports AgentSafety "HOL-Library.Sublist"
begin

text \<open>
  Further guarantees of the agent: exactly when a command reaches the exchange, the frozen latch,
  the delta-report buffer, the window between submission and bookkeeping, the handshake and the
  reconnect delays.
\<close>

section \<open>When a command is submitted\<close>

text \<open>The specification: what a decoded command and the agent's state must satisfy.\<close>

definition command_order :: "'d dec_ops \<Rightarrow> trade_command \<Rightarrow> 'd exchange_order option" where
  "command_order D tc =
     (case d_parse D (tc_quantity_decimal tc) of
        None \<Rightarrow> None
      | Some q \<Rightarrow>
          if d_is_zero D q then None
          else map_option (\<lambda>l. \<lparr>eo_client_order_id = tc_client_order_id tc, eo_symbol = tc_symbol tc,
              eo_side = tc_side tc, eo_order_type = tc_order_type tc, eo_quantity = q,
              eo_limit_price = l, eo_time_in_force = tc_time_in_force tc\<rparr>)
            (if tc_order_type tc \<noteq> ''limit'' then Some (d_zero D)
             else if tc_limit_price_decimal tc = [] then None
             else d_parse D (tc_limit_price_decimal tc)))"

definition unexpired :: "trade_command \<Rightarrow> int \<Rightarrow> bool" where
  "unexpired tc clk \<longleftrightarrow>
     tc_valid_until_ms tc \<le> 0 \<or>
     (clk \<le> tc_valid_until_ms tc \<and> tc_now_ms_at_saas tc \<le> tc_valid_until_ms tc)"

definition pending_rec :: "'d dec_ops \<Rightarrow> trade_command \<Rightarrow> int \<Rightarrow> 'd idem_rec" where
  "pending_rec D tc clk = \<lparr>ir_client_order_id = tc_client_order_id tc, ir_exchange_order_id = [],
     ir_status = IdemPending, ir_market_ref = d_zero D, ir_submitted_at_ms = clk,
     ir_last_updated_ms = clk\<rparr>"

definition to_submit ::
  "'d agent_env \<Rightarrow> ('s, 'd) idem_ops \<Rightarrow> 'd dec_ops \<Rightarrow> envelope \<Rightarrow> ('s, 'd) agent
    \<Rightarrow> 'd exchange_order list" where
  "to_submit env ops D e st =
     (case decode_payload trade_command_fields zero_trade_command e of
        Inl _ \<Rightarrow> []
      | Inr tc \<Rightarrow>
          (let clk = e_now env (ag_ticks st);
               (r, idem) = io_get ops (tc_client_order_id tc) (ag_idem st)
           in if r = Inr None \<and> \<not> ag_frozen st \<and> unexpired tc clk \<and>
                 \<not> isl (fst (io_put ops (pending_rec D tc clk) idem))
              then (case command_order D tc of None \<Rightarrow> [] | Some eo \<Rightarrow> [eo])
              else []))"

lemma submits_finish_submit:
  "htc_submit env ac st = (r, st') \<Longrightarrow>
     ag_submits (htc_finish env ops D ac r st') = ag_submits st @ [order_of ac]"
  by (auto simp: finish_frame htc_submit_def)

lemma trade_command_submits:
  "ag_submits (handle_trade_command env ops D e st) = ag_submits st @ to_submit env ops D e st"
proof (cases "decode_payload trade_command_fields zero_trade_command e")
  case (Inl err)
  then show ?thesis by (simp add: handle_trade_command_def to_submit_def frame_simps)
next
  case (Inr tc)
  obtain r idem where g: "io_get ops (tc_client_order_id tc) (ag_idem st) = (r, idem)"
    by (cases "io_get ops (tc_client_order_id tc) (ag_idem st)")
  obtain a st' where i: "htc_intake env ops D tc (env_msg_id e) st = (a, st')"
    by (cases "htc_intake env ops D tc (env_msg_id e) st")
  have a: "(case a of None \<Rightarrow> [] | Some ac \<Rightarrow> [order_of ac]) = to_submit env ops D e st"
    using i g Inr
    by (auto simp: htc_intake_def to_submit_def command_order_def unexpired_def pending_rec_def
        order_of_def now_ms_def split_beta Let_def not_less
        split: sum.splits option.splits if_splits)
  show ?thesis
  proof (cases a)
    case None
    with a i Inr intake_frame(1) [OF i] show ?thesis by (simp add: handle_trade_command_def)
  next
    case (Some ac)
    obtain res st'' where s: "htc_submit env ac st' = (res, st'')" by (cases "htc_submit env ac st'")
    with a i Inr Some intake_frame(1) [OF i] submits_finish_submit [OF s] show ?thesis
      by (simp add: handle_trade_command_def)
  qed
qed

text \<open>
  C6: The functional specification of \<open>handleTradeCommand\<close>: it hands to the exchange exactly the
  order the command describes, and does so exactly when the payload decodes, the idempotency read
  succeeds and finds nothing, the agent is not frozen, the command has not expired on either clock,
  its quantity parses and is not zero, a limit order has a price that parses, and the pending
  record is stored. In every other case nothing is submitted.
\<close>

theorem trade_command_submits_iff:
  "ag_submits (handle_trade_command env ops D e st) = ag_submits st @ to_submit env ops D e st"
  by (rule trade_command_submits)

section \<open>The frozen latch\<close>

definition is_resume_frame :: "json option \<Rightarrow> bool" where
  "is_resume_frame j =
     (case decode_envelope j of
        Inl _ \<Rightarrow> False
      | Inr e \<Rightarrow> env_type e = TypeKillSwitch \<and>
          (case decode_payload kill_switch_fields zero_kill_switch e of
             Inl _ \<Rightarrow> False
           | Inr ks \<Rightarrow> ks_symbol ks = ''resume''))"

lemma trade_command_frozen:
  "ag_frozen (handle_trade_command env ops D e st) = ag_frozen st"
  by (auto simp: handle_trade_command_def htc_submit_def finish_frame frame_simps
      split: sum.splits option.splits prod.splits dest: intake_frame(3))

lemma frozen_step:
  assumes "ag_frozen st" "\<not> is_resume_frame j"
  shows "ag_frozen (read_loop_step env ops D j st)"
    and "ag_submits (read_loop_step env ops D j st) = ag_submits st"
proof -
  have "to_submit env ops D e st = []" for e
    using assms(1) by (simp add: to_submit_def Let_def split_beta split: sum.splits)
  then have t: "ag_submits (handle_trade_command env ops D e st) = ag_submits st" for e
    by (simp add: trade_command_submits)
  have d: "ag_submits (dispatch_inbound env ops D e st) = ag_submits st" for e
  proof (cases "env_type e = TypeTradeCommand")
    case True
    then show ?thesis by (simp add: dispatch_inbound_def t)
  next
    case False
    then show ?thesis by (rule dispatch_frame(2))
  qed
  show "ag_submits (read_loop_step env ops D j st) = ag_submits st"
    by (simp add: read_loop_step_def frame_simps d split: sum.splits)
  show "ag_frozen (read_loop_step env ops D j st)"
    using assms
    by (auto simp: read_loop_step_def dispatch_inbound_def handle_ping_def handle_kill_switch_def
        is_resume_frame_def trade_command_frozen frame_simps split_beta Let_def
        split: sum.splits)
qed


definition kill_frame :: "string \<Rightarrow> json" where
  "kill_frame scp = marshal_envelope \<lparr>env_msg_id = ''k1'', env_type = TypeKillSwitch,
     env_schema_version = schema_version, env_timestamp_ms = 1, env_account_id = [],
     env_payload = Some (JObj [(''scope'', JStr ''global''), (''symbol'', JStr scp)])\<rparr>"

lemma kill_frame_decodes:
  "decode_envelope (Some (kill_frame scp)) = Inr \<lparr>env_msg_id = ''k1'', env_type = TypeKillSwitch,
     env_schema_version = schema_version, env_timestamp_ms = 1, env_account_id = [],
     env_payload = Some (JObj [(''scope'', JStr ''global''), (''symbol'', JStr scp)])\<rparr>"
  by (simp add: decode_envelope_def kill_frame_def unmarshal_marshal_envelope in64_def)

lemma kill_payload_symbol:
  "env_payload e = Some (JObj [(''scope'', JStr ''global''), (''symbol'', JStr scp)]) \<Longrightarrow>
   \<exists>ks. decode_payload kill_switch_fields zero_kill_switch e = Inr ks \<and> ks_symbol ks = scp"
  by (simp add: decode_payload_def kill_switch_fields_def zero_kill_switch_def json_defs fold_key_def
      lower_char_def)


text \<open>
  The latch follows the last kill or resume received: after handling a kill switch message the
  agent is frozen unless the message is a resume, and the handling is acknowledged under the
  message's own id when the write succeeds.
\<close>

theorem kill_switch_sets_latch:
  assumes "decode_payload kill_switch_fields zero_kill_switch e = Inr ks"
    and "env_type e = TypeKillSwitch" "e_write_ok env (ag_writes st)"
  shows "(ag_frozen (dispatch_inbound env ops D e st) \<longleftrightarrow> ks_symbol ks \<noteq> ''resume'') \<and>
    (\<exists>t. ag_sent (dispatch_inbound env ops D e st) =
      ag_sent st @ [OAck (plain_ack (env_msg_id e) ''accepted'' t [])])"
  using assms
  by (auto simp: dispatch_inbound_def handle_kill_switch_def send_ack_def send_typed_def now_ms_def
      Let_def)

theorem kill_switch_sets_latch_witness:
  "\<exists>e. decode_envelope (Some (kill_frame ''resume'')) = Inr e \<and>
     \<not> ag_frozen (dispatch_inbound sample_env (sqlite_ops unary_dec) unary_dec e
       ((fresh_agent sample_store)\<lparr>ag_frozen := True\<rparr>))"
proof -
  let ?e = "\<lparr>env_msg_id = ''k1'', env_type = TypeKillSwitch,
     env_schema_version = schema_version, env_timestamp_ms = 1, env_account_id = [],
     env_payload = Some (JObj [(''scope'', JStr ''global''), (''symbol'', JStr ''resume'')])\<rparr>"
  obtain ks where ks: "decode_payload kill_switch_fields zero_kill_switch ?e = Inr ks"
      "ks_symbol ks = ''resume''"
    using kill_payload_symbol [of ?e "''resume''"] by auto
  have "e_write_ok sample_env (ag_writes ((fresh_agent sample_store)\<lparr>ag_frozen := True\<rparr>))"
    by (simp add: sample_env_def fresh_agent_def)
  from kill_switch_sets_latch [OF ks(1) _ this] ks(2) kill_frame_decodes show ?thesis by auto
qed

section \<open>The delta buffer\<close>

text \<open>The fills that delta reports written so far carried, followed by those still buffered.\<close>

fun fills_of :: "out_msg \<Rightarrow> fill list" where
  "fills_of (ODelta dr) = ds_fills (dr_since_last_report dr)"
| "fills_of _ = []"

definition fill_ledger :: "('s, 'd) agent \<Rightarrow> fill list" where
  "fill_ledger st = concat (map fills_of (ag_sent st)) @ ag_delta_fills st"

lemma ledger_send:
  "fills_of m = [] \<Longrightarrow> fill_ledger (snd (send_typed env m st)) = fill_ledger st"
  by (simp add: fill_ledger_def send_typed_sent frame_simps)

lemma ledger_frame [frame_simps]:
  "fill_ledger (snd (now_ms env st)) = fill_ledger st"
  "fill_ledger (send_ack env a st) = fill_ledger st"
  "fill_ledger (send_error env c m r st) = fill_ledger st"
  "fill_ledger (snd (query_positions env st)) = fill_ledger st"
  "fill_ledger (snd (send_state_sync_response env D st)) = fill_ledger st"
  "fill_ledger (st\<lparr>ag_idem := i\<rparr>) = fill_ledger st"
  "fill_ledger (st\<lparr>ag_frozen := b\<rparr>) = fill_ledger st"
  "fill_ledger (st\<lparr>ag_conn := b\<rparr>) = fill_ledger st"
  "fill_ledger (st\<lparr>ag_backoff_idx := n\<rparr>) = fill_ledger st"
  "fill_ledger (st\<lparr>ag_submits := xs\<rparr>) = fill_ledger st"
  "fill_ledger (fold (\<lambda>f. delta_add_fill (g f)) fs st) = fill_ledger st @ map g fs"
  by (simp_all add: send_ack_def send_error_def ledger_send send_state_sync_response_def
      query_positions_def now_ms_def split_beta Let_def split: sum.splits)
    (simp_all add: fill_ledger_def frame_simps)

lemma delta_conserves: "fill_ledger (send_delta_report env D st) = fill_ledger st"
  by (simp add: send_delta_report_def split_beta Let_def delta_add_error_def delta_drain_def
      delta_requeue_def fill_ledger_def send_typed_sent frame_simps split: sum.splits)

text \<open>
  C24: A delta report loses nothing: whether the positions query fails or not and whether the write
  succeeds or not, the fills already reported followed by the fills still buffered are the same
  list before and after \<open>sendDeltaReport\<close>; a failed send puts them back in front, in order.
\<close>

theorem delta_report_conserves_fills:
  "fill_ledger (send_delta_report env D st) = fill_ledger st"
  by (rule delta_conserves)

lemma ledger_dispatch:
  assumes "env_type e \<noteq> TypeTradeCommand"
  shows "fill_ledger (dispatch_inbound env ops D e st) = fill_ledger st"
  using assms
  by (simp add: dispatch_inbound_def handle_ping_def handle_kill_switch_def split_beta Let_def
      ledger_send frame_simps split: sum.splits)

lemma ledger_intake:
  assumes "htc_intake env ops D tc msg_id st = (r, st')"
  shows "fill_ledger st' = fill_ledger st"
proof -
  have "fill_ledger (snd (htc_intake env ops D tc msg_id st)) = fill_ledger st"
    by (simp add: htc_intake_def split_beta Let_def frame_simps split: sum.splits option.splits)
  then show ?thesis using assms by simp
qed

lemma ledger_handshake:
  assumes "agent_handshake env D cfg fs st = (r, fs', st')"
  shows "fill_ledger st' = fill_ledger st"
proof -
  have "fill_ledger (snd (snd (agent_handshake env D cfg fs st))) = fill_ledger st"
    by (simp add: agent_handshake_def split_beta Let_def ledger_send frame_simps
        split: option.splits sum.splits)
  then show ?thesis using assms by simp
qed

definition result_fills :: "'d dec_ops \<Rightarrow> 'd accepted_cmd \<Rightarrow> 'd submit_result \<Rightarrow> fill list" where
  \<comment> \<open>the fills of a submission, each naming its order\<close>
  "result_fills D ac res =
     (let tc = ac_cmd ac;
          ref = (if tc_order_type tc = ''limit'' then ac_limit ac else sr_market_ref res)
      in map (\<lambda>f. named_fill (tc_client_order_id tc) (sr_exchange_order_id res)
           (wire_fill D (tc_side tc) ref f)) (sr_fills res))"

lemma ledger_finish:
  "fill_ledger (htc_finish env ops D ac r st) =
     fill_ledger st @ (case r of Inl _ \<Rightarrow> [] | Inr res \<Rightarrow> result_fills D ac res)"
  by (cases r) (simp_all add: htc_finish_def split_beta Let_def ledger_send frame_simps
      result_fills_def comp_def)

lemma ledger_order_event:
  "\<exists>new. fill_ledger (on_order_event env ops D ev st) = fill_ledger st @ new"
  by (simp add: on_order_event_def split_beta Let_def ledger_send frame_simps
      split: sum.splits option.splits)

lemma ledger_step:
  assumes "agent_step env ops D cfg False p q"
  shows "prefix (fill_ledger (pr_client p)) (fill_ledger (pr_client q))"
  using assms
proof cases
  case (order_event st ph ev)
  then show ?thesis using ledger_order_event [of env ops D ev st] by (auto simp: prefix_def)
next
  case (intake tc msg_id st ac st')
  then show ?thesis by (simp add: ledger_intake)
next
  case (refuse tc msg_id st st')
  then show ?thesis by (simp add: ledger_intake)
next
  case (connect fs st r fs' st')
  then show ?thesis
    using ledger_handshake [OF connect(3)] by (simp add: reset_backoff_def frame_simps)
qed (simp_all add: htc_submit_def ledger_dispatch ledger_finish frame_simps
    delta_conserves restarted_def)

lemma ledger_run:
  assumes "(agent_step env ops D cfg False)\<^sup>*\<^sup>* p q"
  shows "prefix (fill_ledger (pr_client p)) (fill_ledger (pr_client q))"
  using assms
  by (induction rule: rtranclp_induct) (auto dest: ledger_step intro: prefix_order.trans)

text \<open>
  A fill the exchange returns is never lost while the process lives: from the moment a
  submission's bookkeeping ends, along every interleaving without a crash, each of its fills is in
  a delta report already written or in the buffer of the next one, named by its order ids.
\<close>

theorem submitted_fills_reach_delta_report:
  assumes "(agent_step env ops D cfg False)\<^sup>*\<^sup>*
      \<lparr>pr_client = htc_finish env ops D ac (Inr res) st, pr_phase = Idle\<rparr> q"
  shows "prefix (fill_ledger st @ result_fills D ac res) (fill_ledger (pr_client q))"
  using ledger_run [OF assms] by (simp add: ledger_finish)

theorem submitted_fills_reach_delta_report_witness:
  "prefix (fill_ledger (fresh_agent sample_store) @ result_fills unary_dec sample_accepted
       \<lparr>sr_exchange_order_id = ''x1'', sr_accepted_at_ms = 7, sr_market_ref = 1, sr_fills = []\<rparr>)
     (fill_ledger (send_delta_report sample_env unary_dec
       (on_order_event sample_env (sqlite_ops unary_dec) unary_dec
         \<lparr>oe_client_order_id = ''o1'', oe_exchange_order_id = [], oe_status = ''filled'',
           oe_side = ''buy'', oe_fill = None, oe_cumulative = 0\<rparr>
       ((htc_finish sample_env (sqlite_ops unary_dec) unary_dec sample_accepted
          (Inr \<lparr>sr_exchange_order_id = ''x1'', sr_accepted_at_ms = 7, sr_market_ref = 1,
             sr_fills = []\<rparr>) ((fresh_agent sample_store)\<lparr>ag_conn := True\<rparr>))))))"
proof -
  let ?step = "agent_step sample_env (sqlite_ops unary_dec) unary_dec sample_config False"
  let ?res = "\<lparr>sr_exchange_order_id = ''x1'', sr_accepted_at_ms = 7, sr_market_ref = 1, sr_fills = []\<rparr>
    :: nat submit_result"
  let ?st = "(fresh_agent sample_store)\<lparr>ag_conn := True\<rparr>"
  let ?ev = "\<lparr>oe_client_order_id = ''o1'', oe_exchange_order_id = [], oe_status = ''filled'',
           oe_side = ''buy'', oe_fill = None, oe_cumulative = 0\<rparr> :: nat order_event"
  let ?a = "htc_finish sample_env (sqlite_ops unary_dec) unary_dec sample_accepted (Inr ?res) ?st"
  let ?b = "on_order_event sample_env (sqlite_ops unary_dec) unary_dec ?ev ?a"
  have c: "ag_conn ?b"
    by (simp add: on_order_event_def htc_finish_def split_beta Let_def frame_simps fresh_agent_def
        split: sum.splits option.splits)
  have "?step \<lparr>pr_client = ?a, pr_phase = Idle\<rparr> \<lparr>pr_client = ?b, pr_phase = Idle\<rparr>"
    by (rule agent_step.order_event)
  moreover have "?step \<lparr>pr_client = ?b, pr_phase = Idle\<rparr>
      \<lparr>pr_client = send_delta_report sample_env unary_dec ?b, pr_phase = Idle\<rparr>"
    by (rule agent_step.delta_tick) (rule c)
  ultimately have "?step\<^sup>*\<^sup>* \<lparr>pr_client = ?a, pr_phase = Idle\<rparr>
      \<lparr>pr_client = send_delta_report sample_env unary_dec ?b, pr_phase = Idle\<rparr>" by simp
  from submitted_fills_reach_delta_report [OF this] show ?thesis
    by (simp add: fill_ledger_def fresh_agent_def)
qed

section \<open>Reconnect delays\<close>

lemma rnd_four_fifths: "rnd (4 / 5) = 3602879701896397 / 4503599627370496"
  by code_simp

lemma rnd_two_fifths: "rnd (2 / 5) = 3602879701896397 / 9007199254740992"
  by code_simp

lemma rnd_jitter_fixed:
  "rnd (3602879701896397 / 4503599627370496) = 3602879701896397 / 4503599627370496"
  "rnd (3602879701896397 / 9007199254740992) = 3602879701896397 / 9007199254740992"
  "rnd (1351079888211149 / 1125899906842624) = 1351079888211149 / 1125899906842624"
  using rnd_dyadic [of 3602879701896397 52] rnd_dyadic [of 3602879701896397 53]
    rnd_dyadic [of 1351079888211149 50]
  by simp_all

lemmas jitter_consts = rnd_four_fifths rnd_two_fifths rnd_jitter_fixed

lemma jitter_bounds:
  assumes "f_finite u" "0 \<le> f_val u" "f_val u \<le> 1"
  shows "f_finite (backoff_jitter u)" "4 / 5 \<le> f_val (backoff_jitter u)"
    "f_val (backoff_jitter u) \<le> 1351079888211149 / 1125899906842624"
proof -
  let ?A = "rnd (2 / 5)" and ?B = "rnd (4 / 5)" and ?m = "f_mul u (f_const (2 / 5))"
  have a: "f_finite (f_const (2 / 5))" "f_val (f_const (2 / 5)) = ?A"
    and b: "f_finite (f_const (4 / 5))" "f_val (f_const (4 / 5)) = ?B"
    by (simp_all add: f_const_val)
  have A: "0 \<le> ?A" "?A \<le> 1" by (simp_all add: jitter_consts)
  have p: "0 \<le> f_val u * ?A" "f_val u * ?A \<le> ?A"
    using A assms(2,3) by (auto intro: mult_left_le_one_le)
  then have "\<bar>f_val u * f_val (f_const (2 / 5))\<bar> \<le> 2 ^ 53" using A a by simp
  note m = f_mul_val [OF assms(1) a(1) this, unfolded a(2)]
  have M: "0 \<le> f_val ?m" "f_val ?m \<le> ?A"
    using m(2) p rnd_nonneg rnd_mono [of "f_val u * ?A" ?A] by (simp_all add: jitter_consts)
  then have "\<bar>f_val (f_const (4 / 5)) + f_val ?m\<bar> \<le> 2 ^ 53"
    using A b by (simp add: jitter_consts)
  note s = f_add_val [OF b(1) m(1) this, unfolded b(2)]
  show "f_finite (backoff_jitter u)" using s(1) by (simp add: backoff_jitter_def)
  have "?B \<le> rnd (?B + f_val ?m)"
    using rnd_mono [of ?B "?B + f_val ?m"] M(1) by (simp add: jitter_consts)
  with s(2) show "4 / 5 \<le> f_val (backoff_jitter u)"
    by (simp add: backoff_jitter_def jitter_consts)
  have "?B + f_val ?m \<le> 1351079888211149 / 1125899906842624"
    using M(2) by (simp add: jitter_consts)
  then have "rnd (?B + f_val ?m) \<le> rnd (1351079888211149 / 1125899906842624)" by (rule rnd_mono)
  with s(2) show "f_val (backoff_jitter u) \<le> 1351079888211149 / 1125899906842624"
    by (simp add: backoff_jitter_def jitter_consts)
qed

lemma scaled_wait:
  assumes "f_finite j" "4 / 5 \<le> f_val j" "f_val j \<le> 1351079888211149 / 1125899906842624"
    and d: "0 < n" "n \<le> 12000000000"
  shows "4 * n \<le> trunc64 (f_mul (f_of_int (5 * n)) j)"
    "trunc64 (f_mul (f_of_int (5 * n)) j) \<le> 6 * n"
proof -
  have i: "f_finite (f_of_int (5 * n))" "f_val (f_of_int (5 * n)) = of_int (5 * n)"
    using d by (intro f_of_int_val; simp)+
  let ?x = "of_int (5 * n) * f_val j"
  have lo: "of_int (4 * n) \<le> ?x"
    using mult_left_mono [OF assms(2), of "of_int (5 * n)"] d by simp
  have n: "(of_int n :: rat) \<le> 12000000000"
    using d(2) by (metis of_int_le_iff of_int_numeral)
  have "?x \<le> of_int (5 * n) * (1351079888211149 / 1125899906842624)"
    using assms(3) d(1) by (intro mult_left_mono) simp_all
  also have "\<dots> \<le> of_int (12 * n + 1) / 2" using n by simp
  finally have hi: "?x \<le> of_int (12 * n + 1) / 2" .
  have r: "rnd (of_int (4 * n)) = of_int (4 * n)"
    using d by (intro rnd_representable representable_int) simp
  have "representable (of_int (12 * n + 1) / 2)"
    unfolding representable_def using d
    by (intro exI [of _ "12 * n + 1"] exI [of _ "- 1"]) (simp add: power_int_minus field_simps)
  note h = rnd_representable [OF this]
  have b: "\<bar>f_val (f_of_int (5 * n)) * f_val j\<bar> \<le> 2 ^ 53"
    using lo hi n d(1) unfolding i(2) by (simp add: abs_le_iff)
  have v: "f_val (f_mul (f_of_int (5 * n)) j) = rnd ?x"
    using f_mul_val(2) [OF i(1) assms(1) b] i(2) by simp
  have lo': "of_int (4 * n) \<le> rnd ?x" using rnd_mono [OF lo] r by simp
  have hi': "rnd ?x \<le> of_int (12 * n + 1) / 2" using rnd_mono [OF hi] h by simp
  have nn: "0 \<le> rnd ?x" using lo' d(1) by (meson of_int_0_le_iff order.trans zero_le_mult_iff le_less zero_le_numeral)
  show "4 * n \<le> trunc64 (f_mul (f_of_int (5 * n)) j)"
    using lo' nn by (simp add: trunc64_def v le_floor_iff)
  have "rnd ?x < of_int (6 * n + 1)" using hi' by simp
  then have "\<lfloor>rnd ?x\<rfloor> < 6 * n + 1" by (simp only: floor_less_iff)
  then show "trunc64 (f_mul (f_of_int (5 * n)) j) \<le> 6 * n"
    using nn by (simp add: trunc64_def v)
qed
lemma default_backoff_fifths:
  "b \<in> set default_backoff \<Longrightarrow> \<exists>n. b = 5 * n \<and> 0 < n \<and> n \<le> 12000000000"
  by (auto simp: default_backoff_def intro!: exI [of _ "b div 5"])

text \<open>
  The reconnect delays: the n-th failure in a row waits within 20 percent of the n-th entry of
  the sequence 0.5, 1, 2, ... 60 seconds, exactly so in nanoseconds in spite of the float
  arithmetic, every later failure waits around the last entry, and the index moves on by one until
  it stays there.
\<close>

theorem reconnect_wait_bounds:
  assumes "f_finite u" "0 \<le> f_val u" "f_val u \<le> 1"
    and "next_backoff default_backoff (backoff_jitter u) st = Some (w, st')"
  shows "4 * (default_backoff ! min (ag_backoff_idx st) 7) \<le> 5 * w \<and>
    5 * w \<le> 6 * (default_backoff ! min (ag_backoff_idx st) 7) \<and>
    ag_backoff_idx st' = (if ag_backoff_idx st < 7 then ag_backoff_idx st + 1 else ag_backoff_idx st)"
proof -
  let ?i = "min (ag_backoff_idx st) 7"
  have len: "length default_backoff = 8" by (simp add: default_backoff_def)
  have i: "(if length default_backoff \<le> ag_backoff_idx st then length default_backoff - 1
      else ag_backoff_idx st) = ?i" unfolding len by auto
  have "default_backoff \<noteq> []" by (simp add: default_backoff_def)
  with assms(4) have w: "w = trunc64 (f_mul (f_of_int (default_backoff ! ?i)) (backoff_jitter u))"
    and s: "st' = (if ?i < 7 then st\<lparr>ag_backoff_idx := ?i + 1\<rparr> else st)"
    by (simp_all only: next_backoff_def Let_def i len) (auto split: if_splits)
  have "default_backoff ! ?i \<in> set default_backoff" by (rule nth_mem) (simp add: len)
  then obtain n where n: "default_backoff ! ?i = 5 * n" "0 < n" "n \<le> 12000000000"
    using default_backoff_fifths by blast
  with scaled_wait [OF jitter_bounds [OF assms(1-3)] n(2,3)] w s show ?thesis by auto
qed

theorem reconnect_wait_bounds_witness:
  "\<exists>w st'. next_backoff default_backoff (backoff_jitter (Fin (1 / 2)))
       ((fresh_agent new_memory_store)\<lparr>ag_backoff_idx := 3\<rparr> :: (nat memory_store, nat) agent)
       = Some (w, st') \<and> 3200000000 \<le> w \<and> w \<le> 4800000000 \<and> ag_backoff_idx st' = 4"
proof -
  let ?st = "(fresh_agent new_memory_store)\<lparr>ag_backoff_idx := 3\<rparr> :: (nat memory_store, nat) agent"
  obtain w st' where n: "next_backoff default_backoff (backoff_jitter (Fin (1 / 2))) ?st = Some (w, st')"
    by (simp add: next_backoff_def default_backoff_def Let_def)
  have m: "min (3::nat) 7 = 3" "default_backoff ! 3 = 4000000000"
    by (simp_all add: default_backoff_def)
  from reconnect_wait_bounds [OF _ _ _ n] n show ?thesis
    by (simp add: m)
qed

section \<open>An order event between submission and bookkeeping\<close>

lemma order_event_fills:
  assumes "sq_errors (ag_idem st) = []" "sq_rows (ag_idem st) cid = Some row" "cid \<noteq> []"
    and "sq_status row = IdemPending" "sq_market_ref_decimal row = None"
    and "oe_client_order_id ev = cid" "oe_status ev = ''filled''"
  shows "\<exists>row'. sq_rows (ag_idem (on_order_event env (sqlite_ops D) D ev st)) cid = Some row' \<and>
      sq_status row' = IdemFilled"
    and "sq_errors (ag_idem (on_order_event env (sqlite_ops D) D ev st)) = []"
  using assms
  by (simp_all add: on_order_event_def sqlite_ops_def sql_get_def sql_update_def next_error_def
      spend_error_def map_event_status_to_idem_def split_beta Let_def frame_simps)

text \<open>
  The bookkeeping at the end of \<open>handleTradeCommand\<close> does not look at the record again: when
  the streamer reports the order filled while \<open>Submit\<close> is still returning, the record becomes
  \<open>filled\<close> and is then overwritten with \<open>accepted\<close>, so a terminal order is later reported as
  pending to a repeated command.
\<close>

theorem bookkeeping_overwrites_fill_event:
  assumes "sq_errors (ag_idem st) = []" "sq_rows (ag_idem st) cid = Some row" "cid \<noteq> []"
    and "sq_status row = IdemPending" "sq_market_ref_decimal row = None"
    and "oe_client_order_id ev = cid" "oe_status ev = ''filled''"
    and "order_id ac = cid" "sr_fills res = []"
  shows "map_option sq_status (sq_rows (ag_idem (on_order_event env (sqlite_ops D) D ev st)) cid) =
      Some IdemFilled \<and>
    map_option sq_status (sq_rows (ag_idem (htc_finish env (sqlite_ops D) D ac (Inr res)
      (on_order_event env (sqlite_ops D) D ev st))) cid) = Some IdemAccepted"
  using order_event_fills [OF assms(1-7), of env D] assms(3,8,9)
  by (auto simp: htc_finish_def order_id_def sqlite_ops_def sql_put_def next_error_def
      spend_error_def split_beta Let_def frame_simps)

theorem bookkeeping_overwrites_fill_event_witness:
  "map_option sq_status (sq_rows (ag_idem (htc_finish sample_env (sqlite_ops unary_dec) unary_dec
      sample_accepted (Inr \<lparr>sr_exchange_order_id = ''x1'', sr_accepted_at_ms = 7, sr_market_ref = 1,
         sr_fills = []\<rparr>)
      (on_order_event sample_env (sqlite_ops unary_dec) unary_dec
        \<lparr>oe_client_order_id = ''o1'', oe_exchange_order_id = [], oe_status = ''filled'',
           oe_side = ''buy'', oe_fill = None, oe_cumulative = 0\<rparr>
        (fresh_agent \<lparr>sq_rows = [''o1'' \<mapsto> \<lparr>sq_exchange_order_id = None, sq_status = IdemPending,
            sq_market_ref_decimal = None, sq_submitted_at_ms = 0, sq_last_updated_ms = 0\<rparr>],
          sq_errors = []\<rparr>)))) ''o1'') = Some IdemAccepted"
  by (rule bookkeeping_overwrites_fill_event [where row =
        "\<lparr>sq_exchange_order_id = None, sq_status = IdemPending, sq_market_ref_decimal = None,
          sq_submitted_at_ms = 0, sq_last_updated_ms = 0\<rparr>", THEN conjunct2])
    (simp_all add: fresh_agent_def order_id_def sample_accepted_def sample_command_def)

section \<open>The handshake\<close>

lemma handshake_latch:
  assumes "agent_handshake env D cfg (InFrame j1 # InFrame j2 # fs) st = (HsOk, fs', st')"
  shows "\<exists>e a. decode_envelope j2 = Inr e \<and> env_type e = TypeAuthOK \<and>
    decode_payload auth_ok_fields zero_auth_ok e = Inr a \<and> ag_frozen st' = ok_frozen a"
  using assms
  by (auto simp: agent_handshake_def split_beta Let_def frame_simps
      split: sum.splits option.splits if_splits)

text \<open>
  A payload of \<open>auth_ok\<close> or \<open>auth_fail\<close> that does not decode crashes the agent: the decode
  error is dropped and the nil payload pointer is read, so the handshake panics and takes the
  process with it, instead of ending the session.
\<close>

theorem malformed_auth_reply_panics:
  assumes "decode_envelope j1 = Inr e1" "env_type e1 = TypeAuthRequired"
    and "decode_envelope j2 = Inr e2"
    and "(env_type e2 = TypeAuthOK \<and> isl (decode_payload auth_ok_fields zero_auth_ok e2)) \<or>
      (env_type e2 = TypeAuthFail \<and> isl (decode_payload auth_fail_fields zero_auth_fail e2))"
    and "e_write_ok env (ag_writes st)" "e_write_ok env (Suc (ag_writes st))"
  shows "fst (run_client env ops D cfg backoff
    ((Some (InFrame j1 # InFrame j2 # fs), jit) # rest) st) = RunPanic"
proof -
  have "fst (agent_handshake env D cfg (InFrame j1 # InFrame j2 # fs) (st\<lparr>ag_conn := True\<rparr>)) = HsPanic"
    using assms
    by (auto simp: agent_handshake_def send_typed_def now_ms_def Let_def isl_def)
  then show ?thesis by (simp add: run_session_def split_beta)
qed

theorem malformed_auth_reply_panics_witness:
  "fst (run_client (sample_env\<lparr>e_write_ok := (\<lambda>_. True)\<rparr>) memory_ops unary_dec sample_config default_backoff
    [(Some [InFrame (Some (marshal_envelope (server_envelope TypeAuthRequired (JObj [])))),
       InFrame (Some (marshal_envelope (server_envelope TypeAuthOK (JArr []))))], Fin 0)]
     (fresh_agent new_memory_store)) = RunPanic"
  by (rule malformed_auth_reply_panics
      [OF server_envelope_decodes [OF is_known_types(2)] _ server_envelope_decodes [OF is_known_types(4)]])
    (simp_all add: server_envelope_def decode_payload_def unmarshal_def)

end
