(* ===== verification/Dispatch.thy ===== *)
theory Dispatch
  imports Wire Strconv
begin

text \<open>
  From a strategy's order to the command on the wire (\<open>internal/strategy/contract.go\<close>,
  \<open>internal/saas/wshub/hub.go\<close>): the B2 price cap that turns a market order into a marketable
  limit, and the rendering of quantity and price with eight decimals.
\<close>

section \<open>Orders of a strategy (\<open>contract.go\<close>)\<close>

record order_intent =
  oi_kind :: string
  oi_side :: string
  oi_order_type :: string
  oi_quantity_usd :: f64
  oi_limit_price :: f64
  oi_client_order_id :: string
  oi_valid_until_ms :: int

record release_intent =
  ri_now_ms :: int
  ri_quantity :: f64
  ri_reason :: string

record portfolio =
  pf_dead_btc :: f64
  pf_float_btc :: f64
  pf_cold_sealed_btc :: f64
  pf_usdt :: f64

section \<open>The effective order (\<open>hub.go\<close>)\<close>

record effective_order =
  ef_order_type :: string
  ef_limit_price :: f64
  ef_time_in_force :: string

definition effective_dispatched_order ::
  "order_intent \<Rightarrow> f64 \<Rightarrow> f64 \<Rightarrow> string + effective_order" where
  "effective_dispatched_order oi latest_close price_cap_bps =
     (let eff = \<lparr>ef_order_type = oi_order_type oi, ef_limit_price = oi_limit_price oi,
            ef_time_in_force = []\<rparr>;
          capped = (\<lambda>p. Inr \<lparr>ef_order_type = ''limit'', ef_limit_price = p, ef_time_in_force = ''IOC''\<rparr>)
      in if oi_order_type oi \<noteq> ''market'' \<or> f_le price_cap_bps (Fin 0) then Inr eff
         else if oi_side oi = ''buy'' then
           capped (f_mul latest_close (f_add (Fin 1) (f_div price_cap_bps (Fin 10000))))
         else if oi_side oi = ''sell'' then
           capped (f_mul latest_close (f_sub (Fin 1) (f_div price_cap_bps (Fin 10000))))
         else Inl ''invalid side for price cap'')"

definition build_trade_command ::
  "order_intent \<Rightarrow> string \<Rightarrow> string \<Rightarrow> f64 \<Rightarrow> int \<Rightarrow> f64 \<Rightarrow> string + trade_command" where
  "build_trade_command oi instance_id symbol latest_close now_ms price_cap_bps =
     (if oi_client_order_id oi = [] then Inl ''OrderIntent.ClientOrderID empty''
      else if f_le (oi_quantity_usd oi) (Fin 0) then Inl ''OrderIntent.QuantityUSD invalid''
      else let qty = f_div (oi_quantity_usd oi) latest_close in
        case effective_dispatched_order oi latest_close price_cap_bps of
          Inl e \<Rightarrow> Inl e
        | Inr eff \<Rightarrow> Inr
            \<lparr>tc_intent_kind = oi_kind oi, tc_client_order_id = oi_client_order_id oi,
             tc_instance_id = instance_id, tc_symbol = symbol, tc_side = oi_side oi,
             tc_order_type = ef_order_type eff, tc_quantity_decimal = format8 qty,
             tc_limit_price_decimal =
               (if ef_order_type eff = ''limit'' then format8 (ef_limit_price eff) else []),
             tc_time_in_force = ef_time_in_force eff, tc_valid_until_ms = oi_valid_until_ms oi,
             tc_now_ms_at_saas = now_ms\<rparr>)"

section \<open>What reaches the agent\<close>

lemma format8_parse:
  assumes "f_finite x" "0 \<le> f_val x" "x \<noteq> NegZero"
  shows "\<exists>p. decimal_literal (format8 x) = Some p \<and> \<bar>p - f_val x\<bar> \<le> 1 / (2 * 10 ^ 8)"
  using assms scaled8_error [of "f_val x"]
  by (cases x) (auto simp: decimal_literal_format8 simp del: power_numeral)

lemma cap_factor_error:
  assumes "0 \<le> t" "t \<le> 1" "\<sigma> = 1 \<or> \<sigma> = - 1"
  shows "\<bar>rnd (1 + \<sigma> * rnd t) - (1 + \<sigma> * t)\<bar> \<le> 4 / 2 ^ 53"
proof -
  have k: "\<bar>rnd t - t\<bar> \<le> t / 2 ^ 53 + 1 / 2 ^ 60"
    using rnd_error [of t] tiny_le assms(1) by linarith
  have t53: "t / 2 ^ 53 \<le> 1 / 2 ^ 53" using assms(2) by (simp add: divide_right_mono)
  have e: "\<bar>rnd (1 + \<sigma> * rnd t) - (1 + \<sigma> * rnd t)\<bar> \<le> \<bar>1 + \<sigma> * rnd t\<bar> / 2 ^ 53 + 1 / 2 ^ 60"
    using rnd_error [of "1 + \<sigma> * rnd t"] tiny_le by linarith
  have "rnd t \<le> 1" using rnd_mono [OF assms(2)] by simp
  moreover have "0 \<le> rnd t" using rnd_nonneg [OF assms(1)] .
  ultimately have "\<bar>1 + \<sigma> * rnd t\<bar> \<le> 2" using assms(3) by auto
  then have "\<bar>1 + \<sigma> * rnd t\<bar> / 2 ^ 53 \<le> 2 / 2 ^ 53" by (intro divide_right_mono) simp_all
  with e have "\<bar>rnd (1 + \<sigma> * rnd t) - (1 + \<sigma> * rnd t)\<bar> \<le> 2 / 2 ^ 53 + 1 / 2 ^ 60" by linarith
  moreover have "\<bar>(1 + \<sigma> * rnd t) - (1 + \<sigma> * t)\<bar> = \<bar>rnd t - t\<bar>" using assms(3) by auto
  ultimately have "\<bar>rnd (1 + \<sigma> * rnd t) - (1 + \<sigma> * t)\<bar>
      \<le> (2 / 2 ^ 53 + 1 / 2 ^ 60) + (1 / 2 ^ 53 + 1 / 2 ^ 60)"
    using k t53 by linarith
  also have "\<dots> \<le> 4 / 2 ^ 53" by simp
  finally show ?thesis .
qed

lemma cap_price_error:
  assumes "0 < c" "0 \<le> t" "t \<le> 1" "\<sigma> = 1 \<or> \<sigma> = - 1"
  shows "\<bar>rnd (c * rnd (1 + \<sigma> * rnd t)) - c * (1 + \<sigma> * t)\<bar> \<le> c / 2 ^ 50 + 1 / 2 ^ 60"
proof -
  let ?s = "rnd (1 + \<sigma> * rnd t)"
  note s = cap_factor_error [OF assms(2-4)]
  have "\<bar>c * ?s - c * (1 + \<sigma> * t)\<bar> = c * \<bar>?s - (1 + \<sigma> * t)\<bar>"
    using assms(1) by (simp add: abs_mult right_diff_distrib [symmetric])
  also have "\<dots> \<le> c * (4 / 2 ^ 53)" using s assms(1) by (intro mult_left_mono) auto
  finally have a: "\<bar>c * ?s - c * (1 + \<sigma> * t)\<bar> \<le> 4 * (c / 2 ^ 53)" by simp
  have "\<bar>1 + \<sigma> * t\<bar> \<le> 2" using assms by auto
  moreover have "\<bar>?s - (1 + \<sigma> * t)\<bar> \<le> 1" by (rule order.trans [OF s]) simp
  ultimately have "\<bar>?s\<bar> \<le> 4" by linarith
  then have "\<bar>c * ?s\<bar> \<le> c * 4" using assms(1) by (simp add: abs_mult)
  then have "\<bar>c * ?s\<bar> / 2 ^ 53 \<le> c * 4 / 2 ^ 53" by (intro divide_right_mono) simp_all
  then have "\<bar>c * ?s\<bar> / 2 ^ 53 \<le> 4 * (c / 2 ^ 53)" by simp
  with rnd_error [of "c * ?s"] tiny_le
  have "\<bar>rnd (c * ?s) - c * ?s\<bar> \<le> 4 * (c / 2 ^ 53) + 1 / 2 ^ 60" by linarith
  with a have "\<bar>rnd (c * ?s) - c * (1 + \<sigma> * t)\<bar> \<le> 8 * (c / 2 ^ 53) + 1 / 2 ^ 60" by linarith
  moreover have "8 * (c / 2 ^ 53) = c / 2 ^ 50" by simp
  ultimately show ?thesis by simp
qed

definition cap_sign :: "string \<Rightarrow> rat" where
  "cap_sign side = (if side = ''buy'' then 1 else - 1)"

lemma capped_order:
  assumes "effective_dispatched_order oi (Fin c) (Fin b) = Inr eff" "oi_order_type oi = ''market''"
    and "0 < c" "c \<le> 2 ^ 50" "0 < b" "b \<le> 10000"
  shows "ef_order_type eff = ''limit''" "ef_time_in_force eff = ''IOC''"
    "f_finite (ef_limit_price eff)"
    "f_val (ef_limit_price eff) = rnd (c * rnd (1 + cap_sign (oi_side oi) * rnd (b / 10000)))"
    "ef_limit_price eff \<noteq> NegZero"
proof -
  let ?t = "b / 10000" and ?k = "f_div (Fin b) (Fin 10000)"
  have t: "0 \<le> ?t" "?t \<le> 1" using assms by simp_all
  have kt: "0 \<le> rnd ?t" "rnd ?t \<le> 1" using rnd_nonneg [OF t(1)] rnd_mono [OF t(2)] by simp_all
  have k: "f_finite ?k" "f_val ?k = rnd ?t"
    using f_div_val [of "Fin b" "Fin 10000"] t by simp_all
  have s1: "f_finite (f_add (Fin 1) ?k)" "f_val (f_add (Fin 1) ?k) = rnd (1 + rnd ?t)"
    using f_add_val [of "Fin 1" ?k] k kt by simp_all
  have s2: "f_finite (f_sub (Fin 1) ?k)" "f_val (f_sub (Fin 1) ?k) = rnd (1 - rnd ?t)"
    using f_sub_val [of "Fin 1" ?k] k kt by simp_all
  have b: "0 \<le> rnd (1 + rnd ?t)" "rnd (1 + rnd ?t) \<le> 2" "0 \<le> rnd (1 - rnd ?t)" "rnd (1 - rnd ?t) \<le> 2"
    using kt rnd_nonneg rnd_mono [of "1 + rnd ?t" 2] rnd_mono [of "1 - rnd ?t" 2]
      rnd_representable [OF representable_int [of 2]] by simp_all
  have m: "\<bar>c * x\<bar> \<le> 2 ^ 53" if "0 \<le> x" "x \<le> 2" for x
  proof -
    have "c * x \<le> 2 ^ 50 * 2" using that assms(3,4) by (intro mult_mono) simp_all
    with that assms(3) show ?thesis by simp
  qed
  have "f_add (Fin 1) ?k \<noteq> NegZero" "f_sub (Fin 1) ?k \<noteq> NegZero"
    unfolding f_sub_def using k kt f_neg_val by (intro f_add_not_neg_zero; simp)+
  then have sg: "\<not> f_sign (f_add (Fin 1) ?k)" "\<not> f_sign (f_sub (Fin 1) ?k)"
    using s1 s2 b by (simp_all add: f_sign_val)
  have nz: "f_mul (Fin c) x \<noteq> NegZero" if "f_finite x" "\<not> f_sign x" for x
    using that assms(3) by (simp add: f_mul_def f_finite_not_nan)
  have e: "(oi_side oi = ''buy'' \<and> eff = \<lparr>ef_order_type = ''limit'',
        ef_limit_price = f_mul (Fin c) (f_add (Fin 1) ?k), ef_time_in_force = ''IOC''\<rparr>) \<or>
      (oi_side oi = ''sell'' \<and> eff = \<lparr>ef_order_type = ''limit'',
        ef_limit_price = f_mul (Fin c) (f_sub (Fin 1) ?k), ef_time_in_force = ''IOC''\<rparr>)"
    using assms(1,2,5)
    by (auto simp: effective_dispatched_order_def f_le_def f_eq_def Let_def split: if_splits)
  then show "ef_order_type eff = ''limit''" "ef_time_in_force eff = ''IOC''" by auto
  from e show "f_finite (ef_limit_price eff)"
    using f_mul_val(1) [of "Fin c"] m b s1 s2 by auto
  from e show "f_val (ef_limit_price eff) = rnd (c * rnd (1 + cap_sign (oi_side oi) * rnd ?t))"
    using f_mul_val(2) [of "Fin c"] m b s1 s2 by (auto simp: cap_sign_def)
  from e show "ef_limit_price eff \<noteq> NegZero" using nz s1 s2 sg by auto
qed

text \<open>
  C23: The B2 price cap: a market order under a cap of \<open>b\<close> basis points leaves as a limit IOC
  whose price on the wire, read back as a decimal, is the close moved by \<open>b\<close> basis points against
  the agent's side, up to the rounding of the float computation and of the eighth decimal.
\<close>

theorem capped_command_price:
  assumes "build_trade_command oi inst sy (Fin c) now (Fin b) = Inr tc"
    and "oi_order_type oi = ''market''" "0 < c" "c \<le> 2 ^ 50" "0 < b" "b \<le> 10000"
  shows "tc_order_type tc = ''limit'' \<and> tc_time_in_force tc = ''IOC'' \<and>
    (\<exists>p. decimal_literal (tc_limit_price_decimal tc) = Some p \<and>
       \<bar>p - c * (1 + cap_sign (oi_side oi) * (b / 10000))\<bar> \<le> c / 2 ^ 50 + 1 / 10 ^ 8)"
proof -
  obtain eff where eff: "effective_dispatched_order oi (Fin c) (Fin b) = Inr eff"
    and tc: "tc_order_type tc = ef_order_type eff" "tc_time_in_force tc = ef_time_in_force eff"
      "tc_limit_price_decimal tc =
         (if ef_order_type eff = ''limit'' then format8 (ef_limit_price eff) else [])"
    using assms(1) by (auto simp: build_trade_command_def Let_def split: if_splits sum.splits)
  note ord = capped_order [OF eff assms(2-6)]
  let ?x = "f_val (ef_limit_price eff)" and ?y = "c * (1 + cap_sign (oi_side oi) * (b / 10000))"
  have sg: "cap_sign (oi_side oi) = 1 \<or> cap_sign (oi_side oi) = - 1" by (simp add: cap_sign_def)
  have t: "0 \<le> b / 10000" "b / 10000 \<le> 1" using assms(5,6) by simp_all
  have err: "\<bar>?x - ?y\<bar> \<le> c / 2 ^ 50 + 1 / 2 ^ 60"
    using cap_price_error [OF assms(3) t sg] ord(4) by simp
  have nn: "0 \<le> ?x"
  proof -
    have "rnd (b / 10000) \<le> 1" "0 \<le> rnd (b / 10000)"
      using rnd_mono [OF t(2)] rnd_nonneg [OF t(1)] by simp_all
    then have "0 \<le> 1 + cap_sign (oi_side oi) * rnd (b / 10000)" by (simp add: cap_sign_def)
    with assms(3) show ?thesis unfolding ord(4) by (intro rnd_nonneg mult_nonneg_nonneg) simp_all
  qed
  from format8_parse [OF ord(3) nn ord(5)]
  obtain p where p: "decimal_literal (format8 (ef_limit_price eff)) = Some p"
    "\<bar>p - ?x\<bar> \<le> 1 / (2 * 10 ^ 8)" by blast
  have "\<bar>p - ?y\<bar> \<le> c / 2 ^ 50 + (1 / 2 ^ 60 + 1 / (2 * 10 ^ 8))" using p(2) err by linarith
  also have "\<dots> \<le> c / 2 ^ 50 + 1 / 10 ^ 8" by simp
  finally show ?thesis using p(1) tc ord(1,2) by auto
qed

text \<open>
  The quantity on the wire: for a positive amount of dollars and a positive close, the decimal
  the agent receives is the amount divided by the close, up to one float rounding and half a unit
  of the eighth decimal, and the command carries the order's ids, side and deadline unchanged.
\<close>

theorem command_quantity:
  assumes "build_trade_command oi inst sy (Fin c) now cap = Inr tc"
    and "oi_quantity_usd oi = Fin u" "0 < c" "u / c \<le> 2 ^ 53"
  shows "(\<exists>q. decimal_literal (tc_quantity_decimal tc) = Some q \<and>
       \<bar>q - u / c\<bar> \<le> u / c / 2 ^ 53 + 1 / 10 ^ 8) \<and>
    tc_client_order_id tc = oi_client_order_id oi \<and> tc_side tc = oi_side oi \<and>
    tc_valid_until_ms tc = oi_valid_until_ms oi \<and> tc_instance_id tc = inst \<and> tc_symbol tc = sy"
proof -
  have u: "0 < u" using assms(1,2)
    by (auto simp: build_trade_command_def f_le_def f_eq_def f_is_nan_def Let_def not_less
        split: if_splits)
  have tc: "tc_quantity_decimal tc = format8 (f_div (Fin u) (Fin c))"
    "tc_client_order_id tc = oi_client_order_id oi" "tc_side tc = oi_side oi"
    "tc_valid_until_ms tc = oi_valid_until_ms oi" "tc_instance_id tc = inst" "tc_symbol tc = sy"
    using assms(1,2) by (auto simp: build_trade_command_def Let_def split: if_splits sum.splits)
  have d: "f_finite (f_div (Fin u) (Fin c))" "f_val (f_div (Fin u) (Fin c)) = rnd (u / c)"
    using f_div_val [of "Fin u" "Fin c"] u assms(3,4) by simp_all
  have "f_div (Fin u) (Fin c) \<noteq> NegZero" using u assms(3) by (simp add: f_div_def f_is_nan_def)
  moreover have "0 \<le> rnd (u / c)" using u assms(3) by (intro rnd_nonneg) simp
  ultimately obtain q where q: "decimal_literal (tc_quantity_decimal tc) = Some q"
    "\<bar>q - rnd (u / c)\<bar> \<le> 1 / (2 * 10 ^ 8)"
    using format8_parse [OF d(1)] d(2) tc(1) by auto
  have "\<bar>rnd (u / c) - u / c\<bar> \<le> u / c / 2 ^ 53 + 1 / 2 ^ 60"
    using rnd_error [of "u / c"] tiny_le u assms(3) by simp
  with q(2) have "\<bar>q - u / c\<bar> \<le> u / c / 2 ^ 53 + (1 / 2 ^ 60 + 1 / (2 * 10 ^ 8))" by linarith
  also have "\<dots> \<le> u / c / 2 ^ 53 + 1 / 10 ^ 8" by simp
  finally show ?thesis using q(1) tc by blast
qed
definition sample_intent :: order_intent where
  "sample_intent = \<lparr>oi_kind = ''macro'', oi_side = ''buy'', oi_order_type = ''market'',
     oi_quantity_usd = Fin 100, oi_limit_price = Fin 0, oi_client_order_id = ''o1'',
     oi_valid_until_ms = 100\<rparr>"

lemma sample_build:
  "\<exists>tc. build_trade_command sample_intent ''i1'' ''BTCUSDT'' (Fin 50000) 5 (Fin 50) = Inr tc"
  by (simp add: build_trade_command_def sample_intent_def effective_dispatched_order_def f_le_def
      f_eq_def Let_def)

theorem capped_command_price_witness:
  "\<exists>tc p. build_trade_command sample_intent ''i1'' ''BTCUSDT'' (Fin 50000) 5 (Fin 50) = Inr tc \<and>
     tc_order_type tc = ''limit'' \<and> decimal_literal (tc_limit_price_decimal tc) = Some p \<and>
     \<bar>p - 50250\<bar> \<le> 50000 / 2 ^ 50 + 1 / 10 ^ 8"
proof -
  obtain tc where tc: "build_trade_command sample_intent ''i1'' ''BTCUSDT'' (Fin 50000) 5 (Fin 50) = Inr tc"
    using sample_build by blast
  from capped_command_price [OF tc] tc show ?thesis
    by (auto simp: sample_intent_def cap_sign_def)
qed

theorem command_quantity_witness:
  "\<exists>tc q. build_trade_command sample_intent ''i1'' ''BTCUSDT'' (Fin 50000) 5 (Fin 50) = Inr tc \<and>
     decimal_literal (tc_quantity_decimal tc) = Some q \<and>
     \<bar>q - 1 / 500\<bar> \<le> 1 / 500 / 2 ^ 53 + 1 / 10 ^ 8"
proof -
  obtain tc where tc: "build_trade_command sample_intent ''i1'' ''BTCUSDT'' (Fin 50000) 5 (Fin 50) = Inr tc"
    using sample_build by blast
  from command_quantity [OF tc, of 100] tc show ?thesis by (auto simp: sample_intent_def)
qed

end
