(* ===== verification/SaasDb.thy ===== *)
theory SaasDb
  imports Dispatch
begin

text \<open>
  The server's database: the tables the live side uses (\<open>internal/saas/store/models.go\<close> and its
  migrations) and the repositories over them (\<open>internal/repository\<close>: trades, instances, portfolios,
  reconciliation, audit log, runtime state). A table is the list of its rows in insertion order.
  Every statement may fail for reasons outside the program: each one takes a flag from a list of
  faults and a statement that fails changes nothing.
\<close>

section \<open>Tables (\<open>models.go\<close>)\<close>

datatype trade_status = TsPending | TsAcked | TsFilled | TsPartialFilled | TsCancelled | TsRejected

record trade_record =
  td_client_order_id :: string
  td_instance_id :: string
  td_symbol :: string
  td_side :: string
  td_order_type :: string
  td_quantity_usd :: f64
  td_limit_price :: "f64 option"
  td_valid_until_ms :: int
  td_status :: trade_status

record spot_execution =
  se_id :: nat
  se_client_order_id :: string
  se_exchange_order_id :: string
  se_fill_quantity :: f64
  se_fill_price :: f64
  se_fill_fee_asset :: string
  se_fill_fee_amount :: f64
  se_filled_at_exchange_ms :: int
  se_actual_slippage_bps :: f64
  se_trade_id :: int

datatype instance_status = InIdle | InLive | InPaused | InRetired

record strategy_instance =
  si_instance_id :: string
  si_strategy_id :: string
  si_pair :: string
  si_account_id :: string
  si_owner_user_id :: nat
  si_status :: instance_status
  si_active_champ_id :: "string option"
  si_last_tick_wall_time :: "int option"
  si_funded_at_ms :: "int option"

record portfolio_state =
  ps_instance_id :: string
  ps_now_ms :: int
  ps_dead_btc :: f64
  ps_float_btc :: f64
  ps_cold_sealed_btc :: f64
  ps_usdt :: f64
  ps_last_processed_bar_time :: int
  ps_last_applied_exec_id :: nat

record runtime_row =
  rt_instance_id :: string
  rt_now_ms :: int
  rt_state_json :: "json option"

record champion_row =
  ch_challenger_id :: string
  ch_strategy_id :: string
  ch_pair :: string
  ch_promoted_at :: int
  ch_retired_at :: "int option"
  ch_retired_by :: "string option"
  ch_retire_note :: "string option"

record discrepancy_row =
  dc_account_id :: string
  dc_instance_id :: string
  dc_asset :: string
  dc_expected :: f64
  dc_actual :: f64
  dc_diff :: f64
  dc_drift_bps :: f64
  dc_reported_at_ms :: int
  dc_detected_at_ms :: int

record agent_error_row =
  ar_account_id :: string
  ar_instance_id :: string
  ar_code :: string
  ar_message :: string
  ar_occurred_at_ms :: int
  ar_reported_at_ms :: int

record audit_row =
  al_created_at :: int
  al_actor :: string
  al_action :: string
  al_subject :: string
  al_data :: json

record saas_db =
  db_trades :: "trade_record list"
  db_execs :: "spot_execution list"
  db_next_exec :: nat                       \<comment> \<open>the next value of the id sequence\<close>
  db_instances :: "strategy_instance list"
  db_portfolios :: "portfolio_state list"
  db_runtimes :: "runtime_row list"
  db_champions :: "champion_row list"
  db_discrepancies :: "discrepancy_row list"
  db_agent_errors :: "agent_error_row list"
  db_audit :: "audit_row list"
  db_faults :: "bool list"

definition empty_saas_db :: "bool list \<Rightarrow> saas_db" where
  "empty_saas_db fs = \<lparr>db_trades = [], db_execs = [], db_next_exec = 1, db_instances = [],
     db_portfolios = [], db_runtimes = [], db_champions = [], db_discrepancies = [],
     db_agent_errors = [], db_audit = [], db_faults = fs\<rparr>"

section \<open>Statements\<close>

datatype db_err =
    ErrDb                       \<comment> \<open>the driver failed\<close>
  | ErrUniqueIndex string       \<comment> \<open>a unique index was violated, as the driver reports it\<close>
  | ErrDuplicatedKey            \<comment> \<open>the same, as gorm translates it\<close>
  | ErrRecordNotFound
  | ErrEmptyArgument
  | ErrTransitionRefused
  | ErrDeployRefused
  | ErrInstanceAlreadyRetired
  | ErrActiveInstanceExists
  | ErrOther string

type_synonym 'a db_res = "(db_err + 'a) \<times> saas_db"

definition db_stmt :: "(saas_db \<Rightarrow> (db_err + 'a) \<times> saas_db) \<Rightarrow> saas_db \<Rightarrow> 'a db_res" where
  "db_stmt f db =
     (let db' = db\<lparr>db_faults := rest_faults (db_faults db)\<rparr> in
      if next_fault (db_faults db) then (Inl ErrDb, db') else f db')"

definition db_bind :: "(saas_db \<Rightarrow> 'a db_res) \<Rightarrow> ('a \<Rightarrow> saas_db \<Rightarrow> 'b db_res) \<Rightarrow> saas_db \<Rightarrow> 'b db_res" where
  \<comment> \<open>statements in sequence: the first error returns\<close>
  "db_bind f k db = (case f db of (Inl e, db) \<Rightarrow> (Inl e, db) | (Inr x, db) \<Rightarrow> k x db)"

definition db_return :: "'a \<Rightarrow> saas_db \<Rightarrow> 'a db_res" where
  "db_return x db = (Inr x, db)"

definition db_fail :: "db_err \<Rightarrow> saas_db \<Rightarrow> 'a db_res" where
  "db_fail e db = (Inl e, db)"

text \<open>
  gorm turns a driver's unique violation into \<open>ErrDuplicatedKey\<close> only when it is opened with
  \<open>TranslateError\<close>; the server opens it without (\<open>store/db.go\<close>).
\<close>

definition translate_error :: bool where
  "translate_error = False"

definition unique_violation :: "string \<Rightarrow> db_err" where
  "unique_violation index = (if translate_error then ErrDuplicatedKey else ErrUniqueIndex index)"

section \<open>\<open>TradeRepo\<close> (\<open>trade.go\<close>)\<close>

definition insert_trade_record :: "trade_record \<Rightarrow> saas_db \<Rightarrow> unit db_res" where
  "insert_trade_record tr db =
     (if td_client_order_id tr = [] then (Inl ErrEmptyArgument, db)
      else db_stmt (\<lambda>db.
        if \<exists>t\<in>set (db_trades db). td_client_order_id t = td_client_order_id tr
        then (Inl (unique_violation ''idx_trade_records_client_order_id''), db)
        else (Inr (), db\<lparr>db_trades := db_trades db @ [tr]\<rparr>)) db)"

fun terminal_trade :: "trade_status \<Rightarrow> bool" where
  "terminal_trade TsFilled = True"
| "terminal_trade TsCancelled = True"
| "terminal_trade TsRejected = True"
| "terminal_trade _ = False"

definition update_where :: "('a \<Rightarrow> bool) \<Rightarrow> ('a \<Rightarrow> 'a) \<Rightarrow> 'a list \<Rightarrow> 'a list" where
  "update_where p f rows = map (\<lambda>r. if p r then f r else r) rows"

definition update_trade_status :: "string \<Rightarrow> trade_status \<Rightarrow> saas_db \<Rightarrow> unit db_res" where
  "update_trade_status cid status db =
     (if cid = [] then (Inl ErrEmptyArgument, db)
      else db_stmt (\<lambda>db. (Inr (), db\<lparr>db_trades :=
        update_where (\<lambda>t. td_client_order_id t = cid \<and> \<not> terminal_trade (td_status t))
          (\<lambda>t. t\<lparr>td_status := status\<rparr>) (db_trades db)\<rparr>)) db)"

definition mark_partial_if_pending :: "string \<Rightarrow> saas_db \<Rightarrow> unit db_res" where
  "mark_partial_if_pending cid db =
     (if cid = [] then (Inl ErrEmptyArgument, db)
      else db_stmt (\<lambda>db. (Inr (), db\<lparr>db_trades :=
        update_where (\<lambda>t. td_client_order_id t = cid \<and> td_status t = TsPending)
          (\<lambda>t. t\<lparr>td_status := TsPartialFilled\<rparr>) (db_trades db)\<rparr>)) db)"

definition sweep_orphan_pending :: "int \<Rightarrow> saas_db \<Rightarrow> nat db_res" where
  "sweep_orphan_pending now_ms = db_stmt (\<lambda>db.
     let orphan = (\<lambda>t. td_status t = TsPending \<and> td_valid_until_ms t < now_ms \<and>
           \<not> (\<exists>e\<in>set (db_execs db). se_client_order_id e = td_client_order_id t))
     in (Inr (length (filter orphan (db_trades db))),
         db\<lparr>db_trades := update_where orphan (\<lambda>t. t\<lparr>td_status := TsCancelled\<rparr>) (db_trades db)\<rparr>))"

definition exec_conflict :: "spot_execution \<Rightarrow> spot_execution \<Rightarrow> string option" where
  \<comment> \<open>the partial unique index two rows violate together\<close>
  "exec_conflict e e' =
     (if se_client_order_id e \<noteq> se_client_order_id e' then None
      else if se_trade_id e \<noteq> 0 \<and> se_trade_id e' = se_trade_id e then Some ''uq_spot_exec_by_trade''
      else if se_trade_id e = 0 \<and> se_trade_id e' = 0 \<and>
              se_filled_at_exchange_ms e' = se_filled_at_exchange_ms e
      then Some ''uq_spot_exec_by_ms''
      else None)"

definition is_fill_duplicate :: "db_err \<Rightarrow> bool" where
  "is_fill_duplicate e = (case e of ErrDuplicatedKey \<Rightarrow> True | ErrUniqueIndex _ \<Rightarrow> True | _ \<Rightarrow> False)"

definition create_execution :: "spot_execution \<Rightarrow> saas_db \<Rightarrow> unit db_res" where
  \<comment> \<open>\<open>Create\<close>: the row takes the next id, which a violation uses up\<close>
  "create_execution e = db_stmt (\<lambda>db.
     let db' = db\<lparr>db_next_exec := Suc (db_next_exec db)\<rparr> in
     case find (\<lambda>e'. exec_conflict e e' \<noteq> None) (db_execs db) of
       Some e' \<Rightarrow> (Inl (unique_violation (the (exec_conflict e e'))), db')
     | None \<Rightarrow> (Inr (), db'\<lparr>db_execs := db_execs db @ [e\<lparr>se_id := db_next_exec db\<rparr>]\<rparr>))"

definition insert_spot_execution :: "spot_execution \<Rightarrow> saas_db \<Rightarrow> unit db_res" where
  "insert_spot_execution e db =
     (if se_client_order_id e = [] then (Inl ErrEmptyArgument, db)
      else case create_execution e db of
        (Inl err, db') \<Rightarrow> (if is_fill_duplicate err then Inr () else Inl err, db')
      | (Inr u, db') \<Rightarrow> (Inr u, db'))"

definition execution_exists_by_trade :: "string \<Rightarrow> int \<Rightarrow> saas_db \<Rightarrow> bool db_res" where
  "execution_exists_by_trade cid tid = db_stmt (\<lambda>db.
     (Inr (\<exists>e\<in>set (db_execs db). se_client_order_id e = cid \<and> se_trade_id e = tid), db))"

definition execution_exists :: "string \<Rightarrow> int \<Rightarrow> saas_db \<Rightarrow> bool db_res" where
  "execution_exists cid ms = db_stmt (\<lambda>db.
     (Inr (\<exists>e\<in>set (db_execs db). se_client_order_id e = cid \<and> se_filled_at_exchange_ms e = ms), db))"

record instance_fill =
  if_id :: nat
  if_side :: string
  if_fill_quantity :: f64
  if_fill_price :: f64
  if_fill_fee_asset :: string
  if_fill_fee_amount :: f64

definition instance_fills :: "string \<Rightarrow> saas_db \<Rightarrow> instance_fill list" where
  \<comment> \<open>the join of executions and trades, in the order of the ids\<close>
  "instance_fills iid db =
     sort_key if_id (concat (map (\<lambda>e. map (\<lambda>t. \<lparr>if_id = se_id e, if_side = td_side t,
         if_fill_quantity = se_fill_quantity e, if_fill_price = se_fill_price e,
         if_fill_fee_asset = se_fill_fee_asset e, if_fill_fee_amount = se_fill_fee_amount e\<rparr>)
       (filter (\<lambda>t. td_client_order_id t = se_client_order_id e \<and> td_instance_id t = iid)
         (db_trades db))) (db_execs db)))"

definition new_executions_for_instance ::
  "string \<Rightarrow> nat \<Rightarrow> saas_db \<Rightarrow> instance_fill list db_res" where
  "new_executions_for_instance iid since db =
     (if iid = [] then (Inl ErrEmptyArgument, db)
      else db_stmt (\<lambda>db. (Inr (filter (\<lambda>f. since < if_id f) (instance_fills iid db)), db)) db)"

definition max_execution_id_for_instance :: "string \<Rightarrow> saas_db \<Rightarrow> nat db_res" where
  "max_execution_id_for_instance iid db =
     (if iid = [] then (Inl ErrEmptyArgument, db)
      else db_stmt (\<lambda>db. (Inr (fold max (map if_id (instance_fills iid db)) 0), db)) db)"

definition list_executions_for_orders :: "string list \<Rightarrow> saas_db \<Rightarrow> spot_execution list db_res" where
  "list_executions_for_orders cids db =
     (if cids = [] then (Inr [], db)
      else db_stmt (\<lambda>db. (Inr (sort_key se_filled_at_exchange_ms
        (filter (\<lambda>e. List.member cids (se_client_order_id e)) (db_execs db))), db)) db)"

section \<open>\<open>InstanceRepo\<close> (\<open>instance.go\<close>)\<close>

definition create_instance :: "strategy_instance \<Rightarrow> saas_db \<Rightarrow> unit db_res" where
  "create_instance inst = db_stmt (\<lambda>db.
     if \<exists>i\<in>set (db_instances db). si_instance_id i = si_instance_id inst
     then (Inl (unique_violation ''idx_strategy_instances_instance_id''), db)
     else if si_status inst \<noteq> InRetired \<and> (\<exists>i\<in>set (db_instances db). si_status i \<noteq> InRetired \<and>
         si_owner_user_id i = si_owner_user_id inst \<and> si_account_id i = si_account_id inst)
     then (Inl ErrActiveInstanceExists, db)
     else (Inr (), db\<lparr>db_instances := db_instances db @ [inst]\<rparr>))"

definition get_instance :: "string \<Rightarrow> saas_db \<Rightarrow> strategy_instance db_res" where
  "get_instance iid = db_stmt (\<lambda>db.
     case find (\<lambda>i. si_instance_id i = iid) (db_instances db) of
       None \<Rightarrow> (Inl ErrRecordNotFound, db)
     | Some i \<Rightarrow> (Inr i, db))"

definition list_live :: "saas_db \<Rightarrow> strategy_instance list db_res" where
  "list_live = db_stmt (\<lambda>db. (Inr (filter (\<lambda>i. si_status i = InLive) (db_instances db)), db))"

definition list_by_account :: "string \<Rightarrow> saas_db \<Rightarrow> strategy_instance list db_res" where
  "list_by_account acct = db_stmt (\<lambda>db.
     (Inr (filter (\<lambda>i. si_account_id i = acct \<and> si_status i \<noteq> InRetired) (db_instances db)), db))"

definition classify_instance_no_rows :: "string \<Rightarrow> db_err \<Rightarrow> saas_db \<Rightarrow> unit db_res" where
  "classify_instance_no_rows iid err = db_stmt (\<lambda>db.
     (Inl (if \<exists>i\<in>set (db_instances db). si_instance_id i = iid then err else ErrRecordNotFound), db))"

definition update_instances ::
  "(strategy_instance \<Rightarrow> bool) \<Rightarrow> (strategy_instance \<Rightarrow> strategy_instance) \<Rightarrow> saas_db \<Rightarrow> nat db_res" where
  \<comment> \<open>an \<open>UPDATE\<close>; the number of rows it affected\<close>
  "update_instances p f = db_stmt (\<lambda>db.
     (Inr (length (filter p (db_instances db))), db\<lparr>db_instances := update_where p f (db_instances db)\<rparr>))"

definition guarded_update ::
  "string \<Rightarrow> db_err \<Rightarrow> (strategy_instance \<Rightarrow> bool) \<Rightarrow> (strategy_instance \<Rightarrow> strategy_instance) \<Rightarrow>
     saas_db \<Rightarrow> unit db_res" where
  "guarded_update iid err p f db =
     (case update_instances p f db of
        (Inl e, db) \<Rightarrow> (Inl e, db)
      | (Inr n, db) \<Rightarrow> if n = 0 then classify_instance_no_rows iid err db else (Inr (), db))"

definition update_status ::
  "string \<Rightarrow> instance_status \<Rightarrow> instance_status \<Rightarrow> saas_db \<Rightarrow> unit db_res" where
  "update_status iid from_st to_st =
     guarded_update iid ErrTransitionRefused (\<lambda>i. si_instance_id i = iid \<and> si_status i = from_st)
       (\<lambda>i. i\<lparr>si_status := to_st\<rparr>)"

definition set_last_tick_wall_time :: "string \<Rightarrow> int \<Rightarrow> saas_db \<Rightarrow> nat db_res" where
  "set_last_tick_wall_time iid t =
     update_instances (\<lambda>i. si_instance_id i = iid) (\<lambda>i. i\<lparr>si_last_tick_wall_time := Some t\<rparr>)"

definition mark_funded :: "string \<Rightarrow> int \<Rightarrow> saas_db \<Rightarrow> bool db_res" where
  "mark_funded iid ms db =
     (case update_instances (\<lambda>i. si_instance_id i = iid \<and> si_funded_at_ms i = None)
             (\<lambda>i. i\<lparr>si_funded_at_ms := Some ms\<rparr>) db of
        (Inl e, db) \<Rightarrow> (Inl e, db)
      | (Inr n, db) \<Rightarrow> (Inr (0 < n), db))"

definition set_active_champion :: "string \<Rightarrow> string \<Rightarrow> saas_db \<Rightarrow> unit db_res" where
  "set_active_champion iid cid db =
     guarded_update iid ErrDeployRefused
       (\<lambda>i. si_instance_id i = iid \<and> si_status i \<noteq> InRetired \<and>
          (\<exists>c\<in>set (db_champions db). ch_challenger_id c = cid \<and> ch_strategy_id c = si_strategy_id i \<and>
             ch_pair c = si_pair i \<and> ch_retired_at c = None))
       (\<lambda>i. i\<lparr>si_active_champ_id := Some cid\<rparr>) db"

definition retire_instance :: "string \<Rightarrow> saas_db \<Rightarrow> unit db_res" where
  "retire_instance iid =
     guarded_update iid ErrInstanceAlreadyRetired
       (\<lambda>i. si_instance_id i = iid \<and> si_status i \<noteq> InRetired) (\<lambda>i. i\<lparr>si_status := InRetired\<rparr>)"

definition blocking_instance_for_champion :: "string \<Rightarrow> saas_db \<Rightarrow> string db_res" where
  "blocking_instance_for_champion cid = db_stmt (\<lambda>db.
     case find (\<lambda>i. si_active_champ_id i = Some cid \<and> si_status i \<noteq> InRetired) (db_instances db) of
       None \<Rightarrow> (Inr [], db)
     | Some i \<Rightarrow> (Inr (si_instance_id i), db))"

section \<open>\<open>PortfolioRepo\<close>, \<open>RuntimeRepo\<close>, \<open>ReconRepo\<close>\<close>

fun latest_row :: "portfolio_state list \<Rightarrow> portfolio_state option" where
  \<comment> \<open>the row with the greatest time\<close>
  "latest_row [] = None"
| "latest_row (p # ps) =
     (case latest_row ps of
        None \<Rightarrow> Some p
      | Some q \<Rightarrow> if ps_now_ms p < ps_now_ms q then Some q else Some p)"

definition portfolio_latest :: "string \<Rightarrow> saas_db \<Rightarrow> portfolio_state option db_res" where
  "portfolio_latest iid = db_stmt (\<lambda>db.
     (Inr (latest_row (filter (\<lambda>p. ps_instance_id p = iid) (db_portfolios db))), db))"

definition portfolio_append :: "portfolio_state \<Rightarrow> saas_db \<Rightarrow> unit db_res" where
  "portfolio_append p = db_stmt (\<lambda>db.
     if \<exists>q\<in>set (db_portfolios db). ps_instance_id q = ps_instance_id p \<and> ps_now_ms q = ps_now_ms p
     then (Inl (unique_violation ''portfolio_states_pkey''), db)
     else (Inr (), db\<lparr>db_portfolios := db_portfolios db @ [p]\<rparr>))"

definition runtime_get :: "string \<Rightarrow> saas_db \<Rightarrow> runtime_row option db_res" where
  "runtime_get iid = db_stmt (\<lambda>db. (Inr (find (\<lambda>r. rt_instance_id r = iid) (db_runtimes db)), db))"

definition runtime_upsert :: "string \<Rightarrow> int \<Rightarrow> json option \<Rightarrow> saas_db \<Rightarrow> unit db_res" where
  "runtime_upsert iid now_ms blob db =
     (if iid = [] then (Inl ErrEmptyArgument, db)
      else db_stmt (\<lambda>db.
        if \<exists>r\<in>set (db_runtimes db). rt_instance_id r = iid
        then (Inr (), db\<lparr>db_runtimes := update_where (\<lambda>r. rt_instance_id r = iid)
          (\<lambda>r. r\<lparr>rt_now_ms := now_ms, rt_state_json := blob\<rparr>) (db_runtimes db)\<rparr>)
        else (Inr (), db\<lparr>db_runtimes := db_runtimes db @
          [\<lparr>rt_instance_id = iid, rt_now_ms = now_ms, rt_state_json = blob\<rparr>]\<rparr>)) db)"

definition insert_discrepancy :: "discrepancy_row \<Rightarrow> saas_db \<Rightarrow> unit db_res" where
  "insert_discrepancy d = db_stmt (\<lambda>db. (Inr (), db\<lparr>db_discrepancies := db_discrepancies db @ [d]\<rparr>))"

definition insert_agent_error :: "agent_error_row \<Rightarrow> saas_db \<Rightarrow> unit db_res" where
  "insert_agent_error e = db_stmt (\<lambda>db. (Inr (), db\<lparr>db_agent_errors := db_agent_errors db @ [e]\<rparr>))"

section \<open>\<open>AuditRepo\<close> (\<open>audit.go\<close>)\<close>

definition audit_insert :: "audit_row \<Rightarrow> saas_db \<Rightarrow> unit db_res" where
  "audit_insert r = db_stmt (\<lambda>db. (Inr (), db\<lparr>db_audit := db_audit db @ [r]\<rparr>))"

definition account_subject :: "string \<Rightarrow> string" where
  "account_subject acct = ''account:'' @ acct"

definition latch_event :: "string \<Rightarrow> audit_row \<Rightarrow> bool" where
  "latch_event acct r \<longleftrightarrow>
     (al_action r = ''instance.kill'' \<or> al_action r = ''instance.resume'') \<and>
     al_subject r = account_subject acct"

fun newest_row :: "audit_row list \<Rightarrow> audit_row option" where
  \<comment> \<open>the latest row, the one with the least id among equals\<close>
  "newest_row [] = None"
| "newest_row (r # rs) =
     (case newest_row rs of
        None \<Rightarrow> Some r
      | Some q \<Rightarrow> if al_created_at r < al_created_at q then Some q else Some r)"

definition latest_kill_or_resume :: "string \<Rightarrow> saas_db \<Rightarrow> audit_row option db_res" where
  "latest_kill_or_resume acct = db_stmt (\<lambda>db. (Inr (newest_row (filter (latch_event acct) (db_audit db))), db))"

definition is_account_frozen :: "string \<Rightarrow> saas_db \<Rightarrow> bool db_res" where
  "is_account_frozen acct db =
     (case latest_kill_or_resume acct db of
        (Inl e, db) \<Rightarrow> (Inl e, db)
      | (Inr r, db) \<Rightarrow> (Inr (case r of None \<Rightarrow> False | Some r \<Rightarrow> al_action r = ''instance.kill''), db))"

end
