(* ===== verification/AgentAuth.thy ===== *)
theory AgentAuth
  imports Prelude "HOL-Library.Char_ord"
begin

text \<open>
  Bearer-token authentication of agents (\<open>internal/saas/agentauth\<close>): the token format
  \<open>agt_<ULID>_<base64 secret>\<close>, the token store interface with its GORM implementation, and the
  service that creates, verifies and revokes tokens. bcrypt is a parameter: the hash function and
  the comparison are arguments of the operations that use them.
\<close>

section \<open>base64 without padding (Go's \<open>base64.RawURLEncoding\<close>)\<close>

definition b64_alphabet :: string where
  "b64_alphabet = ''ABCDEFGHIJKLMNOPQRSTUVWXYZabcdefghijklmnopqrstuvwxyz0123456789-_''"

fun index_of :: "'a \<Rightarrow> 'a list \<Rightarrow> nat option" where
  "index_of x [] = None"
| "index_of x (y # ys) = (if x = y then Some 0 else map_option Suc (index_of x ys))"

definition b64_char :: "nat \<Rightarrow> char" where
  "b64_char n = b64_alphabet ! n"

definition b64_index :: "char \<Rightarrow> nat option" where
  "b64_index c = index_of c b64_alphabet"

fun b64_sextets :: "nat list \<Rightarrow> nat list" where
  "b64_sextets (a # b # c # r) =
     [a div 4, (a mod 4) * 16 + b div 16, (b mod 16) * 4 + c div 64, c mod 64] @ b64_sextets r"
| "b64_sextets [a, b] = [a div 4, (a mod 4) * 16 + b div 16, (b mod 16) * 4]"
| "b64_sextets [a] = [a div 4, (a mod 4) * 16]"
| "b64_sextets [] = []"

fun b64_octets :: "nat list \<Rightarrow> nat list option" where
  "b64_octets (w # x # y # z # r) =
     map_option (\<lambda>bs. [w * 4 + x div 16, (x mod 16) * 16 + y div 4, (y mod 4) * 64 + z] @ bs)
       (b64_octets r)"
| "b64_octets [w, x, y] = Some [w * 4 + x div 16, (x mod 16) * 16 + y div 4]"
| "b64_octets [w, x] = Some [w * 4 + x div 16]"
| "b64_octets [w] = None"
| "b64_octets [] = Some []"

definition b64_encode :: "nat list \<Rightarrow> string" where
  "b64_encode bs = map b64_char (b64_sextets bs)"

definition b64_decode :: "string \<Rightarrow> nat list option" where
  \<comment> \<open>line breaks are skipped, as Go's decoder does; any other character outside the alphabet fails\<close>
  "b64_decode s =
     Option.bind (those (map b64_index (filter (\<lambda>c. c \<noteq> CHR 0x0A \<and> c \<noteq> CHR 0x0D) s))) b64_octets"

lemma b64_index_char [simp]: "n < 64 \<Longrightarrow> b64_index (b64_char n) = Some n"
proof -
  have "\<forall>n \<in> set [0..<64]. b64_index (b64_char n) = Some n" by code_simp
  then show "n < 64 \<Longrightarrow> ?thesis" by auto
qed

lemma b64_char_line_break: "n < 64 \<Longrightarrow> b64_char n \<noteq> CHR 0x0A \<and> b64_char n \<noteq> CHR 0x0D"
proof -
  have "\<forall>n \<in> set [0..<64]. b64_char n \<noteq> CHR 0x0A \<and> b64_char n \<noteq> CHR 0x0D" by code_simp
  then show "n < 64 \<Longrightarrow> ?thesis" by auto
qed

lemma sextet_bounds:
  fixes a b c :: nat
  assumes "a < 256" "b < 256" "c < 256"
  shows "a div 4 < 64" "(a mod 4) * 16 + b div 16 < 64" "(b mod 16) * 4 + c div 64 < 64"
proof -
  have "a div 4 < 64" "b div 16 < 16" "c div 64 < 4" using assms by auto
  moreover have "a mod 4 < 4" "b mod 16 < 16" by auto
  ultimately show "a div 4 < 64" "(a mod 4) * 16 + b div 16 < 64" "(b mod 16) * 4 + c div 64 < 64"
    by linarith+
qed

lemma b64_sextets_bound:
  "(\<forall>b\<in>set bs. b < 256) \<Longrightarrow> \<forall>s \<in> set (b64_sextets bs). s < 64"
proof (induction bs rule: b64_sextets.induct)
  case (1 a b c r)
  then show ?case using sextet_bounds [of a b c] by simp
next
  case (2 a b)
  then show ?case using sextet_bounds [of a b 0] by simp
next
  case (3 a)
  then show ?case using sextet_bounds [of a 0 0] by simp
qed simp

lemma b64_octets_sextets:
  "(\<forall>b\<in>set bs. b < 256) \<Longrightarrow> b64_octets (b64_sextets bs) = Some bs"
proof (induction bs rule: b64_sextets.induct)
  case (1 a b c r)
  have "b div 16 < 16" "c div 64 < 4" using 1 by auto
  then show ?case using 1 by simp
qed auto

lemma those_map_Some: "(\<forall>x\<in>set xs. f x = Some (g x)) \<Longrightarrow> those (map f xs) = Some (map g xs)"
  by (induction xs) auto

lemma b64_decode_encode:
  assumes "\<forall>b\<in>set bs. b < 256"
  shows "b64_decode (b64_encode bs) = Some bs"
proof -
  let ?ss = "b64_sextets bs"
  have b: "\<forall>s\<in>set ?ss. s < 64" using b64_sextets_bound [OF assms] by blast
  have f: "filter (\<lambda>c. c \<noteq> CHR 0x0A \<and> c \<noteq> CHR 0x0D) (map b64_char ?ss) = map b64_char ?ss"
    using b b64_char_line_break by (intro filter_True) auto
  have "those (map b64_index (map b64_char ?ss)) = Some (map (\<lambda>x. x) ?ss)"
    using b by (subst map_map) (intro those_map_Some, simp)
  with f show ?thesis
    by (simp add: b64_decode_def b64_encode_def b64_octets_sextets [OF assms])
qed

section \<open>Tokens (\<open>token.go\<close>)\<close>

definition token_prefix :: string where "token_prefix = ''agt_''"
definition ulid_length :: nat where "ulid_length = 26"
definition secret_bytes :: nat where "secret_bytes = 32"

record parsed_token =
  pt_agent_id :: string
  pt_secret :: string

datatype auth_err = ErrInvalidFormat | ErrUnknownAgent | ErrRevoked | ErrBadSecret
  | ErrStore | ErrEmptyAccount | ErrBcrypt

definition ulid_char :: "char \<Rightarrow> bool" where
  "ulid_char c =
     (if CHR ''0'' \<le> c \<and> c \<le> CHR ''9'' then True
      else if CHR ''A'' \<le> c \<and> c \<le> CHR ''Z'' then
        \<not> (c = CHR ''I'' \<or> c = CHR ''L'' \<or> c = CHR ''O'' \<or> c = CHR ''U'')
      else False)"

definition is_valid_ulid :: "string \<Rightarrow> bool" where
  "is_valid_ulid s \<longleftrightarrow> length s = ulid_length \<and> list_all ulid_char s"

definition parse_token :: "string \<Rightarrow> auth_err + parsed_token" where
  "parse_token token =
     (if \<not> has_prefix token token_prefix then Inl ErrInvalidFormat
      else let rest = drop (length token_prefix) token in
        if length rest < ulid_length + 1 then Inl ErrInvalidFormat
        else if rest ! ulid_length \<noteq> CHR ''_'' then Inl ErrInvalidFormat
        else let agent_id = take ulid_length rest; secret = drop (ulid_length + 1) rest in
          if \<not> is_valid_ulid agent_id then Inl ErrInvalidFormat
          else case b64_decode secret of
            None \<Rightarrow> Inl ErrInvalidFormat
          | Some decoded \<Rightarrow>
              if length decoded \<noteq> secret_bytes then Inl ErrInvalidFormat
              else Inr \<lparr>pt_agent_id = agent_id, pt_secret = secret\<rparr>)"

definition format_token :: "string \<Rightarrow> string \<Rightarrow> string" where
  "format_token agent_id secret = token_prefix @ agent_id @ ''_'' @ secret"

definition new_secret :: "nat list \<Rightarrow> string" where
  \<comment> \<open>the argument is what \<open>crypto/rand\<close> delivered: \<open>secret_bytes\<close> bytes\<close>
  "new_secret buf = b64_encode buf"

section \<open>Token rows and the store interface (\<open>service.go\<close>, \<open>gormstore.go\<close>)\<close>

record token_row =
  tr_agent_id :: string
  tr_account_id :: string
  tr_token_hash :: string
  tr_label :: string
  tr_last_seen_at :: "int option"
  tr_revoked_at :: "int option"

text \<open>
  \<open>TokenStore\<close>: each method returns its Go result, \<open>Inl\<close> when it returns an error, and the store
  after the call.
\<close>

record 's token_store =
  ts_get :: "string \<Rightarrow> 's \<Rightarrow> (unit + token_row option) \<times> 's"
  ts_create :: "token_row \<Rightarrow> 's \<Rightarrow> (unit + unit) \<times> 's"
  ts_revoke :: "string \<Rightarrow> int \<Rightarrow> 's \<Rightarrow> (unit + unit) \<times> 's"
  ts_touch :: "string \<Rightarrow> int \<Rightarrow> 's \<Rightarrow> (unit + unit) \<times> 's"

record token_db =
  td_rows :: "string \<rightharpoonup> token_row"
  td_faults :: "bool list"

definition gorm_get_by_agent_id :: "string \<Rightarrow> token_db \<Rightarrow> (unit + token_row option) \<times> token_db" where
  "gorm_get_by_agent_id agent_id db =
     (let db' = db\<lparr>td_faults := rest_faults (td_faults db)\<rparr> in
      if next_fault (td_faults db) then (Inl (), db') else (Inr (td_rows db agent_id), db'))"

definition gorm_create :: "token_row \<Rightarrow> token_db \<Rightarrow> (unit + unit) \<times> token_db" where
  \<comment> \<open>the unique index on \<open>agent_id\<close> refuses a second row\<close>
  "gorm_create row db =
     (let db' = db\<lparr>td_faults := rest_faults (td_faults db)\<rparr> in
      if next_fault (td_faults db) \<or> td_rows db (tr_agent_id row) \<noteq> None then (Inl (), db')
      else (Inr (), db'\<lparr>td_rows := (td_rows db)(tr_agent_id row \<mapsto> row)\<rparr>))"

definition set_revoked :: "int \<Rightarrow> token_row \<Rightarrow> token_row" where
  "set_revoked now row = (if tr_revoked_at row = None then row\<lparr>tr_revoked_at := Some now\<rparr> else row)"

definition gorm_revoke :: "string \<Rightarrow> int \<Rightarrow> token_db \<Rightarrow> (unit + unit) \<times> token_db" where
  "gorm_revoke agent_id now db =
     (let db' = db\<lparr>td_faults := rest_faults (td_faults db)\<rparr> in
      if next_fault (td_faults db) then (Inl (), db')
      else (Inr (), db'\<lparr>td_rows :=
        (td_rows db)(agent_id := map_option (set_revoked now) (td_rows db agent_id))\<rparr>))"

definition gorm_touch_last_seen :: "string \<Rightarrow> int \<Rightarrow> token_db \<Rightarrow> (unit + unit) \<times> token_db" where
  "gorm_touch_last_seen agent_id now db =
     (let db' = db\<lparr>td_faults := rest_faults (td_faults db)\<rparr> in
      if next_fault (td_faults db) then (Inl (), db')
      else (Inr (), db'\<lparr>td_rows :=
        (td_rows db)(agent_id :=
          map_option (\<lambda>row. row\<lparr>tr_last_seen_at := Some now\<rparr>) (td_rows db agent_id))\<rparr>))"

definition gorm_token_store :: "token_db token_store" where
  "gorm_token_store = \<lparr>ts_get = gorm_get_by_agent_id, ts_create = gorm_create,
     ts_revoke = gorm_revoke, ts_touch = gorm_touch_last_seen\<rparr>"

section \<open>The service\<close>

record verified =
  vf_agent_id :: string
  vf_account_id :: string

record created =
  cr_agent_id :: string
  cr_plaintext :: string

definition create_token ::
  "'s token_store \<Rightarrow> (string \<Rightarrow> string option) \<Rightarrow> string \<Rightarrow> nat list \<Rightarrow> string \<Rightarrow> string \<Rightarrow> 's
    \<Rightarrow> (auth_err + created) \<times> 's" where
  \<comment> \<open>arguments: store, bcrypt hash, fresh ULID, random bytes, account, label\<close>
  "create_token ts bcrypt_gen ulid rand account_id label s =
     (if account_id = [] then (Inl ErrEmptyAccount, s)
      else let secret = new_secret rand in
        case bcrypt_gen secret of
          None \<Rightarrow> (Inl ErrBcrypt, s)
        | Some h \<Rightarrow>
            (case ts_create ts \<lparr>tr_agent_id = ulid, tr_account_id = account_id, tr_token_hash = h,
                tr_label = label, tr_last_seen_at = None, tr_revoked_at = None\<rparr> s of
               (Inl _, s') \<Rightarrow> (Inl ErrStore, s')
             | (Inr _, s') \<Rightarrow>
                 (Inr \<lparr>cr_agent_id = ulid, cr_plaintext = format_token ulid secret\<rparr>, s')))"

definition verify_token ::
  "'s token_store \<Rightarrow> (string \<Rightarrow> string \<Rightarrow> bool) \<Rightarrow> string \<Rightarrow> int \<Rightarrow> 's \<Rightarrow> (auth_err + verified) \<times> 's" where
  "verify_token ts bcrypt_cmp token now s =
     (case parse_token token of
        Inl e \<Rightarrow> (Inl e, s)
      | Inr p \<Rightarrow>
          (case ts_get ts (pt_agent_id p) s of
             (Inl _, s') \<Rightarrow> (Inl ErrStore, s')
           | (Inr None, s') \<Rightarrow> (Inl ErrUnknownAgent, s')
           | (Inr (Some row), s') \<Rightarrow>
               if tr_revoked_at row \<noteq> None then (Inl ErrRevoked, s')
               else if \<not> bcrypt_cmp (tr_token_hash row) (pt_secret p) then (Inl ErrBadSecret, s')
               else let (_, s'') = ts_touch ts (pt_agent_id p) now s' in
                 (Inr \<lparr>vf_agent_id = tr_agent_id row, vf_account_id = tr_account_id row\<rparr>, s'')))"

definition revoke_token :: "'s token_store \<Rightarrow> string \<Rightarrow> int \<Rightarrow> 's \<Rightarrow> (unit + unit) \<times> 's" where
  "revoke_token ts agent_id now s = ts_revoke ts agent_id now s"

section \<open>The interface's contract\<close>

definition revoked_in :: "(string \<rightharpoonup> token_row) \<Rightarrow> string \<Rightarrow> bool" where
  "revoked_in rows agent_id \<longleftrightarrow>
     (case rows agent_id of None \<Rightarrow> False | Some row \<Rightarrow> tr_revoked_at row \<noteq> None)"

definition keyed_rows :: "(string \<rightharpoonup> token_row) \<Rightarrow> bool" where
  "keyed_rows rows \<longleftrightarrow> (\<forall>k row. rows k = Some row \<longrightarrow> tr_agent_id row = k)"

locale token_store_contract =
  fixes ts :: "'s token_store"
    and rows :: "'s \<Rightarrow> string \<rightharpoonup> token_row"
  assumes get_rows: "rows (snd (ts_get ts k s)) = rows s"
    and get_result: "fst (ts_get ts k s) = Inr r \<Longrightarrow> r = rows s k"
    and create_ok: "fst (ts_create ts row s) = Inr u \<Longrightarrow>
      rows s (tr_agent_id row) = None \<and>
      rows (snd (ts_create ts row s)) = (rows s)(tr_agent_id row \<mapsto> row)"
    and create_err: "fst (ts_create ts row s) = Inl u \<Longrightarrow> rows (snd (ts_create ts row s)) = rows s"
    and revoke_ok: "fst (ts_revoke ts k now s) = Inr u \<Longrightarrow>
      rows (snd (ts_revoke ts k now s)) = (rows s)(k := map_option (set_revoked now) (rows s k))"
    and revoke_err: "fst (ts_revoke ts k now s) = Inl u \<Longrightarrow> rows (snd (ts_revoke ts k now s)) = rows s"
    and touch_rows: "\<exists>f. (\<forall>row. tr_revoked_at (f row) = tr_revoked_at row \<and>
        tr_agent_id (f row) = tr_agent_id row \<and> tr_account_id (f row) = tr_account_id row \<and>
        tr_token_hash (f row) = tr_token_hash row) \<and>
      rows (snd (ts_touch ts k now s)) = (rows s)(k := map_option f (rows s k))"
begin

lemma verify_sound:
  assumes "fst (verify_token ts cmp token now s) = Inr v"
  shows "\<exists>p row. parse_token token = Inr p \<and> rows s (pt_agent_id p) = Some row \<and>
    tr_revoked_at row = None \<and> cmp (tr_token_hash row) (pt_secret p) \<and>
    v = \<lparr>vf_agent_id = tr_agent_id row, vf_account_id = tr_account_id row\<rparr>"
proof -
  from assms obtain p where p: "parse_token token = Inr p"
    by (auto simp: verify_token_def split: sum.splits)
  obtain r s' where g: "ts_get ts (pt_agent_id p) s = (r, s')" by (cases "ts_get ts (pt_agent_id p) s")
  with assms p obtain row where r: "r = Inr (Some row)"
    by (auto simp: verify_token_def split: sum.splits option.splits)
  with g get_result [of "pt_agent_id p" s] have "rows s (pt_agent_id p) = Some row" by simp
  with assms p g r show ?thesis
    by (auto simp: verify_token_def split: if_splits prod.splits)
qed

lemma touch_keeps_revoked:
  "revoked_in (rows s) a \<Longrightarrow> revoked_in (rows (snd (ts_touch ts k now s))) a"
  using touch_rows [of k now s] by (auto simp: revoked_in_def split: option.splits)

lemma create_keeps_revoked:
  "revoked_in (rows s) a \<Longrightarrow> revoked_in (rows (snd (ts_create ts row s))) a"
proof (cases "fst (ts_create ts row s)")
  case (Inr u)
  then show "revoked_in (rows s) a \<Longrightarrow> ?thesis"
    using create_ok [OF Inr] by (auto simp: revoked_in_def split: option.splits)
qed (use create_err in simp)

lemma revoke_keeps_revoked:
  "revoked_in (rows s) a \<Longrightarrow> revoked_in (rows (snd (ts_revoke ts k now s))) a"
proof (cases "fst (ts_revoke ts k now s)")
  case (Inr u)
  then show "revoked_in (rows s) a \<Longrightarrow> ?thesis"
    using revoke_ok [OF Inr] by (auto simp: revoked_in_def set_revoked_def split: option.splits)
qed (use revoke_err in simp)

lemma verify_keeps_revoked:
  "revoked_in (rows s) a \<Longrightarrow> revoked_in (rows (snd (verify_token ts cmp token now s))) a"
  using get_rows touch_keeps_revoked
  by (auto simp: verify_token_def split: sum.splits option.splits prod.splits)
    (metis get_rows snd_conv touch_keeps_revoked)+

lemma create_token_keeps_revoked:
  "revoked_in (rows s) a \<Longrightarrow> revoked_in (rows (snd (create_token ts gen u rnd acct lab s))) a"
  unfolding create_token_def Let_def
  by (auto split: option.splits sum.splits prod.splits) (metis create_keeps_revoked snd_conv)+

lemma verify_revoked_fails:
  "parse_token token = Inr p \<Longrightarrow> revoked_in (rows s) (pt_agent_id p) \<Longrightarrow>
     fst (verify_token ts cmp token now s) \<noteq> Inr v"
  using verify_sound [of cmp token now s v] by (auto simp: revoked_in_def)

end

lemma gorm_touch_rows:
  "\<exists>f. (\<forall>row. tr_revoked_at (f row) = tr_revoked_at row \<and> tr_agent_id (f row) = tr_agent_id row \<and>
      tr_account_id (f row) = tr_account_id row \<and> tr_token_hash (f row) = tr_token_hash row) \<and>
    td_rows (snd (gorm_touch_last_seen k now db)) = (td_rows db)(k := map_option f (td_rows db k))"
proof (cases "next_fault (td_faults db)")
  case True
  then show ?thesis by (intro exI [of _ id]) (simp add: gorm_touch_last_seen_def option.map_id)
next
  case False
  then show ?thesis
    by (intro exI [of _ "\<lambda>row. row\<lparr>tr_last_seen_at := Some now\<rparr>"]) (simp add: gorm_touch_last_seen_def)
qed

interpretation gorm_tokens: token_store_contract gorm_token_store td_rows
  by unfold_locales
    (auto simp: gorm_token_store_def gorm_get_by_agent_id_def gorm_create_def gorm_revoke_def
      Let_def split: if_splits intro: gorm_touch_rows)

section \<open>Runs of the service over the database\<close>

datatype auth_op =
    OpCreate "string \<Rightarrow> string option" string "nat list" string string
  | OpVerify "string \<Rightarrow> string \<Rightarrow> bool" string int
  | OpRevoke string int

fun auth_step :: "auth_op \<Rightarrow> token_db \<Rightarrow> token_db" where
  "auth_step (OpCreate gen ulid rnd acct label) db =
     snd (create_token gorm_token_store gen ulid rnd acct label db)"
| "auth_step (OpVerify cmp token now) db = snd (verify_token gorm_token_store cmp token now db)"
| "auth_step (OpRevoke k now) db = snd (revoke_token gorm_token_store k now db)"

lemma auth_step_keeps_revoked:
  "revoked_in (td_rows db) a \<Longrightarrow> revoked_in (td_rows (auth_step op db)) a"
  by (cases op) (simp_all add: revoke_token_def gorm_tokens.create_token_keeps_revoked
      gorm_tokens.verify_keeps_revoked gorm_tokens.revoke_keeps_revoked)

lemma auth_run_keeps_revoked:
  "revoked_in (td_rows db) a \<Longrightarrow> revoked_in (td_rows (fold auth_step ops db)) a"
  by (rule fold_keeps [where P = "\<lambda>db. revoked_in (td_rows db) a"])
    (simp_all add: auth_step_keeps_revoked)

definition empty_token_db :: "bool list \<Rightarrow> token_db" where
  "empty_token_db faults = \<lparr>td_rows = Map.empty, td_faults = faults\<rparr>"

lemma auth_step_keyed: "keyed_rows (td_rows db) \<Longrightarrow> keyed_rows (td_rows (auth_step op db))"
  by (cases op)
    (auto simp: keyed_rows_def create_token_def verify_token_def revoke_token_def gorm_token_store_def
      gorm_create_def gorm_get_by_agent_id_def gorm_touch_last_seen_def gorm_revoke_def
      set_revoked_def Let_def split: option.splits sum.splits if_splits)

lemma auth_run_keyed: "keyed_rows (td_rows db) \<Longrightarrow> keyed_rows (td_rows (fold auth_step ops db))"
  by (rule fold_keeps [where P = "\<lambda>db. keyed_rows (td_rows db)"]) (simp_all add: auth_step_keyed)

lemma parse_token_ok:
  assumes "is_valid_ulid a" "b64_decode secret = Some bs" "length bs = secret_bytes"
  shows "parse_token (format_token a secret) = Inr \<lparr>pt_agent_id = a, pt_secret = secret\<rparr>"
proof -
  have len: "length a = ulid_length" using assms(1) by (simp add: is_valid_ulid_def)
  then have "(a @ CHR ''_'' # secret) ! ulid_length = CHR ''_''"
    by (metis nth_append_length)
  with assms len show ?thesis
    by (simp add: parse_token_def format_token_def Let_def)
qed

text \<open>
  The token \<open>FormatToken\<close> builds from a ULID and a fresh secret is parsed back by \<open>ParseToken\<close>
  into exactly that agent id and secret, whatever bytes the random source delivered (the secret's
  alphabet contains the separator \<open>_\<close>, so this rests on the fixed width of the agent id).
\<close>

theorem token_roundtrip:
  assumes "is_valid_ulid a" "length buf = secret_bytes" "\<forall>b\<in>set buf. b < 256"
  shows "parse_token (format_token a (new_secret buf)) =
    Inr \<lparr>pt_agent_id = a, pt_secret = new_secret buf\<rparr>"
  using parse_token_ok [OF assms(1) _ assms(2)] b64_decode_encode [OF assms(3)]
  by (simp add: new_secret_def)

theorem token_roundtrip_witness:
  "new_secret (replicate 32 255) = replicate 42 CHR ''_'' @ ''8'' \<and>
   parse_token (format_token ''01ARZ3NDEKTSV4RRFFQ69G5FAV'' (new_secret (replicate 32 255))) =
    Inr \<lparr>pt_agent_id = ''01ARZ3NDEKTSV4RRFFQ69G5FAV'', pt_secret = new_secret (replicate 32 255)\<rparr>"
proof
  show "new_secret (replicate 32 255) = replicate 42 CHR ''_'' @ ''8''" by code_simp
  show "parse_token (format_token ''01ARZ3NDEKTSV4RRFFQ69G5FAV'' (new_secret (replicate 32 255))) =
    Inr \<lparr>pt_agent_id = ''01ARZ3NDEKTSV4RRFFQ69G5FAV'', pt_secret = new_secret (replicate 32 255)\<rparr>"
    by (rule token_roundtrip) (code_simp, simp_all add: secret_bytes_def)
qed

text \<open>
  A token that \<open>CreateToken\<close> issued is accepted by \<open>Verify\<close>, and yields the agent and the
  account it was issued for, as long as bcrypt accepts the password it hashed and the lookup does
  not fail.
\<close>

theorem created_token_verifies:
  assumes created: "create_token gorm_token_store gen ulid rnd acct label db = (Inr c, db')"
    and bcrypt: "\<And>pw h. gen pw = Some h \<Longrightarrow> cmp h pw"
    and ulid: "is_valid_ulid ulid" and rnd: "length rnd = secret_bytes" "\<forall>b\<in>set rnd. b < 256"
    and up: "\<not> next_fault (td_faults db')"
  shows "fst (verify_token gorm_token_store cmp (cr_plaintext c) now db') =
    Inr \<lparr>vf_agent_id = ulid, vf_account_id = acct\<rparr>"
proof -
  from created obtain h where h: "gen (new_secret rnd) = Some h"
    and c: "cr_plaintext c = format_token ulid (new_secret rnd)"
    and row: "td_rows db' ulid = Some \<lparr>tr_agent_id = ulid, tr_account_id = acct, tr_token_hash = h,
        tr_label = label, tr_last_seen_at = None, tr_revoked_at = None\<rparr>"
    by (auto simp: create_token_def gorm_token_store_def gorm_create_def Let_def
        split: if_splits option.splits sum.splits)
  have "parse_token (cr_plaintext c) = Inr \<lparr>pt_agent_id = ulid, pt_secret = new_secret rnd\<rparr>"
    using parse_token_ok [OF ulid _ rnd(1)] b64_decode_encode [OF rnd(2)] c
    by (simp add: new_secret_def)
  with row up bcrypt [OF h] show ?thesis
    by (simp add: verify_token_def gorm_token_store_def gorm_get_by_agent_id_def split_def Let_def)
qed

theorem created_token_verifies_witness:
  "\<exists>c db'. create_token gorm_token_store Some ''01ARZ3NDEKTSV4RRFFQ69G5FAV'' (replicate 32 7)
        ''acct-1'' [] (empty_token_db []) = (Inr c, db') \<and>
     fst (verify_token gorm_token_store (=) (cr_plaintext c) 9 db') =
       Inr \<lparr>vf_agent_id = ''01ARZ3NDEKTSV4RRFFQ69G5FAV'', vf_account_id = ''acct-1''\<rparr>"
proof -
  let ?r = "create_token gorm_token_store Some ''01ARZ3NDEKTSV4RRFFQ69G5FAV'' (replicate 32 7)
    ''acct-1'' [] (empty_token_db [])"
  obtain c db' where r: "?r = (Inr c, db')" and f: "td_faults db' = []"
    by (simp add: create_token_def gorm_token_store_def gorm_create_def empty_token_db_def Let_def)
  have u: "is_valid_ulid ''01ARZ3NDEKTSV4RRFFQ69G5FAV''" by code_simp
  have "fst (verify_token gorm_token_store (=) (cr_plaintext c) 9 db') =
       Inr \<lparr>vf_agent_id = ''01ARZ3NDEKTSV4RRFFQ69G5FAV'', vf_account_id = ''acct-1''\<rparr>"
    using f by (intro created_token_verifies [OF r _ u]) (simp_all add: secret_bytes_def)
  with r show ?thesis by blast
qed

text \<open>
  Revocation is final. Once an agent's token row is revoked, no later sequence of creations,
  verifications and revocations, with database failures anywhere, makes \<open>Verify\<close> accept a token
  of that agent again, whatever the password comparison answers.
\<close>

theorem revoked_token_never_verifies:
  assumes "revoked_in (td_rows db) a" "parse_token token = Inr p" "pt_agent_id p = a"
  shows "\<nexists>v. fst (verify_token gorm_token_store cmp token now (fold auth_step ops db)) = Inr v"
  using gorm_tokens.verify_revoked_fails [OF assms(2)] auth_run_keeps_revoked [OF assms(1)] assms(3)
  by blast

theorem revoked_token_never_verifies_witness:
  "\<nexists>v. fst (verify_token gorm_token_store (\<lambda>_ _. True)
      (format_token ''01ARZ3NDEKTSV4RRFFQ69G5FAV'' (new_secret (replicate 32 7))) 3
      (fold auth_step [OpRevoke ''01ARZ3NDEKTSV4RRFFQ69G5FAV'' 2]
        (auth_step (OpRevoke ''01ARZ3NDEKTSV4RRFFQ69G5FAV'' 1)
          (auth_step (OpCreate Some ''01ARZ3NDEKTSV4RRFFQ69G5FAV'' (replicate 32 7) ''acct-1'' [])
            (empty_token_db []))))) = Inr v"
proof (rule revoked_token_never_verifies)
  show "revoked_in (td_rows (auth_step (OpRevoke ''01ARZ3NDEKTSV4RRFFQ69G5FAV'' 1)
          (auth_step (OpCreate Some ''01ARZ3NDEKTSV4RRFFQ69G5FAV'' (replicate 32 7) ''acct-1'' [])
            (empty_token_db [])))) ''01ARZ3NDEKTSV4RRFFQ69G5FAV''"
    by (simp add: create_token_def revoke_token_def gorm_token_store_def gorm_create_def
        gorm_revoke_def empty_token_db_def revoked_in_def set_revoked_def Let_def)
  show "parse_token (format_token ''01ARZ3NDEKTSV4RRFFQ69G5FAV'' (new_secret (replicate 32 7))) =
    Inr \<lparr>pt_agent_id = ''01ARZ3NDEKTSV4RRFFQ69G5FAV'', pt_secret = new_secret (replicate 32 7)\<rparr>"
    by code_simp
qed simp

end
