(* ===== verification/WsHub.thy ===== *)
theory WsHub
  imports Dispatch AgentAuth
begin

text \<open>
  The websocket hub (\<open>internal/saas/wshub\<close>): the connection state machine with its outbox, write
  pump and heartbeat, the server's side of the handshake, the registry, and the operations the rest
  of the server calls. Connections are numbered in the order they are accepted; a goroutine that
  waits on the socket is a stage of the connection. Calls of the hub's hooks are kept as a trace.
\<close>

section \<open>State\<close>

datatype conn_phase = PhConnecting | PhAwaitingAuth | PhAuthed | PhReady | PhClosed

datatype stage =
    WaitHello                   \<comment> \<open>\<open>doHandshake\<close> reads the hello\<close>
  | WaitAuth hello              \<comment> \<open>it reads the auth\<close>
  | LatchRead bool              \<comment> \<open>the frozen latch is read, \<open>auth_ok\<close> not sent yet\<close>
  | WaitSync                    \<comment> \<open>it reads the state sync\<close>
  | Pumping                     \<comment> \<open>\<open>readPump\<close>\<close>
  | Leaving                     \<comment> \<open>\<open>Run\<close> has returned\<close>
  | Gone                        \<comment> \<open>unregistered\<close>

record connection =
  cn_account :: string
  cn_agent :: string
  cn_phase :: conn_phase
  cn_outbox :: "json list"
  cn_ping :: string             \<comment> \<open>\<open>pendingPingID\<close>\<close>
  cn_misses :: nat              \<comment> \<open>the heartbeat loop's counter\<close>
  cn_closed :: bool             \<comment> \<open>\<open>closeCh\<close> is closed\<close>
  cn_pump :: bool               \<comment> \<open>the write pump runs\<close>
  cn_stage :: stage
  cn_wire :: "json list"        \<comment> \<open>frames written to the socket\<close>

definition new_connection :: connection where
  "new_connection = \<lparr>cn_account = [], cn_agent = [], cn_phase = PhConnecting, cn_outbox = [],
     cn_ping = [], cn_misses = 0, cn_closed = False, cn_pump = True, cn_stage = WaitHello,
     cn_wire = []\<rparr>"

datatype hub_event =
    EvState string string string string int   \<comment> \<open>account, agent, state, message id, time\<close>
  | EvAgentMessage string envelope
  | EvStateSync string json
  | EvStale string
  | EvReject string string

record 't hub =
  hb_conns :: "nat \<Rightarrow> connection"
  hb_next :: nat                             \<comment> \<open>connections accepted so far\<close>
  hb_registry :: "string \<rightharpoonup> nat"
  hb_tokens :: 't
  hb_ticks :: nat                            \<comment> \<open>clock readings and message ids used so far\<close>
  hb_events :: "hub_event list"

record 't hub_env =
  hv_msg_id :: "nat \<Rightarrow> string"
  hv_now :: "nat \<Rightarrow> int"
  hv_tokens :: "'t token_store"
  hv_bcrypt :: "string \<Rightarrow> string \<Rightarrow> bool"
  hv_ping_misses :: nat
  hv_expected_env :: string
  hv_reject_env :: bool
  hv_price_cap :: f64

definition new_hub :: "'t \<Rightarrow> 't hub" where
  "new_hub t = \<lparr>hb_conns = (\<lambda>_. new_connection), hb_next = 0, hb_registry = Map.empty,
     hb_tokens = t, hb_ticks = 0, hb_events = []\<rparr>"

definition effective_ping_misses :: "nat \<Rightarrow> nat" where
  \<comment> \<open>the default of \<open>New\<close>\<close>
  "effective_ping_misses n = (if n = 0 then 3 else n)"

definition upd_conn :: "nat \<Rightarrow> (connection \<Rightarrow> connection) \<Rightarrow> 't hub \<Rightarrow> 't hub" where
  "upd_conn i f h = h\<lparr>hb_conns := (hb_conns h)(i := f (hb_conns h i))\<rparr>"

definition emit :: "hub_event \<Rightarrow> 't hub \<Rightarrow> 't hub" where
  "emit ev h = h\<lparr>hb_events := hb_events h @ [ev]\<rparr>"

definition hub_now :: "'t hub_env \<Rightarrow> 't hub \<Rightarrow> int \<times> 't hub" where
  "hub_now env h = (hv_now env (hb_ticks h), h\<lparr>hb_ticks := Suc (hb_ticks h)\<rparr>)"

definition hub_msg_id :: "'t hub_env \<Rightarrow> 't hub \<Rightarrow> string \<times> 't hub" where
  "hub_msg_id env h = (hv_msg_id env (hb_ticks h), h\<lparr>hb_ticks := Suc (hb_ticks h)\<rparr>)"

section \<open>Connection (\<open>connection.go\<close>)\<close>

definition notify_state :: "'t hub_env \<Rightarrow> nat \<Rightarrow> string \<Rightarrow> string \<Rightarrow> 't hub \<Rightarrow> 't hub" where
  "notify_state env i state msg h =
     (let (t, h) = hub_now env h; c = hb_conns h i
      in emit (EvState (cn_account c) (cn_agent c) state msg t) h)"

definition close_conn :: "nat \<Rightarrow> 't hub \<Rightarrow> 't hub" where
  "close_conn i h =
     (if cn_closed (hb_conns h i) then h
      else upd_conn i (\<lambda>c. c\<lparr>cn_phase := PhClosed, cn_closed := True\<rparr>) h)"

definition is_ready :: "nat \<Rightarrow> 't hub \<Rightarrow> bool" where
  "is_ready i h \<longleftrightarrow> cn_phase (hb_conns h i) = PhReady"

definition outbox_cap :: nat where "outbox_cap = 32"

definition send_frame :: "nat \<Rightarrow> json \<Rightarrow> 't hub \<Rightarrow> bool \<times> 't hub" where
  "send_frame i frame h =
     (let c = hb_conns h i in
      if cn_closed c then (False, h)
      else if length (cn_outbox c) < outbox_cap then
        (True, upd_conn i (\<lambda>c. c\<lparr>cn_outbox := cn_outbox c @ [frame]\<rparr>) h)
      else (False, close_conn i h))"

definition conn_send :: "'t hub_env \<Rightarrow> nat \<Rightarrow> string \<Rightarrow> json \<Rightarrow> 't hub \<Rightarrow> bool \<times> 't hub" where
  \<comment> \<open>\<open>sendTyped\<close> on a payload that marshals\<close>
  "conn_send env i t payload h =
     (let (m, h) = hub_msg_id env h; (now, h) = hub_now env h in
      case encode_message t m now (cn_account (hb_conns h i)) (Some payload) of
        Inl _ \<Rightarrow> (False, h)
      | Inr frame \<Rightarrow> send_frame i frame h)"

definition reply_error :: "'t hub_env \<Rightarrow> nat \<Rightarrow> string \<Rightarrow> string \<Rightarrow> string \<Rightarrow> 't hub \<Rightarrow> 't hub" where
  "reply_error env i code msg ref h =
     snd (conn_send env i TypeError
       (marshal_wire_error \<lparr>we_code = code, we_message = msg, we_ref_msg_id = ref\<rparr>) h)"

definition send_auth_fail :: "'t hub_env \<Rightarrow> nat \<Rightarrow> string \<Rightarrow> string \<Rightarrow> 't hub \<Rightarrow> 't hub" where
  "send_auth_fail env i code reason h =
     snd (conn_send env i TypeAuthFail (marshal_auth_fail \<lparr>af_code = code, af_reason = reason\<rparr>) h)"

fun hub_error_code_for_decode :: "wire_err \<Rightarrow> string" where
  "hub_error_code_for_decode ErrSchemaMismatch = ''schema_mismatch''"
| "hub_error_code_for_decode ErrUnknownType = ''unknown_type''"
| "hub_error_code_for_decode ErrInvalidEnvelope = ''invalid_envelope''"
| "hub_error_code_for_decode _ = ''decode_failed''"

text \<open>What a read of the socket yields: a frame, or an error (a timeout, a closed socket).\<close>

datatype hub_inbound = HubFrame "json option" | HubReadErr

definition read_envelope :: "'t hub_env \<Rightarrow> nat \<Rightarrow> hub_inbound \<Rightarrow> 't hub \<Rightarrow> envelope option \<times> 't hub" where
  "read_envelope env i inb h =
     (case inb of
        HubReadErr \<Rightarrow> (None, h)
      | HubFrame j \<Rightarrow>
          (case decode_envelope j of
             Inl e \<Rightarrow> (None, reply_error env i (hub_error_code_for_decode e) ''decode'' [] h)
           | Inr e \<Rightarrow> (Some e, h)))"

fun map_auth_err :: "auth_err \<Rightarrow> string" where
  "map_auth_err ErrRevoked = ''revoked''"
| "map_auth_err _ = ''invalid_token''"

definition set_stage :: "nat \<Rightarrow> stage \<Rightarrow> 't hub \<Rightarrow> 't hub" where
  "set_stage i s h = upd_conn i (\<lambda>c. c\<lparr>cn_stage := s\<rparr>) h"

definition set_phase :: "nat \<Rightarrow> conn_phase \<Rightarrow> 't hub \<Rightarrow> 't hub" where
  "set_phase i p h = upd_conn i (\<lambda>c. c\<lparr>cn_phase := p\<rparr>) h"

definition end_run :: "'t hub_env \<Rightarrow> nat \<Rightarrow> 't hub \<Rightarrow> 't hub" where
  \<comment> \<open>the deferred part of \<open>Run\<close>\<close>
  "end_run env i h =
     (let h = (if cn_account (hb_conns h i) \<noteq> [] then notify_state env i ''disconnected'' [] h else h)
      in set_stage i Leaving (close_conn i h))"

section \<open>Registry (\<open>registry.go\<close>)\<close>

definition register :: "nat \<Rightarrow> 't hub \<Rightarrow> 't hub" where
  "register i h =
     (let acct = cn_account (hb_conns h i);
          h = (case hb_registry h acct of None \<Rightarrow> h | Some p \<Rightarrow> close_conn p h)
      in h\<lparr>hb_registry := (hb_registry h)(acct \<mapsto> i)\<rparr>)"

definition unregister :: "nat \<Rightarrow> 't hub \<Rightarrow> 't hub" where
  "unregister i h =
     (let acct = cn_account (hb_conns h i) in
      if hb_registry h acct = Some i then h\<lparr>hb_registry := (hb_registry h)(acct := None)\<rparr> else h)"

definition registry_get :: "string \<Rightarrow> 't hub \<Rightarrow> nat option" where
  "registry_get acct h = hb_registry h acct"

section \<open>The server's side of the handshake\<close>

definition on_hello :: "'t hub_env \<Rightarrow> nat \<Rightarrow> hub_inbound \<Rightarrow> 't hub \<Rightarrow> 't hub" where
  "on_hello env i inb h =
     (let (r, h) = read_envelope env i inb h in
      case r of
        None \<Rightarrow> end_run env i h
      | Some e \<Rightarrow>
        if env_type e \<noteq> TypeHello then
          end_run env i (reply_error env i ''unknown_type'' ''expected hello as first frame''
            (env_msg_id e) h)
        else case decode_payload hello_fields zero_hello e of
          Inl _ \<Rightarrow> end_run env i h
        | Inr hello \<Rightarrow>
          if he_schema_version hello \<noteq> schema_version then
            end_run env i (send_auth_fail env i ''schema_mismatch'' ''schema_version mismatch'' h)
          else
            (let (ok, h) = conn_send env i TypeAuthRequired (JObj []) (set_phase i PhAwaitingAuth h)
             in if ok then set_stage i (WaitAuth hello) h else end_run env i h))"

definition env_mismatch :: "'t hub_env \<Rightarrow> hello \<Rightarrow> bool" where
  "env_mismatch env hello \<longleftrightarrow>
     hv_expected_env env \<noteq> [] \<and> he_environment hello \<noteq> [] \<and> he_environment hello \<noteq> hv_expected_env env"

definition on_auth ::
  "'t hub_env \<Rightarrow> (string \<Rightarrow> (unit + bool) option) \<Rightarrow> nat \<Rightarrow> hello \<Rightarrow> hub_inbound \<Rightarrow> 't hub \<Rightarrow> 't hub" where
  \<comment> \<open>the frozen lookup is nothing when no hook is set, and a failed lookup freezes\<close>
  "on_auth env lookup i hello inb h =
     (let (r, h) = read_envelope env i inb h in
      case r of
        None \<Rightarrow> end_run env i h
      | Some e \<Rightarrow>
        if env_type e \<noteq> TypeAuth then
          end_run env i (reply_error env i ''unknown_type'' ''expected auth'' (env_msg_id e) h)
        else case decode_payload auth_fields zero_auth e of
          Inl _ \<Rightarrow> end_run env i h
        | Inr auth \<Rightarrow>
          (let (now, h) = hub_now env h;
               (v, t) = verify_token (hv_tokens env) (hv_bcrypt env) (au_token auth) now (hb_tokens h);
               h = h\<lparr>hb_tokens := t\<rparr>
           in case v of
             Inl err \<Rightarrow> end_run env i (send_auth_fail env i (map_auth_err err) ''auth verify'' h)
           | Inr vf \<Rightarrow>
             if he_account_id hello \<noteq> vf_account_id vf then
               end_run env i (send_auth_fail env i ''account_mismatch''
                 ''hello.account_id does not match token binding'' h)
             else
               (let h = upd_conn i (\<lambda>c. c\<lparr>cn_agent := vf_agent_id vf, cn_account := vf_account_id vf\<rparr>) h
                in if env_mismatch env hello \<and> hv_reject_env env then
                     end_run env i (emit (EvReject (vf_account_id vf) ''environment_mismatch'')
                       (send_auth_fail env i ''environment_mismatch''
                         ''agent environment does not match deployment expectation'' h))
                   else
                     (let frozen = (case lookup (vf_account_id vf) of
                            None \<Rightarrow> False | Some (Inl _) \<Rightarrow> True | Some (Inr f) \<Rightarrow> f)
                      in set_stage i (LatchRead frozen) h))))"

definition complete_auth :: "'t hub_env \<Rightarrow> nat \<Rightarrow> bool \<Rightarrow> 't hub \<Rightarrow> 't hub" where
  "complete_auth env i frozen h =
     (let (now, h) = hub_now env h;
          (ok, h) = conn_send env i TypeAuthOK (marshal_auth_ok
            \<lparr>ok_server_now_ms = now, ok_agent_id = cn_agent (hb_conns h i), ok_frozen = frozen\<rparr>) h
      in if \<not> ok then end_run env i h
         else let h = register i (notify_state env i ''authed'' [] (set_phase i PhAuthed h));
                  (ok, h) = conn_send env i TypeStateSyncRequest (JObj []) h
              in if ok then set_stage i WaitSync h else end_run env i h)"

definition on_sync :: "'t hub_env \<Rightarrow> nat \<Rightarrow> hub_inbound \<Rightarrow> 't hub \<Rightarrow> 't hub" where
  "on_sync env i inb h =
     (let (r, h) = read_envelope env i inb h in
      case r of
        None \<Rightarrow> end_run env i h
      | Some e \<Rightarrow>
        if env_type e \<noteq> TypeStateSyncResponse then
          end_run env i (reply_error env i ''unknown_type'' ''expected state_sync_response''
            (env_msg_id e) h)
        else
          (let h = (case env_payload e of None \<Rightarrow> h
                    | Some p \<Rightarrow> emit (EvStateSync (cn_account (hb_conns h i)) p) h);
               h = set_phase i PhReady h
           in set_stage i Pumping (notify_state env i ''ready'' (env_msg_id e) h)))"

section \<open>Steady state\<close>

definition handle_pong :: "nat \<Rightarrow> envelope \<Rightarrow> 't hub \<Rightarrow> 't hub" where
  "handle_pong i e h =
     (case decode_payload pong_fields zero_pong e of
        Inl _ \<Rightarrow> h
      | Inr p \<Rightarrow>
          if po_echo_msg_id p = cn_ping (hb_conns h i)
          then upd_conn i (\<lambda>c. c\<lparr>cn_ping := []\<rparr>) h else h)"

definition hub_dispatch_inbound :: "'t hub_env \<Rightarrow> nat \<Rightarrow> envelope \<Rightarrow> 't hub \<Rightarrow> 't hub" where
  "hub_dispatch_inbound env i e h =
     (if env_type e = TypePong then notify_state env i ''ready'' (env_msg_id e) (handle_pong i e h)
      else if env_type e = TypeAck \<or> env_type e = TypeOrderUpdate \<or> env_type e = TypeDeltaReport then
        notify_state env i ''ready'' (env_msg_id e)
          (emit (EvAgentMessage (cn_account (hb_conns h i)) e) h)
      else if env_type e = TypeError then h
      else reply_error env i ''unknown_type'' ''unexpected type after handshake'' (env_msg_id e) h)"

definition read_pump_step :: "'t hub_env \<Rightarrow> nat \<Rightarrow> hub_inbound \<Rightarrow> 't hub \<Rightarrow> 't hub" where
  "read_pump_step env i inb h =
     (if cn_closed (hb_conns h i) then end_run env i h
      else let (r, h) = read_envelope env i inb h in
        case r of None \<Rightarrow> end_run env i h | Some e \<Rightarrow> hub_dispatch_inbound env i e h)"

definition heartbeat_tick :: "'t hub_env \<Rightarrow> nat \<Rightarrow> 't hub \<Rightarrow> 't hub" where
  "heartbeat_tick env i h =
     (let c = hb_conns h i in
      if cn_closed c then h
      else if cn_ping c \<noteq> [] \<and> effective_ping_misses (hv_ping_misses env) \<le> Suc (cn_misses c) then
        close_conn i (notify_state env i ''stale'' []
          (emit (EvStale (cn_account c)) (upd_conn i (\<lambda>c. c\<lparr>cn_misses := Suc (cn_misses c)\<rparr>) h)))
      else
        (let h = upd_conn i (\<lambda>c. c\<lparr>cn_misses := (if cn_ping c \<noteq> [] then Suc (cn_misses c) else 0)\<rparr>) h;
             (m, h) = hub_msg_id env h;
             h = upd_conn i (\<lambda>c. c\<lparr>cn_ping := m\<rparr>) h;
             (t1, h) = hub_now env h; (t2, h) = hub_now env h
         in case encode_message TypePing m t1 (cn_account c) (Some (marshal_ping \<lparr>pi_server_now_ms = t2\<rparr>)) of
              Inl _ \<Rightarrow> h
            | Inr frame \<Rightarrow> snd (send_frame i frame h)))"

definition pump_write :: "nat \<Rightarrow> 't hub \<Rightarrow> 't hub" where
  \<comment> \<open>the write pump takes a frame from the outbox and writes it\<close>
  "pump_write i h =
     upd_conn i (\<lambda>c. case cn_outbox c of
       [] \<Rightarrow> c
     | f # fs \<Rightarrow> if cn_pump c then c\<lparr>cn_outbox := fs, cn_wire := cn_wire c @ [f]\<rparr> else c) h"

definition pump_exit :: "nat \<Rightarrow> nat \<Rightarrow> 't hub \<Rightarrow> 't hub" where
  \<comment> \<open>it drains what the budget allows, \<open>n\<close> frames, and closes the socket\<close>
  "pump_exit i n h =
     upd_conn i (\<lambda>c. if cn_pump c then c\<lparr>cn_outbox := drop n (cn_outbox c),
       cn_wire := cn_wire c @ take n (cn_outbox c), cn_pump := False\<rparr> else c) h"

section \<open>Operations of the server (\<open>hub.go\<close>)\<close>

definition accept_conn :: "'t hub \<Rightarrow> nat \<times> 't hub" where
  \<comment> \<open>\<open>NewConnection\<close>\<close>
  "accept_conn h = (hb_next h, h\<lparr>hb_conns := (hb_conns h)(hb_next h := new_connection),
     hb_next := Suc (hb_next h)\<rparr>)"

definition leave_hub :: "nat \<Rightarrow> 't hub \<Rightarrow> 't hub" where
  \<comment> \<open>the deferred part of \<open>runConn\<close>, once the write pump is done\<close>
  "leave_hub i h = set_stage i Gone (unregister i h)"

datatype dispatch_err = ErrNoClose | ErrNoSymbol | ErrNotConnected | ErrBuild string | ErrEncode
  | ErrSend

fun dispatch_orders ::
  "'t hub_env \<Rightarrow> nat \<Rightarrow> string \<Rightarrow> string \<Rightarrow> string \<Rightarrow> f64 \<Rightarrow> order_intent list \<Rightarrow> 't hub
    \<Rightarrow> (dispatch_err + unit) \<times> 't hub" where
  "dispatch_orders env i inst acct sy close [] h = (Inr (), h)"
| "dispatch_orders env i inst acct sy close (oi # ois) h =
     (let (now, h) = hub_now env h in
      case build_trade_command oi inst sy close now (hv_price_cap env) of
        Inl e \<Rightarrow> (Inl (ErrBuild e), h)
      | Inr tc \<Rightarrow>
        (let (m, h) = hub_msg_id env h; (t, h) = hub_now env h in
         case encode_message TypeTradeCommand m t acct (Some (marshal_trade_command tc)) of
           Inl _ \<Rightarrow> (Inl ErrEncode, h)
         | Inr frame \<Rightarrow>
           (let (ok, h) = send_frame i frame h in
            if ok then dispatch_orders env i inst acct sy close ois h else (Inl ErrSend, h))))"

definition hub_dispatch ::
  "'t hub_env \<Rightarrow> string \<Rightarrow> string \<Rightarrow> string \<Rightarrow> f64 \<Rightarrow> order_intent list \<Rightarrow> 't hub
    \<Rightarrow> (dispatch_err + unit) \<times> 't hub" where
  "hub_dispatch env inst acct sy close ois h =
     (if ois = [] then (Inr (), h)
      else if f_le close (Fin 0) then (Inl ErrNoClose, h)
      else if sy = [] then (Inl ErrNoSymbol, h)
      else case registry_get acct h of
        None \<Rightarrow> (Inl ErrNotConnected, h)
      | Some i \<Rightarrow>
          if \<not> is_ready i h then (Inl ErrNotConnected, h)
          else dispatch_orders env i inst acct sy close ois h)"

definition send_kill_switch ::
  "'t hub_env \<Rightarrow> string \<Rightarrow> kill_switch \<Rightarrow> 't hub \<Rightarrow> (dispatch_err + unit) \<times> 't hub" where
  "send_kill_switch env acct ks h =
     (case registry_get acct h of
        None \<Rightarrow> (Inl ErrNotConnected, h)
      | Some i \<Rightarrow>
          if \<not> is_ready i h then (Inl ErrNotConnected, h)
          else
            (let (m, h) = hub_msg_id env h; (t, h) = hub_now env h in
             case encode_message TypeKillSwitch m t acct (Some (marshal_kill_switch ks)) of
               Inl _ \<Rightarrow> (Inl ErrEncode, h)
             | Inr frame \<Rightarrow>
                 (let (ok, h) = send_frame i frame h in (if ok then Inr () else Inl ErrSend, h))))"

definition broadcast_one :: "'t hub_env \<Rightarrow> int \<Rightarrow> nat \<Rightarrow> 't hub \<Rightarrow> 't hub" where
  "broadcast_one env retry_in_ms i h =
     (if \<not> is_ready i h then h
      else snd (conn_send env i TypeGracefulShutdown
        (marshal_graceful_shutdown \<lparr>gs_reason = ''saas_restart'', gs_retry_in_ms = retry_in_ms\<rparr>) h))"

definition broadcast_graceful_shutdown :: "'t hub_env \<Rightarrow> int \<Rightarrow> nat list \<Rightarrow> 't hub \<Rightarrow> 't hub" where
  \<comment> \<open>over the registry's snapshot, in the order the map yields it\<close>
  "broadcast_graceful_shutdown env retry_in_ms snapshot h = fold (broadcast_one env retry_in_ms) snapshot h"

end
