(* ===== verification/WsHubSafety.thy ===== *)
theory WsHubSafety
  imports WsHub
begin

text \<open>
  What the hub guarantees over every interleaving of its connections' goroutines and of the calls
  the rest of the server makes: the registry invariant, the bounded outbox, the heartbeat.
\<close>

section \<open>Interleaved steps\<close>

inductive hub_step :: "'t hub_env \<Rightarrow> 't hub \<Rightarrow> 't hub \<Rightarrow> bool" for env :: "'t hub_env" where
  st_accept: "hub_step env h (snd (accept_conn h))"
| st_hello: "i < hb_next h \<Longrightarrow> cn_stage (hb_conns h i) = WaitHello \<Longrightarrow>
    hub_step env h (on_hello env i inb h)"
| st_auth: "i < hb_next h \<Longrightarrow> cn_stage (hb_conns h i) = WaitAuth hello \<Longrightarrow>
    hub_step env h (on_auth env lookup i hello inb h)"
| st_authed: "i < hb_next h \<Longrightarrow> cn_stage (hb_conns h i) = LatchRead frozen \<Longrightarrow>
    hub_step env h (complete_auth env i frozen h)"
| st_sync: "i < hb_next h \<Longrightarrow> cn_stage (hb_conns h i) = WaitSync \<Longrightarrow>
    hub_step env h (on_sync env i inb h)"
| st_read: "i < hb_next h \<Longrightarrow> cn_stage (hb_conns h i) = Pumping \<Longrightarrow>
    hub_step env h (read_pump_step env i inb h)"
| st_beat: "i < hb_next h \<Longrightarrow> cn_stage (hb_conns h i) = Pumping \<Longrightarrow>
    hub_step env h (heartbeat_tick env i h)"
| st_write: "i < hb_next h \<Longrightarrow> hub_step env h (pump_write i h)"
| st_drain: "i < hb_next h \<Longrightarrow> hub_step env h (pump_exit i n h)"
| st_leave: "i < hb_next h \<Longrightarrow> cn_stage (hb_conns h i) = Leaving \<Longrightarrow> \<not> cn_pump (hb_conns h i) \<Longrightarrow>
    hub_step env h (leave_hub i h)"
| st_dispatch: "hub_step env h (snd (hub_dispatch env inst acct sy close ois h))"
| st_kill: "hub_step env h (snd (send_kill_switch env acct ks h))"
| st_broadcast: "set snapshot \<subseteq> ran (hb_registry h) \<Longrightarrow>
    hub_step env h (broadcast_graceful_shutdown env retry_ms snapshot h)"
| st_tokens: "hub_step env h (h\<lparr>hb_tokens := t\<rparr>)"

inductive_cases hub_stepE: "hub_step env h h'"

section \<open>The registry invariant\<close>

fun live_stage :: "stage \<Rightarrow> bool" where
  "live_stage WaitSync = True"
| "live_stage Pumping = True"
| "live_stage _ = False"

definition hub_inv :: "'t hub \<Rightarrow> bool" where
  "hub_inv h \<longleftrightarrow>
     (\<forall>i. live_stage (cn_stage (hb_conns h i)) \<longrightarrow> \<not> cn_closed (hb_conns h i) \<longrightarrow>
        hb_registry h (cn_account (hb_conns h i)) = Some i) \<and>
     (\<forall>a i. hb_registry h a = Some i \<longrightarrow> i < hb_next h \<and> cn_account (hb_conns h i) = a \<and>
        (live_stage (cn_stage (hb_conns h i)) \<or> cn_stage (hb_conns h i) = Leaving)) \<and>
     (\<forall>i. length (cn_outbox (hb_conns h i)) \<le> outbox_cap)"

text \<open>Operations that leave the registry, the accounts and the stages alone and close at most.\<close>

definition quiet :: "'t hub \<Rightarrow> 't hub \<Rightarrow> bool" where
  "quiet h h' \<longleftrightarrow> hb_registry h' = hb_registry h \<and> hb_next h' = hb_next h \<and>
     (\<forall>i. cn_account (hb_conns h' i) = cn_account (hb_conns h i) \<and>
        cn_stage (hb_conns h' i) = cn_stage (hb_conns h i) \<and>
        (cn_closed (hb_conns h i) \<longrightarrow> cn_closed (hb_conns h' i)) \<and>
        (length (cn_outbox (hb_conns h i)) \<le> outbox_cap \<longrightarrow>
           length (cn_outbox (hb_conns h' i)) \<le> outbox_cap))"

lemma quiet_refl [simp]: "quiet h h"
  by (simp add: quiet_def)

lemma quiet_trans: "quiet h h' \<Longrightarrow> quiet h' h'' \<Longrightarrow> quiet h h''"
  by (simp add: quiet_def)

lemma quiet_inv: "quiet h h' \<Longrightarrow> hub_inv h \<Longrightarrow> hub_inv h'"
  unfolding hub_inv_def quiet_def by (metis (no_types, lifting))

lemma quiet_upd:
  assumes "cn_account (f (hb_conns h i)) = cn_account (hb_conns h i)"
    "cn_stage (f (hb_conns h i)) = cn_stage (hb_conns h i)"
    "cn_closed (hb_conns h i) \<Longrightarrow> cn_closed (f (hb_conns h i))"
    "length (cn_outbox (hb_conns h i)) \<le> outbox_cap \<Longrightarrow> length (cn_outbox (f (hb_conns h i))) \<le> outbox_cap"
  shows "quiet h (upd_conn i f h)"
  using assms by (simp add: quiet_def upd_conn_def)

named_theorems quiet_intros \<open>operations that are quiet, after quiet operations\<close>

lemma quiet_ticks [quiet_intros]:
  "quiet h g \<Longrightarrow> quiet h (snd (hub_now env g))" "quiet h g \<Longrightarrow> quiet h (snd (hub_msg_id env g))"
  by (simp_all add: quiet_def hub_now_def hub_msg_id_def)

lemma quiet_emit [quiet_intros]: "quiet h g \<Longrightarrow> quiet h (emit ev g)"
  by (simp add: quiet_def emit_def)

lemma quiet_tokens [quiet_intros]: "quiet h g \<Longrightarrow> quiet h (g\<lparr>hb_tokens := t\<rparr>)"
  by (simp add: quiet_def)

lemma quiet_fields [quiet_intros]:
  "quiet h g \<Longrightarrow> quiet h (set_phase i p g)"
  "quiet h g \<Longrightarrow> quiet h (upd_conn i (\<lambda>c. c\<lparr>cn_misses := n c\<rparr>) g)"
  "quiet h g \<Longrightarrow> quiet h (upd_conn i (\<lambda>c. c\<lparr>cn_ping := m\<rparr>) g)"
  unfolding set_phase_def by (erule quiet_trans, rule quiet_upd; simp)+

lemma quiet_close [quiet_intros]: "quiet h g \<Longrightarrow> quiet h (close_conn i g)"
  by (erule quiet_trans) (auto simp: close_conn_def intro: quiet_upd)

lemma quiet_send_frame [quiet_intros]: "quiet h g \<Longrightarrow> quiet h (snd (send_frame i frame g))"
  by (erule quiet_trans) (auto simp: send_frame_def Let_def intro: quiet_upd quiet_close)

lemma quiet_notify [quiet_intros]: "quiet h g \<Longrightarrow> quiet h (notify_state env i s m g)"
  unfolding notify_state_def split_beta Let_def by (intro quiet_intros)

lemma quiet_conn_send [quiet_intros]: "quiet h g \<Longrightarrow> quiet h (snd (conn_send env i t p g))"
  unfolding conn_send_def split_beta Let_def
  by (auto split: sum.splits intro!: quiet_intros)

lemma quiet_reply [quiet_intros]: "quiet h g \<Longrightarrow> quiet h (reply_error env i c m r g)"
  unfolding reply_error_def by (rule quiet_conn_send)

lemma quiet_auth_fail [quiet_intros]: "quiet h g \<Longrightarrow> quiet h (send_auth_fail env i c r g)"
  unfolding send_auth_fail_def by (rule quiet_conn_send)

lemma quiet_read [quiet_intros]: "quiet h g \<Longrightarrow> quiet h (snd (read_envelope env i inb g))"
  by (auto simp: read_envelope_def intro!: quiet_intros split: hub_inbound.splits sum.splits)

lemma quiet_pong [quiet_intros]: "quiet h g \<Longrightarrow> quiet h (handle_pong i e g)"
  by (auto simp: handle_pong_def intro!: quiet_intros split: sum.splits)

lemma quiet_dispatch_inbound [quiet_intros]:
  "quiet h g \<Longrightarrow> quiet h (hub_dispatch_inbound env i e g)"
  by (auto simp: hub_dispatch_inbound_def intro!: quiet_intros)

lemma quiet_heartbeat [quiet_intros]: "quiet h g \<Longrightarrow> quiet h (heartbeat_tick env i g)"
  unfolding heartbeat_tick_def split_beta Let_def
  by (auto split: sum.splits intro!: quiet_intros)

lemma quiet_pump [quiet_intros]:
  "quiet h g \<Longrightarrow> quiet h (pump_write i g)" "quiet h g \<Longrightarrow> quiet h (pump_exit i n g)"
  unfolding pump_write_def pump_exit_def
  by (erule quiet_trans, rule quiet_upd; auto split: list.splits)+

lemma quiet_dispatch_orders [quiet_intros]:
  "quiet h g \<Longrightarrow> quiet h (snd (dispatch_orders env i inst acct sy close ois g))"
proof (induction ois arbitrary: g)
  case (Cons oi ois)
  then show ?case
    by (auto simp: split_beta Let_def split: sum.splits intro!: quiet_intros Cons.IH)
qed simp

lemma quiet_dispatch [quiet_intros]:
  "quiet h g \<Longrightarrow> quiet h (snd (hub_dispatch env inst acct sy close ois g))"
  by (auto simp: hub_dispatch_def intro!: quiet_intros split: option.splits)

lemma quiet_kill [quiet_intros]: "quiet h g \<Longrightarrow> quiet h (snd (send_kill_switch env acct ks g))"
  by (auto simp: send_kill_switch_def split_beta Let_def split: option.splits sum.splits
      intro!: quiet_intros)

lemma quiet_broadcast [quiet_intros]:
  "quiet h g \<Longrightarrow> quiet h (broadcast_graceful_shutdown env r snapshot g)"
  unfolding broadcast_graceful_shutdown_def
  by (induction snapshot arbitrary: g) (auto simp: broadcast_one_def intro!: quiet_intros)

text \<open>The steps that are not quiet: those that move a connection to another stage.\<close>

lemma inv_set_stage:
  assumes "hub_inv h"
    and "live_stage s \<Longrightarrow> live_stage (cn_stage (hb_conns h i))"
    and "\<not> live_stage s \<Longrightarrow> s \<noteq> Leaving \<Longrightarrow> \<forall>a. hb_registry h a \<noteq> Some i"
  shows "hub_inv (set_stage i s h)"
proof -
  have live: "live_stage (cn_stage (hb_conns h j)) \<Longrightarrow> \<not> cn_closed (hb_conns h j) \<Longrightarrow>
      hb_registry h (cn_account (hb_conns h j)) = Some j"
    and reg: "hb_registry h a = Some j \<Longrightarrow> j < hb_next h \<and> cn_account (hb_conns h j) = a \<and>
      (live_stage (cn_stage (hb_conns h j)) \<or> cn_stage (hb_conns h j) = Leaving)"
    and out: "length (cn_outbox (hb_conns h j)) \<le> outbox_cap" for j a
    using assms(1) unfolding hub_inv_def by blast+
  have f: "cn_stage (hb_conns (set_stage i s h) j) = (if j = i then s else cn_stage (hb_conns h j))"
    "cn_account (hb_conns (set_stage i s h) j) = cn_account (hb_conns h j)"
    "cn_closed (hb_conns (set_stage i s h) j) = cn_closed (hb_conns h j)"
    "cn_outbox (hb_conns (set_stage i s h) j) = cn_outbox (hb_conns h j)"
    "hb_registry (set_stage i s h) = hb_registry h" "hb_next (set_stage i s h) = hb_next h" for j
    by (simp_all add: set_stage_def upd_conn_def)
  show ?thesis
    unfolding hub_inv_def f
  proof (intro conjI allI impI)
    fix j assume "live_stage (if j = i then s else cn_stage (hb_conns h j))" "\<not> cn_closed (hb_conns h j)"
    then show "hb_registry h (cn_account (hb_conns h j)) = Some j"
      using live [of j] assms(2) by (cases "j = i") auto
  next
    fix a j assume r: "hb_registry h a = Some j"
    then show "j < hb_next h" "cn_account (hb_conns h j) = a" using reg by auto
    show "live_stage (if j = i then s else cn_stage (hb_conns h j)) \<or>
        (if j = i then s else cn_stage (hb_conns h j)) = Leaving"
      using reg [OF r] assms(3) r by (cases "j = i") auto
  qed (rule out)
qed

lemma inv_end_run: "hub_inv h \<Longrightarrow> hub_inv (end_run env i h)"
proof -
  assume inv: "hub_inv h"
  let ?g = "close_conn i (if cn_account (hb_conns h i) \<noteq> [] then notify_state env i ''disconnected'' [] h
    else h)"
  have "quiet h ?g" by (auto intro!: quiet_intros)
  from inv_set_stage [OF quiet_inv [OF this inv], of Leaving i]
  show "hub_inv (end_run env i h)" by (simp add: end_run_def Let_def)
qed

lemma not_registered:
  "hub_inv h \<Longrightarrow> \<not> live_stage (cn_stage (hb_conns h i)) \<Longrightarrow> cn_stage (hb_conns h i) \<noteq> Leaving \<Longrightarrow>
     hb_registry h a \<noteq> Some i"
  by (auto simp: hub_inv_def)

lemma inv_accept: "hub_inv h \<Longrightarrow> hub_inv (snd (accept_conn h))"
  by (auto simp: hub_inv_def accept_conn_def new_connection_def less_Suc_eq)

lemma inv_account:
  assumes "hub_inv h" "\<not> live_stage (cn_stage (hb_conns h i))" "cn_stage (hb_conns h i) \<noteq> Leaving"
  shows "hub_inv (upd_conn i (\<lambda>c. c\<lparr>cn_agent := g, cn_account := a\<rparr>) h)"
  using assms not_registered [OF assms] by (auto simp: hub_inv_def upd_conn_def)

lemma quietD:
  assumes "quiet h g"
  shows "hb_registry g = hb_registry h" "hb_next g = hb_next h"
    "cn_stage (hb_conns g i) = cn_stage (hb_conns h i)"
    "cn_account (hb_conns g i) = cn_account (hb_conns h i)"
    "cn_closed (hb_conns h i) \<Longrightarrow> cn_closed (hb_conns g i)"
  using assms by (simp_all add: quiet_def)

lemma inv_end_quiet: "hub_inv h \<Longrightarrow> quiet h g \<Longrightarrow> hub_inv (end_run env i g)"
  by (rule inv_end_run) (rule quiet_inv)

lemma inv_stage_quiet:
  assumes "hub_inv h" "quiet h g" "\<not> live_stage (cn_stage (hb_conns h i))"
    "cn_stage (hb_conns h i) \<noteq> Leaving" "\<not> live_stage s"
  shows "hub_inv (set_stage i s g)"
  using assms not_registered [OF assms(1,3,4)] quiet_inv [OF assms(2,1)]
  by (intro inv_set_stage) (auto simp: quietD)

lemma inv_hello:
  assumes "hub_inv h" "cn_stage (hb_conns h i) = WaitHello"
  shows "hub_inv (on_hello env i inb h)"
proof -
  have q: "quiet h (snd (read_envelope env i inb h))" by (auto intro!: quiet_intros)
  show ?thesis
    using assms
    by (auto simp: on_hello_def split_beta Let_def split: option.splits sum.splits
        intro!: inv_end_quiet [OF assms(1)] inv_stage_quiet [OF assms(1)] quiet_intros)
qed

lemma inv_auth:
  assumes "hub_inv h" "cn_stage (hb_conns h i) = WaitAuth hello"
  shows "hub_inv (on_auth env lookup i hello inb h)"
proof -
  have acct: "hub_inv (upd_conn i (\<lambda>c. c\<lparr>cn_agent := a, cn_account := b\<rparr>) g) \<and>
      \<not> live_stage (cn_stage (hb_conns (upd_conn i (\<lambda>c. c\<lparr>cn_agent := a, cn_account := b\<rparr>) g) i)) \<and>
      cn_stage (hb_conns (upd_conn i (\<lambda>c. c\<lparr>cn_agent := a, cn_account := b\<rparr>) g) i) \<noteq> Leaving"
    if "quiet h g" for a b g
    using inv_account [where h = g and i = i and g = a and a = b] quiet_inv [OF that assms(1)] quietD [OF that] assms(2)
    by (simp add: upd_conn_def)
  note a = acct [THEN conjunct1] acct [THEN conjunct2, THEN conjunct1] acct [THEN conjunct2, THEN conjunct2]
  have reject: "hub_inv (end_run env i (emit ev (send_auth_fail env i c r
      (upd_conn i (\<lambda>c. c\<lparr>cn_agent := x, cn_account := y\<rparr>) g))))" if "quiet h g" for ev c r x y g
    by (rule inv_end_quiet [OF a(1) [OF that, of y x]]) (intro quiet_intros quiet_refl)
  have pass: "hub_inv (set_stage i (LatchRead f) (upd_conn i (\<lambda>c. c\<lparr>cn_agent := x, cn_account := y\<rparr>) g))"
    if "quiet h g" for f x y g
    by (rule inv_stage_quiet [OF a(1) [OF that, of y x] quiet_refl a(2) [OF that, of y x] a(3) [OF that, of y x]]) simp
  show ?thesis
    by (simp add: on_auth_def split_beta Let_def reject pass quiet_intros quiet_refl
        inv_end_quiet [OF assms(1)] split: option.splits sum.splits)
qed

lemma inv_sync:
  assumes "hub_inv h" "cn_stage (hb_conns h i) = WaitSync"
  shows "hub_inv (on_sync env i inb h)"
proof -
  have p: "hub_inv (set_stage i Pumping g)" if "quiet h g" for g
    using quiet_inv [OF that assms(1)] quietD(3) [OF that, of i] assms(2)
    by (intro inv_set_stage) simp_all
  show ?thesis
    by (auto simp: on_sync_def split_beta Let_def split: option.splits
        intro!: inv_end_quiet [OF assms(1)] p quiet_intros)
qed

lemma register_facts:
  "hb_registry (register i h) = (hb_registry h)(cn_account (hb_conns h i) \<mapsto> i)"
  "hb_next (register i h) = hb_next h"
  "cn_account (hb_conns (register i h) j) = cn_account (hb_conns h j)"
  "cn_stage (hb_conns (register i h) j) = cn_stage (hb_conns h j)"
  "cn_outbox (hb_conns (register i h) j) = cn_outbox (hb_conns h j)"
  "cn_closed (hb_conns (register i h) j) \<longleftrightarrow> cn_closed (hb_conns h j) \<or>
     hb_registry h (cn_account (hb_conns h i)) = Some j"
  by (auto simp: register_def close_conn_def upd_conn_def Let_def split: option.splits)

lemma inv_register:
  assumes inv: "hub_inv h" and st: "\<not> live_stage (cn_stage (hb_conns h i))"
    "cn_stage (hb_conns h i) \<noteq> Leaving" and i: "i < hb_next h"
    and q: "quiet (register i h) g" and s: "live_stage s \<or> s = Leaving"
  shows "hub_inv (set_stage i s g)"
proof -
  let ?a = "cn_account (hb_conns h i)"
  have live: "live_stage (cn_stage (hb_conns h j)) \<Longrightarrow> \<not> cn_closed (hb_conns h j) \<Longrightarrow>
      hb_registry h (cn_account (hb_conns h j)) = Some j"
    and reg: "hb_registry h a = Some j \<Longrightarrow> j < hb_next h \<and> cn_account (hb_conns h j) = a \<and>
      (live_stage (cn_stage (hb_conns h j)) \<or> cn_stage (hb_conns h j) = Leaving)"
    and out: "length (cn_outbox (hb_conns h j)) \<le> outbox_cap" for j a
    using inv unfolding hub_inv_def by blast+
  note nr = not_registered [OF inv st]
  have f: "cn_stage (hb_conns (set_stage i s g) j) = (if j = i then s else cn_stage (hb_conns h j))"
    "cn_account (hb_conns (set_stage i s g) j) = cn_account (hb_conns h j)"
    "cn_closed (hb_conns h j) \<or> hb_registry h ?a = Some j \<Longrightarrow> cn_closed (hb_conns (set_stage i s g) j)"
    "length (cn_outbox (hb_conns (set_stage i s g) j)) \<le> outbox_cap"
    "hb_registry (set_stage i s g) = (hb_registry h)(?a \<mapsto> i)" "hb_next (set_stage i s g) = hb_next h" for j
    using q out [of j] by (auto simp: set_stage_def upd_conn_def quiet_def register_facts)
  show ?thesis unfolding hub_inv_def
  proof (intro conjI allI impI)
    fix j assume l: "live_stage (cn_stage (hb_conns (set_stage i s g) j))"
      "\<not> cn_closed (hb_conns (set_stage i s g) j)"
    show "hb_registry (set_stage i s g) (cn_account (hb_conns (set_stage i s g) j)) = Some j"
    proof (cases "j = i")
      case False
      then have "hb_registry h (cn_account (hb_conns h j)) = Some j" "hb_registry h ?a \<noteq> Some j"
        using l f(1) [of j] f(3) [of j] live [of j] by auto
      then show ?thesis unfolding f by (cases "cn_account (hb_conns h j) = ?a") simp_all
    qed (simp add: f)
  next
    fix a j assume r: "hb_registry (set_stage i s g) a = Some j"
    then have "(a = ?a \<and> j = i) \<or> (hb_registry h a = Some j \<and> j \<noteq> i)"
      using nr by (auto simp: f split: if_splits)
    then show "j < hb_next (set_stage i s g)" "cn_account (hb_conns (set_stage i s g) j) = a"
      "live_stage (cn_stage (hb_conns (set_stage i s g) j)) \<or>
        cn_stage (hb_conns (set_stage i s g) j) = Leaving"
      using i s reg [of a j] by (auto simp: f)
  qed (rule f)
qed

lemma inv_complete:
  assumes "hub_inv h" "cn_stage (hb_conns h i) = LatchRead frozen" "i < hb_next h"
  shows "hub_inv (complete_auth env i frozen h)"
proof -
  have r: "hub_inv (set_stage i s g')"
    if "quiet h g" "quiet (register i g) g'" "live_stage s \<or> s = Leaving" for g g' s
    using that assms quiet_inv [OF that(1) assms(1)] quietD [OF that(1)]
    by (intro inv_register [of g i g' s]) auto
  have e: "hub_inv (end_run env i g')" if "quiet h g" "quiet (register i g) g'" for g g'
    unfolding end_run_def Let_def using that by (intro r [of g]) (auto intro!: quiet_intros)
  let ?n = "snd (hub_now env h)"
  let ?p = "marshal_auth_ok \<lparr>ok_server_now_ms = fst (hub_now env h),
    ok_agent_id = cn_agent (hb_conns ?n i), ok_frozen = frozen\<rparr>"
  let ?k = "snd (conn_send env i TypeAuthOK ?p ?n)"
  let ?g = "notify_state env i ''authed'' [] (set_phase i PhAuthed ?k)"
  let ?s = "conn_send env i TypeStateSyncRequest (JObj []) (register i ?g)"
  have q: "quiet h ?k" "quiet h ?g" "quiet (register i ?g) (snd ?s)"
    by (auto intro!: quiet_intros)
  have "complete_auth env i frozen h =
      (if \<not> fst (conn_send env i TypeAuthOK ?p ?n) then end_run env i ?k
       else if fst ?s then set_stage i WaitSync (snd ?s) else end_run env i (snd ?s))"
    unfolding complete_auth_def split_beta Let_def by simp
  then show ?thesis
    using inv_end_quiet [OF assms(1) q(1)] r [OF q(2,3)] e [OF q(2,3)] by simp
qed

lemma inv_leave:
  assumes "hub_inv h" "cn_stage (hb_conns h i) = Leaving"
  shows "hub_inv (leave_hub i h)"
proof -
  let ?a = "cn_account (hb_conns h i)"
  have live: "live_stage (cn_stage (hb_conns h j)) \<Longrightarrow> \<not> cn_closed (hb_conns h j) \<Longrightarrow>
      hb_registry h (cn_account (hb_conns h j)) = Some j"
    and reg: "hb_registry h a = Some j \<Longrightarrow> j < hb_next h \<and> cn_account (hb_conns h j) = a \<and>
      (live_stage (cn_stage (hb_conns h j)) \<or> cn_stage (hb_conns h j) = Leaving)"
    and out: "length (cn_outbox (hb_conns h j)) \<le> outbox_cap" for j a
    using assms(1) unfolding hub_inv_def by blast+
  let ?g = "unregister i h"
  have u: "hb_conns ?g = hb_conns h" "hb_next ?g = hb_next h"
    "hb_registry ?g a = (if hb_registry h ?a = Some i \<and> a = ?a then None else hb_registry h a)" for a
    by (simp_all add: unregister_def Let_def)
  have "hb_registry h a = Some i \<Longrightarrow> a = ?a" for a using reg by blast
  then have "hb_registry ?g a = Some j \<longleftrightarrow> hb_registry h a = Some j \<and> j \<noteq> i" for a j
    unfolding u(3) by (metis option.distinct(1) option.inject)
  note f = u(1,2) this
  have "hub_inv ?g"
    unfolding hub_inv_def f(1,2)
  proof (intro conjI allI impI)
    fix j assume l: "live_stage (cn_stage (hb_conns h j))" "\<not> cn_closed (hb_conns h j)"
    with assms(2) have "j \<noteq> i" by auto
    with live [OF l] show "hb_registry ?g (cn_account (hb_conns h j)) = Some j" by (simp add: f)
  next
    fix a j assume "hb_registry ?g a = Some j"
    then have "hb_registry h a = Some j" by (simp add: f)
    from reg [OF this] show "j < hb_next h" "cn_account (hb_conns h j) = a"
      "live_stage (cn_stage (hb_conns h j)) \<or> cn_stage (hb_conns h j) = Leaving" by simp_all
  qed (rule out)
  then show ?thesis unfolding leave_hub_def by (rule inv_set_stage) (simp_all add: f)
qed

lemma inv_step:
  assumes "hub_step env h h'" "hub_inv h"
  shows "hub_inv h'"
  using assms(1)
proof cases
  case (st_read i inb)
  have d: "hub_inv (hub_dispatch_inbound env i e (snd (read_envelope env i inb h)))" for e
    by (rule quiet_inv [OF _ assms(2)]) (intro quiet_intros quiet_refl)
  have e: "hub_inv (end_run env i (snd (read_envelope env i inb h)))"
    by (rule inv_end_quiet [OF assms(2)]) (intro quiet_intros quiet_refl)
  show ?thesis
    unfolding st_read(1) read_pump_step_def split_beta Let_def
    using inv_end_quiet [OF assms(2) quiet_refl] d e by (simp split: option.splits)
next
  case (st_hello i inb)
  with assms(2) inv_hello show ?thesis by blast
next
  case (st_auth i hello lookup inb)
  with assms(2) inv_auth show ?thesis by blast
next
  case (st_authed i frozen)
  with assms(2) inv_complete show ?thesis by blast
next
  case (st_sync i inb)
  with assms(2) inv_sync show ?thesis by blast
next
  case (st_leave i)
  with assms(2) inv_leave show ?thesis by blast
next
  case st_accept
  with assms(2) inv_accept show ?thesis by blast
qed (simp_all only:, (rule quiet_inv [OF _ assms(2)], intro quiet_intros quiet_refl)+)

lemma inv_run:
  assumes "(hub_step env)\<^sup>*\<^sup>* (new_hub t) h"
  shows "hub_inv h"
  using assms
proof (induction rule: rtranclp_induct)
  case base
  show ?case by (simp add: hub_inv_def new_hub_def new_connection_def outbox_cap_def)
next
  case (step h h')
  then show ?case by (blast intro: inv_step)
qed


definition sample_hub_env :: "token_db hub_env" where
  "sample_hub_env = \<lparr>hv_msg_id = (\<lambda>n. CHR ''m'' # show_nat n), hv_now = int,
     hv_tokens = gorm_token_store, hv_bcrypt = (=), hv_ping_misses = 0, hv_expected_env = [],
     hv_reject_env = False, hv_price_cap = Fin 50\<rparr>"


section \<open>Heartbeat\<close>

definition no_pong :: "nat \<Rightarrow> ('t hub \<Rightarrow> 't hub) \<Rightarrow> bool" where
  \<comment> \<open>what may happen to a connection between two heartbeats when its agent is silent\<close>
  "no_pong i f \<longleftrightarrow> (\<forall>h. cn_ping (hb_conns (f h) i) = cn_ping (hb_conns h i) \<and>
     cn_misses (hb_conns (f h) i) = cn_misses (hb_conns h i) \<and>
     (cn_closed (hb_conns h i) \<longrightarrow> cn_closed (hb_conns (f h) i)))"

lemma close_closes [simp]: "cn_closed (hb_conns (close_conn i h) i)"
  by (simp add: close_conn_def upd_conn_def)

lemma close_keeps [simp]:
  "cn_ping (hb_conns (close_conn i h) j) = cn_ping (hb_conns h j)"
  "cn_misses (hb_conns (close_conn i h) j) = cn_misses (hb_conns h j)"
  by (simp_all add: close_conn_def upd_conn_def)

lemma send_frame_keeps [simp]:
  "cn_ping (hb_conns (snd (send_frame i f h)) j) = cn_ping (hb_conns h j)"
  "cn_misses (hb_conns (snd (send_frame i f h)) j) = cn_misses (hb_conns h j)"
  by (simp_all add: send_frame_def Let_def) (simp_all add: upd_conn_def)

lemma no_pong_pump: "no_pong i (pump_write j)"
  by (auto simp: no_pong_def pump_write_def upd_conn_def split: list.splits)

lemma heartbeat_effect:
  assumes "\<forall>n. hv_msg_id env n \<noteq> []"
  shows "cn_closed (hb_conns (heartbeat_tick env i h) i) \<or>
    (cn_ping (hb_conns (heartbeat_tick env i h) i) \<noteq> [] \<and>
     cn_misses (hb_conns (heartbeat_tick env i h) i) =
       (if cn_ping (hb_conns h i) \<noteq> [] then Suc (cn_misses (hb_conns h i)) else 0) \<and>
     cn_misses (hb_conns (heartbeat_tick env i h) i) < effective_ping_misses (hv_ping_misses env))"
proof (cases "cn_closed (hb_conns h i) \<or>
    (cn_ping (hb_conns h i) \<noteq> [] \<and>
     effective_ping_misses (hv_ping_misses env) \<le> Suc (cn_misses (hb_conns h i)))")
  case True
  then show ?thesis by (auto simp: heartbeat_tick_def Let_def)
next
  case False
  have pos: "0 < effective_ping_misses (hv_ping_misses env)" by (simp add: effective_ping_misses_def)
  obtain g m where g: "cn_ping (hb_conns g i) = m" "m \<noteq> []"
    "cn_misses (hb_conns g i) = (if cn_ping (hb_conns h i) \<noteq> [] then Suc (cn_misses (hb_conns h i)) else 0)"
    and t: "heartbeat_tick env i h = g \<or> (\<exists>f. heartbeat_tick env i h = snd (send_frame i f g))"
  proof
    let ?h1 = "upd_conn i (\<lambda>c. c\<lparr>cn_misses := (if cn_ping c \<noteq> [] then Suc (cn_misses c) else 0)\<rparr>) h"
    let ?h2 = "upd_conn i (\<lambda>c. c\<lparr>cn_ping := fst (hub_msg_id env ?h1)\<rparr>) (snd (hub_msg_id env ?h1))"
    let ?h3 = "snd (hub_now env (snd (hub_now env ?h2)))"
    show "cn_ping (hb_conns ?h3 i) = fst (hub_msg_id env ?h1)"
      "cn_misses (hb_conns ?h3 i) =
         (if cn_ping (hb_conns h i) \<noteq> [] then Suc (cn_misses (hb_conns h i)) else 0)"
      by (simp_all add: upd_conn_def hub_now_def hub_msg_id_def)
    show "fst (hub_msg_id env ?h1) \<noteq> []" using assms by (simp add: hub_msg_id_def)
    show "heartbeat_tick env i h = ?h3 \<or> (\<exists>f. heartbeat_tick env i h = snd (send_frame i f ?h3))"
      using False by (auto simp: heartbeat_tick_def split_beta Let_def split: sum.splits)
  qed
  from t show ?thesis
  proof
    assume "heartbeat_tick env i h = g"
    with g False pos show ?thesis by (auto simp: not_le)
  next
    assume "\<exists>f. heartbeat_tick env i h = snd (send_frame i f g)"
    with g False pos show ?thesis by (auto simp: not_le)
  qed
qed

lemma heartbeat_closed: "cn_closed (hb_conns h i) \<Longrightarrow> cn_closed (hb_conns (heartbeat_tick env i h) i)"
  by (simp add: heartbeat_tick_def)

lemma silent_ticks:
  assumes "\<forall>n. hv_msg_id env n \<noteq> []" "\<forall>f\<in>set fs. no_pong i f" "cn_ping (hb_conns h i) \<noteq> []"
    and "effective_ping_misses (hv_ping_misses env) \<le> cn_misses (hb_conns h i) + length fs"
    and "cn_misses (hb_conns h i) < effective_ping_misses (hv_ping_misses env)"
  shows "cn_closed (hb_conns (fold (\<lambda>f h. heartbeat_tick env i (f h)) fs h) i)"
  using assms(2-)
proof (induction fs arbitrary: h)
  case (Cons f fs)
  let ?g = "heartbeat_tick env i (f h)"
  have keep: "cn_closed (hb_conns g i) \<Longrightarrow> \<forall>f\<in>set fs. no_pong i f \<Longrightarrow>
      cn_closed (hb_conns (fold (\<lambda>f h. heartbeat_tick env i (f h)) fs g) i)" for g and fs
    by (induction fs arbitrary: g) (auto simp: no_pong_def heartbeat_closed)
  have f: "cn_ping (hb_conns (f h) i) = cn_ping (hb_conns h i)"
    "cn_misses (hb_conns (f h) i) = cn_misses (hb_conns h i)"
    using Cons.prems(1) by (simp_all add: no_pong_def)
  show ?case
  proof (cases "cn_closed (hb_conns ?g i)")
    case True
    with keep Cons.prems(1) show ?thesis by simp
  next
    case False
    with heartbeat_effect [OF assms(1), of i "f h"] f Cons.prems
    show ?thesis by (auto intro!: Cons.IH)
  qed
qed simp

text \<open>
  A silent agent is disconnected: whatever else happens to the connection, when no pong clears
  its pending ping over as many heartbeats as the configured misses plus one, the hub closes it.
\<close>

theorem silent_agent_closed:
  assumes "\<forall>n. hv_msg_id env n \<noteq> []" "\<forall>f\<in>set fs. no_pong i f"
    and "length fs = Suc (effective_ping_misses (hv_ping_misses env))"
  shows "cn_closed (hb_conns (fold (\<lambda>f h. heartbeat_tick env i (f h)) fs h) i)"
proof -
  obtain f gs where fs: "fs = f # gs" using assms(3) by (cases fs) auto
  let ?g = "heartbeat_tick env i (f h)"
  show ?thesis
  proof (cases "cn_closed (hb_conns ?g i)")
    case True
    have "cn_closed (hb_conns g i) \<Longrightarrow> \<forall>f\<in>set gs. no_pong i f \<Longrightarrow>
        cn_closed (hb_conns (fold (\<lambda>f h. heartbeat_tick env i (f h)) gs g) i)" for g
      by (induction gs arbitrary: g) (auto simp: no_pong_def heartbeat_closed)
    with True assms(2) show ?thesis by (simp add: fs)
  next
    case False
    with heartbeat_effect [OF assms(1), of i "f h"] assms(2,3)
    show ?thesis by (auto simp: fs intro!: silent_ticks [OF assms(1)])
  qed
qed

theorem silent_agent_closed_witness:
  "cn_closed (hb_conns (fold (\<lambda>f h. heartbeat_tick sample_hub_env 0 (f h))
     [id, pump_write 0, pump_write 0, id] (snd (accept_conn (new_hub (empty_token_db []))))) 0)"
  by (rule silent_agent_closed)
    (auto simp: sample_hub_env_def effective_ping_misses_def no_pong_pump no_pong_def [of _ id]
      simp flip: no_pong_def)

text \<open>
  The closed phase is not terminal: a connection that \<open>Register\<close> closes while it waits for its
  state sync (the agent reconnected) still processes the state sync it then reads, and its phase
  goes from closed to ready on a connection whose frames are all refused.
\<close>

theorem closed_connection_becomes_ready:
  assumes "cn_closed (hb_conns h i)" "decode_envelope j = Inr e" "env_type e = TypeStateSyncResponse"
  shows "is_ready i (on_sync env i (HubFrame j) h) \<and>
    cn_closed (hb_conns (on_sync env i (HubFrame j) h) i) \<and>
    fst (send_frame i frame (on_sync env i (HubFrame j) h)) = False"
  using assms
  by (auto simp: on_sync_def read_envelope_def is_ready_def set_stage_def set_phase_def upd_conn_def
      notify_state_def hub_now_def emit_def send_frame_def Let_def split: option.splits)

theorem closed_connection_becomes_ready_witness:
  "is_ready 0 (on_sync sample_hub_env 0
     (HubFrame (Some (marshal_envelope (server_envelope TypeStateSyncResponse (JObj [])))))
     (close_conn 0 (snd (accept_conn (new_hub (empty_token_db []))))))"
  by (rule closed_connection_becomes_ready [THEN conjunct1, OF _ server_envelope_decodes])
    (simp_all add: server_envelope_def)

section \<open>Dispatched commands\<close>

definition command_frame :: "'t hub_env \<Rightarrow> string \<Rightarrow> string \<Rightarrow> f64 \<Rightarrow> order_intent \<Rightarrow> json \<Rightarrow> bool" where
  \<comment> \<open>the frame is a trade command that decodes to what the order builds\<close>
  "command_frame env inst sy close oi f \<longleftrightarrow>
     (\<exists>e tc now. decode_envelope (Some f) = Inr e \<and> env_type e = TypeTradeCommand \<and>
        decode_payload trade_command_fields zero_trade_command e = Inr tc \<and>
        build_trade_command oi inst sy close now (hv_price_cap env) = Inr tc)"

lemma build_times:
  assumes "build_trade_command oi inst sy close now cap = Inr tc"
  shows "tc_valid_until_ms tc = oi_valid_until_ms oi" "tc_now_ms_at_saas tc = now"
  using assms by (auto simp: build_trade_command_def Let_def split: if_splits sum.splits)

lemma encoded_command:
  assumes "encode_message TypeTradeCommand m t acct (Some (marshal_trade_command tc)) = Inr f"
    and "build_trade_command oi inst sy close now (hv_price_cap env) = Inr tc"
    and "m \<noteq> []" "in64 t" "in64 now" "in64 (oi_valid_until_ms oi)"
  shows "command_frame env inst sy close oi f"
proof -
  have "decode_envelope (Some f) = Inr \<lparr>env_msg_id = m, env_type = TypeTradeCommand,
      env_schema_version = schema_version, env_timestamp_ms = t, env_account_id = acct,
      env_payload = Some (marshal_trade_command tc)\<rparr>"
    using assms(1,3,4) by (rule encode_decode)
  moreover have "unmarshal trade_command_fields (marshal_trade_command tc) zero_trade_command = Some tc"
    using build_times [OF assms(2)] assms(5,6) by (intro unmarshal_trade_command) simp_all
  ultimately show ?thesis using assms(2)
    unfolding command_frame_def by (auto simp: decode_payload_marshal)
qed

lemma ticks_keep [simp]:
  "hb_conns (snd (hub_now env h)) = hb_conns h" "hb_conns (snd (hub_msg_id env h)) = hb_conns h"
  by (simp_all add: hub_now_def hub_msg_id_def)

lemma dispatch_orders_frames:
  assumes "dispatch_orders env i inst acct sy close ois h = (Inr (), h')"
    and "\<forall>n. hv_msg_id env n \<noteq> [] \<and> in64 (hv_now env n)" "\<forall>oi\<in>set ois. in64 (oi_valid_until_ms oi)"
  shows "\<exists>fs. cn_outbox (hb_conns h' i) = cn_outbox (hb_conns h i) @ fs \<and>
    list_all2 (command_frame env inst sy close) ois fs"
  using assms
proof (induction ois arbitrary: h)
  case (Cons oi ois)
  let ?h1 = "snd (hub_now env h)"
  let ?h2 = "snd (hub_now env (snd (hub_msg_id env ?h1)))"
  obtain tc f where tc: "build_trade_command oi inst sy close (fst (hub_now env h)) (hv_price_cap env) = Inr tc"
    and f: "encode_message TypeTradeCommand (fst (hub_msg_id env ?h1))
      (fst (hub_now env (snd (hub_msg_id env ?h1)))) acct (Some (marshal_trade_command tc)) = Inr f"
    and ok: "fst (send_frame i f ?h2)"
    and rest: "dispatch_orders env i inst acct sy close ois (snd (send_frame i f ?h2)) = (Inr (), h')"
    using Cons.prems(1) by (auto simp: split_beta Let_def split: sum.splits if_splits)
  have out: "cn_outbox (hb_conns (snd (send_frame i f ?h2)) i) = cn_outbox (hb_conns h i) @ [f]"
    using ok by (auto simp: send_frame_def Let_def upd_conn_def split: if_splits)
  have "command_frame env inst sy close oi f"
    using Cons.prems(2,3) by (intro encoded_command [OF f tc]) (simp_all add: hub_now_def hub_msg_id_def)
  moreover from Cons.IH [OF rest Cons.prems(2)] Cons.prems(3) obtain fs where
    "cn_outbox (hb_conns h' i) = cn_outbox (hb_conns (snd (send_frame i f ?h2)) i) @ fs"
    "list_all2 (command_frame env inst sy close) ois fs" by auto
  ultimately show ?case using out by (intro exI [of _ "f # fs"]) simp
qed simp

text \<open>
  What a successful dispatch does: the outbox of the account's registered, ready connection
  gains exactly one frame per order, in order, and each frame decodes on the other side to the
  trade command the order builds.
\<close>

theorem dispatch_enqueues_commands:
  assumes "hub_dispatch env inst acct sy close ois h = (Inr (), h')" "ois \<noteq> []"
    and "\<forall>n. hv_msg_id env n \<noteq> [] \<and> in64 (hv_now env n)" "\<forall>oi\<in>set ois. in64 (oi_valid_until_ms oi)"
  shows "\<exists>i fs. hb_registry h acct = Some i \<and> is_ready i h \<and>
    cn_outbox (hb_conns h' i) = cn_outbox (hb_conns h i) @ fs \<and>
    list_all2 (command_frame env inst sy close) ois fs"
proof -
  from assms(1,2) obtain i where "hb_registry h acct = Some i" "is_ready i h"
    "dispatch_orders env i inst acct sy close ois h = (Inr (), h')"
    by (auto simp: hub_dispatch_def registry_get_def split: if_splits option.splits)
  with dispatch_orders_frames [OF _ assms(3,4)] show ?thesis by blast
qed

definition ready_hub :: "token_db hub" where
  "ready_hub = (new_hub (empty_token_db []))\<lparr>hb_next := 1, hb_registry := [''acc'' \<mapsto> 0],
     hb_conns := (\<lambda>_. new_connection\<lparr>cn_account := ''acc'', cn_phase := PhReady, cn_stage := Pumping\<rparr>)\<rparr>"

theorem dispatch_enqueues_commands_witness:
  "\<exists>h' f. hub_dispatch (sample_hub_env\<lparr>hv_now := (\<lambda>_. 5)\<rparr>) ''i1'' ''acc'' ''BTCUSDT'' (Fin 50000)
     [sample_intent] ready_hub = (Inr (), h') \<and> cn_outbox (hb_conns h' 0) = [f] \<and>
     command_frame (sample_hub_env\<lparr>hv_now := (\<lambda>_. 5)\<rparr>) ''i1'' ''BTCUSDT'' (Fin 50000) sample_intent f"
proof -
  let ?env = "sample_hub_env\<lparr>hv_now := (\<lambda>_. 5)\<rparr>"
  obtain tc where tc: "build_trade_command sample_intent ''i1'' ''BTCUSDT'' (Fin 50000) 5 (Fin 50) = Inr tc"
    using sample_build by blast
  have "\<exists>h'. hub_dispatch ?env ''i1'' ''acc'' ''BTCUSDT'' (Fin 50000) [sample_intent] ready_hub = (Inr (), h')"
    using tc
    by (simp add: hub_dispatch_def f_le_def f_eq_def registry_get_def ready_hub_def new_hub_def
        is_ready_def hub_now_def hub_msg_id_def sample_hub_env_def encode_message_def
        encode_envelope_def schema_version_def send_frame_def new_connection_def outbox_cap_def Let_def)
  then obtain h' where h': "hub_dispatch ?env ''i1'' ''acc'' ''BTCUSDT'' (Fin 50000) [sample_intent]
      ready_hub = (Inr (), h')" by blast
  have "\<forall>n. hv_msg_id ?env n \<noteq> [] \<and> in64 (hv_now ?env n)"
    "\<forall>oi\<in>set [sample_intent]. in64 (oi_valid_until_ms oi)"
    by (simp_all add: sample_hub_env_def in64_def sample_intent_def)
  from dispatch_enqueues_commands [OF h' _ this]
  obtain i fs where "hb_registry ready_hub ''acc'' = Some i"
    "cn_outbox (hb_conns h' i) = cn_outbox (hb_conns ready_hub i) @ fs"
    "list_all2 (command_frame ?env ''i1'' ''BTCUSDT'' (Fin 50000)) [sample_intent] fs" by auto
  with h' show ?thesis
    by (auto simp: ready_hub_def new_hub_def new_connection_def list_all2_Cons1)
qed

end
