(* ===== verification/KillLatch.thy ===== *)
theory KillLatch
  imports SaasDb WsHubSafety
begin

text \<open>
  The kill switch on the server's side: the audit row that is the durable latch
  (\<open>cmd/saas/killaudit.go\<close>), the manual kill and resume (\<open>cmd/saas/kill.go\<close>) with the HTTP handlers'
  outcomes (\<open>internal/api/kill_handlers.go\<close>, \<open>resume_handlers.go\<close>), and the handshake hook that
  reads the latch back.
\<close>

section \<open>State\<close>

record 't server =
  sv_db :: saas_db
  sv_hub :: "'t hub"
  sv_streak :: "string \<rightharpoonup> int"       \<comment> \<open>\<open>driftStreak\<close> of the agent message handler\<close>

definition with_db :: "(saas_db \<Rightarrow> 'a db_res) \<Rightarrow> 't server \<Rightarrow> (db_err + 'a) \<times> 't server" where
  "with_db f sv = (case f (sv_db sv) of (r, db) \<Rightarrow> (r, sv\<lparr>sv_db := db\<rparr>))"

section \<open>The audit row (\<open>killaudit.go\<close>)\<close>

definition record_kill_switch_audit ::
  "string \<Rightarrow> string \<Rightarrow> string \<Rightarrow> kill_switch \<Rightarrow> (string \<times> json) list \<Rightarrow> int \<Rightarrow> saas_db \<Rightarrow> unit db_res" where
  "record_kill_switch_audit action actor acct ks extra now db =
     audit_insert \<lparr>al_created_at = now, al_actor = actor, al_action = action,
       al_subject = account_subject acct,
       al_data = JObj ([(''reason'', JStr (ks_reason ks)), (''scope'', JStr (ks_scope ks)),
         (''operator_user_id'', JStr (ks_operator_user_id ks))] @ extra)\<rparr> db"

definition record_kill_audit ::
  "string \<Rightarrow> string \<Rightarrow> kill_switch \<Rightarrow> (string \<times> json) list \<Rightarrow> int \<Rightarrow> saas_db \<Rightarrow> unit db_res" where
  "record_kill_audit = record_kill_switch_audit ''instance.kill''"

definition record_resume_audit ::
  "string \<Rightarrow> string \<Rightarrow> kill_switch \<Rightarrow> (string \<times> json) list \<Rightarrow> int \<Rightarrow> saas_db \<Rightarrow> unit db_res" where
  "record_resume_audit = record_kill_switch_audit ''instance.resume''"

section \<open>Kill and resume (\<open>kill.go\<close>)\<close>

datatype kill_err = ErrKillInstanceNotFound | ErrKillAgentOffline | ErrKillOther db_err

definition manual_kill :: "string \<Rightarrow> string \<Rightarrow> kill_switch" where
  "manual_kill operator_id target = \<lparr>ks_reason = ''manual_admin_action'',
     ks_operator_user_id = operator_id, ks_scope = ''all'', ks_symbol = target\<rparr>"

definition user_actor :: "nat \<Rightarrow> string" where
  "user_actor u = ''user:'' @ show_nat u"

definition push_kill_switch :: "'t hub_env \<Rightarrow> string \<Rightarrow> kill_switch \<Rightarrow> 't server \<Rightarrow> 't server" where
  \<comment> \<open>the best-effort push, whose failures are only logged\<close>
  "push_kill_switch env acct ks sv = sv\<lparr>sv_hub := snd (send_kill_switch env acct ks (sv_hub sv))\<rparr>"

definition clear_drift_streak :: "string \<Rightarrow> 't server \<Rightarrow> 't server" where
  "clear_drift_streak acct sv = sv\<lparr>sv_streak := (sv_streak sv)(acct := None)\<rparr>"

definition manual_audit_extra :: "string \<Rightarrow> (string \<times> json) list" where
  "manual_audit_extra iid = [(''trigger'', JStr ''manual''), (''instance_id'', JStr iid)]"

definition kill_instance ::
  "'t hub_env \<Rightarrow> string \<Rightarrow> nat \<Rightarrow> int \<Rightarrow> 't server \<Rightarrow> (kill_err + unit) \<times> 't server" where
  "kill_instance env iid user now sv =
     (case with_db (get_instance iid) sv of
        (Inl e, sv) \<Rightarrow>
          (Inl (if e = ErrRecordNotFound then ErrKillInstanceNotFound else ErrKillOther e), sv)
      | (Inr inst, sv) \<Rightarrow>
          (let ks = manual_kill (show_nat user) []; acct = si_account_id inst in
           case with_db (record_kill_audit (user_actor user) acct ks (manual_audit_extra iid) now) sv of
             (Inl e, sv) \<Rightarrow> (Inl (ErrKillOther e), sv)
           | (Inr _, sv) \<Rightarrow> (Inr (), push_kill_switch env acct ks sv)))"

definition resume_instance ::
  "'t hub_env \<Rightarrow> string \<Rightarrow> nat \<Rightarrow> int \<Rightarrow> 't server \<Rightarrow> (kill_err + unit) \<times> 't server" where
  "resume_instance env iid user now sv =
     (case with_db (get_instance iid) sv of
        (Inl e, sv) \<Rightarrow>
          (Inl (if e = ErrRecordNotFound then ErrKillInstanceNotFound else ErrKillOther e), sv)
      | (Inr inst, sv) \<Rightarrow>
          (let ks = manual_kill (show_nat user) ''resume''; acct = si_account_id inst in
           case with_db (record_resume_audit (user_actor user) acct ks (manual_audit_extra iid) now) sv of
             (Inl e, sv) \<Rightarrow> (Inl (ErrKillOther e), sv)
           | (Inr _, sv) \<Rightarrow> (Inr (), push_kill_switch env acct ks (clear_drift_streak acct sv))))"

definition kill_http_status :: "kill_err + unit \<Rightarrow> nat" where
  \<comment> \<open>\<open>KillInstance\<close> and \<open>ResumeInstance\<close> of the API\<close>
  "kill_http_status r =
     (case r of Inr _ \<Rightarrow> 200 | Inl ErrKillInstanceNotFound \<Rightarrow> 404 | Inl ErrKillAgentOffline \<Rightarrow> 409
      | Inl (ErrKillOther _) \<Rightarrow> 500)"

section \<open>The handshake's hook\<close>

definition frozen_lookup :: "string \<Rightarrow> saas_db \<Rightarrow> (unit + bool) \<times> saas_db" where
  "frozen_lookup acct db =
     (case is_account_frozen acct db of (Inl _, db) \<Rightarrow> (Inl (), db) | (Inr b, db) \<Rightarrow> (Inr b, db))"

definition server_on_auth ::
  "'t hub_env \<Rightarrow> nat \<Rightarrow> hello \<Rightarrow> hub_inbound \<Rightarrow> 't server \<Rightarrow> 't server" where
  \<comment> \<open>the authentication step with \<open>OnFrozenLookup\<close> wired to \<open>IsAccountFrozen\<close>; the lookup takes its
    fault only when the step reaches it\<close>
  "server_on_auth env i hello inb sv =
     (let lookup = (\<lambda>acct. Some (fst (frozen_lookup acct (sv_db sv))));
          h = on_auth env lookup i hello inb (sv_hub sv);
          used = (case cn_stage (hb_conns h i) of LatchRead _ \<Rightarrow> True | _ \<Rightarrow> False)
      in sv\<lparr>sv_hub := h,
            sv_db := (if used then snd (frozen_lookup (cn_account (hb_conns h i)) (sv_db sv)) else sv_db sv)\<rparr>)"

section \<open>What the latch says\<close>

text \<open>The specification: the last kill or resume recorded for the account, in the order recorded.\<close>

definition latch_spec :: "string \<Rightarrow> audit_row list \<Rightarrow> bool" where
  "latch_spec acct rows =
     (case rev (filter (latch_event acct) rows) of
        [] \<Rightarrow> False | r # _ \<Rightarrow> al_action r = ''instance.kill'')"

definition strictly_timed :: "audit_row list \<Rightarrow> bool" where
  "strictly_timed rows = sorted_wrt (<) (map al_created_at rows)"

lemma newest_row_none: "newest_row rows = None \<longleftrightarrow> rows = []"
  by (cases rows) (auto split: option.splits)

lemma newest_row_strict:
  assumes "strictly_timed rows" "rows \<noteq> []"
  shows "newest_row rows = Some (last rows)"
  using assms
proof (induction rows)
  case (Cons r rs)
  show ?case
  proof (cases "rs = []")
    case False
    with Cons have "newest_row rs = Some (last rs)" by (simp add: strictly_timed_def)
    moreover have "al_created_at r < al_created_at (last rs)"
      using Cons.prems(1) False by (simp add: strictly_timed_def)
    ultimately show ?thesis using False by simp
  qed simp
qed simp

lemma strictly_timed_filter: "strictly_timed rows \<Longrightarrow> strictly_timed (filter p rows)"
  by (induction rows) (auto simp: strictly_timed_def)

text \<open>
  C8: The durable latch: when the audit rows carry increasing times, \<open>IsAccountFrozen\<close> answers
  exactly whether the last kill or resume recorded for the account is a kill; rows of other
  accounts and other actions do not matter.
\<close>

theorem frozen_iff_last_event_kill:
  assumes "strictly_timed (db_audit db)" "\<not> next_fault (db_faults db)"
  shows "fst (is_account_frozen acct db) = Inr (latch_spec acct (db_audit db))"
proof -
  let ?rows = "filter (latch_event acct) (db_audit db)"
  have "newest_row ?rows = (case rev ?rows of [] \<Rightarrow> None | r # _ \<Rightarrow> Some r)"
  proof (cases "?rows = []")
    case False
    then have "newest_row ?rows = Some (last ?rows)"
      by (rule newest_row_strict [OF strictly_timed_filter [OF assms(1)]])
    with False show ?thesis by (cases ?rows rule: rev_cases) simp_all
  qed simp
  then show ?thesis using assms(2)
    by (simp add: is_account_frozen_def latest_kill_or_resume_def db_stmt_def latch_spec_def
        Let_def split: list.splits)
qed

theorem frozen_iff_last_event_kill_witness:
  "fst (is_account_frozen ''a'' ((empty_saas_db [])\<lparr>db_audit :=
     [\<lparr>al_created_at = 1, al_actor = ''system'', al_action = ''instance.kill'',
        al_subject = account_subject ''a'', al_data = JNull\<rparr>,
      \<lparr>al_created_at = 2, al_actor = ''user:1'', al_action = ''instance.resume'',
        al_subject = account_subject ''b'', al_data = JNull\<rparr>]\<rparr>)) = Inr True"
  by (subst frozen_iff_last_event_kill)
    (simp_all add: strictly_timed_def empty_saas_db_def latch_spec_def latch_event_def account_subject_def)

lemma latch_spec_append:
  "latch_spec acct (rows @ [r]) =
     (if latch_event acct r then al_action r = ''instance.kill'' else latch_spec acct rows)"
  by (simp add: latch_spec_def)

lemma kill_audit_effect:
  "fst (record_kill_switch_audit action actor acct ks extra now db) = Inr () \<Longrightarrow>
     \<exists>r. db_audit (snd (record_kill_switch_audit action actor acct ks extra now db)) = db_audit db @ [r] \<and>
       al_action r = action \<and> al_subject r = account_subject acct \<and> al_created_at r = now"
  by (auto simp: record_kill_switch_audit_def audit_insert_def db_stmt_def Let_def split: if_splits)

lemma kill_audit_row:
  assumes "record_kill_audit actor acct ks extra now db = (Inr (), db')"
  shows "\<exists>r. db_audit db' = db_audit db @ [r] \<and> al_action r = ''instance.kill'' \<and>
    al_subject r = account_subject acct"
  using assms kill_audit_effect [of "''instance.kill''" actor acct ks extra now db]
  by (auto simp: record_kill_audit_def)

lemma get_instance_effect:
  "fst (get_instance iid db) = Inr inst \<Longrightarrow> inst \<in> set (db_instances db) \<and> si_instance_id inst = iid"
  "db_audit (snd (get_instance iid db)) = db_audit db"
  by (auto simp: get_instance_def db_stmt_def Let_def find_Some_iff split: if_splits option.splits)

lemma audit_unchanged_on_error:
  "fst (record_kill_switch_audit action actor acct ks extra now db) = Inl e \<Longrightarrow>
     db_audit (snd (record_kill_switch_audit action actor acct ks extra now db)) = db_audit db"
  by (auto simp: record_kill_switch_audit_def audit_insert_def db_stmt_def Let_def split: if_splits)

lemma kill_success:
  assumes "kill_instance env iid user now sv = (Inr (), sv')"
  shows "\<exists>inst\<in>set (db_instances (sv_db sv)). si_instance_id inst = iid \<and>
    latch_spec (si_account_id inst) (db_audit (sv_db sv')) \<and>
    sv_hub sv' = snd (send_kill_switch env (si_account_id inst) (manual_kill (show_nat user) []) (sv_hub sv))"
proof -
  obtain g db1 where g: "get_instance iid (sv_db sv) = (g, db1)" by (cases "get_instance iid (sv_db sv)")
  with assms obtain inst where inst: "g = Inr inst"
    by (auto simp: kill_instance_def with_db_def split: sum.splits)
  let ?ks = "manual_kill (show_nat user) []" and ?acct = "si_account_id inst"
  obtain a db2 where a: "record_kill_audit (user_actor user) ?acct ?ks (manual_audit_extra iid) now db1 = (a, db2)"
    by (cases "record_kill_audit (user_actor user) ?acct ?ks (manual_audit_extra iid) now db1")
  with assms g inst have ok: "a = Inr ()" and sv': "sv' = push_kill_switch env ?acct ?ks (sv\<lparr>sv_db := db2\<rparr>)"
    by (auto simp: kill_instance_def with_db_def split: sum.splits)
  from kill_audit_row [OF a [unfolded ok]] obtain r where
    "db_audit db2 = db_audit db1 @ [r]" "al_action r = ''instance.kill''" "al_subject r = account_subject ?acct"
    by blast
  then have "latch_spec ?acct (db_audit db2)" by (simp add: latch_spec_append latch_event_def)
  with get_instance_effect(1) [of iid "sv_db sv" inst] g inst sv' show ?thesis
    by (auto simp: push_kill_switch_def)
qed

lemma kill_failure:
  assumes "kill_instance env iid user now sv = (Inl e, sv')"
  shows "db_audit (sv_db sv') = db_audit (sv_db sv)" "sv_hub sv' = sv_hub sv" "e \<noteq> ErrKillAgentOffline"
proof -
  obtain g db1 where g: "get_instance iid (sv_db sv) = (g, db1)" by (cases "get_instance iid (sv_db sv)")
  have d: "db_audit db1 = db_audit (sv_db sv)" using get_instance_effect(2) [of iid "sv_db sv"] g by simp
  have "db_audit (sv_db sv') = db_audit (sv_db sv) \<and> sv_hub sv' = sv_hub sv \<and> e \<noteq> ErrKillAgentOffline"
  proof (cases g)
    case (Inl err)
    with assms g d show ?thesis by (auto simp: kill_instance_def with_db_def split: if_splits)
  next
    case (Inr inst)
    let ?k = "record_kill_audit (user_actor user) (si_account_id inst) (manual_kill (show_nat user) [])
      (manual_audit_extra iid) now db1"
    obtain a db2 where a: "?k = (a, db2)" by (cases ?k)
    with assms g Inr show ?thesis
      using audit_unchanged_on_error [of "''instance.kill''" "user_actor user" "si_account_id inst"
          "manual_kill (show_nat user) []" "manual_audit_extra iid" now db1] d
      by (auto simp: kill_instance_def with_db_def record_kill_audit_def Let_def split: sum.splits)
  qed
  then show "db_audit (sv_db sv') = db_audit (sv_db sv)" "sv_hub sv' = sv_hub sv" "e \<noteq> ErrKillAgentOffline"
    by simp_all
qed


definition sample_instance :: strategy_instance where
  "sample_instance = \<lparr>si_instance_id = ''i1'', si_strategy_id = ''sigmoid_v1'', si_pair = ''BTCUSDT'',
     si_account_id = ''acc'', si_owner_user_id = 1, si_status = InLive, si_active_champ_id = None,
     si_last_tick_wall_time = None, si_funded_at_ms = None\<rparr>"

definition sample_server :: "'t hub \<Rightarrow> 't server" where
  "sample_server h = \<lparr>sv_db = (empty_saas_db [])\<lparr>db_instances := [sample_instance]\<rparr>, sv_hub = h,
     sv_streak = Map.empty\<rparr>"

lemma sample_kill:
  "\<exists>sv'. kill_instance env ''i1'' 7 9 (sample_server h) = (Inr (), sv')"
  by (simp add: kill_instance_def sample_server_def with_db_def get_instance_def db_stmt_def
      empty_saas_db_def sample_instance_def record_kill_audit_def record_kill_switch_audit_def
      audit_insert_def Let_def)


section \<open>What the agent is told while it connects\<close>

lemma conn_send_ok:
  assumes "\<not> cn_closed (hb_conns h i)" "length (cn_outbox (hb_conns h i)) < outbox_cap" "is_known t"
    and "\<forall>n. hv_msg_id env n \<noteq> [] \<and> in64 (hv_now env n)"
  shows "\<exists>f e. conn_send env i t p h = (True, upd_conn i (\<lambda>c. c\<lparr>cn_outbox := cn_outbox c @ [f]\<rparr>)
      (h\<lparr>hb_ticks := Suc (Suc (hb_ticks h))\<rparr>)) \<and>
    decode_envelope (Some f) = Inr e \<and> env_type e = t \<and> env_payload e = Some p"
proof -
  let ?m = "hv_msg_id env (hb_ticks h)" and ?t = "hv_now env (Suc (hb_ticks h))"
  let ?acct = "cn_account (hb_conns h i)"
  obtain f where f: "encode_message t ?m ?t ?acct (Some p) = Inr f"
    using assms(3) by (simp add: encode_message_def encode_envelope_def schema_version_def)
  from encode_decode [OF f] assms(4)
  have "decode_envelope (Some f) = Inr \<lparr>env_msg_id = ?m, env_type = t,
      env_schema_version = schema_version, env_timestamp_ms = ?t, env_account_id = ?acct,
      env_payload = Some p\<rparr>" by simp
  moreover have "conn_send env i t p h = (True, upd_conn i (\<lambda>c. c\<lparr>cn_outbox := cn_outbox c @ [f]\<rparr>)
      (h\<lparr>hb_ticks := Suc (Suc (hb_ticks h))\<rparr>))"
    using assms(1,2) f
    by (simp add: conn_send_def hub_msg_id_def hub_now_def send_frame_def Let_def)
  ultimately show ?thesis by (intro exI [of _ f]) simp
qed

lemma complete_auth_ok:
  assumes "\<not> cn_closed (hb_conns h i)" "length (cn_outbox (hb_conns h i)) + 2 \<le> outbox_cap"
    and "\<forall>n. hv_msg_id env n \<noteq> [] \<and> in64 (hv_now env n)"
    and "hb_registry h (cn_account (hb_conns h i)) \<noteq> Some i"
  shows "\<exists>f1 f2 e1 now. cn_outbox (hb_conns (complete_auth env i frozen h) i) = cn_outbox (hb_conns h i) @ [f1, f2] \<and>
    decode_envelope (Some f1) = Inr e1 \<and> env_type e1 = TypeAuthOK \<and>
    env_payload e1 = Some (marshal_auth_ok \<lparr>ok_server_now_ms = now,
      ok_agent_id = cn_agent (hb_conns h i), ok_frozen = frozen\<rparr>) \<and> in64 now \<and>
    (\<exists>e2. decode_envelope (Some f2) = Inr e2 \<and> env_type e2 = TypeStateSyncRequest) \<and>
    \<not> cn_closed (hb_conns (complete_auth env i frozen h) i) \<and>
    cn_stage (hb_conns (complete_auth env i frozen h) i) = WaitSync \<and>
    hb_registry (complete_auth env i frozen h) (cn_account (hb_conns h i)) = Some i"
proof -
  let ?h1 = "h\<lparr>hb_ticks := Suc (hb_ticks h)\<rparr>" and ?now = "hv_now env (hb_ticks h)"
  let ?p = "marshal_auth_ok \<lparr>ok_server_now_ms = ?now, ok_agent_id = cn_agent (hb_conns h i), ok_frozen = frozen\<rparr>"
  obtain f1 e1 where s1: "conn_send env i TypeAuthOK ?p ?h1 = (True,
      upd_conn i (\<lambda>c. c\<lparr>cn_outbox := cn_outbox c @ [f1]\<rparr>) (?h1\<lparr>hb_ticks := Suc (Suc (hb_ticks ?h1))\<rparr>))"
    and e1: "decode_envelope (Some f1) = Inr e1" "env_type e1 = TypeAuthOK" "env_payload e1 = Some ?p"
    using conn_send_ok [of ?h1 i TypeAuthOK env ?p] assms(1-3) by auto
  let ?h2 = "upd_conn i (\<lambda>c. c\<lparr>cn_outbox := cn_outbox c @ [f1]\<rparr>) (?h1\<lparr>hb_ticks := Suc (Suc (hb_ticks ?h1))\<rparr>)"
  let ?g = "register i (notify_state env i ''authed'' [] (set_phase i PhAuthed ?h2))"
  have g: "cn_closed (hb_conns ?g i) = False" "cn_outbox (hb_conns ?g i) = cn_outbox (hb_conns h i) @ [f1]"
    "hb_registry ?g (cn_account (hb_conns h i)) = Some i"
    using assms(1,4)
    by (auto simp: register_facts notify_state_def hub_now_def emit_def set_phase_def upd_conn_def Let_def)
  obtain f2 e2 where s2: "conn_send env i TypeStateSyncRequest (JObj []) ?g = (True,
      upd_conn i (\<lambda>c. c\<lparr>cn_outbox := cn_outbox c @ [f2]\<rparr>) (?g\<lparr>hb_ticks := Suc (Suc (hb_ticks ?g))\<rparr>))"
    and e2: "decode_envelope (Some f2) = Inr e2" "env_type e2 = TypeStateSyncRequest"
    using conn_send_ok [of ?g i TypeStateSyncRequest env "JObj []"] assms(2,3) g by auto
  have c: "complete_auth env i frozen h = set_stage i WaitSync
      (upd_conn i (\<lambda>c. c\<lparr>cn_outbox := cn_outbox c @ [f2]\<rparr>) (?g\<lparr>hb_ticks := Suc (Suc (hb_ticks ?g))\<rparr>))"
    using s1 s2 by (simp add: complete_auth_def hub_now_def)
  show ?thesis
    unfolding c using g e1 e2 assms(3)
    by (intro exI [of _ f1] exI [of _ f2] exI [of _ e1] exI [of _ ?now])
      (simp add: set_stage_def upd_conn_def)
qed

lemma on_sync_ready:
  assumes "decode_envelope j = Inr e" "env_type e = TypeStateSyncResponse"
  shows "is_ready i (on_sync env i (HubFrame j) h)"
    "cn_stage (hb_conns (on_sync env i (HubFrame j) h) i) = Pumping"
    "cn_outbox (hb_conns (on_sync env i (HubFrame j) h) i) = cn_outbox (hb_conns h i)"
    "cn_closed (hb_conns (on_sync env i (HubFrame j) h) i) = cn_closed (hb_conns h i)"
    "hb_registry (on_sync env i (HubFrame j) h) = hb_registry h"
  using assms
  by (simp_all add: on_sync_def read_envelope_def is_ready_def set_stage_def set_phase_def
      upd_conn_def notify_state_def hub_now_def emit_def Let_def split: option.splits)

text \<open>
  A kill can miss a connecting agent: when \<open>Kill\<close> runs after the handshake has read the latch
  and before the connection is ready, it reports success and the account is frozen in the audit
  log, but the push finds no ready connection and \<open>auth_ok\<close> still says \<open>frozen = false\<close>; the
  handshake then completes, and nothing it queued for the agent is a kill switch.
\<close>

theorem kill_during_handshake_lost:
  assumes "cn_stage (hb_conns (sv_hub sv) i) = LatchRead frozen" "\<not> frozen"
    and "\<not> cn_closed (hb_conns (sv_hub sv) i)"
    and "length (cn_outbox (hb_conns (sv_hub sv) i)) + 2 \<le> outbox_cap"
    and "\<forall>n. hv_msg_id env n \<noteq> [] \<and> in64 (hv_now env n)"
    and "kill_instance env iid user now sv = (Inr (), sv1)"
    and "\<forall>inst\<in>set (db_instances (sv_db sv)). si_instance_id inst = iid \<longrightarrow>
      si_account_id inst = cn_account (hb_conns (sv_hub sv) i)"
    and "hb_registry (sv_hub sv) (cn_account (hb_conns (sv_hub sv) i)) = None"
    and "decode_envelope j = Inr e" "env_type e = TypeStateSyncResponse"
    and h: "h = on_sync env i (HubFrame j) (complete_auth env i frozen (sv_hub sv1))"
  shows "latch_spec (cn_account (hb_conns (sv_hub sv) i)) (db_audit (sv_db sv1)) \<and>
    is_ready i h \<and> \<not> cn_closed (hb_conns h i) \<and>
    hb_registry h (cn_account (hb_conns (sv_hub sv) i)) = Some i \<and>
    (\<exists>f1 f2 e1 e2 t. cn_outbox (hb_conns h i) = cn_outbox (hb_conns (sv_hub sv) i) @ [f1, f2] \<and>
      decode_envelope (Some f1) = Inr e1 \<and> env_type e1 = TypeAuthOK \<and>
      env_payload e1 = Some (marshal_auth_ok \<lparr>ok_server_now_ms = t,
        ok_agent_id = cn_agent (hb_conns (sv_hub sv) i), ok_frozen = False\<rparr>) \<and>
      decode_envelope (Some f2) = Inr e2 \<and> env_type e2 = TypeStateSyncRequest)"
proof -
  let ?acct = "cn_account (hb_conns (sv_hub sv) i)"
  from kill_success [OF assms(6)] assms(7) obtain inst where
    latch: "latch_spec ?acct (db_audit (sv_db sv1))" and
    hub: "sv_hub sv1 = snd (send_kill_switch env ?acct (manual_kill (show_nat user) []) (sv_hub sv))"
    by auto
  have same: "sv_hub sv1 = sv_hub sv" using hub assms(8) by (simp add: send_kill_switch_def registry_get_def)
  have "hb_registry (sv_hub sv) ?acct \<noteq> Some i" using assms(8) by simp
  from complete_auth_ok [OF assms(3-5) this, of frozen] latch assms(2) same h
  show ?thesis by (auto simp: on_sync_ready [OF assms(9,10)])
qed

definition connecting_hub :: "token_db hub" where
  "connecting_hub = (new_hub (empty_token_db []))\<lparr>hb_next := 1,
     hb_conns := (\<lambda>_. new_connection\<lparr>cn_account := ''acc'', cn_agent := ''g1'',
       cn_phase := PhAwaitingAuth, cn_stage := LatchRead False\<rparr>)\<rparr>"

theorem kill_during_handshake_lost_witness:
  "\<exists>sv1 h. kill_instance (sample_hub_env\<lparr>hv_now := (\<lambda>_. 5)\<rparr>) ''i1'' 7 9 (sample_server connecting_hub)
      = (Inr (), sv1) \<and>
    h = on_sync (sample_hub_env\<lparr>hv_now := (\<lambda>_. 5)\<rparr>) 0
      (HubFrame (Some (marshal_envelope (server_envelope TypeStateSyncResponse (JObj [])))))
      (complete_auth (sample_hub_env\<lparr>hv_now := (\<lambda>_. 5)\<rparr>) 0 False (sv_hub sv1)) \<and>
    latch_spec ''acc'' (db_audit (sv_db sv1)) \<and> is_ready 0 h"
proof -
  let ?env = "sample_hub_env\<lparr>hv_now := (\<lambda>_. 5)\<rparr>" and ?sv = "sample_server connecting_hub"
  obtain sv1 where k: "kill_instance ?env ''i1'' 7 9 ?sv = (Inr (), sv1)"
    using sample_kill by blast
  let ?h = "on_sync ?env 0
      (HubFrame (Some (marshal_envelope (server_envelope TypeStateSyncResponse (JObj [])))))
      (complete_auth ?env 0 False (sv_hub sv1))"
  have c: "sv_hub ?sv = connecting_hub" "db_instances (sv_db ?sv) = [sample_instance]"
    by (simp_all add: sample_server_def)
  have a: "cn_account (hb_conns connecting_hub 0) = ''acc''" "cn_stage (hb_conns connecting_hub 0) = LatchRead False"
    "\<not> cn_closed (hb_conns connecting_hub 0)" "length (cn_outbox (hb_conns connecting_hub 0)) + 2 \<le> outbox_cap"
    "hb_registry connecting_hub ''acc'' = None" "si_account_id sample_instance = ''acc''"
    by (simp_all add: connecting_hub_def new_connection_def new_hub_def outbox_cap_def sample_instance_def)
  have n: "\<forall>n. hv_msg_id ?env n \<noteq> [] \<and> in64 (hv_now ?env n)"
    by (simp add: sample_hub_env_def in64_def)
  have "cn_stage (hb_conns (sv_hub ?sv) 0) = LatchRead False" "\<not> False"
    "\<not> cn_closed (hb_conns (sv_hub ?sv) 0)"
    "length (cn_outbox (hb_conns (sv_hub ?sv) 0)) + 2 \<le> outbox_cap"
    using a c by simp_all
  note K = kill_during_handshake_lost [OF this n k]
  have "is_known TypeStateSyncResponse" "env_type (server_envelope TypeStateSyncResponse (JObj [])) = TypeStateSyncResponse"
    by (simp_all add: server_envelope_def)
  note K = K [OF _ _ server_envelope_decodes [OF this(1)] this(2) refl]
  have "latch_spec (cn_account (hb_conns (sv_hub ?sv) 0)) (db_audit (sv_db sv1)) \<and> is_ready 0 ?h"
    using K a c by simp
  with k show ?thesis by (auto simp: c a)
qed

end
