(* ===== verification/AgentMsg.thy ===== *)
theory AgentMsg
  imports KillLatch "HOL-Library.List_Lexorder" "HOL-Library.Char_ord" "HOL-Library.AList"
begin

text \<open>
  What the server does with an agent's messages (\<open>cmd/saas/agentmsg.go\<close>): acks and order updates
  move the trade records, fills of both channels go through one deduplicating insert, a delta
  report funds fresh instances, is reconciled against the ledger and may freeze the account.
  Go maps from assets to amounts are association lists, one entry per asset. A handler's readings
  of the clock are arguments.
\<close>

section \<open>Statuses\<close>

definition ack_to_trade_status :: "string \<Rightarrow> trade_status option" where
  "ack_to_trade_status s =
     (if s = ''rejected'' then Some TsRejected
      else if s = ''expired'' then Some TsCancelled
      else None)"

definition order_update_to_trade_status :: "string \<Rightarrow> trade_status option" where
  "order_update_to_trade_status s =
     (if s = ''filled'' then Some TsFilled
      else if s = ''partial_filled'' then Some TsPartialFilled
      else if s = ''cancelled'' then Some TsCancelled
      else if s = ''rejected'' then Some TsRejected
      else None)"

section \<open>Fills\<close>

definition build_spot_execution_from :: "string \<Rightarrow> string \<Rightarrow> fill \<Rightarrow> db_err + spot_execution" where
  "build_spot_execution_from cid xid f =
     (case parse_float (fl_fill_quantity_decimal f) of
        None \<Rightarrow> Inl (ErrOther ''fill_quantity_decimal'')
      | Some qty \<Rightarrow>
        (case parse_float (fl_fill_price_decimal f) of
           None \<Rightarrow> Inl (ErrOther ''fill_price_decimal'')
         | Some price \<Rightarrow>
           (case parse_float (fl_fill_fee_amount_decimal f) of
              None \<Rightarrow> Inl (ErrOther ''fill_fee_amount_decimal'')
            | Some fee \<Rightarrow> Inr
                \<lparr>se_id = 0, se_client_order_id = cid, se_exchange_order_id = xid,
                 se_fill_quantity = qty, se_fill_price = price,
                 se_fill_fee_asset = fl_fill_fee_asset f, se_fill_fee_amount = fee,
                 se_filled_at_exchange_ms = fl_filled_at_exchange_ms f,
                 se_actual_slippage_bps = fl_actual_slippage_bps f, se_trade_id = fl_trade_id f\<rparr>)))"

definition fill_stored :: "string \<Rightarrow> fill \<Rightarrow> saas_db \<Rightarrow> bool db_res" where
  \<comment> \<open>the deduplication query of \<open>insertFillIfNew\<close>\<close>
  "fill_stored cid f =
     (if fl_trade_id f \<noteq> 0 then execution_exists_by_trade cid (fl_trade_id f)
      else execution_exists cid (fl_filled_at_exchange_ms f))"

definition insert_fill_if_new :: "string \<Rightarrow> string \<Rightarrow> fill \<Rightarrow> saas_db \<Rightarrow> bool db_res" where
  "insert_fill_if_new cid xid f =
     db_bind (fill_stored cid f) (\<lambda>exists.
       if exists then db_return False
       else case build_spot_execution_from cid xid f of
         Inl e \<Rightarrow> db_fail e
       | Inr ex \<Rightarrow> db_bind (insert_spot_execution ex) (\<lambda>_. db_return True))"

section \<open>Acks and order updates\<close>

definition handle_ack :: "ack \<Rightarrow> saas_db \<Rightarrow> unit db_res" where
  "handle_ack a =
     (case ack_to_trade_status (ack_status a) of
        None \<Rightarrow> db_return ()
      | Some status \<Rightarrow> (\<lambda>db.
          case update_trade_status (ack_client_order_id a) status db of
            (Inl e, db) \<Rightarrow> (if e = ErrRecordNotFound then Inr () else Inl e, db)
          | (Inr u, db) \<Rightarrow> (Inr u, db)))"

fun insert_fills :: "string \<Rightarrow> string \<Rightarrow> fill list \<Rightarrow> saas_db \<Rightarrow> unit db_res" where
  "insert_fills cid xid [] = db_return ()"
| "insert_fills cid xid (f # fs) =
     db_bind (insert_fill_if_new cid xid f) (\<lambda>_. insert_fills cid xid fs)"

definition handle_order_update :: "order_update \<Rightarrow> saas_db \<Rightarrow> unit db_res" where
  "handle_order_update u =
     db_bind (insert_fills (ou_client_order_id u) (ou_exchange_order_id u) (ou_fills u)) (\<lambda>_.
       case order_update_to_trade_status (ou_status u) of
         None \<Rightarrow> db_fail (ErrOther ''order_update unknown status'')
       | Some status \<Rightarrow> (\<lambda>db.
           case update_trade_status (ou_client_order_id u) status db of
             (Inl e, db) \<Rightarrow> (if e = ErrRecordNotFound then Inr () else Inl e, db)
           | (Inr u, db) \<Rightarrow> (Inr u, db)))"

fun recover_fills :: "fill list \<Rightarrow> saas_db \<Rightarrow> unit db_res" where
  "recover_fills [] = db_return ()"
| "recover_fills (f # fs) =
     (if fl_client_order_id f = [] then recover_fills fs
      else db_bind (insert_fill_if_new (fl_client_order_id f) (fl_exchange_order_id f) f) (\<lambda>inserted.
        if \<not> inserted then recover_fills fs
        else db_bind (mark_partial_if_pending (fl_client_order_id f)) (\<lambda>_. recover_fills fs)))"

section \<open>Reconciliation\<close>

type_synonym amounts = "(string \<times> f64) list"

definition amount :: "amounts \<Rightarrow> string \<Rightarrow> f64" where
  \<comment> \<open>reading a Go map: a missing key reads as zero\<close>
  "amount m a = (case map_of m a of None \<Rightarrow> Fin 0 | Some x \<Rightarrow> x)"

fun parse_positions :: "position list \<Rightarrow> amounts \<Rightarrow> db_err + amounts" where
  "parse_positions [] m = Inr m"
| "parse_positions (p # ps) m =
     (case parse_float (pos_free_decimal p) of
        None \<Rightarrow> Inl (ErrOther ''free_decimal'')
      | Some free \<Rightarrow>
        (case parse_float (pos_locked_decimal p) of
           None \<Rightarrow> Inl (ErrOther ''locked_decimal'')
         | Some locked \<Rightarrow> parse_positions ps (AList.update (pos_symbol p) (f_add free locked) m)))"

definition min_abs_diff :: "string \<Rightarrow> f64" where
  "min_abs_diff asset = (if asset = ''USDT'' then f_const (1 / 100) else f_const (1 / 10 ^ 6))"

definition reconcile_tolerance_bps :: f64 where
  "reconcile_tolerance_bps = Fin 50"

record drift_result =
  df_asset :: string
  df_expected :: f64
  df_actual :: f64
  df_diff :: f64
  df_drift_bps :: f64
  df_flagged :: bool

definition drift_of :: "string \<Rightarrow> f64 \<Rightarrow> f64 \<Rightarrow> drift_result" where
  "drift_of a expected actual =
     (let diff = f_sub actual expected;
          denom = f_max (f_max (f_abs expected) (f_abs actual)) (f_const (1 / 10 ^ 9));
          bps = f_mul (f_div (f_abs diff) denom) (Fin 10000)
      in \<lparr>df_asset = a, df_expected = expected, df_actual = actual, df_diff = diff,
          df_drift_bps = bps,
          df_flagged = (f_lt (min_abs_diff a) (f_abs diff) \<and> f_lt reconcile_tolerance_bps bps)\<rparr>)"

definition reconcile_positions :: "amounts \<Rightarrow> position list \<Rightarrow> db_err + drift_result list" where
  "reconcile_positions expected positions =
     (case parse_positions positions [] of
        Inl e \<Rightarrow> Inl e
      | Inr actual \<Rightarrow>
          Inr (map (\<lambda>a. drift_of a (amount expected a) (amount actual a))
            (sort (remdups (map fst expected @ map fst actual)))))"

section \<open>Genesis funding\<close>

definition base_asset :: "string \<Rightarrow> string" where
  "base_asset pair = trim_suffix pair ''USDT''"

definition build_seed_portfolio :: "strategy_instance \<Rightarrow> amounts \<Rightarrow> int \<Rightarrow> portfolio_state" where
  "build_seed_portfolio inst actual now =
     \<lparr>ps_instance_id = si_instance_id inst, ps_now_ms = now, ps_dead_btc = Fin 0,
      ps_float_btc = amount actual (base_asset (si_pair inst)), ps_cold_sealed_btc = Fin 0,
      ps_usdt = amount actual ''USDT'', ps_last_processed_bar_time = 0, ps_last_applied_exec_id = 0\<rparr>"

definition fund_instance :: "strategy_instance \<Rightarrow> amounts \<Rightarrow> int \<Rightarrow> saas_db \<Rightarrow> unit db_res" where
  "fund_instance inst actual now =
     db_bind (mark_funded (si_instance_id inst) now) (\<lambda>claimed.
       if \<not> claimed then db_return ()
       else db_bind (max_execution_id_for_instance (si_instance_id inst)) (\<lambda>w.
         portfolio_append ((build_seed_portfolio inst actual now)\<lparr>ps_last_applied_exec_id := w\<rparr>)))"

section \<open>The drift streak\<close>

record freeze_conf =
  fz_tolerance_bps :: f64
  fz_debounce :: int
  fz_killer :: bool             \<comment> \<open>the hub is wired\<close>

definition eff_freeze_tolerance_bps :: "freeze_conf \<Rightarrow> f64" where
  "eff_freeze_tolerance_bps c = (if f_lt (Fin 0) (fz_tolerance_bps c) then fz_tolerance_bps c else Fin 200)"

definition eff_freeze_debounce_reports :: "freeze_conf \<Rightarrow> int" where
  "eff_freeze_debounce_reports c = (if 1 \<le> fz_debounce c then fz_debounce c else 2)"

definition killed_sentinel :: int where
  "killed_sentinel = - 1"

definition max_flagged_drift_bps :: "drift_result list \<Rightarrow> string list \<Rightarrow> f64" where
  "max_flagged_drift_bps drifts managed =
     fold (\<lambda>d m. if List.member managed (df_asset d) \<and> df_flagged d \<and> f_lt m (df_drift_bps d)
       then df_drift_bps d else m) drifts (Fin 0)"

definition next_drift_streak :: "f64 \<Rightarrow> int \<Rightarrow> f64 \<Rightarrow> int" where
  "next_drift_streak max_bps prev freeze_bps =
     (if f_lt max_bps freeze_bps then 0 else if prev < 0 then prev else add64 prev 1)"

definition auto_kill :: kill_switch where
  "auto_kill = \<lparr>ks_reason = ''discrepancy_detected'', ks_operator_user_id = ''system'',
     ks_scope = ''all'', ks_symbol = []\<rparr>"

definition auto_audit_extra :: "f64 \<Rightarrow> (string \<times> json) list" where
  "auto_audit_extra max_bps = [(''trigger'', JStr ''auto''), (''max_drift_bps'', JDec (f_sign max_bps) (f_val max_bps))]"

definition streak_of :: "string \<Rightarrow> 't server \<Rightarrow> int" where
  "streak_of acct sv = (case sv_streak sv acct of None \<Rightarrow> 0 | Some n \<Rightarrow> n)"

definition maybe_auto_freeze ::
  "'t hub_env \<Rightarrow> freeze_conf \<Rightarrow> string \<Rightarrow> drift_result list \<Rightarrow> string list \<Rightarrow> int \<Rightarrow> 't server \<Rightarrow> 't server" where
  "maybe_auto_freeze env c acct drifts managed now sv =
     (let max_bps = max_flagged_drift_bps drifts managed;
          nxt = next_drift_streak max_bps (streak_of acct sv) (eff_freeze_tolerance_bps c);
          sv = sv\<lparr>sv_streak := (sv_streak sv)(acct \<mapsto> nxt)\<rparr>
      in if nxt < eff_freeze_debounce_reports c \<or> \<not> fz_killer c then sv
         else case with_db (record_kill_audit ''system'' acct auto_kill (auto_audit_extra max_bps) now) sv of
           (Inl _, sv) \<Rightarrow> sv
         | (Inr _, sv) \<Rightarrow>
             push_kill_switch env acct auto_kill
               (sv\<lparr>sv_streak := (sv_streak sv)(acct \<mapsto> killed_sentinel)\<rparr>))"

section \<open>Delta reports\<close>

fun expected_holdings ::
  "amounts \<Rightarrow> int \<Rightarrow> strategy_instance list \<Rightarrow> amounts \<Rightarrow> bool \<Rightarrow> saas_db \<Rightarrow> (amounts \<times> bool) db_res" where
  \<comment> \<open>the loop over the instances: funding, or the sum of the latest rows; the flag is \<open>hasBaseline\<close>\<close>
  "expected_holdings actual now [] expected baseline = db_return (expected, baseline)"
| "expected_holdings actual now (inst # insts) expected baseline =
     (if si_funded_at_ms inst = None then
        db_bind (fund_instance inst actual now) (\<lambda>_.
          expected_holdings actual now insts expected baseline)
      else
        db_bind (portfolio_latest (si_instance_id inst)) (\<lambda>r.
          case r of
            None \<Rightarrow> expected_holdings actual now insts expected baseline
          | Some ps \<Rightarrow>
              (let base = base_asset (si_pair inst);
                   held = f_add (f_add (ps_dead_btc ps) (ps_float_btc ps)) (ps_cold_sealed_btc ps);
                   expected = AList.update base (f_add (amount expected base) held) expected;
                   expected = AList.update ''USDT'' (f_add (amount expected ''USDT'') (ps_usdt ps)) expected
               in expected_holdings actual now insts expected True)))"

fun insert_discrepancies ::
  "string \<Rightarrow> string \<Rightarrow> int \<Rightarrow> int \<Rightarrow> drift_result list \<Rightarrow> saas_db \<Rightarrow> unit db_res" where
  "insert_discrepancies acct iid reported now [] = db_return ()"
| "insert_discrepancies acct iid reported now (d # ds) =
     (if \<not> df_flagged d then insert_discrepancies acct iid reported now ds
      else db_bind (insert_discrepancy \<lparr>dc_account_id = acct, dc_instance_id = iid,
          dc_asset = df_asset d, dc_expected = df_expected d, dc_actual = df_actual d,
          dc_diff = df_diff d, dc_drift_bps = df_drift_bps d, dc_reported_at_ms = reported,
          dc_detected_at_ms = now\<rparr>) (\<lambda>_. insert_discrepancies acct iid reported now ds))"

definition reconcile_db ::
  "string \<Rightarrow> string \<Rightarrow> strategy_instance list \<Rightarrow> delta_report \<Rightarrow> int \<Rightarrow> saas_db
    \<Rightarrow> (drift_result list \<times> string list) option db_res" where
  \<comment> \<open>\<open>reconcile\<close> up to the freeze decision: the drifts and the managed assets, or nothing without
    a baseline\<close>
  "reconcile_db acct iid insts dr now =
     (case parse_positions (dr_positions dr) [] of
        Inl e \<Rightarrow> db_fail e
      | Inr actual \<Rightarrow>
          db_bind (expected_holdings actual now insts [] False) (\<lambda>(expected, baseline).
            if \<not> baseline then db_return None
            else case reconcile_positions expected (dr_positions dr) of
              Inl e \<Rightarrow> db_fail e
            | Inr drifts \<Rightarrow>
                db_bind (insert_discrepancies acct iid (dr_reported_at_ms dr) now drifts) (\<lambda>_.
                  db_return (Some (drifts, map fst expected)))))"

definition reconcile ::
  "'t hub_env \<Rightarrow> freeze_conf \<Rightarrow> string \<Rightarrow> string \<Rightarrow> strategy_instance list \<Rightarrow> delta_report \<Rightarrow> int \<Rightarrow> int
    \<Rightarrow> 't server \<Rightarrow> (db_err + unit) \<times> 't server" where
  "reconcile env c acct iid insts dr now now' sv =
     (case with_db (reconcile_db acct iid insts dr now) sv of
        (Inl e, sv) \<Rightarrow> (Inl e, sv)
      | (Inr None, sv) \<Rightarrow> (Inr (), sv)
      | (Inr (Some (drifts, managed)), sv) \<Rightarrow>
          (Inr (), maybe_auto_freeze env c acct drifts managed now' sv))"

fun insert_agent_errors ::
  "string \<Rightarrow> string \<Rightarrow> int \<Rightarrow> agent_error list \<Rightarrow> saas_db \<Rightarrow> unit db_res" where
  "insert_agent_errors acct iid reported [] = db_return ()"
| "insert_agent_errors acct iid reported (e # es) =
     db_bind (insert_agent_error \<lparr>ar_account_id = acct, ar_instance_id = iid, ar_code = ae_code e,
         ar_message = ae_message e, ar_occurred_at_ms = ae_occurred_at_ms e,
         ar_reported_at_ms = reported\<rparr>) (\<lambda>_. insert_agent_errors acct iid reported es)"

definition handle_delta_report ::
  "'t hub_env \<Rightarrow> freeze_conf \<Rightarrow> string \<Rightarrow> delta_report \<Rightarrow> int \<Rightarrow> int \<Rightarrow> 't server
    \<Rightarrow> (db_err + unit) \<times> 't server" where
  "handle_delta_report env c acct dr now now' sv =
     (case with_db (list_by_account acct) sv of
        (Inl e, sv) \<Rightarrow> (Inl e, sv)
      | (Inr insts, sv) \<Rightarrow>
          (let iid = (case insts of [inst] \<Rightarrow> si_instance_id inst | _ \<Rightarrow> []) in
           case with_db (recover_fills (ds_fills (dr_since_last_report dr))) sv of
             (Inl e, sv) \<Rightarrow> (Inl e, sv)
           | (Inr _, sv) \<Rightarrow>
             (case reconcile env c acct iid insts dr now now' sv of
                (Inl e, sv) \<Rightarrow> (Inl e, sv)
              | (Inr _, sv) \<Rightarrow>
                  with_db (insert_agent_errors acct iid (dr_reported_at_ms dr)
                    (ds_errors (dr_since_last_report dr))) sv)))"

definition handle_state_sync ::
  "'t hub_env \<Rightarrow> freeze_conf \<Rightarrow> string \<Rightarrow> json \<Rightarrow> int \<Rightarrow> int \<Rightarrow> 't server \<Rightarrow> (db_err + unit) \<times> 't server" where
  "handle_state_sync env c acct payload now now' sv =
     (case unmarshal state_sync_response_fields payload zero_state_sync_response of
        None \<Rightarrow> (Inl (ErrOther ''decode state_sync_response''), sv)
      | Some resp \<Rightarrow> handle_delta_report env c acct
          \<lparr>dr_reported_at_ms = ssr_reported_at_ms resp, dr_positions = ssr_positions resp,
           dr_since_last_report = \<lparr>ds_fills = ssr_since_last_fills resp, ds_errors = []\<rparr>\<rparr> now now' sv)"

definition agent_msg_hook ::
  "'t hub_env \<Rightarrow> freeze_conf \<Rightarrow> string \<Rightarrow> envelope \<Rightarrow> int \<Rightarrow> int \<Rightarrow> 't server \<Rightarrow> (db_err + unit) \<times> 't server" where
  "agent_msg_hook env c acct e now now' sv =
     (if env_type e = TypeAck then
        (case decode_payload ack_fields zero_ack e of
           Inl _ \<Rightarrow> (Inl (ErrOther ''decode ack''), sv)
         | Inr a \<Rightarrow> with_db (handle_ack a) sv)
      else if env_type e = TypeOrderUpdate then
        (case decode_payload order_update_fields zero_order_update e of
           Inl _ \<Rightarrow> (Inl (ErrOther ''decode order_update''), sv)
         | Inr u \<Rightarrow> with_db (handle_order_update u) sv)
      else if env_type e = TypeDeltaReport then
        (case decode_payload delta_report_fields zero_delta_report e of
           Inl _ \<Rightarrow> (Inl (ErrOther ''decode delta_report''), sv)
         | Inr dr \<Rightarrow> handle_delta_report env c acct dr now now' sv)
      else (Inr (), sv))"

definition handshake_reject_hook :: "string \<Rightarrow> string \<Rightarrow> string \<Rightarrow> int \<Rightarrow> saas_db \<Rightarrow> unit db_res" where
  \<comment> \<open>\<open>makeHandshakeRejectHook\<close>: a failed lookup of the instances leaves the instance empty\<close>
  "handshake_reject_hook acct code msg now db =
     (case list_by_account acct db of (r, db) \<Rightarrow>
        let iid = (case r of Inr (inst # _) \<Rightarrow> si_instance_id inst | _ \<Rightarrow> []) in
        insert_agent_error \<lparr>ar_account_id = acct, ar_instance_id = iid, ar_code = code,
          ar_message = msg, ar_occurred_at_ms = now, ar_reported_at_ms = now\<rparr> db)"

end
