(* ===== verification/LiveTick.thy ===== *)
theory LiveTick
  imports AgentMsg
begin

text \<open>
  The decision cycle (\<open>internal/saas/instance\<close>, \<open>internal/saas/cron\<close>): the trailing bars, the fills
  folded into the ledger, the strategy's step, the new portfolio row, and the dispatcher that
  records an order before it sends the command (\<open>cmd/saas/dispatcher.go\<close>). The strategy and the
  package loader are reached through their interfaces: an argument of the model.
\<close>

section \<open>Bars (\<open>bar_loader.go\<close>, \<open>data/load_bars.go\<close>)\<close>

record bar =
  br_open_time :: int
  br_open :: f64
  br_high :: f64
  br_low :: f64
  br_close :: f64
  br_volume :: f64

record kline_row =
  kl_symbol :: string
  kl_interval :: string
  kl_bar :: bar

definition load_klines :: "kline_row list \<Rightarrow> string \<Rightarrow> string \<Rightarrow> int \<Rightarrow> int \<Rightarrow> saas_db \<Rightarrow> bar list db_res" where
  "load_klines klines symbol interval start_ms end_ms db =
     (if symbol = [] \<or> interval = [] then (Inl (ErrOther ''empty symbol or interval''), db)
      else if end_ms < start_ms then (Inl (ErrOther ''endMs < startMs''), db)
      else db_stmt (\<lambda>db. (Inr (sort_key br_open_time (map kl_bar (filter
        (\<lambda>k. kl_symbol k = symbol \<and> kl_interval k = interval \<and>
           start_ms \<le> br_open_time (kl_bar k) \<and> br_open_time (kl_bar k) \<le> end_ms) klines))), db)) db)"

definition bar_interval_ms :: int where "bar_interval_ms = 60000"

definition load_trailing :: "kline_row list \<Rightarrow> string \<Rightarrow> int \<Rightarrow> int \<Rightarrow> saas_db \<Rightarrow> bar list db_res" where
  "load_trailing klines pair count now =
     (if count \<le> 0 then db_fail (ErrOther ''count must be > 0'')
      else db_bind (load_klines klines pair ''1m'' (sub64 now (mul64 count bar_interval_ms)) now) (\<lambda>bars.
        db_return (if count < int (length bars) then drop (length bars - nat count) bars else bars)))"

definition split_bars :: "bar list \<Rightarrow> f64 list \<times> int list" where
  "split_bars bars = (map br_close bars, map br_open_time bars)"

definition bar_staleness :: "int list \<Rightarrow> int \<Rightarrow> int \<Rightarrow> int \<times> bool" where
  "bar_staleness ts now max_staleness =
     (if ts = [] then (0, True)
      else let age = sub64 now (last ts) in (age, max_staleness < age))"

definition eff_max_bar_staleness_ms :: "int \<Rightarrow> int" where
  "eff_max_bar_staleness_ms configured = (if 0 < configured then configured else 15 * 60 * 1000)"

section \<open>The ledger (\<open>applyFills\<close>)\<close>

definition apply_fill :: "string \<Rightarrow> instance_fill \<Rightarrow> portfolio \<Rightarrow> portfolio" where
  "apply_fill base f p =
     (let notional = f_mul (if_fill_quantity f) (if_fill_price f);
          fee = (\<lambda>p. if if_fill_fee_asset f = base
                   then p\<lparr>pf_float_btc := f_sub (pf_float_btc p) (if_fill_fee_amount f)\<rparr>
                   else if if_fill_fee_asset f = ''USDT''
                   then p\<lparr>pf_usdt := f_sub (pf_usdt p) (if_fill_fee_amount f)\<rparr>
                   else p)
      in if if_side f = ''buy'' then
           fee (p\<lparr>pf_float_btc := f_add (pf_float_btc p) (if_fill_quantity f),
                  pf_usdt := f_sub (pf_usdt p) notional\<rparr>)
         else if if_side f = ''sell'' then
           fee (p\<lparr>pf_float_btc := f_sub (pf_float_btc p) (if_fill_quantity f),
                  pf_usdt := f_add (pf_usdt p) notional\<rparr>)
         else p)"

definition apply_fills :: "portfolio \<Rightarrow> instance_fill list \<Rightarrow> string \<Rightarrow> portfolio \<times> nat" where
  "apply_fills p fills base =
     (fold (apply_fill base) fills p, fold (\<lambda>f m. if m < if_id f then if_id f else m) fills 0)"

section \<open>Strategies (\<open>contract.go\<close>, \<open>strategy_resolver.go\<close>, \<open>champion_loader.go\<close>)\<close>

record ('g, 'p) strategy_input =
  sn_now_ms :: int
  sn_closes :: "f64 list"
  sn_timestamps :: "int list"
  sn_portfolio :: portfolio
  sn_chromosome :: 'g
  sn_spawn :: 'p
  sn_last_processed_bar_time :: int
  sn_runtime_state :: "json option"

record strategy_output =
  so_macro_orders :: "order_intent list"
  so_micro_orders :: "order_intent list"
  so_release_intents :: "release_intent list"
  so_runtime_state :: "json option"

record ('g, 'p) strategy_impl =
  sg_min_eval_bars :: int
  sg_step :: "('g, 'p) strategy_input \<Rightarrow> string + strategy_output"
  sg_load_gene :: "string \<Rightarrow> string + 'g \<times> 'p"     \<comment> \<open>\<open>ChampionGeneLoader.Load\<close> with this strategy\<close>

section \<open>The recording dispatcher (\<open>dispatcher.go\<close>)\<close>

datatype tick_err =
    ErrTickInFlight | ErrInstanceNoChampion | ErrInstanceDataStale
  | ErrTickDb db_err | ErrTickStrategy string | ErrTickDispatch dispatch_err

definition build_trade_record :: "string \<Rightarrow> string \<Rightarrow> order_intent \<Rightarrow> f64 \<Rightarrow> f64 \<Rightarrow> string + trade_record" where
  "build_trade_record iid symbol oi close cap =
     (case effective_dispatched_order oi close cap of
        Inl e \<Rightarrow> Inl e
      | Inr eff \<Rightarrow> Inr
          \<lparr>td_client_order_id = oi_client_order_id oi, td_instance_id = iid, td_symbol = symbol,
           td_side = oi_side oi, td_order_type = ef_order_type eff,
           td_quantity_usd = oi_quantity_usd oi,
           td_limit_price = (if ef_order_type eff = ''limit'' then Some (ef_limit_price eff) else None),
           td_valid_until_ms = oi_valid_until_ms oi, td_status = TsPending\<rparr>)"

fun record_orders :: "string \<Rightarrow> string \<Rightarrow> f64 \<Rightarrow> f64 \<Rightarrow> order_intent list \<Rightarrow> saas_db \<Rightarrow> unit db_res" where
  "record_orders iid symbol close cap [] = db_return ()"
| "record_orders iid symbol close cap (oi # ois) =
     (case build_trade_record iid symbol oi close cap of
        Inl e \<Rightarrow> db_fail (ErrOther e)
      | Inr tr \<Rightarrow> (\<lambda>db.
          case insert_trade_record tr db of
            (Inl e, db) \<Rightarrow>
              if e = ErrDuplicatedKey then record_orders iid symbol close cap ois db else (Inl e, db)
          | (Inr _, db) \<Rightarrow> record_orders iid symbol close cap ois db))"

definition recording_dispatch ::
  "'t hub_env \<Rightarrow> string \<Rightarrow> string \<Rightarrow> string \<Rightarrow> f64 \<Rightarrow> order_intent list \<Rightarrow> 't server
    \<Rightarrow> (tick_err + unit) \<times> 't server" where
  "recording_dispatch env iid acct symbol close ois sv =
     (case with_db (record_orders iid symbol close (hv_price_cap env) ois) sv of
        (Inl e, sv) \<Rightarrow> (Inl (ErrTickDb e), sv)
      | (Inr _, sv) \<Rightarrow>
          (case hub_dispatch env iid acct symbol close ois (sv_hub sv) of
             (Inl e, h) \<Rightarrow> (Inl (ErrTickDispatch e), sv\<lparr>sv_hub := h\<rparr>)
           | (Inr _, h) \<Rightarrow> (Inr (), sv\<lparr>sv_hub := h\<rparr>)))"

section \<open>Tick (\<open>manager.go\<close>)\<close>

text \<open>
  A tick reads, decides, and writes; messages of the agent may be handled in between, so the reads
  and the writes are two steps. What the reads leave for the rest of the tick:
\<close>

record ('g, 'p) tick_ctx =
  tx_input :: "('g, 'p) strategy_input"
  tx_step :: "('g, 'p) strategy_input \<Rightarrow> string + strategy_output"
  tx_exec_id :: nat

definition snapshot_of :: "portfolio_state option \<Rightarrow> portfolio" where
  "snapshot_of ps =
     (case ps of
        None \<Rightarrow> \<lparr>pf_dead_btc = Fin 0, pf_float_btc = Fin 0, pf_cold_sealed_btc = Fin 0, pf_usdt = Fin 0\<rparr>
      | Some r \<Rightarrow> \<lparr>pf_dead_btc = ps_dead_btc r, pf_float_btc = ps_float_btc r,
          pf_cold_sealed_btc = ps_cold_sealed_btc r, pf_usdt = ps_usdt r\<rparr>)"


definition tick_db :: "'a db_res \<Rightarrow> (tick_err + 'a) \<times> saas_db" where
  "tick_db r = (case r of (Inl e, db) \<Rightarrow> (Inl (ErrTickDb e), db) | (Inr x, db) \<Rightarrow> (Inr x, db))"

definition tick_bind ::
  "(tick_err + 'a) \<times> saas_db \<Rightarrow> ('a \<Rightarrow> saas_db \<Rightarrow> (tick_err + 'b) \<times> saas_db) \<Rightarrow> (tick_err + 'b) \<times> saas_db" where
  "tick_bind r k = (case r of (Inl e, db) \<Rightarrow> (Inl e, db) | (Inr x, db) \<Rightarrow> k x db)"

definition tick_fold ::
  "strategy_instance \<Rightarrow> ('g, 'p) strategy_impl \<Rightarrow> 'g \<times> 'p \<Rightarrow> int \<Rightarrow> bar list \<Rightarrow> portfolio_state option
    \<Rightarrow> runtime_row option \<Rightarrow> instance_fill list \<Rightarrow> ('g, 'p) tick_ctx" where
  \<comment> \<open>the fills folded into the balances, and the strategy's input\<close>
  "tick_fold inst strat gene now bars ps rs fills =
     (let since = (case ps of None \<Rightarrow> 0 | Some r \<Rightarrow> ps_last_applied_exec_id r);
          (p, applied) = apply_fills (snapshot_of ps) fills (base_asset (si_pair inst));
          (closes, ts) = split_bars bars
      in \<lparr>tx_input = \<lparr>sn_now_ms = now, sn_closes = closes, sn_timestamps = ts, sn_portfolio = p,
            sn_chromosome = fst gene, sn_spawn = snd gene,
            sn_last_processed_bar_time = (case ps of None \<Rightarrow> 0 | Some r \<Rightarrow> ps_last_processed_bar_time r),
            sn_runtime_state = (case rs of None \<Rightarrow> None | Some r \<Rightarrow> rt_state_json r)\<rparr>,
          tx_step = sg_step strat,
          tx_exec_id = (if since < applied then applied else since)\<rparr>)"

definition champion_gene ::
  "(string \<Rightarrow> string + ('g, 'p) strategy_impl) \<Rightarrow> strategy_instance
    \<Rightarrow> tick_err + ('g, 'p) strategy_impl \<times> 'g \<times> 'p" where
  "champion_gene resolve inst =
     (case resolve (si_strategy_id inst) of
        Inl e \<Rightarrow> Inl (ErrTickStrategy e)
      | Inr strat \<Rightarrow>
        (case si_active_champ_id inst of
           None \<Rightarrow> Inl ErrInstanceNoChampion
         | Some cid \<Rightarrow>
           if cid = [] then Inl ErrInstanceNoChampion
           else case sg_load_gene strat cid of
             Inl e \<Rightarrow> Inl (ErrTickStrategy e)
           | Inr gene \<Rightarrow> Inr (strat, gene)))"

definition tick_market ::
  "kline_row list \<Rightarrow> int \<Rightarrow> strategy_instance \<Rightarrow> int \<Rightarrow> portfolio_state option \<Rightarrow> runtime_row option
    \<Rightarrow> ('g, 'p) strategy_impl \<Rightarrow> 'g \<times> 'p \<Rightarrow> saas_db \<Rightarrow> (tick_err + ('g, 'p) tick_ctx) \<times> saas_db" where
  \<comment> \<open>the bars, the freshness guard and the fills\<close>
  "tick_market klines staleness inst now ps rs strat gene db =
     tick_bind (tick_db (load_trailing klines (si_pair inst) (sg_min_eval_bars strat) now db)) (\<lambda>bars db.
     if snd (bar_staleness (snd (split_bars bars)) now (eff_max_bar_staleness_ms staleness))
     then (Inl ErrInstanceDataStale, db)
     else
       tick_bind (tick_db (new_executions_for_instance (si_instance_id inst)
         (case ps of None \<Rightarrow> 0 | Some r \<Rightarrow> ps_last_applied_exec_id r) db)) (\<lambda>fills db.
       (Inr (tick_fold inst strat gene now bars ps rs fills), db)))"

definition tick_read ::
  "(string \<Rightarrow> string + ('g, 'p) strategy_impl) \<Rightarrow> kline_row list \<Rightarrow> int \<Rightarrow> strategy_instance \<Rightarrow> int
    \<Rightarrow> saas_db \<Rightarrow> (tick_err + ('g, 'p) tick_ctx) \<times> saas_db" where
  "tick_read resolve klines staleness inst now db =
     tick_bind (tick_db (portfolio_latest (si_instance_id inst) db)) (\<lambda>ps db.
     tick_bind (tick_db (runtime_get (si_instance_id inst) db)) (\<lambda>rs db.
     case champion_gene resolve inst of
       Inl e \<Rightarrow> (Inl e, db)
     | Inr (strat, gene) \<Rightarrow> tick_market klines staleness inst now ps rs strat gene db))"

definition apply_release :: "release_intent \<Rightarrow> portfolio \<Rightarrow> portfolio" where
  "apply_release ri p = p\<lparr>pf_dead_btc := f_sub (pf_dead_btc p) (ri_quantity ri),
     pf_float_btc := f_add (pf_float_btc p) (ri_quantity ri)\<rparr>"

definition next_portfolio_row :: "strategy_instance \<Rightarrow> ('g, 'p) tick_ctx \<Rightarrow> strategy_output \<Rightarrow> portfolio_state" where
  "next_portfolio_row inst cx out =
     (let input = tx_input cx; p = fold apply_release (so_release_intents out) (sn_portfolio input)
      in \<lparr>ps_instance_id = si_instance_id inst, ps_now_ms = sn_now_ms input,
          ps_dead_btc = pf_dead_btc p, ps_float_btc = pf_float_btc p,
          ps_cold_sealed_btc = pf_cold_sealed_btc p, ps_usdt = pf_usdt p,
          ps_last_processed_bar_time =
            (if sn_timestamps input = [] then sn_last_processed_bar_time input
             else last (sn_timestamps input)),
          ps_last_applied_exec_id = tx_exec_id cx\<rparr>)"

definition tick_write ::
  "'t hub_env \<Rightarrow> strategy_instance \<Rightarrow> ('g, 'p) tick_ctx \<Rightarrow> 't server \<Rightarrow> (tick_err + unit) \<times> 't server" where
  "tick_write env inst cx sv =
     (case tx_step cx (tx_input cx) of
        Inl e \<Rightarrow> (Inl (ErrTickStrategy e), sv)
      | Inr out \<Rightarrow>
        (case with_db (portfolio_append (next_portfolio_row inst cx out)) sv of
           (Inl e, sv) \<Rightarrow> (Inl (ErrTickDb e), sv)
         | (Inr _, sv) \<Rightarrow>
           (case with_db (runtime_upsert (si_instance_id inst) (sn_now_ms (tx_input cx))
                   (so_runtime_state out)) sv of
              (Inl e, sv) \<Rightarrow> (Inl (ErrTickDb e), sv)
            | (Inr _, sv) \<Rightarrow>
              (let orders = so_macro_orders out @ so_micro_orders out;
                   closes = sn_closes (tx_input cx)
               in if orders = [] then (Inr (), sv)
                  else recording_dispatch env (si_instance_id inst) (si_account_id inst) (si_pair inst)
                    (if closes = [] then Fin 0 else last closes) orders sv))))"

definition stamp_tick :: "strategy_instance \<Rightarrow> int \<Rightarrow> 't server \<Rightarrow> 't server" where
  \<comment> \<open>the deferred stamp, whose failure is only logged\<close>
  "stamp_tick inst wall sv = snd (with_db (set_last_tick_wall_time (si_instance_id inst) wall) sv)"

definition tick ::
  "'t hub_env \<Rightarrow> (string \<Rightarrow> string + ('g, 'p) strategy_impl) \<Rightarrow> kline_row list \<Rightarrow> int \<Rightarrow> bool
    \<Rightarrow> strategy_instance \<Rightarrow> int \<Rightarrow> int \<Rightarrow> 't server \<Rightarrow> (tick_err + unit) \<times> 't server" where
  \<comment> \<open>a tick nothing interleaves with; \<open>busy\<close> is the outcome of \<open>TryLock\<close>\<close>
  "tick env resolve klines staleness busy inst now wall sv =
     (if busy then (Inl ErrTickInFlight, sv)
      else case tick_read resolve klines staleness inst now (sv_db sv) of
        (Inl e, db) \<Rightarrow> (Inl e, stamp_tick inst wall (sv\<lparr>sv_db := db\<rparr>))
      | (Inr cx, db) \<Rightarrow>
          (case tick_write env inst cx (sv\<lparr>sv_db := db\<rparr>) of
             (r, sv) \<Rightarrow> (r, stamp_tick inst wall sv)))"

section \<open>The scheduler (\<open>cron/scheduler.go\<close>)\<close>

definition scan_and_tick ::
  "'t hub_env \<Rightarrow> (string \<Rightarrow> string + ('g, 'p) strategy_impl) \<Rightarrow> kline_row list \<Rightarrow> int \<Rightarrow> int \<Rightarrow> int
    \<Rightarrow> 't server \<Rightarrow> (tick_err + unit) list \<times> 't server" where
  \<comment> \<open>one scan, its goroutines run one after the other and all at the same time reading; a failed
    listing does nothing\<close>
  "scan_and_tick env resolve klines staleness now wall sv =
     (case with_db list_live sv of
        (Inl _, sv) \<Rightarrow> ([], sv)
      | (Inr insts, sv) \<Rightarrow>
          fold (\<lambda>inst (rs, sv). case tick env resolve klines staleness False inst now wall sv of
            (r, sv) \<Rightarrow> (rs @ [r], sv)) insts ([], sv))"

end
