(* ===== verification/LiveSafety.thy ===== *)
theory LiveSafety
  imports LiveTick
begin

text \<open>
  What the server's tables keep whatever messages, kills, ticks and failures come: a terminal trade
  stays terminal, a fill has one row, the exec ids grow. The theorems rest on one relation, the
  writes a statement can make (\<open>db_step\<close>), to which every handler is shown to reduce.
\<close>

section \<open>The writes\<close>

definition funded :: "string \<Rightarrow> saas_db \<Rightarrow> bool" where
  "funded iid db \<longleftrightarrow> (\<forall>i\<in>set (db_instances db). si_instance_id i = iid \<longrightarrow> si_funded_at_ms i \<noteq> None)"

inductive db_step :: "saas_db \<Rightarrow> saas_db \<Rightarrow> bool" where
  exec_new: "\<forall>e'\<in>set (db_execs db). exec_conflict e e' = None \<Longrightarrow>
    db_step db (db\<lparr>db_next_exec := Suc (db_next_exec db),
      db_execs := db_execs db @ [e\<lparr>se_id := db_next_exec db\<rparr>]\<rparr>)"
| exec_refused: "db_step db (db\<lparr>db_next_exec := Suc (db_next_exec db)\<rparr>)"
| trade_new: "\<forall>t\<in>set (db_trades db). td_client_order_id t \<noteq> td_client_order_id tr \<Longrightarrow>
    db_step db (db\<lparr>db_trades := db_trades db @ [tr]\<rparr>)"
| trade_status: "(\<And>t. p t \<Longrightarrow> \<not> terminal_trade (td_status t)) \<Longrightarrow>
    db_step db (db\<lparr>db_trades := update_where p (\<lambda>t. t\<lparr>td_status := s\<rparr>) (db_trades db)\<rparr>)"
| portfolio_new: "\<forall>q\<in>set (db_portfolios db). \<not> (ps_instance_id q = ps_instance_id p \<and> ps_now_ms q = ps_now_ms p) \<Longrightarrow>
    db_step db (db\<lparr>db_portfolios := db_portfolios db @ [p]\<rparr>)"
| audit_new: "db_step db (db\<lparr>db_audit := db_audit db @ [r]\<rparr>)"
| elsewhere: "db_trades db' = db_trades db \<Longrightarrow> db_execs db' = db_execs db \<Longrightarrow>
    db_next_exec db' = db_next_exec db \<Longrightarrow> db_portfolios db' = db_portfolios db \<Longrightarrow>
    db_audit db' = db_audit db \<Longrightarrow> (\<And>iid. funded iid db \<Longrightarrow> funded iid db') \<Longrightarrow> db_step db db'"

abbreviation "db_steps \<equiv> db_step\<^sup>*\<^sup>*"

definition writes :: "(saas_db \<Rightarrow> 'r \<times> saas_db) \<Rightarrow> bool" where
  "writes f \<longleftrightarrow> (\<forall>db. db_steps db (snd (f db)))"

named_theorems writes_intros

lemma writesD: "writes f \<Longrightarrow> f db = (r, db') \<Longrightarrow> db_steps db db'"
  by (metis snd_conv writes_def)

lemma writes_bind [writes_intros]:
  assumes "writes f" "\<And>x. writes (k x)"
  shows "writes (db_bind f k)"
  unfolding writes_def
proof
  fix db
  obtain r db1 where f: "f db = (r, db1)" by (cases "f db")
  from assms(1) f have "db_steps db db1" by (rule writesD)
  moreover have "db_steps db1 (snd (k x db1))" for x using assms(2) by (simp add: writes_def)
  ultimately show "db_steps db (snd (db_bind f k db))"
    by (auto simp: db_bind_def f split: sum.splits intro: rtranclp_trans)
qed

lemma writes_return [writes_intros]: "writes (db_return x)" "writes (db_fail e)"
  by (simp_all add: writes_def db_return_def db_fail_def)

lemma writes_if [writes_intros]: "(b \<Longrightarrow> writes f) \<Longrightarrow> (\<not> b \<Longrightarrow> writes g) \<Longrightarrow> writes (if b then f else g)"
  by simp

lemma writes_catch:
  assumes "writes f" "\<And>e. writes (h e)" "\<And>x. writes (k x)"
  shows "writes (\<lambda>db. case f db of (Inl e, db) \<Rightarrow> h e db | (Inr x, db) \<Rightarrow> k x db)"
  unfolding writes_def
proof
  fix db
  obtain r db1 where f: "f db = (r, db1)" by (cases "f db")
  from assms(1) f have "db_steps db db1" by (rule writesD)
  moreover have "db_steps db1 (snd (h e db1))" "db_steps db1 (snd (k x db1))" for e x
    using assms(2,3) by (simp_all add: writes_def)
  ultimately show "db_steps db (snd (case f db of (Inl e, db) \<Rightarrow> h e db | (Inr x, db) \<Rightarrow> k x db))"
    by (auto simp: f split: sum.splits intro: rtranclp_trans)
qed

lemma writes_stmt:
  assumes "\<And>db. db_steps db (snd (f db))"
  shows "writes (db_stmt f)"
  unfolding writes_def
proof
  fix db
  have "db_step db (db\<lparr>db_faults := rest_faults (db_faults db)\<rparr>)" by (rule elsewhere) (simp_all add: funded_def)
  with assms [of "db\<lparr>db_faults := rest_faults (db_faults db)\<rparr>"]
  show "db_steps db (snd (db_stmt f db))"
    by (auto simp: db_stmt_def Let_def intro: converse_rtranclp_into_rtranclp)
qed

lemma writes_guard [writes_intros]: "writes f \<Longrightarrow> writes (\<lambda>db. if b then (r, db) else f db)"
  by (simp add: writes_def)

lemma writes_elsewhere:
  assumes "\<And>db. db_trades (snd (f db)) = db_trades db \<and> db_execs (snd (f db)) = db_execs db \<and>
    db_next_exec (snd (f db)) = db_next_exec db \<and> db_portfolios (snd (f db)) = db_portfolios db \<and>
    db_audit (snd (f db)) = db_audit db"
    "\<And>db iid. funded iid db \<Longrightarrow> funded iid (snd (f db))"
  shows "writes (db_stmt f)"
  by (rule writes_stmt) (use assms in \<open>auto intro!: r_into_rtranclp elsewhere\<close>)

subsection \<open>Repositories\<close>

lemma writes_trades [writes_intros]:
  "writes (insert_trade_record tr)" "writes (update_trade_status cid status)"
  "writes (mark_partial_if_pending cid)" "writes (sweep_orphan_pending now)"
proof -
  show "writes (insert_trade_record tr)"
    unfolding insert_trade_record_def
    by (intro writes_guard writes_stmt) (auto intro!: r_into_rtranclp trade_new)
  show "writes (update_trade_status cid status)" "writes (mark_partial_if_pending cid)"
    unfolding update_trade_status_def mark_partial_if_pending_def
    by (intro writes_guard writes_stmt; auto intro!: r_into_rtranclp trade_status)+
  show "writes (sweep_orphan_pending now)"
    unfolding sweep_orphan_pending_def
    by (intro writes_stmt) (auto intro!: r_into_rtranclp trade_status simp: Let_def)
qed

lemma writes_create_execution: "writes (create_execution e)"
  unfolding create_execution_def
  by (intro writes_stmt)
    (auto simp: Let_def find_None_iff split: option.splits intro!: r_into_rtranclp exec_new exec_refused)

lemma writes_cong: "writes f \<Longrightarrow> (\<And>db. snd (g db) = snd (f db)) \<Longrightarrow> writes g"
  by (simp add: writes_def)

lemma writes_executions [writes_intros]: "writes (insert_spot_execution e)"
  unfolding insert_spot_execution_def
  by (intro writes_guard writes_cong [OF writes_create_execution [of e]])
    (auto split: prod.splits sum.splits)

lemma writes_reads [writes_intros]:
  "writes (execution_exists_by_trade cid tid)" "writes (execution_exists cid ms)"
  "writes (new_executions_for_instance iid since)" "writes (max_execution_id_for_instance iid)"
  "writes (list_executions_for_orders cids)" "writes (get_instance iid)" "writes list_live"
  "writes (list_by_account acct)" "writes (portfolio_latest iid)" "writes (runtime_get iid)"
  "writes (latest_kill_or_resume acct)"
  unfolding execution_exists_by_trade_def execution_exists_def new_executions_for_instance_def
    max_execution_id_for_instance_def list_executions_for_orders_def get_instance_def list_live_def
    list_by_account_def portfolio_latest_def runtime_get_def latest_kill_or_resume_def
  by (intro writes_guard writes_elsewhere; auto split: option.splits)+

lemma writes_update_instances:
  assumes "\<And>i. si_instance_id (f i) = si_instance_id i"
    "\<And>i. si_funded_at_ms i \<noteq> None \<Longrightarrow> si_funded_at_ms (f i) \<noteq> None"
  shows "writes (update_instances p f)"
  unfolding update_instances_def
  by (rule writes_elsewhere) (use assms in \<open>auto simp: funded_def update_where_def\<close>)

lemma writes_mark_funded [writes_intros]: "writes (mark_funded iid ms)"
  unfolding mark_funded_def
  by (intro writes_cong [OF writes_update_instances [of "si_funded_at_ms_update (\<lambda>_. Some ms)"
      "\<lambda>i. si_instance_id i = iid \<and> si_funded_at_ms i = None"]])
    (auto split: prod.splits sum.splits)

lemma writes_inserts [writes_intros]:
  "writes (portfolio_append p)" "writes (runtime_upsert iid now blob)"
  "writes (insert_discrepancy d)" "writes (insert_agent_error a)" "writes (audit_insert r)"
  "writes (set_last_tick_wall_time iid now)"
proof -
  show "writes (portfolio_append p)"
    unfolding portfolio_append_def by (intro writes_stmt) (auto intro!: r_into_rtranclp portfolio_new)
  show "writes (audit_insert r)"
    unfolding audit_insert_def by (intro writes_stmt) (auto intro!: r_into_rtranclp audit_new)
qed (unfold runtime_upsert_def insert_discrepancy_def insert_agent_error_def set_last_tick_wall_time_def,
   (intro writes_guard writes_elsewhere writes_update_instances; simp add: funded_def)+)

subsection \<open>Handlers\<close>

lemma writes_insert_fill [writes_intros]: "writes (insert_fill_if_new cid xid f)"
  unfolding insert_fill_if_new_def fill_stored_def
  by (auto intro!: writes_intros split: sum.splits)

lemma writes_update_caught [writes_intros]:
  "writes (\<lambda>db. case update_trade_status cid status db of
     (Inl e, db) \<Rightarrow> (if e = ErrRecordNotFound then Inr () else Inl e, db) | (Inr u, db) \<Rightarrow> (Inr u, db))"
  by (rule writes_cong [OF writes_trades(2) [of cid status]]) (auto split: prod.splits sum.splits)

lemma writes_fills [writes_intros]: "writes (insert_fills cid xid fs)" "writes (recover_fills fs)"
  by (induction fs) (auto intro!: writes_intros)

lemma writes_order_handlers [writes_intros]: "writes (handle_ack a)" "writes (handle_order_update u)"
  unfolding handle_ack_def handle_order_update_def
  by (auto intro!: writes_intros split: option.splits)

lemma writes_fund [writes_intros]: "writes (fund_instance inst actual now)"
  unfolding fund_instance_def by (auto intro!: writes_intros)

lemma writes_expected [writes_intros]: "writes (expected_holdings actual now insts m b)"
  by (induction insts arbitrary: m b) (auto intro!: writes_intros simp: Let_def split: option.splits)

lemma writes_discrepancies [writes_intros]: "writes (insert_discrepancies acct iid rep now ds)"
  by (induction ds) (auto intro!: writes_intros)

lemma writes_agent_errors [writes_intros]: "writes (insert_agent_errors acct iid rep es)"
  by (induction es) (auto intro!: writes_intros)

lemma writes_reconcile [writes_intros]: "writes (reconcile_db acct iid insts dr now)"
  unfolding reconcile_db_def by (auto intro!: writes_intros split: sum.splits)

lemma writes_kill_audit [writes_intros]:
  "writes (record_kill_switch_audit action actor acct ks extra now)"
proof -
  have "record_kill_switch_audit action actor acct ks extra now = audit_insert \<lparr>al_created_at = now,
      al_actor = actor, al_action = action, al_subject = account_subject acct,
      al_data = JObj ([(''reason'', JStr (ks_reason ks)), (''scope'', JStr (ks_scope ks)),
         (''operator_user_id'', JStr (ks_operator_user_id ks))] @ extra)\<rparr>"
    by (rule ext) (simp add: record_kill_switch_audit_def)
  then show ?thesis by (simp add: writes_intros)
qed

lemma writes_guard' [writes_intros]: "writes f \<Longrightarrow> writes (\<lambda>db. if b then f db else (r, db))"
  by (simp add: writes_def)

lemma writes_record_orders [writes_intros]: "writes (record_orders iid symbol close cap ois)"
proof (induction ois)
  case (Cons oi ois)
  then show ?case
    by (auto intro!: writes_intros writes_catch split: sum.splits)
qed (auto intro: writes_intros)

subsection \<open>The server\<close>

definition server_writes :: "'t server \<Rightarrow> 't server \<Rightarrow> bool" where
  "server_writes sv sv' \<longleftrightarrow> db_steps (sv_db sv) (sv_db sv')"

lemma server_writes_refl [simp, intro]: "server_writes sv sv"
  by (simp add: server_writes_def)

lemma server_writes_trans [trans]: "server_writes a b \<Longrightarrow> server_writes b c \<Longrightarrow> server_writes a c"
  unfolding server_writes_def by (rule rtranclp_trans)

lemma server_writes_same: "sv_db sv' = sv_db sv \<Longrightarrow> server_writes sv sv'"
  by (simp add: server_writes_def)

lemma server_writes_with_db: "writes f \<Longrightarrow> with_db f sv = (r, sv') \<Longrightarrow> server_writes sv sv'"
  by (auto simp: server_writes_def with_db_def writes_def split: prod.splits) (metis snd_conv)

lemma push_db [simp]: "sv_db (push_kill_switch env acct ks sv) = sv_db sv"
  by (simp add: push_kill_switch_def)

lemma maybe_auto_freeze_writes: "server_writes sv (maybe_auto_freeze env c acct drifts managed now sv)"
proof -
  let ?max = "max_flagged_drift_bps drifts managed"
  let ?nxt = "next_drift_streak ?max (streak_of acct sv) (eff_freeze_tolerance_bps c)"
  let ?sv = "sv\<lparr>sv_streak := (sv_streak sv)(acct \<mapsto> ?nxt)\<rparr>"
  obtain r sv1 where w: "with_db (record_kill_audit ''system'' acct auto_kill (auto_audit_extra ?max) now) ?sv = (r, sv1)"
    by (cases "with_db (record_kill_audit ''system'' acct auto_kill (auto_audit_extra ?max) now) ?sv")
  then have "server_writes ?sv sv1"
    by (auto intro: server_writes_with_db writes_kill_audit simp: record_kill_audit_def)
  then show ?thesis using w
    by (auto simp: maybe_auto_freeze_def Let_def server_writes_def split: sum.splits)
qed

lemma delta_report_writes:
  assumes "handle_delta_report env c acct dr now now' sv = (r, sv')"
  shows "server_writes sv sv'"
proof -
  obtain r1 sv1 where l: "with_db (list_by_account acct) sv = (r1, sv1)"
    by (cases "with_db (list_by_account acct) sv")
  then have w1: "server_writes sv sv1" by (rule server_writes_with_db [rotated]) (rule writes_intros)
  show ?thesis
  proof (cases r1)
    case (Inl e)
    with assms l w1 show ?thesis by (auto simp: handle_delta_report_def)
  next
    case (Inr insts)
    let ?iid = "case insts of [inst] \<Rightarrow> si_instance_id inst | _ \<Rightarrow> []"
    obtain r2 sv2 where f: "with_db (recover_fills (ds_fills (dr_since_last_report dr))) sv1 = (r2, sv2)"
      by (cases "with_db (recover_fills (ds_fills (dr_since_last_report dr))) sv1")
    then have w2: "server_writes sv1 sv2" by (rule server_writes_with_db [rotated]) (rule writes_intros)
    obtain r3 sv3 where c: "with_db (reconcile_db acct ?iid insts dr now) sv2 = (r3, sv3)"
      by (cases "with_db (reconcile_db acct ?iid insts dr now) sv2")
    then have w3: "server_writes sv2 sv3" by (rule server_writes_with_db [rotated]) (rule writes_intros)
    obtain r4 sv4 where rc: "reconcile env c acct ?iid insts dr now now' sv2 = (r4, sv4)"
      by (cases "reconcile env c acct ?iid insts dr now now' sv2")
    then have "server_writes sv3 sv4" using c
      by (auto simp: reconcile_def maybe_auto_freeze_writes split: sum.splits option.splits)
    with w1 w2 w3 have w4: "server_writes sv sv4" and "server_writes sv sv2"
      by (blast intro: server_writes_trans)+
    have "with_db (insert_agent_errors acct ?iid (dr_reported_at_ms dr) (ds_errors (dr_since_last_report dr))) sv4
        = (r', sv5) \<Longrightarrow> server_writes sv sv5" for r' sv5
      using server_writes_trans [OF w4 server_writes_with_db [OF writes_agent_errors]] .
    with assms l Inr f rc w4 \<open>server_writes sv sv2\<close> show ?thesis
      by (auto simp: handle_delta_report_def Let_def split: sum.splits)
  qed
qed

lemma state_sync_writes:
  "handle_state_sync env c acct payload now now' sv = (r, sv') \<Longrightarrow> server_writes sv sv'"
  by (auto simp: handle_state_sync_def intro: delta_report_writes split: option.splits)

lemma hook_writes: "agent_msg_hook env c acct e now now' sv = (r, sv') \<Longrightarrow> server_writes sv sv'"
  by (auto simp: agent_msg_hook_def intro: delta_report_writes server_writes_with_db writes_order_handlers
      split: sum.splits if_splits)

lemma kill_writes: "kill_instance env iid user now sv = (r, sv') \<Longrightarrow> server_writes sv sv'"
proof -
  assume k: "kill_instance env iid user now sv = (r, sv')"
  obtain r1 sv1 where g: "with_db (get_instance iid) sv = (r1, sv1)" by (cases "with_db (get_instance iid) sv")
  then have w: "server_writes sv sv1" by (rule server_writes_with_db [rotated]) (rule writes_intros)
  have a: "with_db (record_kill_audit (user_actor user) acct ks extra now) sv1 = (r2, sv2) \<Longrightarrow>
      server_writes sv sv2" for acct ks extra r2 sv2
    by (rule server_writes_trans [OF w])
      (auto intro: server_writes_with_db writes_kill_audit simp: record_kill_audit_def)
  show ?thesis using k g w
    by (auto simp: kill_instance_def Let_def split: sum.splits prod.splits dest!: a)
      (auto simp: server_writes_def)
qed

lemma resume_writes: "resume_instance env iid user now sv = (r, sv') \<Longrightarrow> server_writes sv sv'"
proof -
  assume k: "resume_instance env iid user now sv = (r, sv')"
  obtain r1 sv1 where g: "with_db (get_instance iid) sv = (r1, sv1)" by (cases "with_db (get_instance iid) sv")
  then have w: "server_writes sv sv1" by (rule server_writes_with_db [rotated]) (rule writes_intros)
  have a: "with_db (record_resume_audit (user_actor user) acct ks extra now) sv1 = (r2, sv2) \<Longrightarrow>
      server_writes sv sv2" for acct ks extra r2 sv2
    by (rule server_writes_trans [OF w])
      (auto intro: server_writes_with_db writes_kill_audit simp: record_resume_audit_def)
  show ?thesis using k g w
    by (auto simp: resume_instance_def clear_drift_streak_def Let_def split: sum.splits prod.splits dest!: a)
      (auto simp: server_writes_def)
qed

lemma writes_tick_bind:
  assumes "writes f" "\<And>x. writes (k x)"
  shows "writes (\<lambda>db. tick_bind (tick_db (f db)) k)"
  unfolding writes_def
proof
  fix db
  obtain r db1 where f: "f db = (r, db1)" by (cases "f db")
  from assms(1) f have "db_steps db db1" by (rule writesD)
  moreover have "db_steps db1 (snd (k x db1))" for x using assms(2) by (simp add: writes_def)
  ultimately show "db_steps db (snd (tick_bind (tick_db (f db)) k))"
    by (auto simp: tick_bind_def tick_db_def f split: sum.splits intro: rtranclp_trans)
qed

lemma writes_pair: "writes (\<lambda>db. (r, db))"
  by (simp add: writes_def)

lemma writes_load_trailing [writes_intros]: "writes (load_trailing klines pair count now)"
proof -
  have "writes (load_klines klines pair i a b)" for i a b
    unfolding load_klines_def by (intro writes_guard writes_elsewhere) simp_all
  then show ?thesis unfolding load_trailing_def by (auto intro!: writes_intros)
qed

lemma writes_case_sum:
  "(\<And>e. writes (f e)) \<Longrightarrow> (\<And>x. writes (g x)) \<Longrightarrow>
     writes (\<lambda>db. case s of Inl e \<Rightarrow> f e db | Inr x \<Rightarrow> g x db)"
  by (cases s) auto

lemma writes_case_option:
  "writes f \<Longrightarrow> (\<And>x. writes (g x)) \<Longrightarrow> writes (\<lambda>db. case m of None \<Rightarrow> f db | Some x \<Rightarrow> g x db)"
  by (cases m) auto

lemma writes_tick_market: "writes (tick_market klines staleness inst now ps rs strat gene)"
  unfolding tick_market_def
  by (rule writes_tick_bind [OF writes_load_trailing], rule writes_guard,
      rule writes_tick_bind [OF writes_reads(3)], rule writes_pair)

lemma tick_read_writes: "writes (tick_read resolve klines staleness inst now)"
  unfolding tick_read_def
  by (rule writes_tick_bind [OF writes_reads(9)], rule writes_tick_bind [OF writes_reads(10)],
      rule writes_case_sum) (auto simp: writes_pair writes_tick_market split: prod.splits)

lemma recording_dispatch_writes:
  "recording_dispatch env iid acct symbol close ois sv = (r, sv') \<Longrightarrow> server_writes sv sv'"
  using server_writes_with_db [OF writes_record_orders, of iid symbol close "hv_price_cap env" ois sv]
  by (auto simp: recording_dispatch_def server_writes_def split: sum.splits prod.splits)

lemma tick_write_writes:
  assumes "tick_write env inst cx sv = (r, sv')"
  shows "server_writes sv sv'"
proof (cases "tx_step cx (tx_input cx)")
  case (Inl e)
  with assms show ?thesis by (simp add: tick_write_def)
next
  case (Inr out)
  obtain r1 sv1 where a: "with_db (portfolio_append (next_portfolio_row inst cx out)) sv = (r1, sv1)"
    by (cases "with_db (portfolio_append (next_portfolio_row inst cx out)) sv")
  then have w1: "server_writes sv sv1" by (rule server_writes_with_db [rotated]) (rule writes_intros)
  let ?u = "runtime_upsert (si_instance_id inst) (sn_now_ms (tx_input cx)) (so_runtime_state out)"
  obtain r2 sv2 where u: "with_db ?u sv1 = (r2, sv2)" by (cases "with_db ?u sv1")
  then have "server_writes sv1 sv2" by (rule server_writes_with_db [rotated]) (rule writes_intros)
  with w1 have w2: "server_writes sv sv2" by (rule server_writes_trans)
  show ?thesis using assms Inr a u w1 w2
    by (auto simp: tick_write_def Let_def split: sum.splits if_splits
        dest!: recording_dispatch_writes intro: server_writes_trans)
qed

lemma stamp_tick_writes: "server_writes sv (stamp_tick inst wall sv)"
  unfolding stamp_tick_def
  by (cases "with_db (set_last_tick_wall_time (si_instance_id inst) wall) sv")
    (auto intro!: server_writes_with_db writes_inserts)

section \<open>The server's runs\<close>

text \<open>
  Everything the server does with its tables, one operation at a time; a tick's reads and its writes
  are separate steps, whatever context the reads left, and the hub may change in between.
\<close>

inductive saas_step ::
  "'t hub_env \<Rightarrow> freeze_conf \<Rightarrow> (string \<Rightarrow> string + ('g, 'p) strategy_impl) \<Rightarrow> 't server \<Rightarrow> 't server \<Rightarrow> bool"
  for env c and resolve :: "string \<Rightarrow> string + ('g, 'p) strategy_impl" where
  s_hook: "agent_msg_hook env c acct e now now' sv = (r, sv') \<Longrightarrow> saas_step env c resolve sv sv'"
| s_sync: "handle_state_sync env c acct p now now' sv = (r, sv') \<Longrightarrow> saas_step env c resolve sv sv'"
| s_kill: "kill_instance env iid user now sv = (k, sv') \<Longrightarrow> saas_step env c resolve sv sv'"
| s_resume: "resume_instance env iid user now sv = (k, sv') \<Longrightarrow> saas_step env c resolve sv sv'"
| s_read: "saas_step env c resolve sv (sv\<lparr>sv_db := snd (tick_read resolve klines staleness inst now (sv_db sv))\<rparr>)"
| s_write: "tick_write env inst (cx :: ('g, 'p) tick_ctx) sv = (t, sv') \<Longrightarrow> saas_step env c resolve sv sv'"
| s_stamp: "saas_step env c resolve sv (stamp_tick inst wall sv)"
| s_sweep: "with_db (sweep_orphan_pending now) sv = (n, sv') \<Longrightarrow> saas_step env c resolve sv sv'"
| s_reject: "with_db (handshake_reject_hook acct code msg now) sv = (r, sv') \<Longrightarrow> saas_step env c resolve sv sv'"
| s_hub: "saas_step env c resolve sv (sv\<lparr>sv_hub := h\<rparr>)"

lemma writes_reject: "writes (handshake_reject_hook acct code msg now)"
  unfolding writes_def
proof
  fix db
  obtain r db1 where l: "list_by_account acct db = (r, db1)" by (cases "list_by_account acct db")
  then have "db_steps db db1" using writes_reads(8) by (metis writesD)
  moreover have "db_steps db1 (snd (insert_agent_error a db1))" for a
    using writes_inserts(4) by (simp add: writes_def)
  ultimately show "db_steps db (snd (handshake_reject_hook acct code msg now db))"
    by (simp add: handshake_reject_hook_def l Let_def) (meson rtranclp_trans)
qed

lemma saas_step_writes: "saas_step env c resolve sv sv' \<Longrightarrow> server_writes sv sv'"
proof (induction rule: saas_step.induct)
  case (s_read sv klines staleness inst now)
  then show ?case using tick_read_writes [of resolve klines staleness inst now]
    by (simp add: server_writes_def writes_def)
qed (auto intro: hook_writes state_sync_writes kill_writes resume_writes tick_write_writes
  stamp_tick_writes server_writes_with_db writes_trades writes_reject server_writes_same)

lemma saas_run_writes: "(saas_step env c resolve)\<^sup>*\<^sup>* sv sv' \<Longrightarrow> db_steps (sv_db sv) (sv_db sv')"
  by (induction rule: rtranclp_induct)
    (auto dest!: saas_step_writes simp: server_writes_def intro: rtranclp_trans)

section \<open>Terminal trades\<close>

lemma update_where_keeps: "t \<in> set rows \<Longrightarrow> \<not> p t \<Longrightarrow> t \<in> set (update_where p f rows)"
  by (force simp: update_where_def)

lemma terminal_kept:
  assumes "db_steps db db'" "t \<in> set (db_trades db)" "terminal_trade (td_status t)"
  shows "t \<in> set (db_trades db')"
  using assms
proof (induction rule: rtranclp_induct)
  case (step db1 db2)
  from step.hyps(2) step.IH step.prems show ?case
    by cases (auto intro: update_where_keeps)
qed

text \<open>
  C11: An order's outcome is final: once a trade record is filled, cancelled or rejected, no message,
  replay, kill, sweep, tick or failed statement changes it, in any interleaving.
\<close>

theorem terminal_trade_is_final:
  assumes "(saas_step env c resolve)\<^sup>*\<^sup>* sv sv'"
    and "t \<in> set (db_trades (sv_db sv))" "terminal_trade (td_status t)"
  shows "t \<in> set (db_trades (sv_db sv'))"
  by (rule terminal_kept [OF saas_run_writes [OF assms(1)] assms(2,3)])

definition sample_trade :: "trade_status \<Rightarrow> trade_record" where
  "sample_trade s = \<lparr>td_client_order_id = ''o1'', td_instance_id = ''i1'', td_symbol = ''BTCUSDT'',
     td_side = ''buy'', td_order_type = ''limit'', td_quantity_usd = Fin 100,
     td_limit_price = Some (Fin 50250), td_valid_until_ms = 9, td_status = s\<rparr>"

definition trade_server :: "trade_status \<Rightarrow> token_db server" where
  "trade_server s = \<lparr>sv_db = (empty_saas_db [])\<lparr>db_trades := [sample_trade s]\<rparr>, sv_hub = ready_hub,
     sv_streak = Map.empty\<rparr>"

definition sample_freeze :: freeze_conf where
  "sample_freeze = \<lparr>fz_tolerance_bps = Fin 200, fz_debounce = 2, fz_killer = True\<rparr>"

theorem terminal_trade_is_final_witness:
  "\<exists>sv'. with_db (sweep_orphan_pending 99) (trade_server TsFilled) = (Inr 0, sv') \<and>
     sample_trade TsFilled \<in> set (db_trades (sv_db sv'))"
proof -
  obtain sv' where s: "with_db (sweep_orphan_pending 99) (trade_server TsFilled) = (Inr 0, sv')"
    by (simp add: with_db_def sweep_orphan_pending_def db_stmt_def trade_server_def empty_saas_db_def
        sample_trade_def Let_def)
  have "(saas_step sample_hub_env sample_freeze (\<lambda>_. Inl [] :: string + (unit, unit) strategy_impl))\<^sup>*\<^sup>*
      (trade_server TsFilled) sv'"
    using s by (blast intro: s_sweep)
  from terminal_trade_is_final [OF this, of "sample_trade TsFilled"] s show ?thesis
    by (auto simp: trade_server_def sample_trade_def)
qed

section \<open>One row per fill\<close>

definition exec_inv :: "saas_db \<Rightarrow> bool" where
  "exec_inv db \<longleftrightarrow>
     sorted_wrt (\<lambda>e e'. exec_conflict e e' = None) (db_execs db) \<and>
     sorted_wrt (<) (map se_id (db_execs db)) \<and>
     (\<forall>e\<in>set (db_execs db). 0 < se_id e \<and> se_id e < db_next_exec db) \<and> 0 < db_next_exec db"

lemma exec_conflict_commute: "exec_conflict e e' = None \<longleftrightarrow> exec_conflict e' e = None"
  by (auto simp: exec_conflict_def)

lemma exec_conflict_id [simp]: "exec_conflict e (e'\<lparr>se_id := n\<rparr>) = exec_conflict e e'"
  "exec_conflict (e\<lparr>se_id := n\<rparr>) e' = exec_conflict e e'"
  by (simp_all add: exec_conflict_def)

lemma exec_inv_step: "db_step db db' \<Longrightarrow> exec_inv db \<Longrightarrow> exec_inv db'"
  by (induction rule: db_step.induct)
    (auto simp: exec_inv_def sorted_wrt_append exec_conflict_commute less_Suc_eq)

lemma exec_inv_steps: "db_steps db db' \<Longrightarrow> exec_inv db \<Longrightarrow> exec_inv db'"
  by (induction rule: rtranclp_induct) (auto intro: exec_inv_step)

lemma execs_kept: "db_steps db db' \<Longrightarrow> \<exists>new. db_execs db' = db_execs db @ new"
proof (induction rule: rtranclp_induct)
  case (step db1 db2)
  from step.hyps(2) step.IH show ?case by cases auto
qed simp

definition fill_row :: "string \<Rightarrow> fill \<Rightarrow> spot_execution \<Rightarrow> bool" where
  \<comment> \<open>the row stands for the fill: by the exchange's trade id, or by the time when there is none\<close>
  "fill_row cid f e \<longleftrightarrow> se_client_order_id e = cid \<and>
     (if fl_trade_id f \<noteq> 0 then se_trade_id e = fl_trade_id f
      else se_filled_at_exchange_ms e = fl_filled_at_exchange_ms f)"

definition has_fill :: "string \<Rightarrow> fill \<Rightarrow> saas_db \<Rightarrow> bool" where
  "has_fill cid f db \<longleftrightarrow> (\<exists>e\<in>set (db_execs db). fill_row cid f e)"

lemma has_fill_kept: "db_steps db db' \<Longrightarrow> has_fill cid f db \<Longrightarrow> has_fill cid f db'"
  using execs_kept by (fastforce simp: has_fill_def)

lemma db_bind_Inr:
  assumes "db_bind f k db = (Inr y, db')"
  obtains x db1 where "f db = (Inr x, db1)" "k x db1 = (Inr y, db')"
  using assms by (auto simp: db_bind_def split: prod.splits sum.splits)

lemma fill_stored_result:
  assumes "fill_stored cid f db = (Inr b, db')"
  shows "b \<longleftrightarrow> has_fill cid f db'"
  using assms
  by (auto simp: fill_stored_def execution_exists_by_trade_def execution_exists_def db_stmt_def
      has_fill_def fill_row_def Let_def split: if_splits)

lemma create_execution_result:
  assumes "create_execution e db = (r, db')" "\<not> next_fault (db_faults db)"
  shows "\<exists>e'\<in>set (db_execs db'). se_client_order_id e' = se_client_order_id e \<and>
    se_trade_id e' = se_trade_id e \<and>
    (se_trade_id e = 0 \<longrightarrow> se_filled_at_exchange_ms e' = se_filled_at_exchange_ms e)"
proof (cases "find (\<lambda>e'. exec_conflict e e' \<noteq> None) (db_execs db)")
  case None
  with assms show ?thesis by (auto simp: create_execution_def db_stmt_def Let_def)
next
  case (Some e')
  then have e': "e' \<in> set (db_execs db)" "exec_conflict e e' \<noteq> None" by (auto simp: find_Some_iff)
  moreover have "db_execs db' = db_execs db"
    using assms Some by (auto simp: create_execution_def db_stmt_def Let_def)
  ultimately show ?thesis by (auto simp: exec_conflict_def split: if_splits intro!: bexI [of _ e'])
qed

lemma insert_spot_execution_result:
  assumes "insert_spot_execution e db = (Inr u, db')"
  shows "\<exists>e'\<in>set (db_execs db'). se_client_order_id e' = se_client_order_id e \<and>
    se_trade_id e' = se_trade_id e \<and>
    (se_trade_id e = 0 \<longrightarrow> se_filled_at_exchange_ms e' = se_filled_at_exchange_ms e)"
proof -
  obtain r db1 where c: "create_execution e db = (r, db1)" by (cases "create_execution e db")
  with assms have same: "db1 = db'" "r \<noteq> Inl ErrDb"
    by (auto simp: insert_spot_execution_def is_fill_duplicate_def split: sum.splits if_splits)
  then have "\<not> next_fault (db_faults db)" using c by (auto simp: create_execution_def db_stmt_def Let_def)
  with create_execution_result [OF c] same show ?thesis by simp
qed

lemma build_spot_execution_key:
  assumes "build_spot_execution_from cid xid f = Inr e"
  shows "se_client_order_id e = cid" "se_trade_id e = fl_trade_id f"
    "se_filled_at_exchange_ms e = fl_filled_at_exchange_ms f"
  using assms by (auto simp: build_spot_execution_from_def split: option.splits)

lemma insert_fill_has:
  assumes "insert_fill_if_new cid xid f db = (Inr b, db')"
  shows "has_fill cid f db'"
proof -
  from assms obtain ex db1 where s: "fill_stored cid f db = (Inr ex, db1)"
    and k: "(if ex then db_return False
       else case build_spot_execution_from cid xid f of Inl e \<Rightarrow> db_fail e
       | Inr ex \<Rightarrow> db_bind (insert_spot_execution ex) (\<lambda>_. db_return True)) db1 = (Inr b, db')"
    unfolding insert_fill_if_new_def by (rule db_bind_Inr)
  show ?thesis
  proof (cases ex)
    case True
    with k fill_stored_result [OF s] show ?thesis by (simp add: db_return_def)
  next
    case False
    with k obtain e where e: "build_spot_execution_from cid xid f = Inr e"
      and "db_bind (insert_spot_execution e) (\<lambda>_. db_return True) db1 = (Inr b, db')"
      by (auto simp: db_fail_def split: sum.splits)
    from this(2) obtain u where "insert_spot_execution e db1 = (Inr u, db')"
      by (rule db_bind_Inr) (simp add: db_return_def)
    from insert_spot_execution_result [OF this] build_spot_execution_key [OF e] show ?thesis
      by (auto simp: has_fill_def fill_row_def)
  qed
qed

lemma insert_fills_has:
  "insert_fills cid xid fs db = (Inr u, db') \<Longrightarrow> f \<in> set fs \<Longrightarrow> has_fill cid f db'"
proof (induction fs arbitrary: db)
  case (Cons g fs)
  from Cons.prems(1) obtain b db1 where i: "insert_fill_if_new cid xid g db = (Inr b, db1)"
    and r: "insert_fills cid xid fs db1 = (Inr u, db')"
    by (auto elim: db_bind_Inr)
  from writesD [OF writes_fills(1) r] have "db_steps db1 db'" .
  with Cons.IH [OF r] Cons.prems(2) insert_fill_has [OF i] has_fill_kept show ?case by auto
qed simp

lemma recover_fills_has:
  "recover_fills fs db = (Inr u, db') \<Longrightarrow> f \<in> set fs \<Longrightarrow> fl_client_order_id f \<noteq> [] \<Longrightarrow>
     has_fill (fl_client_order_id f) f db'"
proof (induction fs arbitrary: db)
  case (Cons g fs)
  show ?case
  proof (cases "fl_client_order_id g = []")
    case True
    with Cons show ?thesis by auto
  next
    case False
    with Cons.prems(1) obtain b db1 where
      i: "insert_fill_if_new (fl_client_order_id g) (fl_exchange_order_id g) g db = (Inr b, db1)"
      and k: "(if \<not> b then recover_fills fs
        else db_bind (mark_partial_if_pending (fl_client_order_id g)) (\<lambda>_. recover_fills fs)) db1 = (Inr u, db')"
      by (auto elim: db_bind_Inr)
    then obtain db2 where r: "recover_fills fs db2 = (Inr u, db')"
      by (cases b) (auto elim: db_bind_Inr)
    have "writes (if \<not> b then recover_fills fs
        else db_bind (mark_partial_if_pending (fl_client_order_id g)) (\<lambda>_. recover_fills fs))"
      by (auto intro!: writes_intros)
    from writesD [OF this k] have "db_steps db1 db'" .
    with Cons.IH [OF r] Cons.prems(2,3) insert_fill_has [OF i] has_fill_kept show ?thesis by auto
  qed
qed simp

definition fills_of_message :: "envelope \<Rightarrow> (string \<times> fill) list" where
  \<comment> \<open>the fills a message of the agent carries, with their orders\<close>
  "fills_of_message e =
     (if env_type e = TypeOrderUpdate then
        (case decode_payload order_update_fields zero_order_update e of
           Inl _ \<Rightarrow> [] | Inr u \<Rightarrow> map (\<lambda>f. (ou_client_order_id u, f)) (ou_fills u))
      else if env_type e = TypeDeltaReport then
        (case decode_payload delta_report_fields zero_delta_report e of
           Inl _ \<Rightarrow> [] | Inr dr \<Rightarrow> map (\<lambda>f. (fl_client_order_id f, f))
             (filter (\<lambda>f. fl_client_order_id f \<noteq> []) (ds_fills (dr_since_last_report dr))))
      else [])"

lemma delta_report_has:
  assumes "handle_delta_report env c acct dr now now' sv = (Inr u, sv')"
    and "f \<in> set (ds_fills (dr_since_last_report dr))" "fl_client_order_id f \<noteq> []"
  shows "has_fill (fl_client_order_id f) f (sv_db sv')"
proof -
  from assms(1) obtain insts sv1 where l: "with_db (list_by_account acct) sv = (Inr insts, sv1)"
    by (auto simp: handle_delta_report_def split: sum.splits prod.splits)
  let ?iid = "case insts of [inst] \<Rightarrow> si_instance_id inst | _ \<Rightarrow> []"
  from assms(1) l obtain sv2 sv3 where
    f: "with_db (recover_fills (ds_fills (dr_since_last_report dr))) sv1 = (Inr (), sv2)" and
    rc: "reconcile env c acct ?iid insts dr now now' sv2 = (Inr (), sv3)" and
    es: "with_db (insert_agent_errors acct ?iid (dr_reported_at_ms dr)
      (ds_errors (dr_since_last_report dr))) sv3 = (Inr u, sv')"
    by (auto simp: handle_delta_report_def Let_def split: sum.splits prod.splits)
  have "has_fill (fl_client_order_id f) f (sv_db sv2)"
    using f assms(2,3) by (auto simp: with_db_def split: prod.splits intro: recover_fills_has)
  moreover have "server_writes sv2 sv3"
  proof -
    obtain r4 sv4 where c: "with_db (reconcile_db acct ?iid insts dr now) sv2 = (r4, sv4)"
      by (cases "with_db (reconcile_db acct ?iid insts dr now) sv2")
    then have "server_writes sv2 sv4" by (rule server_writes_with_db [rotated]) (rule writes_intros)
    moreover have "server_writes sv4 sv3" using rc c
      by (auto simp: reconcile_def maybe_auto_freeze_writes split: sum.splits option.splits)
    ultimately show ?thesis by (rule server_writes_trans)
  qed
  moreover have "server_writes sv3 sv'" by (rule server_writes_with_db [OF writes_agent_errors es])
  ultimately show ?thesis unfolding server_writes_def by (blast intro: has_fill_kept)
qed

lemma message_fills_stored:
  assumes "agent_msg_hook env c acct e now now' sv = (Inr u, sv')" "(cid, f) \<in> set (fills_of_message e)"
  shows "has_fill cid f (sv_db sv')"
  using assms
proof (cases "env_type e = TypeOrderUpdate")
  case True
  with assms obtain ou where ou: "decode_payload order_update_fields zero_order_update e = Inr ou"
    "cid = ou_client_order_id ou" "f \<in> set (ou_fills ou)"
    by (cases "decode_payload order_update_fields zero_order_update e") (auto simp: fills_of_message_def)
  with assms True have "with_db (handle_order_update ou) sv = (Inr u, sv')"
    by (simp add: agent_msg_hook_def)
  then have h: "handle_order_update ou (sv_db sv) = (Inr u, sv_db sv')"
    by (auto simp: with_db_def split: prod.splits)
  then obtain db1 where i: "insert_fills (ou_client_order_id ou) (ou_exchange_order_id ou) (ou_fills ou) (sv_db sv)
      = (Inr (), db1)" and k: "(case order_update_to_trade_status (ou_status ou) of
         None \<Rightarrow> db_fail (ErrOther ''order_update unknown status'')
       | Some status \<Rightarrow> (\<lambda>db.
           case update_trade_status (ou_client_order_id ou) status db of
             (Inl e, db) \<Rightarrow> (if e = ErrRecordNotFound then Inr () else Inl e, db)
           | (Inr u, db) \<Rightarrow> (Inr u, db))) db1 = (Inr u, sv_db sv')"
    unfolding handle_order_update_def by (auto elim: db_bind_Inr)
  have "writes (case order_update_to_trade_status (ou_status ou) of
         None \<Rightarrow> db_fail (ErrOther ''order_update unknown status'')
       | Some status \<Rightarrow> (\<lambda>db.
           case update_trade_status (ou_client_order_id ou) status db of
             (Inl e, db) \<Rightarrow> (if e = ErrRecordNotFound then Inr () else Inl e, db)
           | (Inr u, db) \<Rightarrow> (Inr u, db)))"
    by (auto intro!: writes_intros split: option.splits)
  from writesD [OF this k] insert_fills_has [OF i ou(3)] ou(2) show ?thesis
    by (auto intro: has_fill_kept)
next
  case False
  with assms(2) have ty: "env_type e = TypeDeltaReport"
    by (cases "env_type e = TypeDeltaReport") (simp_all add: fills_of_message_def)
  then obtain dr where dr: "decode_payload delta_report_fields zero_delta_report e = Inr dr"
    using assms(2) by (cases "decode_payload delta_report_fields zero_delta_report e")
      (simp_all add: fills_of_message_def)
  with assms(2) ty have "cid = fl_client_order_id f" "cid \<noteq> []"
    "f \<in> set (ds_fills (dr_since_last_report dr))"
    by (auto simp: fills_of_message_def)
  with assms(1) ty dr show ?thesis
    by (auto simp: agent_msg_hook_def intro: delta_report_has)
qed

lemma one_match:
  "sorted_wrt (\<lambda>a b. \<not> (P a \<and> P b)) xs \<Longrightarrow> \<exists>x\<in>set xs. P x \<Longrightarrow> length (filter P xs) = 1"
  by (induction xs) auto

lemma fill_row_unique:
  assumes "exec_inv db" "has_fill cid f db" "fl_trade_id f \<noteq> 0"
  shows "length (filter (fill_row cid f) (db_execs db)) = 1"
proof (rule one_match)
  have c: "exec_conflict e e' = None \<Longrightarrow> \<not> (fill_row cid f e \<and> fill_row cid f e')" for e e'
    using assms(3) by (auto simp: exec_conflict_def fill_row_def split: if_splits)
  from assms(1) have s: "sorted_wrt (\<lambda>e e'. exec_conflict e e' = None) (db_execs db)"
    by (simp add: exec_inv_def)
  show "sorted_wrt (\<lambda>a b. \<not> (fill_row cid f a \<and> fill_row cid f b)) (db_execs db)"
    by (rule sorted_wrt_mono_rel [OF _ s]) (rule c)
qed (use assms(2) in \<open>simp add: has_fill_def\<close>)

text \<open>
  C2: One row per fill: once a message carrying a fill has been handled without an error, the
  executions hold a row for that fill, and they still hold exactly one however often the fill comes
  again, on either channel, with whatever failures (for a fill with the exchange's trade id; a fill
  without one is stored under its order and time).
\<close>

theorem fill_stored_exactly_once:
  assumes "exec_inv (sv_db sv)" "agent_msg_hook env c acct e now now' sv = (Inr u, sv1)"
    and "(cid, f) \<in> set (fills_of_message e)" "(saas_step env c resolve)\<^sup>*\<^sup>* sv1 sv2"
  shows "has_fill cid f (sv_db sv2) \<and>
    (fl_trade_id f \<noteq> 0 \<longrightarrow> length (filter (fill_row cid f) (db_execs (sv_db sv2))) = 1)"
proof -
  have h: "has_fill cid f (sv_db sv2)"
    by (rule has_fill_kept [OF saas_run_writes [OF assms(4)] message_fills_stored [OF assms(2,3)]])
  have "exec_inv (sv_db sv2)"
    using exec_inv_steps [OF saas_run_writes [OF assms(4)]] exec_inv_steps [OF _ assms(1)]
      hook_writes [OF assms(2)] by (simp add: server_writes_def)
  with h fill_row_unique show ?thesis by blast
qed

definition sample_fill :: fill where
  "sample_fill = zero_fill\<lparr>fl_fill_quantity_decimal := ''1'', fl_fill_price_decimal := ''50000'',
     fl_fill_fee_amount_decimal := ''0'', fl_filled_at_exchange_ms := 5, fl_trade_id := 7\<rparr>"

definition sample_update :: envelope where
  "sample_update = server_envelope TypeOrderUpdate (JObj [(''client_order_id'', JStr ''o1''),
     (''status'', JStr ''filled''), (''fills'', JArr [JObj [(''fill_quantity_decimal'', JStr ''1''),
       (''fill_price_decimal'', JStr ''50000''), (''fill_fee_amount_decimal'', JStr ''0''),
       (''filled_at_exchange_ms'', JInt 5), (''trade_id'', JInt 7)]])])"

lemma sample_update_decodes:
  "decode_payload order_update_fields zero_order_update sample_update =
     Inr (zero_order_update\<lparr>ou_client_order_id := ''o1'', ou_status := ''filled'', ou_fills := [sample_fill]\<rparr>)"
  by (simp add: sample_update_def server_envelope_def decode_payload_def order_update_fields_def
      zero_order_update_def sample_fill_def zero_fill_def fill_fields_def json_defs fold_key_def
      lower_char_def in64_def)

lemma parse_sample:
  "parse_float ''50000'' = Some (Fin 50000)" "parse_float ''1'' = Some (Fin 1)"
  "parse_float ''0'' = Some (Fin 0)" "parse_float ''100'' = Some (Fin 100)"
  by (simp_all add: parse_float_def lower_ascii_def decimal_literal_def is_digit_def digits_val_def
      digit_val_def f_round_def rnd_representable representable_int [of 50000, simplified]
      representable_int [of 100, simplified] Let_def)

lemma sample_update_type: "env_type sample_update = TypeOrderUpdate"
  by (simp add: sample_update_def server_envelope_def)

lemma sample_update_handled:
  "\<exists>sv'. agent_msg_hook env c ''acc'' sample_update 3 4 (trade_server TsPending) = (Inr (), sv')"
proof -
  have "\<exists>sv'. with_db (handle_order_update (zero_order_update\<lparr>ou_client_order_id := ''o1'',
      ou_status := ''filled'', ou_fills := [sample_fill]\<rparr>)) (trade_server TsPending) = (Inr (), sv')"
    by (simp add: with_db_def handle_order_update_def db_bind_def insert_fill_if_new_def fill_stored_def
        execution_exists_by_trade_def db_stmt_def trade_server_def empty_saas_db_def sample_fill_def
        zero_fill_def zero_order_update_def build_spot_execution_from_def parse_sample
        insert_spot_execution_def create_execution_def db_return_def order_update_to_trade_status_def
        update_trade_status_def Let_def)
  then show ?thesis by (simp add: agent_msg_hook_def sample_update_decodes sample_update_type)
qed

theorem fill_stored_exactly_once_witness:
  "\<exists>sv1. agent_msg_hook sample_hub_env sample_freeze ''acc'' sample_update 3 4 (trade_server TsPending)
      = (Inr (), sv1) \<and> length (filter (fill_row ''o1'' sample_fill) (db_execs (sv_db sv1))) = 1"
proof -
  obtain sv1 where h: "agent_msg_hook sample_hub_env sample_freeze ''acc'' sample_update 3 4
      (trade_server TsPending) = (Inr (), sv1)" using sample_update_handled by blast
  have "exec_inv (sv_db (trade_server TsPending))"
    by (simp add: exec_inv_def trade_server_def empty_saas_db_def)
  moreover have "(''o1'', sample_fill) \<in> set (fills_of_message sample_update)"
    by (simp add: fills_of_message_def sample_update_decodes sample_update_type)
  ultimately have "has_fill ''o1'' sample_fill (sv_db sv1) \<and> (fl_trade_id sample_fill \<noteq> 0 \<longrightarrow>
      length (filter (fill_row ''o1'' sample_fill) (db_execs (sv_db sv1))) = 1)"
    using fill_stored_exactly_once [OF _ h _ rtranclp.rtrancl_refl [of
        "saas_step sample_hub_env sample_freeze (\<lambda>_. Inl [] :: string + (unit, unit) strategy_impl)"]]
    by blast
  with h show ?thesis by (auto simp: sample_fill_def)
qed

end
