(* ===== verification/Ledger.thy ===== *)
theory Ledger
  imports LiveSafety
begin

text \<open>
  The ledger over many ticks: each confirmed fill of an instance is folded into its balances exactly
  once, in the order of the exec ids, whatever arrives between the ticks.
\<close>

section \<open>What a tick reads and writes\<close>

definition rows_of :: "string \<Rightarrow> saas_db \<Rightarrow> portfolio_state list" where
  "rows_of iid db = filter (\<lambda>p. ps_instance_id p = iid) (db_portfolios db)"

definition same_tables :: "saas_db \<Rightarrow> saas_db \<Rightarrow> bool" where
  "same_tables db db' \<longleftrightarrow> db' = db\<lparr>db_faults := db_faults db'\<rparr>"

lemma same_tables_simps:
  assumes "same_tables db db'"
  shows "db_trades db' = db_trades db" "db_execs db' = db_execs db" "db_portfolios db' = db_portfolios db"
    "db_next_exec db' = db_next_exec db" "rows_of iid db' = rows_of iid db"
    "instance_fills iid db' = instance_fills iid db" "db_instances db' = db_instances db"
proof -
  from assms obtain fs where "db' = db\<lparr>db_faults := fs\<rparr>" unfolding same_tables_def by blast
  then show "db_trades db' = db_trades db" "db_execs db' = db_execs db" "db_portfolios db' = db_portfolios db"
    "db_next_exec db' = db_next_exec db" "rows_of iid db' = rows_of iid db"
    "instance_fills iid db' = instance_fills iid db" "db_instances db' = db_instances db"
    by (simp_all add: rows_of_def instance_fills_def)
qed

lemma same_tables_refl [simp]: "same_tables db db"
  by (simp add: same_tables_def)

lemma same_tables_trans: "same_tables a b \<Longrightarrow> same_tables b c \<Longrightarrow> same_tables a c"
  by (cases a; cases b; cases c) (simp add: same_tables_def)

definition reads :: "(saas_db \<Rightarrow> 'r \<times> saas_db) \<Rightarrow> bool" where
  "reads f \<longleftrightarrow> (\<forall>db. same_tables db (snd (f db)))"

lemma reads_stmt: "(\<And>db. snd (f db) = db) \<Longrightarrow> reads (db_stmt f)"
  by (auto simp: reads_def same_tables_def db_stmt_def Let_def)

lemma readsD: "reads f \<Longrightarrow> f db = (r, db') \<Longrightarrow> same_tables db db'"
  by (metis snd_conv reads_def)

lemma reads_load_trailing: "reads (load_trailing klines pair count now)"
proof -
  have "same_tables db (snd (load_klines klines pair i a b db))" for i a b db
    by (auto simp: load_klines_def db_stmt_def same_tables_def Let_def)
  then show ?thesis
    by (auto simp: reads_def load_trailing_def db_bind_def db_fail_def db_return_def
        split: prod.splits sum.splits) (metis snd_conv)+
qed

lemma portfolio_latest_result:
  "portfolio_latest iid db = (Inr r, db') \<Longrightarrow> r = latest_row (rows_of iid db)"
  by (auto simp: portfolio_latest_def db_stmt_def rows_of_def Let_def split: if_splits)

lemma new_executions_result:
  "new_executions_for_instance iid since db = (Inr fs, db') \<Longrightarrow>
     fs = filter (\<lambda>f. since < if_id f) (instance_fills iid db)"
  by (auto simp: new_executions_for_instance_def db_stmt_def instance_fills_def Let_def split: if_splits)

lemma tick_bind_Inr:
  assumes "tick_bind (tick_db r) k = (Inr y, db')"
  obtains x db1 where "r = (Inr x, db1)" "k x db1 = (Inr y, db')"
  using assms by (auto simp: tick_bind_def tick_db_def split: prod.splits sum.splits)

definition watermark :: "portfolio_state option \<Rightarrow> nat" where
  "watermark ps = (case ps of None \<Rightarrow> 0 | Some r \<Rightarrow> ps_last_applied_exec_id r)"

definition pending_fills :: "strategy_instance \<Rightarrow> saas_db \<Rightarrow> instance_fill list" where
  \<comment> \<open>the fills beyond the latest row's watermark\<close>
  "pending_fills inst db =
     filter (\<lambda>f. watermark (latest_row (rows_of (si_instance_id inst) db)) < if_id f)
       (instance_fills (si_instance_id inst) db)"

lemma tick_market_ctx:
  assumes "tick_market klines staleness inst now ps rs strat gene db = (Inr cx, db')"
  obtains bars where "same_tables db db'" "bars \<noteq> []"
    "sub64 now (br_open_time (last bars)) \<le> eff_max_bar_staleness_ms staleness"
    "cx = tick_fold inst strat gene now bars ps rs
      (filter (\<lambda>f. watermark ps < if_id f) (instance_fills (si_instance_id inst) db))"
proof -
  from assms obtain bars db1 where
    b: "load_trailing klines (si_pair inst) (sg_min_eval_bars strat) now db = (Inr bars, db1)"
    and st: "\<not> snd (bar_staleness (snd (split_bars bars)) now (eff_max_bar_staleness_ms staleness))"
    and k: "tick_bind (tick_db (new_executions_for_instance (si_instance_id inst) (watermark ps) db1)) (\<lambda>fills db.
              (Inr (tick_fold inst strat gene now bars ps rs fills), db)) = (Inr cx, db')"
    unfolding tick_market_def watermark_def by (auto elim!: tick_bind_Inr split: if_splits)
  from k obtain fills where
    f: "new_executions_for_instance (si_instance_id inst) (watermark ps) db1 = (Inr fills, db')"
    and cx: "cx = tick_fold inst strat gene now bars ps rs fills"
    by (auto elim!: tick_bind_Inr)
  have t: "same_tables db db1" by (rule readsD [OF reads_load_trailing b])
  moreover have "same_tables db1 db'"
    using f by (auto simp: new_executions_for_instance_def db_stmt_def same_tables_def Let_def split: if_splits)
  ultimately have t': "same_tables db db'" by (rule same_tables_trans)
  show ?thesis
  proof (rule that [OF t'])
    show "cx = tick_fold inst strat gene now bars ps rs
      (filter (\<lambda>f. watermark ps < if_id f) (instance_fills (si_instance_id inst) db))"
      using cx new_executions_result [OF f] same_tables_simps [OF t] by simp
    show "bars \<noteq> []" "sub64 now (br_open_time (last bars)) \<le> eff_max_bar_staleness_ms staleness"
      using st by (auto simp: bar_staleness_def split_bars_def Let_def last_map split: if_splits)
  qed
qed

lemma tick_read_ctx:
  assumes "tick_read resolve klines staleness inst now db = (Inr cx, db')"
  obtains strat gene bars rs where "same_tables db db'" "bars \<noteq> []"
    "sub64 now (br_open_time (last bars)) \<le> eff_max_bar_staleness_ms staleness"
    "champion_gene resolve inst = Inr (strat, gene)"
    "cx = tick_fold inst strat gene now bars (latest_row (rows_of (si_instance_id inst) db)) rs
      (pending_fills inst db)"
proof -
  from assms obtain ps db1 rs db2 where p: "portfolio_latest (si_instance_id inst) db = (Inr ps, db1)"
    and rs: "runtime_get (si_instance_id inst) db1 = (Inr rs, db2)" and
    k: "(case champion_gene resolve inst of Inl e \<Rightarrow> (Inl e, db2)
     | Inr (strat, gene) \<Rightarrow> tick_market klines staleness inst now ps rs strat gene db2) = (Inr cx, db')"
    unfolding tick_read_def by (auto elim!: tick_bind_Inr)
  from k obtain strat gene where c: "champion_gene resolve inst = Inr (strat, gene)"
    and m: "tick_market klines staleness inst now ps rs strat gene db2 = (Inr cx, db')"
    by (auto split: sum.splits)
  have "same_tables db db1" "same_tables db1 db2"
    using p rs by (auto simp: portfolio_latest_def runtime_get_def db_stmt_def same_tables_def Let_def
        split: if_splits)
  then have t: "same_tables db db2" by (rule same_tables_trans)
  from m obtain bars where b: "same_tables db2 db'" "bars \<noteq> []"
    "sub64 now (br_open_time (last bars)) \<le> eff_max_bar_staleness_ms staleness"
    "cx = tick_fold inst strat gene now bars ps rs
      (filter (\<lambda>f. watermark ps < if_id f) (instance_fills (si_instance_id inst) db2))"
    by (rule tick_market_ctx)
  show ?thesis
    using that [OF same_tables_trans [OF t b(1)] b(2,3) c, of rs] b(4)
      portfolio_latest_result [OF p] same_tables_simps [OF t]
    by (simp add: pending_fills_def)
qed

section \<open>Fills below a watermark do not change\<close>

definition join_fills :: "string \<Rightarrow> trade_record list \<Rightarrow> spot_execution \<Rightarrow> instance_fill list" where
  "join_fills iid trades e = map (\<lambda>t. \<lparr>if_id = se_id e, if_side = td_side t,
      if_fill_quantity = se_fill_quantity e, if_fill_price = se_fill_price e,
      if_fill_fee_asset = se_fill_fee_asset e, if_fill_fee_amount = se_fill_fee_amount e\<rparr>)
    (filter (\<lambda>t. td_client_order_id t = se_client_order_id e \<and> td_instance_id t = iid) trades)"

lemma instance_fills_join:
  "instance_fills iid db = sort_key if_id (concat (map (join_fills iid (db_trades db)) (db_execs db)))"
  unfolding instance_fills_def join_fills_def ..

definition orders_known :: "nat \<Rightarrow> saas_db \<Rightarrow> bool" where
  \<comment> \<open>the executions up to an id belong to recorded orders\<close>
  "orders_known w db \<longleftrightarrow> (\<forall>e\<in>set (db_execs db). se_id e \<le> w \<longrightarrow>
     se_client_order_id e \<in> td_client_order_id ` set (db_trades db))"

lemma join_fills_ids: "f \<in> set (join_fills iid ts e) \<Longrightarrow> if_id f = se_id e"
  by (auto simp: join_fills_def)

lemma join_fills_update:
  "join_fills iid (update_where p (td_status_update g) ts) = join_fills iid ts"
proof
  show "join_fills iid (update_where p (td_status_update g) ts) e = join_fills iid ts e" for e
    by (induction ts) (auto simp: join_fills_def update_where_def)
qed

lemma update_where_cids:
  "td_client_order_id ` set (update_where p (td_status_update g) ts) = td_client_order_id ` set ts"
  by (induction ts) (auto simp: update_where_def)

lemma orders_known_step:
  assumes "db_step db db'" "orders_known w db" "w < db_next_exec db"
  shows "orders_known w db'"
  using assms
proof cases
  case (trade_status p st)
  then show ?thesis using assms(2) by (simp add: orders_known_def update_where_cids)
qed (auto simp: orders_known_def)

lemma fills_below_step:
  assumes "db_step db db'" "orders_known w db" "w < db_next_exec db"
  shows "filter (\<lambda>f. if_id f \<le> w) (instance_fills iid db') = filter (\<lambda>f. if_id f \<le> w) (instance_fills iid db)"
  using assms
proof cases
  case (exec_new e)
  then show ?thesis using assms(3)
    by (auto simp: instance_fills_join filter_sort join_fills_def)
next
  case (trade_new tr)
  have "filter (\<lambda>f. if_id f \<le> w) (join_fills iid (db_trades db @ [tr]) e) =
      filter (\<lambda>f. if_id f \<le> w) (join_fills iid (db_trades db) e)" if "e \<in> set (db_execs db)" for e
  proof (cases "se_id e \<le> w")
    case True
    with assms(2) that have "se_client_order_id e \<in> td_client_order_id ` set (db_trades db)"
      by (auto simp: orders_known_def)
    with trade_new(2) have "td_client_order_id tr \<noteq> se_client_order_id e" by auto
    then show ?thesis by (simp add: join_fills_def)
  next
    case False
    then have "filter (\<lambda>f. if_id f \<le> w) (join_fills iid ts e) = []" for ts
      by (auto simp: filter_empty_conv dest!: join_fills_ids)
    then show ?thesis by simp
  qed
  then have "map (filter (\<lambda>f. if_id f \<le> w)) (map (join_fills iid (db_trades db @ [tr])) (db_execs db)) =
      map (filter (\<lambda>f. if_id f \<le> w)) (map (join_fills iid (db_trades db)) (db_execs db))" by simp
  then show ?thesis using trade_new
    by (simp add: instance_fills_join filter_sort filter_concat del: map_map)
next
  case (trade_status p st)
  then show ?thesis by (simp add: instance_fills_join join_fills_update)
qed (simp_all add: instance_fills_join)

lemma fills_below_steps:
  assumes "db_steps db db'" "orders_known w db" "w < db_next_exec db"
  shows "filter (\<lambda>f. if_id f \<le> w) (instance_fills iid db') = filter (\<lambda>f. if_id f \<le> w) (instance_fills iid db) \<and>
    orders_known w db' \<and> w < db_next_exec db'"
  using assms
proof (induction rule: rtranclp_induct)
  case (step db1 db2)
  then have "w < db_next_exec db1" "orders_known w db1" by simp_all
  moreover have "db_next_exec db1 \<le> db_next_exec db2" using step.hyps(2) by cases auto
  ultimately show ?case
    using step fills_below_step [OF step.hyps(2)] orders_known_step [OF step.hyps(2)] by auto
qed simp

section \<open>Runs of ticks\<close>

datatype ledger_op = Folded instance_fill | Released release_intent

fun apply_op :: "string \<Rightarrow> ledger_op \<Rightarrow> portfolio \<Rightarrow> portfolio" where
  "apply_op base (Folded f) = apply_fill base f"
| "apply_op base (Released r) = apply_release r"

fun folded :: "ledger_op list \<Rightarrow> instance_fill list" where
  "folded [] = []"
| "folded (Folded f # ops) = f # folded ops"
| "folded (Released r # ops) = folded ops"

lemma folded_append [simp]: "folded (a @ b) = folded a @ folded b"
  by (induction a rule: folded.induct) auto

lemma folded_maps [simp]: "folded (map Folded fs) = fs" "folded (map Released rs) = []"
proof -
  show "folded (map Folded fs) = fs" by (induction fs) auto
  show "folded (map Released rs) = []" by (induction rs) auto
qed

text \<open>
  A run of one instance from a server state: other operations that write no portfolio row of the
  instance, and ticks that got as far as their row (whatever happened after). The list says what
  the ticks did to the balances. At a tick, every execution belongs to a recorded order, and the
  tick's time is later than the instance's rows.
\<close>

inductive ledger_run ::
  "'t hub_env \<Rightarrow> freeze_conf \<Rightarrow> (string \<Rightarrow> string + ('g, 'p) strategy_impl) \<Rightarrow> strategy_instance
    \<Rightarrow> 't server \<Rightarrow> 't server \<Rightarrow> ledger_op list \<Rightarrow> bool"
  for env c and resolve :: "string \<Rightarrow> string + ('g, 'p) strategy_impl" and inst and sv0 where
  lr_start: "ledger_run env c resolve inst sv0 sv0 []"
| lr_other: "ledger_run env c resolve inst sv0 sv ops \<Longrightarrow> saas_step env c resolve sv sv' \<Longrightarrow>
    rows_of (si_instance_id inst) (sv_db sv') = rows_of (si_instance_id inst) (sv_db sv) \<Longrightarrow>
    ledger_run env c resolve inst sv0 sv' ops"
| lr_tick: "ledger_run env c resolve inst sv0 sv ops \<Longrightarrow>
    tick_read resolve klines staleness inst now (sv_db sv) = (Inr cx, db1) \<Longrightarrow>
    tx_step cx (tx_input cx) = Inr out \<Longrightarrow>
    tick_write env inst cx (sv\<lparr>sv_db := db1\<rparr>) = (r, sv') \<Longrightarrow>
    db_portfolios (sv_db sv') = db_portfolios (sv_db sv) @ [next_portfolio_row inst cx out] \<Longrightarrow>
    \<forall>e\<in>set (db_execs (sv_db sv)). se_client_order_id e \<in> td_client_order_id ` set (db_trades (sv_db sv)) \<Longrightarrow>
    \<forall>p\<in>set (rows_of (si_instance_id inst) (sv_db sv)). ps_now_ms p < now \<Longrightarrow>
    ledger_run env c resolve inst sv0 sv'
      (ops @ map Folded (pending_fills inst (sv_db sv)) @ map Released (so_release_intents out))"

lemma latest_row_append: "\<forall>q\<in>set rows. ps_now_ms q < ps_now_ms p \<Longrightarrow> latest_row (rows @ [p]) = Some p"
  by (induction rows) auto

lemma fold_apply_op:
  "fold (apply_op base) (map Folded fs) = fold (apply_fill base) fs"
  "fold (apply_op base) (map Released rs) = fold apply_release rs"
  by (simp_all add: fold_map comp_def)

lemma watermark_fold:
  "fold (\<lambda>f m. if m < if_id f then if_id f else m) fs m = fold max (map if_id fs) (m :: nat)"
  by (induction fs arbitrary: m) (auto simp: max_def)

lemma instance_fills_sorted: "sorted (map if_id (instance_fills iid db))"
  by (simp add: instance_fills_join)

lemma instance_fills_ids:
  assumes "exec_inv db" "f \<in> set (instance_fills iid db)"
  shows "if_id f < db_next_exec db" "0 < if_id f"
  using assms by (auto simp: instance_fills_join exec_inv_def dest!: join_fills_ids)

lemma fold_max_Max: "fold max xs (m :: nat) = Max (insert m (set xs))"
  by (metis List.finite_set Max.set_eq_fold list.simps(15))

lemma sorted_filter_split:
  "sorted (map k xs) \<Longrightarrow> a \<le> b \<Longrightarrow>
     filter (\<lambda>x. a < k x \<and> k x \<le> b) xs @ filter (\<lambda>x. (b :: nat) < k x) xs = filter (\<lambda>x. a < k x) xs"
proof (induction xs)
  case (Cons x xs)
  then have IH: "filter (\<lambda>x. a < k x \<and> k x \<le> b) xs @ filter (\<lambda>x. b < k x) xs = filter (\<lambda>x. a < k x) xs"
    by simp
  show ?case
  proof (cases "b < k x")
    case True
    with Cons.prems(1) have "\<forall>y\<in>set xs. b < k y" by auto
    then have "filter (\<lambda>x. a < k x \<and> k x \<le> b) xs = []" by (auto simp: filter_empty_conv)
    with True IH Cons.prems(2) show ?thesis by simp
  qed (use IH in auto)
qed simp

lemma pending_max:
  assumes "exec_inv db" "ps = latest_row (rows_of (si_instance_id inst) db)"
    and "w' = tx_exec_id (tick_fold inst strat gene now bars ps rs (pending_fills inst db))"
    and "watermark ps < db_next_exec db"
  shows "watermark ps \<le> w'" "w' < db_next_exec db"
    "\<forall>f\<in>set (instance_fills (si_instance_id inst) db). if_id f \<le> w'"
proof -
  let ?fs = "pending_fills inst db"
  have m: "fold (\<lambda>f m. if m < if_id f then if_id f else m) ?fs 0 = Max (insert 0 (if_id ` set ?fs))"
    by (simp add: watermark_fold fold_max_Max)
  have w': "w' = max (watermark ps) (Max (insert 0 (if_id ` set ?fs)))"
    using assms(3) m by (auto simp: tick_fold_def apply_fills_def split_bars_def watermark_def max_def Let_def)
  show "watermark ps \<le> w'" by (simp add: w')
  have "\<forall>f\<in>set ?fs. if_id f < db_next_exec db"
    using assms(1) by (auto simp: pending_fills_def dest: instance_fills_ids)
  moreover have "0 < db_next_exec db" using assms(1) by (simp add: exec_inv_def)
  ultimately show "w' < db_next_exec db" using assms(4) by (auto simp: w')
  show "\<forall>f\<in>set (instance_fills (si_instance_id inst) db). if_id f \<le> w'"
  proof
    fix f assume f: "f \<in> set (instance_fills (si_instance_id inst) db)"
    show "if_id f \<le> w'"
    proof (cases "if_id f \<le> watermark ps")
      case False
      with f assms(2) have "f \<in> set ?fs" by (simp add: pending_fills_def)
      then have "if_id f \<le> Max (insert 0 (if_id ` set ?fs))" by (intro Max_ge) auto
      then show ?thesis by (simp add: w')
    qed (simp add: w')
  qed
qed

lemma next_row_balances:
  assumes "cx = tick_fold inst strat gene now bars ps rs fills"
  shows "snapshot_of (Some (next_portfolio_row inst cx out)) =
    fold apply_release (so_release_intents out) (fold (apply_fill (base_asset (si_pair inst))) fills (snapshot_of ps))"
    "ps_instance_id (next_portfolio_row inst cx out) = si_instance_id inst"
    "ps_now_ms (next_portfolio_row inst cx out) = now"
    "ps_last_applied_exec_id (next_portfolio_row inst cx out) = tx_exec_id cx"
  using assms
  by (simp_all add: next_portfolio_row_def snapshot_of_def tick_fold_def apply_fills_def split_bars_def Let_def)

definition ledger_ok :: "strategy_instance \<Rightarrow> portfolio_state \<Rightarrow> ledger_op list \<Rightarrow> saas_db \<Rightarrow> bool" where
  "ledger_ok inst r0 ops db \<longleftrightarrow> exec_inv db \<and>
     (\<exists>r. latest_row (rows_of (si_instance_id inst) db) = Some r \<and>
        snapshot_of (Some r) = fold (apply_op (base_asset (si_pair inst))) ops (snapshot_of (Some r0)) \<and>
        folded ops = filter (\<lambda>f. ps_last_applied_exec_id r0 < if_id f \<and> if_id f \<le> ps_last_applied_exec_id r)
          (instance_fills (si_instance_id inst) db) \<and>
        ps_last_applied_exec_id r0 \<le> ps_last_applied_exec_id r \<and>
        ps_last_applied_exec_id r < db_next_exec db \<and>
        (ps_last_applied_exec_id r = ps_last_applied_exec_id r0 \<or>
           orders_known (ps_last_applied_exec_id r) db))"

lemma filter_between: "filter (\<lambda>x. a < k x \<and> k x \<le> b) xs = filter (\<lambda>x. a < k x) (filter (\<lambda>x. k x \<le> (b::nat)) xs)"
  by (simp add: conj_commute)

lemma ledger_ok_other:
  assumes "ledger_ok inst r0 ops db" "db_steps db db'"
    and "rows_of (si_instance_id inst) db' = rows_of (si_instance_id inst) db"
  shows "ledger_ok inst r0 ops db'"
proof -
  from assms(1) obtain r where r: "latest_row (rows_of (si_instance_id inst) db) = Some r"
    "snapshot_of (Some r) = fold (apply_op (base_asset (si_pair inst))) ops (snapshot_of (Some r0))"
    "folded ops = filter (\<lambda>f. ps_last_applied_exec_id r0 < if_id f \<and> if_id f \<le> ps_last_applied_exec_id r)
      (instance_fills (si_instance_id inst) db)"
    "ps_last_applied_exec_id r0 \<le> ps_last_applied_exec_id r" "ps_last_applied_exec_id r < db_next_exec db"
    "ps_last_applied_exec_id r = ps_last_applied_exec_id r0 \<or> orders_known (ps_last_applied_exec_id r) db"
    "exec_inv db" by (auto simp: ledger_ok_def)
  have "db_next_exec db \<le> db_next_exec db'"
    using assms(2) by (induction rule: rtranclp_induct) (auto elim!: db_step.cases)
  with r(5) have n: "ps_last_applied_exec_id r < db_next_exec db'" by simp
  have "folded ops = filter (\<lambda>f. ps_last_applied_exec_id r0 < if_id f \<and> if_id f \<le> ps_last_applied_exec_id r)
      (instance_fills (si_instance_id inst) db') \<and>
    (ps_last_applied_exec_id r = ps_last_applied_exec_id r0 \<or> orders_known (ps_last_applied_exec_id r) db')"
    using r(6)
  proof
    assume "ps_last_applied_exec_id r = ps_last_applied_exec_id r0"
    moreover have "filter (\<lambda>f. w < if_id f \<and> if_id f \<le> w) fs = []" for w fs by (auto simp: filter_empty_conv)
    ultimately show ?thesis using r(3) by simp
  next
    assume k: "orders_known (ps_last_applied_exec_id r) db"
    show ?thesis using r(3) fills_below_steps [OF assms(2) k r(5), of "si_instance_id inst"]
      by (simp add: filter_between)
  qed
  with r n assms(3) exec_inv_steps [OF assms(2)] show ?thesis by (auto simp: ledger_ok_def)
qed

lemma ledger_ok_tick:
  fixes sv :: "'t server"
  assumes "ledger_ok inst r0 ops (sv_db sv)"
    and "tick_read resolve klines staleness inst now (sv_db sv) = (Inr cx, db1)"
    and "tick_write env inst cx (sv\<lparr>sv_db := db1\<rparr>) = (r, sv')"
    and "db_portfolios (sv_db sv') = db_portfolios (sv_db sv) @ [next_portfolio_row inst cx out]"
    and "\<forall>e\<in>set (db_execs (sv_db sv)). se_client_order_id e \<in> td_client_order_id ` set (db_trades (sv_db sv))"
    and "\<forall>p\<in>set (rows_of (si_instance_id inst) (sv_db sv)). ps_now_ms p < now"
  shows "ledger_ok inst r0
    (ops @ map Folded (pending_fills inst (sv_db sv)) @ map Released (so_release_intents out)) (sv_db sv')"
proof -
  let ?iid = "si_instance_id inst" and ?db = "sv_db sv" and ?w0 = "ps_last_applied_exec_id r0"
  let ?w' = "tx_exec_id cx" and ?row = "next_portfolio_row inst cx out"
  from assms(1) obtain q where q: "latest_row (rows_of ?iid ?db) = Some q"
    "snapshot_of (Some q) = fold (apply_op (base_asset (si_pair inst))) ops (snapshot_of (Some r0))"
    "folded ops = filter (\<lambda>f. ?w0 < if_id f \<and> if_id f \<le> ps_last_applied_exec_id q) (instance_fills ?iid ?db)"
    "?w0 \<le> ps_last_applied_exec_id q" "ps_last_applied_exec_id q < db_next_exec ?db" "exec_inv ?db"
    by (auto simp: ledger_ok_def)
  from assms(2) obtain strat gene bars rs where t: "same_tables ?db db1" and
    cx: "cx = tick_fold inst strat gene now bars (Some q) rs (pending_fills inst ?db)"
    by (rule tick_read_ctx) (use q(1) in simp)
  have w: "ps_last_applied_exec_id q \<le> ?w'" "?w' < db_next_exec ?db"
    "\<forall>f\<in>set (instance_fills ?iid ?db). if_id f \<le> ?w'"
    using pending_max [OF q(6) q(1) [symmetric] arg_cong [OF cx, of tx_exec_id]] q(5)
    by (simp_all add: watermark_def)
  have "db_steps db1 (sv_db sv')"
    using tick_write_writes [OF assms(3)] by (simp add: server_writes_def)
  moreover have "db_steps ?db db1"
    using tick_read_writes [of resolve klines staleness inst now] assms(2) by (rule writesD)
  ultimately have steps: "db_steps ?db (sv_db sv')" by (rule rtranclp_trans [rotated])
  have known: "orders_known ?w' ?db" using assms(5) by (simp add: orders_known_def)
  note below = fills_below_steps [OF steps known w(2), of ?iid]
  have row: "rows_of ?iid (sv_db sv') = rows_of ?iid ?db @ [?row]"
    using assms(4) next_row_balances(2) [OF cx, of out] by (simp add: rows_of_def)
  have latest: "latest_row (rows_of ?iid (sv_db sv')) = Some ?row"
    unfolding row using assms(6) next_row_balances(3) [OF cx, of out] by (intro latest_row_append) simp
  have "folded ops @ pending_fills inst ?db = filter (\<lambda>f. ?w0 < if_id f) (instance_fills ?iid ?db)"
    using sorted_filter_split [OF instance_fills_sorted q(4), of ?iid ?db] q(1,3)
    by (simp add: pending_fills_def watermark_def)
  also have "\<dots> = filter (\<lambda>f. ?w0 < if_id f) (filter (\<lambda>f. if_id f \<le> ?w') (instance_fills ?iid ?db))"
    using w(3) by (simp add: filter_id_conv [THEN iffD2])
  also have "\<dots> = filter (\<lambda>f. ?w0 < if_id f \<and> if_id f \<le> ?w') (instance_fills ?iid (sv_db sv'))"
    using below by (simp add: filter_between)
  finally have fs: "folded (ops @ map Folded (pending_fills inst ?db) @ map Released (so_release_intents out)) =
    filter (\<lambda>f. ?w0 < if_id f \<and> if_id f \<le> ?w') (instance_fills ?iid (sv_db sv'))" by simp
  have "exec_inv (sv_db sv')" by (rule exec_inv_steps [OF steps q(6)])
  moreover have "?w0 \<le> ?w'" using q(4) w(1) by simp
  ultimately show ?thesis
    unfolding ledger_ok_def using latest fs below next_row_balances [OF cx, of out] q(2)
    by (auto simp: fold_apply_op)
qed


definition quiet_output :: strategy_output where
  "quiet_output = \<lparr>so_macro_orders = [], so_micro_orders = [], so_release_intents = [], so_runtime_state = None\<rparr>"

definition quiet_strategy :: "(unit, unit) strategy_impl" where
  "quiet_strategy = \<lparr>sg_min_eval_bars = 1, sg_step = (\<lambda>_. Inr quiet_output), sg_load_gene = (\<lambda>_. Inr ((), ()))\<rparr>"

definition deployed_instance :: strategy_instance where
  "deployed_instance = sample_instance\<lparr>si_active_champ_id := Some ''c1''\<rparr>"

definition sample_row :: portfolio_state where
  "sample_row = \<lparr>ps_instance_id = ''i1'', ps_now_ms = 1, ps_dead_btc = Fin 0, ps_float_btc = Fin 0,
     ps_cold_sealed_btc = Fin 0, ps_usdt = Fin 1000, ps_last_processed_bar_time = 0,
     ps_last_applied_exec_id = 0\<rparr>"

definition sample_exec :: spot_execution where
  "sample_exec = \<lparr>se_id = 1, se_client_order_id = ''o1'', se_exchange_order_id = [], se_fill_quantity = Fin 1,
     se_fill_price = Fin 100, se_fill_fee_asset = ''USDT'', se_fill_fee_amount = Fin 0,
     se_filled_at_exchange_ms = 5, se_actual_slippage_bps = Fin 0, se_trade_id = 7\<rparr>"

definition sample_bar :: bar where
  "sample_bar = \<lparr>br_open_time = 60000, br_open = Fin 100, br_high = Fin 100, br_low = Fin 100,
     br_close = Fin 100, br_volume = Fin 1\<rparr>"

definition sample_klines :: "kline_row list" where
  "sample_klines = [\<lparr>kl_symbol = ''BTCUSDT'', kl_interval = ''1m'', kl_bar = sample_bar\<rparr>]"

definition ledger_server :: "token_db server" where
  "ledger_server = \<lparr>sv_db = (empty_saas_db [])\<lparr>db_instances := [deployed_instance],
     db_trades := [sample_trade TsFilled], db_execs := [sample_exec], db_next_exec := 2,
     db_portfolios := [sample_row]\<rparr>, sv_hub = ready_hub, sv_streak = Map.empty\<rparr>"

lemma sample_tick_read:
  "\<exists>cx db1. tick_read (\<lambda>_. Inr quiet_strategy) sample_klines 0 deployed_instance 70000 (sv_db ledger_server)
     = (Inr cx, db1) \<and> db1 = sv_db ledger_server \<and> tx_step cx = (\<lambda>_. Inr quiet_output)"
  by (simp add: tick_read_def champion_gene_def tick_market_def tick_bind_def tick_db_def
      portfolio_latest_def runtime_get_def db_stmt_def load_trailing_def load_klines_def db_bind_def
      db_return_def new_executions_for_instance_def ledger_server_def empty_saas_db_def quiet_strategy_def
      deployed_instance_def sample_instance_def sample_klines_def sample_bar_def bar_interval_ms_def in64_def
      split_bars_def bar_staleness_def eff_max_bar_staleness_ms_def tick_fold_def apply_fills_def Let_def)

lemma sample_run:
  "\<exists>sv. ledger_run sample_hub_env sample_freeze (\<lambda>_. Inr quiet_strategy) deployed_instance ledger_server sv
     (map Folded (pending_fills deployed_instance (sv_db ledger_server)))"
proof -
  let ?resolve = "\<lambda>_ :: string. Inr quiet_strategy :: string + (unit, unit) strategy_impl"
  obtain cx where cx: "tick_read ?resolve sample_klines 0 deployed_instance 70000 (sv_db ledger_server)
      = (Inr cx, sv_db ledger_server)" "tx_step cx = (\<lambda>_. Inr quiet_output)"
    using sample_tick_read by auto
  from tick_read_ctx [OF cx(1)] obtain fs strat gene bars rs ps where
    "cx = tick_fold deployed_instance strat gene 70000 bars ps rs fs" by metis
  note row = next_row_balances [OF this]
  have "\<exists>r sv'. tick_write sample_hub_env deployed_instance cx (ledger_server\<lparr>sv_db := sv_db ledger_server\<rparr>) = (r, sv') \<and>
      db_portfolios (sv_db sv') = db_portfolios (sv_db ledger_server) @ [next_portfolio_row deployed_instance cx quiet_output]"
    using row(3)
    by (simp add: tick_write_def cx(2) with_db_def portfolio_append_def runtime_upsert_def db_stmt_def
        ledger_server_def empty_saas_db_def quiet_output_def sample_row_def deployed_instance_def
        sample_instance_def Let_def)
  then obtain r sv' where w: "tick_write sample_hub_env deployed_instance cx (ledger_server\<lparr>sv_db := sv_db ledger_server\<rparr>) = (r, sv')"
    "db_portfolios (sv_db sv') = db_portfolios (sv_db ledger_server) @ [next_portfolio_row deployed_instance cx quiet_output]"
    by blast
  have "\<forall>e\<in>set (db_execs (sv_db ledger_server)). se_client_order_id e \<in>
      td_client_order_id ` set (db_trades (sv_db ledger_server))"
    "\<forall>p\<in>set (rows_of (si_instance_id deployed_instance) (sv_db ledger_server)). ps_now_ms p < 70000"
    by (simp_all add: ledger_server_def sample_exec_def sample_trade_def rows_of_def sample_row_def empty_saas_db_def)
  from lr_tick [OF lr_start cx(1) fun_cong [OF cx(2)] w this]
  show ?thesis by (auto simp: quiet_output_def)
qed


end
