(* ===== verification/LiveTheorems.thy ===== *)
theory LiveTheorems
  imports Ledger
begin

text \<open>
  What the server's handlers do case by case: the automatic freeze fires exactly when enough
  consecutive reports are over the line, genesis funding seeds at most once, an order is recorded
  before it is sent, and stale bars stop a tick before it trades.
\<close>

section \<open>The automatic freeze\<close>

type_synonym drift_report = "drift_result list \<times> string list \<times> int"

definition over_line :: "freeze_conf \<Rightarrow> drift_report \<Rightarrow> bool" where
  "over_line c r = (\<not> f_lt (max_flagged_drift_bps (fst r) (fst (snd r))) (eff_freeze_tolerance_bps c))"

definition run_length :: "bool list \<Rightarrow> nat" where
  "run_length xs = length (takeWhile id (rev xs))"

lemma run_length_simps [simp]:
  "run_length [] = 0" "run_length (xs @ [True]) = Suc (run_length xs)" "run_length (xs @ [False]) = 0"
  by (simp_all add: run_length_def)

definition kill_rows :: "string \<Rightarrow> audit_row list \<Rightarrow> audit_row list" where
  "kill_rows acct rows =
     filter (\<lambda>r. al_action r = ''instance.kill'' \<and> al_subject r = account_subject acct) rows"

definition freeze_reports ::
  "'t hub_env \<Rightarrow> freeze_conf \<Rightarrow> string \<Rightarrow> drift_report list \<Rightarrow> 't server \<Rightarrow> 't server" where
  "freeze_reports env c acct rs sv =
     fold (\<lambda>r. maybe_auto_freeze env c acct (fst r) (fst (snd r)) (snd (snd r))) rs sv"

definition streak_after :: "freeze_conf \<Rightarrow> nat \<Rightarrow> int" where
  "streak_after c n = (if int n < eff_freeze_debounce_reports c then int n else killed_sentinel)"

lemma debounce_pos: "1 \<le> eff_freeze_debounce_reports c"
  by (simp add: eff_freeze_debounce_reports_def)

lemma freeze_step:
  fixes sv :: "'t server"
  assumes "fz_killer c" "in64 (eff_freeze_debounce_reports c)" "db_faults (sv_db sv) = []"
    and "streak_of acct sv = streak_after c n"
    and sv': "sv' = maybe_auto_freeze env c acct (fst r) (fst (snd r)) (snd (snd r)) sv"
    and n': "n' = (if over_line c r then Suc n else 0)"
  shows "db_faults (sv_db sv') = [] \<and> streak_of acct sv' = streak_after c n' \<and>
    length (kill_rows acct (db_audit (sv_db sv'))) =
      length (kill_rows acct (db_audit (sv_db sv))) +
      (if over_line c r \<and> int n' = eff_freeze_debounce_reports c then 1 else 0)"
proof -
  let ?N = "eff_freeze_debounce_reports c" and ?max = "max_flagged_drift_bps (fst r) (fst (snd r))"
  let ?nxt = "next_drift_streak ?max (streak_of acct sv) (eff_freeze_tolerance_bps c)"
  have exact: "int n < ?N \<Longrightarrow> add64 (int n) 1 = int n + 1"
    using assms(2) by (intro add64_exact) (simp add: in64_def)
  have nxt: "?nxt = (if over_line c r then (if int n < ?N then int (Suc n) else - 1) else 0)"
    using assms(4) exact
    by (auto simp: next_drift_streak_def over_line_def streak_after_def killed_sentinel_def)
  have audit: "fst (record_kill_audit ''system'' acct auto_kill x t db) = Inr () \<and>
      db_faults (snd (record_kill_audit ''system'' acct auto_kill x t db)) = [] \<and>
      length (kill_rows acct (db_audit (snd (record_kill_audit ''system'' acct auto_kill x t db)))) =
        Suc (length (kill_rows acct (db_audit db)))"
    if "db_faults db = []" for x t db
    using that by (simp add: record_kill_audit_def record_kill_switch_audit_def audit_insert_def
        db_stmt_def kill_rows_def Let_def)
  show ?thesis
  proof (cases "?nxt < ?N")
    case True
    then have "sv' = sv\<lparr>sv_streak := (sv_streak sv)(acct \<mapsto> ?nxt)\<rparr>"
      by (simp add: sv' maybe_auto_freeze_def Let_def)
    with True nxt assms(3) debounce_pos [of c] show ?thesis
      by (auto simp: n' streak_of_def streak_after_def killed_sentinel_def split: if_splits)
  next
    case False
    with nxt debounce_pos [of c] have o: "over_line c r" "int n < ?N" "int (Suc n) = ?N"
      by (auto split: if_splits)
    let ?sv1 = "sv\<lparr>sv_streak := (sv_streak sv)(acct \<mapsto> ?nxt)\<rparr>"
    let ?a = "record_kill_audit ''system'' acct auto_kill (auto_audit_extra ?max) (snd (snd r)) (sv_db sv)"
    note a = audit [OF assms(3), of "auto_audit_extra ?max" "snd (snd r)"]
    then obtain db' where db': "?a = (Inr (), db')" by (cases ?a) auto
    have "sv' = push_kill_switch env acct auto_kill (?sv1\<lparr>sv_db := db',
        sv_streak := (sv_streak ?sv1)(acct \<mapsto> killed_sentinel)\<rparr>)"
      using False assms(1) db' by (simp add: sv' maybe_auto_freeze_def with_db_def Let_def)
    with a db' o show ?thesis
      by (simp add: n' push_kill_switch_def streak_of_def streak_after_def)
  qed
qed

lemma freeze_reports_count:
  fixes sv :: "'t server"
  assumes "fz_killer c" "in64 (eff_freeze_debounce_reports c)" "db_faults (sv_db sv) = []"
    and "streak_of acct sv = 0"
  shows "db_faults (sv_db (freeze_reports env c acct rs sv)) = [] \<and>
    streak_of acct (freeze_reports env c acct rs sv) = streak_after c (run_length (map (over_line c) rs)) \<and>
    length (kill_rows acct (db_audit (sv_db (freeze_reports env c acct rs sv)))) =
      length (kill_rows acct (db_audit (sv_db sv))) +
      length (filter (\<lambda>k. int (run_length (take (Suc k) (map (over_line c) rs))) =
        eff_freeze_debounce_reports c) [0..<length rs])"
proof (induction rs rule: rev_induct)
  case Nil
  then show ?case using assms debounce_pos [of c] by (simp add: freeze_reports_def streak_after_def)
next
  case (snoc r rs)
  let ?N = "eff_freeze_debounce_reports c" and ?o = "map (over_line c)"
  have "\<And>k. k < length rs \<Longrightarrow> take (Suc k) (?o (rs @ [r])) = take (Suc k) (?o rs)" by simp
  then have "filter (\<lambda>k. int (run_length (take (Suc k) (?o (rs @ [r])))) = ?N) [0..<length rs] =
      filter (\<lambda>k. int (run_length (take (Suc k) (?o rs))) = ?N) [0..<length rs]"
    by (intro filter_cong) auto
  moreover have "run_length (?o (rs @ [r])) = (if over_line c r then Suc (run_length (?o rs)) else 0)"
    by (cases "over_line c r") simp_all
  moreover have "freeze_reports env c acct (rs @ [r]) sv =
      maybe_auto_freeze env c acct (fst r) (fst (snd r)) (snd (snd r)) (freeze_reports env c acct rs sv)"
    by (simp add: freeze_reports_def)
  ultimately show ?case
    using snoc freeze_step [OF assms(1,2) _ _ \<open>freeze_reports env c acct (rs @ [r]) sv = _\<close> refl,
        of "run_length (?o rs)"] debounce_pos [of c]
    by auto
qed

text \<open>
  The automatic freeze is debounced: over any sequence of reports of an account, starting with a
  clean streak, one kill is recorded for every time the number of consecutive reports over the line
  reaches the configured count, and none otherwise: a long drift kills once, and a report below the
  line arms it again.
\<close>

theorem auto_freeze_debounced:
  fixes sv :: "'t server"
  assumes "fz_killer c" "in64 (eff_freeze_debounce_reports c)" "db_faults (sv_db sv) = []"
    and "streak_of acct sv = 0"
  shows "length (kill_rows acct (db_audit (sv_db (freeze_reports env c acct rs sv)))) =
      length (kill_rows acct (db_audit (sv_db sv))) +
      length (filter (\<lambda>k. int (run_length (take (Suc k) (map (over_line c) rs))) =
        eff_freeze_debounce_reports c) [0..<length rs])"
  using freeze_reports_count [OF assms] by blast

definition drifting :: drift_report where
  "drifting = ([\<lparr>df_asset = ''BTC'', df_expected = Fin 1, df_actual = Fin 2, df_diff = Fin 1,
     df_drift_bps = Fin 5000, df_flagged = True\<rparr>], [''BTC''], 7)"

theorem auto_freeze_debounced_witness:
  "length (kill_rows ''acc'' (db_audit (sv_db (freeze_reports sample_hub_env sample_freeze ''acc''
     [drifting, drifting, drifting] (trade_server TsFilled))))) = 1"
proof -
  have o: "over_line sample_freeze drifting"
    by (simp add: over_line_def drifting_def max_flagged_drift_bps_def eff_freeze_tolerance_bps_def
        sample_freeze_def)
  have d: "eff_freeze_debounce_reports sample_freeze = 2"
    by (simp add: eff_freeze_debounce_reports_def sample_freeze_def)
  have "fz_killer sample_freeze" "in64 (eff_freeze_debounce_reports sample_freeze)"
    "db_faults (sv_db (trade_server TsFilled)) = []" "streak_of ''acc'' (trade_server TsFilled) = 0"
    "kill_rows ''acc'' (db_audit (sv_db (trade_server TsFilled))) = []"
    by (simp_all add: sample_freeze_def eff_freeze_debounce_reports_def in64_def trade_server_def
        empty_saas_db_def streak_of_def kill_rows_def)
  with auto_freeze_debounced [of sample_freeze "trade_server TsFilled" "''acc''" sample_hub_env
      "[drifting, drifting, drifting]"] o d
  show ?thesis by (simp add: upt_rec run_length_def)
qed

section \<open>Genesis funding\<close>

lemma funded_steps: "db_steps db db' \<Longrightarrow> funded iid db \<Longrightarrow> funded iid db'"
proof (induction rule: rtranclp_induct)
  case (step db1 db2)
  from step.hyps(2) step.IH [OF step.prems] show ?case by cases (simp_all add: funded_def)
qed

lemma funded_saas_steps:
  assumes "(saas_step env c resolve)\<^sup>*\<^sup>* sv sv'" "funded iid (sv_db sv)"
  shows "funded iid (sv_db sv')"
  using assms
proof (induction rule: rtranclp_induct)
  case (step sv1 sv2)
  from saas_step_writes [OF step.hyps(2)] step.IH [OF step.prems] show ?case
    unfolding server_writes_def by (rule funded_steps)
qed

lemma ball_update_where:
  "(\<forall>r\<in>set (update_where p f rows). Q r) \<longleftrightarrow> (\<forall>r\<in>set rows. if p r then Q (f r) else Q r)"
  by (simp only: update_where_def set_map ball_simps) presburger

lemma mark_funded_result:
  assumes "mark_funded iid now db = (Inr b, db1)"
  shows "funded iid db1" "db_portfolios db1 = db_portfolios db" "funded iid db \<Longrightarrow> \<not> b"
proof -
  from assms have f: "\<not> next_fault (db_faults db)"
    "db1 = db\<lparr>db_faults := rest_faults (db_faults db), db_instances := update_where
       (\<lambda>i. si_instance_id i = iid \<and> si_funded_at_ms i = None) (si_funded_at_ms_update (\<lambda>_. Some now))
       (db_instances db)\<rparr>"
    "b = (0 < length (filter (\<lambda>i. si_instance_id i = iid \<and> si_funded_at_ms i = None) (db_instances db)))"
    by (auto simp: mark_funded_def update_instances_def db_stmt_def Let_def split: if_splits)
  show "funded iid db1"
    unfolding f(2) by (simp add: funded_def ball_update_where)
  show "db_portfolios db1 = db_portfolios db" unfolding f(2) by simp
  from f(3) show "funded iid db \<Longrightarrow> \<not> b" by (auto simp: funded_def filter_empty_conv)
qed

lemma mark_funded_failed: "mark_funded iid now db = (Inl e, db1) \<Longrightarrow> db_portfolios db1 = db_portfolios db"
  by (auto simp: mark_funded_def update_instances_def db_stmt_def Let_def split: if_splits)

lemma fund_funded:
  assumes "funded (si_instance_id inst) db" "fund_instance inst actual now db = (r, db')"
  shows "db_portfolios db' = db_portfolios db"
  using assms mark_funded_result [of "si_instance_id inst" now db] mark_funded_failed [of "si_instance_id inst" now db]
  by (auto simp: fund_instance_def db_bind_def db_return_def split: prod.splits sum.splits if_splits)

lemma fund_claims:
  assumes "fund_instance inst actual now db = (r, db')" "mark_funded (si_instance_id inst) now db = (Inr b, db1)"
  shows "funded (si_instance_id inst) db'"
proof -
  have "writes (\<lambda>db. if \<not> b then db_return () db
      else db_bind (max_execution_id_for_instance (si_instance_id inst)) (\<lambda>w.
         portfolio_append ((build_seed_portfolio inst actual now)\<lparr>ps_last_applied_exec_id := w\<rparr>)) db)"
    by (cases b) (auto intro!: writes_intros)
  moreover have "(if \<not> b then db_return () db1
      else db_bind (max_execution_id_for_instance (si_instance_id inst)) (\<lambda>w.
         portfolio_append ((build_seed_portfolio inst actual now)\<lparr>ps_last_applied_exec_id := w\<rparr>)) db1) = (r, db')"
    using assms by (auto simp: fund_instance_def db_bind_def split: if_splits)
  ultimately have "db_steps db1 db'" by (rule writesD)
  then show ?thesis using mark_funded_result(1) [OF assms(2)] by (rule funded_steps)
qed

text \<open>
  Genesis funding seeds an instance at most once: once a funding attempt has written the seed row,
  or has returned without an error, no later attempt, with whatever holdings and after whatever
  messages, ticks, kills and failures, writes a portfolio row again.
\<close>

theorem funding_seeds_at_most_once:
  fixes sv :: "'t server"
  assumes "fund_instance inst actual now (sv_db sv) = (r, db1)"
    and "r = Inr () \<or> db_portfolios db1 \<noteq> db_portfolios (sv_db sv)"
    and "(saas_step env c resolve)\<^sup>*\<^sup>* (sv\<lparr>sv_db := db1\<rparr>) sv2"
    and "fund_instance inst' actual' now' (sv_db sv2) = (r', db2)" "si_instance_id inst' = si_instance_id inst"
  shows "db_portfolios db2 = db_portfolios (sv_db sv2)"
proof -
  obtain m db' where m: "mark_funded (si_instance_id inst) now (sv_db sv) = (m, db')" by fastforce
  have "\<exists>b. m = Inr b"
  proof (cases m)
    case (Inl e)
    then have "(r, db1) = (Inl e, db')" using assms(1) m by (simp add: fund_instance_def db_bind_def)
    then show ?thesis using assms(2) m Inl mark_funded_failed [of "si_instance_id inst" now "sv_db sv"] by auto
  qed simp
  then have "funded (si_instance_id inst) db1" using fund_claims [OF assms(1)] m by auto
  then have "funded (si_instance_id inst') (sv_db sv2)"
    using funded_saas_steps [OF assms(3)] assms(5) by simp
  then show ?thesis using assms(4) by (rule fund_funded)
qed

definition funding_server :: "bool list \<Rightarrow> token_db server" where
  "funding_server fs = \<lparr>sv_db = (empty_saas_db fs)\<lparr>db_instances := [sample_instance]\<rparr>, sv_hub = ready_hub,
     sv_streak = Map.empty\<rparr>"

lemma sample_funding:
  "fst (fund_instance sample_instance [(''BTC'', Fin 2)] 5 (sv_db (funding_server []))) = Inr ()"
  "db_portfolios (snd (fund_instance sample_instance [(''BTC'', Fin 2)] 5 (sv_db (funding_server [])))) =
     [\<lparr>ps_instance_id = ''i1'', ps_now_ms = 5, ps_dead_btc = Fin 0, ps_float_btc = Fin 2,
       ps_cold_sealed_btc = Fin 0, ps_usdt = Fin 0, ps_last_processed_bar_time = 0,
       ps_last_applied_exec_id = 0\<rparr>]"
  "fst (fund_instance sample_instance [(''BTC'', Fin 2)] 5 (sv_db (funding_server [False, False, True]))) = Inl ErrDb"
  by (simp_all add: fund_instance_def db_bind_def mark_funded_def update_instances_def db_stmt_def
      max_execution_id_for_instance_def portfolio_append_def funding_server_def empty_saas_db_def
      sample_instance_def instance_fills_def build_seed_portfolio_def amount_def base_asset_def
      trim_suffix_def has_suffix_def update_where_def Let_def)

theorem funding_seeds_at_most_once_witness:
  "\<exists>db1 r2 db2. fund_instance sample_instance [(''BTC'', Fin 2)] 5 (sv_db (funding_server [])) = (Inr (), db1) \<and>
     length (db_portfolios db1) = 1 \<and>
     fund_instance sample_instance [(''BTC'', Fin 3)] 6 db1 = (r2, db2) \<and> db_portfolios db2 = db_portfolios db1"
proof -
  obtain db1 where f: "fund_instance sample_instance [(''BTC'', Fin 2)] 5 (sv_db (funding_server [])) = (Inr (), db1)"
    using sample_funding(1) by (metis prod.collapse)
  obtain r2 db2 where g: "fund_instance sample_instance [(''BTC'', Fin 3)] 6 db1 = (r2, db2)" by fastforce
  have "(saas_step sample_hub_env sample_freeze (\<lambda>_. Inr quiet_strategy))\<^sup>*\<^sup>*
      ((funding_server [])\<lparr>sv_db := db1\<rparr>) ((funding_server [])\<lparr>sv_db := db1\<rparr>)" by simp
  from funding_seeds_at_most_once [OF f _ this _ refl] f g sample_funding(2) show ?thesis by simp
qed

lemma fund_failed_no_row:
  assumes "fund_instance inst actual now db = (Inl e, db')"
  shows "db_portfolios db' = db_portfolios db"
proof -
  have a: "portfolio_append p db1 = (Inl e, db2) \<Longrightarrow> db_portfolios db2 = db_portfolios db1" for p db1 db2
    by (auto simp: portfolio_append_def db_stmt_def Let_def split: if_splits)
  have m: "max_execution_id_for_instance iid db1 = (w, db2) \<Longrightarrow> db_portfolios db2 = db_portfolios db1" for iid db1 w db2
    by (auto simp: max_execution_id_for_instance_def db_stmt_def Let_def split: if_splits)
  show ?thesis using assms mark_funded_result(2) [of "si_instance_id inst" now db]
      mark_funded_failed [of "si_instance_id inst" now db]
    by (auto simp: fund_instance_def db_bind_def db_return_def dest!: a m split: prod.splits sum.splits if_splits)
qed

text \<open>
  A failed seed is never repaired: the funding slot is claimed before the row is written, so when
  the claim succeeds and a later statement fails, no row is written, and every later attempt
  returns without an error and writes no row either.
\<close>

theorem failed_seed_is_final:
  fixes sv :: "'t server"
  assumes "fund_instance inst actual now (sv_db sv) = (Inl e, db1)" "\<not> next_fault (db_faults (sv_db sv))"
    and "(saas_step env c resolve)\<^sup>*\<^sup>* (sv\<lparr>sv_db := db1\<rparr>) sv2" "\<not> next_fault (db_faults (sv_db sv2))"
    and "fund_instance inst' actual' now' (sv_db sv2) = (r', db2)" "si_instance_id inst' = si_instance_id inst"
  shows "db_portfolios db1 = db_portfolios (sv_db sv) \<and> r' = Inr () \<and> db_portfolios db2 = db_portfolios (sv_db sv2)"
proof -
  have claim: "\<exists>b db'. mark_funded iid now db = (Inr b, db')" if "\<not> next_fault (db_faults db)" for iid now db
    using that by (simp add: mark_funded_def update_instances_def db_stmt_def Let_def)
  from claim [OF assms(2)] have "funded (si_instance_id inst) db1" using fund_claims [OF assms(1)] by blast
  then have fd: "funded (si_instance_id inst') (sv_db sv2)" using funded_saas_steps [OF assms(3)] assms(6) by simp
  from claim [OF assms(4)] obtain b db' where "mark_funded (si_instance_id inst') now' (sv_db sv2) = (Inr b, db')"
    by blast
  with mark_funded_result(3) [OF this fd] assms(5) have "r' = Inr ()"
    by (simp add: fund_instance_def db_bind_def db_return_def)
  with fund_failed_no_row [OF assms(1)] fund_funded [OF fd assms(5)] show ?thesis by simp
qed

theorem failed_seed_is_final_witness:
  "\<exists>db1 db2. fund_instance sample_instance [(''BTC'', Fin 2)] 5 (sv_db (funding_server [False, False, True])) = (Inl ErrDb, db1) \<and>
     db_portfolios db1 = [] \<and> fund_instance sample_instance [(''BTC'', Fin 2)] 6 db1 = (Inr (), db2) \<and> db_portfolios db2 = []"
proof -
  let ?sv = "funding_server [False, False, True]"
  obtain db1 where f: "fund_instance sample_instance [(''BTC'', Fin 2)] 5 (sv_db ?sv) = (Inl ErrDb, db1)"
    using sample_funding(3) by (metis prod.collapse)
  moreover have "\<not> next_fault (db_faults (snd (fund_instance sample_instance [(''BTC'', Fin 2)] 5 (sv_db ?sv))))"
    by (simp add: funding_server_def empty_saas_db_def fund_instance_def db_bind_def mark_funded_def
        update_instances_def db_stmt_def max_execution_id_for_instance_def portfolio_append_def
        sample_instance_def update_where_def Let_def)
  ultimately have n: "\<not> next_fault (db_faults (sv_db (?sv\<lparr>sv_db := db1\<rparr>)))" by simp
  have n0: "\<not> next_fault (db_faults (sv_db ?sv))" "db_portfolios (sv_db ?sv) = []"
    by (simp_all add: funding_server_def empty_saas_db_def)
  obtain r2 db2 where g: "fund_instance sample_instance [(''BTC'', Fin 2)] 6 (sv_db (?sv\<lparr>sv_db := db1\<rparr>)) = (r2, db2)"
    by fastforce
  have s: "(saas_step sample_hub_env sample_freeze (\<lambda>_. Inr quiet_strategy))\<^sup>*\<^sup>* (?sv\<lparr>sv_db := db1\<rparr>) (?sv\<lparr>sv_db := db1\<rparr>)"
    by simp
  from failed_seed_is_final [OF f n0(1) s n g refl] f g n0(2) show ?thesis by simp
qed

section \<open>Recording before sending\<close>

lemma insert_trade_result:
  assumes "insert_trade_record tr db = (r, db')"
  shows "set (db_trades db) \<subseteq> set (db_trades db')" "r = Inr () \<Longrightarrow> tr \<in> set (db_trades db')"
    "r \<noteq> Inl ErrDuplicatedKey"
    "td_client_order_id tr \<in> td_client_order_id ` set (db_trades db) \<Longrightarrow> \<exists>e. r = Inl e"
  using assms
  by (auto simp: insert_trade_record_def db_stmt_def unique_violation_def translate_error_def Let_def
      split: if_splits)

lemma record_orders_rows:
  "record_orders iid symbol close cap ois db = (Inr (), db') \<Longrightarrow>
     set (db_trades db) \<subseteq> set (db_trades db') \<and>
     (\<forall>oi\<in>set ois. \<exists>tr\<in>set (db_trades db'). build_trade_record iid symbol oi close cap = Inr tr)"
proof (induction ois arbitrary: db)
  case Nil
  then show ?case by (simp add: db_return_def)
next
  case (Cons oi ois)
  from Cons.prems obtain tr db1 where b: "build_trade_record iid symbol oi close cap = Inr tr"
    "insert_trade_record tr db = (Inr (), db1)" "record_orders iid symbol close cap ois db1 = (Inr (), db')"
    using insert_trade_result(3)
    by (auto simp: db_fail_def split: sum.splits prod.splits if_splits)
  with Cons.IH [OF b(3)] insert_trade_result(1,2) [OF b(2)] show ?case by auto
qed


lemma record_orders_refuses:
  assumes "oi \<in> set ois" "oi_client_order_id oi \<in> td_client_order_id ` set (db_trades db)"
  shows "\<exists>e db'. record_orders iid symbol close cap ois db = (Inl e, db')"
  using assms
proof (induction ois arbitrary: db)
  case (Cons o1 ois)
  show ?case
  proof (cases "build_trade_record iid symbol o1 close cap")
    case (Inr tr)
    then have cid: "td_client_order_id tr = oi_client_order_id o1"
      by (auto simp: build_trade_record_def split: sum.splits)
    obtain r db1 where i: "insert_trade_record tr db = (r, db1)" by fastforce
    note res = insert_trade_result [OF i]
    show ?thesis
    proof (cases r)
      case (Inr u)
      with res(4) cid Cons.prems have "oi \<in> set ois" by (metis old.sum.distinct(2) set_ConsD)
      moreover have "oi_client_order_id oi \<in> td_client_order_id ` set (db_trades db1)"
        using res(1) Cons.prems(2) by blast
      ultimately show ?thesis using Cons.IH i Inr \<open>build_trade_record _ _ _ _ _ = Inr tr\<close> by simp
    qed (use res(3) i \<open>build_trade_record _ _ _ _ _ = Inr tr\<close> in auto)
  qed (simp add: db_fail_def)
qed simp

text \<open>
  Dispatching an order again, once its id is recorded, is an error and sends nothing, although the
  dispatcher means to skip recorded orders: the driver's unique violation is never translated into
  the error it tests for.
\<close>

theorem redispatch_refused:
  assumes "oi \<in> set ois" "oi_client_order_id oi \<in> td_client_order_id ` set (db_trades (sv_db sv))"
  shows "\<exists>e sv'. recording_dispatch env iid acct symbol close ois sv = (Inl e, sv') \<and> sv_hub sv' = sv_hub sv"
  using record_orders_refuses [OF assms, of iid symbol close "hv_price_cap env"]
  by (auto simp: recording_dispatch_def with_db_def)

lemma sample_dispatch:
  "\<exists>sv'. recording_dispatch (sample_hub_env\<lparr>hv_now := (\<lambda>_. 5)\<rparr>) ''i1'' ''acc'' ''BTCUSDT'' (Fin 50000) [sample_intent]
     (funding_server []) = (Inr (), sv') \<and> sv_hub sv' \<noteq> sv_hub (funding_server [])"
proof -
  obtain tc where tc: "build_trade_command sample_intent ''i1'' ''BTCUSDT'' (Fin 50000) 5 (Fin 50) = Inr tc"
    using sample_build by blast
  then obtain eff where eff: "effective_dispatched_order sample_intent (Fin 50000) (Fin 50) = Inr eff"
    by (auto simp: build_trade_command_def Let_def split: sum.splits if_splits)
  have cid: "oi_client_order_id sample_intent \<noteq> []" by (simp add: sample_intent_def)
  have cap: "hv_price_cap (sample_hub_env\<lparr>hv_now := (\<lambda>_. 5)\<rparr>) = Fin 50" by (simp add: sample_hub_env_def)
  obtain h' where h': "hub_dispatch (sample_hub_env\<lparr>hv_now := (\<lambda>_. 5)\<rparr>) ''i1'' ''acc'' ''BTCUSDT'' (Fin 50000) [sample_intent] ready_hub = (Inr (), h')"
    and ne: "hb_conns h' 0 \<noteq> hb_conns ready_hub 0"
    using tc
    by (simp add: hub_dispatch_def f_le_def f_eq_def registry_get_def ready_hub_def new_hub_def
        is_ready_def hub_now_def hub_msg_id_def sample_hub_env_def encode_message_def
        encode_envelope_def schema_version_def send_frame_def new_connection_def outbox_cap_def
        upd_conn_def Let_def)
  from ne have "h' \<noteq> ready_hub" by auto
  then show ?thesis using eff cid h'
    by (auto simp: recording_dispatch_def with_db_def build_trade_record_def insert_trade_record_def db_stmt_def
        db_return_def cap funding_server_def empty_saas_db_def Let_def)
qed


theorem redispatch_refused_witness:
  "\<exists>e sv'. recording_dispatch sample_hub_env ''i1'' ''acc'' ''BTCUSDT'' (Fin 50000)
     [sample_intent\<lparr>oi_client_order_id := ''o1''\<rparr>] (trade_server TsPending) = (Inl e, sv')"
proof -
  have "oi_client_order_id (sample_intent\<lparr>oi_client_order_id := ''o1''\<rparr>)
      \<in> td_client_order_id ` set (db_trades (sv_db (trade_server TsPending)))"
    by (simp add: trade_server_def sample_trade_def)
  with redispatch_refused [of "sample_intent\<lparr>oi_client_order_id := ''o1''\<rparr>"
      "[sample_intent\<lparr>oi_client_order_id := ''o1''\<rparr>]" "trade_server TsPending"] show ?thesis
    by simp blast
qed

section \<open>Stale data\<close>

lemma load_trailing_bars:
  assumes "load_trailing klines pair count now db = (Inr bars, db')"
  shows "set bars \<subseteq> kl_bar ` {k \<in> set klines. kl_symbol k = pair \<and> kl_interval k = ''1m'' \<and> br_open_time (kl_bar k) \<le> now}"
proof -
  obtain bars' db1 where l: "load_klines klines pair ''1m'' (sub64 now (mul64 count bar_interval_ms)) now db = (Inr bars', db1)"
    and b: "set bars \<subseteq> set bars'"
    using assms by (auto simp: load_trailing_def db_bind_def db_return_def db_fail_def dest: in_set_dropD
        split: if_splits prod.splits sum.splits)
  from l have "set bars' \<subseteq> kl_bar ` {k \<in> set klines. kl_symbol k = pair \<and> kl_interval k = ''1m'' \<and> br_open_time (kl_bar k) \<le> now}"
    by (auto simp: load_klines_def db_stmt_def Let_def split: if_splits)
  with b show ?thesis by blast
qed

lemma tick_read_stale:
  assumes "\<And>k. k \<in> set klines \<Longrightarrow> kl_symbol k = si_pair inst \<Longrightarrow> kl_interval k = ''1m'' \<Longrightarrow>
      br_open_time (kl_bar k) \<le> now \<Longrightarrow> eff_max_bar_staleness_ms staleness < sub64 now (br_open_time (kl_bar k))"
  shows "\<exists>e db'. tick_read resolve klines staleness inst now db = (Inl e, db')"
proof (cases "tick_read resolve klines staleness inst now db")
  case (Pair r db')
  have m: "\<exists>e db'. tick_market klines staleness inst now ps rs strat gene db = (Inl e, db')" for ps rs strat gene db
  proof (cases "load_trailing klines (si_pair inst) (sg_min_eval_bars strat) now db")
    case (Pair l db1)
    have "snd (bar_staleness (snd (split_bars bars)) now (eff_max_bar_staleness_ms staleness))" if "l = Inr bars" for bars
    proof (cases "bars = []")
      case False
      then have "last bars \<in> set bars" by simp
      with load_trailing_bars Pair that obtain k where "k \<in> set klines" "last bars = kl_bar k"
        "kl_symbol k = si_pair inst" "kl_interval k = ''1m''" "br_open_time (kl_bar k) \<le> now" by blast
      with False assms [of k] show ?thesis by (simp add: bar_staleness_def split_bars_def last_map)
    qed (simp add: bar_staleness_def split_bars_def)
    with Pair show ?thesis by (cases l) (auto simp: tick_market_def tick_bind_def tick_db_def)
  qed
  show ?thesis
  proof (cases r)
    case (Inr cx)
    with Pair obtain ps rs strat gene db1 where
      "tick_market klines staleness inst now ps rs strat gene db1 = (Inr cx, db')"
      unfolding tick_read_def by (auto elim!: tick_bind_Inr split: sum.splits)
    with m [of ps rs strat gene db1] show ?thesis by simp
  qed (use Pair in simp)
qed

lemma stamp_tick_keeps:
  "sv_hub (stamp_tick inst wall sv) = sv_hub sv" "db_trades (sv_db (stamp_tick inst wall sv)) = db_trades (sv_db sv)"
  "db_portfolios (sv_db (stamp_tick inst wall sv)) = db_portfolios (sv_db sv)"
  by (simp_all add: stamp_tick_def with_db_def set_last_tick_wall_time_def update_instances_def db_stmt_def Let_def
      split: prod.splits)

lemma reads_tick_read: "reads (tick_read resolve klines staleness inst now)"
proof -
  have bind: "reads (\<lambda>db. tick_bind (tick_db (f db)) k)" if "reads f" "\<And>x. reads (k x)"
    for f :: "saas_db \<Rightarrow> 'x db_res" and k :: "'x \<Rightarrow> saas_db \<Rightarrow> (tick_err + 'y) \<times> saas_db"
  proof -
    have "same_tables db (snd (tick_bind (tick_db (f db)) k))" for db
    proof (cases "f db")
      case (Pair r db1)
      have "same_tables db db1" by (rule readsD [OF that(1) Pair])
      moreover have "same_tables db1 (snd (k x db1))" for x using that(2) by (simp add: reads_def)
      ultimately show ?thesis
        by (cases r) (auto simp: tick_bind_def tick_db_def Pair intro: same_tables_trans)
    qed
    then show ?thesis by (simp add: reads_def)
  qed
  have ret: "reads (\<lambda>db. (x, db))" for x :: 'z by (simp add: reads_def)
  have guard: "reads f \<Longrightarrow> reads (\<lambda>db. if b then (x, db) else f db)" for b and f :: "saas_db \<Rightarrow> 'z \<times> saas_db" and x
    by (simp add: reads_def)
  have stmts: "reads (portfolio_latest i)" "reads (runtime_get i)" "reads (new_executions_for_instance i w)" for i w
    unfolding portfolio_latest_def runtime_get_def new_executions_for_instance_def
    by (intro guard reads_stmt; simp)+
  have m: "reads (tick_market klines staleness inst now ps rs strat gene)" for ps rs strat gene
    unfolding tick_market_def by (intro bind reads_load_trailing guard stmts ret)
  have "reads (\<lambda>db. case champion_gene resolve inst of Inl e \<Rightarrow> (Inl e, db)
      | Inr (strat, gene) \<Rightarrow> tick_market klines staleness inst now ps rs strat gene db)" for ps rs
    using m ret by (cases "champion_gene resolve inst") (simp_all add: case_prod_unfold)
  then show ?thesis unfolding tick_read_def by (intro bind stmts)
qed

text \<open>
  C5: A tick without a fresh bar does nothing: when no one-minute bar of the pair is recent enough, the
  tick returns an error, whatever the strategy and whichever statements fail, and leaves the trades,
  the portfolio rows and every connection as they were.
\<close>

theorem stale_data_no_trade:
  fixes sv :: "'t server"
  assumes "\<And>k. k \<in> set klines \<Longrightarrow> kl_symbol k = si_pair inst \<Longrightarrow> kl_interval k = ''1m'' \<Longrightarrow>
      br_open_time (kl_bar k) \<le> now \<Longrightarrow> eff_max_bar_staleness_ms staleness < sub64 now (br_open_time (kl_bar k))"
    and "tick env resolve klines staleness busy inst now wall sv = (r, sv')"
  shows "(\<exists>e. r = Inl e) \<and> sv_hub sv' = sv_hub sv \<and> db_trades (sv_db sv') = db_trades (sv_db sv) \<and>
    db_portfolios (sv_db sv') = db_portfolios (sv_db sv)"
proof (cases busy)
  case False
  obtain e db' where t: "tick_read resolve klines staleness inst now (sv_db sv) = (Inl e, db')"
    using tick_read_stale [OF assms(1)] by blast
  then have "same_tables (sv_db sv) db'" by (rule readsD [OF reads_tick_read])
  with t assms(2) False show ?thesis
    by (auto simp: tick_def stamp_tick_keeps same_tables_simps)
qed (use assms(2) in \<open>auto simp: tick_def\<close>)

theorem stale_data_no_trade_witness:
  "\<exists>e sv'. tick sample_hub_env (\<lambda>_. Inr quiet_strategy) sample_klines 0 False deployed_instance 3660000 9 ledger_server
     = (Inl e, sv') \<and> db_portfolios (sv_db sv') = [sample_row]"
proof -
  obtain r sv' where t: "tick sample_hub_env (\<lambda>_. Inr quiet_strategy) sample_klines 0 False deployed_instance
      3660000 9 ledger_server = (r, sv')" by fastforce
  have "eff_max_bar_staleness_ms 0 < sub64 3660000 (br_open_time (kl_bar k))" if "k \<in> set sample_klines" for k
    using that by (simp add: sample_klines_def sample_bar_def eff_max_bar_staleness_ms_def in64_def)
  with stale_data_no_trade [OF _ t] t show ?thesis by (auto simp: ledger_server_def)
qed

end
