(* ===== verification/Quant.thy ===== *)
theory Quant
  imports Dispatch
begin

text \<open>
  The numerical library the engine and the strategies share (\<open>internal/quant\<close>): moving averages,
  dispersion, moments and autocorrelation over compensated sums, clipping, rounding, friction, and
  the projections of bars. The functions of Go's \<open>math\<close> package that are not single IEEE operations
  (square root, exponential, logarithm, power) are a record of functions.
\<close>

record libm =
  m_sqrt :: "f64 \<Rightarrow> f64"
  m_exp :: "f64 \<Rightarrow> f64"
  m_log :: "f64 \<Rightarrow> f64"
  m_pow :: "f64 \<Rightarrow> f64 \<Rightarrow> f64"

section \<open>Bars and friction (\<open>domain/types.go\<close>)\<close>

type_synonym gene = "f64 list"

record segment_info =
  sm_name :: string
  sm_dimensions :: "nat list"
  sm_quantization_step :: "f64 list"
  sm_gene_step :: "f64 list"
  sm_is_critical :: bool

record eval_bar =
  eb_open_time :: int
  eb_open :: f64
  eb_high :: f64
  eb_low :: f64
  eb_close :: f64
  eb_volume :: f64
  eb_is_gap :: bool
  eb_gap_type :: string

record friction_params =
  fp_taker_fee_bps :: f64
  fp_slippage_bps :: f64

definition extract_closes :: "eval_bar list \<Rightarrow> f64 list" where
  "extract_closes = map eb_close"

definition extract_timestamps :: "eval_bar list \<Rightarrow> int list" where
  "extract_timestamps = map eb_open_time"

section \<open>Sums and averages (\<open>math.go\<close>)\<close>

fun kahan_loop :: "f64 \<Rightarrow> f64 \<Rightarrow> f64 list \<Rightarrow> f64" where
  \<comment> \<open>the running sum and its compensation\<close>
  "kahan_loop s c [] = s"
| "kahan_loop s c (x # xs) =
     (let y = f_sub x c; t = f_add s y in kahan_loop t (f_sub (f_sub t s) y) xs)"

definition kahan_sum :: "f64 list \<Rightarrow> f64" where
  "kahan_sum = kahan_loop (Fin 0) (Fin 0)"

definition f_len :: "'a list \<Rightarrow> f64" where
  "f_len xs = f_of_int (int (length xs))"

definition kahan_mean :: "f64 list \<Rightarrow> f64" where
  "kahan_mean xs = f_div (kahan_sum xs) (f_len xs)"

definition ema_alpha :: "int \<Rightarrow> f64" where
  "ema_alpha period = f_div (Fin 2) (f_add (f_of_int period) (Fin 1))"

definition ema_next :: "f64 \<Rightarrow> f64 \<Rightarrow> f64 \<Rightarrow> f64" where
  "ema_next alpha x prev = f_add (f_mul alpha x) (f_mul (f_sub (Fin 1) alpha) prev)"

fun ema_loop :: "f64 \<Rightarrow> f64 \<Rightarrow> f64 list \<Rightarrow> f64 list" where
  "ema_loop alpha prev [] = []"
| "ema_loop alpha prev (x # xs) = (let e = ema_next alpha x prev in e # ema_loop alpha e xs)"

definition ema :: "f64 list \<Rightarrow> int \<Rightarrow> f64 list option" where
  \<comment> \<open>\<open>None\<close> is the panic on a period that is not positive\<close>
  "ema series period =
     (if period \<le> 0 then None
      else Some (case series of [] \<Rightarrow> [] | x # xs \<Rightarrow> x # ema_loop (ema_alpha period) x xs))"

definition std_dev :: "libm \<Rightarrow> f64 list \<Rightarrow> f64" where
  "std_dev m series =
     (if length series < 2 then Fin 0
      else let mean = kahan_mean series;
               devsq = map (\<lambda>x. let d = f_sub x mean in f_mul d d) series
           in m_sqrt m (f_div (kahan_sum devsq) (f_of_int (int (length series) - 1))))"

fun abs_changes :: "f64 list \<Rightarrow> f64 list" where
  "abs_changes (x # y # ys) = f_abs (f_sub y x) # abs_changes (y # ys)"
| "abs_changes _ = []"

definition mav_abs_change :: "f64 list \<Rightarrow> f64" where
  "mav_abs_change series =
     (if length series < 2 then Fin 0 else kahan_mean (abs_changes series))"

definition mav_abs_change_window :: "f64 list \<Rightarrow> int \<Rightarrow> f64" where
  "mav_abs_change_window series window =
     (if window \<le> 0 \<or> length series < 2 then Fin 0
      else if int (length series) < window + 1 then Fin 0
      else kahan_mean (abs_changes (drop (length series - nat window - 1) series)))"

definition clip :: "f64 \<Rightarrow> f64 \<Rightarrow> f64 \<Rightarrow> f64" where
  \<comment> \<open>\<open>ClipFloat64\<close> for bounds that are in order, as all its callers' constants are\<close>
  "clip x lo hi = (if f_lt x lo then lo else if f_lt hi x then hi else x)"

definition clip_float64 :: "f64 \<Rightarrow> f64 \<Rightarrow> f64 \<Rightarrow> f64 option" where
  "clip_float64 x lo hi = (if f_lt hi lo then None else Some (clip x lo hi))"

fun f_math_round :: "f64 \<Rightarrow> f64" where
  \<comment> \<open>\<open>math.Round\<close>: to the nearest integer, halves away from zero, the sign kept\<close>
  "f_math_round (Fin x) =
     (let n = (if x < 0 then - \<lfloor>1 / 2 - x\<rfloor> else \<lfloor>x + 1 / 2\<rfloor>) in
      if n = 0 \<and> x < 0 then NegZero else Fin (of_int n))"
| "f_math_round a = a"

definition round_to_usdt :: "f64 \<Rightarrow> f64" where
  "round_to_usdt x = f_div (f_math_round (f_mul x (Fin 100000000))) (Fin 100000000)"

definition acf :: "f64 list \<Rightarrow> int \<Rightarrow> f64 list option" where
  "acf series max_lag =
     (if max_lag < 0 \<or> int (length series) \<le> max_lag then None
      else let n = length series; mean = kahan_mean series;
               centred = map (\<lambda>x. f_sub x mean) series;
               gamma0 = f_div (kahan_sum (map (\<lambda>c. f_mul c c) centred)) (f_len series)
           in if f_eq gamma0 (Fin 0) then Some (Fin 1 # replicate (nat max_lag) (Fin 0))
              else Some (Fin 1 # map (\<lambda>k. f_div (f_div
                  (kahan_sum (map (\<lambda>(a, b). f_mul a b) (zip centred (drop k centred)))) (f_len series)) gamma0)
                [1..<Suc (nat max_lag)]))"

definition skewness :: "libm \<Rightarrow> f64 list \<Rightarrow> f64" where
  "skewness m series =
     (if length series < 3 then Fin 0
      else let mean = kahan_mean series; d = (\<lambda>x. f_sub x mean);
               m2 = f_div (kahan_sum (map (\<lambda>x. f_mul (d x) (d x)) series)) (f_len series);
               m3 = f_div (kahan_sum (map (\<lambda>x. f_mul (f_mul (d x) (d x)) (d x)) series)) (f_len series)
           in if f_eq m2 (Fin 0) then Fin 0 else f_div m3 (m_pow m m2 (Fin (3 / 2))))"

definition excess_kurtosis :: "f64 list \<Rightarrow> f64" where
  "excess_kurtosis series =
     (if length series < 4 then Fin 0
      else let mean = kahan_mean series; dd = (\<lambda>x. f_mul (f_sub x mean) (f_sub x mean));
               m2 = f_div (kahan_sum (map dd series)) (f_len series);
               m4 = f_div (kahan_sum (map (\<lambda>x. f_mul (dd x) (dd x)) series)) (f_len series)
           in if f_eq m2 (Fin 0) then Fin 0 else f_sub (f_div m4 (f_mul m2 m2)) (Fin 3))"

section \<open>Sharpe statistics (\<open>sharpe.go\<close>)\<close>

record sharpe_stats =
  sh_observed_sharpe :: f64
  sh_skew :: f64
  sh_excess_kurt :: f64
  sh_horizon_t :: int

definition compute_sharpe_stats :: "libm \<Rightarrow> f64 list \<Rightarrow> sharpe_stats" where
  \<comment> \<open>the loop keeps three compensated sums side by side; they do not interact\<close>
  "compute_sharpe_stats m returns =
     (if length returns < 2
      then \<lparr>sh_observed_sharpe = Fin 0, sh_skew = Fin 0, sh_excess_kurt = Fin 0, sh_horizon_t = int (length returns)\<rparr>
      else let n = length returns; mean = kahan_mean returns;
               d2 = (\<lambda>x. f_mul (f_sub x mean) (f_sub x mean));
               s2 = kahan_sum (map d2 returns);
               s3 = kahan_sum (map (\<lambda>x. f_mul (d2 x) (f_sub x mean)) returns);
               s4 = kahan_sum (map (\<lambda>x. f_mul (d2 x) (d2 x)) returns);
               std = (if f_lt (Fin 0) s2 then m_sqrt m (f_div s2 (f_of_int (int n - 1))) else Fin 0);
               sharpe = (if f_lt (Fin 0) std then f_div mean std else Fin 0);
               m2 = f_div s2 (f_len returns);
               skew = (if 3 \<le> n \<and> f_lt (Fin 0) m2
                 then f_div (f_div s3 (f_len returns)) (m_pow m m2 (Fin (3 / 2))) else Fin 0);
               kurt = (if 4 \<le> n \<and> f_lt (Fin 0) m2
                 then f_sub (f_div (f_div s4 (f_len returns)) (f_mul m2 m2)) (Fin 3) else Fin 0)
           in \<lparr>sh_observed_sharpe = sharpe, sh_skew = skew, sh_excess_kurt = kurt, sh_horizon_t = int n\<rparr>)"

section \<open>Friction (\<open>friction.go\<close>)\<close>

definition apply_buy_friction :: "f64 \<Rightarrow> f64 \<Rightarrow> friction_params \<Rightarrow> f64 \<times> f64 \<times> f64" where
  "apply_buy_friction notional price fp =
     (if f_le notional (Fin 0) \<or> f_le price (Fin 0) then (Fin 0, Fin 0, Fin 0)
      else let slip_rate = f_div (fp_slippage_bps fp) (Fin 10000);
               fee_rate = f_div (fp_taker_fee_bps fp) (Fin 10000);
               exec_price = f_mul price (f_add (Fin 1) slip_rate);
               pre_fee_qty = f_div notional exec_price
           in (f_mul pre_fee_qty (f_sub (Fin 1) fee_rate), f_mul notional fee_rate,
               f_sub notional (f_mul pre_fee_qty price)))"

definition apply_sell_friction :: "f64 \<Rightarrow> f64 \<Rightarrow> friction_params \<Rightarrow> f64 \<times> f64 \<times> f64" where
  "apply_sell_friction qty price fp =
     (if f_le qty (Fin 0) \<or> f_le price (Fin 0) then (Fin 0, Fin 0, Fin 0)
      else let slip_rate = f_div (fp_slippage_bps fp) (Fin 10000);
               fee_rate = f_div (fp_taker_fee_bps fp) (Fin 10000);
               exec_price = f_mul price (f_sub (Fin 1) slip_rate);
               pre_fee_quote = f_mul qty exec_price
           in (f_mul pre_fee_quote (f_sub (Fin 1) fee_rate), f_mul pre_fee_quote fee_rate,
               f_sub (f_mul qty price) pre_fee_quote))"

section \<open>Lemmas on comparisons\<close>

lemma f_lt_irrefl [simp]: "\<not> f_lt a a"
  by (cases a) auto

lemma f_lt_trans: "f_lt a b \<Longrightarrow> f_lt b c \<Longrightarrow> f_lt a c"
  by (cases a; cases b; cases c) auto

lemma f_lt_asym: "f_lt a b \<Longrightarrow> \<not> f_lt b a"
  by (cases a; cases b) auto

lemma f_lt_nan [simp]: "\<not> f_lt NaN a" "\<not> f_lt a NaN"
  by (cases a; simp)+

lemma f_le_iff: "a \<noteq> NaN \<Longrightarrow> b \<noteq> NaN \<Longrightarrow> f_le a b \<longleftrightarrow> \<not> f_lt b a"
  by (cases a; cases b) (auto simp: f_le_def f_eq_def f_is_nan_def)

lemma f_le_nan [simp]: "\<not> f_le NaN a" "\<not> f_le a NaN"
  by (simp_all add: f_le_def f_eq_def f_is_nan_def)

lemma f_le_not_lt: "f_le a b \<Longrightarrow> \<not> f_lt b a"
  by (cases "a = NaN"; cases "b = NaN") (auto simp: f_le_iff)

lemma clip_bounds:
  assumes "\<not> f_lt hi lo" "lo \<noteq> NaN" "hi \<noteq> NaN"
  shows "\<not> f_lt (clip x lo hi) lo" "\<not> f_lt hi (clip x lo hi)"
  using assms f_lt_trans by (auto simp: clip_def)

end
