(* ===== verification/ResultPkg.thy ===== *)
theory ResultPkg
  imports Quant
begin

text \<open>
  The boundary between strategy and engine (\<open>internal/resultpkg\<close>): the enumerations, the score of a
  window with its three exclusive states, the raw result of an evaluation, the five-layer package,
  and their validators. Raw JSON fields are trees (theory Json).
\<close>

section \<open>Enumerations (\<open>enums.go\<close>)\<close>

text \<open>The Go types are strings; a value outside the constants is kept as such.\<close>

datatype window_name = Window6M | Window2Y | Window5Y | Window10Y | WindowOOS | WindowOther string

datatype skipped_by = SkippedFrom6M | SkippedFrom2Y | SkippedFrom5Y | SkippedOther string

datatype decision_status = DecisionPending | DecisionPromoted | DecisionRejected | DecisionOther string

datatype verification_status =
    VerifNotRun | VerifOK | VerifFailed | VerifInsufficientData | VerifMismatch | VerifOther string

datatype decision_color = ColorGreen | ColorYellow | ColorRed | ColorGray

datatype spawn_mode = SpawnInherit | SpawnRandomOnce | SpawnManual | SpawnOther string

definition all_windows :: "window_name list" where
  "all_windows = [Window6M, Window2Y, Window5Y, Window10Y]"

definition spawn_mode_valid :: "spawn_mode \<Rightarrow> bool" where
  "spawn_mode_valid s = (case s of SpawnOther _ \<Rightarrow> False | _ \<Rightarrow> True)"

definition decision_status_valid :: "decision_status \<Rightarrow> bool" where
  "decision_status_valid s = (case s of DecisionOther _ \<Rightarrow> False | _ \<Rightarrow> True)"

definition window_valid :: "window_name \<Rightarrow> bool" where
  "window_valid w = (case w of WindowOther _ \<Rightarrow> False | _ \<Rightarrow> True)"

definition verification_status_valid :: "verification_status \<Rightarrow> bool" where
  "verification_status_valid s = (case s of VerifOther _ \<Rightarrow> False | _ \<Rightarrow> True)"

definition skipped_by_valid :: "skipped_by \<Rightarrow> bool" where
  "skipped_by_valid s = (case s of SkippedOther _ \<Rightarrow> False | _ \<Rightarrow> True)"

definition reason_mdd_exceeded :: string where "reason_mdd_exceeded = ''mdd_exceeded''"

definition reason_nav_non_positive :: string where "reason_nav_non_positive = ''nav_non_positive''"

definition fatal_reason_valid :: "string \<Rightarrow> bool" where
  "fatal_reason_valid r \<longleftrightarrow> r = reason_mdd_exceeded \<or> r = reason_nav_non_positive"

section \<open>Scores (\<open>types.go\<close>)\<close>

record slice_score =
  sl_fatal :: bool
  sl_value :: "f64 option"
  sl_reason :: "string option"

record crucible_result =
  cr_window :: window_name
  cr_score :: slice_score
  cr_fatal_reason :: "string option"
  cr_fatal_at_bar_ts :: "int option"
  cr_fatal_mdd_value :: "f64 option"
  cr_bars_evaluated :: int
  cr_skipped_by :: "skipped_by option"

record score_total =
  st_fatal :: bool
  st_value :: "f64 option"
  st_reason :: "string option"
  st_score_raw :: "f64 option"
  st_consistency_penalty :: "f64 option"

record friction_actual =
  fa_taker_fee_bps :: f64
  fa_slippage_bps :: f64

record raw_result =
  rw_windows :: "crucible_result list"
  rw_friction_actual :: friction_actual
  rw_bars_evaluated :: int
  rw_longest_stats :: "sharpe_stats option"
  rw_longest_returns :: "f64 list"

section \<open>Validators (\<open>validate.go\<close>, \<open>validate_raw.go\<close>)\<close>

definition slice_score_ok :: "slice_score \<Rightarrow> bool" where
  "slice_score_ok s \<longleftrightarrow> \<not> (sl_fatal s \<and> sl_value s \<noteq> None)"

definition crucible_result_ok :: "crucible_result \<Rightarrow> bool" where
  \<comment> \<open>\<open>CrucibleResult.Validate\<close> returns nil\<close>
  "crucible_result_ok r \<longleftrightarrow>
     window_valid (cr_window r) \<and> 0 \<le> cr_bars_evaluated r \<and>
     (case cr_skipped_by r of None \<Rightarrow> True | Some s \<Rightarrow> skipped_by_valid s) \<and>
     \<not> (sl_fatal (cr_score r) \<and> cr_skipped_by r \<noteq> None) \<and>
     \<not> (\<not> sl_fatal (cr_score r) \<and> cr_skipped_by r = None \<and> sl_value (cr_score r) = None) \<and>
     \<not> (cr_skipped_by r \<noteq> None \<and> sl_value (cr_score r) \<noteq> None) \<and>
     \<not> (sl_fatal (cr_score r) \<and> sl_value (cr_score r) \<noteq> None) \<and>
     (if sl_fatal (cr_score r) then
        (case cr_fatal_reason r of None \<Rightarrow> True | Some x \<Rightarrow> fatal_reason_valid x) else True)"

definition skipped_by_source :: "skipped_by \<Rightarrow> window_name" where
  \<comment> \<open>\<open>skippedBySource\<close>; a missing key of the Go map reads as the empty string\<close>
  "skipped_by_source s =
     (case s of SkippedFrom6M \<Rightarrow> Window6M | SkippedFrom2Y \<Rightarrow> Window2Y | SkippedFrom5Y \<Rightarrow> Window5Y
      | SkippedOther _ \<Rightarrow> WindowOther [])"

definition canon_pos :: "window_name \<Rightarrow> nat option" where
  "canon_pos w =
     (case w of Window6M \<Rightarrow> Some 0 | Window2Y \<Rightarrow> Some 1 | Window5Y \<Rightarrow> Some 2 | Window10Y \<Rightarrow> Some 3 | _ \<Rightarrow> None)"

fun canonical_order :: "window_name list \<Rightarrow> bool" where
  "canonical_order (p # c # ws) \<longleftrightarrow>
     (case (canon_pos p, canon_pos c) of (Some pp, Some cp) \<Rightarrow> pp < cp | _ \<Rightarrow> False) \<and>
     canonical_order (c # ws)"
| "canonical_order _ \<longleftrightarrow> True"

fun cascade_ok :: "window_name option \<Rightarrow> crucible_result list \<Rightarrow> bool" where
  \<comment> \<open>the last loop of \<open>ValidateForIS\<close>, with the window that started the cascade\<close>
  "cascade_ok cause [] \<longleftrightarrow> True"
| "cascade_ok cause (w # ws) \<longleftrightarrow>
     (if sl_fatal (cr_score w) then cause = None \<and> cascade_ok (Some (cr_window w)) ws
      else case cr_skipped_by w of
        Some s \<Rightarrow> (case cause of None \<Rightarrow> False | Some c \<Rightarrow> skipped_by_source s = c) \<and> cascade_ok cause ws
      | None \<Rightarrow> cause = None \<and> cascade_ok cause ws)"

definition valid_for_is :: "raw_result \<Rightarrow> bool" where
  "valid_for_is r \<longleftrightarrow>
     rw_windows r \<noteq> [] \<and> list_all crucible_result_ok (rw_windows r) \<and>
     list_all (\<lambda>w. cr_window w \<noteq> WindowOOS) (rw_windows r) \<and>
     distinct (map cr_window (rw_windows r)) \<and>
     canonical_order (map cr_window (rw_windows r)) \<and>
     cascade_ok None (rw_windows r)"

definition valid_for_oos :: "raw_result \<Rightarrow> bool" where
  "valid_for_oos r \<longleftrightarrow> (case rw_windows r of [w] \<Rightarrow> crucible_result_ok w | _ \<Rightarrow> False)"

definition valid_for_stress :: "raw_result \<Rightarrow> bool" where
  "valid_for_stress = valid_for_is"

definition raw_result_ok :: "raw_result \<Rightarrow> bool" where
  "raw_result_ok r \<longleftrightarrow> list_all crucible_result_ok (rw_windows r)"

section \<open>The five-layer package\<close>

record repro_metadata =
  rm_epoch_seed :: int
  rm_data_version :: string
  rm_engine_version :: string
  rm_strategy_version :: string
  rm_schema_version :: string
  rm_fitness_version :: string
  rm_fingerprint_version :: string
  rm_hardware_signature :: string
  rm_go_version :: string
  rm_build_id :: string
  rm_plan_hash :: string
  rm_bars_hash :: string

record spawn_point =
  sp_spawn_mode :: spawn_mode
  sp_capital_policy :: "string option"
  sp_risk_bounds :: "json option"
  sp_meta :: "json option"

record ga_config_snapshot =
  gc_strategy_id :: string
  gc_pair :: string
  gc_pop_size :: int
  gc_max_generations :: int
  gc_elite_ratio :: f64
  gc_fatal_mdd :: f64
  gc_taker_fee_bps :: f64
  gc_slippage_bps :: f64
  gc_spawn_mode :: spawn_mode
  gc_test_mode :: bool
  gc_oos_days :: "int option"
  gc_fatal_audit_sample_rate :: "f64 option"

record champion_gene_payload =
  cg_encoding :: string
  cg_payload :: json

record result_core =
  rc_strategy_id :: string
  rc_champion_gene :: champion_gene_payload
  rc_spawn_point :: spawn_point
  rc_repro :: repro_metadata
  rc_ga_config :: ga_config_snapshot
  rc_schema_version :: string
  rc_fitness_version :: string
  rc_fingerprint_version :: string

record evaluation_layer =
  el_window_scores :: "crucible_result list"
  el_score_total :: score_total
  el_alpha_breakdown :: "json option"
  el_friction_actual :: friction_actual

record oos_result =
  oo_status :: verification_status
  oo_alpha_monthly :: "f64 option"
  oo_alpha_weekly :: "f64 option"
  oo_decision_color :: "decision_color option"
  oo_notes :: "string option"

record review_summary =
  rv_status :: verification_status
  rv_notes :: "string option"
  rv_data_scope :: "string option"

record verification_layer =
  vl_oos_result :: oos_result
  vl_review_summary :: "review_summary option"
  vl_dsr_summary :: "json option"
  vl_stress_summary :: "json option"

record audit_sample =
  as_sample_id :: string
  as_score_total :: score_total
  as_window_scores :: "crucible_result list"

record search_stats =
  ss_pop_size :: int
  ss_max_generations :: int
  ss_generations :: int
  ss_evaluations_total :: int
  ss_fatal_evaluations :: int

record diagnostics_layer =
  dl_fatal_audit_samples :: "audit_sample list"
  dl_search_stats :: "search_stats option"

record promote_layer =
  pl_decision_status :: decision_status
  pl_decision_note :: "string option"
  pl_reviewed_at_ts :: "int option"
  pl_reviewed_by :: "string option"

record challenger_package =
  pk_core :: result_core
  pk_evaluation :: evaluation_layer
  pk_verification :: verification_layer
  pk_diagnostics :: diagnostics_layer
  pk_promote :: promote_layer

definition schema_version_v533 :: string where "schema_version_v533 = ''v5.3.3''"

definition fitness_version_v1 :: string where "fitness_version_v1 = ''v1-raw-std''"

definition fingerprint_version_v1 :: string where "fingerprint_version_v1 = ''fp-v1''"

definition gene_encoding_json :: string where "gene_encoding_json = ''json''"

definition challenger_package_ok :: "challenger_package \<Rightarrow> bool" where
  \<comment> \<open>\<open>ChallengerResultPackage.Validate\<close> returns nil\<close>
  "challenger_package_ok p \<longleftrightarrow>
     rc_strategy_id (pk_core p) \<noteq> [] \<and> rc_schema_version (pk_core p) \<noteq> [] \<and>
     rc_fitness_version (pk_core p) \<noteq> [] \<and> rc_fingerprint_version (pk_core p) \<noteq> [] \<and>
     rc_schema_version (pk_core p) = rm_schema_version (rc_repro (pk_core p)) \<and>
     rc_fitness_version (pk_core p) = rm_fitness_version (rc_repro (pk_core p)) \<and>
     rc_fingerprint_version (pk_core p) = rm_fingerprint_version (rc_repro (pk_core p)) \<and>
     cg_encoding (rc_champion_gene (pk_core p)) \<noteq> [] \<and>
     cg_encoding (rc_champion_gene (pk_core p)) = gene_encoding_json \<and>
     list_all crucible_result_ok (el_window_scores (pk_evaluation p)) \<and>
     decision_status_valid (pl_decision_status (pk_promote p)) \<and>
     verification_status_valid (oo_status (vl_oos_result (pk_verification p)))"

section \<open>Comparing scores (\<open>quant/compare.go\<close>)\<close>

definition compare_fitness :: "score_total \<Rightarrow> score_total \<Rightarrow> int option" where
  \<comment> \<open>\<open>None\<close> is the panic of reading a missing value of a score that is not fatal\<close>
  "compare_fitness a b =
     (if st_fatal a \<and> st_fatal b then Some 0
      else if st_fatal a then Some 1
      else if st_fatal b then Some (- 1)
      else case (st_value a, st_value b) of
        (Some av, Some bv) \<Rightarrow> Some (if f_lt bv av then - 1 else if f_lt av bv then 1 else 0)
      | _ \<Rightarrow> None)"

end
