(* ===== verification/SigmoidGene.thy ===== *)
theory SigmoidGene
  imports ResultPkg "HOL-Library.Word"
begin

unbundle bit_operations_syntax

text \<open>
  Genes (\<open>strategies/sigmoid_v1/chromosome.go\<close>, the genetic verbs of \<open>sigmoid.go\<close>): thirteen
  dimensions in five segments, their bounds, sampling, repair, validation, block crossover and
  mutation. Go's random generator is a record of its methods. Whatever floats come in, NaN and
  infinities included, a repaired gene passes validation.
\<close>

record 'r rand_ops =
  rd_float64 :: "'r \<Rightarrow> f64 \<times> 'r"
  rd_norm_float64 :: "'r \<Rightarrow> f64 \<times> 'r"
  rd_intn :: "nat \<Rightarrow> 'r \<Rightarrow> nat \<times> 'r"
  rd_int63 :: "'r \<Rightarrow> int \<times> 'r"

section \<open>Layout (\<open>chromosome.go\<close>)\<close>

definition gene_dim :: nat where "gene_dim = 13"

definition bounds :: "(f64 \<times> f64) list" where
  "bounds =
     [(Fin (- 1), Fin 1), (Fin (- 1), Fin 1), (Fin (- 1), Fin 1),
      (f_const (1 / 2), Fin 5), (Fin 0, Fin 3),
      (Fin 5, Fin 100), (Fin 50, Fin 300), (Fin 5, Fin 50), (Fin 30, Fin 250),
      (f_const (3 / 10), f_const (12 / 10)), (f_const (5 / 100), f_const (1 / 2)),
      (Fin 10, Fin 1000), (f_const (1 / 10), f_const (1 / 2))]"

definition max_chromosome_period :: int where "max_chromosome_period = 300"

record chromosome =
  cm_a1 :: f64
  cm_a2 :: f64
  cm_a3 :: f64
  cm_beta :: f64
  cm_gamma :: f64
  cm_ema_short_period :: int
  cm_ema_long_period :: int
  cm_mav_short_period :: int
  cm_mav_long_period :: int
  cm_quiet_threshold :: f64
  cm_micro_reserve_pct :: f64
  cm_macro_inject_usd :: f64
  cm_release_drawdown_threshold :: f64

definition f_to_int :: "f64 \<Rightarrow> int" where
  \<comment> \<open>\<open>int(x)\<close> truncates; what does not fit gives the least integer, as on amd64\<close>
  "f_to_int a =
     (if f_finite a then
        let n = (if f_val a < 0 then - \<lfloor>- f_val a\<rfloor> else \<lfloor>f_val a\<rfloor>) in if in64 n then n else - (2 ^ 63)
      else - (2 ^ 63))"

definition period_of :: "f64 \<Rightarrow> int" where
  "period_of x = f_to_int (f_math_round x)"

definition decode_chromosome :: "gene \<Rightarrow> chromosome option" where
  "decode_chromosome g =
     (if length g \<noteq> gene_dim then None
      else Some \<lparr>cm_a1 = g ! 0, cm_a2 = g ! 1, cm_a3 = g ! 2, cm_beta = g ! 3, cm_gamma = g ! 4,
        cm_ema_short_period = period_of (g ! 5), cm_ema_long_period = period_of (g ! 6),
        cm_mav_short_period = period_of (g ! 7), cm_mav_long_period = period_of (g ! 8),
        cm_quiet_threshold = g ! 9, cm_micro_reserve_pct = g ! 10, cm_macro_inject_usd = g ! 11,
        cm_release_drawdown_threshold = g ! 12\<rparr>)"

definition encode_chromosome :: "chromosome \<Rightarrow> gene" where
  "encode_chromosome c =
     [cm_a1 c, cm_a2 c, cm_a3 c, cm_beta c, cm_gamma c,
      f_of_int (cm_ema_short_period c), f_of_int (cm_ema_long_period c),
      f_of_int (cm_mav_short_period c), f_of_int (cm_mav_long_period c),
      cm_quiet_threshold c, cm_micro_reserve_pct c, cm_macro_inject_usd c,
      cm_release_drawdown_threshold c]"

definition default_chromosome :: chromosome where
  "default_chromosome =
     \<lparr>cm_a1 = Fin (1 / 2), cm_a2 = f_const (3 / 10), cm_a3 = f_const (2 / 10), cm_beta = Fin 2,
      cm_gamma = Fin (1 / 2), cm_ema_short_period = 20, cm_ema_long_period = 100,
      cm_mav_short_period = 10, cm_mav_long_period = 60, cm_quiet_threshold = f_const (7 / 10),
      cm_micro_reserve_pct = Fin (1 / 4), cm_macro_inject_usd = Fin 100,
      cm_release_drawdown_threshold = f_const (3 / 10)\<rparr>"

definition segment_infos :: "segment_info list" where
  "segment_infos =
     [\<lparr>sm_name = ''signal_weights'', sm_dimensions = [0, 1, 2],
       sm_quantization_step = map f_const [5 / 100, 5 / 100, 5 / 100],
       sm_gene_step = map f_const [2 / 10, 2 / 10, 2 / 10], sm_is_critical = True\<rparr>,
      \<lparr>sm_name = ''micro_dynamics'', sm_dimensions = [3, 4],
       sm_quantization_step = map f_const [1 / 10, 1 / 10],
       sm_gene_step = map f_const [3 / 10, 2 / 10], sm_is_critical = True\<rparr>,
      \<lparr>sm_name = ''feature_periods'', sm_dimensions = [5, 6, 7, 8],
       sm_quantization_step = [Fin 1, Fin 1, Fin 1, Fin 1],
       sm_gene_step = [Fin 5, Fin 10, Fin 5, Fin 10], sm_is_critical = True\<rparr>,
      \<lparr>sm_name = ''state_thresholds'', sm_dimensions = [9, 10],
       sm_quantization_step = map f_const [5 / 100, 2 / 100],
       sm_gene_step = map f_const [1 / 10, 5 / 100], sm_is_critical = False\<rparr>,
      \<lparr>sm_name = ''macro_release'', sm_dimensions = [11, 12],
       sm_quantization_step = [Fin 10, f_const (2 / 100)],
       sm_gene_step = [Fin 50, f_const (5 / 100)], sm_is_critical = False\<rparr>]"

section \<open>Repair and validation (\<open>sigmoid.go\<close>)\<close>

definition pad_gene :: "gene \<Rightarrow> gene" where
  \<comment> \<open>\<open>make\<close> and \<open>copy\<close>: zeros where the input is short, the rest cut off\<close>
  "pad_gene g = take gene_dim (g @ replicate gene_dim (Fin 0))"

definition clip_gene :: "gene \<Rightarrow> gene" where
  "clip_gene g = map2 (\<lambda>x b. clip x (fst b) (snd b)) (pad_gene g) bounds"

definition update_at :: "nat \<Rightarrow> (f64 \<Rightarrow> f64) \<Rightarrow> gene \<Rightarrow> gene" where
  "update_at i f g = g[i := f (g ! i)]"

definition separate :: "nat \<Rightarrow> nat \<Rightarrow> gene \<Rightarrow> gene" where
  \<comment> \<open>step 2b: the long period is pushed one above the short one and clipped again\<close>
  "separate s l g =
     (if f_le (g ! l) (g ! s)
      then g[l := clip (f_add (g ! s) (Fin 1)) (fst (bounds ! l)) (snd (bounds ! l))] else g)"

definition clamp :: "gene \<Rightarrow> gene" where
  "clamp g =
     (let g = fold (\<lambda>i. update_at i f_math_round) [5, 6, 7, 8] (clip_gene g)
      in separate 7 8 (separate 5 6 g))"

definition validate :: "gene \<Rightarrow> bool" where
  \<comment> \<open>\<open>Validate\<close> returns nil\<close>
  "validate g \<longleftrightarrow>
     length g = gene_dim \<and>
     list_all2 (\<lambda>x b. \<not> (f_lt x (fst b) \<or> f_lt (snd b) x)) g bounds \<and>
     \<not> f_le (g ! 6) (g ! 5) \<and> \<not> f_le (g ! 8) (g ! 7)"

definition min_eval_bars :: "int \<Rightarrow> int" where
  \<comment> \<open>for a positive bar interval\<close>
  "min_eval_bars bar_interval_ms =
     (let nav_peak_bars = (30 * 24 * 60 * 60 * 1000) div bar_interval_ms
      in if max_chromosome_period < nav_peak_bars then nav_peak_bars + 1 else max_chromosome_period + 1)"

section \<open>The genetic operators\<close>

fun sample_loop :: "'r rand_ops \<Rightarrow> (f64 \<times> f64) list \<Rightarrow> 'r \<Rightarrow> gene \<times> 'r" where
  "sample_loop R [] r = ([], r)"
| "sample_loop R ((lo, hi) # bs) r =
     (let (u, r) = rd_float64 R r; (g, r) = sample_loop R bs r
      in (f_add lo (f_mul u (f_sub hi lo)) # g, r))"

definition sample :: "'r rand_ops \<Rightarrow> 'r \<Rightarrow> gene \<times> 'r" where
  "sample R r = (let (g, r) = sample_loop R bounds r in (clamp g, r))"

definition f_half :: f64 where "f_half = Fin (1 / 2)"

fun copy_dims :: "nat list \<Rightarrow> gene \<Rightarrow> gene \<Rightarrow> gene option" where
  \<comment> \<open>reading beyond a parent's length panics\<close>
  "copy_dims [] src child = Some child"
| "copy_dims (i # is) src child =
     (if i < length src then copy_dims is src (child[i := src ! i]) else None)"

fun cross_segments :: "'r rand_ops \<Rightarrow> segment_info list \<Rightarrow> gene \<Rightarrow> gene \<Rightarrow> gene \<Rightarrow> 'r \<Rightarrow> gene option \<times> 'r" where
  "cross_segments R [] p1 p2 child r = (Some child, r)"
| "cross_segments R (s # ss) p1 p2 child r =
     (let (u, r) = rd_float64 R r in
      case copy_dims (sm_dimensions s) (if f_lt u f_half then p2 else p1) child of
        None \<Rightarrow> (None, r)
      | Some child \<Rightarrow> cross_segments R ss p1 p2 child r)"

definition crossover :: "'r rand_ops \<Rightarrow> gene \<Rightarrow> gene \<Rightarrow> 'r \<Rightarrow> gene option \<times> 'r" where
  "crossover R p1 p2 r =
     (case cross_segments R segment_infos p1 p2 (replicate gene_dim (Fin 0)) r of
        (None, r) \<Rightarrow> (None, r)
      | (Some child, r) \<Rightarrow>
          (let child = clamp child in
           if validate child then (Some child, r)
           else let (u, r) = rd_float64 R r in (Some (if f_lt u f_half then p1 else p2), r)))"

fun mutate_dims :: "'r rand_ops \<Rightarrow> f64 \<Rightarrow> f64 \<Rightarrow> (nat \<times> f64) list \<Rightarrow> gene \<Rightarrow> 'r \<Rightarrow> gene \<times> 'r" where
  "mutate_dims R prob scale [] g r = (g, r)"
| "mutate_dims R prob scale ((i, step) # ds) g r =
     (let (u, r) = rd_float64 R r in
      if f_lt u prob then
        let (z, r) = rd_norm_float64 R r
        in mutate_dims R prob scale ds (g[i := f_add (g ! i) (f_mul (f_mul z step) scale)]) r
      else mutate_dims R prob scale ds g r)"

definition mutate :: "'r rand_ops \<Rightarrow> gene \<Rightarrow> f64 \<Rightarrow> f64 \<Rightarrow> 'r \<Rightarrow> gene \<times> 'r" where
  "mutate R g prob scale r =
     (let child = g @ replicate (gene_dim - length g) (Fin 0);
          (child, r) = mutate_dims R prob scale
            (concat (map (\<lambda>s. zip (sm_dimensions s) (sm_gene_step s)) segment_infos)) child r
      in (clamp child, r))"

definition quantize_segments :: "segment_info list \<Rightarrow> gene \<Rightarrow> f64 list" where
  \<comment> \<open>the quantized dimensions \<open>Fingerprint\<close> hashes, in the order of the segments\<close>
  "quantize_segments segs g = concat (map (\<lambda>s. map (\<lambda>(i, step). f_mul (f_math_round (f_div (g ! i) step)) step)
     (zip (sm_dimensions s) (sm_quantization_step s))) segs)"

definition f_bits :: "f64 \<Rightarrow> int" where
  \<comment> \<open>\<open>math.Float64bits\<close>: sign, exponent and fraction\<close>
  "f_bits a =
     (if a = NaN then 0x7FF8000000000001
      else (if f_sign a then 2 ^ 63 else 0) +
        (if \<not> f_finite a then 0x7FF0000000000000
         else if f_val a = 0 then 0
         else let e = ulp_exp \<bar>f_val a\<bar>; m = \<lfloor>\<bar>f_val a\<bar> / 2 powi e\<rfloor>
              in if m < 2 ^ 52 then m else (e + 1075) * 2 ^ 52 + (m - 2 ^ 52)))"

definition le_bytes :: "int \<Rightarrow> int list" where
  "le_bytes n = map (\<lambda>k. (n div 2 ^ (8 * k)) mod 256) [0..<8]"

definition fnv1a_64 :: "int list \<Rightarrow> 64 word" where
  "fnv1a_64 bytes = fold (\<lambda>b h. (h XOR word_of_int b) * 1099511628211) bytes 14695981039346656037"

definition hex16 :: "64 word \<Rightarrow> string" where
  "hex16 w = map (\<lambda>k. hex_digit (unat w div 16 ^ (15 - k) mod 16)) [0..<16]"

definition fingerprint_of :: "segment_info list \<Rightarrow> gene \<Rightarrow> string" where
  "fingerprint_of segs g = hex16 (fnv1a_64 (concat (map (\<lambda>q. le_bytes (f_bits q)) (quantize_segments segs g))))"

definition fingerprint :: "gene \<Rightarrow> string" where
  "fingerprint = fingerprint_of segment_infos"

section \<open>A repaired gene is valid\<close>

lemma bounds_length [simp]: "length bounds = 13"
  by (simp add: bounds_def)

lemma f_round_mono:
  assumes "x \<le> y"
  shows "\<not> f_lt (f_round s y) (f_round t x)"
  using rnd_mono [OF assms] by (auto simp: f_round_def Let_def)

lemma f_const_mono: "x \<le> y \<Longrightarrow> \<not> f_lt (f_const y) (f_const x)"
  unfolding f_const_def by (rule f_round_mono)

lemma f_const_not_nan [simp]: "f_const x \<noteq> NaN"
  by (simp add: f_const_def f_round_def Let_def)

lemma f_const_int: "\<bar>n\<bar> \<le> 2 ^ 53 \<Longrightarrow> f_const (of_int n) = Fin (of_int n)"
  using rnd_representable [OF representable_int [of n]]
  by (auto simp: f_const_def f_round_def Let_def)

lemma f_add_ints:
  assumes "\<bar>a + b\<bar> \<le> 2 ^ 53"
  shows "f_add (Fin (of_int a)) (Fin (of_int b)) = Fin (of_int (a + b))"
  using rnd_representable [OF representable_int [OF assms]] assms
  by (auto simp: f_add_def f_is_nan_def f_round_def Let_def)

definition in_bounds :: "f64 \<times> f64 \<Rightarrow> f64 \<Rightarrow> bool" where
  "in_bounds b x \<longleftrightarrow> \<not> (f_lt x (fst b) \<or> f_lt (snd b) x)"

lemma clip_in_bounds:
  "\<not> f_lt hi lo \<Longrightarrow> lo \<noteq> NaN \<Longrightarrow> hi \<noteq> NaN \<Longrightarrow> in_bounds (lo, hi) (clip x lo hi)"
  by (simp add: in_bounds_def clip_bounds)

definition period_in :: "int \<Rightarrow> int \<Rightarrow> f64 \<Rightarrow> bool" where
  "period_in a b x \<longleftrightarrow> x = NaN \<or> (\<exists>n. x = Fin (of_int n) \<and> a \<le> n \<and> n \<le> b)"

lemma round_clip_period:
  assumes "0 < a" "a \<le> b"
  shows "period_in a b (f_math_round (clip x (Fin (of_int a)) (Fin (of_int b))))"
proof (cases "clip x (Fin (of_int a)) (Fin (of_int b))")
  case (Fin y)
  have "in_bounds (Fin (of_int a), Fin (of_int b)) (Fin y)"
    using clip_in_bounds [of "Fin (of_int b)" "Fin (of_int a)" x] assms Fin by simp
  then have y: "of_int a \<le> y" "y \<le> of_int b" by (auto simp: in_bounds_def)
  have "a \<le> \<lfloor>y + 1 / 2\<rfloor>" "\<lfloor>y + 1 / 2\<rfloor> \<le> b" using y by linarith+
  moreover have "(0::rat) < of_int a" using assms(1) by simp
  then have "\<not> y < 0" using y(1) by linarith
  ultimately show ?thesis unfolding Fin by (auto simp: period_in_def Let_def)
next
  case NegZero
  then show ?thesis using assms by (cases x) (auto simp: clip_def split: if_splits)
next
  case (Inf s)
  then show ?thesis using assms by (cases x) (auto simp: clip_def split: if_splits)
qed (simp add: period_in_def)

lemma separate_periods:
  assumes "period_in a b s" "period_in c d l" "b + 1 \<le> d" "0 < a" "0 < c" "\<bar>d\<bar> \<le> 2 ^ 50"
    and l': "l' = (if f_le l s then clip (f_add s (Fin 1)) (Fin (of_int c)) (Fin (of_int d)) else l)"
  shows "in_bounds (Fin (of_int c), Fin (of_int d)) l' \<and> \<not> f_le l' s"
proof (cases "f_le l s")
  case True
  with assms(1,2) obtain n m where nm: "s = Fin (of_int n)" "l = Fin (of_int m)" "a \<le> n" "n \<le> b" "c \<le> m" "m \<le> d"
    by (auto simp: period_in_def)
  have "f_add s (Fin 1) = Fin (of_int (n + 1))"
    using f_add_ints [of n 1] nm assms(3,4,6) by simp
  with nm True show ?thesis using assms(3)
    by (auto simp: l' clip_def in_bounds_def f_le_def f_eq_def f_is_nan_def)
next
  case False
  with assms(2) show ?thesis by (auto simp: l' period_in_def in_bounds_def)
qed

lemma period_in_bounds: "period_in a b x \<Longrightarrow> in_bounds (Fin (of_int a), Fin (of_int b)) x"
  by (auto simp: period_in_def in_bounds_def)

lemma validate_iff:
  "validate g \<longleftrightarrow> length g = gene_dim \<and> list_all2 (\<lambda>x b. in_bounds b x) g bounds \<and>
     \<not> f_le (g ! 6) (g ! 5) \<and> \<not> f_le (g ! 8) (g ! 7)"
  by (simp add: validate_def in_bounds_def)

lemma pad_gene_length [simp]: "length (pad_gene g) = 13"
  by (simp add: pad_gene_def gene_dim_def)

lemma clip_gene_parts:
  obtains x0 x1 x2 x3 x4 x5 x6 x7 x8 x9 x10 x11 x12 where
    "clip_gene g = map2 (\<lambda>x b. clip x (fst b) (snd b)) [x0, x1, x2, x3, x4, x5, x6, x7, x8, x9, x10, x11, x12] bounds"
proof -
  have "length (pad_gene g) = Suc (Suc (Suc (Suc (Suc (Suc (Suc (Suc (Suc (Suc (Suc (Suc (Suc 0))))))))))))" by simp
  then have "\<exists>x0 x1 x2 x3 x4 x5 x6 x7 x8 x9 x10 x11 x12.
      pad_gene g = [x0, x1, x2, x3, x4, x5, x6, x7, x8, x9, x10, x11, x12]"
    by (simp only: length_Suc_conv length_0_conv) blast
  then show ?thesis using that by (auto simp: clip_gene_def)
qed

lemma clamp_validates: "validate (clamp g)"
proof -
  obtain x0 x1 x2 x3 x4 x5 x6 x7 x8 x9 x10 x11 x12 where c: "clip_gene g =
      map2 (\<lambda>x b. clip x (fst b) (snd b)) [x0, x1, x2, x3, x4, x5, x6, x7, x8, x9, x10, x11, x12] bounds"
    by (rule clip_gene_parts)
  define es el ms ml where
    "es = f_math_round (clip x5 (Fin 5) (Fin 100))" and "el = f_math_round (clip x6 (Fin 50) (Fin 300))" and
    "ms = f_math_round (clip x7 (Fin 5) (Fin 50))" and "ml = f_math_round (clip x8 (Fin 30) (Fin 250))"
  have p: "period_in 5 100 es" "period_in 50 300 el" "period_in 5 50 ms" "period_in 30 250 ml"
    using round_clip_period [of 5 100 x5] round_clip_period [of 50 300 x6]
      round_clip_period [of 5 50 x7] round_clip_period [of 30 250 x8]
    by (simp_all add: es_def el_def ms_def ml_def)
  define el' ml' where "el' = (if f_le el es then clip (f_add es (Fin 1)) (Fin 50) (Fin 300) else el)" and
    "ml' = (if f_le ml ms then clip (f_add ms (Fin 1)) (Fin 30) (Fin 250) else ml)"
  have e: "el' = (if f_le el es then clip (f_add es (Fin 1)) (Fin (of_int 50)) (Fin (of_int 300)) else el)"
    and m: "ml' = (if f_le ml ms then clip (f_add ms (Fin 1)) (Fin (of_int 30)) (Fin (of_int 250)) else ml)"
    by (simp_all only: el'_def ml'_def of_int_numeral)
  have q: "in_bounds (Fin 50, Fin 300) el'" "\<not> f_le el' es" "in_bounds (Fin 30, Fin 250) ml'" "\<not> f_le ml' ms"
    using separate_periods [OF p(1,2) _ _ _ _ e] separate_periods [OF p(3,4) _ _ _ _ m] by simp_all
  have r: "in_bounds (Fin 5, Fin 100) es" "in_bounds (Fin 5, Fin 50) ms"
    using period_in_bounds [OF p(1)] period_in_bounds [OF p(3)] by simp_all
  have g: "clamp g = [clip x0 (Fin (- 1)) (Fin 1), clip x1 (Fin (- 1)) (Fin 1), clip x2 (Fin (- 1)) (Fin 1),
      clip x3 (f_const (1 / 2)) (Fin 5), clip x4 (Fin 0) (Fin 3), es, el', ms, ml',
      clip x9 (f_const (3 / 10)) (f_const (12 / 10)), clip x10 (f_const (5 / 100)) (f_const (1 / 2)),
      clip x11 (Fin 10) (Fin 1000), clip x12 (f_const (1 / 10)) (f_const (1 / 2))]"
    unfolding clamp_def c
    by (simp add: bounds_def update_at_def separate_def Let_def el'_def ml'_def es_def el_def ms_def ml_def)
  have five: "f_const 5 = Fin 5" using f_const_int [of 5] by simp
  have "\<not> f_lt (Fin 5) (f_const (1 / 2))" using f_const_mono [of "1 / 2" 5] five by simp
  then show ?thesis
    unfolding validate_iff g
    by (auto simp: bounds_def gene_dim_def q r intro!: clip_in_bounds f_const_mono)
qed

text \<open>
  Repairing any gene, of any length and with any floats, NaN and infinities included, gives a gene
  of thirteen dimensions that passes validation: every dimension within its bounds and each short
  period below its long one.
\<close>

theorem clamp_valid: "validate (clamp g)"
  by (rule clamp_validates)

lemma clamp_length [simp]: "length (clamp g) = 13"
  by (simp add: clamp_def separate_def update_at_def clip_gene_def Let_def)

end
