(* ===== verification/SigmoidStep.thy ===== *)
theory SigmoidStep
  imports SigmoidGene LiveTick
begin

text \<open>
  One bar of the strategy (\<open>strategies/sigmoid_v1\<close>): market state, signal, micro rebalance with
  the wedge filter, monthly injection, release of dead lots, the runtime state carried from bar to
  bar and its JSON codec, and the incremental indicators of the backtest. \<open>None\<close> is a panic.
\<close>

section \<open>Market state (\<open>market_state.go\<close>)\<close>

datatype market_state = MarketQuiet | MarketActive

definition vol_ratio_min :: f64 where "vol_ratio_min = f_const (1 / 10)"

definition vol_ratio_max :: f64 where "vol_ratio_max = Fin 3"

definition classify_vol :: "f64 \<Rightarrow> f64 \<Rightarrow> f64 \<Rightarrow> market_state \<times> f64" where
  \<comment> \<open>the classification shared by the batch and the incremental path\<close>
  "classify_vol mav_short mav_long quiet_threshold =
     (if f_eq mav_long (Fin 0) then (MarketQuiet, Fin 1)
      else let vol_ratio = clip (f_div mav_short mav_long) vol_ratio_min vol_ratio_max
           in (if f_lt vol_ratio quiet_threshold then MarketQuiet else MarketActive, vol_ratio))"

definition compute_market_state :: "f64 list \<Rightarrow> int \<Rightarrow> int \<Rightarrow> f64 \<Rightarrow> market_state \<times> f64" where
  "compute_market_state closes mav_short_period mav_long_period quiet_threshold =
     classify_vol (mav_abs_change_window closes mav_short_period)
       (mav_abs_change_window closes mav_long_period) quiet_threshold"

definition market_beta_multiplier :: "market_state \<Rightarrow> f64" where
  "market_beta_multiplier s = (case s of MarketQuiet \<Rightarrow> f_const (3 / 10) | MarketActive \<Rightarrow> Fin 1)"

section \<open>Signal and micro rebalance (\<open>signal.go\<close>)\<close>

definition combine_signal :: "chromosome \<Rightarrow> f64 \<Rightarrow> f64 \<Rightarrow> f64 \<Rightarrow> f64" where
  "combine_signal c price_deviation log_return vol_ratio =
     f_add (f_add (f_mul (cm_a1 c) price_deviation) (f_mul (cm_a2 c) log_return))
       (f_mul (cm_a3 c) (f_sub vol_ratio (Fin 1)))"

definition price_deviation :: "f64 \<Rightarrow> f64 \<Rightarrow> f64" where
  "price_deviation close ema_long =
     (if f_eq ema_long (Fin 0) then Fin 0 else f_div (f_sub close ema_long) ema_long)"

definition log_return :: "libm \<Rightarrow> f64 \<Rightarrow> f64 \<Rightarrow> f64" where
  "log_return m prev close =
     (if f_lt (Fin 0) prev \<and> f_lt (Fin 0) close then m_log m (f_div close prev) else Fin 0)"

definition compute_signal :: "libm \<Rightarrow> f64 list \<Rightarrow> chromosome \<Rightarrow> f64 \<Rightarrow> f64 option" where
  "compute_signal m closes c vol_ratio =
     (let n = length closes; p = cm_mav_short_period c in
      if n < 2 \<or> int n \<le> p then Some (Fin 0)
      else case ema closes (cm_ema_long_period c) of
        None \<Rightarrow> None
      | Some es \<Rightarrow>
          if p < 0 then None
          else Some (combine_signal c (price_deviation (last closes) (last es))
            (log_return m (closes ! (n - 1 - nat p)) (last closes)) vol_ratio))"

record micro_inputs =
  mi_dead_btc :: f64
  mi_float_btc :: f64
  mi_usdt :: f64
  mi_price :: f64
  mi_signal :: f64
  mi_market_beta_mul :: f64

record micro_result =
  mr_total_equity :: f64
  mr_current_weight :: f64
  mr_effective_beta :: f64
  mr_target_weight :: f64
  mr_delta_weight :: f64
  mr_theoretical_usd :: f64

definition compute_micro_rebalance :: "libm \<Rightarrow> chromosome \<Rightarrow> micro_inputs \<Rightarrow> micro_result" where
  "compute_micro_rebalance m c i =
     (let total_equity = f_add (f_mul (f_add (mi_dead_btc i) (mi_float_btc i)) (mi_price i)) (mi_usdt i);
          floor_eq = f_const (1 / 10 ^ 12);
          denom = (if f_lt total_equity floor_eq then floor_eq else total_equity);
          current_weight = f_div (f_mul (mi_float_btc i) (mi_price i)) denom;
          beta0 = f_mul (cm_beta c) (mi_market_beta_mul i);
          effective_beta = (if f_lt beta0 (f_const (1 / 100)) then f_const (1 / 100) else beta0);
          inv_bias = f_sub (clip current_weight (Fin 0) (Fin 1)) (Fin (1 / 2));
          exponent = f_add (f_mul effective_beta (mi_signal i)) (f_mul (cm_gamma c) inv_bias);
          target_weight = clip (f_div (Fin 1) (f_add (Fin 1) (m_exp m exponent))) (Fin 0) (Fin 1);
          delta_weight = f_sub target_weight current_weight
      in \<lparr>mr_total_equity = total_equity, mr_current_weight = current_weight,
          mr_effective_beta = effective_beta, mr_target_weight = target_weight,
          mr_delta_weight = delta_weight, mr_theoretical_usd = f_mul delta_weight total_equity\<rparr>)"

section \<open>Monthly injection (\<open>macro.go\<close>)\<close>

definition civil_month :: "int \<Rightarrow> int \<times> int" where
  \<comment> \<open>the year and the month, in UTC, of a count of days since 1970-01-01\<close>
  "civil_month days =
     (let z = days + 719468; era = z div 146097; doe = z mod 146097;
          yoe = (doe - doe div 1460 + doe div 36524 - doe div 146096) div 365;
          doy = doe - (365 * yoe + yoe div 4 - yoe div 100);
          mp = (5 * doy + 2) div 153;
          month = (if mp < 10 then mp + 3 else mp - 9)
      in (yoe + era * 400 + (if month \<le> 2 then 1 else 0), month))"

definition utc_month :: "int \<Rightarrow> int \<times> int" where
  "utc_month ms = civil_month (ms div 86400000)"

definition utc_month_bucket :: "int \<Rightarrow> int" where
  "utc_month_bucket ms = (case utc_month ms of (y, mo) \<Rightarrow> y * 12 + mo)"

datatype macro_reason = MacroNone | MacroMonthly | MacroDeadline

record macro_decision =
  md_should_inject :: bool
  md_amount_usd :: f64
  md_reason :: macro_reason

definition macro_deadline_window_ms :: int where
  "macro_deadline_window_ms = 60 * 24 * 60 * 60 * 1000"

definition evaluate_macro_engine :: "int \<Rightarrow> int \<Rightarrow> int \<Rightarrow> f64 \<Rightarrow> macro_decision" where
  "evaluate_macro_engine now_ms last_bar_ms last_macro_ms inject_usd =
     (if 0 < last_bar_ms \<and> utc_month_bucket now_ms \<noteq> utc_month_bucket last_bar_ms
      then \<lparr>md_should_inject = True, md_amount_usd = inject_usd, md_reason = MacroMonthly\<rparr>
      else if last_macro_ms = 0 \<or> macro_deadline_window_ms \<le> sub64 now_ms last_macro_ms
      then \<lparr>md_should_inject = True, md_amount_usd = f_mul inject_usd (Fin (1 / 2)), md_reason = MacroDeadline\<rparr>
      else \<lparr>md_should_inject = False, md_amount_usd = Fin 0, md_reason = MacroNone\<rparr>)"

section \<open>Runtime state (\<open>runtime_state.go\<close>)\<close>

record runtime_state =
  ru_schema_version :: int
  ru_last_macro_buy_ms :: int
  ru_last_release_ms :: int
  ru_nav_peak_ms :: "int list"
  ru_nav_peak_value :: "f64 list"

definition fresh_runtime_state :: runtime_state where
  "fresh_runtime_state = \<lparr>ru_schema_version = 1, ru_last_macro_buy_ms = 0, ru_last_release_ms = 0,
     ru_nav_peak_ms = [], ru_nav_peak_value = []\<rparr>"

definition zero_runtime_state :: runtime_state where
  "zero_runtime_state = fresh_runtime_state\<lparr>ru_schema_version := 0\<rparr>"

definition json_int :: "json \<Rightarrow> int option" where
  "json_int v = (case v of JInt n \<Rightarrow> if in64 n then Some n else None | JNull \<Rightarrow> Some 0 | _ \<Rightarrow> None)"

definition json_float :: "json \<Rightarrow> f64 option" where
  "json_float v = (case v of JInt n \<Rightarrow> json_f64 (n < 0) (of_int n) | JDec neg q \<Rightarrow> json_f64 neg q
     | JNull \<Rightarrow> Some (Fin 0) | _ \<Rightarrow> None)"

definition runtime_state_fields :: "(string \<times> runtime_state setter) list" where
  "runtime_state_fields =
     [(''schema_version'', int_field ru_schema_version_update),
      (''last_macro_buy_ms'', int_field ru_last_macro_buy_ms_update),
      (''last_release_ms'', int_field ru_last_release_ms_update),
      (''nav_peak_window_ms'', list_field json_int ru_nav_peak_ms_update),
      (''nav_peak_window_value'', list_field json_float ru_nav_peak_value_update)]"

definition decode_runtime_state :: "json option \<Rightarrow> runtime_state option" where
  \<comment> \<open>no bytes at all are the absent tree; \<open>None\<close> is the decoding error\<close>
  "decode_runtime_state raw =
     (case raw of
        None \<Rightarrow> Some fresh_runtime_state
      | Some JNull \<Rightarrow> Some fresh_runtime_state
      | Some v \<Rightarrow>
          (case unmarshal runtime_state_fields v zero_runtime_state of
             None \<Rightarrow> None
           | Some rs \<Rightarrow> Some (if ru_schema_version rs \<noteq> 1 then fresh_runtime_state else rs)))"

definition marshal_float :: "f64 \<Rightarrow> json option" where
  \<comment> \<open>\<open>json.Marshal\<close> refuses NaN and infinities\<close>
  "marshal_float x =
     (if \<not> f_finite x then None
      else if x \<noteq> NegZero \<and> of_int \<lfloor>f_val x\<rfloor> = f_val x \<and> \<bar>f_val x\<bar> < 10 ^ 21 then Some (JInt \<lfloor>f_val x\<rfloor>)
      else Some (JDec (f_sign x) (f_val x)))"

fun marshal_floats :: "f64 list \<Rightarrow> json list option" where
  "marshal_floats [] = Some []"
| "marshal_floats (x # xs) =
     (case marshal_float x of None \<Rightarrow> None | Some j \<Rightarrow> map_option (\<lambda>js. j # js) (marshal_floats xs))"

definition encode_runtime_state :: "runtime_state \<Rightarrow> json option" where
  \<comment> \<open>a nil slice is written as \<open>null\<close>, which decodes to the empty slice as \<open>[]\<close> does\<close>
  "encode_runtime_state rs =
     map_option (\<lambda>vs. JObj
       [(''schema_version'', JInt 1), (''last_macro_buy_ms'', JInt (ru_last_macro_buy_ms rs)),
        (''last_release_ms'', JInt (ru_last_release_ms rs)),
        (''nav_peak_window_ms'', JArr (map JInt (ru_nav_peak_ms rs))),
        (''nav_peak_window_value'', JArr vs)])
     (marshal_floats (ru_nav_peak_value rs))"

section \<open>Release (\<open>release.go\<close>)\<close>

definition nav_peak_window_duration_ms :: int where
  "nav_peak_window_duration_ms = 30 * 24 * 60 * 60 * 1000"

definition release_cooldown_ms :: int where
  "release_cooldown_ms = 7 * 24 * 60 * 60 * 1000"

fun stale_prefix :: "int \<Rightarrow> int list \<Rightarrow> nat" where
  \<comment> \<open>the index of the first entry not older than the cutoff, or the length\<close>
  "stale_prefix cutoff [] = 0"
| "stale_prefix cutoff (t # ts) = (if cutoff \<le> t then 0 else Suc (stale_prefix cutoff ts))"

definition roll_nav_peak_window :: "int \<Rightarrow> f64 \<Rightarrow> runtime_state \<Rightarrow> (f64 \<times> runtime_state) option" where
  "roll_nav_peak_window now_ms nav rs =
     (let keep = stale_prefix (sub64 now_ms nav_peak_window_duration_ms) (ru_nav_peak_ms rs) in
      if length (ru_nav_peak_value rs) < keep then None
      else let rs = rs\<lparr>ru_nav_peak_ms := drop keep (ru_nav_peak_ms rs) @ [now_ms],
                       ru_nav_peak_value := drop keep (ru_nav_peak_value rs) @ [nav]\<rparr>
           in Some (fold (\<lambda>v peak. if f_lt peak v then v else peak) (ru_nav_peak_value rs) nav, rs))"

definition compute_release_qty :: "f64 \<Rightarrow> f64 \<Rightarrow> f64" where
  "compute_release_qty dead float =
     (if f_le dead (Fin 0) \<or> f_le float (Fin 0) then Fin 0
      else let cap_dead = f_mul dead (f_const (1 / 10)); cap_float = f_mul float (f_const (2 / 10))
           in if f_lt cap_float cap_dead then cap_float else cap_dead)"

definition evaluate_release ::
  "runtime_state \<Rightarrow> int \<Rightarrow> f64 \<Rightarrow> f64 \<Rightarrow> f64 \<Rightarrow> f64 \<Rightarrow> f64 \<Rightarrow> (f64 \<times> f64) option" where
  \<comment> \<open>the quantity and the drawdown of a release that fires\<close>
  "evaluate_release rs now_ms nav peak dead float threshold =
     (if f_le peak (Fin 0) then None
      else let drawdown = f_div (f_sub peak nav) peak in
        if f_le drawdown threshold then None
        else if ru_last_release_ms rs \<noteq> 0 \<and> sub64 now_ms (ru_last_release_ms rs) < release_cooldown_ms then None
        else let qty = compute_release_qty dead float in
          if f_le qty (Fin 0) then None else Some (qty, drawdown))"

section \<open>The step (\<open>step.go\<close>)\<close>

fun format2 :: "f64 \<Rightarrow> string" where
  \<comment> \<open>\<open>%.2f\<close>\<close>
  "format2 (Fin q) = (let n = nat (round_half_even (\<bar>q\<bar> * 100)) in
     (if q < 0 then ''-'' else []) @ show_nat (n div 100) @ ''.'' @ pad_digits 2 (n mod 100))"
| "format2 NegZero = ''-0.00''"
| "format2 (Inf neg) = (if neg then ''-Inf'' else ''+Inf'')"
| "format2 NaN = ''NaN''"

definition min_micro_order_usd :: f64 where "min_micro_order_usd = Fin 5"

definition order_ttl_ms :: int where "order_ttl_ms = 60000"

definition wedge_break :: "f64 \<Rightarrow> f64 \<Rightarrow> bool" where
  "wedge_break delta_weight vol_ratio \<longleftrightarrow>
     f_le (f_const (5 / 1000)) (f_abs delta_weight) \<or> f_le (Fin (5 / 2)) vol_ratio"

definition build_micro_orders :: "int \<Rightarrow> micro_result \<Rightarrow> f64 \<Rightarrow> market_state \<Rightarrow> order_intent list" where
  "build_micro_orders now_ms r vol_ratio state =
     (let a = f_abs (mr_theoretical_usd r);
          order = (\<lambda>q. [\<lparr>oi_kind = ''micro'',
            oi_side = (if f_lt (mr_delta_weight r) (Fin 0) then ''sell'' else ''buy''),
            oi_order_type = ''market'', oi_quantity_usd = q, oi_limit_price = Fin 0,
            oi_client_order_id = ''micro-'' @ show_int now_ms,
            oi_valid_until_ms = add64 now_ms order_ttl_ms\<rparr>])
      in if f_eq a (Fin 0) then []
         else if f_lt a min_micro_order_usd then
           (if state = MarketQuiet \<or> \<not> wedge_break (mr_delta_weight r) vol_ratio then []
            else order min_micro_order_usd)
         else order a)"

definition spendable_usdt :: "f64 \<Rightarrow> f64 \<Rightarrow> f64 \<Rightarrow> f64" where
  "spendable_usdt usdt reserve_pct total_equity =
     (let reserve = f_mul reserve_pct total_equity;
          reserve = (if f_lt reserve (Fin 0) then Fin 0 else reserve);
          spendable = f_sub usdt reserve
      in if f_lt (Fin 0) spendable then spendable else Fin 0)"

definition apply_macro_decision ::
  "int \<Rightarrow> int \<Rightarrow> portfolio \<Rightarrow> chromosome \<Rightarrow> runtime_state \<Rightarrow> f64 \<Rightarrow> order_intent list \<times> runtime_state" where
  "apply_macro_decision now_ms last_bar_ms p c rs total_equity =
     (let d = evaluate_macro_engine now_ms last_bar_ms (ru_last_macro_buy_ms rs) (cm_macro_inject_usd c) in
      if \<not> md_should_inject d then ([], rs)
      else if f_lt (spendable_usdt (pf_usdt p) (cm_micro_reserve_pct c) total_equity) (md_amount_usd d) then ([], rs)
      else ([\<lparr>oi_kind = ''macro'', oi_side = ''buy'', oi_order_type = ''market'',
              oi_quantity_usd = md_amount_usd d, oi_limit_price = Fin 0,
              oi_client_order_id = ''macro-'' @ show_int now_ms,
              oi_valid_until_ms = add64 now_ms order_ttl_ms\<rparr>],
            rs\<lparr>ru_last_macro_buy_ms := now_ms\<rparr>))"

definition apply_release_decision ::
  "int \<Rightarrow> portfolio \<Rightarrow> chromosome \<Rightarrow> runtime_state \<Rightarrow> f64 \<Rightarrow> f64 \<Rightarrow> release_intent list \<times> runtime_state" where
  "apply_release_decision now_ms p c rs nav peak =
     (case evaluate_release rs now_ms nav peak (pf_dead_btc p) (pf_float_btc p) (cm_release_drawdown_threshold c) of
        None \<Rightarrow> ([], rs)
      | Some (qty, drawdown) \<Rightarrow>
          ([\<lparr>ri_now_ms = now_ms, ri_quantity = qty, ri_reason = ''drawdown_'' @ format2 drawdown\<rparr>],
           rs\<lparr>ru_last_release_ms := now_ms\<rparr>))"

record debug_snapshot =
  db_signal :: f64
  db_target_weight :: f64
  db_market_state :: market_state

record core_output =
  co_macro :: "order_intent list"
  co_micro :: "order_intent list"
  co_release :: "release_intent list"
  co_state :: runtime_state
  co_debug :: "debug_snapshot option"

definition step_core_from_indicators ::
  "libm \<Rightarrow> int \<Rightarrow> int \<Rightarrow> portfolio \<Rightarrow> runtime_state \<Rightarrow> chromosome \<Rightarrow> market_state \<Rightarrow> f64 \<Rightarrow> f64 \<Rightarrow> f64
    \<Rightarrow> bool \<Rightarrow> core_output option" where
  "step_core_from_indicators m now_ms last_bar_ms p rs c state vol_ratio signal price want_debug =
     (let micro = compute_micro_rebalance m c \<lparr>mi_dead_btc = pf_dead_btc p, mi_float_btc = pf_float_btc p,
            mi_usdt = pf_usdt p, mi_price = price, mi_signal = signal,
            mi_market_beta_mul = market_beta_multiplier state\<rparr>;
          micro_orders = build_micro_orders now_ms micro vol_ratio state;
          (macro_orders, rs) = apply_macro_decision now_ms last_bar_ms p c rs (mr_total_equity micro);
          nav = f_add (f_mul (f_add (pf_dead_btc p) (pf_float_btc p)) price) (pf_usdt p)
      in case roll_nav_peak_window now_ms nav rs of
           None \<Rightarrow> None
         | Some (peak, rs) \<Rightarrow>
             (let (releases, rs) = apply_release_decision now_ms p c rs nav peak
              in Some \<lparr>co_macro = macro_orders, co_micro = micro_orders, co_release = releases,
                co_state = rs, co_debug = (if want_debug
                  then Some \<lparr>db_signal = signal, db_target_weight = mr_target_weight micro, db_market_state = state\<rparr>
                  else None)\<rparr>))"

definition step_core ::
  "libm \<Rightarrow> f64 list \<Rightarrow> int \<Rightarrow> int \<Rightarrow> portfolio \<Rightarrow> runtime_state \<Rightarrow> chromosome \<Rightarrow> core_output option" where
  "step_core m closes now_ms last_bar_ms p rs c =
     (let (state, vol_ratio) = compute_market_state closes (cm_mav_short_period c) (cm_mav_long_period c)
            (cm_quiet_threshold c);
          price = (if closes = [] then Fin 0 else last closes)
      in case compute_signal m closes c vol_ratio of
           None \<Rightarrow> None
         | Some signal \<Rightarrow>
             step_core_from_indicators m now_ms last_bar_ms p rs c state vol_ratio signal price True)"

definition sigmoid_step :: "libm \<Rightarrow> (gene, spawn_point) strategy_input \<Rightarrow> (string + strategy_output) option" where
  "sigmoid_step m input =
     (case decode_runtime_state (sn_runtime_state input) of
        None \<Rightarrow> Some (Inl ''decode runtime state'')
      | Some rs \<Rightarrow>
        (case decode_chromosome (sn_chromosome input) of
           None \<Rightarrow> Some (Inl ''decode chromosome'')
         | Some c \<Rightarrow>
           (case step_core m (sn_closes input) (sn_now_ms input) (sn_last_processed_bar_time input)
                   (sn_portfolio input) rs c of
              None \<Rightarrow> None
            | Some out \<Rightarrow>
              (case encode_runtime_state (co_state out) of
                 None \<Rightarrow> Some (Inl ''encode runtime state'')
               | Some blob \<Rightarrow> Some (Inr \<lparr>so_macro_orders = co_macro out, so_micro_orders = co_micro out,
                   so_release_intents = co_release out, so_runtime_state = Some blob\<rparr>)))))"

section \<open>Incremental indicators (\<open>indicator_state.go\<close>)\<close>

record ring =
  rg_buf :: "f64 list"
  rg_head :: nat
  rg_full :: bool

definition new_ring :: "nat \<Rightarrow> ring" where
  "new_ring n = \<lparr>rg_buf = replicate n (Fin 0), rg_head = 0, rg_full = False\<rparr>"

definition ring_push :: "f64 \<Rightarrow> ring \<Rightarrow> ring" where
  "ring_push x r =
     (let h = Suc (rg_head r) mod length (rg_buf r)
      in \<lparr>rg_buf = (rg_buf r)[rg_head r := x], rg_head = h, rg_full = (rg_full r \<or> h = 0)\<rparr>)"

record mav_ring =
  mg_ring :: ring
  mg_sum :: f64

definition mav_push :: "f64 \<Rightarrow> mav_ring \<Rightarrow> mav_ring" where
  "mav_push d g =
     (let r = mg_ring g; s = (if rg_full r then f_sub (mg_sum g) (rg_buf r ! rg_head r) else mg_sum g)
      in \<lparr>mg_ring = ring_push d r, mg_sum = f_add s d\<rparr>)"

record indicators =
  in_ema_long :: f64
  in_alpha_long :: f64
  in_has_first :: bool
  in_mav_short :: mav_ring
  in_mav_long :: mav_ring
  in_lookback :: ring
  in_prev_close :: f64

definition new_indicators :: "chromosome \<Rightarrow> indicators option" where
  \<comment> \<open>\<open>make\<close> panics on a negative length\<close>
  "new_indicators c =
     (if cm_mav_short_period c < 0 \<or> cm_mav_long_period c < 0 then None
      else Some \<lparr>in_ema_long = Fin 0, in_alpha_long = ema_alpha (cm_ema_long_period c), in_has_first = False,
        in_mav_short = \<lparr>mg_ring = new_ring (nat (cm_mav_short_period c)), mg_sum = Fin 0\<rparr>,
        in_mav_long = \<lparr>mg_ring = new_ring (nat (cm_mav_long_period c)), mg_sum = Fin 0\<rparr>,
        in_lookback = new_ring (Suc (nat (cm_mav_short_period c))), in_prev_close = Fin 0\<rparr>)"

definition update_indicators :: "f64 \<Rightarrow> indicators \<Rightarrow> indicators" where
  \<comment> \<open>for periods that are positive\<close>
  "update_indicators close s =
     (let s = s\<lparr>in_lookback := ring_push close (in_lookback s)\<rparr> in
      if \<not> in_has_first s
      then s\<lparr>in_ema_long := close, in_prev_close := close, in_has_first := True\<rparr>
      else let diff = f_abs (f_sub close (in_prev_close s))
           in s\<lparr>in_ema_long := ema_next (in_alpha_long s) close (in_ema_long s),
                in_mav_short := mav_push diff (in_mav_short s),
                in_mav_long := mav_push diff (in_mav_long s),
                in_prev_close := close\<rparr>)"

definition incr_market_state :: "f64 \<Rightarrow> indicators \<Rightarrow> market_state \<times> f64" where
  "incr_market_state quiet_threshold s =
     (if \<not> rg_full (mg_ring (in_mav_long s)) \<or> \<not> rg_full (mg_ring (in_mav_short s))
      then (MarketQuiet, Fin 1)
      else classify_vol (f_div (mg_sum (in_mav_short s)) (f_len (rg_buf (mg_ring (in_mav_short s)))))
        (f_div (mg_sum (in_mav_long s)) (f_len (rg_buf (mg_ring (in_mav_long s))))) quiet_threshold)"

definition incr_signal :: "libm \<Rightarrow> chromosome \<Rightarrow> f64 \<Rightarrow> f64 \<Rightarrow> indicators \<Rightarrow> f64" where
  "incr_signal m c vol_ratio close s =
     (if \<not> in_has_first s then Fin 0
      else combine_signal c (price_deviation close (in_ema_long s))
        (if rg_full (in_lookback s) then log_return m (rg_buf (in_lookback s) ! rg_head (in_lookback s)) close
         else Fin 0) vol_ratio)"

end
