(* ===== verification/SigmoidSim.thy ===== *)
theory SigmoidSim
  imports SigmoidStep
begin

text \<open>
  The backtest (\<open>strategies/sigmoid_v1\<close>): the accounting of orders against the three wallets
  (\<open>simulator.go\<close>), the loop over the bars of a window with its drawdown limit
  (\<open>evaluate_window.go\<close>), the cascade over the windows (\<open>sigmoidAdapter.Evaluate\<close>), and the toy
  strategy's evaluation (\<open>strategies/toy\<close>).
\<close>

section \<open>Accounting (\<open>simulator.go\<close>)\<close>

definition apply_buy ::
  "string \<Rightarrow> (f64 \<Rightarrow> portfolio \<Rightarrow> portfolio) \<Rightarrow> portfolio \<Rightarrow> order_intent \<Rightarrow> f64 \<Rightarrow> friction_params
    \<Rightarrow> portfolio \<times> bool" where
  \<comment> \<open>the common body of \<open>applyMacroBuy\<close> and \<open>applyMicroBuy\<close>: the kind, and the wallet credited\<close>
  "apply_buy kind credit p ord price fp =
     (if oi_kind ord \<noteq> kind \<or> oi_side ord \<noteq> ''buy'' then (p, False)
      else if f_le (oi_quantity_usd ord) (Fin 0) \<or> f_le price (Fin 0) then (p, False)
      else if f_lt (pf_usdt p) (oi_quantity_usd ord) then (p, False)
      else let filled = fst (apply_buy_friction (oi_quantity_usd ord) price fp)
           in if f_le filled (Fin 0) then (p, False)
              else (credit filled (p\<lparr>pf_usdt := f_sub (pf_usdt p) (oi_quantity_usd ord)\<rparr>), True))"

definition apply_macro_buy :: "portfolio \<Rightarrow> order_intent \<Rightarrow> f64 \<Rightarrow> friction_params \<Rightarrow> portfolio \<times> bool" where
  "apply_macro_buy = apply_buy ''macro'' (\<lambda>q p. p\<lparr>pf_dead_btc := f_add (pf_dead_btc p) q\<rparr>)"

definition apply_micro_buy :: "portfolio \<Rightarrow> order_intent \<Rightarrow> f64 \<Rightarrow> friction_params \<Rightarrow> portfolio \<times> bool" where
  "apply_micro_buy = apply_buy ''micro'' (\<lambda>q p. p\<lparr>pf_float_btc := f_add (pf_float_btc p) q\<rparr>)"

definition apply_micro_sell :: "portfolio \<Rightarrow> order_intent \<Rightarrow> f64 \<Rightarrow> friction_params \<Rightarrow> portfolio \<times> bool" where
  "apply_micro_sell p ord price fp =
     (if oi_kind ord \<noteq> ''micro'' \<or> oi_side ord \<noteq> ''sell'' then (p, False)
      else if f_le (oi_quantity_usd ord) (Fin 0) \<or> f_le price (Fin 0) then (p, False)
      else if f_le (pf_float_btc p) (Fin 0) then (p, False)
      else let qty = f_div (oi_quantity_usd ord) price;
               qty = (if f_lt (pf_float_btc p) qty then pf_float_btc p else qty);
               quote = fst (apply_sell_friction qty price fp)
           in if f_le quote (Fin 0) then (p, False)
              else (p\<lparr>pf_float_btc := f_sub (pf_float_btc p) qty, pf_usdt := f_add (pf_usdt p) quote\<rparr>, True))"

definition sim_release :: "portfolio \<Rightarrow> release_intent \<Rightarrow> portfolio \<times> bool" where
  "sim_release p ri =
     (if f_le (ri_quantity ri) (Fin 0) \<or> f_lt (pf_dead_btc p) (ri_quantity ri) then (p, False)
      else (p\<lparr>pf_dead_btc := f_sub (pf_dead_btc p) (ri_quantity ri),
              pf_float_btc := f_add (pf_float_btc p) (ri_quantity ri)\<rparr>, True))"

definition sim_micro :: "f64 \<Rightarrow> friction_params \<Rightarrow> order_intent \<Rightarrow> portfolio \<Rightarrow> portfolio" where
  "sim_micro price fp ord p =
     (if oi_side ord = ''buy'' then fst (apply_micro_buy p ord price fp)
      else if oi_side ord = ''sell'' then fst (apply_micro_sell p ord price fp)
      else p)"

definition apply_strategy_output ::
  "portfolio \<Rightarrow> order_intent list \<Rightarrow> order_intent list \<Rightarrow> release_intent list \<Rightarrow> f64 \<Rightarrow> friction_params \<Rightarrow> portfolio" where
  "apply_strategy_output p macro micro releases price fp =
     fold (sim_micro price fp) micro
       (fold (\<lambda>ord p. fst (apply_macro_buy p ord price fp)) macro
         (fold (\<lambda>ri p. fst (sim_release p ri)) releases p))"

section \<open>One window (\<open>evaluate_window.go\<close>)\<close>

record crucible_window =
  cw_name :: window_name
  cw_start_ts :: int
  cw_end_ts :: int
  cw_warmup_len :: int
  cw_bars :: "eval_bar list"

record equity_path =
  ep_nav_at_start :: f64
  ep_peak :: f64
  ep_max_dd :: f64
  ep_bars_scored :: int
  ep_prev_nav :: f64
  ep_log_returns :: "f64 list"

record sim_state =
  sx_portfolio :: portfolio
  sx_runtime :: runtime_state
  sx_last_bar :: int
  sx_indicators :: indicators
  sx_path :: equity_path

definition nav_of :: "portfolio \<Rightarrow> f64 \<Rightarrow> f64" where
  "nav_of p price = f_add (f_mul (f_add (pf_dead_btc p) (pf_float_btc p)) price) (pf_usdt p)"

definition score_bar :: "libm \<Rightarrow> f64 \<Rightarrow> bool \<Rightarrow> f64 \<Rightarrow> equity_path \<Rightarrow> equity_path \<times> f64 option" where
  \<comment> \<open>the bookkeeping of a scored bar, the first one or a later one; the drawdown when it is fatal\<close>
  "score_bar m fatal_mdd first pre_nav ep =
     (let ep = (if first then ep\<lparr>ep_nav_at_start := pre_nav, ep_peak := pre_nav, ep_prev_nav := pre_nav\<rparr> else ep);
          ep = ep\<lparr>ep_bars_scored := ep_bars_scored ep + 1,
                  ep_log_returns := ep_log_returns ep @
                    (if \<not> first \<and> f_lt (Fin 0) (ep_prev_nav ep) \<and> f_lt (Fin 0) pre_nav
                     then [m_log m (f_div pre_nav (ep_prev_nav ep))] else []),
                  ep_prev_nav := pre_nav,
                  ep_peak := (if f_lt (ep_peak ep) pre_nav then pre_nav else ep_peak ep)\<rparr>
      in if f_lt (Fin 0) (ep_peak ep) then
           (let dd = f_div (f_sub (ep_peak ep) pre_nav) (ep_peak ep);
                ep = ep\<lparr>ep_max_dd := (if f_lt (ep_max_dd ep) dd then dd else ep_max_dd ep)\<rparr>
            in (ep, if f_le fatal_mdd dd then Some dd else None))
         else (ep, None))"

definition trade_bar ::
  "libm \<Rightarrow> chromosome \<Rightarrow> friction_params \<Rightarrow> eval_bar \<Rightarrow> sim_state \<Rightarrow> sim_state option" where
  \<comment> \<open>the strategy body and the orders of a bar; a gap bar's orders are dropped\<close>
  "trade_bar m c fp bar s =
     (let (state, vol_ratio) = incr_market_state (cm_quiet_threshold c) (sx_indicators s);
          signal = incr_signal m c vol_ratio (eb_close bar) (sx_indicators s)
      in case step_core_from_indicators m (eb_open_time bar) (sx_last_bar s) (sx_portfolio s) (sx_runtime s) c
                state vol_ratio signal (eb_close bar) False of
           None \<Rightarrow> None
         | Some out \<Rightarrow> Some (s\<lparr>
             sx_portfolio := (if eb_is_gap bar then sx_portfolio s
               else apply_strategy_output (sx_portfolio s) (co_macro out) (co_micro out) (co_release out) (eb_close bar) fp),
             sx_runtime := co_state out, sx_last_bar := eb_open_time bar\<rparr>))"

text \<open>How the loop over the bars ends: a drawdown beyond the limit, or the end of the bars.\<close>

datatype window_end = FatalAt int f64 equity_path | WindowDone sim_state

fun run_bars ::
  "libm \<Rightarrow> chromosome \<Rightarrow> friction_params \<Rightarrow> f64 \<Rightarrow> int \<Rightarrow> int \<Rightarrow> eval_bar list \<Rightarrow> sim_state \<Rightarrow> window_end option" where
  "run_bars m c fp fatal_mdd warmup i [] s = Some (WindowDone s)"
| "run_bars m c fp fatal_mdd warmup i (bar # bars) s =
     (let s = s\<lparr>sx_indicators := update_indicators (eb_close bar) (sx_indicators s)\<rparr>;
          pre_nav = nav_of (sx_portfolio s) (eb_close bar);
          (ep, fatal) = (if warmup \<le> i then score_bar m fatal_mdd (i = warmup) pre_nav (sx_path s)
                         else (sx_path s, None));
          s = s\<lparr>sx_path := ep\<rparr>
      in case fatal of
           Some dd \<Rightarrow> Some (FatalAt (eb_open_time bar) dd ep)
         | None \<Rightarrow>
             (case trade_bar m c fp bar s of
                None \<Rightarrow> None
              | Some s \<Rightarrow> run_bars m c fp fatal_mdd warmup (i + 1) bars s))"

definition start_path :: equity_path where
  "start_path = \<lparr>ep_nav_at_start = Fin 0, ep_peak = Fin 0, ep_max_dd = Fin 0, ep_bars_scored = 0,
     ep_prev_nav = Fin 0, ep_log_returns = []\<rparr>"

definition cash_portfolio :: "f64 \<Rightarrow> portfolio" where
  "cash_portfolio usdt = \<lparr>pf_dead_btc = Fin 0, pf_float_btc = Fin 0, pf_cold_sealed_btc = Fin 0, pf_usdt = usdt\<rparr>"

definition fatal_result :: "window_name \<Rightarrow> string \<Rightarrow> int \<Rightarrow> f64 \<Rightarrow> int \<Rightarrow> crucible_result" where
  "fatal_result name reason ts mdd bars =
     \<lparr>cr_window = name, cr_score = \<lparr>sl_fatal = True, sl_value = None, sl_reason = None\<rparr>,
      cr_fatal_reason = Some reason, cr_fatal_at_bar_ts = Some ts, cr_fatal_mdd_value = Some mdd,
      cr_bars_evaluated = bars, cr_skipped_by = None\<rparr>"

definition close_window ::
  "libm \<Rightarrow> window_name \<Rightarrow> eval_bar \<Rightarrow> sim_state \<Rightarrow> crucible_result \<times> sharpe_stats option \<times> f64 list" where
  \<comment> \<open>after the last bar: the final value, and the score when the logarithm is defined\<close>
  "close_window m name final_bar s =
     (let ep = sx_path s; nav_final = nav_of (sx_portfolio s) (eb_close final_bar) in
      if f_le (ep_nav_at_start ep) (Fin 0) \<or> f_le nav_final (Fin 0)
      then (fatal_result name reason_nav_non_positive (eb_open_time final_bar) (Fin 1) (ep_bars_scored ep), None, [])
      else let returns = ep_log_returns ep @
                 (if f_lt (Fin 0) (ep_prev_nav ep) then [m_log m (f_div nav_final (ep_prev_nav ep))] else [])
           in (\<lparr>cr_window = name,
                cr_score = \<lparr>sl_fatal = False, sl_value = Some (m_log m (f_div nav_final (ep_nav_at_start ep))), sl_reason = None\<rparr>,
                cr_fatal_reason = None, cr_fatal_at_bar_ts = None, cr_fatal_mdd_value = None,
                cr_bars_evaluated = ep_bars_scored ep, cr_skipped_by = None\<rparr>,
               Some (compute_sharpe_stats m returns), returns))"

text \<open>A panic is the outer \<open>None\<close>; an error is \<open>Inl\<close>.\<close>

definition evaluate_window ::
  "libm \<Rightarrow> gene \<Rightarrow> crucible_window \<Rightarrow> friction_params \<Rightarrow> f64 \<Rightarrow> f64
    \<Rightarrow> (string + crucible_result \<times> sharpe_stats option \<times> f64 list) option" where
  "evaluate_window m g w fp fatal_mdd initial_usdt =
     (if cw_bars w = [] then Some (Inl ''no bars'')
      else if int (length (cw_bars w)) \<le> cw_warmup_len w then Some (Inl ''WarmupLen >= len(Bars)'')
      else case decode_chromosome g of
        None \<Rightarrow> Some (Inl ''decode chromosome'')
      | Some c \<Rightarrow>
          (case new_indicators c of
             None \<Rightarrow> None
           | Some ind \<Rightarrow>
             (case run_bars m c fp fatal_mdd (cw_warmup_len w) 0 (cw_bars w)
                     \<lparr>sx_portfolio = cash_portfolio initial_usdt, sx_runtime = fresh_runtime_state,
                      sx_last_bar = 0, sx_indicators = ind, sx_path = start_path\<rparr> of
                None \<Rightarrow> None
              | Some (FatalAt ts dd ep) \<Rightarrow>
                  Some (Inr (fatal_result (cw_name w) reason_mdd_exceeded ts dd (ep_bars_scored ep), None, []))
              | Some (WindowDone s) \<Rightarrow> Some (Inr (close_window m (cw_name w) (last (cw_bars w)) s)))))"

section \<open>The cascade (\<open>sigmoidAdapter.Evaluate\<close>)\<close>

record dca_baseline =
  dc_final_equity :: f64
  dc_total_injected :: f64
  dc_max_drawdown :: f64

record evaluable_plan =
  pn_pair :: string
  pn_spawn :: spawn_point
  pn_lot_step :: f64
  pn_lot_min :: f64
  pn_fatal_mdd :: f64
  pn_initial_usdt :: f64
  pn_windows :: "crucible_window list"
  pn_dca_monthly :: dca_baseline
  pn_dca_weekly :: dca_baseline
  pn_oos_window :: "crucible_window option"
  pn_friction :: friction_params
  pn_capture_returns :: bool

definition plan_window :: "evaluable_plan \<Rightarrow> window_name \<Rightarrow> crucible_window option" where
  \<comment> \<open>the map from names to windows: a later window of the same name wins\<close>
  "plan_window plan name = find (\<lambda>w. cw_name w = name) (rev (pn_windows plan))"

definition cascade_cause :: "window_name \<Rightarrow> skipped_by option" where
  "cascade_cause name =
     (case name of Window6M \<Rightarrow> Some SkippedFrom6M | Window2Y \<Rightarrow> Some SkippedFrom2Y
      | Window5Y \<Rightarrow> Some SkippedFrom5Y | _ \<Rightarrow> None)"

definition skipped_result :: "window_name \<Rightarrow> skipped_by \<Rightarrow> crucible_result" where
  "skipped_result name s =
     \<lparr>cr_window = name, cr_score = \<lparr>sl_fatal = False, sl_value = None, sl_reason = None\<rparr>,
      cr_fatal_reason = None, cr_fatal_at_bar_ts = None, cr_fatal_mdd_value = None,
      cr_bars_evaluated = 0, cr_skipped_by = Some s\<rparr>"

fun cascade_loop ::
  "(crucible_window \<Rightarrow> (string + crucible_result \<times> sharpe_stats option \<times> f64 list) option) \<Rightarrow> bool
    \<Rightarrow> evaluable_plan \<Rightarrow> window_name list \<Rightarrow> skipped_by option \<Rightarrow> raw_result \<Rightarrow> (string + raw_result) option" where
  \<comment> \<open>the loop over the names; the last argument collects the result\<close>
  "cascade_loop ev capture plan [] from acc = Some (Inr acc)"
| "cascade_loop ev capture plan (name # names) from acc =
     (case plan_window plan name of
        None \<Rightarrow> cascade_loop ev capture plan names from acc
      | Some w \<Rightarrow>
        (case from of
           Some s \<Rightarrow> cascade_loop ev capture plan names from
             (acc\<lparr>rw_windows := rw_windows acc @ [skipped_result name s]\<rparr>)
         | None \<Rightarrow>
           (case ev w of
              None \<Rightarrow> None
            | Some (Inl e) \<Rightarrow> Some (Inl e)
            | Some (Inr (res, stats, ret)) \<Rightarrow>
                cascade_loop ev capture plan names (if sl_fatal (cr_score res) then cascade_cause name else None)
                  (acc\<lparr>rw_windows := rw_windows acc @ [res],
                       rw_bars_evaluated := rw_bars_evaluated acc + cr_bars_evaluated res,
                       rw_longest_stats := (if stats \<noteq> None then stats else rw_longest_stats acc),
                       rw_longest_returns := (if stats \<noteq> None \<and> capture then ret else rw_longest_returns acc)\<rparr>))))"

definition sigmoid_evaluate :: "libm \<Rightarrow> evaluable_plan \<Rightarrow> gene \<Rightarrow> (string + raw_result) option" where
  "sigmoid_evaluate m plan g =
     cascade_loop (\<lambda>w. evaluate_window m g w (pn_friction plan) (pn_fatal_mdd plan) (pn_initial_usdt plan))
       (pn_capture_returns plan) plan all_windows None
       \<lparr>rw_windows = [], rw_friction_actual = \<lparr>fa_taker_fee_bps = fp_taker_fee_bps (pn_friction plan),
          fa_slippage_bps = fp_slippage_bps (pn_friction plan)\<rparr>,
        rw_bars_evaluated = 0, rw_longest_stats = None, rw_longest_returns = []\<rparr>"

end
