(* ===== verification/SigmoidTheorems.thy ===== *)
theory SigmoidTheorems
  imports SigmoidSim
begin

text \<open>
  What the strategy guarantees to the engine and to the ledger: wallets that are never overdrawn,
  results with a coherent cascade, incremental indicators that agree with the batch ones to the
  bit, and a peak window that holds exactly the last thirty days.
\<close>

section \<open>No wallet is overdrawn\<close>

definition not_negative :: "f64 \<Rightarrow> bool" where
  "not_negative x \<longleftrightarrow> \<not> f_lt x (Fin 0)"

definition solvent :: "portfolio \<Rightarrow> bool" where
  "solvent p \<longleftrightarrow> not_negative (pf_usdt p) \<and> not_negative (pf_dead_btc p) \<and> not_negative (pf_float_btc p)"

lemma f_round_not_negative: "0 \<le> x \<Longrightarrow> not_negative (f_round s x)"
  using rnd_nonneg [of x] by (auto simp: not_negative_def f_round_def Let_def)

lemma add_not_negative: "not_negative a \<Longrightarrow> not_negative b \<Longrightarrow> not_negative (f_add a b)"
  using f_round_not_negative
  by (cases a; cases b) (auto simp: not_negative_def f_add_def f_is_nan_def Let_def)

lemma sub_not_negative: "\<not> f_lt a b \<Longrightarrow> not_negative (f_sub a b)"
  using f_round_not_negative [of "f_val a - f_val b"]
  by (cases a; cases b) (auto simp: not_negative_def f_sub_def f_add_def f_is_nan_def Let_def)

lemma not_le_zero: "\<not> f_le x (Fin 0) \<Longrightarrow> not_negative x"
  by (auto simp: not_negative_def f_le_def)

lemma apply_buy_solvent:
  assumes "solvent p" "\<And>q p. not_negative q \<Longrightarrow> solvent p \<Longrightarrow> solvent (credit q p)"
  shows "solvent (fst (apply_buy kind credit p ord price fp))"
proof -
  have "solvent (p\<lparr>pf_usdt := f_sub (pf_usdt p) (oi_quantity_usd ord)\<rparr>)"
    if "\<not> f_lt (pf_usdt p) (oi_quantity_usd ord)"
    using that assms(1) sub_not_negative by (simp add: solvent_def)
  then show ?thesis using assms not_le_zero by (simp add: apply_buy_def Let_def)
qed

lemma micro_sell_solvent:
  assumes "solvent p"
  shows "solvent (fst (apply_micro_sell p ord price fp))"
proof -
  let ?q = "f_div (oi_quantity_usd ord) price"
  have "\<not> f_lt (pf_float_btc p) (if f_lt (pf_float_btc p) ?q then pf_float_btc p else ?q)" by simp
  from sub_not_negative [OF this] assms show ?thesis
    by (auto simp: apply_micro_sell_def solvent_def Let_def intro: add_not_negative dest: not_le_zero)
qed

lemma release_solvent: "solvent p \<Longrightarrow> solvent (fst (sim_release p ri))"
  by (auto simp: sim_release_def solvent_def intro: add_not_negative sub_not_negative dest: not_le_zero)

text \<open>
  C15: Whatever orders and releases a bar brings, with whatever quantities, price and friction, NaN and
  infinities included, no wallet is overdrawn: cash, the lots that must not be sold and the floating
  lots are never negative after it when they were not before.
\<close>

theorem wallets_never_negative:
  assumes "solvent p"
  shows "solvent (apply_strategy_output p macro micro releases price fp)"
proof -
  have r: "solvent (fold (\<lambda>ri p. fst (sim_release p ri)) releases p)"
    by (rule fold_keeps [where P = solvent]) (use assms release_solvent in auto)
  have m: "solvent (fold (\<lambda>ord p. fst (apply_macro_buy p ord price fp)) macro q)" if "solvent q" for q
    by (rule fold_keeps [where P = solvent])
      (use that in \<open>auto simp: apply_macro_buy_def intro!: apply_buy_solvent\<close>,
       auto simp: solvent_def add_not_negative)
  have "solvent (sim_micro price fp ord q)" if "solvent q" for ord q
    using that micro_sell_solvent [OF that]
    by (auto simp: sim_micro_def apply_micro_buy_def intro!: apply_buy_solvent)
      (auto simp: solvent_def add_not_negative)
  then have "solvent (fold (sim_micro price fp) micro q)" if "solvent q" for q
    using that by (intro fold_keeps [where P = solvent])
  then show ?thesis using r m by (simp add: apply_strategy_output_def)
qed

theorem wallets_never_negative_witness:
  "solvent (apply_strategy_output (cash_portfolio (Fin 1000))
     [\<lparr>oi_kind = ''macro'', oi_side = ''buy'', oi_order_type = ''market'', oi_quantity_usd = Fin 1000,
       oi_limit_price = Fin 0, oi_client_order_id = ''macro-1'', oi_valid_until_ms = 2\<rparr>] [] []
     (Fin 50000) \<lparr>fp_taker_fee_bps = Fin 10, fp_slippage_bps = Fin 5\<rparr>)"
  by (rule wallets_never_negative) (simp add: solvent_def cash_portfolio_def not_negative_def)

section \<open>The cascade is coherent\<close>

lemma score_bar_counts:
  "score_bar m fatal first nav ep = (ep', dd) \<Longrightarrow> ep_bars_scored ep' = ep_bars_scored ep + 1"
  by (auto simp: score_bar_def Let_def split: if_splits)

lemma trade_bar_path: "trade_bar m c fp bar s = Some s' \<Longrightarrow> sx_path s' = sx_path s"
  by (auto simp: trade_bar_def split: prod.splits option.splits)

definition scored :: "window_end \<Rightarrow> int" where
  "scored e = (case e of FatalAt _ _ ep \<Rightarrow> ep_bars_scored ep | WindowDone s \<Rightarrow> ep_bars_scored (sx_path s))"

lemma run_bars_scored:
  "run_bars m c fp fatal warmup i bars s = Some e \<Longrightarrow> ep_bars_scored (sx_path s) \<le> scored e"
proof (induction bars arbitrary: i s)
  case (Cons bar bars)
  let ?s = "s\<lparr>sx_indicators := update_indicators (eb_close bar) (sx_indicators s)\<rparr>"
  obtain ep dd where b: "(if warmup \<le> i then score_bar m fatal (i = warmup) (nav_of (sx_portfolio ?s) (eb_close bar)) (sx_path ?s)
      else (sx_path ?s, None)) = (ep, dd)" by fastforce
  then have le: "ep_bars_scored (sx_path s) \<le> ep_bars_scored ep"
    by (auto dest: score_bar_counts split: if_splits)
  show ?case
  proof (cases dd)
    case None
    with Cons.prems b obtain s' where t: "trade_bar m c fp bar (?s\<lparr>sx_path := ep\<rparr>) = Some s'"
      "run_bars m c fp fatal warmup (i + 1) bars s' = Some e"
      by (auto simp: Let_def split: option.splits)
    from Cons.IH [OF t(2)] trade_bar_path [OF t(1)] le show ?thesis by simp
  next
    case (Some d)
    with Cons.prems b le show ?thesis by (auto simp: Let_def scored_def)
  qed
qed (auto simp: scored_def)

lemma evaluate_window_ok:
  assumes "evaluate_window m g w fp fatal usdt = Some (Inr (res, stats, ret))" "window_valid (cw_name w)"
  shows "crucible_result_ok res \<and> cr_window res = cw_name w \<and> cr_skipped_by res = None"
proof -
  from assms(1) obtain c ind e where e: "run_bars m c fp fatal (cw_warmup_len w) 0 (cw_bars w)
      \<lparr>sx_portfolio = cash_portfolio usdt, sx_runtime = fresh_runtime_state, sx_last_bar = 0,
       sx_indicators = ind, sx_path = start_path\<rparr> = Some e" and
    r: "(case e of FatalAt ts dd ep \<Rightarrow> (fatal_result (cw_name w) reason_mdd_exceeded ts dd (ep_bars_scored ep), None, [])
      | WindowDone s \<Rightarrow> close_window m (cw_name w) (last (cw_bars w)) s) = (res, stats, ret)"
    by (auto simp: evaluate_window_def split: if_splits option.splits window_end.splits)
  from run_bars_scored [OF e] have "0 \<le> scored e" by (simp add: start_path_def)
  with r assms(2) show ?thesis
    by (auto simp: scored_def fatal_result_def close_window_def crucible_result_ok_def fatal_reason_valid_def Let_def
        split: window_end.splits if_splits)
qed

fun cascading :: "window_name list \<Rightarrow> bool" where
  "cascading [] \<longleftrightarrow> True"
| "cascading (n # ns) \<longleftrightarrow> window_valid n \<and> (ns = [] \<or> cascade_cause n \<noteq> None) \<and> cascading ns"

lemma cascade_cause_source: "cascade_cause n = Some s \<Longrightarrow> skipped_by_source s = n \<and> skipped_by_valid s"
  by (auto simp: cascade_cause_def skipped_by_source_def skipped_by_valid_def split: window_name.splits)

definition cause_agrees :: "skipped_by option \<Rightarrow> window_name option \<Rightarrow> window_name list \<Rightarrow> bool" where
  "cause_agrees from cause names \<longleftrightarrow>
     (case from of
        None \<Rightarrow> cause = None \<or> names = []
      | Some s \<Rightarrow> cause = Some (skipped_by_source s) \<and> skipped_by_valid s)"

lemma skipped_result_ok [simp]:
  "window_valid n \<Longrightarrow> skipped_by_valid s \<Longrightarrow> crucible_result_ok (skipped_result n s)"
  "cr_window (skipped_result n s) = n" "\<not> sl_fatal (cr_score (skipped_result n s))"
  "cr_skipped_by (skipped_result n s) = Some s"
  by (simp_all add: skipped_result_def crucible_result_ok_def)

lemma plan_window_name: "plan_window plan n = Some w \<Longrightarrow> cw_name w = n"
  by (auto simp: plan_window_def find_Some_iff)

lemma cascade_loop_windows:
  assumes "\<And>w res stats ret. window_valid (cw_name w) \<Longrightarrow> ev w = Some (Inr (res, stats, ret)) \<Longrightarrow>
      crucible_result_ok res \<and> cr_window res = cw_name w \<and> cr_skipped_by res = None"
    and "cascade_loop ev capture plan names from acc = Some (Inr r)" "cascading names"
    and "cause_agrees from cause names"
  shows "\<exists>rs. rw_windows r = rw_windows acc @ rs \<and>
    map cr_window rs = filter (\<lambda>n. plan_window plan n \<noteq> None) names \<and>
    list_all crucible_result_ok rs \<and> cascade_ok cause rs"
  using assms(2-4)
proof (induction names arbitrary: "from" cause acc)
  case (Cons n ns)
  show ?case
  proof (cases "plan_window plan n")
    case None
    have "cause_agrees from cause ns" using Cons.prems(3) by (simp add: cause_agrees_def split: option.splits)
    with Cons.IH [of "from" acc cause] Cons.prems(1,2) None show ?thesis by simp
  next
    case (Some w)
    then have n: "cw_name w = n" "window_valid n" using plan_window_name Cons.prems(2) by auto
    show ?thesis
    proof (cases "from")
      case (Some s)
      have ag: "cause_agrees from cause ns" using Cons.prems(3) Some by (simp add: cause_agrees_def)
      let ?acc = "acc\<lparr>rw_windows := rw_windows acc @ [skipped_result n s]\<rparr>"
      have "cascade_loop ev capture plan ns from ?acc = Some (Inr r)"
        using Cons.prems(1) Some \<open>plan_window plan n = Some w\<close> by simp
      from Cons.IH [OF this _ ag] Cons.prems(2) obtain rs where
        "rw_windows r = rw_windows acc @ skipped_result n s # rs"
        "map cr_window rs = filter (\<lambda>n. plan_window plan n \<noteq> None) ns"
        "list_all crucible_result_ok rs" "cascade_ok cause rs" by auto
      then show ?thesis using Some n \<open>plan_window plan n = Some w\<close> Cons.prems(3)
        by (intro exI [of _ "skipped_result n s # rs"])
          (simp add: skipped_result_ok cause_agrees_def)
    next
      case None
      from Cons.prems(1) None \<open>plan_window plan n = Some w\<close> obtain res stats ret where
        e: "ev w = Some (Inr (res, stats, ret))" by (auto split: option.splits sum.splits)
      define acc' where "acc' = acc\<lparr>rw_windows := rw_windows acc @ [res],
        rw_bars_evaluated := rw_bars_evaluated acc + cr_bars_evaluated res,
        rw_longest_stats := (if stats \<noteq> None then stats else rw_longest_stats acc),
        rw_longest_returns := (if stats \<noteq> None \<and> capture then ret else rw_longest_returns acc)\<rparr>"
      have a: "rw_windows acc' = rw_windows acc @ [res]" by (simp add: acc'_def)
      have l: "cascade_loop ev capture plan ns (if sl_fatal (cr_score res) then cascade_cause n else None) acc' = Some (Inr r)"
        using Cons.prems(1) None \<open>plan_window plan n = Some w\<close> e unfolding acc'_def by simp
      have ok: "crucible_result_ok res" "cr_window res = n" "cr_skipped_by res = None"
        using assms(1) [OF _ e] n by auto
      have c0: "cause = None" using Cons.prems(3) None by (simp add: cause_agrees_def)
      let ?cause = "if sl_fatal (cr_score res) then Some n else None"
      have "cause_agrees (if sl_fatal (cr_score res) then cascade_cause n else None) ?cause ns"
        using Cons.prems(2) cascade_cause_source [of n] by (auto simp: cause_agrees_def split: option.splits)
      from Cons.IH [OF l _ this] Cons.prems(2) a obtain rs where
        "rw_windows r = rw_windows acc @ res # rs"
        "map cr_window rs = filter (\<lambda>n. plan_window plan n \<noteq> None) ns"
        "list_all crucible_result_ok rs" "cascade_ok ?cause rs" by auto
      then show ?thesis using ok c0 \<open>plan_window plan n = Some w\<close>
        by (intro exI [of _ "res # rs"]) auto
    qed
  qed
qed auto

lemma windows_subset_canonical:
  "canonical_order (filter P all_windows)" "distinct (filter P all_windows)" "WindowOOS \<notin> set (filter P all_windows)"
  by (simp_all add: all_windows_def canon_pos_def)

lemma sigmoid_evaluate_result:
  assumes "sigmoid_evaluate m plan g = Some (Inr r)" "cw_name w \<in> set all_windows" "w \<in> set (pn_windows plan)"
  shows "valid_for_is r"
proof -
  let ?ev = "\<lambda>w. evaluate_window m g w (pn_friction plan) (pn_fatal_mdd plan) (pn_initial_usdt plan)"
  have "cascading all_windows" by (simp add: all_windows_def window_valid_def cascade_cause_def)
  from cascade_loop_windows [OF _ assms(1) [unfolded sigmoid_evaluate_def] this, of None] obtain rs where
    rs: "rw_windows r = rs" "map cr_window rs = filter (\<lambda>n. plan_window plan n \<noteq> None) all_windows"
      "list_all crucible_result_ok rs" "cascade_ok None rs"
    using evaluate_window_ok by (fastforce simp: cause_agrees_def)
  have "plan_window plan (cw_name w) \<noteq> None"
    using assms(3) by (auto simp: plan_window_def find_None_iff)
  with assms(2) rs(2) [symmetric] have "rs \<noteq> []" by (auto simp: filter_empty_conv)
  moreover have "WindowOOS \<notin> set (map cr_window rs)"
    unfolding rs(2) by (rule windows_subset_canonical(3))
  then have "list_all (\<lambda>w. cr_window w \<noteq> WindowOOS) rs" unfolding list_all_iff by force
  ultimately show ?thesis using rs windows_subset_canonical [of "\<lambda>n. plan_window plan n \<noteq> None"]
    by (simp add: valid_for_is_def)
qed

text \<open>
  What the strategy returns for a plan with at least one in-sample window passes the validation the
  engine runs on it: windows in the fixed order, each with exactly one of the three states, and after
  a fatal window only windows skipped because of that one.
\<close>

theorem sigmoid_result_valid:
  assumes "sigmoid_evaluate m plan g = Some (Inr r)" "cw_name w \<in> set all_windows" "w \<in> set (pn_windows plan)"
  shows "valid_for_is r"
  using assms by (rule sigmoid_evaluate_result)

definition sample_libm :: libm where
  "sample_libm = \<lparr>m_sqrt = (\<lambda>x. x), m_exp = (\<lambda>x. Fin 1), m_log = (\<lambda>x. Fin 0), m_pow = (\<lambda>x y. x)\<rparr>"

definition sample_eval_bar :: "int \<Rightarrow> eval_bar" where
  "sample_eval_bar t = \<lparr>eb_open_time = t, eb_open = Fin 100, eb_high = Fin 100, eb_low = Fin 100,
     eb_close = Fin 100, eb_volume = Fin 1, eb_is_gap = False, eb_gap_type = []\<rparr>"

definition sample_plan :: evaluable_plan where
  "sample_plan = \<lparr>pn_pair = ''BTCUSDT'',
     pn_spawn = \<lparr>sp_spawn_mode = SpawnInherit, sp_capital_policy = None, sp_risk_bounds = None, sp_meta = None\<rparr>,
     pn_lot_step = Fin 1, pn_lot_min = Fin 1, pn_fatal_mdd = Fin 0, pn_initial_usdt = Fin 1000,
     pn_windows = [\<lparr>cw_name = Window6M, cw_start_ts = 0, cw_end_ts = 9, cw_warmup_len = 0,
       cw_bars = [sample_eval_bar 60000]\<rparr>],
     pn_dca_monthly = \<lparr>dc_final_equity = Fin 0, dc_total_injected = Fin 0, dc_max_drawdown = Fin 0\<rparr>,
     pn_dca_weekly = \<lparr>dc_final_equity = Fin 0, dc_total_injected = Fin 0, dc_max_drawdown = Fin 0\<rparr>,
     pn_oos_window = None, pn_friction = \<lparr>fp_taker_fee_bps = Fin 10, fp_slippage_bps = Fin 5\<rparr>,
     pn_capture_returns = False\<rparr>"

lemma f_of_int_exact: "\<bar>n\<bar> \<le> 2 ^ 53 \<Longrightarrow> f_of_int n = Fin (of_int n)"
  using rnd_representable [OF representable_int [of n]] by (auto simp: f_of_int_def f_round_def Let_def)

lemma period_of_int:
  assumes "\<bar>n\<bar> \<le> 2 ^ 53"
  shows "period_of (f_of_int n) = n"
proof -
  have "\<lfloor>of_int n + (1 / 2 :: rat)\<rfloor> = n" "\<lfloor>(1 / 2 :: rat) - of_int n\<rfloor> = - n" by linarith+
  moreover have "in64 n" using assms by (auto simp: in64_def)
  ultimately show ?thesis
    unfolding f_of_int_exact [OF assms] period_of_def by (simp add: f_to_int_def Let_def)
qed

lemma chromosome_round_trip:
  assumes "\<bar>cm_ema_short_period c\<bar> \<le> 2 ^ 53" "\<bar>cm_ema_long_period c\<bar> \<le> 2 ^ 53"
    "\<bar>cm_mav_short_period c\<bar> \<le> 2 ^ 53" "\<bar>cm_mav_long_period c\<bar> \<le> 2 ^ 53"
  shows "decode_chromosome (encode_chromosome c) = Some c"
  using assms by (simp add: decode_chromosome_def encode_chromosome_def gene_dim_def period_of_int)

lemma sample_evaluates:
  "\<exists>r. sigmoid_evaluate sample_libm sample_plan (encode_chromosome default_chromosome) = Some (Inr r)"
proof -
  have d: "decode_chromosome (encode_chromosome default_chromosome) = Some default_chromosome"
    by (rule chromosome_round_trip) (simp_all add: default_chromosome_def)
  obtain ind where i: "new_indicators default_chromosome = Some ind"
    by (simp add: new_indicators_def default_chromosome_def)
  have nav: "nav_of (cash_portfolio (Fin 1000)) (Fin 100) = Fin 1000"
    using rnd_representable [OF representable_int [of 1000]]
    by (simp add: nav_of_def cash_portfolio_def f_add_def f_mul_def f_round_def f_is_nan_def)
  show ?thesis
    by (simp add: sigmoid_evaluate_def sample_plan_def all_windows_def plan_window_def evaluate_window_def d i
        sample_eval_bar_def nav score_bar_def start_path_def f_sub_def f_add_def f_div_def f_round_def
        f_is_nan_def f_le_def f_eq_def Let_def)
qed

theorem sigmoid_result_valid_witness:
  "\<exists>r. sigmoid_evaluate sample_libm sample_plan (encode_chromosome default_chromosome) = Some (Inr r) \<and> valid_for_is r"
proof -
  obtain r where r: "sigmoid_evaluate sample_libm sample_plan (encode_chromosome default_chromosome) = Some (Inr r)"
    using sample_evaluates by blast
  have "cw_name (hd (pn_windows sample_plan)) \<in> set all_windows" "hd (pn_windows sample_plan) \<in> set (pn_windows sample_plan)"
    by (simp_all add: sample_plan_def all_windows_def)
  from sigmoid_result_valid [OF r this] r show ?thesis by blast
qed

section \<open>Incremental and batch indicators agree\<close>

definition pushed :: "nat \<Rightarrow> f64 list \<Rightarrow> ring" where
  "pushed n xs = fold ring_push xs (new_ring n)"

lemma pushed_snoc: "pushed n (xs @ [x]) = ring_push x (pushed n xs)"
  by (simp add: pushed_def)

lemma pushed_state:
  assumes "0 < n"
  shows "length (rg_buf (pushed n xs)) = n \<and> rg_head (pushed n xs) = length xs mod n \<and>
    (rg_full (pushed n xs) \<longleftrightarrow> n \<le> length xs) \<and>
    (\<forall>i<length xs. length xs \<le> i + n \<longrightarrow> rg_buf (pushed n xs) ! (i mod n) = xs ! i)"
proof (induction xs rule: rev_induct)
  case Nil
  then show ?case using assms by (simp add: pushed_def new_ring_def)
next
  case (snoc x xs)
  let ?r = "pushed n xs" and ?k = "length xs"
  have h: "rg_head ?r < n" using snoc assms by simp
  have full: "rg_full ?r \<or> Suc ?k mod n = 0 \<longleftrightarrow> n \<le> Suc ?k"
    using snoc assms by (auto simp: mod_Suc le_Suc_eq dest: mod_less)
  have buf: "(rg_buf ?r)[rg_head ?r := x] ! (i mod n) = (xs @ [x]) ! i" if "i < Suc ?k" "Suc ?k \<le> i + n" for i
  proof (cases "i = ?k")
    case False
    with that have i: "i < ?k" "?k \<le> i + n" by auto
    have "i mod n \<noteq> ?k mod n"
    proof
      assume "i mod n = ?k mod n"
      then have "n dvd ?k - i" using i(1) by (metis mod_eq_dvd_iff_nat less_imp_le)
      with i(1) have "n \<le> ?k - i" by (auto dest: dvd_imp_le)
      with that i(1) show False by linarith
    qed
    with i snoc show ?thesis by (simp add: nth_append)
  qed (use snoc h in \<open>simp add: nth_append\<close>)
  show ?case using snoc full buf assms
    by (auto simp: pushed_snoc ring_push_def Let_def mod_Suc_eq)
qed

lemma pushed_oldest:
  assumes "0 < n" "n \<le> length xs"
  shows "rg_buf (pushed n xs) ! rg_head (pushed n xs) = xs ! (length xs - n)"
proof -
  have "(length xs - n) mod n = length xs mod n" using assms(2) by (simp add: le_mod_geq)
  with pushed_state [OF assms(1), of xs] assms show ?thesis by (metis diff_less le_add_diff_inverse2 le_refl less_le_trans)
qed

definition indicators_after :: "chromosome \<Rightarrow> f64 list \<Rightarrow> indicators option" where
  "indicators_after c closes = map_option (fold update_indicators closes) (new_indicators c)"

lemma indicators_state:
  assumes "new_indicators c = Some s"
  shows "in_alpha_long (fold update_indicators xs s) = ema_alpha (cm_ema_long_period c) \<and>
    (in_has_first (fold update_indicators xs s) \<longleftrightarrow> xs \<noteq> []) \<and>
    in_lookback (fold update_indicators xs s) = pushed (Suc (nat (cm_mav_short_period c))) xs \<and>
    (xs \<noteq> [] \<longrightarrow> in_ema_long (fold update_indicators xs s) =
      fold (ema_next (ema_alpha (cm_ema_long_period c))) (tl xs) (hd xs))"
proof (induction xs rule: rev_induct)
  case Nil
  then show ?case using assms by (auto simp: new_indicators_def pushed_def split: if_splits)
next
  case (snoc x xs)
  then show ?case
    by (cases "xs = []") (auto simp: update_indicators_def Let_def pushed_def)
qed

lemma last_ema_loop: "last (x # ema_loop alpha x xs) = fold (ema_next alpha) xs x"
  by (induction xs arbitrary: x) (auto simp: Let_def)

text \<open>
  C21: After any number of bars the incremental indicators of the backtest give the very signal the batch
  functions of the live path compute from the whole history, bit for bit, for the same volatility
  ratio, once the history is longer than the short period.
\<close>

theorem incremental_signal_is_batch:
  assumes "indicators_after c closes = Some s" "0 < cm_ema_long_period c"
    and "cm_mav_short_period c < int (length closes)" "2 \<le> length closes"
  shows "compute_signal m closes c vol_ratio = Some (incr_signal m c vol_ratio (last closes) s)"
proof -
  obtain s0 where s0: "new_indicators c = Some s0" "s = fold update_indicators closes s0"
    using assms(1) by (auto simp: indicators_after_def)
  let ?p = "cm_mav_short_period c"
  have p: "0 \<le> ?p" using s0(1) by (simp add: new_indicators_def split: if_splits)
  obtain x xs where closes: "closes = x # xs" using assms(4) by (cases closes) auto
  then have "xs \<noteq> []" using assms(4) by auto
  note st = indicators_state [OF s0(1), of closes, folded s0(2)]
  have ema: "ema closes (cm_ema_long_period c) = Some (x # ema_loop (ema_alpha (cm_ema_long_period c)) x xs)"
    using assms(2) by (simp add: ema_def closes)
  have e: "in_ema_long s = last (x # ema_loop (ema_alpha (cm_ema_long_period c)) x xs)"
    using st unfolding last_ema_loop by (simp add: closes)
  have n: "Suc (nat ?p) \<le> length closes" using assms(3) p by linarith
  have full: "rg_full (in_lookback s)" using st pushed_state [of "Suc (nat ?p)" closes] n by simp
  have look: "rg_buf (in_lookback s) ! rg_head (in_lookback s) = closes ! (length closes - 1 - nat ?p)"
    using st pushed_oldest [OF _ n] by simp
  show ?thesis
    using assms(3,4) p st ema e full look \<open>xs \<noteq> []\<close>
    by (simp add: compute_signal_def incr_signal_def Let_def closes)
qed

definition short_chromosome :: chromosome where
  "short_chromosome = default_chromosome\<lparr>cm_mav_short_period := 1, cm_mav_long_period := 2\<rparr>"

theorem incremental_signal_is_batch_witness:
  "\<exists>s. indicators_after short_chromosome [Fin 100, Fin 110, Fin 105] = Some s \<and>
     compute_signal sample_libm [Fin 100, Fin 110, Fin 105] short_chromosome (Fin 2) =
       Some (incr_signal sample_libm short_chromosome (Fin 2) (Fin 105) s)"
proof -
  obtain s where s: "indicators_after short_chromosome [Fin 100, Fin 110, Fin 105] = Some s"
    by (simp add: indicators_after_def new_indicators_def short_chromosome_def default_chromosome_def)
  have "0 < cm_ema_long_period short_chromosome" "cm_mav_short_period short_chromosome < 3"
    by (simp_all add: short_chromosome_def default_chromosome_def)
  with incremental_signal_is_batch [OF s, of sample_libm "Fin 2"] s show ?thesis by simp
qed

section \<open>The peak window\<close>

definition rolled :: "(int \<times> f64) list \<Rightarrow> (f64 \<times> runtime_state) option" where
  "rolled navs = fold (\<lambda>(t, v) r. Option.bind r (\<lambda>(_, rs). roll_nav_peak_window t v rs)) navs
     (Some (Fin 0, fresh_runtime_state))"

definition last_30_days :: "(int \<times> f64) list \<Rightarrow> (int \<times> f64) list" where
  "last_30_days navs = filter (\<lambda>p. fst (last navs) - nav_peak_window_duration_ms \<le> fst p) navs"

lemma stale_prefix_le: "stale_prefix c ts \<le> length ts"
  by (induction ts) auto

lemma stale_prefix_filter:
  "sorted (map fst ps) \<Longrightarrow> drop (stale_prefix c (map fst ps)) ps = filter (\<lambda>p. c \<le> fst p) ps"
proof (induction ps)
  case (Cons p ps)
  then show ?case by (auto intro!: filter_True [symmetric])
qed simp

lemma f_lt_not_lt_trans: "f_lt a b \<Longrightarrow> \<not> f_lt c b \<Longrightarrow> c \<noteq> NaN \<Longrightarrow> f_lt a c"
  by (cases a; cases b; cases c) auto

lemma peak_fold_nan [simp]: "fold (\<lambda>v peak. if f_lt peak v then v else peak) vs NaN = NaN"
  by (induction vs) auto

lemma peak_fold:
  "\<not> f_lt (fold (\<lambda>v peak. if f_lt peak v then v else peak) vs p0) p0 \<and>
   (\<forall>v\<in>set vs. \<not> f_lt (fold (\<lambda>v peak. if f_lt peak v then v else peak) vs p0) v) \<and>
   fold (\<lambda>v peak. if f_lt peak v then v else peak) vs p0 \<in> insert p0 (set vs)"
proof (induction vs arbitrary: p0)
  case (Cons v vs)
  show ?case
  proof (cases "p0 = NaN")
    case False
    with Cons.IH [of "if f_lt p0 v then v else p0"] show ?thesis
      by (auto split: if_splits dest: f_lt_trans f_lt_not_lt_trans)
  qed simp
qed simp

lemma rolled_window:
  assumes "sorted (map fst navs)" "navs \<noteq> []" "\<forall>p\<in>set navs. in64 (fst p - nav_peak_window_duration_ms)"
  shows "\<exists>peak rs. rolled navs = Some (peak, rs) \<and>
    ru_nav_peak_ms rs = map fst (last_30_days navs) \<and> ru_nav_peak_value rs = map snd (last_30_days navs) \<and>
    peak = fold (\<lambda>v peak. if f_lt peak v then v else peak) (map snd (last_30_days navs)) (snd (last navs))"
  using assms
proof (induction navs rule: rev_induct)
  case (snoc p navs)
  obtain t v where p: "p = (t, v)" by (cases p)
  let ?w = "if navs = [] then [] else last_30_days navs" and ?cut = "t - nav_peak_window_duration_ms"
  have srt: "sorted (map fst navs)" "\<forall>q\<in>set navs. fst q \<le> t" using snoc.prems(1) p by (auto simp: sorted_append)
  obtain peak rs where r: "rolled navs = Some (peak, rs)" "ru_nav_peak_ms rs = map fst ?w" "ru_nav_peak_value rs = map snd ?w"
  proof (cases "navs = []")
    case True
    then show ?thesis using that by (simp add: rolled_def fresh_runtime_state_def)
  next
    case False
    with snoc.IH srt(1) snoc.prems(3) that show ?thesis by auto
  qed
  have ws: "sorted (map fst ?w)"
    using srt(1) by (auto simp: last_30_days_def sorted_wrt_map intro: sorted_wrt_filter)
  have "filter (\<lambda>q. ?cut \<le> fst q) ?w = filter (\<lambda>q. ?cut \<le> fst q) navs"
  proof (cases "navs = []")
    case False
    then have "fst (last navs) \<le> t" using srt(2) by simp
    then show ?thesis using False by (auto simp: last_30_days_def intro!: filter_cong)
  qed simp
  then have w: "last_30_days (navs @ [p]) = drop (stale_prefix ?cut (map fst ?w)) ?w @ [p]"
    unfolding stale_prefix_filter [OF ws]
    by (simp add: last_30_days_def p nav_peak_window_duration_ms_def)
  have "stale_prefix ?cut (map fst ?w) \<le> length ?w" using stale_prefix_le [of ?cut "map fst ?w"] by simp
  moreover have "sub64 t nav_peak_window_duration_ms = ?cut" using snoc.prems(3) p by simp
  ultimately have "roll_nav_peak_window t v rs = Some (fold (\<lambda>v peak. if f_lt peak v then v else peak)
      (map snd (last_30_days (navs @ [p]))) v,
      rs\<lparr>ru_nav_peak_ms := map fst (last_30_days (navs @ [p])), ru_nav_peak_value := map snd (last_30_days (navs @ [p]))\<rparr>)"
    unfolding w by (simp add: roll_nav_peak_window_def r p drop_map Let_def)
  moreover have "rolled (navs @ [p]) = roll_nav_peak_window t v rs"
    using r(1) by (simp add: rolled_def p)
  ultimately show ?case by (simp add: p)
qed simp

text \<open>
  The peak the release engine compares with is the highest value of the last thirty days: over any
  run of bars in the order of time, the window holds exactly the values not older than thirty days
  before the last bar, and the peak is one of them and none of them exceeds it.
\<close>

theorem nav_peak_is_30_day_high:
  assumes "sorted (map fst navs)" "navs \<noteq> []" "\<forall>p\<in>set navs. in64 (fst p - nav_peak_window_duration_ms)"
  shows "\<exists>peak rs. rolled navs = Some (peak, rs) \<and>
    zip (ru_nav_peak_ms rs) (ru_nav_peak_value rs) = last_30_days navs \<and>
    peak \<in> snd ` set (last_30_days navs) \<and> (\<forall>p\<in>set (last_30_days navs). \<not> f_lt peak (snd p))"
proof -
  from rolled_window [OF assms] obtain peak rs where r: "rolled navs = Some (peak, rs)"
    "ru_nav_peak_ms rs = map fst (last_30_days navs)" "ru_nav_peak_value rs = map snd (last_30_days navs)"
    "peak = fold (\<lambda>v peak. if f_lt peak v then v else peak) (map snd (last_30_days navs)) (snd (last navs))" by blast
  have "last navs \<in> set (last_30_days navs)"
    using assms(2) by (simp add: last_30_days_def nav_peak_window_duration_ms_def)
  with r peak_fold [of "map snd (last_30_days navs)" "snd (last navs)"] show ?thesis
    by (auto simp: zip_map_fst_snd)
qed

theorem nav_peak_is_30_day_high_witness:
  "\<exists>peak rs. rolled [(0, Fin 10), (5, Fin 7)] = Some (peak, rs) \<and> (\<forall>p\<in>{(0, Fin 10), (5, Fin 7)}. \<not> f_lt peak (snd p))"
proof -
  have "sorted (map fst [(0 :: int, Fin 10), (5, Fin 7)])" "[(0 :: int, Fin 10), (5, Fin 7)] \<noteq> []"
    "\<forall>p\<in>set [(0 :: int, Fin 10), (5, Fin 7)]. in64 (fst p - nav_peak_window_duration_ms)"
    by (simp_all add: nav_peak_window_duration_ms_def in64_def)
  from nav_peak_is_30_day_high [OF this] show ?thesis
    by (simp add: last_30_days_def nav_peak_window_duration_ms_def) metis
qed

end
