(* ===== verification/Evolve.thy ===== *)
theory Evolve
  imports SigmoidSim
begin

text \<open>
  The evolution engine (\<open>internal/engine\<close>, \<open>internal/fitness/aggregate.go\<close>): the aggregate score, the
  ramp of mutation with early stopping, and the generation loop: evaluation, stable ranking, elites,
  tournaments, crossover, mutation, and the statistics of the search. A strategy is the record of
  the verbs the engine calls; \<open>None\<close> is a panic, \<open>Inl\<close> an error.
\<close>

section \<open>The aggregate score (\<open>aggregate.go\<close>)\<close>

definition window_weights :: "window_name \<Rightarrow> f64" where
  "window_weights w =
     (case w of Window6M \<Rightarrow> f_const (10 / 100) | Window2Y \<Rightarrow> f_const (20 / 100)
      | Window5Y \<Rightarrow> f_const (30 / 100) | Window10Y \<Rightarrow> f_const (40 / 100) | _ \<Rightarrow> Fin 0)"

definition f_sum :: "f64 list \<Rightarrow> f64" where
  "f_sum xs = fold (\<lambda>x s. f_add s x) xs (Fin 0)"

definition population_std_dev :: "libm \<Rightarrow> f64 list \<Rightarrow> f64" where
  "population_std_dev m xs =
     (let mean = f_div (f_sum xs) (f_len xs)
      in m_sqrt m (f_div (f_sum (map (\<lambda>x. f_mul (f_sub x mean) (f_sub x mean)) xs)) (f_len xs)))"

definition fatal_total :: score_total where
  "fatal_total = \<lparr>st_fatal = True, st_value = None, st_reason = None, st_score_raw = None,
     st_consistency_penalty = None\<rparr>"

definition scored_windows :: "crucible_result list \<Rightarrow> (window_name \<times> f64) list" where
  "scored_windows ws = concat (map (\<lambda>w. case (cr_skipped_by w, sl_value (cr_score w)) of
     (None, Some v) \<Rightarrow> [(cr_window w, v)] | _ \<Rightarrow> []) ws)"

definition aggregate_score_total ::
  "libm \<Rightarrow> crucible_result list \<Rightarrow> (window_name \<Rightarrow> f64) \<Rightarrow> f64 \<Rightarrow> score_total" where
  "aggregate_score_total m ws weights lambda_cons =
     (if list_ex (\<lambda>w. sl_fatal (cr_score w)) ws then fatal_total
      else let scores = scored_windows ws;
               raw = fold (\<lambda>(w, v) s. f_add s (f_mul (weights w) v)) scores (Fin 0);
               sigma = (if 2 \<le> length scores then population_std_dev m (map snd scores) else Fin 0)
           in \<lparr>st_fatal = False, st_value = Some (f_sub raw (f_mul lambda_cons sigma)), st_reason = None,
               st_score_raw = Some raw, st_consistency_penalty = Some sigma\<rparr>)"

section \<open>Convergence (\<open>convergence.go\<close>)\<close>

record engine_config =
  ec_pop_size :: int
  ec_max_generations :: int
  ec_elite_ratio :: f64
  ec_tournament_size :: int
  ec_mutation_probability :: f64
  ec_mutation_scale :: f64
  ec_lambda_cons :: f64
  ec_epoch_seed :: int
  ec_mutation_probability_max :: f64
  ec_mutation_scale_max :: f64
  ec_mutation_ramp_factor :: f64
  ec_early_stop_patience :: int
  ec_early_stop_min_delta :: f64
  ec_fatal_audit_sample_rate :: f64

definition default_engine_config :: engine_config where
  "default_engine_config =
     \<lparr>ec_pop_size = 300, ec_max_generations = 25, ec_elite_ratio = f_const (5 / 100),
      ec_tournament_size = 3, ec_mutation_probability = f_const (15 / 100), ec_mutation_scale = Fin 1,
      ec_lambda_cons = f_const (3 / 10), ec_epoch_seed = 1,
      ec_mutation_probability_max = f_const (55 / 100), ec_mutation_scale_max = Fin 3,
      ec_mutation_ramp_factor = Fin (5 / 4), ec_early_stop_patience = 5,
      ec_early_stop_min_delta = f_const (1 / 1000), ec_fatal_audit_sample_rate = f_const (5 / 100)\<rparr>"

record convergence =
  cv_no_improve :: int
  cv_best :: "f64 option"
  cv_best_fatal :: bool
  cv_mut_prob :: f64
  cv_mut_scale :: f64

definition new_convergence :: "engine_config \<Rightarrow> convergence" where
  "new_convergence cfg = \<lparr>cv_no_improve = 0, cv_best = None, cv_best_fatal = True,
     cv_mut_prob = ec_mutation_probability cfg, cv_mut_scale = ec_mutation_scale cfg\<rparr>"

definition is_improvement :: "convergence \<Rightarrow> score_total \<Rightarrow> f64 \<Rightarrow> bool" where
  "is_improvement s cur min_delta =
     (if st_fatal cur then False
      else case st_value cur of None \<Rightarrow> False
      | Some v \<Rightarrow>
          if cv_best_fatal s then True
          else case cv_best s of None \<Rightarrow> True | Some b \<Rightarrow> f_lt (f_add b min_delta) v)"

definition f_min :: "f64 \<Rightarrow> f64 \<Rightarrow> f64" where
  \<comment> \<open>\<open>math.Min\<close>: negative infinity beats NaN, and \<open>Min(-0, +0) = -0\<close>\<close>
  "f_min a b = f_neg (f_max (f_neg a) (f_neg b))"

definition ramp :: "f64 \<Rightarrow> f64 \<Rightarrow> f64 \<Rightarrow> f64" where
  "ramp factor limit x = (if f_lt (Fin 0) limit then f_min (f_mul x factor) limit else x)"

definition observe :: "engine_config \<Rightarrow> score_total \<Rightarrow> convergence \<Rightarrow> bool \<times> convergence" where
  "observe cfg cur s =
     (if is_improvement s cur (ec_early_stop_min_delta cfg) then
        (False, s\<lparr>cv_best := st_value cur, cv_best_fatal := False, cv_no_improve := 0,
          cv_mut_prob := ec_mutation_probability cfg, cv_mut_scale := ec_mutation_scale cfg\<rparr>)
      else
        let s = s\<lparr>cv_no_improve := cv_no_improve s + 1\<rparr>;
            s = (if f_lt (Fin 1) (ec_mutation_ramp_factor cfg)
                 then s\<lparr>cv_mut_prob := ramp (ec_mutation_ramp_factor cfg) (ec_mutation_probability_max cfg) (cv_mut_prob s),
                        cv_mut_scale := ramp (ec_mutation_ramp_factor cfg) (ec_mutation_scale_max cfg) (cv_mut_scale s)\<rparr>
                 else s)
        in (0 < ec_early_stop_patience cfg \<and> ec_early_stop_patience cfg \<le> cv_no_improve s, s))"

section \<open>Strategies, as the engine sees them (\<open>strategy/evolvable.go\<close>)\<close>

record 'r evolvable =
  ev_strategy_id :: string
  ev_sample :: "'r \<Rightarrow> gene \<times> 'r"
  ev_crossover :: "gene \<Rightarrow> gene \<Rightarrow> 'r \<Rightarrow> gene option \<times> 'r"
  ev_mutate :: "gene \<Rightarrow> f64 \<Rightarrow> f64 \<Rightarrow> 'r \<Rightarrow> gene \<times> 'r"
  ev_fingerprint :: "gene \<Rightarrow> string"
  ev_min_eval_bars :: int
  ev_new_adapter :: "evaluable_plan \<Rightarrow> string option"      \<comment> \<open>its error\<close>
  ev_reset :: "evaluable_plan \<Rightarrow> string option"            \<comment> \<open>the error of \<open>Adapter.Reset\<close>\<close>
  ev_evaluate :: "evaluable_plan \<Rightarrow> gene \<Rightarrow> (string + raw_result) option"

section \<open>Ranking (\<open>engine.go\<close>)\<close>

definition compare_with_fp :: "score_total \<times> string \<Rightarrow> score_total \<times> string \<Rightarrow> int option" where
  "compare_with_fp a b =
     (if st_fatal (fst a) \<and> st_fatal (fst b)
      then Some (if snd a < snd b then - 1 else if snd b < snd a then 1 else 0)
      else compare_fitness (fst a) (fst b))"

definition ranks_before :: "score_total \<times> string \<Rightarrow> score_total \<times> string \<Rightarrow> bool" where
  "ranks_before a b \<longleftrightarrow> (case compare_with_fp a b of Some c \<Rightarrow> c < 0 | None \<Rightarrow> False)"

fun insert_stable :: "('a \<Rightarrow> 'a \<Rightarrow> bool) \<Rightarrow> 'a \<Rightarrow> 'a list \<Rightarrow> 'a list" where
  "insert_stable lt x [] = [x]"
| "insert_stable lt x (y # ys) = (if lt y x then y # insert_stable lt x ys else x # y # ys)"

definition stable_sort :: "('a \<Rightarrow> 'a \<Rightarrow> bool) \<Rightarrow> 'a list \<Rightarrow> 'a list" where
  \<comment> \<open>\<open>sort.SliceStable\<close>, for a comparison that is a strict weak order\<close>
  "stable_sort lt xs = foldr (insert_stable lt) xs []"

definition rank_order :: "score_total list \<Rightarrow> string list \<Rightarrow> nat list" where
  "rank_order scores fps =
     stable_sort (\<lambda>i j. ranks_before (scores ! i, fps ! i) (scores ! j, fps ! j)) [0..<length scores]"

definition count_fatal :: "score_total list \<Rightarrow> int" where
  "count_fatal scores = int (length (filter st_fatal scores))"

definition calc_elite_count :: "nat \<Rightarrow> f64 \<Rightarrow> nat" where
  "calc_elite_count n ratio =
     (let ne = f_to_int (f_mul (f_of_int (int n)) ratio)
      in if ne < 1 then min 1 n else if int n < ne then n else nat ne)"

section \<open>Evaluation of a population\<close>

definition evaluate_gene ::
  "libm \<Rightarrow> 'r evolvable \<Rightarrow> engine_config \<Rightarrow> evaluable_plan \<Rightarrow> gene \<Rightarrow> (string + score_total \<times> raw_result) option" where
  \<comment> \<open>what a worker does with one gene\<close>
  "evaluate_gene m strat cfg plan g =
     (case ev_reset strat plan of
        Some e \<Rightarrow> Some (Inl e)
      | None \<Rightarrow>
        (case ev_evaluate strat plan g of
           None \<Rightarrow> None
         | Some (Inl e) \<Rightarrow> Some (Inl e)
         | Some (Inr raw) \<Rightarrow>
             if \<not> valid_for_is raw then Some (Inl ''invalid raw'')
             else Some (Inr (aggregate_score_total m (rw_windows raw) window_weights (ec_lambda_cons cfg), raw))))"

fun evaluate_genes ::
  "(gene \<Rightarrow> (string + score_total \<times> raw_result) option) \<Rightarrow> gene list
    \<Rightarrow> (string + (score_total \<times> raw_result) list) option" where
  \<comment> \<open>\<open>evaluatePopulation\<close>, its outcome: every result, or an error; theory Workers relates it to
    the workers\<close>
  "evaluate_genes ev [] = Some (Inr [])"
| "evaluate_genes ev (g # gs) =
     (case ev g of
        None \<Rightarrow> None
      | Some (Inl e) \<Rightarrow> Some (Inl e)
      | Some (Inr x) \<Rightarrow>
          (case evaluate_genes ev gs of
             None \<Rightarrow> None
           | Some (Inl e) \<Rightarrow> Some (Inl e)
           | Some (Inr xs) \<Rightarrow> Some (Inr (x # xs))))"

fun collect_fatal_samples ::
  "'r rand_ops \<Rightarrow> (gene \<Rightarrow> string) \<Rightarrow> f64 \<Rightarrow> nat \<Rightarrow> (gene \<times> score_total \<times> raw_result) list
    \<Rightarrow> 'r \<Rightarrow> audit_sample list \<times> 'r" where
  "collect_fatal_samples R fp rate call [] r = ([], r)"
| "collect_fatal_samples R fp rate call ((g, s, raw) # xs) r =
     (if f_le rate (Fin 0) \<or> \<not> st_fatal s then collect_fatal_samples R fp rate call xs r
      else let (u, r) = rd_float64 R r; (rest, r) = collect_fatal_samples R fp rate call xs r
           in (if f_le rate u then rest
               else \<lparr>as_sample_id = ''g'' @ show_nat call @ ''.'' @ fp g, as_score_total = s,
                     as_window_scores = rw_windows raw\<rparr> # rest, r))"

section \<open>The next generation\<close>

fun tournament_rest ::
  "'r rand_ops \<Rightarrow> (score_total \<times> string) list \<Rightarrow> nat \<Rightarrow> nat \<Rightarrow> 'r \<Rightarrow> nat \<times> 'r" where
  "tournament_rest R ranked 0 best r = (best, r)"
| "tournament_rest R ranked (Suc k) best r =
     (let (cand, r) = rd_intn R (length ranked) r
      in tournament_rest R ranked k (if ranks_before (ranked ! cand) (ranked ! best) then cand else best) r)"

definition tournament_select :: "'r rand_ops \<Rightarrow> int \<Rightarrow> (score_total \<times> string) list \<Rightarrow> 'r \<Rightarrow> nat \<times> 'r" where
  "tournament_select R tsize ranked r =
     (let (best, r) = rd_intn R (length ranked) r in tournament_rest R ranked (nat (tsize - 1)) best r)"

fun offspring ::
  "'r rand_ops \<Rightarrow> 'r evolvable \<Rightarrow> int \<Rightarrow> gene list \<Rightarrow> (score_total \<times> string) list \<Rightarrow> f64 \<Rightarrow> f64 \<Rightarrow> nat \<Rightarrow> 'r
    \<Rightarrow> gene list option \<times> 'r" where
  "offspring R strat tsize pop ranked mut_prob mut_scale 0 r = (Some [], r)"
| "offspring R strat tsize pop ranked mut_prob mut_scale (Suc k) r =
     (let (p1, r) = tournament_select R tsize ranked r;
          (p2, r) = tournament_select R tsize ranked r
      in case ev_crossover strat (pop ! p1) (pop ! p2) r of
           (None, r) \<Rightarrow> (None, r)
         | (Some child, r) \<Rightarrow>
             (let (child, r) = ev_mutate strat child mut_prob mut_scale r in
              case offspring R strat tsize pop ranked mut_prob mut_scale k r of
                (None, r) \<Rightarrow> (None, r)
              | (Some rest, r) \<Rightarrow> (Some (child # rest), r)))"

definition produce_next_generation ::
  "'r rand_ops \<Rightarrow> 'r evolvable \<Rightarrow> engine_config \<Rightarrow> gene list \<Rightarrow> (score_total \<times> string) list \<Rightarrow> nat list
    \<Rightarrow> f64 \<Rightarrow> f64 \<Rightarrow> 'r \<Rightarrow> gene list option \<times> 'r" where
  "produce_next_generation R strat cfg pop ranked order mut_prob mut_scale r =
     (let n = length pop; ne = calc_elite_count n (ec_elite_ratio cfg);
          elites = map (\<lambda>i. pop ! i) (take ne order)
      in case offspring R strat (ec_tournament_size cfg) pop ranked mut_prob mut_scale (n - ne) r of
           (None, r) \<Rightarrow> (None, r)
         | (Some rest, r) \<Rightarrow> (Some (elites @ rest), r))"

section \<open>The epoch (\<open>RunEpoch\<close>)\<close>

record 'r epoch_state =
  es_pop :: "gene list"
  es_results :: "(score_total \<times> raw_result) list"     \<comment> \<open>\<open>scores\<close> and \<open>raws\<close>\<close>
  es_rng :: 'r
  es_sample_rng :: 'r
  es_samples :: "audit_sample list"
  es_conv :: convergence
  es_evals :: int
  es_fatal :: int
  es_progress :: "(nat \<times> string \<times> score_total) list"      \<comment> \<open>the calls of \<open>OnProgress\<close>\<close>
  es_trace :: "(nat \<times> (gene \<times> score_total \<times> raw_result \<times> string) list) list"
    \<comment> \<open>the calls of \<open>OnGenerationEvaluated\<close>\<close>

definition es_scores :: "'r epoch_state \<Rightarrow> score_total list" where
  "es_scores s = map fst (es_results s)"

definition es_fps :: "'r evolvable \<Rightarrow> 'r epoch_state \<Rightarrow> string list" where
  "es_fps strat s = map (ev_fingerprint strat) (es_pop s)"

definition es_order :: "'r evolvable \<Rightarrow> 'r epoch_state \<Rightarrow> nat list" where
  "es_order strat s = rank_order (es_scores s) (es_fps strat s)"

definition es_best :: "'r evolvable \<Rightarrow> 'r epoch_state \<Rightarrow> nat" where
  "es_best strat s = hd (es_order strat s)"

definition rank_generation :: "'r evolvable \<Rightarrow> engine_config \<Rightarrow> nat \<Rightarrow> 'r epoch_state \<Rightarrow> bool \<times> 'r epoch_state" where
  \<comment> \<open>the callbacks, and the decision to stop early\<close>
  "rank_generation strat cfg gen s =
     (let best = es_best strat s; score = es_scores s ! best;
          (stop, conv) = observe cfg score (es_conv s)
      in (stop, s\<lparr>es_conv := conv,
            es_trace := es_trace s @ [(gen, map (\<lambda>(g, (sc, raw), fp). (g, sc, raw, fp))
              (zip (es_pop s) (zip (es_results s) (es_fps strat s))))],
            es_progress := es_progress s @ [(gen, es_fps strat s ! best, score)]\<rparr>))"

definition breed ::
  "libm \<Rightarrow> 'r rand_ops \<Rightarrow> 'r evolvable \<Rightarrow> engine_config \<Rightarrow> evaluable_plan \<Rightarrow> nat \<Rightarrow> 'r epoch_state
    \<Rightarrow> (string + 'r epoch_state) option" where
  \<comment> \<open>the next generation: elites keep their results, the others are evaluated\<close>
  "breed m R strat cfg plan gen s =
     (let n = length (es_pop s); ne = calc_elite_count n (ec_elite_ratio cfg); order = es_order strat s in
      case produce_next_generation R strat cfg (es_pop s) (zip (es_scores s) (es_fps strat s)) order
             (cv_mut_prob (es_conv s)) (cv_mut_scale (es_conv s)) (es_rng s) of
        (None, r) \<Rightarrow> None
      | (Some nxt, r) \<Rightarrow>
        (case evaluate_genes (evaluate_gene m strat cfg plan) (drop ne nxt) of
           None \<Rightarrow> None
         | Some (Inl e) \<Rightarrow> Some (Inl e)
         | Some (Inr fresh) \<Rightarrow>
             (let results = map (\<lambda>i. es_results s ! i) (take ne order) @ fresh;
                  (samples, sr) = collect_fatal_samples R (ev_fingerprint strat) (ec_fatal_audit_sample_rate cfg)
                    (Suc gen) (zip nxt results) (es_sample_rng s)
              in Some (Inr (s\<lparr>es_pop := nxt, es_results := results, es_rng := r, es_sample_rng := sr,
                   es_samples := es_samples s @ samples, es_evals := es_evals s + (int n - int ne),
                   es_fatal := es_fatal s + count_fatal (drop ne (map fst results))\<rparr>)))))"

fun generations ::
  "libm \<Rightarrow> 'r rand_ops \<Rightarrow> 'r evolvable \<Rightarrow> engine_config \<Rightarrow> evaluable_plan \<Rightarrow> nat \<Rightarrow> nat \<Rightarrow> 'r epoch_state
    \<Rightarrow> (string + nat \<times> 'r epoch_state) option" where
  \<comment> \<open>the generations still allowed, and the index of this one; the result has the realized count\<close>
  "generations m R strat cfg plan 0 gen s = Some (Inr (gen, s))"
| "generations m R strat cfg plan (Suc k) gen s =
     (let (stop, s) = rank_generation strat cfg gen s in
      if stop \<or> k = 0 then Some (Inr (Suc gen, s))
      else case breed m R strat cfg plan gen s of
        None \<Rightarrow> None
      | Some (Inl e) \<Rightarrow> Some (Inl e)
      | Some (Inr s) \<Rightarrow> generations m R strat cfg plan k (Suc gen) s)"

record epoch_result =
  er_best_gene :: gene
  er_best_score :: score_total
  er_best_fingerprint :: string
  er_best_raw :: raw_result
  er_generations :: int
  er_samples :: "audit_sample list"
  er_stats :: search_stats

fun sample_genes :: "('r \<Rightarrow> gene \<times> 'r) \<Rightarrow> nat \<Rightarrow> 'r \<Rightarrow> gene list \<times> 'r" where
  "sample_genes f 0 r = ([], r)"
| "sample_genes f (Suc k) r = (let (g, r) = f r; (gs, r) = sample_genes f k r in (g # gs, r))"

definition start_epoch ::
  "libm \<Rightarrow> (int \<Rightarrow> 'r) \<Rightarrow> 'r rand_ops \<Rightarrow> 'r evolvable \<Rightarrow> engine_config \<Rightarrow> evaluable_plan
    \<Rightarrow> (string + 'r epoch_state) option" where
  "start_epoch m seeded R strat cfg plan =
     (let (seed2, r) = rd_int63 R (seeded (ec_epoch_seed cfg));
          (pop, r) = sample_genes (ev_sample strat) (nat (ec_pop_size cfg)) r
      in case ev_new_adapter strat plan of
           Some e \<Rightarrow> Some (Inl e)
         | None \<Rightarrow>
           (case evaluate_genes (evaluate_gene m strat cfg plan) pop of
              None \<Rightarrow> None
            | Some (Inl e) \<Rightarrow> Some (Inl e)
            | Some (Inr results) \<Rightarrow>
                (let (samples, sr) = collect_fatal_samples R (ev_fingerprint strat) (ec_fatal_audit_sample_rate cfg)
                       0 (zip pop results) (seeded seed2)
                 in Some (Inr \<lparr>es_pop = pop, es_results = results, es_rng = r, es_sample_rng = sr,
                      es_samples = samples, es_conv = new_convergence cfg, es_evals = int (length pop),
                      es_fatal = count_fatal (map fst results), es_progress = [], es_trace = []\<rparr>))))"

definition epoch_precondition :: "'r evolvable \<Rightarrow> engine_config \<Rightarrow> evaluable_plan \<Rightarrow> string option" where
  \<comment> \<open>the errors \<open>RunEpoch\<close> returns before it starts\<close>
  "epoch_precondition strat cfg plan =
     (if ec_pop_size cfg < 2 then Some ''PopSize''
      else if ec_max_generations cfg < 1 then Some ''MaxGenerations''
      else if list_ex (\<lambda>w. int (length (cw_bars w)) < ev_min_eval_bars strat) (pn_windows plan)
      then Some ''MinEvalBars'' else None)"

definition finish_epoch ::
  "'r evolvable \<Rightarrow> engine_config \<Rightarrow> evaluable_plan \<Rightarrow> nat \<times> 'r epoch_state \<Rightarrow> (string + epoch_result) option" where
  \<comment> \<open>the best gene is evaluated once more\<close>
  "finish_epoch strat cfg plan = (\<lambda>(gens, s).
     let best = es_best strat s; g = es_pop s ! best in
     case ev_reset strat plan of
       Some e \<Rightarrow> Some (Inl e)
     | None \<Rightarrow>
       (case ev_evaluate strat plan g of
          None \<Rightarrow> None
        | Some (Inl e) \<Rightarrow> Some (Inl e)
        | Some (Inr raw) \<Rightarrow>
            if \<not> valid_for_is raw then Some (Inl ''invalid raw'')
            else Some (Inr \<lparr>er_best_gene = g, er_best_score = es_scores s ! best,
              er_best_fingerprint = es_fps strat s ! best, er_best_raw = raw, er_generations = int gens,
              er_samples = es_samples s,
              er_stats = \<lparr>ss_pop_size = ec_pop_size cfg, ss_max_generations = ec_max_generations cfg,
                ss_generations = int gens, ss_evaluations_total = es_evals s,
                ss_fatal_evaluations = es_fatal s\<rparr>\<rparr>)))"

definition run_epoch ::
  "libm \<Rightarrow> (int \<Rightarrow> 'r) \<Rightarrow> 'r rand_ops \<Rightarrow> 'r evolvable \<Rightarrow> engine_config \<Rightarrow> evaluable_plan
    \<Rightarrow> (string + epoch_result) option" where
  "run_epoch m seeded R strat cfg plan =
     (case epoch_precondition strat cfg plan of
        Some e \<Rightarrow> Some (Inl e)
      | None \<Rightarrow>
        (case start_epoch m seeded R strat cfg plan of
           None \<Rightarrow> None
         | Some (Inl e) \<Rightarrow> Some (Inl e)
         | Some (Inr s) \<Rightarrow>
           (case generations m R strat cfg plan (nat (ec_max_generations cfg)) 0 s of
              None \<Rightarrow> None
            | Some (Inl e) \<Rightarrow> Some (Inl e)
            | Some (Inr r) \<Rightarrow> finish_epoch strat cfg plan r)))"

end
