(* ===== verification/Strategies.thy ===== *)
theory Strategies
  imports Evolve
begin

text \<open>
  The two strategies as the engine sees them (\<open>strategies/sigmoid_v1/sigmoid.go\<close>,
  \<open>strategies/toy/toy.go\<close>): their verbs, the encoding of a result, the decoding of an elite gene, and
  the assembly of the five-layer package (\<open>engine/package.go\<close>).
\<close>

section \<open>The sigmoid strategy\<close>

definition sigmoid_strategy_id :: string where "sigmoid_strategy_id = ''sigmoid_v1''"

definition sigmoid_evolvable :: "libm \<Rightarrow> 'r rand_ops \<Rightarrow> int \<Rightarrow> 'r evolvable" where
  \<comment> \<open>for a positive bar interval; \<open>New\<close> panics otherwise\<close>
  "sigmoid_evolvable m R interval_ms =
     \<lparr>ev_strategy_id = sigmoid_strategy_id, ev_sample = sample R, ev_crossover = crossover R,
      ev_mutate = mutate R, ev_fingerprint = fingerprint, ev_min_eval_bars = min_eval_bars interval_ms,
      ev_new_adapter = (\<lambda>_. None), ev_reset = (\<lambda>_. None), ev_evaluate = sigmoid_evaluate m\<rparr>"

section \<open>The toy strategy\<close>

definition toy_strategy_id :: string where "toy_strategy_id = ''toy-validation''"

definition toy_bounds :: "(f64 \<times> f64) list" where
  "toy_bounds = [(Fin 0, Fin 1), (Fin (- 1), Fin 1)]"

definition toy_segments :: "segment_info list" where
  "toy_segments =
     [\<lparr>sm_name = ''alpha'', sm_dimensions = [0], sm_quantization_step = [f_const (1 / 1000)],
       sm_gene_step = [f_const (5 / 100)], sm_is_critical = True\<rparr>,
      \<lparr>sm_name = ''beta'', sm_dimensions = [1], sm_quantization_step = [f_const (1 / 1000)],
       sm_gene_step = [f_const (5 / 100)], sm_is_critical = False\<rparr>]"

definition toy_clamp :: "gene \<Rightarrow> gene" where
  "toy_clamp g = map2 (\<lambda>x b. clip x (fst b) (snd b)) (take 2 (g @ [Fin 0, Fin 0])) toy_bounds"

definition toy_validate :: "gene \<Rightarrow> bool" where
  "toy_validate g \<longleftrightarrow> length g = 2 \<and> list_all2 (\<lambda>x b. \<not> (f_lt x (fst b) \<or> f_lt (snd b) x)) g toy_bounds"

definition toy_sample :: "'r rand_ops \<Rightarrow> 'r \<Rightarrow> gene \<times> 'r" where
  "toy_sample R r = (let (g, r) = sample_loop R toy_bounds r in (toy_clamp g, r))"

definition toy_crossover :: "'r rand_ops \<Rightarrow> gene \<Rightarrow> gene \<Rightarrow> 'r \<Rightarrow> gene option \<times> 'r" where
  "toy_crossover R p1 p2 r =
     (case cross_segments R toy_segments p1 p2 [Fin 0, Fin 0] r of
        (None, r) \<Rightarrow> (None, r)
      | (Some child, r) \<Rightarrow>
          (let child = toy_clamp child in
           if toy_validate child then (Some child, r)
           else let (u, r) = rd_float64 R r in (Some (if f_lt u f_half then p1 else p2), r)))"

definition toy_mutate :: "'r rand_ops \<Rightarrow> gene \<Rightarrow> f64 \<Rightarrow> f64 \<Rightarrow> 'r \<Rightarrow> gene \<times> 'r" where
  \<comment> \<open>for a gene of two dimensions\<close>
  "toy_mutate R g prob scale r =
     (let (child, r) = mutate_dims R prob scale
        (concat (map (\<lambda>s. zip (sm_dimensions s) (sm_gene_step s)) toy_segments)) g r
      in (toy_clamp child, r))"

definition toy_score :: "gene \<Rightarrow> f64" where
  "toy_score g = f_neg (f_add (f_abs (f_sub (g ! 0) (f_const (42 / 100)))) (f_abs (f_sub (g ! 1) (f_const (- 3 / 10)))))"

definition toy_evaluate :: "evaluable_plan \<Rightarrow> gene \<Rightarrow> (string + raw_result) option" where
  "toy_evaluate plan g =
     (if \<not> toy_validate g then Some (Inl ''toy: invalid gene'')
      else Some (Inr
        \<lparr>rw_windows = concat (map (\<lambda>name. case plan_window plan name of None \<Rightarrow> []
           | Some w \<Rightarrow> [\<lparr>cr_window = cw_name w,
               cr_score = \<lparr>sl_fatal = False, sl_value = Some (toy_score g), sl_reason = None\<rparr>,
               cr_fatal_reason = None, cr_fatal_at_bar_ts = None, cr_fatal_mdd_value = None,
               cr_bars_evaluated = int (length (cw_bars w)), cr_skipped_by = None\<rparr>]) all_windows),
         rw_friction_actual = \<lparr>fa_taker_fee_bps = fp_taker_fee_bps (pn_friction plan),
           fa_slippage_bps = fp_slippage_bps (pn_friction plan)\<rparr>,
         rw_bars_evaluated = 0, rw_longest_stats = None, rw_longest_returns = []\<rparr>))"

definition toy_evolvable :: "'r rand_ops \<Rightarrow> 'r evolvable" where
  "toy_evolvable R =
     \<lparr>ev_strategy_id = toy_strategy_id, ev_sample = toy_sample R, ev_crossover = toy_crossover R,
      ev_mutate = toy_mutate R, ev_fingerprint = fingerprint_of toy_segments, ev_min_eval_bars = 1,
      ev_new_adapter = (\<lambda>_. None), ev_reset = (\<lambda>_. None), ev_evaluate = toy_evaluate\<rparr>"

section \<open>Encoding and decoding\<close>

definition not_run_oos :: oos_result where
  "not_run_oos = \<lparr>oo_status = VerifNotRun, oo_alpha_monthly = None, oo_alpha_weekly = None,
     oo_decision_color = None, oo_notes = None\<rparr>"

definition encode_result_with ::
  "oos_result \<Rightarrow> string \<Rightarrow> gene \<Rightarrow> spawn_point \<Rightarrow> repro_metadata \<Rightarrow> ga_config_snapshot
    \<Rightarrow> evaluation_layer \<Rightarrow> verification_layer option \<Rightarrow> diagnostics_layer option \<Rightarrow> challenger_package option" where
  \<comment> \<open>the body of both strategies; they differ in the verification layer used when there is none.
    \<open>None\<close> is the marshalling error of a gene that is not finite\<close>
  "encode_result_with default_oos sid g spawn repro ga eval verif diag =
     map_option (\<lambda>vs.
       \<lparr>pk_core = \<lparr>rc_strategy_id = sid,
          rc_champion_gene = \<lparr>cg_encoding = gene_encoding_json, cg_payload = JArr vs\<rparr>,
          rc_spawn_point = spawn, rc_repro = repro, rc_ga_config = ga,
          rc_schema_version = rm_schema_version repro, rc_fitness_version = rm_fitness_version repro,
          rc_fingerprint_version = rm_fingerprint_version repro\<rparr>,
        pk_evaluation = eval,
        pk_verification = (case verif of Some v \<Rightarrow> v
          | None \<Rightarrow> \<lparr>vl_oos_result = default_oos, vl_review_summary = None, vl_dsr_summary = None, vl_stress_summary = None\<rparr>),
        pk_diagnostics = (case diag of Some d \<Rightarrow> d | None \<Rightarrow> \<lparr>dl_fatal_audit_samples = [], dl_search_stats = None\<rparr>),
        pk_promote = \<lparr>pl_decision_status = DecisionPending, pl_decision_note = None, pl_reviewed_at_ts = None,
          pl_reviewed_by = None\<rparr>\<rparr>) (marshal_floats g)"

definition sigmoid_encode_result ::
  "gene \<Rightarrow> spawn_point \<Rightarrow> repro_metadata \<Rightarrow> ga_config_snapshot \<Rightarrow> evaluation_layer
    \<Rightarrow> verification_layer option \<Rightarrow> diagnostics_layer option \<Rightarrow> challenger_package option" where
  "sigmoid_encode_result = encode_result_with not_run_oos sigmoid_strategy_id"

definition toy_encode_result ::
  "gene \<Rightarrow> spawn_point \<Rightarrow> repro_metadata \<Rightarrow> ga_config_snapshot \<Rightarrow> evaluation_layer
    \<Rightarrow> verification_layer option \<Rightarrow> diagnostics_layer option \<Rightarrow> challenger_package option" where
  "toy_encode_result = encode_result_with (not_run_oos\<lparr>oo_status := VerifOther []\<rparr>) toy_strategy_id"

definition decode_gene :: "json \<Rightarrow> gene option" where
  "decode_gene v = (case v of JArr vs \<Rightarrow> decode_all json_float vs | JNull \<Rightarrow> Some [] | _ \<Rightarrow> None)"

definition decode_elite_with :: "(gene \<Rightarrow> bool) \<Rightarrow> champion_gene_payload \<Rightarrow> gene option" where
  "decode_elite_with valid blob =
     (if cg_encoding blob \<noteq> gene_encoding_json then None
      else case decode_gene (cg_payload blob) of
        None \<Rightarrow> None
      | Some g \<Rightarrow> if valid g then Some g else None)"

definition sigmoid_decode_elite :: "champion_gene_payload \<Rightarrow> gene option" where
  "sigmoid_decode_elite = decode_elite_with validate"

definition toy_decode_elite :: "champion_gene_payload \<Rightarrow> gene option" where
  "toy_decode_elite = decode_elite_with toy_validate"

section \<open>The package (\<open>engine/package.go\<close>)\<close>

record build_context =
  bc_pair :: string
  bc_test_mode :: bool
  bc_oos_days :: "int option"
  bc_fatal_audit_sample_rate :: "f64 option"
  bc_data_version :: string
  bc_engine_version :: string
  bc_strategy_version :: string
  bc_hardware_signature :: string
  bc_go_version :: string
  bc_build_id :: string
  bc_plan_hash :: string
  bc_bars_hash :: string
  bc_dsr_summary :: "json option"
  bc_oos_payload :: "json option"
  bc_review_payload :: "json option"
  bc_samples :: "audit_sample list"
  bc_search_stats :: "search_stats option"
  bc_alpha_payload :: "json option"
  bc_stress_payload :: "json option"

definition verification_status_of :: "string \<Rightarrow> verification_status" where
  "verification_status_of s =
     (if s = ''not_run'' then VerifNotRun else if s = ''ok'' then VerifOK
      else if s = ''failed'' then VerifFailed else if s = ''insufficient_data'' then VerifInsufficientData
      else if s = ''mismatch'' then VerifMismatch else VerifOther s)"

definition decision_color_of :: "string \<Rightarrow> decision_color option" where
  "decision_color_of s =
     (if s = ''green'' then Some ColorGreen else if s = ''yellow'' then Some ColorYellow
      else if s = ''red'' then Some ColorRed else if s = ''gray'' then Some ColorGray else None)"

text \<open>A pointer field is set by a value, cleared by \<open>null\<close>.\<close>

definition opt_str_field :: "((string option \<Rightarrow> string option) \<Rightarrow> 's \<Rightarrow> 's) \<Rightarrow> 's setter" where
  "opt_str_field upd v s =
     (case v of JStr x \<Rightarrow> Some (upd (\<lambda>_. Some x) s) | JNull \<Rightarrow> Some (upd (\<lambda>_. None) s) | _ \<Rightarrow> None)"

definition opt_f64_field :: "((f64 option \<Rightarrow> f64 option) \<Rightarrow> 's \<Rightarrow> 's) \<Rightarrow> 's setter" where
  "opt_f64_field upd v s =
     (if v = JNull then Some (upd (\<lambda>_. None) s)
      else map_option (\<lambda>x. upd (\<lambda>_. Some x) s) (json_float v))"

definition status_field :: "((verification_status \<Rightarrow> verification_status) \<Rightarrow> 's \<Rightarrow> 's) \<Rightarrow> 's setter" where
  "status_field upd v s =
     (case v of JStr x \<Rightarrow> Some (upd (\<lambda>_. verification_status_of x) s) | JNull \<Rightarrow> Some s | _ \<Rightarrow> None)"

definition color_field :: "((decision_color option \<Rightarrow> decision_color option) \<Rightarrow> 's \<Rightarrow> 's) \<Rightarrow> 's setter" where
  "color_field upd v s =
     (case v of JStr x \<Rightarrow> Some (upd (\<lambda>_. decision_color_of x) s) | JNull \<Rightarrow> Some (upd (\<lambda>_. None) s) | _ \<Rightarrow> None)"

definition oos_result_fields :: "(string \<times> oos_result setter) list" where
  "oos_result_fields =
     [(''status'', status_field oo_status_update), (''oos_alpha_monthly'', opt_f64_field oo_alpha_monthly_update),
      (''oos_alpha_weekly'', opt_f64_field oo_alpha_weekly_update),
      (''decision_color'', color_field oo_decision_color_update), (''notes'', opt_str_field oo_notes_update)]"

definition review_summary_fields :: "(string \<times> review_summary setter) list" where
  "review_summary_fields =
     [(''status'', status_field rv_status_update), (''notes'', opt_str_field rv_notes_update),
      (''data_scope'', opt_str_field rv_data_scope_update)]"

definition decode_payload_or :: "(string \<times> 's setter) list \<Rightarrow> 's \<Rightarrow> 'b \<Rightarrow> ('s \<Rightarrow> 'b) \<Rightarrow> json option \<Rightarrow> 'b option" where
  \<comment> \<open>the default without a payload, the decoded struct with one, an error when it does not decode\<close>
  "decode_payload_or fs zero absent wrap payload =
     (case payload of None \<Rightarrow> Some absent | Some v \<Rightarrow> map_option wrap (unmarshal fs v zero))"

definition build_challenger_package ::
  "(gene \<Rightarrow> spawn_point \<Rightarrow> repro_metadata \<Rightarrow> ga_config_snapshot \<Rightarrow> evaluation_layer
      \<Rightarrow> verification_layer option \<Rightarrow> diagnostics_layer option \<Rightarrow> challenger_package option)
    \<Rightarrow> string \<Rightarrow> evaluable_plan \<Rightarrow> gene \<Rightarrow> raw_result \<Rightarrow> score_total \<Rightarrow> engine_config \<Rightarrow> build_context
    \<Rightarrow> challenger_package option" where
  "build_challenger_package encode sid plan g raw score cfg bc =
     (case decode_payload_or oos_result_fields (not_run_oos\<lparr>oo_status := VerifOther []\<rparr>) not_run_oos id (bc_oos_payload bc) of
        None \<Rightarrow> None
      | Some oos \<Rightarrow>
        (case decode_payload_or review_summary_fields \<lparr>rv_status = VerifOther [], rv_notes = None, rv_data_scope = None\<rparr>
               None Some (bc_review_payload bc) of
           None \<Rightarrow> None
         | Some review \<Rightarrow>
             encode g (pn_spawn plan)
               \<lparr>rm_epoch_seed = ec_epoch_seed cfg, rm_data_version = bc_data_version bc,
                rm_engine_version = bc_engine_version bc, rm_strategy_version = bc_strategy_version bc,
                rm_schema_version = schema_version_v533, rm_fitness_version = fitness_version_v1,
                rm_fingerprint_version = fingerprint_version_v1, rm_hardware_signature = bc_hardware_signature bc,
                rm_go_version = bc_go_version bc, rm_build_id = bc_build_id bc, rm_plan_hash = bc_plan_hash bc,
                rm_bars_hash = bc_bars_hash bc\<rparr>
               \<lparr>gc_strategy_id = sid, gc_pair = bc_pair bc, gc_pop_size = ec_pop_size cfg,
                gc_max_generations = ec_max_generations cfg, gc_elite_ratio = ec_elite_ratio cfg,
                gc_fatal_mdd = pn_fatal_mdd plan, gc_taker_fee_bps = fp_taker_fee_bps (pn_friction plan),
                gc_slippage_bps = fp_slippage_bps (pn_friction plan), gc_spawn_mode = sp_spawn_mode (pn_spawn plan),
                gc_test_mode = bc_test_mode bc, gc_oos_days = bc_oos_days bc,
                gc_fatal_audit_sample_rate = bc_fatal_audit_sample_rate bc\<rparr>
               \<lparr>el_window_scores = rw_windows raw, el_score_total = score, el_alpha_breakdown = bc_alpha_payload bc,
                el_friction_actual = rw_friction_actual raw\<rparr>
               (Some \<lparr>vl_oos_result = oos, vl_review_summary = review, vl_dsr_summary = bc_dsr_summary bc,
                  vl_stress_summary = bc_stress_payload bc\<rparr>)
               (Some \<lparr>dl_fatal_audit_samples = bc_samples bc, dl_search_stats = bc_search_stats bc\<rparr>)))"

end
