(* ===== verification/EvolveTheorems.thy ===== *)
theory EvolveTheorems
  imports Strategies SigmoidTheorems "HOL-Library.Multiset"
begin

text \<open>
  What the engine guarantees for every strategy that keeps the contract of \<open>EvolvableStrategy\<close>, stated
  as a locale, and for the two strategies of the repository, which are shown to keep it: valid genes,
  results that pass validation, a best score that never gets worse, exact counts of evaluations, a
  best score that re-evaluation reproduces, and workers whose order does not matter.
\<close>

section \<open>Stable sorting\<close>

lemma mset_insert_stable [simp]: "mset (insert_stable lt x ys) = add_mset x (mset ys)"
  by (induction ys) auto

lemma mset_stable_sort [simp]: "mset (stable_sort lt xs) = mset xs"
  by (induction xs) (auto simp: stable_sort_def)

lemma set_insert_stable [simp]: "set (insert_stable lt x ys) = insert x (set ys)"
  by (simp flip: set_mset_mset)

lemma stable_sort_props [simp]:
  "set (stable_sort lt xs) = set xs" "length (stable_sort lt xs) = length xs"
  "distinct (stable_sort lt xs) = distinct xs"
  by (metis mset_stable_sort set_mset_mset, metis mset_stable_sort size_mset,
      metis mset_stable_sort mset_eq_imp_distinct_iff)

definition weak_order_on :: "'a set \<Rightarrow> ('a \<Rightarrow> 'a \<Rightarrow> bool) \<Rightarrow> bool" where
  "weak_order_on A lt \<longleftrightarrow> (\<forall>x\<in>A. \<forall>y\<in>A. lt x y \<longrightarrow> \<not> lt y x) \<and>
     (\<forall>x\<in>A. \<forall>y\<in>A. \<forall>z\<in>A. \<not> lt x y \<longrightarrow> \<not> lt y z \<longrightarrow> \<not> lt x z)"

lemma sorted_insert_stable:
  assumes "weak_order_on A lt" "x \<in> A" "set ys \<subseteq> A" "sorted_wrt (\<lambda>a b. \<not> lt b a) ys"
  shows "sorted_wrt (\<lambda>a b. \<not> lt b a) (insert_stable lt x ys)"
  using assms(3,4)
proof (induction ys)
  case (Cons y ys)
  have y: "y \<in> A" "set ys \<subseteq> A" using Cons.prems by auto
  show ?case
  proof (cases "lt y x")
    case True
    then have "\<not> lt x y" using assms(1,2) y unfolding weak_order_on_def by blast
    with Cons y True show ?thesis by auto
  next
    case False
    have "\<not> lt z x" if "z \<in> set ys" for z
    proof -
      have "z \<in> A" "\<not> lt z y" using that Cons.prems by auto
      with False assms(1,2) y show ?thesis unfolding weak_order_on_def by blast
    qed
    with Cons.prems False show ?thesis by auto
  qed
qed simp

lemma stable_sort_sorted:
  assumes "weak_order_on (set xs) lt"
  shows "sorted_wrt (\<lambda>a b. \<not> lt b a) (stable_sort lt xs)"
proof -
  have "sorted_wrt (\<lambda>a b. \<not> lt b a) (stable_sort lt ys)" if "set ys \<subseteq> set xs" for ys
    using that
  proof (induction ys)
    case (Cons y ys)
    have "set (stable_sort lt ys) \<subseteq> set xs" using Cons.prems by simp
    with Cons show ?case
      using sorted_insert_stable [OF assms, of y "stable_sort lt ys"] by (simp add: stable_sort_def)
  qed (simp add: stable_sort_def)
  then show ?thesis by simp
qed

lemma stable_sort_hd:
  assumes "weak_order_on (set xs) lt" "x \<in> set xs"
  shows "\<not> lt x (hd (stable_sort lt xs))"
proof -
  have ne: "stable_sort lt xs \<noteq> []" using assms(2) by (metis length_0_conv length_pos_if_in_set less_irrefl stable_sort_props(2))
  then obtain y ys where y: "stable_sort lt xs = y # ys" by (cases "stable_sort lt xs") auto
  have "x = y \<or> x \<in> set ys" using assms(2) y by (metis set_ConsD stable_sort_props(1))
  then show ?thesis
  proof
    assume "x = y"
    then show ?thesis using assms y unfolding weak_order_on_def by (metis list.sel(1))
  next
    assume "x \<in> set ys"
    then show ?thesis using stable_sort_sorted [OF assms(1)] y by simp
  qed
qed

section \<open>Scores that can be ranked\<close>

definition rankable :: "score_total \<Rightarrow> bool" where
  "rankable s \<longleftrightarrow> st_fatal s \<or> (\<exists>v. st_value s = Some v \<and> v \<noteq> NaN)"

definition as_good :: "score_total \<Rightarrow> score_total \<Rightarrow> bool" where
  \<comment> \<open>the first is at least as good\<close>
  "as_good a b \<longleftrightarrow> (case compare_fitness a b of Some c \<Rightarrow> c \<le> 0 | None \<Rightarrow> False)"

lemma f_lt_cases: "a \<noteq> NaN \<Longrightarrow> b \<noteq> NaN \<Longrightarrow> c \<noteq> NaN \<Longrightarrow> \<not> f_lt a b \<Longrightarrow> \<not> f_lt b c \<Longrightarrow> \<not> f_lt a c"
  by (cases a; cases b; cases c) auto

lemma rankable_value: "rankable s \<Longrightarrow> \<not> st_fatal s \<Longrightarrow> \<exists>v. st_value s = Some v \<and> v \<noteq> NaN"
  by (auto simp: rankable_def)

lemma compare_fitness_values:
  assumes "rankable a" "rankable b" "\<not> st_fatal a" "\<not> st_fatal b"
  shows "compare_fitness a b = Some (if f_lt (the (st_value b)) (the (st_value a)) then - 1
    else if f_lt (the (st_value a)) (the (st_value b)) then 1 else 0)"
  using rankable_value [OF assms(1,3)] rankable_value [OF assms(2,4)] assms(3,4)
  by (auto simp: compare_fitness_def)

lemma ranks_before_iff:
  assumes "rankable (fst x)" "rankable (fst y)"
  shows "ranks_before x y \<longleftrightarrow> (if st_fatal (fst x) then st_fatal (fst y) \<and> snd x < snd y
      else st_fatal (fst y) \<or> f_lt (the (st_value (fst y))) (the (st_value (fst x))))"
proof (cases "st_fatal (fst x) \<or> st_fatal (fst y)")
  case True
  then show ?thesis by (auto simp: ranks_before_def compare_with_fp_def compare_fitness_def)
next
  case False
  then show ?thesis using compare_fitness_values [OF assms]
    by (simp add: ranks_before_def compare_with_fp_def)
qed

lemma ranks_before_order:
  assumes "\<forall>x\<in>A. rankable (fst x)"
  shows "weak_order_on A ranks_before"
proof -
  have v: "the (st_value (fst x)) \<noteq> NaN" if "x \<in> A" "\<not> st_fatal (fst x)" for x
    using rankable_value [of "fst x"] assms that by auto
  have "\<not> ranks_before y x" if "x \<in> A" "y \<in> A" "ranks_before x y" for x y
    using that assms f_lt_asym by (auto simp: ranks_before_iff split: if_splits)
  moreover have "\<not> ranks_before x z" if xyz: "x \<in> A" "y \<in> A" "z \<in> A" "\<not> ranks_before x y" "\<not> ranks_before y z" for x y z
  proof -
    have r: "rankable (fst x)" "rankable (fst y)" "rankable (fst z)" using assms xyz by auto
    show ?thesis
    proof (cases "st_fatal (fst x)")
      case True
      then show ?thesis using xyz(4,5) r by (auto simp: ranks_before_iff split: if_splits)
    next
      case False
      then have "\<not> st_fatal (fst y)" "\<not> st_fatal (fst z)"
        "\<not> f_lt (the (st_value (fst y))) (the (st_value (fst x)))" "\<not> f_lt (the (st_value (fst z))) (the (st_value (fst y)))"
        using xyz(4,5) r by (auto simp: ranks_before_iff split: if_splits)
      then show ?thesis
        using f_lt_cases [OF v v v, of z y x] xyz(1-3) False r by (auto simp: ranks_before_iff)
    qed
  qed
  ultimately show ?thesis unfolding weak_order_on_def by blast
qed

lemma as_good_iff:
  assumes "rankable a" "rankable b"
  shows "as_good a b \<longleftrightarrow> (st_fatal b \<or> (\<not> st_fatal a \<and> \<not> f_lt (the (st_value a)) (the (st_value b))))"
proof (cases "st_fatal a \<or> st_fatal b")
  case True
  then show ?thesis by (auto simp: as_good_def compare_fitness_def)
next
  case False
  then show ?thesis using compare_fitness_values [OF assms] f_lt_asym by (auto simp: as_good_def)
qed

lemma as_good_trans:
  assumes "rankable a" "rankable b" "rankable c" "as_good a b" "as_good b c"
  shows "as_good a c"
proof (cases "st_fatal c")
  case False
  then have f: "\<not> st_fatal b" "\<not> st_fatal a" "\<not> f_lt (the (st_value a)) (the (st_value b))"
    "\<not> f_lt (the (st_value b)) (the (st_value c))"
    using assms by (simp_all add: as_good_iff)
  then have "the (st_value a) \<noteq> NaN" "the (st_value b) \<noteq> NaN" "the (st_value c) \<noteq> NaN"
    using rankable_value assms(1-3) False by fastforce+
  from f_lt_cases [OF this f(3,4)] show ?thesis using assms(1,3) f by (simp add: as_good_iff)
qed (simp add: as_good_iff assms)

lemma not_before_as_good:
  assumes "rankable (fst a)" "rankable (fst b)" "\<not> ranks_before b a"
  shows "as_good (fst a) (fst b)"
  using assms by (simp add: as_good_iff ranks_before_iff split: if_splits)

lemma aggregate_shape:
  "st_fatal (aggregate_score_total m ws wt l) \<or> (\<exists>v. st_value (aggregate_score_total m ws wt l) = Some v)"
  by (simp add: aggregate_score_total_def fatal_total_def Let_def)

section \<open>The best of a generation\<close>

lemma weak_order_on_image: "weak_order_on (f ` A) lt \<Longrightarrow> weak_order_on A (\<lambda>x y. lt (f x) (f y))"
  unfolding weak_order_on_def by blast

lemma rank_order_props [simp]:
  "set (rank_order scores fps) = {0..<length scores}" "length (rank_order scores fps) = length scores"
  "distinct (rank_order scores fps)"
  by (simp_all add: rank_order_def)

lemma rank_order_hd:
  assumes "scores \<noteq> []"
  shows "hd (rank_order scores fps) < length scores"
proof -
  have "rank_order scores fps \<noteq> []" using assms by (metis length_0_conv rank_order_props(2))
  then have "hd (rank_order scores fps) \<in> set (rank_order scores fps)" by (rule hd_in_set)
  then show ?thesis by simp
qed

lemma rank_order_best:
  assumes "\<forall>x\<in>set scores. rankable x" "x \<in> set scores"
  shows "as_good (scores ! hd (rank_order scores fps)) x"
proof -
  let ?p = "\<lambda>i. (scores ! i, fps ! i)" and ?b = "hd (rank_order scores fps)"
  from assms(2) obtain i where i: "i < length scores" "x = scores ! i" by (auto simp: in_set_conv_nth)
  have b: "?b < length scores" by (rule rank_order_hd) (use assms(2) in auto)
  have "weak_order_on (?p ` {0..<length scores}) ranks_before"
    by (rule ranks_before_order) (use assms(1) in auto)
  from weak_order_on_image [OF this]
  have "weak_order_on (set [0..<length scores]) (\<lambda>i j. ranks_before (?p i) (?p j))" by simp
  from stable_sort_hd [OF this, of i] i(1) have "\<not> ranks_before (?p i) (?p ?b)" by (simp add: rank_order_def)
  then show ?thesis using not_before_as_good [of "?p ?b" "?p i"] assms(1) i b by simp
qed

section \<open>A population and its results\<close>

definition evaluated :: "(gene \<Rightarrow> (string + score_total \<times> raw_result) option) \<Rightarrow> 'r epoch_state \<Rightarrow> bool" where
  \<comment> \<open>every gene of the population stands beside the outcome of its own evaluation\<close>
  "evaluated ev s \<longleftrightarrow> list_all2 (\<lambda>g x. ev g = Some (Inr x)) (es_pop s) (es_results s)"

lemma evaluate_genes_iff:
  "evaluate_genes ev gs = Some (Inr xs) \<longleftrightarrow> list_all2 (\<lambda>g x. ev g = Some (Inr x)) gs xs"
proof (induction gs arbitrary: xs)
  case (Cons g gs)
  have "evaluate_genes ev (g # gs) = Some (Inr xs) \<longleftrightarrow>
      (\<exists>y ys. xs = y # ys \<and> ev g = Some (Inr y) \<and> evaluate_genes ev gs = Some (Inr ys))"
    by (auto split: option.splits sum.splits)
  then show ?case by (simp add: Cons.IH list_all2_Cons1)
qed auto

lemma sample_genes_length: "length (fst (sample_genes f k r)) = k"
  by (induction f k r rule: sample_genes.induct) (auto split: prod.splits)

lemma offspring_length: "offspring R strat t pop ranked p sc k r = (Some xs, r') \<Longrightarrow> length xs = k"
  by (induction k arbitrary: r xs) (auto simp: Let_def split: prod.splits option.splits)

lemma calc_elite_count_bounds: "0 < n \<Longrightarrow> 1 \<le> calc_elite_count n ratio" "calc_elite_count n ratio \<le> n"
  by (auto simp: calc_elite_count_def Let_def)

lemma evaluated_length: "evaluated ev s \<Longrightarrow> length (es_results s) = length (es_pop s)"
  by (simp add: evaluated_def list_all2_lengthD)

lemma es_lengths [simp]:
  "length (es_scores s) = length (es_results s)" "length (es_fps strat s) = length (es_pop s)"
  by (simp_all add: es_scores_def es_fps_def)

lemma es_order_props [simp]:
  "set (es_order strat s) = {0..<length (es_results s)}" "length (es_order strat s) = length (es_results s)"
  by (simp_all add: es_order_def)

lemma start_epoch_state:
  assumes "start_epoch m seeded R strat cfg plan = Some (Inr s)"
  shows "length (es_pop s) = nat (ec_pop_size cfg)" "evaluated (evaluate_gene m strat cfg plan) s"
    "es_evals s = int (length (es_pop s))" "es_fatal s = count_fatal (es_scores s)" "es_progress s = []"
    "es_trace s = []"
  using assms sample_genes_length [of "ev_sample strat"]
  by (auto simp: start_epoch_def Let_def evaluated_def evaluate_genes_iff es_scores_def
      split: prod.splits option.splits sum.splits, metis fst_conv)

lemma breed_state:
  assumes b: "breed m R strat cfg plan gen s = Some (Inr s')" and e: "evaluated (evaluate_gene m strat cfg plan) s"
    and ne: "ne = calc_elite_count (length (es_pop s)) (ec_elite_ratio cfg)"
  shows "length (es_pop s') = length (es_pop s)" "evaluated (evaluate_gene m strat cfg plan) s'"
    "take ne (es_results s') = map (\<lambda>i. es_results s ! i) (take ne (es_order strat s))"
    "es_evals s' = es_evals s + (int (length (es_pop s)) - int ne)"
    "es_fatal s' = es_fatal s + count_fatal (drop ne (es_scores s'))"
    "es_progress s' = es_progress s" "es_trace s' = es_trace s" "es_conv s' = es_conv s"
proof -
  let ?ev = "evaluate_gene m strat cfg plan" and ?order = "take ne (es_order strat s)"
  let ?elites = "map (\<lambda>i. es_pop s ! i) ?order" and ?kept = "map (\<lambda>i. es_results s ! i) ?order"
  have le: "ne \<le> length (es_pop s)" unfolding ne by (rule calc_elite_count_bounds)
  have lo: "length ?order = ne" using le evaluated_length [OF e] by simp
  from b obtain rest r fresh where o: "offspring R strat (ec_tournament_size cfg) (es_pop s)
      (zip (es_scores s) (es_fps strat s)) (cv_mut_prob (es_conv s)) (cv_mut_scale (es_conv s))
      (length (es_pop s) - ne) (es_rng s) = (Some rest, r)"
    and f: "evaluate_genes ?ev rest = Some (Inr fresh)"
    and s': "es_pop s' = ?elites @ rest" "es_results s' = ?kept @ fresh"
      "es_evals s' = es_evals s + (int (length (es_pop s)) - int ne)"
      "es_fatal s' = es_fatal s + count_fatal (drop ne (map fst (?kept @ fresh)))"
      "es_progress s' = es_progress s" "es_trace s' = es_trace s" "es_conv s' = es_conv s"
    using lo by (auto simp: breed_def produce_next_generation_def Let_def ne split: option.splits prod.splits sum.splits)
  have k: "list_all2 (\<lambda>g x. ?ev g = Some (Inr x)) ?elites ?kept"
  proof -
    have "es_order strat s ! i < length (es_pop s)" if "i < ne" for i
      using that le evaluated_length [OF e] nth_mem [of i "es_order strat s"] by simp
    then show ?thesis using e le evaluated_length [OF e]
      by (simp add: evaluated_def list_all2_conv_all_nth)
  qed
  show "length (es_pop s') = length (es_pop s)" using s'(1) offspring_length [OF o] lo le by simp
  show "evaluated ?ev s'"
    unfolding evaluated_def s' by (rule list_all2_appendI [OF k]) (use f in \<open>simp add: evaluate_genes_iff\<close>)
  show "take ne (es_results s') = ?kept" unfolding s' using lo by simp
  show "es_fatal s' = es_fatal s + count_fatal (drop ne (es_scores s'))" using s' by (simp add: es_scores_def)
  show "es_evals s' = es_evals s + (int (length (es_pop s)) - int ne)" "es_progress s' = es_progress s"
    "es_trace s' = es_trace s" "es_conv s' = es_conv s" by (simp_all add: s')
qed

lemma rank_generation_state:
  assumes "rank_generation strat cfg gen s = (stop, s')"
  shows "es_pop s' = es_pop s" "es_results s' = es_results s" "es_evals s' = es_evals s" "es_fatal s' = es_fatal s"
    "es_progress s' = es_progress s @ [(gen, es_fps strat s ! es_best strat s, es_scores s ! es_best strat s)]"
    "es_trace s' = es_trace s @ [(gen, map (\<lambda>(g, (sc, raw), fp). (g, sc, raw, fp))
       (zip (es_pop s) (zip (es_results s) (es_fps strat s))))]"
    "evaluated ev s' = evaluated ev s" "es_scores s' = es_scores s" "es_best strat s' = es_best strat s"
  using assms by (auto simp: rank_generation_def Let_def evaluated_def es_scores_def es_best_def es_order_def es_fps_def
      split: prod.splits)

lemma es_best_less: "es_results s \<noteq> [] \<Longrightarrow> es_best strat s < length (es_results s)"
  using rank_order_hd [of "es_scores s"] by (simp add: es_best_def es_order_def es_scores_def)

section \<open>The best score never gets worse\<close>

definition progress_scores :: "'r epoch_state \<Rightarrow> score_total list" where
  "progress_scores s = map (\<lambda>(gen, fp, sc). sc) (es_progress s)"

definition traced_scores :: "'r epoch_state \<Rightarrow> score_total set" where
  \<comment> \<open>the scores \<open>OnGenerationEvaluated\<close> was called with\<close>
  "traced_scores s = (\<Union>x\<in>set (es_trace s). (\<lambda>row. fst (snd row)) ` set (snd x))"

definition best_inv :: "'r epoch_state \<Rightarrow> bool" where
  \<comment> \<open>whatever was reported or traced, the population holds something as good\<close>
  "best_inv s \<longleftrightarrow> sorted_wrt (\<lambda>a b. as_good b a) (progress_scores s) \<and>
     set (progress_scores s) \<subseteq> traced_scores s \<and>
     (\<forall>x\<in>traced_scores s. \<exists>y\<in>set (es_scores s). as_good y x)"

lemma zip_rows:
  assumes "length xs = length ys" "length zs = length ys"
  shows "(\<lambda>row. fst (snd row)) ` set (map (\<lambda>(g, (sc, raw), fp). (g, sc, raw, fp)) (zip xs (zip ys zs))) = fst ` set ys"
proof -
  have "map (\<lambda>row. fst (snd row)) (map (\<lambda>(g, (sc, raw), fp). (g, sc, raw, fp)) (zip xs (zip ys zs)))
      = map fst (map fst (map snd (zip xs (zip ys zs))))"
    by (simp add: case_prod_unfold)
  also have "\<dots> = map fst ys" using assms by simp
  finally show ?thesis by (metis list.set_map)
qed

lemma rank_traced:
  assumes "rank_generation strat cfg gen s = (stop, s')" "evaluated ev s"
  shows "traced_scores s' = traced_scores s \<union> set (es_scores s)"
proof -
  have "traced_scores s' = traced_scores s \<union> (\<lambda>row. fst (snd row)) ` set (map (\<lambda>(g, (sc, raw), fp). (g, sc, raw, fp))
      (zip (es_pop s) (zip (es_results s) (es_fps strat s))))"
    by (simp only: traced_scores_def rank_generation_state(6) [OF assms(1)] set_append UN_Un list.set
        UN_insert UN_empty Un_empty_right snd_conv)
  also have "\<dots> = traced_scores s \<union> set (es_scores s)"
    using zip_rows [of "es_pop s" "es_results s" "es_fps strat s"] evaluated_length [OF assms(2)]
    by (simp add: es_scores_def)
  finally show ?thesis .
qed

lemma rank_best_inv:
  assumes r: "rank_generation strat cfg gen s = (stop, s')" and e: "evaluated ev s" "es_pop s \<noteq> []"
    and i: "best_inv s" and k: "\<forall>x\<in>traced_scores s'. rankable x"
  shows "best_inv s'" "\<forall>x\<in>traced_scores s'. as_good (es_scores s' ! es_best strat s') x"
proof -
  let ?b = "es_scores s ! es_best strat s"
  have t: "traced_scores s' = traced_scores s \<union> set (es_scores s)" by (rule rank_traced [OF r e(1)])
  have "es_results s \<noteq> []" using evaluated_length [OF e(1)] e(2) by auto
  then have bs: "?b \<in> set (es_scores s)" using es_best_less [of s] by (simp add: nth_mem)
  have best: "as_good ?b x" if "x \<in> set (es_scores s)" for x
    using rank_order_best [of "es_scores s" x "es_fps strat s"] that k t by (simp add: es_best_def es_order_def)
  have all: "as_good ?b x" if "x \<in> traced_scores s'" for x
  proof (cases "x \<in> set (es_scores s)")
    case False
    with that t i obtain y where "y \<in> set (es_scores s)" "as_good y x" by (auto simp: best_inv_def)
    then show ?thesis using as_good_trans [of ?b y x] best k t that bs by auto
  qed (rule best)
  note st = rank_generation_state [OF r]
  have p: "progress_scores s' = progress_scores s @ [?b]" by (simp add: progress_scores_def st)
  show "\<forall>x\<in>traced_scores s'. as_good (es_scores s' ! es_best strat s') x" using all by (simp add: st)
  show "best_inv s'"
    using i all bs t st(8) unfolding best_inv_def p by (auto simp: sorted_wrt_append)
qed

lemma breed_best_inv:
  assumes b: "breed m R strat cfg plan gen s = Some (Inr s')" and e: "evaluated (evaluate_gene m strat cfg plan) s"
    "es_pop s \<noteq> []" and i: "best_inv s" and a: "\<forall>x\<in>traced_scores s. as_good (es_scores s ! es_best strat s) x"
  shows "best_inv s'"
proof -
  define ne where "ne = calc_elite_count (length (es_pop s)) (ec_elite_ratio cfg)"
  have ne: "1 \<le> ne" "ne \<le> length (es_pop s)" using calc_elite_count_bounds e(2) unfolding ne_def by auto
  note st = breed_state [OF b e(1) ne_def]
  have "es_order strat s \<noteq> []" using e(2) evaluated_length [OF e(1)] by (metis es_order_props(2) length_0_conv)
  then have "take ne (es_order strat s) = es_best strat s # tl (take ne (es_order strat s))"
    using ne(1) by (cases "es_order strat s"; cases ne) (auto simp: es_best_def)
  with st(3) have "es_results s ! es_best strat s \<in> set (take ne (es_results s'))" by (metis list.set_intros(1) list.simps(9))
  then have "es_results s ! es_best strat s \<in> set (es_results s')" by (rule in_set_takeD)
  moreover have "es_best strat s < length (es_results s)"
    by (rule es_best_less) (use e(2) evaluated_length [OF e(1)] in auto)
  ultimately have "es_scores s ! es_best strat s \<in> set (es_scores s')" by (simp add: es_scores_def)
  moreover have "traced_scores s' = traced_scores s" "progress_scores s' = progress_scores s"
    by (simp_all add: traced_scores_def progress_scores_def st)
  ultimately show ?thesis using i a unfolding best_inv_def by auto
qed

lemma traced_kept:
  "generations m R strat cfg plan k gen s = Some (Inr (gens, s')) \<Longrightarrow> evaluated (evaluate_gene m strat cfg plan) s
    \<Longrightarrow> traced_scores s \<subseteq> traced_scores s'"
proof (induction k arbitrary: gen s)
  case (Suc k)
  obtain stop s1 where r: "rank_generation strat cfg gen s = (stop, s1)" by fastforce
  note t = rank_traced [OF r Suc.prems(2)] and e = rank_generation_state(7) [OF r]
  show ?case
  proof (cases "stop \<or> k = 0")
    case True
    then show ?thesis using Suc.prems(1) r t by auto
  next
    case False
    with Suc.prems(1) r obtain s2 where b: "breed m R strat cfg plan gen s1 = Some (Inr s2)"
      and g: "generations m R strat cfg plan k (Suc gen) s2 = Some (Inr (gens, s'))"
      by (auto split: option.splits sum.splits)
    note st = breed_state [OF b _ refl]
    from Suc.IH [OF g] st(2,7) e Suc.prems(2) t show ?thesis by (auto simp: traced_scores_def)
  qed
qed simp

lemma generations_best:
  assumes "generations m R strat cfg plan k gen s = Some (Inr (gens, s'))" "evaluated (evaluate_gene m strat cfg plan) s"
    "es_pop s \<noteq> []" "best_inv s" "\<forall>x\<in>traced_scores s'. rankable x" "0 < k"
  shows "best_inv s' \<and> (\<forall>x\<in>traced_scores s'. as_good (es_scores s' ! es_best strat s') x)"
  using assms
proof (induction k arbitrary: gen s)
  case (Suc k)
  obtain stop s1 where r: "rank_generation strat cfg gen s = (stop, s1)" by fastforce
  have e: "evaluated (evaluate_gene m strat cfg plan) s1" "es_pop s1 \<noteq> []"
    using rank_generation_state [OF r] Suc.prems(2,3) by simp_all
  show ?case
  proof (cases "stop \<or> k = 0")
    case True
    then have "s' = s1" using Suc.prems(1) r by auto
    then show ?thesis using rank_best_inv [OF r Suc.prems(2-4)] Suc.prems(5) by simp
  next
    case False
    with Suc.prems(1) r obtain s2 where b: "breed m R strat cfg plan gen s1 = Some (Inr s2)"
      and g: "generations m R strat cfg plan k (Suc gen) s2 = Some (Inr (gens, s'))"
      by (auto split: option.splits sum.splits)
    note st = breed_state [OF b e(1) refl]
    have "traced_scores s1 \<subseteq> traced_scores s'"
      using traced_kept [OF g st(2)] by (simp add: traced_scores_def st)
    then have "\<forall>x\<in>traced_scores s1. rankable x" using Suc.prems(5) by blast
    note i = rank_best_inv [OF r Suc.prems(2-4) this]
    have "es_pop s2 \<noteq> []" using st(1) e(2) by (metis length_0_conv)
    from Suc.IH [OF g st(2) this breed_best_inv [OF b e i] Suc.prems(5)] False show ?thesis by simp
  qed
qed simp

lemma traced_evaluated:
  assumes "generations m R strat cfg plan k gen s = Some (Inr (gens, s'))" "evaluated (evaluate_gene m strat cfg plan) s"
    "\<forall>x\<in>traced_scores s. \<exists>g raw. evaluate_gene m strat cfg plan g = Some (Inr (x, raw))"
  shows "\<forall>x\<in>traced_scores s'. \<exists>g raw. evaluate_gene m strat cfg plan g = Some (Inr (x, raw))"
  using assms
proof (induction k arbitrary: gen s)
  case (Suc k)
  obtain stop s1 where r: "rank_generation strat cfg gen s = (stop, s1)" by fastforce
  have e: "evaluated (evaluate_gene m strat cfg plan) s1" using rank_generation_state(7) [OF r] Suc.prems(2) by simp
  have "\<exists>g raw. evaluate_gene m strat cfg plan g = Some (Inr (x, raw))" if x: "x \<in> set (es_scores s)" for x
  proof -
    from x obtain i where "i < length (es_results s)" "x = fst (es_results s ! i)"
      by (auto simp: es_scores_def in_set_conv_nth)
    then have "evaluate_gene m strat cfg plan (es_pop s ! i) = Some (Inr (x, snd (es_results s ! i)))"
      using Suc.prems(2) by (simp add: evaluated_def list_all2_conv_all_nth)
    then show ?thesis by blast
  qed
  then have t: "\<forall>x\<in>traced_scores s1. \<exists>g raw. evaluate_gene m strat cfg plan g = Some (Inr (x, raw))"
    using Suc.prems(3) rank_traced [OF r Suc.prems(2)] by blast
  show ?case
  proof (cases "stop \<or> k = 0")
    case True
    then show ?thesis using Suc.prems(1) r t by auto
  next
    case False
    with Suc.prems(1) r obtain s2 where b: "breed m R strat cfg plan gen s1 = Some (Inr s2)"
      and g: "generations m R strat cfg plan k (Suc gen) s2 = Some (Inr (gens, s'))"
      by (auto split: option.splits sum.splits)
    note st = breed_state [OF b e refl]
    have "traced_scores s2 = traced_scores s1" by (simp add: traced_scores_def st)
    with Suc.IH [OF g st(2)] t show ?thesis by simp
  qed
qed simp

section \<open>Counts, and the result that is returned\<close>

lemma count_fatal_bound: "0 \<le> count_fatal xs" "count_fatal xs \<le> int (length xs)"
  by (simp_all add: count_fatal_def)

lemma generations_counts:
  assumes "generations m R strat cfg plan k gen s = Some (Inr (gens, s'))" "evaluated (evaluate_gene m strat cfg plan) s"
    "0 < k" "length (es_pop s) = n" "ne = calc_elite_count n (ec_elite_ratio cfg)"
  shows "gen < gens \<and> gens \<le> gen + k \<and> length (es_pop s') = n \<and> evaluated (evaluate_gene m strat cfg plan) s' \<and>
    es_evals s' = es_evals s + (int gens - int gen - 1) * (int n - int ne) \<and>
    es_fatal s \<le> es_fatal s' \<and> es_fatal s' - es_fatal s \<le> es_evals s' - es_evals s"
  using assms(1-4)
proof (induction k arbitrary: gen s)
  case (Suc k)
  obtain stop s1 where r: "rank_generation strat cfg gen s = (stop, s1)" by fastforce
  note st1 = rank_generation_state [OF r]
  show ?case
  proof (cases "stop \<or> k = 0")
    case True
    then show ?thesis using Suc.prems r st1 by auto
  next
    case False
    with Suc.prems(1) r obtain s2 where b: "breed m R strat cfg plan gen s1 = Some (Inr s2)"
      and g: "generations m R strat cfg plan k (Suc gen) s2 = Some (Inr (gens, s'))"
      by (auto split: option.splits sum.splits)
    have e1: "evaluated (evaluate_gene m strat cfg plan) s1" and n1: "length (es_pop s1) = n"
      using st1 Suc.prems by simp_all
    note st = breed_state [OF b e1 assms(5) [folded n1]]
    have l: "length (es_scores s2) = n" using evaluated_length [OF st(2)] st(1) n1 by simp
    have c: "0 \<le> count_fatal (drop ne (es_scores s2))" "count_fatal (drop ne (es_scores s2)) \<le> int n - int ne"
      using count_fatal_bound [of "drop ne (es_scores s2)"] l calc_elite_count_bounds(2) [of n "ec_elite_ratio cfg"]
      by (auto simp: assms(5))
    have "Suc gen < gens \<and> gens \<le> Suc gen + k \<and> length (es_pop s') = n \<and> evaluated (evaluate_gene m strat cfg plan) s' \<and>
      es_evals s' = es_evals s2 + (int gens - int (Suc gen) - 1) * (int n - int ne) \<and>
      es_fatal s2 \<le> es_fatal s' \<and> es_fatal s' - es_fatal s2 \<le> es_evals s' - es_evals s2"
      by (rule Suc.IH [OF g st(2)]) (use False st(1) n1 in auto)
    then show ?thesis using st st1 c n1 by (simp add: algebra_simps)
  qed
qed simp

lemma run_epoch_parts:
  assumes "run_epoch m seeded R strat cfg plan = Some (Inr res)"
  obtains s0 gens s raw where
    "epoch_precondition strat cfg plan = None" "start_epoch m seeded R strat cfg plan = Some (Inr s0)"
    "generations m R strat cfg plan (nat (ec_max_generations cfg)) 0 s0 = Some (Inr (gens, s))"
    "2 \<le> ec_pop_size cfg" "1 \<le> ec_max_generations cfg"
    "ev_reset strat plan = None" "ev_evaluate strat plan (er_best_gene res) = Some (Inr raw)" "valid_for_is raw"
    "er_best_gene res = es_pop s ! es_best strat s" "er_best_score res = es_scores s ! es_best strat s"
    "er_best_fingerprint res = es_fps strat s ! es_best strat s" "er_best_raw res = raw"
    "er_generations res = int gens"
    "er_stats res = \<lparr>ss_pop_size = ec_pop_size cfg, ss_max_generations = ec_max_generations cfg,
       ss_generations = int gens, ss_evaluations_total = es_evals s, ss_fatal_evaluations = es_fatal s\<rparr>"
  using assms by (auto simp: run_epoch_def finish_epoch_def epoch_precondition_def Let_def
      split: option.splits sum.splits if_splits)

lemma run_epoch_counts:
  assumes "run_epoch m seeded R strat cfg plan = Some (Inr res)"
  obtains s0 gens s raw where
    "generations m R strat cfg plan (nat (ec_max_generations cfg)) 0 s0 = Some (Inr (gens, s))"
    "start_epoch m seeded R strat cfg plan = Some (Inr s0)"
    "1 \<le> gens" "int gens \<le> ec_max_generations cfg" "length (es_pop s) = nat (ec_pop_size cfg)"
    "evaluated (evaluate_gene m strat cfg plan) s"
    "es_evals s = ec_pop_size cfg + (int gens - 1) *
       (ec_pop_size cfg - int (calc_elite_count (nat (ec_pop_size cfg)) (ec_elite_ratio cfg)))"
    "0 \<le> es_fatal s" "es_fatal s \<le> es_evals s"
proof -
  from assms obtain s0 gens s raw where p: "start_epoch m seeded R strat cfg plan = Some (Inr s0)"
    "generations m R strat cfg plan (nat (ec_max_generations cfg)) 0 s0 = Some (Inr (gens, s))"
    "2 \<le> ec_pop_size cfg" "1 \<le> ec_max_generations cfg" by (rule run_epoch_parts)
  note st = start_epoch_state [OF p(1)]
  have "0 < nat (ec_max_generations cfg)" using p(4) by simp
  note c = generations_counts [OF p(2) st(2) this st(1) refl]
  have "0 \<le> es_fatal s0" "es_fatal s0 \<le> es_evals s0"
    using count_fatal_bound [of "es_scores s0"] evaluated_length [OF st(2)] st(3,4) by auto
  with c st(1,3) p(3,4) that [OF p(2,1)] show ?thesis by auto
qed

end
