(* ===== verification/StrategyLaws.thy ===== *)
theory StrategyLaws
  imports EvolveTheorems
begin

text \<open>
  The contract of \<open>EvolvableStrategy\<close> (\<open>strategy/evolvable.go\<close>) as a locale: genes stay valid through
  sampling, crossover and mutation, and a valid gene evaluates to a valid result. The engine's loop is
  the client: under the contract an epoch never panics and never fails. Both strategies of the
  repository are shown to keep the contract.
\<close>

section \<open>The random generator, and scales that cannot make a NaN\<close>

definition generator_ok :: "'r rand_ops \<Rightarrow> bool" where
  \<comment> \<open>as \<open>math/rand\<close> documents its methods\<close>
  "generator_ok R \<longleftrightarrow>
     (\<forall>r. \<exists>q. fst (rd_float64 R r) = Fin q \<and> 0 \<le> q \<and> q < 1) \<and>
     (\<forall>r. f_finite (fst (rd_norm_float64 R r))) \<and>
     (\<forall>n r. 0 < n \<longrightarrow> fst (rd_intn R n r) < n)"

definition scale_ok :: "f64 \<Rightarrow> bool" where
  "scale_ok x \<longleftrightarrow> (\<exists>q. x = Fin q \<and> 1 / 1024 \<le> q)"

definition config_ok :: "engine_config \<Rightarrow> bool" where
  "config_ok cfg \<longleftrightarrow> 2 \<le> ec_pop_size cfg \<and> 1 \<le> ec_max_generations cfg \<and> scale_ok (ec_mutation_scale cfg) \<and>
     (f_lt (Fin 0) (ec_mutation_scale_max cfg) \<longrightarrow> scale_ok (ec_mutation_scale_max cfg))"

lemma f_round_large:
  assumes "1 / 1024 \<le> x"
  shows "(\<exists>q. f_round n x = Fin q \<and> 1 / 1024 \<le> q) \<or> f_round n x = Inf False"
proof -
  have "rnd (1 / 1024) = 1 / 1024" using rnd_dyadic [of 1 10] by simp
  then have "1 / 1024 \<le> rnd x" using rnd_mono [OF assms] by simp
  then show ?thesis by (auto simp: f_round_def Let_def)
qed

lemma ramp_scale_ok:
  assumes "scale_ok x" "f_lt (Fin 1) factor" "f_lt (Fin 0) limit \<longrightarrow> scale_ok limit"
  shows "scale_ok (ramp factor limit x)"
proof (cases "f_lt (Fin 0) limit")
  case True
  then obtain q l where q: "x = Fin q" "1 / 1024 \<le> q" and l: "limit = Fin l" "1 / 1024 \<le> l"
    using assms by (auto simp: scale_ok_def)
  have "(\<exists>y. f_mul x factor = Fin y \<and> 1 / 1024 \<le> y) \<or> f_mul x factor = Inf False"
  proof (cases factor)
    case (Fin f)
    then have "1 * (1 / 1024) \<le> f * q" using assms(2) q(2) by (intro mult_mono) auto
    then have "1 / 1024 \<le> q * f" by (simp add: mult.commute)
    from f_round_large [OF this] show ?thesis using q Fin by (simp add: f_mul_def f_is_nan_def)
  next
    case (Inf s)
    then show ?thesis using assms(2) q by (simp add: f_mul_def f_is_nan_def)
  qed (use assms(2) in simp_all)
  then show ?thesis
  proof
    assume "\<exists>y. f_mul x factor = Fin y \<and> 1 / 1024 \<le> y"
    then obtain y where "f_mul x factor = Fin y" "1 / 1024 \<le> y" by blast
    then show ?thesis using True l by (auto simp: ramp_def f_min_def f_max_def f_is_nan_def scale_ok_def)
  next
    assume "f_mul x factor = Inf False"
    then show ?thesis using True l by (auto simp: ramp_def f_min_def f_max_def f_is_nan_def scale_ok_def)
  qed
qed (use assms(1) in \<open>simp add: ramp_def\<close>)

lemma observe_scale_ok:
  "config_ok cfg \<Longrightarrow> scale_ok (cv_mut_scale c) \<Longrightarrow> observe cfg sc c = (stop, c') \<Longrightarrow> scale_ok (cv_mut_scale c')"
  by (auto simp: observe_def config_ok_def Let_def intro: ramp_scale_ok split: if_splits)

section \<open>The contract\<close>

locale evolvable_laws =
  fixes strat :: "'r rand_ops \<Rightarrow> 'r evolvable" and valid :: "gene \<Rightarrow> bool" and plan_ok :: "evaluable_plan \<Rightarrow> bool"
  assumes adapters: "ev_new_adapter (strat R) plan = None" "ev_reset (strat R) plan = None"
    and sample_valid: "generator_ok R \<Longrightarrow> valid (fst (ev_sample (strat R) r))"
    and crossover_valid: "generator_ok R \<Longrightarrow> valid p1 \<Longrightarrow> valid p2 \<Longrightarrow>
      \<exists>c r'. ev_crossover (strat R) p1 p2 r = (Some c, r') \<and> valid c"
    and mutate_valid: "generator_ok R \<Longrightarrow> scale_ok scale \<Longrightarrow> valid g \<Longrightarrow> valid (fst (ev_mutate (strat R) g prob scale r))"
    and evaluate_valid: "valid g \<Longrightarrow> plan_ok plan \<Longrightarrow>
      \<exists>raw. ev_evaluate (strat R) plan g = Some (Inr raw) \<and> valid_for_is raw"
begin

lemma samples_valid: "generator_ok R \<Longrightarrow> list_all valid (fst (sample_genes (ev_sample (strat R)) k r))"
proof (induction k arbitrary: r)
  case (Suc k)
  then show ?case using sample_valid [of R r] by (simp add: split_beta Let_def)
qed simp

lemma tournament_less:
  assumes "generator_ok R" "ranked \<noteq> []"
  shows "fst (tournament_select R t ranked r) < length ranked"
proof -
  have i: "fst (rd_intn R (length ranked) r) < length ranked" for r using assms by (simp add: generator_ok_def)
  have "best < length ranked \<Longrightarrow> fst (tournament_rest R ranked k best r) < length ranked" for best k r
  proof (induction k arbitrary: best r)
    case (Suc k)
    then show ?case using i [of r] by (simp add: split_beta Let_def)
  qed simp
  then show ?thesis unfolding tournament_select_def
    using i [of r] by (simp add: split_beta Let_def)
qed

lemma offspring_valid:
  assumes R: "generator_ok R" and p: "list_all valid pop" "length ranked = length pop" "pop \<noteq> []" and sc: "scale_ok scale"
  shows "\<exists>xs r'. offspring R (strat R) t pop ranked prob scale k r = (Some xs, r') \<and> list_all valid xs"
proof (induction k arbitrary: r)
  case (Suc k)
  have rn: "ranked \<noteq> []" using p by auto
  obtain p1 r1 where t1: "tournament_select R t ranked r = (p1, r1)" by fastforce
  obtain p2 r2 where t2: "tournament_select R t ranked r1 = (p2, r2)" by fastforce
  have "p1 < length pop" "p2 < length pop"
    using tournament_less [OF R rn, of t r] tournament_less [OF R rn, of t r1] t1 t2 p(2) by simp_all
  then have "valid (pop ! p1)" "valid (pop ! p2)" using p(1) by (auto simp: list_all_length)
  from crossover_valid [OF R this, of r2] obtain c r3 where c: "ev_crossover (strat R) (pop ! p1) (pop ! p2) r2 = (Some c, r3)"
    "valid c" by blast
  obtain d r4 where d: "ev_mutate (strat R) c prob scale r3 = (d, r4)" by fastforce
  have "valid d" using mutate_valid [OF R sc c(2), of prob r3] d by simp
  with Suc [of r4] show ?case by (auto simp: t1 t2 c d)
qed simp

lemma genes_evaluate:
  assumes "plan_ok plan"
  shows "list_all valid gs \<Longrightarrow> \<exists>xs. evaluate_genes (evaluate_gene m (strat R) cfg plan) gs = Some (Inr xs)"
proof (induction gs)
  case (Cons g gs)
  then obtain raw where "ev_evaluate (strat R) plan g = Some (Inr raw)" "valid_for_is raw"
    using evaluate_valid [OF _ assms, of g R] by auto
  with Cons show ?case by (auto simp: evaluate_gene_def adapters)
qed simp

lemma start_total:
  assumes "generator_ok R" "plan_ok plan" "config_ok cfg"
  shows "\<exists>s. start_epoch m seeded R (strat R) cfg plan = Some (Inr s) \<and> list_all valid (es_pop s) \<and>
    scale_ok (cv_mut_scale (es_conv s))"
proof -
  obtain seed2 r where a: "rd_int63 R (seeded (ec_epoch_seed cfg)) = (seed2, r)" by fastforce
  obtain pop r2 where b: "sample_genes (ev_sample (strat R)) (nat (ec_pop_size cfg)) r = (pop, r2)" by fastforce
  have v: "list_all valid pop" using samples_valid [OF assms(1), of "nat (ec_pop_size cfg)" r] b by simp
  from genes_evaluate [OF assms(2) v] obtain xs where
    "evaluate_genes (evaluate_gene m (strat R) cfg plan) pop = Some (Inr xs)" by blast
  then show ?thesis using v assms(3)
    by (auto simp: start_epoch_def a b adapters config_ok_def new_convergence_def split: prod.splits)
qed

lemma breed_total:
  assumes R: "generator_ok R" and pl: "plan_ok plan" and v: "list_all valid (es_pop s)" "es_pop s \<noteq> []"
    and e: "evaluated (evaluate_gene m (strat R) cfg plan) s" and sc: "scale_ok (cv_mut_scale (es_conv s))"
  shows "\<exists>s'. breed m R (strat R) cfg plan gen s = Some (Inr s') \<and> list_all valid (es_pop s')"
proof -
  let ?ne = "calc_elite_count (length (es_pop s)) (ec_elite_ratio cfg)"
  let ?el = "map (\<lambda>i. es_pop s ! i) (take ?ne (es_order (strat R) s))"
  have l: "length (zip (es_scores s) (es_fps (strat R) s)) = length (es_pop s)" using evaluated_length [OF e] by simp
  from offspring_valid [OF R v(1) l v(2) sc] obtain xs r' where o: "offspring R (strat R) (ec_tournament_size cfg) (es_pop s)
      (zip (es_scores s) (es_fps (strat R) s)) (cv_mut_prob (es_conv s)) (cv_mut_scale (es_conv s))
      (length (es_pop s) - ?ne) (es_rng s) = (Some xs, r')" and xs: "list_all valid xs" by blast
  from genes_evaluate [OF pl xs] obtain ys where y: "evaluate_genes (evaluate_gene m (strat R) cfg plan) xs = Some (Inr ys)"
    by blast
  have le: "length ?el = ?ne" using calc_elite_count_bounds(2) evaluated_length [OF e] by simp
  have "set (take ?ne (es_order (strat R) s)) \<subseteq> {0..<length (es_pop s)}"
    using set_take_subset [of ?ne "es_order (strat R) s"] evaluated_length [OF e] by simp
  then have "list_all valid ?el" using v(1) by (auto simp: list_all_iff dest!: subsetD)
  moreover have "produce_next_generation R (strat R) cfg (es_pop s) (zip (es_scores s) (es_fps (strat R) s))
      (es_order (strat R) s) (cv_mut_prob (es_conv s)) (cv_mut_scale (es_conv s)) (es_rng s) = (Some (?el @ xs), r')"
    by (simp add: produce_next_generation_def Let_def o)
  moreover have "drop (length ?el) (?el @ xs) = xs" by simp
  then have d: "drop ?ne (?el @ xs) = xs" unfolding le .
  ultimately show ?thesis using xs
    by (simp add: breed_def Let_def d y split: prod.splits del: drop_append)
qed

lemma generations_total:
  assumes "generator_ok R" "plan_ok plan" "config_ok cfg" "list_all valid (es_pop s)" "es_pop s \<noteq> []"
    "evaluated (evaluate_gene m (strat R) cfg plan) s" "scale_ok (cv_mut_scale (es_conv s))"
  shows "\<exists>gens s'. generations m R (strat R) cfg plan k gen s = Some (Inr (gens, s')) \<and> list_all valid (es_pop s')"
  using assms(4-7)
proof (induction k arbitrary: gen s)
  case (Suc k)
  obtain stop s1 where r: "rank_generation (strat R) cfg gen s = (stop, s1)" by fastforce
  note st1 = rank_generation_state [OF r]
  have c: "scale_ok (cv_mut_scale (es_conv s1))"
    using r observe_scale_ok [OF assms(3) Suc.prems(4)]
    by (auto simp: rank_generation_def Let_def split: prod.splits)
  have e1: "evaluated (evaluate_gene m (strat R) cfg plan) s1" using st1(7) Suc.prems(3) by simp
  show ?case
  proof (cases "stop \<or> k = 0")
    case True
    then show ?thesis using r st1 Suc.prems by auto
  next
    case False
    from breed_total [OF assms(1,2) _ _ e1 c] st1(1) Suc.prems(1,2) obtain s2 where
      b: "breed m R (strat R) cfg plan gen s1 = Some (Inr s2)" "list_all valid (es_pop s2)" by auto
    note st = breed_state [OF b(1) e1 refl]
    have "es_pop s2 \<noteq> []" using st(1) st1(1) Suc.prems(2) by (metis length_0_conv)
    moreover have "scale_ok (cv_mut_scale (es_conv s2))" using st(8) c by simp
    ultimately have ne: "es_pop s2 \<noteq> []" "scale_ok (cv_mut_scale (es_conv s2))" by blast+
    from Suc.IH [OF b(2) ne(1) st(2) ne(2)] show ?thesis using r b False by auto
  qed
qed simp

lemma epoch_total:
  assumes "generator_ok R" "plan_ok plan" "config_ok cfg" "epoch_precondition (strat R) cfg plan = None"
  shows "\<exists>res. run_epoch m seeded R (strat R) cfg plan = Some (Inr res) \<and> valid (er_best_gene res)"
proof -
  from start_total [OF assms(1-3)] obtain s0 where s0: "start_epoch m seeded R (strat R) cfg plan = Some (Inr s0)"
    "list_all valid (es_pop s0)" "scale_ok (cv_mut_scale (es_conv s0))" by blast
  note st = start_epoch_state [OF s0(1)]
  have ne: "es_pop s0 \<noteq> []" "0 < nat (ec_max_generations cfg)"
    using st(1) assms(3) by (force simp: config_ok_def)+
  from generations_total [OF assms(1-3) s0(2) ne(1) st(2) s0(3)] obtain gens s where
    g: "generations m R (strat R) cfg plan (nat (ec_max_generations cfg)) 0 s0 = Some (Inr (gens, s))"
    "list_all valid (es_pop s)" by blast
  note c = generations_counts [OF g(1) st(2) ne(2) refl refl]
  then have l: "length (es_results s) = length (es_pop s)" using evaluated_length by blast
  have "es_pop s \<noteq> []" using c ne(1) by (metis length_0_conv)
  with l have "es_best (strat R) s < length (es_pop s)" using es_best_less [of s "strat R"] by (metis length_0_conv)
  then have "valid (es_pop s ! es_best (strat R) s)" using g(2) by (simp add: list_all_length)
  moreover from evaluate_valid [OF this assms(2)] obtain raw where
    "ev_evaluate (strat R) plan (es_pop s ! es_best (strat R) s) = Some (Inr raw)" "valid_for_is raw" by blast
  ultimately show ?thesis
    using assms(4) s0(1) g(1) by (auto simp: run_epoch_def finish_epoch_def Let_def adapters)
qed

end

section \<open>The toy strategy keeps the contract\<close>

definition has_window :: "evaluable_plan \<Rightarrow> bool" where
  "has_window plan \<longleftrightarrow> (\<exists>w\<in>set (pn_windows plan). cw_name w \<in> set all_windows)"

lemma windows_of_plan: "has_window plan \<Longrightarrow> filter (\<lambda>n. plan_window plan n \<noteq> None) all_windows \<noteq> []"
  by (auto simp: has_window_def filter_empty_conv plan_window_def find_None_iff)

lemma cascade_ok_normal:
  "list_all (\<lambda>w. \<not> sl_fatal (cr_score w) \<and> cr_skipped_by w = None) ws \<Longrightarrow> cascade_ok None ws"
  by (induction ws) auto

lemma toy_clamp_valid: "toy_validate (toy_clamp g)"
proof -
  have "\<exists>x y. take 2 (g @ [Fin 0, Fin 0]) = [x, y]"
    by (cases g; cases "tl g") (auto simp: numeral_2_eq_2)
  then obtain x y where "take 2 (g @ [Fin 0, Fin 0]) = [x, y]" by blast
  then show ?thesis
    using clip_bounds [of "Fin 1" "Fin 0" x] clip_bounds [of "Fin 1" "Fin (- 1)" y]
    by (simp add: toy_clamp_def toy_validate_def toy_bounds_def)
qed

lemma copy_dims_total:
  "\<forall>i\<in>set ds. i < length src \<Longrightarrow> \<exists>c. copy_dims ds src child = Some c \<and> length c = length child \<and>
    set c \<subseteq> set child \<union> set src"
proof (induction ds arbitrary: child)
  case (Cons d ds)
  from Cons.IH [of "child[d := src ! d]"] Cons.prems obtain c where
    c: "copy_dims ds src (child[d := src ! d]) = Some c" "length c = length child"
    "set c \<subseteq> set (child[d := src ! d]) \<union> set src" by auto
  then have "set c \<subseteq> set child \<union> set src"
    using set_update_subset_insert [of child d "src ! d"] Cons.prems nth_mem [of d src] by fastforce
  with c Cons.prems show ?case by auto
qed simp

lemma cross_segments_total:
  assumes "\<forall>s\<in>set segs. \<forall>i\<in>set (sm_dimensions s). i < length p1 \<and> i < length p2"
  shows "\<exists>c r'. cross_segments R segs p1 p2 child r = (Some c, r') \<and> length c = length child \<and>
    set c \<subseteq> set child \<union> set p1 \<union> set p2"
  using assms
proof (induction segs arbitrary: child r)
  case (Cons s segs)
  obtain u r1 where u: "rd_float64 R r = (u, r1)" by fastforce
  let ?src = "if f_lt u f_half then p2 else p1"
  have "\<forall>i\<in>set (sm_dimensions s). i < length ?src" using Cons.prems by simp
  from copy_dims_total [OF this, of child] obtain c where
    c: "copy_dims (sm_dimensions s) ?src child = Some c" "length c = length child" "set c \<subseteq> set child \<union> set ?src" by blast
  from Cons.IH [of c r1] Cons.prems obtain c' r' where
    "cross_segments R segs p1 p2 c r1 = (Some c', r')" "length c' = length c" "set c' \<subseteq> set c \<union> set p1 \<union> set p2" by auto
  moreover have "set ?src \<subseteq> set p1 \<union> set p2" by simp
  ultimately show ?case using c u by auto
qed auto

lemma toy_evaluate_valid:
  assumes "toy_validate g" "has_window plan"
  shows "\<exists>raw. toy_evaluate plan g = Some (Inr raw) \<and> valid_for_is raw"
proof -
  let ?row = "\<lambda>w. \<lparr>cr_window = cw_name w, cr_score = \<lparr>sl_fatal = False, sl_value = Some (toy_score g), sl_reason = None\<rparr>,
    cr_fatal_reason = None, cr_fatal_at_bar_ts = None, cr_fatal_mdd_value = None,
    cr_bars_evaluated = int (length (cw_bars w)), cr_skipped_by = None\<rparr>"
  let ?rows = "\<lambda>names. concat (map (\<lambda>name. case plan_window plan name of None \<Rightarrow> [] | Some w \<Rightarrow> [?row w]) names)"
  have names: "map cr_window (?rows names) = filter (\<lambda>n. plan_window plan n \<noteq> None) names" for names
    by (induction names) (auto split: option.splits dest: plan_window_name)
  have normal: "list_all (\<lambda>w. \<not> sl_fatal (cr_score w) \<and> cr_skipped_by w = None) (?rows names)" for names
    by (induction names) (auto split: option.splits)
  have "\<forall>n\<in>set all_windows. window_valid n" by (simp add: all_windows_def window_valid_def)
  then have ok: "list_all crucible_result_ok (?rows all_windows)"
    by (auto simp: list_all_iff crucible_result_ok_def split: option.splits dest: plan_window_name [OF sym])
  have "WindowOOS \<notin> set (map cr_window (?rows all_windows))"
    unfolding names by (rule windows_subset_canonical(3))
  then have oos: "list_all (\<lambda>w. cr_window w \<noteq> WindowOOS) (?rows all_windows)" unfolding list_all_iff by force
  have ne: "?rows all_windows \<noteq> []" using names [of all_windows] windows_of_plan [OF assms(2)] by (metis list.simps(8))
  have ev: "\<exists>raw. toy_evaluate plan g = Some (Inr raw) \<and> rw_windows raw = ?rows all_windows"
    using assms(1) by (simp add: toy_evaluate_def)
  then obtain raw where raw: "toy_evaluate plan g = Some (Inr raw)" "rw_windows raw = ?rows all_windows" by blast
  have "valid_for_is raw"
    unfolding valid_for_is_def raw(2) names
    by (intro conjI ne ok oos windows_subset_canonical(1,2) cascade_ok_normal normal)
  with raw(1) show ?thesis by blast
qed

interpretation toy_laws: evolvable_laws toy_evolvable toy_validate has_window
proof
  fix R :: "'a rand_ops" and p1 p2 and r
  assume "toy_validate p1" "toy_validate p2"
  then have "\<forall>s\<in>set toy_segments. \<forall>i\<in>set (sm_dimensions s). i < length p1 \<and> i < length p2"
    by (simp add: toy_validate_def toy_segments_def)
  from cross_segments_total [OF this, of R "[Fin 0, Fin 0]" r] obtain c r' where
    "cross_segments R toy_segments p1 p2 [Fin 0, Fin 0] r = (Some c, r')" by blast
  then show "\<exists>c r'. ev_crossover (toy_evolvable R) p1 p2 r = (Some c, r') \<and> toy_validate c"
    by (simp add: toy_evolvable_def toy_crossover_def toy_clamp_valid)
qed (auto simp: toy_evolvable_def toy_sample_def toy_mutate_def toy_clamp_valid toy_evaluate_valid Let_def split_beta)

end
