(* ===== verification/SigmoidLaws.thy ===== *)
theory SigmoidLaws
  imports StrategyLaws
begin

text \<open>
  The sigmoid strategy keeps the contract of \<open>EvolvableStrategy\<close>: sound genes (valid and without NaN,
  which validation lets through) are what sampling, crossover and mutation make, and a sound gene
  evaluates without panic on every plan whose windows leave bars after the warm-up.
\<close>

section \<open>What an operation returns is a binary64 value\<close>

lemma representable_rnd_pos:
  assumes "0 < x"
  shows "representable (rnd_pos x)"
proof -
  let ?u = "2 powi ulp_exp x :: rat"
  have "x < 2 powi (flog2 x + 1)" by (rule flog2_bounds(2) [OF assms])
  also have "\<dots> \<le> 2 powi (ulp_exp x + 53)" by (intro power_int_increasing) (simp_all add: ulp_exp_def)
  also have "\<dots> = of_int (2 ^ 53) * ?u" by (simp add: power_int_add)
  finally have "x / ?u \<le> of_int (2 ^ 53)" by (simp add: divide_le_eq)
  from round_half_even_mono [OF this] have "round_half_even (x / ?u) \<le> 2 ^ 53" by (simp only: round_half_even_int)
  moreover have "0 \<le> x / ?u" using assms by simp
  then have "round_half_even (of_int 0) \<le> round_half_even (x / ?u)" by (intro round_half_even_mono) simp
  then have "0 \<le> round_half_even (x / ?u)" by (simp only: round_half_even_int)
  ultimately show ?thesis unfolding representable_def rnd_pos_def Let_def
    by (intro exI [of _ "round_half_even (x / ?u)"] exI [of _ "ulp_exp x"]) (simp add: ulp_exp_def)
qed

lemma rnd_idem [simp]: "rnd (rnd x) = rnd x"
proof (rule rnd_representable)
  show "representable (rnd x)"
    using representable_rnd_pos [of x] representable_rnd_pos [of "- x"] representable_0 by (auto simp: rnd_def)
qed

lemma f_wf_round [simp]: "f_wf (f_round n x)"
  by (simp add: f_round_def Let_def)

lemma f_wf_const [simp]: "f_wf (f_const x)"
  by (simp add: f_const_def)

lemma f_wf_add: "f_wf x \<Longrightarrow> f_wf y \<Longrightarrow> f_wf (f_add x y)"
  by (simp add: f_add_def Let_def)

lemma f_wf_mul: "f_wf (f_mul x y)"
  by (simp add: f_mul_def)

lemma f_wf_int: "\<bar>n\<bar> \<le> 1000 \<Longrightarrow> f_wf (Fin (of_int n))"
proof -
  assume n: "\<bar>n\<bar> \<le> 1000"
  then have "\<bar>n\<bar> \<le> 2 ^ 53" by simp
  then have "rnd (of_int n) = of_int n" by (rule rnd_representable [OF representable_int])
  moreover have "\<bar>of_int n :: rat\<bar> \<le> of_int 1000" using n by (simp only: of_int_abs [symmetric] of_int_le_iff)
  then have "\<bar>of_int n :: rat\<bar> < 2 ^ 1024"
    by (rule le_less_trans) (rule less_le_trans [of _ "2 ^ 10"], simp, rule power_increasing, simp_all)
  ultimately show ?thesis by simp
qed

lemma bounds_wf: "\<forall>b\<in>set bounds. f_wf (fst b) \<and> f_wf (snd b)"
  using f_wf_int [of "- 1"] f_wf_int [of 0] f_wf_int [of 1] f_wf_int [of 3] f_wf_int [of 5] f_wf_int [of 10]
    f_wf_int [of 30] f_wf_int [of 50] f_wf_int [of 100] f_wf_int [of 250] f_wf_int [of 300] f_wf_int [of 1000]
  by (simp add: bounds_def del: f_wf.simps(1))

lemma clip_wf: "f_wf x \<Longrightarrow> f_wf lo \<Longrightarrow> f_wf hi \<Longrightarrow> f_wf (clip x lo hi)"
  by (simp add: clip_def)

lemma clip_gene_wf:
  assumes "list_all f_wf g"
  shows "list_all f_wf (clip_gene g)"
proof -
  have "list_all f_wf (pad_gene g)" using assms f_wf_int [of 0] set_take_subset [of gene_dim "g @ replicate gene_dim (Fin 0)"]
    by (auto simp: pad_gene_def list_all_iff simp del: f_wf.simps(1))
  then have "f_wf (clip x (fst b) (snd b))" if "(x, b) \<in> set (zip (pad_gene g) bounds)" for x b
    using that bounds_wf by (intro clip_wf) (auto simp: list_all_iff dest: set_zip_leftD set_zip_rightD)
  then show ?thesis by (fastforce simp: clip_gene_def list_all_iff)
qed

lemma period_wf: "period_in a b x \<Longrightarrow> 0 < a \<Longrightarrow> b \<le> 1000 \<Longrightarrow> f_wf x"
  using f_wf_int by (auto simp: period_in_def simp del: f_wf.simps(1))

lemma clamp_wf:
  assumes "list_all f_wf g"
  shows "list_all f_wf (clamp g)"
proof -
  let ?c = "clip_gene g" and ?r = "fold (\<lambda>i. update_at i f_math_round) [5, 6, 7, 8] (clip_gene g)"
  have l: "length ?c = 13" by (simp add: clip_gene_def)
  have c: "f_wf x" if "x \<in> set ?c" for x using clip_gene_wf [OF assms] that by (simp add: list_all_iff)
  have p: "f_wf (f_math_round (?c ! 5))" "f_wf (f_math_round (?c ! 6))" "f_wf (f_math_round (?c ! 7))" "f_wf (f_math_round (?c ! 8))"
    using round_clip_period [of 5 100 "pad_gene g ! 5"] round_clip_period [of 50 300 "pad_gene g ! 6"]
      round_clip_period [of 5 50 "pad_gene g ! 7"] round_clip_period [of 30 250 "pad_gene g ! 8"] period_wf
    by (force simp: clip_gene_def bounds_def)+
  have w: "list_all f_wf (xs[i := x])" if "list_all f_wf xs" "f_wf x" for xs i x
    using that set_update_subset_insert [of xs i x] by (auto simp: list_all_iff)
  have r: "list_all f_wf ?r" "length ?r = 13"
    using clip_gene_wf [OF assms] l p by (simp_all add: update_at_def w)
  have "list_all f_wf (separate s l xs) \<and> length (separate s l xs) = 13"
    if "list_all f_wf xs" "length xs = 13" "s < 13" "l < 13" for s l xs
    using that bounds_wf f_wf_int [of 1] unfolding separate_def
    by (auto simp: list_all_length simp del: f_wf.simps(1) intro!: w [unfolded list_all_length, rule_format] clip_wf f_wf_add)
  from this [OF this [OF r, THEN conjunct1] this [OF r, THEN conjunct2]] show ?thesis by (simp add: clamp_def Let_def)
qed

section \<open>Genes without NaN\<close>

definition sound_gene :: "gene \<Rightarrow> bool" where
  "sound_gene g \<longleftrightarrow> validate g \<and> NaN \<notin> set g \<and> list_all f_wf g"

lemma clip_not_nan: "x \<noteq> NaN \<Longrightarrow> lo \<noteq> NaN \<Longrightarrow> hi \<noteq> NaN \<Longrightarrow> clip x lo hi \<noteq> NaN"
  by (simp add: clip_def)

lemma f_round_not_nan [simp]: "f_round n x \<noteq> NaN"
  by (simp add: f_round_def Let_def)

lemma f_math_round_not_nan: "x \<noteq> NaN \<Longrightarrow> f_math_round x \<noteq> NaN"
  by (cases x) (simp_all add: Let_def)

lemma add_finite_not_nan: "x \<noteq> NaN \<Longrightarrow> f_finite y \<Longrightarrow> f_add x y \<noteq> NaN"
  by (cases y) (simp_all add: f_add_def f_is_nan_def Let_def)

lemma finite_add_not_nan: "f_finite x \<Longrightarrow> y \<noteq> NaN \<Longrightarrow> f_add x y \<noteq> NaN"
  by (cases x) (simp_all add: f_add_def f_is_nan_def Let_def)

lemma finite_mul_not_nan: "f_finite x \<Longrightarrow> f_finite y \<Longrightarrow> f_mul x y \<noteq> NaN"
  by (cases x; cases y) (simp_all add: f_mul_def f_is_nan_def)

lemma mul_positive_not_nan: "x \<noteq> NaN \<Longrightarrow> scale_ok y \<Longrightarrow> f_mul x y \<noteq> NaN"
  by (auto simp: f_mul_def f_is_nan_def scale_ok_def)

lemma bounds_no_nan: "\<forall>b\<in>set bounds. fst b \<noteq> NaN \<and> snd b \<noteq> NaN"
  by (simp add: bounds_def)

lemma no_nan_update: "NaN \<notin> set g \<Longrightarrow> x \<noteq> NaN \<Longrightarrow> NaN \<notin> set (g[i := x])"
  using set_update_subset_insert [of g i x] by auto

lemma clip_gene_no_nan:
  assumes "NaN \<notin> set g"
  shows "NaN \<notin> set (clip_gene g)"
proof -
  have "NaN \<notin> set (pad_gene g)" using assms set_take_subset [of gene_dim "g @ replicate gene_dim (Fin 0)"]
    by (auto simp: pad_gene_def)
  then have "clip x (fst b) (snd b) \<noteq> NaN" if "(x, b) \<in> set (zip (pad_gene g) bounds)" for x b
    using that bounds_no_nan by (intro clip_not_nan) (auto dest: set_zip_leftD set_zip_rightD)
  then show ?thesis by (fastforce simp: clip_gene_def)
qed

lemma update_at_no_nan:
  assumes "NaN \<notin> set g" "i < length g"
  shows "NaN \<notin> set (update_at i f_math_round g)"
proof -
  have "g ! i \<noteq> NaN" using assms(1) nth_mem [OF assms(2)] by metis
  then show ?thesis using assms(1) by (simp add: update_at_def no_nan_update f_math_round_not_nan)
qed

lemma separate_no_nan:
  assumes "NaN \<notin> set g" "s < length g" "l < 13"
  shows "NaN \<notin> set (separate s l g)"
proof -
  have "g ! s \<noteq> NaN" using assms(1) nth_mem [OF assms(2)] by auto
  then have "f_add (g ! s) (Fin 1) \<noteq> NaN" by (rule add_finite_not_nan) simp
  then have "clip (f_add (g ! s) (Fin 1)) (fst (bounds ! l)) (snd (bounds ! l)) \<noteq> NaN"
    using bounds_no_nan nth_mem [of l bounds] assms(3) by (intro clip_not_nan) auto
  then show ?thesis using assms(1) by (simp add: separate_def no_nan_update)
qed

lemma clamp_no_nan:
  assumes "NaN \<notin> set g"
  shows "NaN \<notin> set (clamp g)"
proof -
  have l: "length (clip_gene g) = 13" by (simp add: clip_gene_def)
  have "NaN \<notin> set (fold (\<lambda>i. update_at i f_math_round) is h) \<and> length (fold (\<lambda>i. update_at i f_math_round) is h) = 13"
    if "NaN \<notin> set h" "length h = 13" "\<forall>i\<in>set is. i < 13" for "is" h
    using that
  proof (induction "is" arbitrary: h)
    case (Cons i "is")
    have "NaN \<notin> set (update_at i f_math_round h)" by (rule update_at_no_nan) (use Cons.prems in auto)
    moreover have "length (update_at i f_math_round h) = 13" using Cons.prems(2) by (simp add: update_at_def)
    ultimately show ?case using Cons by simp
  qed simp
  from this [OF clip_gene_no_nan [OF assms] l, of "[5, 6, 7, 8]"]
  have h: "NaN \<notin> set (fold (\<lambda>i. update_at i f_math_round) [5, 6, 7, 8] (clip_gene g))"
    "length (fold (\<lambda>i. update_at i f_math_round) [5, 6, 7, 8] (clip_gene g)) = 13" by auto
  have "length (separate 5 6 x) = length x" for x by (simp add: separate_def)
  then show ?thesis unfolding clamp_def Let_def
    by (intro separate_no_nan) (use h in auto)
qed

lemma clamp_sound: "NaN \<notin> set g \<Longrightarrow> list_all f_wf g \<Longrightarrow> sound_gene (clamp g)"
  by (simp add: sound_gene_def clamp_no_nan clamp_wf clamp_validates)

section \<open>The genetic verbs\<close>

lemma f_const_small:
  assumes "\<bar>x\<bar> \<le> 1000"
  shows "f_finite (f_const x)" "\<bar>f_val (f_const x)\<bar> \<le> 1000"
proof -
  have "rnd (of_int 1000) = of_int 1000" "rnd (of_int (- 1000)) = of_int (- 1000)"
    by (rule rnd_representable, rule representable_int, simp)+
  then have "\<bar>rnd x\<bar> \<le> 1000" using rnd_mono [of x 1000] rnd_mono [of "- 1000" x] assms by (simp add: abs_le_iff)
  moreover have "\<bar>x\<bar> \<le> 2 ^ 53" using assms by simp
  ultimately show "f_finite (f_const x)" "\<bar>f_val (f_const x)\<bar> \<le> 1000" by (simp_all add: f_const_val)
qed

lemma bounds_small: "\<forall>b\<in>set bounds. f_finite (fst b) \<and> f_finite (snd b) \<and> \<bar>f_val (snd b) - f_val (fst b)\<bar> \<le> 2 ^ 53"
proof -
  have f: "f_finite x \<and> \<bar>f_val x\<bar> \<le> 1000" if "b \<in> set bounds" "x = fst b \<or> x = snd b" for b x
    using that by (auto simp: bounds_def f_const_small)
  have "\<bar>f_val (snd b) - f_val (fst b)\<bar> \<le> 2 ^ 53" if "b \<in> set bounds" for b
  proof -
    have "\<bar>f_val (snd b) - f_val (fst b)\<bar> \<le> 2000"
      using f [OF that, of "fst b"] f [OF that, of "snd b"] by (simp add: abs_le_iff)
    also have "(2000::rat) \<le> 2 ^ 53" by simp
    finally show ?thesis .
  qed
  then show ?thesis using f by blast
qed

lemma sample_loop_no_nan:
  assumes "generator_ok R"
  shows "\<forall>b\<in>set bs. f_finite (fst b) \<and> f_finite (snd b) \<and> \<bar>f_val (snd b) - f_val (fst b)\<bar> \<le> 2 ^ 53 \<Longrightarrow>
    NaN \<notin> set (fst (sample_loop R bs r))"
proof (induction bs arbitrary: r)
  case (Cons b bs)
  obtain lo hi where b: "b = (lo, hi)" by fastforce
  have "\<exists>q. fst (rd_float64 R r) = Fin q" using assms unfolding generator_ok_def by blast
  then obtain q where q: "fst (rd_float64 R r) = Fin q" by blast
  have "f_finite (f_sub hi lo)" using Cons.prems b by (intro f_sub_val) auto
  then have "f_mul (Fin q) (f_sub hi lo) \<noteq> NaN" by (intro finite_mul_not_nan) simp_all
  then have "f_add lo (f_mul (Fin q) (f_sub hi lo)) \<noteq> NaN" using Cons.prems b by (intro finite_add_not_nan) auto
  with Cons q b show ?case by (simp add: split_beta Let_def)
qed simp

lemma mutate_dims_no_nan:
  assumes "generator_ok R" "scale_ok scale"
  shows "\<forall>d\<in>set ds. f_finite (snd d) \<and> fst d < length g \<and> f_finite (g ! fst d) \<Longrightarrow> distinct (map fst ds) \<Longrightarrow>
    NaN \<notin> set g \<Longrightarrow> NaN \<notin> set (fst (mutate_dims R prob scale ds g r))"
proof (induction ds arbitrary: g r)
  case (Cons d ds)
  obtain i step where d: "d = (i, step)" by fastforce
  obtain u r1 where u: "rd_float64 R r = (u, r1)" by fastforce
  obtain z r2 where z: "rd_norm_float64 R r1 = (z, r2)" by fastforce
  have "f_finite z" using assms(1) z by (metis fst_conv generator_ok_def)
  then have "f_mul (f_mul z step) scale \<noteq> NaN"
    using Cons.prems(1) d by (intro mul_positive_not_nan finite_mul_not_nan assms(2)) auto
  then have "f_add (g ! i) (f_mul (f_mul z step) scale) \<noteq> NaN"
    using Cons.prems(1) d by (intro finite_add_not_nan) auto
  then have n: "NaN \<notin> set (g[i := f_add (g ! i) (f_mul (f_mul z step) scale)])"
    using Cons.prems(3) by (simp add: no_nan_update)
  have "\<forall>d\<in>set ds. f_finite (snd d) \<and> fst d < length (g[i := x]) \<and> f_finite (g[i := x] ! fst d)" for x
  proof
    fix e assume e: "e \<in> set ds"
    then have "fst e \<noteq> i" using Cons.prems(2) d by auto
    then show "f_finite (snd e) \<and> fst e < length (g[i := x]) \<and> f_finite (g[i := x] ! fst e)"
      using Cons.prems(1) e by simp
  qed
  from Cons.IH [OF this _ n] Cons.IH [of g] Cons.prems show ?case by (simp add: d u z)
qed simp

lemma sample_loop_wf: "\<forall>b\<in>set bs. f_wf (fst b) \<Longrightarrow> list_all f_wf (fst (sample_loop R bs r))"
  by (induction bs arbitrary: r) (auto simp: split_beta Let_def f_wf_add f_wf_mul)

lemma mutate_dims_wf: "list_all f_wf g \<Longrightarrow> list_all f_wf (fst (mutate_dims R prob scale ds g r))"
proof (induction ds arbitrary: g r)
  case (Cons d ds)
  have "list_all f_wf (g[i := f_add (g ! i) (f_mul x y)])" for i x y
  proof (cases "i < length g")
    case True
    then have "f_wf (f_add (g ! i) (f_mul x y))" using Cons.prems by (intro f_wf_add f_wf_mul) (simp add: list_all_length)
    then show ?thesis using Cons.prems set_update_subset_insert [of g i "f_add (g ! i) (f_mul x y)"]
      by (auto simp: list_all_iff)
  qed (use Cons.prems in \<open>simp add: list_update_beyond\<close>)
  then show ?case using Cons by (cases d) (simp add: split_beta Let_def)
qed simp

lemma sound_gene_finite:
  assumes "sound_gene g" "i < 13"
  shows "f_finite (g ! i)" "\<not> f_lt (g ! i) (fst (bounds ! i))" "\<not> f_lt (snd (bounds ! i)) (g ! i)" "length g = 13"
proof -
  have l: "length g = 13" and b: "in_bounds (bounds ! i) (g ! i)"
    using assms by (auto simp: sound_gene_def validate_iff gene_dim_def list_all2_conv_all_nth)
  have n: "g ! i \<noteq> NaN" using assms nth_mem [of i g] l unfolding sound_gene_def by metis
  show "\<not> f_lt (g ! i) (fst (bounds ! i))" "\<not> f_lt (snd (bounds ! i)) (g ! i)" "length g = 13"
    using b l by (simp_all add: in_bounds_def)
  have "f_finite (fst (bounds ! i)) \<and> f_finite (snd (bounds ! i))" using bounds_small assms(2) by simp
  with b n show "f_finite (g ! i)"
    by (cases "g ! i"; cases "fst (bounds ! i)"; cases "snd (bounds ! i)") (auto simp: in_bounds_def)
qed

definition mutated_dims :: "(nat \<times> f64) list" where
  "mutated_dims = concat (map (\<lambda>s. zip (sm_dimensions s) (sm_gene_step s)) segment_infos)"

lemma mutated_dims_facts: "\<forall>d\<in>set mutated_dims. f_finite (snd d) \<and> fst d < 13" "distinct (map fst mutated_dims)"
  by (simp_all add: mutated_dims_def segment_infos_def f_const_small)

lemma mutate_sound:
  assumes "generator_ok R" "scale_ok scale" "sound_gene g"
  shows "sound_gene (fst (mutate R g prob scale r))"
proof -
  have l: "length g = 13" using sound_gene_finite(4) [OF assms(3), of 0] by simp
  then have "\<forall>d\<in>set mutated_dims. f_finite (snd d) \<and> fst d < length g \<and> f_finite (g ! fst d)"
    using mutated_dims_facts(1) sound_gene_finite(1) [OF assms(3)] by auto
  from mutate_dims_no_nan [OF assms(1,2) this mutated_dims_facts(2), of prob r] assms(3)
  have "NaN \<notin> set (fst (mutate_dims R prob scale mutated_dims g r))" by (simp add: sound_gene_def)
  moreover have "list_all f_wf (fst (mutate_dims R prob scale mutated_dims g r))"
    by (rule mutate_dims_wf) (use assms(3) in \<open>simp add: sound_gene_def\<close>)
  ultimately have "sound_gene (clamp (fst (mutate_dims R prob scale mutated_dims g r)))" by (rule clamp_sound)
  then show ?thesis using l by (simp add: mutate_def gene_dim_def split_beta Let_def flip: mutated_dims_def)
qed

lemma crossover_sound:
  assumes "sound_gene p1" "sound_gene p2"
  shows "\<exists>c r'. crossover R p1 p2 r = (Some c, r') \<and> sound_gene c"
proof -
  have "length p1 = 13" "length p2 = 13" using sound_gene_finite(4) [of _ 0] assms by auto
  then have "\<forall>s\<in>set segment_infos. \<forall>i\<in>set (sm_dimensions s). i < length p1 \<and> i < length p2"
    by (simp add: segment_infos_def)
  from cross_segments_total [OF this, of R "replicate gene_dim (Fin 0)" r] obtain c r' where
    c: "cross_segments R segment_infos p1 p2 (replicate gene_dim (Fin 0)) r = (Some c, r')"
    "set c \<subseteq> set (replicate gene_dim (Fin 0)) \<union> set p1 \<union> set p2" by blast
  moreover have "f_wf (Fin 0)" using f_wf_int [of 0] by simp
  ultimately have "NaN \<notin> set c" "list_all f_wf c" using assms
    by (auto simp: sound_gene_def list_all_iff set_replicate_conv_if simp del: f_wf.simps(1) split: if_splits)
  from clamp_sound [OF this] c(1) show ?thesis by (simp add: crossover_def clamp_validates)
qed

lemma sample_sound: "generator_ok R \<Longrightarrow> sound_gene (fst (sample R r))"
  using sample_loop_no_nan [of R bounds r] sample_loop_wf [of bounds R r] bounds_small bounds_wf
  by (simp add: sample_def split_beta Let_def clamp_sound)

section \<open>Evaluation\<close>

definition aligned :: "runtime_state \<Rightarrow> bool" where
  "aligned rs \<longleftrightarrow> length (ru_nav_peak_value rs) = length (ru_nav_peak_ms rs)"

lemma roll_aligned:
  "aligned rs \<Longrightarrow> \<exists>peak rs'. roll_nav_peak_window t v rs = Some (peak, rs') \<and> aligned rs'"
  using stale_prefix_le [of "sub64 t nav_peak_window_duration_ms" "ru_nav_peak_ms rs"]
  by (auto simp: roll_nav_peak_window_def aligned_def Let_def)

lemma core_aligned:
  assumes "aligned rs"
  shows "\<exists>out. step_core_from_indicators m now prev p rs c st vr sg price d = Some out \<and> aligned (co_state out)"
proof -
  let ?eq = "mr_total_equity (compute_micro_rebalance m c \<lparr>mi_dead_btc = pf_dead_btc p, mi_float_btc = pf_float_btc p,
    mi_usdt = pf_usdt p, mi_price = price, mi_signal = sg, mi_market_beta_mul = market_beta_multiplier st\<rparr>)"
  let ?nav = "f_add (f_mul (f_add (pf_dead_btc p) (pf_float_btc p)) price) (pf_usdt p)"
  obtain mo rs1 where m1: "apply_macro_decision now prev p c rs ?eq = (mo, rs1)" by fastforce
  then have "aligned rs1" using assms by (auto simp: apply_macro_decision_def aligned_def Let_def split: if_splits)
  from roll_aligned [OF this] obtain peak rs2 where r: "roll_nav_peak_window now ?nav rs1 = Some (peak, rs2)" "aligned rs2"
    by blast
  obtain ro rs3 where m2: "apply_release_decision now p c rs2 ?nav peak = (ro, rs3)" by fastforce
  then have "aligned rs3" using r(2) by (auto simp: apply_release_decision_def aligned_def split: option.splits)
  then show ?thesis by (simp add: step_core_from_indicators_def Let_def m1 r m2)
qed

lemma run_bars_total:
  "aligned (sx_runtime s) \<Longrightarrow> \<exists>e. run_bars m c fp fatal warmup i bars s = Some e"
proof (induction bars arbitrary: i s)
  case (Cons b bars)
  let ?s = "s\<lparr>sx_indicators := update_indicators (eb_close b) (sx_indicators s)\<rparr>"
  obtain ep dd where d: "(if warmup \<le> i then score_bar m fatal (i = warmup) (nav_of (sx_portfolio ?s) (eb_close b)) (sx_path ?s)
      else (sx_path ?s, None)) = (ep, dd)" by fastforce
  show ?case
  proof (cases dd)
    case None
    let ?t = "?s\<lparr>sx_path := ep\<rparr>"
    have "\<exists>s'. trade_bar m c fp b ?t = Some s' \<and> aligned (sx_runtime s')"
    proof -
      obtain st vr where st: "incr_market_state (cm_quiet_threshold c) (sx_indicators ?t) = (st, vr)" by fastforce
      from core_aligned [OF Cons.prems] obtain out where
        "step_core_from_indicators m (eb_open_time b) (sx_last_bar s) (sx_portfolio s) (sx_runtime s) c st vr
          (incr_signal m c vr (eb_close b) (sx_indicators ?t)) (eb_close b) False = Some out" "aligned (co_state out)" by blast
      then show ?thesis using st by (simp add: trade_bar_def Let_def)
    qed
    then obtain s' where "trade_bar m c fp b ?t = Some s'" "aligned (sx_runtime s')" by blast
    with Cons.IH [OF this(2)] d None show ?thesis by (auto simp: Let_def)
  qed (use d in \<open>auto simp: Let_def\<close>)
qed simp

lemma period_of_nonneg:
  assumes "f_finite x" "\<not> f_lt x (Fin a)" "\<not> f_lt (Fin b) x" "0 \<le> a" "b \<le> 1000"
  shows "0 \<le> period_of x"
proof (cases x)
  case (Fin q)
  then have q: "0 \<le> q" "q \<le> 1000" using assms by auto
  then have n: "0 \<le> \<lfloor>q + 1 / 2\<rfloor>" "\<lfloor>q + 1 / 2\<rfloor> \<le> 1001" by linarith+
  then have "in64 \<lfloor>q + 1 / 2\<rfloor>" by (simp add: in64_def)
  with n q Fin show ?thesis by (simp add: period_of_def f_to_int_def Let_def)
qed (use assms in \<open>simp_all add: period_of_def f_to_int_def in64_def\<close>)

lemma sound_decodes:
  assumes "sound_gene g"
  shows "\<exists>c ind. decode_chromosome g = Some c \<and> new_indicators c = Some ind"
proof -
  have "0 \<le> period_of (g ! 7)"
    by (rule period_of_nonneg [of _ 5 50]) (use sound_gene_finite [OF assms, of 7] in \<open>simp_all add: bounds_def\<close>)
  moreover have "0 \<le> period_of (g ! 8)"
    by (rule period_of_nonneg [of _ 30 250]) (use sound_gene_finite [OF assms, of 8] in \<open>simp_all add: bounds_def\<close>)
  ultimately show ?thesis using sound_gene_finite(4) [OF assms, of 0]
    by (simp add: decode_chromosome_def gene_dim_def new_indicators_def)
qed

definition windows_ok :: "evaluable_plan \<Rightarrow> bool" where
  "windows_ok plan \<longleftrightarrow> has_window plan \<and>
     (\<forall>w\<in>set (pn_windows plan). 0 \<le> cw_warmup_len w \<and> cw_warmup_len w < int (length (cw_bars w)))"

lemma window_total:
  assumes "sound_gene g" "0 \<le> cw_warmup_len w" "cw_warmup_len w < int (length (cw_bars w))"
  shows "\<exists>x. evaluate_window m g w fp fatal usdt = Some (Inr x)"
proof -
  from sound_decodes [OF assms(1)] obtain c ind where c: "decode_chromosome g = Some c" "new_indicators c = Some ind" by blast
  let ?s = "\<lparr>sx_portfolio = cash_portfolio usdt, sx_runtime = fresh_runtime_state, sx_last_bar = 0,
    sx_indicators = ind, sx_path = start_path\<rparr>"
  have "aligned (sx_runtime ?s)" by (simp add: aligned_def fresh_runtime_state_def)
  from run_bars_total [OF this] obtain e where
    "run_bars m c fp fatal (cw_warmup_len w) 0 (cw_bars w) ?s = Some e" by blast
  then show ?thesis using c assms(2,3)
    by (cases e) (auto simp: evaluate_window_def intro: prod_cases3)
qed

lemma cascade_total:
  assumes "\<And>w. w \<in> set (pn_windows plan) \<Longrightarrow> \<exists>x. ev w = Some (Inr x)"
  shows "\<exists>raw. cascade_loop ev capture plan names from acc = Some (Inr raw)"
proof (induction names arbitrary: "from" acc)
  case (Cons n ns)
  show ?case
  proof (cases "plan_window plan n")
    case (Some w)
    then have "w \<in> set (pn_windows plan)" 
      using nth_mem [of _ "rev (pn_windows plan)"] by (auto simp: plan_window_def find_Some_iff)
    from assms [OF this] obtain res stats ret where "ev w = Some (Inr (res, stats, ret))" by auto
    with Some Cons show ?thesis by (cases "from") auto
  qed (use Cons in simp)
qed simp

lemma sigmoid_evaluate_valid:
  assumes "sound_gene g" "windows_ok plan"
  shows "\<exists>raw. sigmoid_evaluate m plan g = Some (Inr raw) \<and> valid_for_is raw"
proof -
  have "\<exists>raw. sigmoid_evaluate m plan g = Some (Inr raw)"
    unfolding sigmoid_evaluate_def
    by (rule cascade_total, rule window_total [OF assms(1)]) (use assms(2) in \<open>auto simp: windows_ok_def\<close>)
  then obtain raw where "sigmoid_evaluate m plan g = Some (Inr raw)" by blast
  moreover from assms(2) obtain w where "w \<in> set (pn_windows plan)" "cw_name w \<in> set all_windows"
    by (auto simp: windows_ok_def has_window_def)
  ultimately show ?thesis using sigmoid_evaluate_result by blast
qed

interpretation sigmoid_laws: evolvable_laws "\<lambda>R. sigmoid_evolvable m R interval" sound_gene windows_ok for m interval
proof
  fix R :: "'a rand_ops" and p1 p2 and r
  assume "sound_gene p1" "sound_gene p2"
  then show "\<exists>c r'. ev_crossover (sigmoid_evolvable m R interval) p1 p2 r = (Some c, r') \<and> sound_gene c"
    unfolding sigmoid_evolvable_def evolvable.simps by (rule crossover_sound)
qed (simp_all add: sigmoid_evolvable_def sample_sound mutate_sound sigmoid_evaluate_valid)

end
