(* ===== verification/Workers.thy ===== *)
theory Workers
  imports Evolve
begin

text \<open>
  The worker pool of \<open>evaluatePopulation\<close> (\<open>engine/engine.go\<close>): goroutines take gene indices from a
  closed channel and write each result into its own slot; one that meets an error reports it and
  stops. Their steps interleave freely. Whatever the interleaving, the pool stops, and its outcome is
  the one of evaluating the genes in order, up to the choice of the error when there are several.
  The context is taken not to be cancelled.
\<close>

datatype worker = WIdle | WBusy nat | WStopped

record pool =
  pl_jobs :: "nat list"                                   \<comment> \<open>the channel\<close>
  pl_workers :: "worker list"
  pl_slots :: "(score_total \<times> raw_result) option list"   \<comment> \<open>\<open>scores\<close> and \<open>raws\<close>\<close>
  pl_errs :: "string list"                                \<comment> \<open>\<open>errCh\<close>\<close>

inductive pool_step ::
  "(gene \<Rightarrow> (string + score_total \<times> raw_result) option) \<Rightarrow> gene list \<Rightarrow> pool \<Rightarrow> pool \<Rightarrow> bool"
  for ev pop where
  take_job: "w < length (pl_workers s) \<Longrightarrow> pl_workers s ! w = WIdle \<Longrightarrow> pl_jobs s = i # js \<Longrightarrow>
    pool_step ev pop s (s\<lparr>pl_jobs := js, pl_workers := (pl_workers s)[w := WBusy i]\<rparr>)"
| finish_job: "w < length (pl_workers s) \<Longrightarrow> pl_workers s ! w = WBusy i \<Longrightarrow> ev (pop ! i) = Some (Inr x) \<Longrightarrow>
    pool_step ev pop s (s\<lparr>pl_slots := (pl_slots s)[i := Some x], pl_workers := (pl_workers s)[w := WIdle]\<rparr>)"
| fail_job: "w < length (pl_workers s) \<Longrightarrow> pl_workers s ! w = WBusy i \<Longrightarrow> ev (pop ! i) = Some (Inl e) \<Longrightarrow>
    pool_step ev pop s (s\<lparr>pl_errs := pl_errs s @ [e], pl_workers := (pl_workers s)[w := WStopped]\<rparr>)"
| leave_pool: "w < length (pl_workers s) \<Longrightarrow> pl_workers s ! w = WIdle \<Longrightarrow> pl_jobs s = [] \<Longrightarrow>
    pool_step ev pop s (s\<lparr>pl_workers := (pl_workers s)[w := WStopped]\<rparr>)"

inductive_cases pool_stepE: "pool_step ev pop s s'"

definition start_pool :: "nat \<Rightarrow> nat \<Rightarrow> gene list \<Rightarrow> (score_total \<times> raw_result) option list \<Rightarrow> pool" where
  \<comment> \<open>so many workers, the first genes skipped, the slots as the caller filled them\<close>
  "start_pool k ns pop slots = \<lparr>pl_jobs = [ns..<length pop], pl_workers = replicate k WIdle,
     pl_slots = slots, pl_errs = []\<rparr>"

definition pool_finished :: "pool \<Rightarrow> bool" where
  \<comment> \<open>\<open>wg.Wait\<close> returns\<close>
  "pool_finished s \<longleftrightarrow> list_all (\<lambda>w. w = WStopped) (pl_workers s)"

section \<open>The pool stops\<close>

fun worker_weight :: "worker \<Rightarrow> nat" where
  "worker_weight WIdle = 1"
| "worker_weight (WBusy i) = 2"
| "worker_weight WStopped = 0"

definition pool_weight :: "pool \<Rightarrow> nat" where
  "pool_weight s = 3 * length (pl_jobs s) + sum_list (map worker_weight (pl_workers s))"

lemma sum_list_update_nat:
  "i < length xs \<Longrightarrow> sum_list (xs[i := y]) + xs ! i = sum_list xs + (y :: nat)"
proof (induction xs arbitrary: i)
  case (Cons x xs)
  then show ?case by (cases i) (auto simp: add.commute add.left_commute)
qed simp

lemma weight_update:
  "w < length ws \<Longrightarrow> sum_list (map worker_weight (ws[w := v])) + worker_weight (ws ! w) =
    sum_list (map worker_weight ws) + worker_weight v"
  using sum_list_update_nat [of w "map worker_weight ws" "worker_weight v"] by (simp add: map_update)

lemma pool_step_weight: "pool_step ev pop s s' \<Longrightarrow> pool_weight s' < pool_weight s"
proof (induction rule: pool_step.induct)
  case (take_job w s i js)
  with weight_update [OF take_job(1), of "WBusy i"] show ?case by (simp add: pool_weight_def)
next
  case (finish_job w s i x)
  with weight_update [OF finish_job(1), of WIdle] show ?case by (simp add: pool_weight_def)
next
  case (fail_job w s i e)
  with weight_update [OF fail_job(1), of WStopped] show ?case by (simp add: pool_weight_def)
next
  case (leave_pool w s)
  with weight_update [OF leave_pool(1), of WStopped] show ?case by (simp add: pool_weight_def)
qed

section \<open>Every index is somewhere\<close>

definition placed :: "(gene \<Rightarrow> (string + score_total \<times> raw_result) option) \<Rightarrow> gene list \<Rightarrow> pool \<Rightarrow> nat \<Rightarrow> bool" where
  "placed ev pop s i \<longleftrightarrow> i \<in> set (pl_jobs s) \<or> WBusy i \<in> set (pl_workers s) \<or>
     (\<exists>x. ev (pop ! i) = Some (Inr x) \<and> pl_slots s ! i = Some x) \<or> pl_errs s \<noteq> []"

definition pool_inv ::
  "(gene \<Rightarrow> (string + score_total \<times> raw_result) option) \<Rightarrow> gene list \<Rightarrow> nat \<Rightarrow> nat
    \<Rightarrow> (score_total \<times> raw_result) option list \<Rightarrow> pool \<Rightarrow> bool" where
  "pool_inv ev pop k ns slots s \<longleftrightarrow>
     length (pl_workers s) = k \<and> length (pl_slots s) = length pop \<and>
     set (pl_jobs s) \<subseteq> {ns..<length pop} \<and>
     (\<forall>i. WBusy i \<in> set (pl_workers s) \<longrightarrow> i \<in> {ns..<length pop}) \<and>
     (\<forall>i<ns. i < length pop \<longrightarrow> pl_slots s ! i = slots ! i) \<and>
     (pl_errs s = [] \<longrightarrow> pl_jobs s \<noteq> [] \<longrightarrow> WStopped \<notin> set (pl_workers s)) \<and>
     (pl_errs s \<noteq> [] \<longrightarrow> (\<exists>i\<in>{ns..<length pop}. \<exists>e. ev (pop ! i) = Some (Inl e))) \<and>
     (\<forall>i\<in>{ns..<length pop}. placed ev pop s i)"

lemma busy_update:
  assumes "w < length ws" "WBusy i \<in> set ws"
  shows "WBusy i \<in> set (ws[w := v]) \<or> ws ! w = WBusy i"
proof -
  from assms(2) obtain u where u: "u < length ws" "ws ! u = WBusy i" by (auto simp: in_set_conv_nth)
  show ?thesis
  proof (cases "u = w")
    case False
    then have "ws[w := v] ! u = WBusy i" using u by simp
    then show ?thesis using u(1) nth_mem [of u "ws[w := v]"] by simp
  qed (use u in simp)
qed

lemma set_update_cases: "x \<in> set (xs[i := y]) \<Longrightarrow> x = y \<or> x \<in> set xs"
  using set_update_subset_insert [of xs i y] by auto

lemma pool_inv_start:
  "length slots = length pop \<Longrightarrow> pool_inv ev pop k ns slots (start_pool k ns pop slots)"
  by (auto simp: pool_inv_def start_pool_def placed_def set_replicate_conv_if)

lemma placed_step:
  assumes "pool_step ev pop s s'" "length (pl_slots s) = length pop" "i < length pop" "placed ev pop s i"
  shows "placed ev pop s' i"
  using assms
proof (induction rule: pool_step.induct)
  case (take_job w s j js)
  have b: "WBusy i \<in> set ((pl_workers s)[w := WBusy j])" if "WBusy i \<in> set (pl_workers s)"
    using busy_update [OF take_job(1) that, of "WBusy j"] take_job(2) by simp
  have "WBusy j \<in> set ((pl_workers s)[w := WBusy j])" using take_job(1) by (rule set_update_memI)
  with b take_job(3,6) show ?case unfolding placed_def by auto
next
  case (finish_job w s j x)
  have b: "WBusy i \<in> set ((pl_workers s)[w := WIdle]) \<or> i = j" if "WBusy i \<in> set (pl_workers s)"
    using busy_update [OF finish_job(1) that, of WIdle] finish_job(2) by auto
  with finish_job(3-6) show ?case unfolding placed_def by (cases "i = j") auto
next
  case (leave_pool w s)
  have "WBusy i \<in> set ((pl_workers s)[w := WStopped])" if "WBusy i \<in> set (pl_workers s)"
    using busy_update [OF leave_pool(1) that, of WStopped] leave_pool(2) by simp
  with leave_pool(6) show ?case unfolding placed_def by auto
qed (simp add: placed_def)

lemma pool_inv_step:
  assumes "pool_step ev pop s s'" "pool_inv ev pop k ns slots s"
  shows "pool_inv ev pop k ns slots s'"
proof -
  have "\<forall>i\<in>{ns..<length pop}. placed ev pop s' i"
    using placed_step [OF assms(1)] assms(2) by (auto simp: pool_inv_def)
  with assms show ?thesis
  proof (induction rule: pool_step.induct)
    case (finish_job w s i x)
    then have "i \<in> {ns..<length pop}" unfolding pool_inv_def using nth_mem by metis
    with finish_job show ?case unfolding pool_inv_def by (auto dest!: set_update_cases)
  next
    case (fail_job w s i e)
    then have "i \<in> {ns..<length pop}" unfolding pool_inv_def using nth_mem by metis
    with fail_job show ?case unfolding pool_inv_def by (auto dest!: set_update_cases)
  qed (auto simp: pool_inv_def dest!: set_update_cases)
qed

lemma pool_inv_run:
  "(pool_step ev pop)\<^sup>*\<^sup>* s s' \<Longrightarrow> pool_inv ev pop k ns slots s \<Longrightarrow> pool_inv ev pop k ns slots s'"
  by (induction rule: rtranclp_induct) (auto intro: pool_inv_step)

section \<open>The outcome\<close>

lemma all_stopped: "pool_finished s \<Longrightarrow> w \<in> set (pl_workers s) \<Longrightarrow> w = WStopped"
  by (simp add: pool_finished_def list_all_iff)

lemma evaluate_genes_results:
  "\<forall>i<length gs. ev (gs ! i) = Some (Inr (xs ! i)) \<Longrightarrow> length xs = length gs \<Longrightarrow> evaluate_genes ev gs = Some (Inr xs)"
proof (induction gs arbitrary: xs)
  case (Cons g gs)
  then obtain y ys where xs: "xs = y # ys" by (cases xs) auto
  have "ev g = Some (Inr y)" "\<forall>i<length gs. ev (gs ! i) = Some (Inr (ys ! i))" using Cons.prems(1) xs by force+
  with Cons.IH [of ys] Cons.prems(2) xs show ?case by simp
qed simp

lemma evaluate_genes_error:
  "i < length gs \<Longrightarrow> ev (gs ! i) = Some (Inl e) \<Longrightarrow> \<forall>xs. evaluate_genes ev gs \<noteq> Some (Inr xs)"
proof (induction gs arbitrary: i)
  case (Cons g gs)
  then show ?case by (cases i) (fastforce split: option.splits sum.splits)+
qed simp

lemma pool_outcome:
  assumes "(pool_step ev pop)\<^sup>*\<^sup>* (start_pool k ns pop slots) s" "pool_finished s" "0 < k"
    "length slots = length pop" "ns \<le> length pop"
  shows "if pl_errs s = [] then \<exists>xs. evaluate_genes ev (drop ns pop) = Some (Inr xs) \<and>
      pl_slots s = take ns slots @ map Some xs
    else \<forall>xs. evaluate_genes ev (drop ns pop) \<noteq> Some (Inr xs)"
proof -
  have inv: "pool_inv ev pop k ns slots s" by (rule pool_inv_run [OF assms(1) pool_inv_start [OF assms(4)]])
  note i = inv [unfolded pool_inv_def]
  show ?thesis
  proof (cases "pl_errs s = []")
    case True
    have "pl_workers s \<noteq> []" using i assms(3) by auto
    then have "WStopped \<in> set (pl_workers s)" using all_stopped [OF assms(2) hd_in_set] hd_in_set by metis
    then have "pl_jobs s = []" using i True by blast
    moreover have "WBusy j \<notin> set (pl_workers s)" for j using all_stopped [OF assms(2)] by blast
    ultimately have slot: "\<exists>x. ev (pop ! j) = Some (Inr x) \<and> pl_slots s ! j = Some x" if "j \<in> {ns..<length pop}" for j
      using i True that unfolding placed_def by auto
    let ?xs = "map the (drop ns (pl_slots s))"
    have l: "length (pl_slots s) = length pop" using i by blast
    have "drop ns (pl_slots s) = map Some ?xs"
    proof (rule nth_equalityI)
      fix j assume "j < length (drop ns (pl_slots s))"
      then have "ns + j \<in> {ns..<length pop}" and j: "j < length pop - ns" using l by auto
      from slot [OF this(1)] j l show "drop ns (pl_slots s) ! j = map Some ?xs ! j" by auto
    qed simp
    moreover have "take ns (pl_slots s) = take ns slots"
      using i l assms(4,5) by (intro nth_equalityI) auto
    moreover have "evaluate_genes ev (drop ns pop) = Some (Inr ?xs)"
    proof (rule evaluate_genes_results)
      show "\<forall>j<length (drop ns pop). ev (drop ns pop ! j) = Some (Inr (?xs ! j))"
      proof (intro allI impI)
        fix j assume j: "j < length (drop ns pop)"
        then have "ns + j \<in> {ns..<length pop}" by auto
        from slot [OF this] j l show "ev (drop ns pop ! j) = Some (Inr (?xs ! j))" by auto
      qed
    qed (use l in simp)
    ultimately show ?thesis using True append_take_drop_id [of ns "pl_slots s"] by (metis (no_types, lifting))
  next
    case False
    then obtain j e where j: "j \<in> {ns..<length pop}" "ev (pop ! j) = Some (Inl e)" using i by blast
    then have "j - ns < length (drop ns pop)" "ev (drop ns pop ! (j - ns)) = Some (Inl e)" by auto
    from evaluate_genes_error [of _ _ ev, OF this] False show ?thesis by simp
  qed
qed

lemma pool_progress:
  assumes "\<not> pool_finished s" "pool_inv ev pop k ns slots s" "\<forall>g\<in>set pop. ev g \<noteq> None"
  shows "\<exists>s'. pool_step ev pop s s'"
proof -
  from assms(1) obtain w where w: "w < length (pl_workers s)" "pl_workers s ! w \<noteq> WStopped"
    by (auto simp: pool_finished_def list_all_length)
  show ?thesis
  proof (cases "pl_workers s ! w")
    case WIdle
    then show ?thesis using w(1) take_job leave_pool by (cases "pl_jobs s") blast+
  next
    case (WBusy i)
    then have "i < length pop" using w(1) assms(2) nth_mem unfolding pool_inv_def by (metis atLeastLessThan_iff)
    then have "ev (pop ! i) \<noteq> None" using assms(3) by simp
    then show ?thesis using finish_job [OF w(1) WBusy] fail_job [OF w(1) WBusy] by (metis not_None_eq sum.exhaust)
  qed (use w(2) in simp)
qed

lemma pool_stops:
  assumes "pool_inv ev pop k ns slots s" "\<forall>g\<in>set pop. ev g \<noteq> None"
  shows "\<exists>s'. (pool_step ev pop)\<^sup>*\<^sup>* s s' \<and> pool_finished s'"
  using assms(1)
proof (induction "pool_weight s" arbitrary: s rule: less_induct)
  case less
  show ?case
  proof (cases "pool_finished s")
    case False
    from pool_progress [OF False less.prems assms(2)] obtain t where t: "pool_step ev pop s t" by blast
    from less.hyps [OF pool_step_weight [OF t] pool_inv_step [OF t less.prems]] t show ?thesis
      by (meson converse_rtranclp_into_rtranclp)
  qed blast
qed

end
