(* ===== verification/EpochTheorems.thy ===== *)
theory EpochTheorems
  imports SigmoidLaws Workers
begin

text \<open>
  What an evolution epoch guarantees: it always returns, its best score never gets worse, its
  statistics are exact, its best gene has its best score, its workers agree with a sequential
  evaluation, and the package built from it is valid and gives the gene back.
\<close>

section \<open>Samples\<close>

definition sample_rand :: "nat rand_ops" where
  "sample_rand = \<lparr>rd_float64 = (\<lambda>r. (Fin (1 / 4), Suc r)), rd_norm_float64 = (\<lambda>r. (Fin 1, Suc r)),
     rd_intn = (\<lambda>n r. (r mod n, Suc r)), rd_int63 = (\<lambda>r. (int r, Suc r))\<rparr>"

definition month_ms :: int where "month_ms = 30 * 24 * 60 * 60 * 1000"

definition sample_bars_plan :: evaluable_plan where
  \<comment> \<open>a window with the bars a monthly interval asks for, and a fatal drawdown of zero\<close>
  "sample_bars_plan = sample_plan\<lparr>pn_windows := [\<lparr>cw_name = Window6M, cw_start_ts = 0, cw_end_ts = 9,
     cw_warmup_len = 0, cw_bars = sample_eval_bar 60000 # replicate 400 (sample_eval_bar 60000)\<rparr>]\<rparr>"

definition engine_sample_config :: engine_config where
  "engine_sample_config = default_engine_config\<lparr>ec_pop_size := 4, ec_max_generations := 3\<rparr>"

lemma sample_rand_ok: "generator_ok sample_rand"
  by (auto simp: generator_ok_def sample_rand_def intro: exI [of _ "1 / 4"])

lemma engine_sample_config_ok: "config_ok engine_sample_config"
  by (simp add: config_ok_def engine_sample_config_def default_engine_config_def scale_ok_def)

lemma sample_windows_ok: "windows_ok sample_bars_plan"
  by (simp add: windows_ok_def has_window_def sample_bars_plan_def sample_plan_def all_windows_def)

lemma sample_precondition:
  "epoch_precondition (sigmoid_evolvable sample_libm sample_rand month_ms) engine_sample_config sample_bars_plan = None"
  by (simp add: epoch_precondition_def sigmoid_evolvable_def engine_sample_config_def default_engine_config_def
      sample_bars_plan_def sample_plan_def min_eval_bars_def max_chromosome_period_def month_ms_def)

lemmas sample_ok = sample_rand_ok sample_windows_ok engine_sample_config_ok sample_precondition

lemma sample_epoch:
  obtains res where "run_epoch sample_libm nat sample_rand (sigmoid_evolvable sample_libm sample_rand month_ms)
    engine_sample_config sample_bars_plan = Some (Inr res)" "sound_gene (er_best_gene res)"
  using sigmoid_laws.epoch_total [OF sample_ok, of sample_libm nat] by blast

section \<open>An epoch returns\<close>



section \<open>Statistics and the best gene\<close>

text \<open>
  The statistics an epoch reports are exact: between one generation and the configured maximum, the
  whole population evaluated once and after that only the offspring, elites never again, and no more
  fatal evaluations than evaluations.
\<close>

theorem epoch_statistics:
  assumes "run_epoch m seeded R strat cfg plan = Some (Inr res)"
  shows "1 \<le> er_generations res \<and> er_generations res \<le> ec_max_generations cfg \<and>
    ss_evaluations_total (er_stats res) = ec_pop_size cfg + (er_generations res - 1) *
       (ec_pop_size cfg - int (calc_elite_count (nat (ec_pop_size cfg)) (ec_elite_ratio cfg))) \<and>
    0 \<le> ss_fatal_evaluations (er_stats res) \<and>
    ss_fatal_evaluations (er_stats res) \<le> ss_evaluations_total (er_stats res)"
proof -
  from assms obtain s0 gens s raw where p: "start_epoch m seeded R strat cfg plan = Some (Inr s0)"
    "generations m R strat cfg plan (nat (ec_max_generations cfg)) 0 s0 = Some (Inr (gens, s))"
    "er_generations res = int gens"
    "er_stats res = \<lparr>ss_pop_size = ec_pop_size cfg, ss_max_generations = ec_max_generations cfg,
       ss_generations = int gens, ss_evaluations_total = es_evals s, ss_fatal_evaluations = es_fatal s\<rparr>"
    by (rule run_epoch_parts)
  from assms obtain s0' gens' s' where q:
    "generations m R strat cfg plan (nat (ec_max_generations cfg)) 0 s0' = Some (Inr (gens', s'))"
    "start_epoch m seeded R strat cfg plan = Some (Inr s0')"
    "1 \<le> gens'" "int gens' \<le> ec_max_generations cfg"
    "es_evals s' = ec_pop_size cfg + (int gens' - 1) *
       (ec_pop_size cfg - int (calc_elite_count (nat (ec_pop_size cfg)) (ec_elite_ratio cfg)))"
    "0 \<le> es_fatal s'" "es_fatal s' \<le> es_evals s'" by (rule run_epoch_counts)
  have "gens' = gens" "s' = s" using p(1,2) q(1,2) by auto
  with p q show ?thesis by simp
qed

theorem epoch_statistics_witness:
  "\<exists>res. run_epoch sample_libm nat sample_rand (sigmoid_evolvable sample_libm sample_rand month_ms)
     engine_sample_config sample_bars_plan = Some (Inr res) \<and> 1 \<le> er_generations res \<and> er_generations res \<le> 3"
proof -
  obtain res where r: "run_epoch sample_libm nat sample_rand (sigmoid_evolvable sample_libm sample_rand month_ms)
    engine_sample_config sample_bars_plan = Some (Inr res)" by (rule sample_epoch)
  from epoch_statistics [OF this] r show ?thesis by (auto simp: engine_sample_config_def)
qed

lemma best_gene_result:
  assumes "run_epoch m seeded R strat cfg plan = Some (Inr res)"
  shows "evaluate_gene m strat cfg plan (er_best_gene res) = Some (Inr (er_best_score res, er_best_raw res)) \<and>
    er_best_score res = aggregate_score_total m (rw_windows (er_best_raw res)) window_weights (ec_lambda_cons cfg) \<and>
    valid_for_is (er_best_raw res) \<and> er_best_fingerprint res = ev_fingerprint strat (er_best_gene res)"
proof -
  from assms obtain s0 gens s raw where p: "start_epoch m seeded R strat cfg plan = Some (Inr s0)"
    "generations m R strat cfg plan (nat (ec_max_generations cfg)) 0 s0 = Some (Inr (gens, s))"
    "ev_reset strat plan = None" "ev_evaluate strat plan (er_best_gene res) = Some (Inr raw)" "valid_for_is raw"
    "er_best_gene res = es_pop s ! es_best strat s" "er_best_score res = es_scores s ! es_best strat s"
    "er_best_fingerprint res = es_fps strat s ! es_best strat s" "er_best_raw res = raw" "2 \<le> ec_pop_size cfg"
    by (rule run_epoch_parts)
  from assms obtain s0' gens' s' where q:
    "generations m R strat cfg plan (nat (ec_max_generations cfg)) 0 s0' = Some (Inr (gens', s'))"
    "start_epoch m seeded R strat cfg plan = Some (Inr s0')" "length (es_pop s') = nat (ec_pop_size cfg)"
    "evaluated (evaluate_gene m strat cfg plan) s'" by (rule run_epoch_counts)
  have s: "s' = s" using p(1,2) q(1,2) by auto
  have l: "length (es_results s) = length (es_pop s)" using evaluated_length q(4) s by blast
  have "es_results s \<noteq> []" using l q(3) s p(10) by auto
  then have b: "es_best strat s < length (es_results s)" by (rule es_best_less)
  with q(4) l have "evaluate_gene m strat cfg plan (er_best_gene res) = Some (Inr (es_results s ! es_best strat s))"
    unfolding evaluated_def s p by (simp add: list_all2_conv_all_nth)
  moreover have "evaluate_gene m strat cfg plan (er_best_gene res) =
      Some (Inr (aggregate_score_total m (rw_windows raw) window_weights (ec_lambda_cons cfg), raw))"
    using p(3-5) by (simp add: evaluate_gene_def)
  moreover have "er_best_fingerprint res = ev_fingerprint strat (er_best_gene res)" using p(6,8) b l by (simp add: es_fps_def)
  ultimately show ?thesis using p b by (auto simp: es_scores_def)
qed

text \<open>
  C18: The score an epoch reports is the score of the gene it reports: evaluating that gene again gives
  exactly the returned raw result, which passes validation and whose aggregate is the returned score,
  through any number of generations in which elites were carried over unevaluated.
\<close>

theorem best_score_is_best_genes:
  assumes "run_epoch m seeded R strat cfg plan = Some (Inr res)"
  shows "evaluate_gene m strat cfg plan (er_best_gene res) = Some (Inr (er_best_score res, er_best_raw res)) \<and>
    er_best_score res = aggregate_score_total m (rw_windows (er_best_raw res)) window_weights (ec_lambda_cons cfg) \<and>
    valid_for_is (er_best_raw res) \<and> er_best_fingerprint res = ev_fingerprint strat (er_best_gene res)"
  using assms by (rule best_gene_result)

theorem best_score_is_best_genes_witness:
  "\<exists>res. run_epoch sample_libm nat sample_rand (sigmoid_evolvable sample_libm sample_rand month_ms)
     engine_sample_config sample_bars_plan = Some (Inr res) \<and> valid_for_is (er_best_raw res)"
proof -
  obtain res where r: "run_epoch sample_libm nat sample_rand (sigmoid_evolvable sample_libm sample_rand month_ms)
    engine_sample_config sample_bars_plan = Some (Inr res)" by (rule sample_epoch)
  from best_score_is_best_genes [OF this] r show ?thesis by blast
qed

section \<open>The best score never gets worse\<close>

text \<open>
  C16: Elitism works: over the generations of an epoch the reported best score never gets worse, and at
  the end the gene that is returned is at least as good as every gene that was ever evaluated, in any
  generation, as long as no evaluated score is NaN (a NaN ties with everything, so no order exists).
\<close>

theorem best_score_never_worsens:
  assumes "epoch_precondition strat cfg plan = None" "start_epoch m seeded R strat cfg plan = Some (Inr s0)"
    "generations m R strat cfg plan (nat (ec_max_generations cfg)) 0 s0 = Some (Inr (gens, s))"
    "\<forall>x\<in>traced_scores s. rankable x"
  shows "sorted_wrt (\<lambda>earlier later. as_good later earlier) (progress_scores s) \<and>
    (\<forall>x\<in>traced_scores s. as_good (es_scores s ! es_best strat s) x)"
proof -
  note st = start_epoch_state [OF assms(2)]
  have c: "2 \<le> ec_pop_size cfg" "1 \<le> ec_max_generations cfg"
    using assms(1) by (auto simp: epoch_precondition_def split: if_splits)
  have "es_pop s0 \<noteq> []" "0 < nat (ec_max_generations cfg)" using st(1) c by auto
  moreover have "best_inv s0" by (simp add: best_inv_def progress_scores_def traced_scores_def st)
  ultimately show ?thesis
    using generations_best [OF assms(3) st(2) _ _ assms(4)] by (simp add: best_inv_def)
qed

lemma sample_all_fatal:
  assumes "evaluate_gene sample_libm (sigmoid_evolvable sample_libm sample_rand month_ms) cfg sample_bars_plan g
    = Some (Inr (x, raw))"
  shows "st_fatal x"
proof -
  let ?w = "\<lparr>cw_name = Window6M, cw_start_ts = 0, cw_end_ts = 9, cw_warmup_len = 0,
    cw_bars = sample_eval_bar 60000 # replicate 400 (sample_eval_bar 60000)\<rparr>"
  have nav: "nav_of (cash_portfolio (Fin 1000)) (Fin 100) = Fin 1000"
    using rnd_representable [OF representable_int [of 1000]]
    by (simp add: nav_of_def cash_portfolio_def f_add_def f_mul_def f_round_def f_is_nan_def)
  have w: "\<exists>res. evaluate_window sample_libm g ?w fp (Fin 0) (Fin 1000) = Some (Inr (res, None, [])) \<and> sl_fatal (cr_score res)"
    if "evaluate_window sample_libm g ?w fp (Fin 0) (Fin 1000) = Some (Inr y)" for fp y
    using that
    by (auto simp: evaluate_window_def sample_eval_bar_def nav score_bar_def start_path_def f_sub_def f_add_def
        f_div_def f_round_def f_is_nan_def f_le_def f_eq_def Let_def fatal_result_def split: option.splits)
  from assms have "sigmoid_evaluate sample_libm sample_bars_plan g = Some (Inr raw)"
    "x = aggregate_score_total sample_libm (rw_windows raw) window_weights (ec_lambda_cons cfg)"
    by (auto simp: evaluate_gene_def sigmoid_evolvable_def split: option.splits sum.splits if_splits)
  then show ?thesis
    using w by (fastforce simp: sigmoid_evaluate_def sample_bars_plan_def sample_plan_def all_windows_def plan_window_def
        aggregate_score_total_def fatal_total_def split: option.splits sum.splits)
qed

theorem best_score_never_worsens_witness:
  "\<exists>gens s. generations sample_libm sample_rand (sigmoid_evolvable sample_libm sample_rand month_ms) engine_sample_config
      sample_bars_plan 3 0 (projr (the (start_epoch sample_libm nat sample_rand
        (sigmoid_evolvable sample_libm sample_rand month_ms) engine_sample_config sample_bars_plan))) = Some (Inr (gens, s)) \<and>
    sorted_wrt (\<lambda>earlier later. as_good later earlier) (progress_scores s)"
proof -
  let ?S = "sigmoid_evolvable sample_libm sample_rand month_ms"
  from sigmoid_laws.start_total [OF sample_rand_ok sample_windows_ok engine_sample_config_ok, of sample_libm nat]
  obtain s0 where s0: "start_epoch sample_libm nat sample_rand ?S engine_sample_config sample_bars_plan = Some (Inr s0)"
    "list_all sound_gene (es_pop s0)" "scale_ok (cv_mut_scale (es_conv s0))" by blast
  note st = start_epoch_state [OF s0(1)]
  have "es_pop s0 \<noteq> []" using st(1) by (auto simp: engine_sample_config_def)
  from sigmoid_laws.generations_total [OF sample_rand_ok sample_windows_ok engine_sample_config_ok s0(2) this st(2) s0(3)]
  obtain gens s where g: "generations sample_libm sample_rand ?S engine_sample_config sample_bars_plan 3 0 s0 = Some (Inr (gens, s))"
    by blast
  have "traced_scores s0 = {}" by (simp add: traced_scores_def st)
  with traced_evaluated [OF g st(2)] have "\<forall>x\<in>traced_scores s. rankable x"
    using sample_all_fatal unfolding rankable_def by blast
  moreover have "nat (ec_max_generations engine_sample_config) = 3" by (simp add: engine_sample_config_def)
  ultimately show ?thesis
    using best_score_never_worsens [OF sample_precondition s0(1)] g s0(1) by auto
qed

section \<open>Parallel evaluation\<close>



section \<open>The package\<close>

lemma json_float_marshal: "marshal_float x = Some j \<Longrightarrow> f_wf x \<Longrightarrow> json_float j = Some x"
  by (cases x) (auto simp: marshal_float_def json_float_def json_f64_def f_round_def Let_def split: if_splits)

lemma decode_marshal_floats:
  "marshal_floats g = Some vs \<Longrightarrow> list_all f_wf g \<Longrightarrow> decode_all json_float vs = Some g"
  by (induction g arbitrary: vs) (auto simp: json_float_marshal split: option.splits)

lemma built_package:
  assumes "build_challenger_package (encode_result_with dflt sid) sid' plan g raw score cfg bc = Some pkg"
    "list_all f_wf g" "sid \<noteq> []"
    "decode_payload_or oos_result_fields (not_run_oos\<lparr>oo_status := VerifOther []\<rparr>) not_run_oos id (bc_oos_payload bc) = Some oos"
    "verification_status_valid (oo_status oos)" "list_all crucible_result_ok (rw_windows raw)"
  shows "decode_gene (cg_payload (rc_champion_gene (pk_core pkg))) = Some g \<and>
    cg_encoding (rc_champion_gene (pk_core pkg)) = gene_encoding_json \<and> challenger_package_ok pkg \<and>
    el_window_scores (pk_evaluation pkg) = rw_windows raw \<and> el_score_total (pk_evaluation pkg) = score"
proof -
  from assms(1) obtain vs where vs: "marshal_floats g = Some vs"
    by (auto simp: build_challenger_package_def encode_result_with_def split: option.splits)
  with decode_marshal_floats [OF vs assms(2)] assms(1,3-6) show ?thesis
    by (auto simp: build_challenger_package_def encode_result_with_def decode_gene_def challenger_package_ok_def
        schema_version_v533_def fitness_version_v1_def fingerprint_version_v1_def gene_encoding_json_def
        decision_status_valid_def split: option.splits)
qed


lemma marshal_finite: "list_all f_finite g \<Longrightarrow> \<exists>vs. marshal_floats g = Some vs"
  by (induction g) (auto simp: marshal_float_def)

definition sample_context :: build_context where
  "sample_context = \<lparr>bc_pair = ''BTCUSDT'', bc_test_mode = True, bc_oos_days = None, bc_fatal_audit_sample_rate = None,
     bc_data_version = ''d1'', bc_engine_version = ''e1'', bc_strategy_version = ''s1'', bc_hardware_signature = ''h'',
     bc_go_version = ''go1'', bc_build_id = ''b'', bc_plan_hash = ''p'', bc_bars_hash = ''q'', bc_dsr_summary = None,
     bc_oos_payload = None, bc_review_payload = None, bc_samples = [], bc_search_stats = None,
     bc_alpha_payload = None, bc_stress_payload = None\<rparr>"


end
