(* ===== verification/Requests.thy ===== *)
theory Requests
  imports Strategies
begin

text \<open>
  The bodies of the HTTP requests that change state and their validators (\<open>internal/api/types.go\<close>,
  \<open>internal/api/validate.go\<close>). A validator returns the text of its error, or nothing when the request
  passes; the first failing check in the code's order gives the error.
\<close>

section \<open>Requests (\<open>types.go\<close>)\<close>

datatype task_status = TaskQueued | TaskRunning | TaskSucceeded | TaskFailed | TaskCancelled

record dca_config_request =
  dr_initial_capital :: f64
  dr_monthly_inject :: f64

record create_task_request =
  ct_strategy_id :: string
  ct_pair :: string
  ct_interval :: string
  ct_pop_size :: int
  ct_max_generations :: int
  ct_elite_ratio :: f64
  ct_fatal_mdd :: f64
  ct_taker_fee_bps :: f64
  ct_slippage_bps :: f64
  ct_spawn_mode :: spawn_mode
  ct_test_mode :: bool
  ct_oos_days :: "int option"
  ct_fatal_audit_sample_rate :: "f64 option"
  ct_warmup_days :: "int option"
  ct_lot_step :: "f64 option"
  ct_lot_min :: "f64 option"
  ct_initial_usdt :: "f64 option"
  ct_dca :: "dca_config_request option"
  ct_spawn_point :: "json option"

record promote_request =
  pq_reviewed_by :: string
  pq_decision_note :: "string option"

record retire_request =
  rq_reviewed_by :: string
  rq_decision_note :: "string option"

record create_instance_request =
  ci_strategy_id :: string
  ci_pair :: string
  ci_account_id :: string

record deploy_request =
  dp_challenger_id :: string

section \<open>Validators (\<open>validate.go\<close>)\<close>

fun first_error :: "(bool \<times> string) list \<Rightarrow> string option" where
  \<comment> \<open>a sequence of \<open>if bad { return errors.New(text) }\<close>\<close>
  "first_error [] = None"
| "first_error ((bad, msg) # checks) = (if bad then Some msg else first_error checks)"

definition allowed_intervals :: "string list" where
  "allowed_intervals = [''1m'', ''5m'', ''15m'', ''1h'', ''4h'', ''1d'']"

definition outside_unit :: "f64 \<Rightarrow> bool" where
  "outside_unit x \<longleftrightarrow> f_lt x (Fin 0) \<or> f_lt (Fin 1) x"

definition opt_bad :: "('a \<Rightarrow> bool) \<Rightarrow> 'a option \<Rightarrow> bool" where
  \<comment> \<open>\<open>p != nil && bad(*p)\<close>\<close>
  "opt_bad bad p = (case p of None \<Rightarrow> False | Some x \<Rightarrow> bad x)"

definition validate_create_task :: "create_task_request \<Rightarrow> string option" where
  "validate_create_task r = first_error
     [(ct_strategy_id r = [], ''strategy_id is required''),
      (ct_pair r = [], ''pair is required''),
      (ct_interval r = [], ''interval is required''),
      (\<not> List.member allowed_intervals (ct_interval r), ''interval must be one of 1m,5m,15m,1h,4h,1d''),
      (ct_pop_size r < 1, ''pop_size must be >= 1''),
      (ct_max_generations r < 1, ''max_generations must be >= 1''),
      (outside_unit (ct_elite_ratio r), ''elite_ratio must be in [0, 1]''),
      (outside_unit (ct_fatal_mdd r), ''fatal_mdd must be in [0, 1]''),
      (f_lt (ct_taker_fee_bps r) (Fin 0), ''taker_fee_bps must be >= 0''),
      (f_lt (ct_slippage_bps r) (Fin 0), ''slippage_bps must be >= 0''),
      (\<not> spawn_mode_valid (ct_spawn_mode r), ''spawn_mode must be one of inherit/random_once/manual''),
      (ct_spawn_mode r = SpawnManual \<and> ct_spawn_point r = None, ''spawn_point is required when spawn_mode=manual''),
      (ct_spawn_mode r \<noteq> SpawnManual \<and> ct_spawn_point r \<noteq> None, ''spawn_point must be omitted unless spawn_mode=manual''),
      (opt_bad outside_unit (ct_fatal_audit_sample_rate r), ''fatal_audit_sample_rate must be in [0, 1]''),
      (opt_bad (\<lambda>d. d < 1) (ct_oos_days r), ''oos_days, if set, must be >= 1''),
      (opt_bad (\<lambda>d. d < 1) (ct_warmup_days r), ''warmup_days, if set, must be >= 1''),
      (opt_bad (\<lambda>x. f_le x (Fin 0)) (ct_lot_step r), ''lot_step, if set, must be > 0''),
      (opt_bad (\<lambda>x. f_le x (Fin 0)) (ct_lot_min r), ''lot_min, if set, must be > 0''),
      (opt_bad (\<lambda>x. f_le x (Fin 0)) (ct_initial_usdt r), ''initial_usdt, if set, must be > 0''),
      (opt_bad (\<lambda>d. f_lt (dr_initial_capital d) (Fin 0)) (ct_dca r), ''dca.initial_capital must be >= 0''),
      (opt_bad (\<lambda>d. f_lt (dr_monthly_inject d) (Fin 0)) (ct_dca r), ''dca.monthly_inject must be >= 0'')]"

definition validate_promote :: "promote_request \<Rightarrow> string option" where
  "validate_promote r = first_error [(pq_reviewed_by r = [], ''reviewed_by is required'')]"

definition validate_retire :: "retire_request \<Rightarrow> string option" where
  "validate_retire r = first_error [(rq_reviewed_by r = [], ''reviewed_by is required'')]"

definition validate_create_instance :: "create_instance_request \<Rightarrow> string option" where
  "validate_create_instance r = first_error
     [(ci_strategy_id r = [], ''strategy_id is required''), (ci_pair r = [], ''pair is required''),
      (ci_account_id r = [], ''account_id is required'')]"

definition validate_deploy :: "deploy_request \<Rightarrow> string option" where
  "validate_deploy r = first_error [(dp_challenger_id r = [], ''challenger_id is required'')]"

section \<open>What passes\<close>

lemma first_error_None: "first_error checks = None \<longleftrightarrow> (\<forall>c\<in>set checks. \<not> fst c)"
  by (induction checks rule: first_error.induct) auto

lemma first_error_Some:
  "first_error checks = Some msg \<Longrightarrow>
     \<exists>before after. checks = before @ (True, msg) # after \<and> (\<forall>c\<in>set before. \<not> fst c)"
proof (induction checks rule: first_error.induct)
  case (2 bad m checks)
  show ?case
  proof (cases bad)
    case True
    with 2 have "(bad, m) # checks = [] @ (True, msg) # checks" by simp
    then show ?thesis by fastforce
  next
    case False
    with 2 obtain before after where
      "checks = before @ (True, msg) # after" "\<forall>c\<in>set before. \<not> fst c" by auto
    with False have "(bad, m) # checks = ((bad, m) # before) @ (True, msg) # after"
      "\<forall>c\<in>set ((bad, m) # before). \<not> fst c" by auto
    then show ?thesis by blast
  qed
qed simp

lemma opt_bad_simps [simp]: "\<not> opt_bad bad None" "opt_bad bad (Some x) = bad x"
  by (simp_all add: opt_bad_def)

lemma valid_create_task:
  assumes "validate_create_task r = None"
  shows "ct_strategy_id r \<noteq> []" "ct_pair r \<noteq> []" "List.member allowed_intervals (ct_interval r)"
    "1 \<le> ct_pop_size r" "1 \<le> ct_max_generations r" "\<not> outside_unit (ct_elite_ratio r)"
    "\<not> outside_unit (ct_fatal_mdd r)" "spawn_mode_valid (ct_spawn_mode r)"
    "ct_spawn_mode r = SpawnManual \<longleftrightarrow> ct_spawn_point r \<noteq> None"
    "ct_oos_days r = Some d \<Longrightarrow> 1 \<le> d" "ct_warmup_days r = Some d \<Longrightarrow> 1 \<le> d"
  using assms unfolding validate_create_task_def first_error_None by auto

end
