(* ===== verification/Lifecycle.thy ===== *)
theory Lifecycle
  imports Requests AgentMsg
begin

text \<open>
  Evolution tasks, challengers, the Sharpe bank and champions: their tables (\<open>store/models.go\<close>) and the
  repositories over them (\<open>internal/repository\<close>: task, challenger, sharpe_bank, champion). The champion
  and instance tables are those of theory SaasDb. A serial id is the position of a row in its table: rows
  are never deleted and ids grow in the order of the inserts. The JSON column that holds a package is the
  package itself; encoding it fails exactly when a number in it is not finite.
\<close>

section \<open>Tables\<close>

record gene_record =
  gr_challenger_id :: string
  gr_strategy_id :: string
  gr_pair :: string
  gr_score_total :: "f64 option"
  gr_score_raw :: "f64 option"
  gr_consistency_penalty :: "f64 option"
  gr_window_scores :: "crucible_result list"
  gr_window_alpha_monthly :: "json option"
  gr_window_alpha_weekly :: "json option"
  gr_oos_alpha_monthly :: "f64 option"
  gr_oos_alpha_weekly :: "f64 option"
  gr_dsr :: "f64 option"
  gr_epoch_seed :: int
  gr_data_version :: string
  gr_engine_version :: string
  gr_strategy_version :: string
  gr_schema_version :: string
  gr_fitness_version :: string
  gr_fingerprint_version :: string
  gr_hardware_signature :: string
  gr_go_version :: string
  gr_build_id :: string
  gr_plan_hash :: string
  gr_bars_hash :: string
  gr_taker_fee_bps :: f64
  gr_slippage_bps :: f64
  gr_test_mode :: bool
  gr_decision_status :: decision_status
  gr_decision_note :: "string option"
  gr_reviewed_at_ts :: "int option"
  gr_reviewed_by :: "string option"
  gr_full_package :: "challenger_package option"

record evolution_task =
  et_created_at :: int
  et_task_id :: string
  et_strategy_id :: string
  et_pair :: string
  et_interval :: string
  et_status :: task_status
  et_current_generation :: int
  et_requested_taker_fee_bps :: f64
  et_requested_slippage_bps :: f64
  et_test_mode :: bool
  et_spawn_mode :: spawn_mode
  et_oos_days :: "int option"
  et_fatal_audit_sample_rate :: "f64 option"
  et_epoch_seed :: int
  et_started_at :: "int option"
  et_finished_at :: "int option"
  et_failure_reason :: "string option"
  et_challenger_id :: "string option"
  et_best_score :: "f64 option"

record sharpe_row =
  sb_strategy_id :: string
  sb_pair_id :: string
  sb_challenger_id :: string
  sb_observed_sharpe :: f64
  sb_backtest_horizon_t :: int
  sb_skew :: f64
  sb_kurtosis :: f64
  sb_spawn_mode :: spawn_mode
  sb_fingerprint_distance :: "f64 option"

record life_db =
  lf_live :: saas_db
  lf_genes :: "gene_record list"
  lf_tasks :: "evolution_task list"
  lf_banks :: "sharpe_row list"

section \<open>Statements and transactions\<close>

datatype life_err =
    LeDb                    \<comment> \<open>the driver failed\<close>
  | LeUnique string         \<comment> \<open>a unique index was violated\<close>
  | LeNotFound
  | LeEmptyArgument
  | LeMarshal               \<comment> \<open>a package that JSON cannot hold\<close>
  | LeTestMode
  | LeAlreadyPromoted
  | LeAlreadyRejected
  | LeActiveChampionExists
  | LeAlreadyRetired
  | LeNoSuchTask
  | LeInstance db_err       \<comment> \<open>an error of the instance repository\<close>

type_synonym 'a life_res = "(life_err + 'a) \<times> life_db"

definition take_fault :: "life_db \<Rightarrow> bool \<times> life_db" where
  "take_fault d =
     (next_fault (db_faults (lf_live d)),
      d\<lparr>lf_live := (lf_live d)\<lparr>db_faults := rest_faults (db_faults (lf_live d))\<rparr>\<rparr>)"

definition life_stmt :: "(life_db \<Rightarrow> 'a life_res) \<Rightarrow> life_db \<Rightarrow> 'a life_res" where
  "life_stmt f d = (let (fault, d) = take_fault d in if fault then (Inl LeDb, d) else f d)"

definition life_bind :: "(life_db \<Rightarrow> 'a life_res) \<Rightarrow> ('a \<Rightarrow> life_db \<Rightarrow> 'b life_res) \<Rightarrow> life_db \<Rightarrow> 'b life_res" where
  "life_bind f k d = (case f d of (Inl e, d) \<Rightarrow> (Inl e, d) | (Inr x, d) \<Rightarrow> k x d)"

definition rollback :: "life_db \<Rightarrow> life_db \<Rightarrow> life_db" where
  \<comment> \<open>the tables as they were; what failed has failed\<close>
  "rollback before after =
     before\<lparr>lf_live := (lf_live before)\<lparr>db_faults := db_faults (lf_live after)\<rparr>\<rparr>"

definition transaction :: "(life_db \<Rightarrow> 'a life_res) \<Rightarrow> life_db \<Rightarrow> 'a life_res" where
  \<comment> \<open>gorm's \<open>Transaction\<close>: an error rolls back, and so does a failing commit\<close>
  "transaction f d =
     (case f d of
        (Inl e, d') \<Rightarrow> (Inl e, rollback d d')
      | (Inr x, d') \<Rightarrow>
          (let (fault, d') = take_fault d' in
           if fault then (Inl LeDb, rollback d d') else (Inr x, d')))"

definition live_stmt :: "(saas_db \<Rightarrow> 'a db_res) \<Rightarrow> life_db \<Rightarrow> 'a life_res" where
  \<comment> \<open>a repository of theory SaasDb on the same database\<close>
  "live_stmt f d =
     (case f (lf_live d) of
        (Inl e, live) \<Rightarrow> (Inl (LeInstance e), d\<lparr>lf_live := live\<rparr>)
      | (Inr x, live) \<Rightarrow> (Inr x, d\<lparr>lf_live := live\<rparr>))"

section \<open>\<open>EvolutionTaskRepo\<close> (\<open>task.go\<close>)\<close>

definition build_evolution_task :: "int \<Rightarrow> string \<Rightarrow> int \<Rightarrow> create_task_request \<Rightarrow> evolution_task" where
  "build_evolution_task now tid seed r =
     \<lparr>et_created_at = now, et_task_id = tid, et_strategy_id = ct_strategy_id r, et_pair = ct_pair r,
      et_interval = ct_interval r, et_status = TaskQueued, et_current_generation = 0,
      et_requested_taker_fee_bps = ct_taker_fee_bps r, et_requested_slippage_bps = ct_slippage_bps r,
      et_test_mode = ct_test_mode r, et_spawn_mode = ct_spawn_mode r, et_oos_days = ct_oos_days r,
      et_fatal_audit_sample_rate = ct_fatal_audit_sample_rate r, et_epoch_seed = seed,
      et_started_at = None, et_finished_at = None, et_failure_reason = None, et_challenger_id = None,
      et_best_score = None\<rparr>"

definition create_task :: "int \<Rightarrow> string \<Rightarrow> int \<Rightarrow> create_task_request \<Rightarrow> life_db \<Rightarrow> unit life_res" where
  "create_task now tid seed r d =
     (if tid = [] then (Inl LeEmptyArgument, d)
      else life_stmt (\<lambda>d.
        if \<exists>t\<in>set (lf_tasks d). et_task_id t = tid
        then (Inl (LeUnique ''idx_evolution_tasks_task_id''), d)
        else (Inr (), d\<lparr>lf_tasks := lf_tasks d @ [build_evolution_task now tid seed r]\<rparr>)) d)"

definition list_tasks :: "int \<Rightarrow> life_db \<Rightarrow> evolution_task list life_res" where
  "list_tasks count = life_stmt (\<lambda>d.
     let rows = sort_key (\<lambda>t. - et_created_at t) (lf_tasks d)
     in (Inr (if 0 < count then take (nat count) rows else rows), d))"

definition get_task :: "string \<Rightarrow> life_db \<Rightarrow> evolution_task life_res" where
  "get_task tid d =
     (if tid = [] then (Inl LeEmptyArgument, d)
      else life_stmt (\<lambda>d. case find (\<lambda>t. et_task_id t = tid) (lf_tasks d) of
        None \<Rightarrow> (Inl LeNotFound, d) | Some t \<Rightarrow> (Inr t, d)) d)"

definition update_tasks :: "(evolution_task \<Rightarrow> bool) \<Rightarrow> (evolution_task \<Rightarrow> evolution_task) \<Rightarrow> life_db \<Rightarrow> nat life_res" where
  \<comment> \<open>an \<open>UPDATE\<close>; the number of rows it affected\<close>
  "update_tasks p f = life_stmt (\<lambda>d.
     (Inr (length (filter p (lf_tasks d))), d\<lparr>lf_tasks := update_where p f (lf_tasks d)\<rparr>))"

definition mark_task :: "string \<Rightarrow> (evolution_task \<Rightarrow> evolution_task) \<Rightarrow> life_db \<Rightarrow> unit life_res" where
  \<comment> \<open>the shared tail of the three marks: no row is an error\<close>
  "mark_task tid f = life_bind (update_tasks (\<lambda>t. et_task_id t = tid) f)
     (\<lambda>n d. if n = 0 then (Inl LeNoSuchTask, d) else (Inr (), d))"

definition mark_started :: "int \<Rightarrow> string \<Rightarrow> life_db \<Rightarrow> unit life_res" where
  "mark_started now tid d =
     (if tid = [] then (Inl LeEmptyArgument, d)
      else mark_task tid (\<lambda>t. t\<lparr>et_status := TaskRunning, et_started_at := Some now\<rparr>) d)"

definition mark_succeeded :: "int \<Rightarrow> string \<Rightarrow> string \<Rightarrow> int \<Rightarrow> f64 option \<Rightarrow> life_db \<Rightarrow> unit life_res" where
  "mark_succeeded now tid cid gens best d =
     (if tid = [] \<or> cid = [] then (Inl LeEmptyArgument, d)
      else mark_task tid (\<lambda>t. t\<lparr>et_status := TaskSucceeded, et_finished_at := Some now,
        et_challenger_id := Some cid, et_best_score := best, et_current_generation := gens\<rparr>) d)"

definition mark_failed :: "int \<Rightarrow> string \<Rightarrow> string \<Rightarrow> life_db \<Rightarrow> unit life_res" where
  "mark_failed now tid reason d =
     (if tid = [] \<or> reason = [] then (Inl LeEmptyArgument, d)
      else mark_task tid (\<lambda>t. t\<lparr>et_status := TaskFailed, et_finished_at := Some now,
        et_failure_reason := Some reason\<rparr>) d)"

definition task_open :: "evolution_task \<Rightarrow> bool" where
  "task_open t \<longleftrightarrow> et_status t = TaskQueued \<or> et_status t = TaskRunning"

definition sweep_orphans :: "int \<Rightarrow> life_db \<Rightarrow> nat life_res" where
  "sweep_orphans now = update_tasks task_open
     (\<lambda>t. t\<lparr>et_status := TaskFailed, et_finished_at := Some now,
        et_failure_reason := Some ''interrupted by server restart''\<rparr>)"

section \<open>\<open>SharpeBankRepo\<close> (\<open>sharpe_bank.go\<close>)\<close>

record bank_entry =
  be_challenger_id :: string
  be_spawn_mode :: spawn_mode
  be_stats :: sharpe_stats
  be_fingerprint_distance :: "f64 option"

record bank_stats =
  bk_n :: nat
  bk_sharpe_mean :: f64
  bk_sharpe_variance :: f64

definition bank_add :: "string \<Rightarrow> string \<Rightarrow> bank_entry \<Rightarrow> life_db \<Rightarrow> unit life_res" where
  "bank_add sid pid e d =
     (if sid = [] \<or> pid = [] \<or> be_challenger_id e = [] then (Inl LeEmptyArgument, d)
      else life_stmt (\<lambda>d. (Inr (), d\<lparr>lf_banks := lf_banks d @
        [\<lparr>sb_strategy_id = sid, sb_pair_id = pid, sb_challenger_id = be_challenger_id e,
          sb_observed_sharpe = sh_observed_sharpe (be_stats e), sb_backtest_horizon_t = sh_horizon_t (be_stats e),
          sb_skew = sh_skew (be_stats e), sb_kurtosis = sh_excess_kurt (be_stats e),
          sb_spawn_mode = be_spawn_mode e, sb_fingerprint_distance = be_fingerprint_distance e\<rparr>]\<rparr>)) d)"

definition compute_bank_stats :: "f64 list \<Rightarrow> bank_stats" where
  "compute_bank_stats sharpes =
     (if sharpes = [] then \<lparr>bk_n = 0, bk_sharpe_mean = Fin 0, bk_sharpe_variance = Fin 0\<rparr>
      else let mean = f_div (foldl f_add (Fin 0) sharpes) (f_len sharpes);
               ssq = foldl (\<lambda>acc s. f_add acc (f_mul (f_sub s mean) (f_sub s mean))) (Fin 0) sharpes
           in \<lparr>bk_n = length sharpes, bk_sharpe_mean = mean, bk_sharpe_variance = f_div ssq (f_len sharpes)\<rparr>)"

definition bank_statistics :: "string \<Rightarrow> string \<Rightarrow> life_db \<Rightarrow> bank_stats life_res" where
  "bank_statistics sid pid d =
     (if sid = [] \<or> pid = [] then (Inl LeEmptyArgument, d)
      else life_stmt (\<lambda>d. (Inr (compute_bank_stats (map sb_observed_sharpe
        (filter (\<lambda>b. sb_strategy_id b = sid \<and> sb_pair_id b = pid) (lf_banks d)))), d)) d)"

section \<open>\<open>ChallengerRepo\<close> (\<open>challenger.go\<close>)\<close>

text \<open>Which packages \<open>json.Marshal\<close> accepts: every number that is written is finite.\<close>

definition opt_finite :: "f64 option \<Rightarrow> bool" where
  "opt_finite x = (case x of None \<Rightarrow> True | Some v \<Rightarrow> f_finite v)"

definition crucible_result_marshals :: "crucible_result \<Rightarrow> bool" where
  "crucible_result_marshals r \<longleftrightarrow> opt_finite (sl_value (cr_score r)) \<and> opt_finite (cr_fatal_mdd_value r)"

definition score_total_marshals :: "score_total \<Rightarrow> bool" where
  "score_total_marshals s \<longleftrightarrow>
     opt_finite (st_value s) \<and> opt_finite (st_score_raw s) \<and> opt_finite (st_consistency_penalty s)"

definition ga_config_marshals :: "ga_config_snapshot \<Rightarrow> bool" where
  "ga_config_marshals g \<longleftrightarrow>
     f_finite (gc_elite_ratio g) \<and> f_finite (gc_fatal_mdd g) \<and> f_finite (gc_taker_fee_bps g) \<and>
     f_finite (gc_slippage_bps g) \<and> opt_finite (gc_fatal_audit_sample_rate g)"

definition sample_marshals :: "audit_sample \<Rightarrow> bool" where
  "sample_marshals a \<longleftrightarrow>
     score_total_marshals (as_score_total a) \<and> list_all crucible_result_marshals (as_window_scores a)"

definition package_marshals :: "challenger_package \<Rightarrow> bool" where
  "package_marshals p \<longleftrightarrow>
     ga_config_marshals (rc_ga_config (pk_core p)) \<and>
     list_all crucible_result_marshals (el_window_scores (pk_evaluation p)) \<and>
     score_total_marshals (el_score_total (pk_evaluation p)) \<and>
     f_finite (fa_taker_fee_bps (el_friction_actual (pk_evaluation p))) \<and>
     f_finite (fa_slippage_bps (el_friction_actual (pk_evaluation p))) \<and>
     opt_finite (oo_alpha_monthly (vl_oos_result (pk_verification p))) \<and>
     opt_finite (oo_alpha_weekly (vl_oos_result (pk_verification p))) \<and>
     list_all sample_marshals (dl_fatal_audit_samples (pk_diagnostics p))"

record window_alpha =
  wa_window :: string
  wa_strat_ann :: f64
  wa_dca_monthly_ann :: f64
  wa_dca_weekly_ann :: f64
  wa_alpha_monthly_ann :: f64
  wa_alpha_weekly_ann :: f64

record alpha_breakdown =
  ab_version :: string
  ab_windows :: "window_alpha list"

definition zero_window_alpha :: window_alpha where
  "zero_window_alpha = \<lparr>wa_window = [], wa_strat_ann = Fin 0, wa_dca_monthly_ann = Fin 0,
     wa_dca_weekly_ann = Fin 0, wa_alpha_monthly_ann = Fin 0, wa_alpha_weekly_ann = Fin 0\<rparr>"

definition window_alpha_fields :: "(string \<times> window_alpha setter) list" where
  "window_alpha_fields =
     [(''window'', str_field wa_window_update), (''strat_ann'', f64_field wa_strat_ann_update),
      (''dca_monthly_ann'', f64_field wa_dca_monthly_ann_update),
      (''dca_weekly_ann'', f64_field wa_dca_weekly_ann_update),
      (''alpha_monthly_ann'', f64_field wa_alpha_monthly_ann_update),
      (''alpha_weekly_ann'', f64_field wa_alpha_weekly_ann_update)]"

definition alpha_breakdown_fields :: "(string \<times> alpha_breakdown setter) list" where
  "alpha_breakdown_fields =
     [(''version'', str_field ab_version_update),
      (''windows'', list_field (\<lambda>v. unmarshal window_alpha_fields v zero_window_alpha) ab_windows_update)]"

definition alpha_column :: "(window_alpha \<Rightarrow> f64) \<Rightarrow> window_alpha list \<Rightarrow> json option" where
  \<comment> \<open>the column of one baseline: an array of \<open>{window, alpha_ann}\<close>\<close>
  "alpha_column alpha ws =
     map_option (\<lambda>vs. JArr (map (\<lambda>(w, v). JObj [(''window'', JStr (wa_window w)), (''alpha_ann'', v)]) (zip ws vs)))
       (marshal_floats (map alpha ws))"

definition package_alpha_windows :: "challenger_package \<Rightarrow> window_alpha list" where
  \<comment> \<open>the windows of the breakdown, none when it is absent or does not decode\<close>
  "package_alpha_windows p =
     (case el_alpha_breakdown (pk_evaluation p) of
        None \<Rightarrow> []
      | Some v \<Rightarrow>
          (case unmarshal alpha_breakdown_fields v \<lparr>ab_version = [], ab_windows = []\<rparr> of
             None \<Rightarrow> [] | Some ab \<Rightarrow> ab_windows ab))"

definition build_gene_record :: "string \<Rightarrow> challenger_package \<Rightarrow> gene_record option" where
  "build_gene_record cid p =
     (if \<not> package_marshals p then None
      else
        let repro = rc_repro (pk_core p); ga = rc_ga_config (pk_core p);
            st = el_score_total (pk_evaluation p); oos = vl_oos_result (pk_verification p);
            pl = pk_promote p; ws = package_alpha_windows p
        in Some
          \<lparr>gr_challenger_id = cid, gr_strategy_id = rc_strategy_id (pk_core p), gr_pair = gc_pair ga,
           gr_score_total = st_value st, gr_score_raw = st_score_raw st,
           gr_consistency_penalty = st_consistency_penalty st,
           gr_window_scores = el_window_scores (pk_evaluation p),
           gr_window_alpha_monthly = (if ws = [] then None else alpha_column wa_alpha_monthly_ann ws),
           gr_window_alpha_weekly = (if ws = [] then None else alpha_column wa_alpha_weekly_ann ws),
           gr_oos_alpha_monthly = oo_alpha_monthly oos, gr_oos_alpha_weekly = oo_alpha_weekly oos,
           gr_dsr = None, gr_epoch_seed = rm_epoch_seed repro, gr_data_version = rm_data_version repro,
           gr_engine_version = rm_engine_version repro, gr_strategy_version = rm_strategy_version repro,
           gr_schema_version = rm_schema_version repro, gr_fitness_version = rm_fitness_version repro,
           gr_fingerprint_version = rm_fingerprint_version repro,
           gr_hardware_signature = rm_hardware_signature repro, gr_go_version = rm_go_version repro,
           gr_build_id = rm_build_id repro, gr_plan_hash = rm_plan_hash repro,
           gr_bars_hash = rm_bars_hash repro, gr_taker_fee_bps = gc_taker_fee_bps ga,
           gr_slippage_bps = gc_slippage_bps ga, gr_test_mode = gc_test_mode ga,
           gr_decision_status = pl_decision_status pl, gr_decision_note = pl_decision_note pl,
           gr_reviewed_at_ts = pl_reviewed_at_ts pl, gr_reviewed_by = pl_reviewed_by pl,
           gr_full_package = Some p\<rparr>)"

definition save_challenger :: "string \<Rightarrow> challenger_package \<Rightarrow> life_db \<Rightarrow> unit life_res" where
  "save_challenger cid p d =
     (case build_gene_record cid p of
        None \<Rightarrow> (Inl LeMarshal, d)
      | Some g \<Rightarrow> life_stmt (\<lambda>d.
          if \<exists>h\<in>set (lf_genes d). gr_challenger_id h = cid
          then (Inl (LeUnique ''idx_gene_records_challenger_id''), d)
          else (Inr (), d\<lparr>lf_genes := lf_genes d @ [g]\<rparr>)) d)"

definition get_challenger :: "string \<Rightarrow> life_db \<Rightarrow> gene_record life_res" where
  "get_challenger cid d =
     (if cid = [] then (Inl LeEmptyArgument, d)
      else life_stmt (\<lambda>d. case find (\<lambda>g. gr_challenger_id g = cid) (lf_genes d) of
        None \<Rightarrow> (Inl LeNotFound, d) | Some g \<Rightarrow> (Inr g, d)) d)"

definition get_package_blob :: "string \<Rightarrow> life_db \<Rightarrow> challenger_package option life_res" where
  "get_package_blob cid d =
     (if cid = [] then (Inl LeEmptyArgument, d)
      else life_stmt (\<lambda>d. case find (\<lambda>g. gr_challenger_id g = cid) (lf_genes d) of
        None \<Rightarrow> (Inl LeNotFound, d) | Some g \<Rightarrow> (Inr (gr_full_package g), d)) d)"

section \<open>\<open>ChampionRepo\<close> (\<open>champion.go\<close>)\<close>

definition lf_champions :: "life_db \<Rightarrow> champion_row list" where
  "lf_champions d = db_champions (lf_live d)"

definition set_champions :: "champion_row list \<Rightarrow> life_db \<Rightarrow> life_db" where
  "set_champions rows d = d\<lparr>lf_live := (lf_live d)\<lparr>db_champions := rows\<rparr>\<rparr>"

definition champion_active :: "string \<Rightarrow> string \<Rightarrow> champion_row \<Rightarrow> bool" where
  "champion_active sid pair c \<longleftrightarrow>
     ch_strategy_id c = sid \<and> ch_pair c = pair \<and> ch_retired_at c = None"

definition apply_promote ::
  "gene_record \<Rightarrow> promote_request \<Rightarrow> int \<Rightarrow> nat \<Rightarrow> life_err + (gene_record \<Rightarrow> gene_record) \<times> champion_row" where
  "apply_promote g r now others =
     (if gr_test_mode g then Inl LeTestMode
      else if gr_decision_status g = DecisionPromoted then Inl LeAlreadyPromoted
      else if gr_decision_status g = DecisionRejected then Inl LeAlreadyRejected
      else if 0 < others then Inl LeActiveChampionExists
      else Inr
        (\<lambda>h. h\<lparr>gr_decision_status := DecisionPromoted, gr_reviewed_at_ts := Some now,
           gr_reviewed_by := Some (pq_reviewed_by r),
           gr_decision_note := (case pq_decision_note r of None \<Rightarrow> gr_decision_note h | Some n \<Rightarrow> Some n)\<rparr>,
         \<lparr>ch_challenger_id = gr_challenger_id g, ch_strategy_id = gr_strategy_id g, ch_pair = gr_pair g,
          ch_promoted_at = now, ch_retired_at = None, ch_retired_by = None, ch_retire_note = None\<rparr>))"

definition apply_promote_to_blob ::
  "challenger_package option \<Rightarrow> promote_request \<Rightarrow> int \<Rightarrow> challenger_package option" where
  "apply_promote_to_blob blob r now =
     map_option (\<lambda>p. p\<lparr>pk_promote := (pk_promote p)\<lparr>pl_decision_status := DecisionPromoted,
        pl_reviewed_at_ts := Some now, pl_reviewed_by := Some (pq_reviewed_by r),
        pl_decision_note := (case pq_decision_note r of None \<Rightarrow> pl_decision_note (pk_promote p)
          | Some n \<Rightarrow> Some n)\<rparr>\<rparr>) blob"

definition promote_read :: "string \<Rightarrow> life_db \<Rightarrow> gene_record life_res" where
  "promote_read cid = life_stmt (\<lambda>d. case find (\<lambda>g. gr_challenger_id g = cid) (lf_genes d) of
     None \<Rightarrow> (Inl LeNotFound, d) | Some g \<Rightarrow> (Inr g, d))"

definition promote_count :: "gene_record \<Rightarrow> life_db \<Rightarrow> nat life_res" where
  "promote_count g = life_stmt (\<lambda>d. (Inr (length (filter
     (\<lambda>c. champion_active (gr_strategy_id g) (gr_pair g) c \<and> ch_challenger_id c \<noteq> gr_challenger_id g)
     (lf_champions d))), d))"

definition update_genes :: "(gene_record \<Rightarrow> bool) \<Rightarrow> (gene_record \<Rightarrow> gene_record) \<Rightarrow> life_db \<Rightarrow> unit life_res" where
  "update_genes p f = life_stmt (\<lambda>d. (Inr (), d\<lparr>lf_genes := update_where p f (lf_genes d)\<rparr>))"

definition insert_champion :: "champion_row \<Rightarrow> life_db \<Rightarrow> unit life_res" where
  \<comment> \<open>\<open>uq_champion_active\<close>: one unretired row per strategy and pair; its violation is translated\<close>
  "insert_champion c = life_stmt (\<lambda>d.
     if ch_retired_at c = None \<and> (\<exists>c'\<in>set (lf_champions d). champion_active (ch_strategy_id c) (ch_pair c) c')
     then (Inl LeActiveChampionExists, d)
     else (Inr (), set_champions (lf_champions d @ [c]) d))"

definition promote_write ::
  "string \<Rightarrow> gene_record \<Rightarrow> promote_request \<Rightarrow> int \<Rightarrow> nat \<Rightarrow> life_db \<Rightarrow> unit life_res" where
  "promote_write cid g r now others d =
     (case apply_promote g r now others of
        Inl e \<Rightarrow> (Inl e, d)
      | Inr (upd, row) \<Rightarrow>
          (let blob = apply_promote_to_blob (gr_full_package g) r now;
               set_blob = (\<lambda>h. if blob = None then h else h\<lparr>gr_full_package := blob\<rparr>)
           in life_bind (update_genes (\<lambda>h. gr_challenger_id h = cid) (\<lambda>h. set_blob (upd h)))
                (\<lambda>_. insert_champion row) d))"

definition promote :: "string \<Rightarrow> promote_request \<Rightarrow> int \<Rightarrow> life_db \<Rightarrow> unit life_res" where
  "promote cid r now d =
     (if cid = [] then (Inl LeEmptyArgument, d)
      else transaction (life_bind (promote_read cid)
        (\<lambda>g. life_bind (promote_count g) (\<lambda>others. promote_write cid g r now others))) d)"

definition apply_retire :: "champion_row \<Rightarrow> retire_request \<Rightarrow> int \<Rightarrow> life_err + (champion_row \<Rightarrow> champion_row)" where
  "apply_retire c r now =
     (if ch_retired_at c \<noteq> None then Inl LeAlreadyRetired
      else Inr (\<lambda>h. h\<lparr>ch_retired_at := Some now, ch_retired_by := Some (rq_reviewed_by r),
        ch_retire_note := (case rq_decision_note r of None \<Rightarrow> ch_retire_note h | Some n \<Rightarrow> Some n)\<rparr>))"

fun first_index :: "('a \<Rightarrow> bool) \<Rightarrow> 'a list \<Rightarrow> nat option" where
  "first_index p [] = None"
| "first_index p (x # xs) = (if p x then Some 0 else map_option Suc (first_index p xs))"

definition retire_read :: "string \<Rightarrow> life_db \<Rightarrow> (nat \<times> champion_row) life_res" where
  \<comment> \<open>\<open>First\<close>: the row of the challenger with the least id\<close>
  "retire_read cid = life_stmt (\<lambda>d.
     case first_index (\<lambda>c. ch_challenger_id c = cid) (lf_champions d) of
       None \<Rightarrow> (Inl LeNotFound, d)
     | Some i \<Rightarrow> (Inr (i, lf_champions d ! i), d))"

definition retire_history :: "nat \<Rightarrow> champion_row \<Rightarrow> retire_request \<Rightarrow> int \<Rightarrow> life_db \<Rightarrow> unit life_res" where
  \<comment> \<open>the row read, at its id\<close>
  "retire_history i c r now d =
     (case apply_retire c r now of
        Inl e \<Rightarrow> (Inl e, d)
      | Inr upd \<Rightarrow> life_stmt (\<lambda>d.
          let rows = lf_champions d in
          if i < length rows \<and> ch_retired_at (rows ! i) = None
          then (Inr (), set_champions (rows[i := upd (rows ! i)]) d)
          else (Inl LeAlreadyRetired, d)) d)"

definition retire :: "string \<Rightarrow> retire_request \<Rightarrow> int \<Rightarrow> life_db \<Rightarrow> unit life_res" where
  "retire cid r now d =
     (if cid = [] then (Inl LeEmptyArgument, d)
      else transaction (life_bind (retire_read cid) (\<lambda>(i, c). retire_history i c r now)) d)"

definition list_champions :: "string \<Rightarrow> string \<Rightarrow> int \<Rightarrow> life_db \<Rightarrow> champion_row list life_res" where
  "list_champions sid pair count = life_stmt (\<lambda>d.
     let rows = filter (\<lambda>c. (sid = [] \<or> ch_strategy_id c = sid) \<and> (pair = [] \<or> ch_pair c = pair))
                  (sort_key (\<lambda>c. - ch_promoted_at c) (lf_champions d))
     in (Inr (if 0 < count then take (nat count) rows else rows), d))"

definition get_active :: "string \<Rightarrow> string \<Rightarrow> life_db \<Rightarrow> champion_row life_res" where
  "get_active sid pair d =
     (if sid = [] \<or> pair = [] then (Inl LeEmptyArgument, d)
      else life_stmt (\<lambda>d.
        case sort_key (\<lambda>c. - ch_promoted_at c) (filter (champion_active sid pair) (lf_champions d)) of
          [] \<Rightarrow> (Inl LeNotFound, d) | c # _ \<Rightarrow> (Inr c, d)) d)"

definition get_by_challenger_id :: "string \<Rightarrow> life_db \<Rightarrow> champion_row life_res" where
  "get_by_challenger_id cid d =
     (if cid = [] then (Inl LeEmptyArgument, d)
      else life_stmt (\<lambda>d. case find (\<lambda>c. ch_challenger_id c = cid) (lf_champions d) of
        None \<Rightarrow> (Inl LeNotFound, d) | Some c \<Rightarrow> (Inr c, d)) d)"

end
