(* ===== verification/Api.thy ===== *)
theory Api
  imports Lifecycle
begin

text \<open>
  The HTTP handlers that read and change challengers, champions and instances
  (\<open>internal/api/handlers.go\<close>). A handler takes the path parameter, the decoded body (absent when it does
  not decode) and the database, and returns a status with an error or a body. Routing, authentication
  and the JSON of the replies belong to gin and are not modelled.
\<close>

section \<open>Replies and error mapping\<close>

datatype api_err =
    AeBadBody
  | AeInvalid string
  | AeMissingParam
  | AeLife life_err
  | AeBlockedBy string
  | AeCapBelowSlippage f64 f64
  | AeNoClaims
  | AeTransitionRefused
  | AeEmptyBlob

type_synonym 'b reply = "(nat \<times> api_err) + (nat \<times> 'b)"

definition map_read_err :: "life_err \<Rightarrow> nat" where
  "map_read_err e = (if e = LeNotFound \<or> e = LeInstance ErrRecordNotFound then 404 else 500)"

definition map_transition_err :: "life_err \<Rightarrow> nat" where
  "map_transition_err e =
     (if e = LeNotFound then 404
      else if List.member [LeTestMode, LeAlreadyPromoted, LeAlreadyRejected, LeAlreadyRetired,
                LeActiveChampionExists] e then 422
      else 500)"

definition map_instance_write_err :: "life_err \<Rightarrow> nat" where
  "map_instance_write_err e =
     (case e of
        LeInstance ErrRecordNotFound \<Rightarrow> 404
      | LeInstance ErrTransitionRefused \<Rightarrow> 422
      | LeInstance ErrDeployRefused \<Rightarrow> 422
      | LeInstance ErrInstanceAlreadyRetired \<Rightarrow> 422
      | _ \<Rightarrow> 500)"

definition fold_byte :: "char \<Rightarrow> char" where
  \<comment> \<open>the two \<open>if\<close>s of \<open>equalFold\<close>: an ASCII capital becomes small\<close>
  "fold_byte c =
     (if 65 \<le> (of_char c :: nat) \<and> (of_char c :: nat) \<le> 90 then char_of ((of_char c :: nat) + 32) else c)"

fun equal_fold_from :: "string \<Rightarrow> string \<Rightarrow> bool" where
  "equal_fold_from (a # as) (b # bs) \<longleftrightarrow> fold_byte a = fold_byte b \<and> equal_fold_from as bs"
| "equal_fold_from _ _ \<longleftrightarrow> True"

definition equal_fold :: "string \<Rightarrow> string \<Rightarrow> bool" where
  "equal_fold a b \<longleftrightarrow> length a = length b \<and> equal_fold_from a b"

definition substr_fold :: "string \<Rightarrow> string \<Rightarrow> bool" where
  "substr_fold s needle \<longleftrightarrow>
     \<not> length s < length needle \<and>
     list_ex (\<lambda>i. equal_fold (take (length needle) (drop i s)) needle) [0..<Suc (length s - length needle)]"

definition contains_unique :: "string \<Rightarrow> bool" where
  "contains_unique s = list_ex (substr_fold s) [''unique'', ''duplicate key'', ''idx_inst_unique_active'']"

definition map_instance_create_err :: "(db_err \<Rightarrow> string) \<Rightarrow> life_err \<Rightarrow> nat" where
  \<comment> \<open>\<open>text e\<close> is \<open>err.Error()\<close>, the driver's wording\<close>
  "map_instance_create_err text e =
     (case e of
        LeInstance ErrActiveInstanceExists \<Rightarrow> 409
      | LeInstance d \<Rightarrow> if contains_unique (text d) then 409 else 500
      | _ \<Rightarrow> 500)"

definition with_body ::
  "'r option \<Rightarrow> ('r \<Rightarrow> string option) \<Rightarrow> ('r \<Rightarrow> life_db \<Rightarrow> 'b reply \<times> life_db) \<Rightarrow> life_db \<Rightarrow> 'b reply \<times> life_db" where
  \<comment> \<open>\<open>ShouldBindJSON\<close>, then \<open>Validate\<close>: both answer 400\<close>
  "with_body body validate_body k d =
     (case body of
        None \<Rightarrow> (Inl (400, AeBadBody), d)
      | Some r \<Rightarrow> (case validate_body r of Some msg \<Rightarrow> (Inl (400, AeInvalid msg), d) | None \<Rightarrow> k r d))"

definition answer :: "(life_err \<Rightarrow> nat) \<Rightarrow> nat \<Rightarrow> ('a \<Rightarrow> 'b) \<Rightarrow> 'a life_res \<Rightarrow> 'b reply \<times> life_db" where
  "answer status ok body res =
     (case res of (Inl e, d) \<Rightarrow> (Inl (status e, AeLife e), d) | (Inr x, d) \<Rightarrow> (Inr (ok, body x), d))"

section \<open>Challengers and champions\<close>

record challenger_summary =
  cs_challenger_id :: string
  cs_strategy_id :: string
  cs_pair :: string
  cs_score_total :: "f64 option"
  cs_score_raw :: "f64 option"
  cs_consistency_penalty :: "f64 option"
  cs_decision_status :: decision_status
  cs_plan_hash :: string
  cs_bars_hash :: string
  cs_test_mode :: bool
  cs_dsr :: "f64 option"
  cs_promoted_at_ms :: "int option"
  cs_retired_at_ms :: "int option"

definition challenger_summary_of :: "gene_record \<Rightarrow> champion_row option \<Rightarrow> challenger_summary" where
  "challenger_summary_of g hist =
     \<lparr>cs_challenger_id = gr_challenger_id g, cs_strategy_id = gr_strategy_id g, cs_pair = gr_pair g,
      cs_score_total = gr_score_total g, cs_score_raw = gr_score_raw g,
      cs_consistency_penalty = gr_consistency_penalty g, cs_decision_status = gr_decision_status g,
      cs_plan_hash = gr_plan_hash g, cs_bars_hash = gr_bars_hash g, cs_test_mode = gr_test_mode g,
      cs_dsr = gr_dsr g, cs_promoted_at_ms = map_option ch_promoted_at hist,
      cs_retired_at_ms = (case hist of None \<Rightarrow> None | Some c \<Rightarrow> ch_retired_at c)\<rparr>"

definition http_get_challenger :: "string \<Rightarrow> life_db \<Rightarrow> challenger_summary reply \<times> life_db" where
  "http_get_challenger cid d =
     (if cid = [] then (Inl (400, AeMissingParam), d)
      else case get_challenger cid d of
        (Inl e, d) \<Rightarrow> (Inl (map_read_err e, AeLife e), d)
      | (Inr g, d) \<Rightarrow>
          if gr_decision_status g = DecisionPromoted
          then (case get_by_challenger_id cid d of
                  (Inl _, d) \<Rightarrow> (Inr (200, challenger_summary_of g None), d)
                | (Inr c, d) \<Rightarrow> (Inr (200, challenger_summary_of g (Some c)), d))
          else (Inr (200, challenger_summary_of g None), d))"

definition http_get_package :: "string \<Rightarrow> life_db \<Rightarrow> challenger_package reply \<times> life_db" where
  "http_get_package cid d =
     (if cid = [] then (Inl (400, AeMissingParam), d)
      else case get_package_blob cid d of
        (Inl e, d) \<Rightarrow> (Inl (map_read_err e, AeLife e), d)
      | (Inr None, d) \<Rightarrow> (Inl (500, AeEmptyBlob), d)
      | (Inr (Some p), d) \<Rightarrow> (Inr (200, p), d))"

definition http_promote :: "string \<Rightarrow> promote_request option \<Rightarrow> int \<Rightarrow> life_db \<Rightarrow> (string \<times> decision_status) reply \<times> life_db" where
  "http_promote cid body now d =
     (if cid = [] then (Inl (400, AeMissingParam), d)
      else with_body body validate_promote
        (\<lambda>r d. answer map_transition_err 200 (\<lambda>_. (cid, DecisionPromoted)) (promote cid r now d)) d)"

definition http_retire_champion :: "string \<Rightarrow> retire_request option \<Rightarrow> int \<Rightarrow> life_db \<Rightarrow> string reply \<times> life_db" where
  \<comment> \<open>the gate on instances that deploy the champion, then \<open>Retire\<close>: two database operations\<close>
  "http_retire_champion cid body now d =
     (if cid = [] then (Inl (400, AeMissingParam), d)
      else with_body body validate_retire
        (\<lambda>r d. case live_stmt (blocking_instance_for_champion cid) d of
           (Inl e, d) \<Rightarrow> (Inl (500, AeLife e), d)
         | (Inr blocking, d) \<Rightarrow>
             if blocking \<noteq> [] then (Inl (422, AeBlockedBy blocking), d)
             else answer map_transition_err 200 (\<lambda>_. cid) (retire cid r now d)) d)"

section \<open>Instances\<close>

definition http_create_instance ::
  "(db_err \<Rightarrow> string) \<Rightarrow> string \<Rightarrow> nat option \<Rightarrow> create_instance_request option \<Rightarrow> life_db
     \<Rightarrow> strategy_instance reply \<times> life_db" where
  \<comment> \<open>the new id, the caller's user id from the token\<close>
  "http_create_instance text new_id owner body d =
     with_body body validate_create_instance
       (\<lambda>r d. case owner of
          None \<Rightarrow> (Inl (500, AeNoClaims), d)
        | Some uid \<Rightarrow>
            (let inst = \<lparr>si_instance_id = new_id, si_strategy_id = ci_strategy_id r, si_pair = ci_pair r,
                   si_account_id = ci_account_id r, si_owner_user_id = uid, si_status = InIdle,
                   si_active_champ_id = None, si_last_tick_wall_time = None, si_funded_at_ms = None\<rparr>
             in answer (map_instance_create_err text) 201 (\<lambda>_. inst) (live_stmt (create_instance inst) d))) d"

definition http_get_instance :: "string \<Rightarrow> life_db \<Rightarrow> strategy_instance reply \<times> life_db" where
  "http_get_instance iid d =
     (if iid = [] then (Inl (400, AeMissingParam), d)
      else answer map_read_err 200 (\<lambda>i. i) (live_stmt (get_instance iid) d))"

definition start_next :: "instance_status \<Rightarrow> instance_status option" where
  "start_next cur = (if cur = InIdle \<or> cur = InPaused \<or> cur = InLive then Some InLive else None)"

definition stop_next :: "instance_status \<Rightarrow> instance_status option" where
  "stop_next cur = (if cur = InLive \<or> cur = InPaused \<or> cur = InIdle then Some InPaused else None)"

definition transition_instance ::
  "(instance_status \<Rightarrow> instance_status option) \<Rightarrow> string \<Rightarrow> life_db \<Rightarrow> (instance_status \<times> bool) reply \<times> life_db" where
  \<comment> \<open>the body of \<open>StartInstance\<close> and \<open>StopInstance\<close>; the flag is the reply's \<open>noop\<close>\<close>
  "transition_instance next_status iid d =
     (if iid = [] then (Inl (400, AeMissingParam), d)
      else case live_stmt (get_instance iid) d of
        (Inl e, d) \<Rightarrow> (Inl (map_read_err e, AeLife e), d)
      | (Inr i, d) \<Rightarrow>
          (case next_status (si_status i) of
             None \<Rightarrow> (Inl (422, AeTransitionRefused), d)
           | Some nx \<Rightarrow>
               if nx = si_status i then (Inr (200, nx, True), d)
               else answer map_instance_write_err 200 (\<lambda>_. (nx, False))
                      (live_stmt (update_status iid (si_status i) nx) d)))"

definition http_start :: "string \<Rightarrow> life_db \<Rightarrow> (instance_status \<times> bool) reply \<times> life_db" where
  "http_start = transition_instance start_next"

definition http_stop :: "string \<Rightarrow> life_db \<Rightarrow> (instance_status \<times> bool) reply \<times> life_db" where
  "http_stop = transition_instance stop_next"

definition http_retire_instance :: "string \<Rightarrow> life_db \<Rightarrow> string reply \<times> life_db" where
  "http_retire_instance iid d =
     (if iid = [] then (Inl (400, AeMissingParam), d)
      else answer map_instance_write_err 200 (\<lambda>_. iid) (live_stmt (retire_instance iid) d))"

definition deploy_audit_row :: "int \<Rightarrow> string \<Rightarrow> f64 \<Rightarrow> string \<Rightarrow> string \<Rightarrow> gene_record \<Rightarrow> audit_row" where
  "deploy_audit_row now actor price_cap_bps iid cid g =
     \<lparr>al_created_at = now, al_actor = actor, al_action = ''instance.deploy_champion'',
      al_subject = ''instance:'' @ iid,
      al_data = (case (marshal_float price_cap_bps, marshal_float (gr_slippage_bps g)) of
         (Some cap, Some sl) \<Rightarrow> JObj [(''challenger_id'', JStr cid), (''price_cap_bps'', cap), (''slippage_bps'', sl)]
       | _ \<Rightarrow> JNull)\<rparr>"

definition http_deploy ::
  "f64 \<Rightarrow> string \<Rightarrow> string \<Rightarrow> deploy_request option \<Rightarrow> int \<Rightarrow> life_db \<Rightarrow> (string \<times> string) reply \<times> life_db" where
  \<comment> \<open>the readers are wired, as in production; the audit row is best effort\<close>
  "http_deploy price_cap_bps actor iid body now d =
     (if iid = [] then (Inl (400, AeMissingParam), d)
      else with_body body validate_deploy
        (\<lambda>r d. case get_challenger (dp_challenger_id r) d of
           (Inl e, d) \<Rightarrow> (Inl (map_read_err e, AeLife e), d)
         | (Inr g, d) \<Rightarrow>
             if f_lt (Fin 0) price_cap_bps \<and> f_lt price_cap_bps (gr_slippage_bps g)
             then (Inl (422, AeCapBelowSlippage price_cap_bps (gr_slippage_bps g)), d)
             else (case live_stmt (set_active_champion iid (dp_challenger_id r)) d of
                     (Inl e, d) \<Rightarrow> (Inl (map_instance_write_err e, AeLife e), d)
                   | (Inr _, d) \<Rightarrow>
                       (let (_, d) = live_stmt (audit_insert
                              (deploy_audit_row now actor price_cap_bps iid (dp_challenger_id r) g)) d
                        in (Inr (200, iid, dp_challenger_id r), d)))) d)"

end
