(* ===== verification/LifecycleSteps.thy ===== *)
theory LifecycleSteps
  imports Api
begin

text \<open>
  Concurrent requests on champions, challengers and instances. Each request runs as a sequence of
  database operations, and those of different requests interleave (the audit row of a deployment, which
  no request reads, is left out). A transaction runs at the default
  isolation (read committed): each read sees what is committed then, and its writes appear together at
  the commit, where the unique index decides.
\<close>

section \<open>Requests in progress\<close>

datatype request =
    ReqDone nat                                      \<comment> \<open>answered with this status\<close>
  | ReqPromote string promote_request
  | ReqPromoteCount string promote_request gene_record
  | ReqPromoteWrite string promote_request gene_record nat
  | ReqRetire string retire_request
  | ReqRetireRead string retire_request
  | ReqRetireWrite string retire_request nat champion_row
  | ReqDeploy string string
  | ReqDeploySet string string gene_record
  | ReqSave string challenger_package                \<comment> \<open>the epoch service stores its winner\<close>
  | ReqCreateInstance strategy_instance
  | ReqTransition bool string                        \<comment> \<open>start or stop\<close>
  | ReqTransitionSet string instance_status instance_status
  | ReqRetireInstance string

fun answered :: "request \<Rightarrow> nat option" where
  "answered (ReqDone s) = Some s"
| "answered _ = None"

definition done_or :: "(life_err \<Rightarrow> nat) \<Rightarrow> 'a life_res \<Rightarrow> ('a \<Rightarrow> request) \<Rightarrow> request \<times> life_db" where
  "done_or status res k = (case res of (Inl e, d) \<Rightarrow> (ReqDone (status e), d) | (Inr x, d) \<Rightarrow> (k x, d))"

fun advance :: "f64 \<Rightarrow> int \<Rightarrow> request \<Rightarrow> life_db \<Rightarrow> request \<times> life_db" where
  "advance cap now (ReqDone s) d = (ReqDone s, d)"
| "advance cap now (ReqPromote cid r) d =
     done_or map_transition_err (promote_read cid d) (ReqPromoteCount cid r)"
| "advance cap now (ReqPromoteCount cid r g) d =
     done_or map_transition_err (promote_count g d) (ReqPromoteWrite cid r g)"
| "advance cap now (ReqPromoteWrite cid r g n) d =
     done_or map_transition_err (transaction (promote_write cid g r now n) d) (\<lambda>_. ReqDone 200)"
| "advance cap now (ReqRetire cid r) d =
     done_or (\<lambda>_. 500) (live_stmt (blocking_instance_for_champion cid) d)
       (\<lambda>blocking. if blocking \<noteq> [] then ReqDone 422 else ReqRetireRead cid r)"
| "advance cap now (ReqRetireRead cid r) d =
     done_or map_transition_err (retire_read cid d) (\<lambda>(i, c). ReqRetireWrite cid r i c)"
| "advance cap now (ReqRetireWrite cid r i c) d =
     done_or map_transition_err (transaction (retire_history i c r now) d) (\<lambda>_. ReqDone 200)"
| "advance cap now (ReqDeploy iid cid) d =
     done_or map_read_err (get_challenger cid d)
       (\<lambda>g. if f_lt (Fin 0) cap \<and> f_lt cap (gr_slippage_bps g) then ReqDone 422 else ReqDeploySet iid cid g)"
| "advance cap now (ReqDeploySet iid cid g) d =
     done_or map_instance_write_err (live_stmt (set_active_champion iid cid) d) (\<lambda>_. ReqDone 200)"
| "advance cap now (ReqSave cid p) d = done_or (\<lambda>_. 500) (save_challenger cid p d) (\<lambda>_. ReqDone 200)"
| "advance cap now (ReqCreateInstance i) d =
     done_or (\<lambda>_. 500) (live_stmt (create_instance i) d) (\<lambda>_. ReqDone 201)"
| "advance cap now (ReqTransition start iid) d =
     done_or map_read_err (live_stmt (get_instance iid) d)
       (\<lambda>i. case (if start then start_next else stop_next) (si_status i) of
          None \<Rightarrow> ReqDone 422
        | Some st \<Rightarrow> if st = si_status i then ReqDone 200 else ReqTransitionSet iid (si_status i) st)"
| "advance cap now (ReqTransitionSet iid cur nx) d =
     done_or map_instance_write_err (live_stmt (update_status iid cur nx) d) (\<lambda>_. ReqDone 200)"
| "advance cap now (ReqRetireInstance iid) d =
     done_or map_instance_write_err (live_stmt (retire_instance iid) d) (\<lambda>_. ReqDone 200)"

definition package_fresh :: "challenger_package \<Rightarrow> bool" where
  \<comment> \<open>what a strategy's \<open>EncodeResult\<close> leaves in the promote layer\<close>
  "package_fresh p \<longleftrightarrow> pk_promote p =
     \<lparr>pl_decision_status = DecisionPending, pl_decision_note = None, pl_reviewed_at_ts = None, pl_reviewed_by = None\<rparr>"

fun request_arrives :: "request \<Rightarrow> bool" where
  "request_arrives (ReqPromote cid r) \<longleftrightarrow> cid \<noteq> [] \<and> validate_promote r = None"
| "request_arrives (ReqRetire cid r) \<longleftrightarrow> cid \<noteq> [] \<and> validate_retire r = None"
| "request_arrives (ReqDeploy iid cid) \<longleftrightarrow> iid \<noteq> [] \<and> cid \<noteq> []"
| "request_arrives (ReqSave cid p) \<longleftrightarrow> package_fresh p"
| "request_arrives (ReqCreateInstance i) \<longleftrightarrow> si_status i = InIdle \<and> si_active_champ_id i = None"
| "request_arrives (ReqTransition start iid) \<longleftrightarrow> iid \<noteq> []"
| "request_arrives (ReqRetireInstance iid) \<longleftrightarrow> iid \<noteq> []"
| "request_arrives _ \<longleftrightarrow> False"

inductive serve :: "f64 \<Rightarrow> request list \<times> life_db \<Rightarrow> request list \<times> life_db \<Rightarrow> bool" for cap where
  arrive: "request_arrives r \<Longrightarrow> serve cap (rs, d) (rs @ [r], d)"
| proceed: "k < length rs \<Longrightarrow> advance cap now (rs ! k) d = (r', d') \<Longrightarrow> serve cap (rs, d) (rs[k := r'], d')"

inductive_cases serveE: "serve cap s s'"

definition empty_life_db :: "bool list \<Rightarrow> life_db" where
  "empty_life_db fs = \<lparr>lf_live = empty_saas_db fs, lf_genes = [], lf_tasks = [], lf_banks = []\<rparr>"

definition served :: "f64 \<Rightarrow> request list \<times> life_db \<Rightarrow> bool" where
  \<comment> \<open>the states some run of requests reaches from an empty database\<close>
  "served cap s \<longleftrightarrow> (\<exists>fs. (serve cap)\<^sup>*\<^sup>* ([], empty_life_db fs) s)"

section \<open>Operations and faults\<close>

text \<open>Two databases with the same rows; the statements may have met different faults.\<close>

definition same_rows :: "life_db \<Rightarrow> life_db \<Rightarrow> bool" where
  "same_rows d d' \<longleftrightarrow> (\<exists>fs. d' = d\<lparr>lf_live := (lf_live d)\<lparr>db_faults := fs\<rparr>\<rparr>)"

lemma same_rows_refl [simp, intro]: "same_rows d d"
  unfolding same_rows_def by (intro exI [of _ "db_faults (lf_live d)"]) simp

lemma same_rows_trans [trans]: "same_rows a b \<Longrightarrow> same_rows b c \<Longrightarrow> same_rows a c"
  unfolding same_rows_def by auto

lemma same_rowsD:
  assumes "same_rows d d'"
  shows "lf_genes d' = lf_genes d" "lf_champions d' = lf_champions d"
    "db_instances (lf_live d') = db_instances (lf_live d)" "lf_tasks d' = lf_tasks d" "lf_banks d' = lf_banks d"
  using assms by (auto simp: same_rows_def lf_champions_def)

lemma take_fault_same [simp]: "take_fault d = (b, d') \<Longrightarrow> same_rows d d'"
  by (auto simp: take_fault_def same_rows_def)

lemma rollback_same [simp, intro]: "same_rows d (rollback d d')"
  by (auto simp: rollback_def same_rows_def)

lemma life_stmtE:
  assumes "life_stmt f d = (res, d')"
  obtains (fault) "res = Inl LeDb" "same_rows d d'"
  | (run) d0 where "same_rows d d0" "f d0 = (res, d')"
proof -
  obtain b d0 where b: "take_fault d = (b, d0)" by (cases "take_fault d")
  note sr = take_fault_same [OF b]
  show thesis
  proof (cases b)
    case True
    with assms b sr show thesis by (intro fault) (auto simp: life_stmt_def)
  next
    case False
    with assms b sr show thesis by (intro run [of d0]) (auto simp: life_stmt_def)
  qed
qed

lemma transactionE:
  assumes "transaction f d = (res, d')"
  obtains (failed) e where "res = Inl e" "same_rows d d'"
  | (commit) x d0 where "res = Inr x" "f d = (Inr x, d0)" "same_rows d0 d'"
proof -
  obtain r d0 where f: "f d = (r, d0)" by (cases "f d")
  obtain b d1 where b: "take_fault d0 = (b, d1)" by (cases "take_fault d0")
  note sr = take_fault_same [OF b]
  show thesis
  proof (cases r)
    case (Inl e)
    with assms f show thesis by (intro failed [of e]) (auto simp: transaction_def)
  next
    case (Inr x)
    show thesis
    proof (cases b)
      case True
      with assms f b Inr show thesis by (intro failed [of LeDb]) (auto simp: transaction_def)
    next
      case False
      with assms f b Inr sr show thesis by (intro commit [of x d0]) (auto simp: transaction_def)
    qed
  qed
qed

lemma life_bindE:
  assumes "life_bind f k d = (res, d')"
  obtains (failed) e where "f d = (Inl e, d')" "res = Inl e"
  | (passed) x d0 where "f d = (Inr x, d0)" "k x d0 = (res, d')"
  using assms by (auto simp: life_bind_def split: prod.splits sum.splits)

lemma done_orE:
  assumes "done_or status res k = (r, d')"
  obtains (failed) e where "res = (Inl e, d')" "r = ReqDone (status e)"
  | (passed) x where "res = (Inr x, d')" "r = k x"
  using assms by (auto simp: done_or_def split: prod.splits sum.splits)

end
