(* ===== verification/LifecycleSafety.thy ===== *)
theory LifecycleSafety
  imports LifecycleSteps
begin

text \<open>
  What holds of challengers and champions in every state that concurrent requests reach: at most one
  unretired champion per strategy and pair, champions are promoted genes that were not evolved in test
  mode, the stored package agrees with the columns, history rows are only appended and retired once.
\<close>

section \<open>The invariant\<close>

definition gene_ok :: "gene_record \<Rightarrow> bool" where
  \<comment> \<open>the package in the row agrees with the row's columns\<close>
  "gene_ok g \<longleftrightarrow>
     (case gr_full_package g of None \<Rightarrow> False
      | Some p \<Rightarrow> pl_decision_status (pk_promote p) = gr_decision_status g \<and>
          pl_reviewed_at_ts (pk_promote p) = gr_reviewed_at_ts g \<and>
          pl_reviewed_by (pk_promote p) = gr_reviewed_by g \<and>
          gc_test_mode (rc_ga_config (pk_core p)) = gr_test_mode g \<and>
          rc_strategy_id (pk_core p) = gr_strategy_id g \<and> gc_pair (rc_ga_config (pk_core p)) = gr_pair g)"

definition same_gene :: "gene_record \<Rightarrow> gene_record \<Rightarrow> bool" where
  "same_gene g h \<longleftrightarrow> gr_challenger_id h = gr_challenger_id g \<and> gr_strategy_id h = gr_strategy_id g \<and>
     gr_pair h = gr_pair g \<and> gr_test_mode h = gr_test_mode g"

definition champion_of :: "champion_row \<Rightarrow> gene_record \<Rightarrow> bool" where
  "champion_of c g \<longleftrightarrow> gr_challenger_id g = ch_challenger_id c \<and> gr_strategy_id g = ch_strategy_id c \<and>
     gr_pair g = ch_pair c \<and> \<not> gr_test_mode g \<and> gr_decision_status g = DecisionPromoted"

definition one_active :: "champion_row list \<Rightarrow> bool" where
  "one_active rows \<longleftrightarrow> (\<forall>sid pair. length (filter (champion_active sid pair) rows) \<le> 1)"

definition retired_first :: "champion_row list \<Rightarrow> bool" where
  \<comment> \<open>only the first row of a challenger is ever retired\<close>
  "retired_first rows \<longleftrightarrow> (\<forall>j<length rows. ch_retired_at (rows ! j) \<noteq> None \<longrightarrow>
     first_index (\<lambda>c. ch_challenger_id c = ch_challenger_id (rows ! j)) rows = Some j)"

definition genes_inv :: "gene_record list \<Rightarrow> champion_row list \<Rightarrow> bool" where
  "genes_inv gs rows \<longleftrightarrow> distinct (map gr_challenger_id gs) \<and> (\<forall>g\<in>set gs. gene_ok g) \<and>
     (\<forall>c\<in>set rows. \<exists>g\<in>set gs. champion_of c g) \<and>
     (\<forall>g\<in>set gs. gr_decision_status g = DecisionPromoted \<longrightarrow> (\<exists>c\<in>set rows. champion_of c g))"

definition life_inv :: "life_db \<Rightarrow> bool" where
  "life_inv d \<longleftrightarrow> genes_inv (lf_genes d) (lf_champions d) \<and> one_active (lf_champions d) \<and>
     retired_first (lf_champions d)"

definition row_kept :: "champion_row \<Rightarrow> champion_row \<Rightarrow> bool" where
  \<comment> \<open>a later version of a row: its identity never changes, a retired row not at all\<close>
  "row_kept c c' \<longleftrightarrow> ch_challenger_id c' = ch_challenger_id c \<and> ch_strategy_id c' = ch_strategy_id c \<and>
     ch_pair c' = ch_pair c \<and> ch_promoted_at c' = ch_promoted_at c \<and> (ch_retired_at c \<noteq> None \<longrightarrow> c' = c)"

definition grows :: "life_db \<Rightarrow> life_db \<Rightarrow> bool" where
  "grows d d' \<longleftrightarrow> (\<forall>g\<in>set (lf_genes d). \<exists>h\<in>set (lf_genes d'). same_gene g h) \<and>
     (\<exists>new. list_all2 row_kept (lf_champions d) (take (length (lf_champions d)) (lf_champions d')) \<and>
        lf_champions d' = take (length (lf_champions d)) (lf_champions d') @ new)"

fun request_ok :: "life_db \<Rightarrow> request \<Rightarrow> bool" where
  "request_ok d (ReqPromoteCount cid r g) \<longleftrightarrow>
     gr_challenger_id g = cid \<and> gene_ok g \<and> (\<exists>h\<in>set (lf_genes d). same_gene g h)"
| "request_ok d (ReqPromoteWrite cid r g n) \<longleftrightarrow>
     gr_challenger_id g = cid \<and> gene_ok g \<and> (\<exists>h\<in>set (lf_genes d). same_gene g h)"
| "request_ok d (ReqRetireWrite cid r i c) \<longleftrightarrow>
     first_index (\<lambda>c. ch_challenger_id c = cid) (lf_champions d) = Some i"
| "request_ok d (ReqSave cid p) \<longleftrightarrow> package_fresh p"
| "request_ok d _ \<longleftrightarrow> True"

section \<open>Lists of rows\<close>

lemma update_where_Nil [simp]: "update_where p f [] = []"
  by (simp add: update_where_def)

lemma set_update_where: "set (update_where p f xs) = {if p x then f x else x | x. x \<in> set xs}"
  by (auto simp: update_where_def)

lemma first_index_Some:
  "first_index p xs = Some i \<Longrightarrow> i < length xs \<and> p (xs ! i) \<and> (\<forall>j<i. \<not> p (xs ! j))"
  by (induction xs arbitrary: i) (auto split: if_splits simp: nth_Cons less_Suc_eq_0_disj split: nat.splits)

lemma first_index_None: "x \<in> set xs \<Longrightarrow> p x \<Longrightarrow> first_index p xs \<noteq> None"
  by (induction xs) auto

lemma first_index_append: "first_index p xs = Some i \<Longrightarrow> first_index p (xs @ ys) = Some i"
  by (induction xs arbitrary: i) (auto split: if_splits)

lemma first_index_cong:
  "list_all2 (\<lambda>x y. p x = q y) xs ys \<Longrightarrow> first_index p xs = first_index q ys"
  by (induction rule: list_all2_induct) auto

lemma filter_update_le:
  assumes "\<not> p x"
  shows "length (filter p (xs[i := x])) \<le> length (filter p xs)"
proof (induction xs arbitrary: i)
  case (Cons y ys)
  show ?case using assms Cons [of "i - 1"] by (cases i) auto
qed simp

lemma row_kept_refl [simp]: "row_kept c c" by (simp add: row_kept_def)

lemma row_kept_trans: "row_kept a b \<Longrightarrow> row_kept b c \<Longrightarrow> row_kept a c"
  by (auto simp: row_kept_def)

lemma same_gene_refl [simp]: "same_gene g g" by (simp add: same_gene_def)

lemma same_gene_trans: "same_gene a b \<Longrightarrow> same_gene b c \<Longrightarrow> same_gene a c"
  by (auto simp: same_gene_def)

lemma rows_kept_refl [simp]: "list_all2 row_kept rows rows"
  by (simp add: list_all2_refl)

lemma grows_rows:
  "grows d d' \<longleftrightarrow> (\<forall>g\<in>set (lf_genes d). \<exists>h\<in>set (lf_genes d'). same_gene g h) \<and>
     (\<exists>old new. lf_champions d' = old @ new \<and> list_all2 row_kept (lf_champions d) old)"
  unfolding grows_def by (metis append_eq_conv_conj list_all2_lengthD)

lemma growsI:
  assumes "\<And>g. g \<in> set (lf_genes d) \<Longrightarrow> \<exists>h\<in>set (lf_genes d'). same_gene g h"
    "lf_champions d' = old @ new" "list_all2 row_kept (lf_champions d) old"
  shows "grows d d'"
  using assms unfolding grows_rows by blast

lemma grows_refl [simp]: "grows d d"
  unfolding grows_rows by (metis append_Nil2 rows_kept_refl same_gene_refl)

lemma grows_trans:
  assumes "grows a b" "grows b c" shows "grows a c"
proof -
  obtain o1 n1 where b: "lf_champions b = o1 @ n1" "list_all2 row_kept (lf_champions a) o1"
    using assms(1) unfolding grows_rows by blast
  obtain o2 n2 where c: "lf_champions c = o2 @ n2" "list_all2 row_kept (o1 @ n1) o2"
    using assms(2) unfolding grows_rows b(1) by blast
  obtain p q where pq: "o2 = p @ q" "list_all2 row_kept o1 p"
    using c(2) unfolding list_all2_append1 by blast
  have "list_all2 row_kept (lf_champions a) p"
    by (rule list_all2_trans [OF _ b(2) pq(2)]) (rule row_kept_trans)
  moreover have "\<forall>g\<in>set (lf_genes a). \<exists>h\<in>set (lf_genes c). same_gene g h"
    using assms unfolding grows_rows by (meson same_gene_trans)
  ultimately show ?thesis unfolding grows_rows using c(1) pq(1) by auto
qed

lemma request_ok_grows:
  assumes "grows d d'" "request_ok d r" shows "request_ok d' r"
proof -
  have genes: "\<exists>h\<in>set (lf_genes d'). same_gene g h" if "\<exists>h\<in>set (lf_genes d). same_gene g h" for g
    using assms(1) that unfolding grows_rows by (meson same_gene_trans)
  obtain old new where rows: "lf_champions d' = old @ new" "list_all2 row_kept (lf_champions d) old"
    using assms(1) unfolding grows_rows by blast
  have first: "first_index (\<lambda>c. ch_challenger_id c = cid) (lf_champions d') = Some i"
    if "first_index (\<lambda>c. ch_challenger_id c = cid) (lf_champions d) = Some i" for cid i
  proof -
    have "list_all2 (\<lambda>x y. (ch_challenger_id x = cid) = (ch_challenger_id y = cid)) (lf_champions d) old"
      using rows(2) by (rule list_all2_mono) (simp add: row_kept_def)
    from first_index_cong [OF this] that have "first_index (\<lambda>c. ch_challenger_id c = cid) old = Some i" by simp
    then show ?thesis unfolding rows(1) by (rule first_index_append)
  qed
  from assms(2) show ?thesis using genes first by (cases r) auto
qed

section \<open>Effects of the operations\<close>

definition keeps_champions :: "(saas_db \<Rightarrow> 'a db_res) \<Rightarrow> bool" where
  "keeps_champions f \<longleftrightarrow> (\<forall>db. db_champions (snd (f db)) = db_champions db)"

lemma keeps_stmt: "(\<And>db. db_champions (snd (f db)) = db_champions db) \<Longrightarrow> keeps_champions (db_stmt f)"
  unfolding keeps_champions_def db_stmt_def by (auto simp: Let_def)

lemma keeps_guarded: "keeps_champions (guarded_update iid err p f)"
  unfolding keeps_champions_def guarded_update_def update_instances_def classify_instance_no_rows_def db_stmt_def
  by (auto simp: Let_def split: prod.splits sum.splits if_splits)

lemma keeps_champions_ops [simp]:
  "keeps_champions (blocking_instance_for_champion cid)" "keeps_champions (get_instance iid)"
  "keeps_champions (create_instance i)" "keeps_champions (set_active_champion iid cid)"
  "keeps_champions (update_status iid from_st to_st)" "keeps_champions (retire_instance iid)"
proof -
  show "keeps_champions (blocking_instance_for_champion cid)"
    unfolding blocking_instance_for_champion_def by (rule keeps_stmt) (simp split: option.split)
  show "keeps_champions (get_instance iid)"
    unfolding get_instance_def by (rule keeps_stmt) (simp split: option.split)
  show "keeps_champions (create_instance i)"
    unfolding create_instance_def by (rule keeps_stmt) simp
  show "keeps_champions (update_status iid from_st to_st)" "keeps_champions (retire_instance iid)"
    unfolding update_status_def retire_instance_def by (rule keeps_guarded)+
  show "keeps_champions (set_active_champion iid cid)"
    unfolding keeps_champions_def set_active_champion_def
    using keeps_guarded unfolding keeps_champions_def by blast
qed

lemma live_stmt_keeps:
  assumes "live_stmt f d = (res, d')" "keeps_champions f"
  shows "lf_genes d' = lf_genes d" "lf_champions d' = lf_champions d"
proof -
  obtain r live where f: "f (lf_live d) = (r, live)" by (cases "f (lf_live d)")
  with assms have d': "d' = d\<lparr>lf_live := live\<rparr>" by (cases r) (auto simp: live_stmt_def)
  have "db_champions live = db_champions (lf_live d)"
    using assms(2) f unfolding keeps_champions_def by (metis snd_conv)
  with d' show "lf_genes d' = lf_genes d" "lf_champions d' = lf_champions d"
    by (simp_all add: lf_champions_def)
qed

lemma promote_read_effect:
  assumes "promote_read cid d = (res, d')"
  shows "same_rows d d'" "res = Inr g \<Longrightarrow> g \<in> set (lf_genes d) \<and> gr_challenger_id g = cid"
proof -
  have "same_rows d d' \<and> (res = Inr g \<longrightarrow> g \<in> set (lf_genes d) \<and> gr_challenger_id g = cid)"
    using assms unfolding promote_read_def
  proof (cases rule: life_stmtE)
    case (run d0)
    note eq = same_rowsD(1) [OF run(1)]
    show ?thesis
    proof (cases "find (\<lambda>g. gr_challenger_id g = cid) (lf_genes d)")
      case None
      with run eq show ?thesis by auto
    next
      case (Some h)
      then have "h \<in> set (lf_genes d) \<and> gr_challenger_id h = cid" by (auto simp: find_Some_iff)
      with run eq Some show ?thesis by auto
    qed
  qed auto
  then show "same_rows d d'" "res = Inr g \<Longrightarrow> g \<in> set (lf_genes d) \<and> gr_challenger_id g = cid" by auto
qed

lemma promote_count_effect: "promote_count g d = (res, d') \<Longrightarrow> same_rows d d'"
  unfolding promote_count_def by (elim life_stmtE) auto

lemma retire_read_effect:
  assumes "retire_read cid d = (res, d')"
  shows "same_rows d d'"
    "res = Inr (i, c) \<Longrightarrow> first_index (\<lambda>c. ch_challenger_id c = cid) (lf_champions d) = Some i"
  using assms unfolding retire_read_def
  by (atomize (full), elim life_stmtE) (auto split: option.splits dest!: same_rowsD(2))

lemma get_challenger_effect: "get_challenger cid d = (res, d') \<Longrightarrow> same_rows d d'"
  unfolding get_challenger_def by (auto split: if_splits option.splits elim!: life_stmtE)

lemma save_effect:
  assumes "save_challenger cid p d = (res, d')"
  obtains (failed) "same_rows d d'" "\<exists>e. res = Inl e"
  | (saved) g where "build_gene_record cid p = Some g" "\<forall>h\<in>set (lf_genes d). gr_challenger_id h \<noteq> cid"
      "lf_genes d' = lf_genes d @ [g]" "lf_champions d' = lf_champions d"
proof (cases "build_gene_record cid p")
  case None
  with assms show thesis by (intro failed) (auto simp: save_challenger_def)
next
  case (Some g)
  with assms have "life_stmt (\<lambda>d. if \<exists>h\<in>set (lf_genes d). gr_challenger_id h = cid
      then (Inl (LeUnique ''idx_gene_records_challenger_id''), d)
      else (Inr (), d\<lparr>lf_genes := lf_genes d @ [g]\<rparr>)) d = (res, d')"
    by (simp add: save_challenger_def)
  then show thesis
  proof (cases rule: life_stmtE)
    case fault
    then show thesis by (intro failed) auto
  next
    case (run d0)
    note eq = same_rowsD [OF run(1)]
    show thesis
    proof (cases "\<exists>h\<in>set (lf_genes d). gr_challenger_id h = cid")
      case True
      with run eq show thesis by (intro failed) (auto split: if_splits)
    next
      case False
      with run(2) eq have "d' = d0\<lparr>lf_genes := lf_genes d0 @ [g]\<rparr>" by (auto split: if_splits)
      with False eq Some show thesis by (intro saved [of g]) (auto simp: lf_champions_def)
    qed
  qed
qed

definition promoted_gene :: "promote_request \<Rightarrow> int \<Rightarrow> gene_record \<Rightarrow> gene_record \<Rightarrow> gene_record" where
  \<comment> \<open>the row \<open>h\<close> after the promotion decided on the row \<open>g\<close> read before\<close>
  "promoted_gene r now g h =
     (let h' = h\<lparr>gr_decision_status := DecisionPromoted, gr_reviewed_at_ts := Some now,
        gr_reviewed_by := Some (pq_reviewed_by r),
        gr_decision_note := (case pq_decision_note r of None \<Rightarrow> gr_decision_note h | Some n \<Rightarrow> Some n)\<rparr>;
        blob = apply_promote_to_blob (gr_full_package g) r now
      in if blob = None then h' else h'\<lparr>gr_full_package := blob\<rparr>)"

definition promoted_row :: "gene_record \<Rightarrow> int \<Rightarrow> champion_row" where
  "promoted_row g now = \<lparr>ch_challenger_id = gr_challenger_id g, ch_strategy_id = gr_strategy_id g,
     ch_pair = gr_pair g, ch_promoted_at = now, ch_retired_at = None, ch_retired_by = None, ch_retire_note = None\<rparr>"

lemma promote_write_effect:
  assumes "promote_write cid g r now n d = (Inr u, d')"
  shows "\<not> gr_test_mode g" "gr_decision_status g \<noteq> DecisionPromoted"
    "\<forall>c\<in>set (lf_champions d). \<not> champion_active (gr_strategy_id g) (gr_pair g) c"
    "lf_genes d' = update_where (\<lambda>h. gr_challenger_id h = cid) (promoted_gene r now g) (lf_genes d)"
    "lf_champions d' = lf_champions d @ [promoted_row g now]"
proof -
  have ok: "\<not> gr_test_mode g" "gr_decision_status g \<noteq> DecisionPromoted"
    "gr_decision_status g \<noteq> DecisionRejected" "n = 0"
    using assms by (auto simp: promote_write_def apply_promote_def split: if_splits)
  then show "\<not> gr_test_mode g" "gr_decision_status g \<noteq> DecisionPromoted" by simp_all
  have "life_bind (update_genes (\<lambda>h. gr_challenger_id h = cid) (promoted_gene r now g))
      (\<lambda>_. insert_champion (promoted_row g now)) d = (Inr u, d')"
    using assms ok by (simp add: promote_write_def apply_promote_def promoted_gene_def [abs_def] promoted_row_def Let_def)
  then obtain x d0 where upd: "update_genes (\<lambda>h. gr_challenger_id h = cid) (promoted_gene r now g) d = (Inr x, d0)"
    and ins: "insert_champion (promoted_row g now) d0 = (Inr u, d')"
    by (cases rule: life_bindE) auto
  have d0: "lf_genes d0 = update_where (\<lambda>h. gr_challenger_id h = cid) (promoted_gene r now g) (lf_genes d)"
    "lf_champions d0 = lf_champions d"
  proof -
    from upd obtain e where e: "same_rows d e"
      "d0 = e\<lparr>lf_genes := update_where (\<lambda>h. gr_challenger_id h = cid) (promoted_gene r now g) (lf_genes e)\<rparr>"
      unfolding update_genes_def by (elim life_stmtE) auto
    from e(2) same_rowsD(1,2) [OF e(1)]
    show "lf_genes d0 = update_where (\<lambda>h. gr_challenger_id h = cid) (promoted_gene r now g) (lf_genes d)"
      "lf_champions d0 = lf_champions d" by (simp_all add: lf_champions_def)
  qed
  from ins obtain d1 where d1: "same_rows d0 d1"
    "\<not> (\<exists>c'\<in>set (lf_champions d1). champion_active (gr_strategy_id g) (gr_pair g) c')"
    "d' = set_champions (lf_champions d1 @ [promoted_row g now]) d1"
    unfolding insert_champion_def by (elim life_stmtE) (auto simp: promoted_row_def split: if_splits)
  show "\<forall>c\<in>set (lf_champions d). \<not> champion_active (gr_strategy_id g) (gr_pair g) c"
    using d1(1,2) d0(2) by (auto dest!: same_rowsD(2))
  show "lf_genes d' = update_where (\<lambda>h. gr_challenger_id h = cid) (promoted_gene r now g) (lf_genes d)"
    using d1 d0(1) by (auto dest!: same_rowsD(1) simp: set_champions_def)
  show "lf_champions d' = lf_champions d @ [promoted_row g now]"
    using d1 d0(2) by (auto dest!: same_rowsD(2) simp: set_champions_def lf_champions_def)
qed

definition retired_row :: "retire_request \<Rightarrow> int \<Rightarrow> champion_row \<Rightarrow> champion_row" where
  "retired_row r now h = h\<lparr>ch_retired_at := Some now, ch_retired_by := Some (rq_reviewed_by r),
     ch_retire_note := (case rq_decision_note r of None \<Rightarrow> ch_retire_note h | Some n \<Rightarrow> Some n)\<rparr>"

lemma retire_history_effect:
  assumes "retire_history i c r now d = (Inr u, d')"
  shows "i < length (lf_champions d)" "ch_retired_at (lf_champions d ! i) = None"
    "lf_champions d' = (lf_champions d)[i := retired_row r now (lf_champions d ! i)]"
    "lf_genes d' = lf_genes d"
proof -
  have "ch_retired_at c = None"
    using assms by (auto simp: retire_history_def apply_retire_def split: if_splits)
  with assms have "life_stmt (\<lambda>d. let rows = lf_champions d in
      if i < length rows \<and> ch_retired_at (rows ! i) = None
      then (Inr (), set_champions (rows[i := retired_row r now (rows ! i)]) d)
      else (Inl LeAlreadyRetired, d)) d = (Inr u, d')"
    unfolding retire_history_def apply_retire_def retired_row_def by simp
  then obtain d0 where d0: "same_rows d d0" "i < length (lf_champions d0)"
    "ch_retired_at (lf_champions d0 ! i) = None"
    "d' = set_champions ((lf_champions d0)[i := retired_row r now (lf_champions d0 ! i)]) d0"
    by (elim life_stmtE) (auto simp: Let_def split: if_splits)
  note eq = same_rowsD(1,2) [OF d0(1)]
  show "i < length (lf_champions d)" "ch_retired_at (lf_champions d ! i) = None"
    "lf_champions d' = (lf_champions d)[i := retired_row r now (lf_champions d ! i)]"
    "lf_genes d' = lf_genes d"
    using d0(2,3,4) eq by (auto simp: set_champions_def lf_champions_def)
qed

lemma retire_history_instances:
  assumes "retire_history i c r now d = (Inr u, d')"
  shows "db_instances (lf_live d') = db_instances (lf_live d)"
proof -
  have "ch_retired_at c = None"
    using assms by (auto simp: retire_history_def apply_retire_def split: if_splits)
  with assms have "life_stmt (\<lambda>d. let rows = lf_champions d in
      if i < length rows \<and> ch_retired_at (rows ! i) = None
      then (Inr (), set_champions (rows[i := retired_row r now (rows ! i)]) d)
      else (Inl LeAlreadyRetired, d)) d = (Inr u, d')"
    unfolding retire_history_def apply_retire_def retired_row_def by simp
  then show ?thesis
  proof (cases rule: life_stmtE)
    case (run d0)
    from same_rowsD(3) [OF run(1)] run(2) show ?thesis
      by (auto simp: Let_def set_champions_def split: if_splits)
  qed simp
qed

lemma blocking_effect:
  assumes "live_stmt (blocking_instance_for_champion cid) d = (Inr blocking, d')"
  shows "blocking = (case find (\<lambda>i. si_active_champ_id i = Some cid \<and> si_status i \<noteq> InRetired)
      (db_instances (lf_live d)) of None \<Rightarrow> [] | Some i \<Rightarrow> si_instance_id i)"
    "db_instances (lf_live d') = db_instances (lf_live d)"
  using assms unfolding live_stmt_def blocking_instance_for_champion_def db_stmt_def Let_def
  by (auto split: prod.splits sum.splits if_splits option.splits)

section \<open>Preservation\<close>

lemma saved_gene:
  assumes "build_gene_record cid p = Some g" "package_fresh p"
  shows "gene_ok g" "gr_challenger_id g = cid" "gr_decision_status g = DecisionPending"
  using assms by (auto simp: build_gene_record_def package_fresh_def gene_ok_def Let_def split: if_splits)

lemma genes_inv_save:
  assumes "genes_inv gs rows" "gene_ok g" "gr_decision_status g = DecisionPending"
    "\<forall>h\<in>set gs. gr_challenger_id h \<noteq> gr_challenger_id g"
  shows "genes_inv (gs @ [g]) rows"
  using assms unfolding genes_inv_def by force

lemma promoted_gene_simps [simp]:
  "gr_challenger_id (promoted_gene r now g h) = gr_challenger_id h"
  "gr_strategy_id (promoted_gene r now g h) = gr_strategy_id h"
  "gr_pair (promoted_gene r now g h) = gr_pair h"
  "gr_test_mode (promoted_gene r now g h) = gr_test_mode h"
  "gr_decision_status (promoted_gene r now g h) = DecisionPromoted"
  by (simp_all add: promoted_gene_def Let_def)

lemma promoted_gene_ok:
  assumes "gene_ok g" "same_gene g h" shows "gene_ok (promoted_gene r now g h)"
  using assms by (auto simp: gene_ok_def promoted_gene_def apply_promote_to_blob_def same_gene_def Let_def
    split: option.splits)

lemma champion_of_promoted:
  "champion_of c h \<Longrightarrow> champion_of c (promoted_gene r now g h)"
  by (simp add: champion_of_def)

lemma map_id_update_where:
  "(\<And>x. f (u x) = f x) \<Longrightarrow> map f (update_where p u xs) = map f xs"
  by (simp add: update_where_def)

lemma genes_inv_promote:
  assumes inv: "genes_inv gs rows" and g: "gene_ok g" "gr_challenger_id g = cid" "\<not> gr_test_mode g"
    and h: "h \<in> set gs" "same_gene g h"
  shows "genes_inv (update_where (\<lambda>h. gr_challenger_id h = cid) (promoted_gene r now g) gs)
           (rows @ [promoted_row g now])" (is "genes_inv ?gs' _")
proof -
  have only: "x = h" if "x \<in> set gs" "gr_challenger_id x = cid" for x
  proof -
    have "inj_on gr_challenger_id (set gs)" using inv by (simp add: genes_inv_def distinct_map)
    moreover have "gr_challenger_id h = cid" using h(2) g(2) by (simp add: same_gene_def)
    ultimately show ?thesis using that h(1) by (metis inj_onD)
  qed
  have set': "set ?gs' = {if gr_challenger_id x = cid then promoted_gene r now g x else x | x. x \<in> set gs}"
    by (rule set_update_where)
  have new: "promoted_gene r now g h \<in> set ?gs'"
    unfolding set' using h g(2) by (auto simp: same_gene_def intro!: exI [of _ h])
  have row: "champion_of (promoted_row g now) (promoted_gene r now g h)"
    using h(2) g(3) by (simp add: champion_of_def promoted_row_def same_gene_def)
  have kept: "\<exists>y\<in>set ?gs'. champion_of c y" if "x \<in> set gs" "champion_of c x" for c x
  proof (cases "gr_challenger_id x = cid")
    case True
    then show ?thesis using that only [OF that(1) True] new champion_of_promoted by blast
  next
    case False
    then have "x \<in> set ?gs'" unfolding set' using that(1) by auto
    with that(2) show ?thesis by blast
  qed
  have "distinct (map gr_challenger_id ?gs')"
    using inv by (simp add: genes_inv_def map_id_update_where)
  moreover have "\<forall>y\<in>set ?gs'. gene_ok y"
    unfolding set' using inv only h(2) promoted_gene_ok [OF g(1)] unfolding genes_inv_def by auto
  moreover have "\<forall>c\<in>set (rows @ [promoted_row g now]). \<exists>y\<in>set ?gs'. champion_of c y"
    using inv kept new row unfolding genes_inv_def by auto
  moreover have "\<forall>y\<in>set ?gs'. gr_decision_status y = DecisionPromoted \<longrightarrow>
      (\<exists>c\<in>set (rows @ [promoted_row g now]). champion_of c y)"
    unfolding set' using inv only row unfolding genes_inv_def by auto
  ultimately show ?thesis unfolding genes_inv_def by blast
qed

lemma row_kept_retired: "ch_retired_at c = None \<Longrightarrow> row_kept c (retired_row r now c)"
  by (simp add: row_kept_def retired_row_def)

lemma champion_of_cong:
  "row_kept c c' \<Longrightarrow> champion_of c' g = champion_of c g"
  by (simp add: row_kept_def champion_of_def)

lemma genes_inv_kept:
  assumes "genes_inv gs rows" "list_all2 row_kept rows rows'" shows "genes_inv gs rows'"
proof -
  have a: "\<exists>c\<in>set rows. row_kept c c'" if "c' \<in> set rows'" for c'
    using assms(2) that by (metis in_set_conv_nth list_all2_conv_all_nth)
  have b: "\<exists>c'\<in>set rows'. row_kept c c'" if "c \<in> set rows" for c
    using assms(2) that by (metis in_set_conv_nth list_all2_conv_all_nth)
  show ?thesis using assms(1) a b champion_of_cong unfolding genes_inv_def by meson
qed

lemma one_active_append:
  assumes "one_active rows" "\<forall>c\<in>set rows. \<not> champion_active (ch_strategy_id x) (ch_pair x) c"
  shows "one_active (rows @ [x])"
  unfolding one_active_def
proof (intro allI)
  fix sid pair
  show "length (filter (champion_active sid pair) (rows @ [x])) \<le> 1"
  proof (cases "champion_active sid pair x")
    case True
    then have "filter (champion_active sid pair) rows = []"
      using assms(2) by (auto simp: filter_empty_conv champion_active_def)
    then show ?thesis by simp
  next
    case False
    then show ?thesis using assms(1) by (simp add: one_active_def)
  qed
qed

lemma one_active_retire:
  assumes "one_active rows" "ch_retired_at x \<noteq> None" shows "one_active (rows[i := x])"
  unfolding one_active_def
proof (intro allI)
  fix sid pair
  have "\<not> champion_active sid pair x" using assms(2) by (simp add: champion_active_def)
  from filter_update_le [where p = "champion_active sid pair", OF this, of rows i]
  show "length (filter (champion_active sid pair) (rows[i := x])) \<le> 1"
    using assms(1) by (meson le_trans one_active_def)
qed

lemma retired_first_append:
  assumes "retired_first rows" "ch_retired_at x = None" shows "retired_first (rows @ [x])"
  unfolding retired_first_def
proof (intro allI impI)
  fix j assume j: "j < length (rows @ [x])" "ch_retired_at ((rows @ [x]) ! j) \<noteq> None"
  have l: "j < length rows"
  proof (rule ccontr)
    assume "\<not> j < length rows"
    with j(1) have "j = length rows" by simp
    with j(2) assms(2) show False by simp
  qed
  with j assms(1) have "first_index (\<lambda>c. ch_challenger_id c = ch_challenger_id (rows ! j)) rows = Some j"
    by (simp add: retired_first_def nth_append)
  from first_index_append [OF this, of "[x]"]
  show "first_index (\<lambda>c. ch_challenger_id c = ch_challenger_id ((rows @ [x]) ! j)) (rows @ [x]) = Some j"
    using l by (simp add: nth_append)
qed

lemma retired_first_update:
  assumes inv: "retired_first rows" and i: "first_index (\<lambda>c. ch_challenger_id c = ch_challenger_id x) rows = Some i"
    and id: "ch_challenger_id x = ch_challenger_id (rows ! i)"
  shows "retired_first (rows[i := x])"
proof -
  have il: "i < length rows" using first_index_Some [OF i] by simp
  have same: "list_all2 (\<lambda>a b. (ch_challenger_id a = cid) = (ch_challenger_id b = cid)) (rows[i := x]) rows" for cid
    using id il by (auto simp: list_all2_conv_all_nth nth_list_update)
  have eq: "first_index (\<lambda>c. ch_challenger_id c = cid) (rows[i := x]) =
      first_index (\<lambda>c. ch_challenger_id c = cid) rows" for cid
    by (rule first_index_cong [OF same])
  show ?thesis
    unfolding retired_first_def
  proof (intro allI impI)
    fix j assume j: "j < length (rows[i := x])" "ch_retired_at (rows[i := x] ! j) \<noteq> None"
    show "first_index (\<lambda>c. ch_challenger_id c = ch_challenger_id (rows[i := x] ! j)) (rows[i := x]) = Some j"
    proof (cases "j = i")
      case True
      with il i show ?thesis unfolding eq by simp
    next
      case False
      with j inv show ?thesis unfolding eq by (simp add: retired_first_def)
    qed
  qed
qed

lemma life_inv_same:
  "lf_genes d' = lf_genes d \<Longrightarrow> lf_champions d' = lf_champions d \<Longrightarrow> life_inv d' = life_inv d"
  by (simp add: life_inv_def)

lemma grows_same:
  "lf_genes d' = lf_genes d \<Longrightarrow> lf_champions d' = lf_champions d \<Longrightarrow> grows d d'"
  unfolding grows_rows by (metis append_Nil2 rows_kept_refl same_gene_refl)

definition step_ok :: "life_db \<Rightarrow> life_db \<Rightarrow> request \<Rightarrow> bool" where
  "step_ok d d' r' \<longleftrightarrow> life_inv d' \<and> grows d d' \<and> request_ok d' r'"

lemma step_ok_same:
  assumes "life_inv d" "lf_genes d' = lf_genes d" "lf_champions d' = lf_champions d" "request_ok d' r'"
  shows "step_ok d d' r'"
  unfolding step_ok_def
  using assms(1,4) life_inv_same [OF assms(2,3)] grows_same [OF assms(2,3)] by blast

lemma step_ok_promote:
  assumes inv: "life_inv d" and req: "request_ok d (ReqPromoteWrite cid r g n)"
    and adv: "transaction (promote_write cid g r now n) d = (res, d')"
  shows "step_ok d d' (ReqDone s)"
  using adv
proof (cases rule: transactionE)
  case (failed e)
  then show ?thesis using inv same_rowsD [OF failed(2)] by (intro step_ok_same) auto
next
  case (commit u d0)
  note eff = promote_write_effect [OF commit(2)]
  note eq = same_rowsD(1,2) [OF commit(3)]
  from req obtain h where g: "gr_challenger_id g = cid" "gene_ok g" and h: "h \<in> set (lf_genes d)" "same_gene g h"
    by auto
  have gs: "genes_inv (lf_genes d') (lf_champions d')"
    unfolding eq eff(4,5) using inv g eff(1) h by (intro genes_inv_promote) (auto simp: life_inv_def)
  have "one_active (lf_champions d')"
    unfolding eq eff(5) using inv eff(3) by (intro one_active_append) (auto simp: life_inv_def promoted_row_def)
  moreover have "retired_first (lf_champions d')"
    unfolding eq eff(5) using inv by (intro retired_first_append) (auto simp: life_inv_def promoted_row_def)
  moreover have "grows d d'"
  proof (rule growsI)
    show "lf_champions d' = lf_champions d @ [promoted_row g now]" unfolding eq eff(5) ..
    show "list_all2 row_kept (lf_champions d) (lf_champions d)" by simp
    fix x assume "x \<in> set (lf_genes d)"
    then have "(if gr_challenger_id x = cid then promoted_gene r now g x else x)
        \<in> set (update_where (\<lambda>h. gr_challenger_id h = cid) (promoted_gene r now g) (lf_genes d))"
      unfolding set_update_where by blast
    moreover have "same_gene x (if gr_challenger_id x = cid then promoted_gene r now g x else x)"
      by (simp add: same_gene_def)
    ultimately show "\<exists>y\<in>set (lf_genes d'). same_gene x y" unfolding eq eff(4) by blast
  qed
  ultimately show ?thesis using gs by (simp add: step_ok_def life_inv_def)
qed

lemma step_ok_retire:
  assumes inv: "life_inv d" and req: "request_ok d (ReqRetireWrite cid r i c)"
    and adv: "transaction (retire_history i c r now) d = (res, d')"
  shows "step_ok d d' (ReqDone s)"
  using adv
proof (cases rule: transactionE)
  case (failed e)
  then show ?thesis using inv same_rowsD [OF failed(2)] by (intro step_ok_same) auto
next
  case (commit u d0)
  note eff = retire_history_effect [OF commit(2)]
  note eq = same_rowsD(1,2) [OF commit(3)]
  let ?rows = "lf_champions d" and ?x = "retired_row r now (lf_champions d ! i)"
  have i: "first_index (\<lambda>c. ch_challenger_id c = cid) ?rows = Some i" using req by simp
  have id: "ch_challenger_id ?x = ch_challenger_id (?rows ! i)" "ch_challenger_id (?rows ! i) = cid"
    using first_index_Some [OF i] by (simp_all add: retired_row_def)
  have kept: "list_all2 row_kept ?rows (?rows[i := ?x])"
    using list_all2_update_cong [OF rows_kept_refl [of ?rows] row_kept_retired [OF eff(2), of r now], of i]
    unfolding list_update_id .
  have "genes_inv (lf_genes d') (lf_champions d')"
    unfolding eq eff(3,4) using inv by (intro genes_inv_kept [OF _ kept]) (simp add: life_inv_def)
  moreover have "one_active (lf_champions d')"
    unfolding eq eff(3) using inv by (intro one_active_retire) (auto simp: life_inv_def retired_row_def)
  moreover have "retired_first (lf_champions d')"
    unfolding eq eff(3) using inv i id by (intro retired_first_update) (auto simp: life_inv_def)
  moreover have "grows d d'"
  proof (rule growsI)
    show "lf_champions d' = ?rows[i := ?x] @ []" unfolding eq(2) eff(3) by simp
    show "list_all2 row_kept ?rows (?rows[i := ?x])" by (rule kept)
    fix x assume "x \<in> set (lf_genes d)"
    then show "\<exists>h\<in>set (lf_genes d'). same_gene x h"
      unfolding eq(1) eff(4) using same_gene_refl by blast
  qed
  ultimately show ?thesis by (simp add: step_ok_def life_inv_def)
qed

lemma step_ok_save:
  assumes inv: "life_inv d" and req: "request_ok d (ReqSave cid p)"
    and adv: "save_challenger cid p d = (res, d')"
  shows "step_ok d d' (ReqDone s)"
  using adv
proof (cases rule: save_effect)
  case failed
  then show ?thesis using inv same_rowsD by (intro step_ok_same) auto
next
  case (saved g)
  have fresh: "package_fresh p" using req by simp
  note g = saved_gene [OF saved(1) fresh]
  have "genes_inv (lf_genes d') (lf_champions d')"
    unfolding saved(3,4) using inv g saved(2) by (intro genes_inv_save) (auto simp: life_inv_def)
  moreover have "grows d d'"
  proof (rule growsI [where new = "[]" and old = "lf_champions d"])
    fix x assume "x \<in> set (lf_genes d)"
    then show "\<exists>h\<in>set (lf_genes d'). same_gene x h"
      unfolding saved(3) using same_gene_refl by (metis UnI1 set_append)
  qed (simp_all add: saved(4))
  ultimately show ?thesis using inv saved(4) by (simp add: step_ok_def life_inv_def)
qed

lemma step_ok_live:
  assumes "life_inv d" "live_stmt f d = (res, d')" "keeps_champions f" "request_ok d' r'"
  shows "step_ok d d' r'"
  using assms live_stmt_keeps [OF assms(2,3)] by (intro step_ok_same)

lemma advance_ok:
  assumes inv: "life_inv d" and req: "request_ok d r" and adv: "advance cap now r d = (r', d')"
  shows "step_ok d d' r'"
proof -
  have same: "step_ok d d' r'" if "same_rows d d'" "request_ok d' r'"
    using inv that same_rowsD by (intro step_ok_same) auto
  have final: "\<exists>x s. res = (x, d') \<and> r' = ReqDone s"
    if "done_or status res (\<lambda>_. ReqDone k) = (r', d')" for status k and res :: "'b life_res"
    using that by (cases rule: done_orE) auto
  show ?thesis
  proof (cases r)
    case (ReqDone s)
    with adv inv show ?thesis by (auto intro: step_ok_same)
  next
    case (ReqPromote cid q)
    with adv have "done_or map_transition_err (promote_read cid d) (ReqPromoteCount cid q) = (r', d')" by simp
    then show ?thesis
    proof (cases rule: done_orE)
      case (failed e)
      then show ?thesis using promote_read_effect(1) by (intro same) auto
    next
      case (passed g)
      have rows: "same_rows d d'" using promote_read_effect(1) [OF passed(1)] .
      have g: "g \<in> set (lf_genes d)" "gr_challenger_id g = cid"
        using promote_read_effect(2) [OF passed(1) refl] by auto
      have "gene_ok g" using inv g(1) by (simp add: life_inv_def genes_inv_def)
      moreover have "\<exists>h\<in>set (lf_genes d'). same_gene g h"
        unfolding same_rowsD(1) [OF rows] using g(1) same_gene_refl by blast
      ultimately show ?thesis using passed(2) g(2) rows by (intro same) auto
    qed
  next
    case (ReqPromoteCount cid q g)
    with adv have "done_or map_transition_err (promote_count g d) (ReqPromoteWrite cid q g) = (r', d')" by simp
    then show ?thesis
    proof (cases rule: done_orE)
      case (failed e)
      then show ?thesis using promote_count_effect by (intro same) auto
    next
      case (passed n)
      have rows: "same_rows d d'" using promote_count_effect [OF passed(1)] .
      show ?thesis
        using req ReqPromoteCount passed(2) rows same_rowsD(1) [OF rows] by (intro same) auto
    qed
  next
    case (ReqPromoteWrite cid q g n)
    with adv obtain x s where x: "transaction (promote_write cid g q now n) d = (x, d')" "r' = ReqDone s"
      using final by (metis advance.simps(4))
    from req ReqPromoteWrite have "request_ok d (ReqPromoteWrite cid q g n)" by simp
    from step_ok_promote [OF inv this x(1)] show ?thesis unfolding x(2) .
  next
    case (ReqRetire cid q)
    with adv show ?thesis
      by (auto elim!: done_orE split: if_splits intro: step_ok_live [OF inv _ keeps_champions_ops(1)])
  next
    case (ReqRetireRead cid q)
    with adv have "done_or map_transition_err (retire_read cid d) (\<lambda>(i, c). ReqRetireWrite cid q i c) = (r', d')"
      by simp
    then show ?thesis
    proof (cases rule: done_orE)
      case (failed e)
      then show ?thesis using retire_read_effect(1) by (intro same) auto
    next
      case (passed ic)
      obtain i c where ic: "ic = (i, c)" by (cases ic)
      note eff = retire_read_effect(1) [OF passed(1)] retire_read_effect(2) [OF passed(1), unfolded ic, OF refl]
      show ?thesis using passed(2) ic eff same_rowsD(2) [OF eff(1)] by (intro same) auto
    qed
  next
    case (ReqRetireWrite cid q i c)
    with adv obtain x s where x: "transaction (retire_history i c q now) d = (x, d')" "r' = ReqDone s"
      using final by (metis advance.simps(7))
    from req ReqRetireWrite have "request_ok d (ReqRetireWrite cid q i c)" by simp
    from step_ok_retire [OF inv this x(1)] show ?thesis unfolding x(2) .
  next
    case (ReqDeploy iid cid)
    with adv show ?thesis
      by (auto elim!: done_orE split: if_splits intro!: same dest: get_challenger_effect)
  next
    case (ReqSave cid p)
    with adv obtain x s where x: "save_challenger cid p d = (x, d')" "r' = ReqDone s"
      using final by (metis advance.simps(10))
    from req ReqSave have "request_ok d (ReqSave cid p)" by simp
    from step_ok_save [OF inv this x(1)] show ?thesis unfolding x(2) .
  qed (use adv in \<open>auto elim!: done_orE split: option.splits if_splits
         intro: step_ok_live [OF inv _ keeps_champions_ops(2)] step_ok_live [OF inv _ keeps_champions_ops(3)]
           step_ok_live [OF inv _ keeps_champions_ops(4)] step_ok_live [OF inv _ keeps_champions_ops(5)]
           step_ok_live [OF inv _ keeps_champions_ops(6)]\<close>)
qed

section \<open>Reachable states\<close>

lemma serve_ok:
  assumes "serve cap s s'" "life_inv (snd s)" "\<forall>r\<in>set (fst s). request_ok (snd s) r"
  shows "life_inv (snd s') \<and> grows (snd s) (snd s') \<and> (\<forall>r\<in>set (fst s'). request_ok (snd s') r)"
  using assms
proof (cases rule: serve.cases)
  case (arrive r rs d)
  have "request_ok d r" using arrive(3) by (cases r) auto
  with arrive assms(2,3) show ?thesis by auto
next
  case (proceed k rs now d r' d')
  have "step_ok d d' r'"
    using proceed assms(2,3) by (intro advance_ok [where r = "rs ! k"]) auto
  then have ok: "life_inv d'" "grows d d'" "request_ok d' r'" by (auto simp: step_ok_def)
  have "request_ok d' r" if "r \<in> set (rs[k := r'])" for r
  proof -
    from that have "r = r' \<or> r \<in> set rs" using set_update_subset_insert by fastforce
    then show ?thesis using ok request_ok_grows [OF ok(2)] proceed(1) assms(3) by auto
  qed
  with ok proceed show ?thesis by auto
qed

lemma serves_ok:
  assumes "(serve cap)\<^sup>*\<^sup>* s s'" "life_inv (snd s)" "\<forall>r\<in>set (fst s). request_ok (snd s) r"
  shows "life_inv (snd s') \<and> grows (snd s) (snd s') \<and> (\<forall>r\<in>set (fst s'). request_ok (snd s') r)"
  using assms
proof (induction rule: rtranclp_induct)
  case base
  then show ?case by simp
next
  case (step s1 s2)
  then have s1: "life_inv (snd s1)" "grows (snd s) (snd s1)" "\<forall>r\<in>set (fst s1). request_ok (snd s1) r" by auto
  from serve_ok [OF step(2) s1(1,3)] grows_trans [OF s1(2)] show ?case by blast
qed

lemma life_inv_empty: "life_inv (empty_life_db fs)"
  by (simp add: life_inv_def genes_inv_def one_active_def retired_first_def empty_life_db_def
    empty_saas_db_def lf_champions_def)

lemma served_inv:
  assumes "served cap (rs, d)"
  shows "life_inv d" "\<forall>r\<in>set rs. request_ok d r"
  using assms serves_ok [of cap "([], empty_life_db _)" "(rs, d)"] life_inv_empty
  unfolding served_def by force+

lemma served_grows:
  assumes "served cap (rs, d)" "(serve cap)\<^sup>*\<^sup>* (rs, d) (rs', d')"
  shows "grows d d'" "life_inv d'"
  using serves_ok [OF assms(2)] served_inv [OF assms(1)] by auto

text \<open>Scripts: a run given as data, for the concrete states below.\<close>

fun play :: "f64 \<Rightarrow> (request + nat \<times> int) list \<Rightarrow> request list \<times> life_db \<Rightarrow> (request list \<times> life_db) option" where
  "play cap [] s = Some s"
| "play cap (Inl r # script) (rs, d) =
     (if request_arrives r then play cap script (rs @ [r], d) else None)"
| "play cap (Inr (k, now) # script) (rs, d) =
     (if k < length rs
      then (let (r', d') = advance cap now (rs ! k) d in play cap script (rs[k := r'], d'))
      else None)"

lemma play_serves: "play cap script s = Some s' \<Longrightarrow> (serve cap)\<^sup>*\<^sup>* s s'"
proof (induction cap script s rule: play.induct)
  case (2 cap r script rs d)
  then show ?case by (auto split: if_splits intro: converse_rtranclp_into_rtranclp serve.arrive)
next
  case (3 cap k now script rs d)
  obtain r' d' where adv: "advance cap now (rs ! k) d = (r', d')" by (cases "advance cap now (rs ! k) d")
  from 3 adv show ?case
    by (auto split: if_splits intro: converse_rtranclp_into_rtranclp serve.proceed)
qed simp

lemma play_served: "play cap script ([], empty_life_db fs) = Some s \<Longrightarrow> served cap s"
  unfolding served_def using play_serves by blast

definition sample_package :: challenger_package where
  "sample_package =
     \<lparr>pk_core = \<lparr>rc_strategy_id = ''sigmoid_v1'', rc_champion_gene = \<lparr>cg_encoding = ''json'', cg_payload = JArr []\<rparr>,
        rc_spawn_point = \<lparr>sp_spawn_mode = SpawnInherit, sp_capital_policy = None, sp_risk_bounds = None, sp_meta = None\<rparr>,
        rc_repro = \<lparr>rm_epoch_seed = 1, rm_data_version = [], rm_engine_version = [], rm_strategy_version = [],
          rm_schema_version = schema_version_v533, rm_fitness_version = fitness_version_v1,
          rm_fingerprint_version = fingerprint_version_v1, rm_hardware_signature = [], rm_go_version = [],
          rm_build_id = [], rm_plan_hash = [], rm_bars_hash = []\<rparr>,
        rc_ga_config = \<lparr>gc_strategy_id = ''sigmoid_v1'', gc_pair = ''BTCUSDT'', gc_pop_size = 2,
          gc_max_generations = 1, gc_elite_ratio = Fin 0, gc_fatal_mdd = Fin 1, gc_taker_fee_bps = Fin 1,
          gc_slippage_bps = Fin 1, gc_spawn_mode = SpawnInherit, gc_test_mode = False, gc_oos_days = None,
          gc_fatal_audit_sample_rate = None\<rparr>,
        rc_schema_version = schema_version_v533, rc_fitness_version = fitness_version_v1,
        rc_fingerprint_version = fingerprint_version_v1\<rparr>,
      pk_evaluation = \<lparr>el_window_scores = [], el_score_total = fatal_total, el_alpha_breakdown = None,
        el_friction_actual = \<lparr>fa_taker_fee_bps = Fin 1, fa_slippage_bps = Fin 1\<rparr>\<rparr>,
      pk_verification = \<lparr>vl_oos_result = not_run_oos, vl_review_summary = None, vl_dsr_summary = None,
        vl_stress_summary = None\<rparr>,
      pk_diagnostics = \<lparr>dl_fatal_audit_samples = [], dl_search_stats = None\<rparr>,
      pk_promote = \<lparr>pl_decision_status = DecisionPending, pl_decision_note = None, pl_reviewed_at_ts = None,
        pl_reviewed_by = None\<rparr>\<rparr>"

definition sample_promote :: promote_request where
  "sample_promote = \<lparr>pq_reviewed_by = ''alice'', pq_decision_note = None\<rparr>"

definition sample_retire :: retire_request where
  "sample_retire = \<lparr>rq_reviewed_by = ''bob'', rq_decision_note = None\<rparr>"

definition idle_instance :: strategy_instance where
  "idle_instance = \<lparr>si_instance_id = ''i1'', si_strategy_id = ''sigmoid_v1'', si_pair = ''BTCUSDT'',
     si_account_id = ''acct'', si_owner_user_id = 1, si_status = InIdle, si_active_champ_id = None,
     si_last_tick_wall_time = None, si_funded_at_ms = None\<rparr>"

definition promoted_script :: "(request + nat \<times> int) list" where
  \<comment> \<open>a challenger is saved and promoted\<close>
  "promoted_script = [Inl (ReqSave ''c1'' sample_package), Inr (0, 1), Inl (ReqPromote ''c1'' sample_promote),
     Inr (1, 2), Inr (1, 3), Inr (1, 4)]"

definition double_promote_script :: "(request + nat \<times> int) list" where
  \<comment> \<open>two promotions of one challenger read it while it is pending; it is retired between their writes\<close>
  "double_promote_script = [Inl (ReqSave ''c1'' sample_package), Inr (0, 1),
     Inl (ReqPromote ''c1'' sample_promote), Inl (ReqPromote ''c1'' sample_promote), Inl (ReqRetire ''c1'' sample_retire),
     Inr (1, 2), Inr (2, 2), Inr (1, 3), Inr (2, 3), Inr (1, 4), Inr (3, 5), Inr (3, 5), Inr (3, 5), Inr (2, 6)]"

definition deploy_race_script :: "(request + nat \<times> int) list" where
  \<comment> \<open>the champion is deployed after the gate of its retirement and before the retirement\<close>
  "deploy_race_script = promoted_script @ [Inl (ReqCreateInstance idle_instance), Inr (2, 5),
     Inl (ReqRetire ''c1'' sample_retire), Inl (ReqDeploy ''i1'' ''c1''),
     Inr (3, 6), Inr (4, 6), Inr (4, 6), Inr (3, 7), Inr (3, 7)]"

definition played :: "(request + nat \<times> int) list \<Rightarrow> request list \<times> life_db" where
  "played script = the (play (Fin 10) script ([], empty_life_db []))"

lemma promoted_plays: "play (Fin 10) promoted_script ([], empty_life_db []) = Some (played promoted_script)"
proof -
  have "play (Fin 10) promoted_script ([], empty_life_db []) \<noteq> None" by code_simp
  then show ?thesis by (simp add: played_def)
qed

lemma double_promote_plays:
  "play (Fin 10) double_promote_script ([], empty_life_db []) = Some (played double_promote_script)"
proof -
  have "play (Fin 10) double_promote_script ([], empty_life_db []) \<noteq> None" by code_simp
  then show ?thesis by (simp add: played_def)
qed

lemma deploy_race_plays:
  "play (Fin 10) deploy_race_script ([], empty_life_db []) = Some (played deploy_race_script)"
proof -
  have "play (Fin 10) deploy_race_script ([], empty_life_db []) \<noteq> None" by code_simp
  then show ?thesis by (simp add: played_def)
qed

lemma played_served:
  "play (Fin 10) script ([], empty_life_db []) = Some (played script) \<Longrightarrow>
     served (Fin 10) (fst (played script), snd (played script))"
  using play_served by simp

section \<open>Properties\<close>

text \<open>
  C12: Whatever requests run concurrently, a strategy and pair never have two champions that are not
  retired.
\<close>
theorem one_active_champion:
  assumes "served cap (rs, d)"
  shows "length (filter (champion_active sid pair) (lf_champions d)) \<le> 1"
  using served_inv(1) [OF assms] by (auto simp: life_inv_def one_active_def)

theorem one_active_champion_witness:
  "length (filter (champion_active ''sigmoid_v1'' ''BTCUSDT'') (lf_champions (snd (played promoted_script)))) = 1 \<and>
   length (filter (champion_active ''sigmoid_v1'' ''BTCUSDT'') (lf_champions (snd (played promoted_script)))) \<le> 1"
proof
  show "length (filter (champion_active ''sigmoid_v1'' ''BTCUSDT'') (lf_champions (snd (played promoted_script)))) = 1"
    by code_simp
qed (rule one_active_champion [OF played_served [OF promoted_plays]])

text \<open>
  C13: Every champion is the promotion of a stored gene of the same strategy and pair that was not
  evolved in test mode, and the package the API serves for it says so too: promoted, with the reviewer
  and the time of the row's columns.
\<close>
theorem champions_are_promoted_genes:
  assumes "served cap (rs, d)" "c \<in> set (lf_champions d)"
  shows "\<exists>g\<in>set (lf_genes d). champion_of c g \<and> gene_ok g"
  using served_inv(1) [OF assms(1)] assms(2) by (auto simp: life_inv_def genes_inv_def)

theorem champions_are_promoted_genes_witness:
  "\<exists>g\<in>set (lf_genes (snd (played promoted_script))).
     champion_of (hd (lf_champions (snd (played promoted_script)))) g \<and> gene_ok g"
proof (rule champions_are_promoted_genes [OF played_served [OF promoted_plays]])
  have "lf_champions (snd (played promoted_script)) \<noteq> []" by code_simp
  then show "hd (lf_champions (snd (played promoted_script))) \<in> set (lf_champions (snd (played promoted_script)))"
    by (rule hd_in_set)
qed

text \<open>
  The history of champions is append-only: in every later state the earlier rows stand first, in
  their order, each with its challenger, strategy, pair and time of promotion, and a retired row is
  unchanged.
\<close>
theorem champion_history_append_only:
  assumes "served cap (rs, d)" "(serve cap)\<^sup>*\<^sup>* (rs, d) (rs', d')"
  shows "list_all2 row_kept (lf_champions d) (take (length (lf_champions d)) (lf_champions d'))"
  using served_grows(1) [OF assms] by (auto simp: grows_def)

lemma played_prefix:
  assumes "play (Fin 10) s1 ([], empty_life_db []) = Some (played s1)" "play (Fin 10) s2 (played s1) = Some t"
  shows "(serve (Fin 10))\<^sup>*\<^sup>* (fst (played s1), snd (played s1)) (fst t, snd t)"
  using play_serves [OF assms(2)] by simp

definition retirement_script :: "(request + nat \<times> int) list" where
  "retirement_script = [Inl (ReqRetire ''c1'' sample_retire), Inr (2, 5), Inr (2, 6), Inr (2, 7)]"

definition retired_state :: "request list \<times> life_db" where
  "retired_state = the (play (Fin 10) retirement_script (played promoted_script))"

lemma retirement_plays: "play (Fin 10) retirement_script (played promoted_script) = Some retired_state"
proof -
  have "play (Fin 10) retirement_script (played promoted_script) \<noteq> None" by code_simp
  then show ?thesis by (simp add: retired_state_def)
qed

theorem champion_history_append_only_witness:
  "list_all2 row_kept (lf_champions (snd (played promoted_script)))
     (take (length (lf_champions (snd (played promoted_script)))) (lf_champions (snd retired_state)))"
  by (rule champion_history_append_only [OF played_served [OF promoted_plays]
        played_prefix [OF promoted_plays retirement_plays]])

text \<open>
  C14: A challenger promoted twice can never be retired again: a row of the history that is not the first
  of its challenger stays unretired in every later state, because the retirement always reads the first
  row. Two promotions that both read the challenger before either writes, with a retirement in between,
  produce such a row, and the pair is then occupied for good.
\<close>
theorem repromoted_champion_stuck:
  assumes "served cap (rs, d)" "j < length (lf_champions d)"
    and "first_index (\<lambda>c. ch_challenger_id c = ch_challenger_id (lf_champions d ! j)) (lf_champions d) \<noteq> Some j"
    and "(serve cap)\<^sup>*\<^sup>* (rs, d) (rs', d')"
  shows "ch_retired_at (lf_champions d' ! j) = None"
proof (rule ccontr)
  assume ret: "ch_retired_at (lf_champions d' ! j) \<noteq> None"
  let ?p = "\<lambda>c. ch_challenger_id c = ch_challenger_id (lf_champions d ! j)"
  obtain old new where rows: "lf_champions d' = old @ new" "list_all2 row_kept (lf_champions d) old"
    using served_grows(1) [OF assms(1,4)] unfolding grows_rows by blast
  have j: "j < length old" using rows(2) assms(2) by (simp add: list_all2_lengthD [symmetric])
  have id: "ch_challenger_id (lf_champions d' ! j) = ch_challenger_id (lf_champions d ! j)"
    using rows j assms(2) by (auto simp: nth_append list_all2_conv_all_nth row_kept_def)
  have "list_all2 (\<lambda>x y. ?p x = ?p y) (lf_champions d) old"
    using rows(2) by (rule list_all2_mono) (simp add: row_kept_def)
  from first_index_cong [OF this] have eq: "first_index ?p (lf_champions d) = first_index ?p old" .
  have "first_index ?p (lf_champions d') = Some j"
  proof -
    have "retired_first (lf_champions d')" using served_grows(2) [OF assms(1,4)] by (simp add: life_inv_def)
    moreover have "j < length (lf_champions d')" using rows(1) j by simp
    ultimately have "first_index (\<lambda>c. ch_challenger_id c = ch_challenger_id (lf_champions d' ! j)) (lf_champions d') = Some j"
      using ret unfolding retired_first_def by blast
    then show ?thesis unfolding id .
  qed
  moreover obtain i where i: "first_index ?p old = Some i"
    using first_index_None [OF nth_mem [OF assms(2)], of ?p] eq by auto
  moreover have "first_index ?p (old @ new) = Some i" using i by (rule first_index_append)
  ultimately show False using assms(3) unfolding eq rows(1) by simp
qed

theorem repromoted_champion_stuck_witness:
  "ch_retired_at (lf_champions (snd (played double_promote_script)) ! 1) = None \<and>
   fst (retire ''c1'' sample_retire 9 (snd (played double_promote_script))) = Inl LeAlreadyRetired"
proof
  show "ch_retired_at (lf_champions (snd (played double_promote_script)) ! 1) = None"
  proof (rule repromoted_champion_stuck [OF played_served [OF double_promote_plays]])
    show "1 < length (lf_champions (snd (played double_promote_script)))" by code_simp
    show "first_index (\<lambda>c. ch_challenger_id c = ch_challenger_id (lf_champions (snd (played double_promote_script)) ! 1))
        (lf_champions (snd (played double_promote_script))) \<noteq> Some 1" by code_simp
    show "(serve (Fin 10))\<^sup>*\<^sup>* (fst (played double_promote_script), snd (played double_promote_script))
        (fst (played double_promote_script), snd (played double_promote_script))" by simp
  qed
  show "fst (retire ''c1'' sample_retire 9 (snd (played double_promote_script))) = Inl LeAlreadyRetired"
    by code_simp
qed

text \<open>
  The gate of a champion's retirement does not exclude a deployment that runs between the gate and
  the retirement: a run reaches a state in which an instance that is not retired deploys a champion that
  is, both requests having answered 200.
\<close>
theorem retired_champion_deployed:
  "\<exists>rs d i. served (Fin 10) (rs, d) \<and> answered (rs ! 3) = Some 200 \<and> answered (rs ! 4) = Some 200 \<and>
     i \<in> set (db_instances (lf_live d)) \<and> si_status i \<noteq> InRetired \<and> si_active_champ_id i = Some ''c1'' \<and>
     filter (\<lambda>c. ch_challenger_id c = ''c1'' \<and> ch_retired_at c = None) (lf_champions d) = []"
proof (intro exI conjI)
  let ?s = "played deploy_race_script"
  show "served (Fin 10) (fst ?s, snd ?s)" by (rule played_served [OF deploy_race_plays])
  show "hd (db_instances (lf_live (snd ?s))) \<in> set (db_instances (lf_live (snd ?s)))"
  proof (rule hd_in_set)
    show "db_instances (lf_live (snd ?s)) \<noteq> []" by code_simp
  qed
  show "answered (fst ?s ! 3) = Some 200" by code_simp
  show "answered (fst ?s ! 4) = Some 200" by code_simp
  show "si_status (hd (db_instances (lf_live (snd ?s)))) \<noteq> InRetired" by code_simp
  show "si_active_champ_id (hd (db_instances (lf_live (snd ?s)))) = Some ''c1''" by code_simp
  show "filter (\<lambda>c. ch_challenger_id c = ''c1'' \<and> ch_retired_at c = None) (lf_champions (snd ?s)) = []" by code_simp
qed

section \<open>A request that runs alone\<close>

fun finish :: "f64 \<Rightarrow> int \<Rightarrow> nat \<Rightarrow> request \<Rightarrow> life_db \<Rightarrow> request \<times> life_db" where
  \<comment> \<open>so many steps of one request, with nothing in between\<close>
  "finish cap now 0 r d = (r, d)"
| "finish cap now (Suc n) r d = (let (r, d) = advance cap now r d in finish cap now n r d)"

fun reply_status :: "'b reply \<Rightarrow> nat" where
  "reply_status (Inl (s, _)) = s"
| "reply_status (Inr (s, _)) = s"

lemma finish_done [simp]: "finish cap now n (ReqDone s) d = (ReqDone s, d)"
  by (induction n) simp_all

lemma rollback_rows: "same_rows d d' \<Longrightarrow> rollback d d' = d'"
  by (auto simp: same_rows_def rollback_def)

lemma rollback_from: "same_rows d e \<Longrightarrow> rollback e d' = rollback d d'"
  by (auto simp: same_rows_def rollback_def)

lemma transaction_bind:
  \<comment> \<open>reads before the last operation can leave the transaction\<close>
  assumes "\<And>res d'. f d = (res, d') \<Longrightarrow> same_rows d d'"
  shows "transaction (life_bind f k) d =
    (case f d of (Inl e, d') \<Rightarrow> (Inl e, d') | (Inr x, d') \<Rightarrow> transaction (k x) d')"
proof -
  obtain res e where f: "f d = (res, e)" by (cases "f d")
  note rows = assms [OF f]
  show ?thesis
  proof (cases res)
    case (Inl err)
    then show ?thesis using f rollback_rows [OF rows] by (simp add: transaction_def life_bind_def)
  next
    case (Inr x)
    then show ?thesis
      unfolding transaction_def life_bind_def f Inr prod.case sum.case rollback_from [OF rows] by simp
  qed
qed

lemma promote_alone_helper:
  assumes "cid \<noteq> []" "validate_promote r = None" "http_promote cid (Some r) now d = (reply, d')"
  shows "finish cap now 3 (ReqPromote cid r) d = (ReqDone (reply_status reply), d')"
proof -
  have "transaction (life_bind (promote_read cid)
      (\<lambda>g. life_bind (promote_count g) (\<lambda>others. promote_write cid g r now others))) d =
    (case promote_read cid d of (Inl e, d') \<Rightarrow> (Inl e, d')
     | (Inr g, d') \<Rightarrow> (case promote_count g d' of (Inl e, d') \<Rightarrow> (Inl e, d')
        | (Inr n, d') \<Rightarrow> transaction (promote_write cid g r now n) d'))"
    using promote_read_effect(1) promote_count_effect
    by (subst transaction_bind) (auto simp: transaction_bind split: prod.split sum.split)
  then show ?thesis
    using assms
    by (auto simp: http_promote_def with_body_def answer_def promote_def done_or_def eval_nat_numeral
        split: prod.splits sum.splits)
qed

lemma retire_alone_helper:
  assumes "cid \<noteq> []" "validate_retire r = None" "http_retire_champion cid (Some r) now d = (reply, d')"
  shows "finish cap now 3 (ReqRetire cid r) d = (ReqDone (reply_status reply), d')"
proof -
  have "transaction (life_bind (retire_read cid) (\<lambda>(i, c). retire_history i c r now)) d =
    (case retire_read cid d of (Inl e, d') \<Rightarrow> (Inl e, d')
     | (Inr (i, c), d') \<Rightarrow> transaction (retire_history i c r now) d')" for d
    using retire_read_effect(1) by (subst transaction_bind) (auto split: prod.split sum.split)
  then show ?thesis
    using assms
    by (auto simp: http_retire_champion_def with_body_def answer_def retire_def done_or_def eval_nat_numeral
        split: prod.splits sum.splits if_splits)
qed

text \<open>
  A promotion that no other request interrupts does in its three database steps exactly what the
  handler does as a whole: the same status and the same database, failures of the driver and roll-back
  included.
\<close>
theorem promote_alone:
  assumes "cid \<noteq> []" "validate_promote r = None" "http_promote cid (Some r) now d = (reply, d')"
  shows "finish cap now 3 (ReqPromote cid r) d = (ReqDone (reply_status reply), d')"
  using assms by (rule promote_alone_helper)

theorem promote_alone_witness:
  "\<exists>d'. finish (Fin 10) 9 3 (ReqPromote ''c1'' sample_promote) (empty_life_db [False, True]) = (ReqDone 404, d')"
proof -
  obtain reply d' where h: "http_promote ''c1'' (Some sample_promote) 9 (empty_life_db [False, True]) = (reply, d')"
    by (cases "http_promote ''c1'' (Some sample_promote) 9 (empty_life_db [False, True])")
  have "reply_status (fst (http_promote ''c1'' (Some sample_promote) 9 (empty_life_db [False, True]))) = 404"
    by code_simp
  then have "reply_status reply = 404" using h by simp
  moreover have "validate_promote sample_promote = None" by code_simp
  ultimately show ?thesis using promote_alone [OF _ _ h] by auto
qed

text \<open>
  A retirement that answers 200 and that no other request interrupts leaves no instance, other than
  retired ones, that deploys the champion, and the champion's first history row is retired.
\<close>
theorem retirement_gate:
  assumes "http_retire_champion cid (Some r) now d = (Inr reply, d')"
    and "\<forall>i\<in>set (db_instances (lf_live d)). si_instance_id i \<noteq> []"
  shows "(\<forall>i\<in>set (db_instances (lf_live d')). si_active_champ_id i = Some cid \<longrightarrow> si_status i = InRetired) \<and>
    (\<exists>k. first_index (\<lambda>c. ch_challenger_id c = cid) (lf_champions d') = Some k \<and>
       ch_retired_at (lf_champions d' ! k) = Some now)"
proof -
  from assms(1) obtain blocking d1 where
    gate: "live_stmt (blocking_instance_for_champion cid) d = (Inr blocking, d1)" "blocking = []" and
    ret: "retire cid r now d1 = (Inr (), d')" and cid: "cid \<noteq> []"
    by (auto simp: http_retire_champion_def with_body_def answer_def
        split: if_splits option.splits prod.splits sum.splits)
  note gate' = blocking_effect [OF gate(1)]
  have none: "find (\<lambda>i. si_active_champ_id i = Some cid \<and> si_status i \<noteq> InRetired) (db_instances (lf_live d)) = None"
  proof (rule ccontr)
    assume "\<not> ?thesis"
    then obtain i where i: "find (\<lambda>i. si_active_champ_id i = Some cid \<and> si_status i \<noteq> InRetired)
        (db_instances (lf_live d)) = Some i" by blast
    then have "i \<in> set (db_instances (lf_live d))" by (auto simp: find_Some_iff)
    then have "si_instance_id i \<noteq> []" using assms(2) by blast
    moreover have "si_instance_id i = []" using gate'(1) unfolding gate(2) i by simp
    ultimately show False ..
  qed
  note inst1 = gate'(2)
  from ret cid have "transaction (life_bind (retire_read cid) (\<lambda>(i, c). retire_history i c r now)) d1 = (Inr (), d')"
    by (simp add: retire_def)
  then obtain d2 where t: "life_bind (retire_read cid) (\<lambda>(i, c). retire_history i c r now) d1 = (Inr (), d2)"
    "same_rows d2 d'"
  proof (cases rule: transactionE)
    case (commit x d0)
    then show ?thesis using that [of d0] by simp
  qed simp
  from t(1) obtain ic d3 where rd0: "retire_read cid d1 = (Inr ic, d3)" and
    wr0: "(\<lambda>(i, c). retire_history i c r now) ic d3 = (Inr (), d2)"
    by (rule life_bindE) auto
  obtain i c where ic: "ic = (i, c)" by (cases ic)
  note rd = rd0 [unfolded ic] and wr = wr0 [unfolded ic prod.case]
  note rows = same_rowsD [OF retire_read_effect(1) [OF rd]] same_rowsD [OF t(2)]
  have i: "first_index (\<lambda>c. ch_challenger_id c = cid) (lf_champions d3) = Some i"
    using retire_read_effect(2) [OF rd refl] rows(2) by simp
  note eff = retire_history_effect [OF wr]
  have new: "lf_champions d' = (lf_champions d3)[i := retired_row r now (lf_champions d3 ! i)]"
    using eff(3) rows(7) by simp
  have "list_all2 (\<lambda>a b. (ch_challenger_id a = cid) = (ch_challenger_id b = cid)) (lf_champions d') (lf_champions d3)"
    unfolding new list_all2_conv_all_nth using eff(1) by (simp add: nth_list_update retired_row_def)
  from first_index_cong [OF this] i
  have first: "first_index (\<lambda>c. ch_challenger_id c = cid) (lf_champions d') = Some i" by simp
  moreover have "ch_retired_at (lf_champions d' ! i) = Some now"
    unfolding new using eff(1) by (simp add: retired_row_def)
  moreover have "db_instances (lf_live d') = db_instances (lf_live d)"
    using retire_history_instances [OF wr] rows(3,8) inst1 by simp
  ultimately show ?thesis using none unfolding find_None_iff by auto
qed

theorem retirement_gate_witness:
  "\<exists>d'. (\<forall>i\<in>set (db_instances (lf_live d')). si_active_champ_id i = Some ''c1'' \<longrightarrow> si_status i = InRetired) \<and>
    (\<exists>k. first_index (\<lambda>c. ch_challenger_id c = ''c1'') (lf_champions d') = Some k \<and>
       ch_retired_at (lf_champions d' ! k) = Some 9)"
proof -
  let ?d = "snd (played promoted_script)"
  obtain reply d' where h: "http_retire_champion ''c1'' (Some sample_retire) 9 ?d = (reply, d')"
    by (cases "http_retire_champion ''c1'' (Some sample_retire) 9 ?d")
  have "case fst (http_retire_champion ''c1'' (Some sample_retire) 9 ?d) of Inl _ \<Rightarrow> False | Inr _ \<Rightarrow> True"
    by code_simp
  then obtain x where "reply = Inr x" using h by (auto split: sum.splits)
  with h have "http_retire_champion ''c1'' (Some sample_retire) 9 ?d = (Inr x, d')" by simp
  moreover have "\<forall>i\<in>set (db_instances (lf_live ?d)). si_instance_id i \<noteq> []" by code_simp
  ultimately show ?thesis using retirement_gate by blast
qed

end
