(* ===== verification/GhostDca.thy ===== *)
theory GhostDca
  imports SigmoidTheorems SigmoidLaws
begin

text \<open>
  The passive baselines a strategy is compared with (\<open>internal/fitness/ghost_dca.go\<close>): the capital is
  invested at the first bar and a further amount at every month or every seven days, with the same
  friction as the strategy; the return is the modified Dietz rate, or the chained rate when an injection
  is large against the value before it.
\<close>

section \<open>Calendar\<close>

lemma utc_month_examples:
  "utc_month 0 = (1970, 1)" "utc_month (- 1) = (1969, 12)" "utc_month 951782400000 = (2000, 2)"
  "utc_month 951868800000 = (2000, 3)" "utc_month 1709164800000 = (2024, 2)"
  "utc_month 1735689599999 = (2024, 12)" "utc_month 1735689600000 = (2025, 1)"
  by code_simp+

definition go_div :: "int \<Rightarrow> int \<Rightarrow> int" where
  \<comment> \<open>Go's integer division truncates towards zero\<close>
  "go_div a b = (if (a < 0) = (b < 0) then \<bar>a\<bar> div \<bar>b\<bar> else - (\<bar>a\<bar> div \<bar>b\<bar>))"

section \<open>The simulation\<close>

record dca_config =
  gd_initial_capital :: f64
  gd_monthly_inject :: f64

record dca_result =
  dx_final_equity :: f64
  dx_total_injected :: f64
  dx_max_drawdown :: f64
  dx_roi :: f64

record injection =
  ij_idx :: nat
  ij_time_ms :: int
  ij_amount :: f64
  ij_nav_before :: f64
  ij_nav_after :: f64

definition zero_dca_result :: dca_result where
  "zero_dca_result = \<lparr>dx_final_equity = Fin 0, dx_total_injected = Fin 0, dx_max_drawdown = Fin 0, dx_roi = Fin 0\<rparr>"

type_synonym trigger = "int \<Rightarrow> int \<Rightarrow> bool \<times> f64"

definition monthly_trigger :: "dca_config \<Rightarrow> trigger" where
  "monthly_trigger cfg prev cur =
     (if utc_month cur \<noteq> utc_month prev then (True, gd_monthly_inject cfg) else (False, Fin 0))"

definition weekly_inject_divisor :: f64 where
  "weekly_inject_divisor = f_const (433 / 100)"

definition week_ms :: int where "week_ms = 7 * 24 * 60 * 60 * 1000"

definition weekly_trigger :: "dca_config \<Rightarrow> int \<Rightarrow> trigger" where
  "weekly_trigger cfg start prev cur =
     (if go_div (sub64 prev start) week_ms \<noteq> go_div (sub64 cur start) week_ms
      then (True, f_div (gd_monthly_inject cfg) weekly_inject_divisor) else (False, Fin 0))"

fun dca_loop ::
  "trigger \<Rightarrow> friction_params \<Rightarrow> nat \<Rightarrow> int \<Rightarrow> eval_bar list \<Rightarrow> f64 \<Rightarrow> f64 \<Rightarrow> f64 list \<times> injection list \<times> f64" where
  \<comment> \<open>the bars from index \<open>i\<close> on: the values, the injections, the total injected\<close>
  "dca_loop trig fp i prev [] qty inj_sum = ([], [], inj_sum)"
| "dca_loop trig fp i prev (b # bs) qty inj_sum =
     (let before = f_mul qty (eb_close b); (fire, amount) = trig prev (eb_open_time b) in
      if fire \<and> f_lt (Fin 0) amount \<and> f_lt (Fin 0) (eb_close b) then
        (let qty = f_add qty (fst (apply_buy_friction amount (eb_close b) fp));
             after = f_mul qty (eb_close b);
             (navs, injs, inj_sum) = dca_loop trig fp (Suc i) (eb_open_time b) bs qty (f_add inj_sum amount)
         in (after # navs, \<lparr>ij_idx = i, ij_time_ms = eb_open_time b, ij_amount = amount,
               ij_nav_before = before, ij_nav_after = after\<rparr> # injs, inj_sum))
      else
        (let (navs, injs, inj_sum) = dca_loop trig fp (Suc i) (eb_open_time b) bs qty inj_sum
         in (before # navs, injs, inj_sum)))"

definition dca_path ::
  "f64 \<Rightarrow> eval_bar list \<Rightarrow> friction_params \<Rightarrow> trigger \<Rightarrow> f64 list \<times> injection list \<times> f64" where
  \<comment> \<open>the seed at the first bar, then the loop\<close>
  "dca_path capital bars fp trig =
     (let b = hd bars; seeded = f_lt (Fin 0) capital \<and> f_lt (Fin 0) (eb_close b);
          qty = (if seeded then f_add (Fin 0) (fst (apply_buy_friction capital (eb_close b) fp)) else Fin 0);
          inj_sum = (if seeded then f_add (Fin 0) capital else Fin 0);
          seed = (if seeded then [\<lparr>ij_idx = 0, ij_time_ms = eb_open_time b, ij_amount = capital,
                    ij_nav_before = Fin 0, ij_nav_after = f_mul qty (eb_close b)\<rparr>] else []);
          (navs, injs, inj_sum) = dca_loop trig fp 1 (eb_open_time b) (tl bars) qty inj_sum
      in (f_mul qty (eb_close b) # navs, seed @ injs, inj_sum))"

fun drawdown_loop :: "f64 \<Rightarrow> f64 \<Rightarrow> f64 list \<Rightarrow> f64" where
  "drawdown_loop peak mdd [] = mdd"
| "drawdown_loop peak mdd (v # vs) =
     (let peak = (if f_lt peak v then v else peak);
          dd = f_div (f_sub peak v) peak
      in drawdown_loop peak (if f_lt (Fin 0) peak \<and> f_lt mdd dd then dd else mdd) vs)"

definition max_drawdown :: "f64 list \<Rightarrow> f64" where
  "max_drawdown navs = (case navs of [] \<Rightarrow> Fin 0 | v # _ \<Rightarrow> drawdown_loop v (Fin 0) navs)"

definition dietz_twr_switch_ratio :: f64 where
  "dietz_twr_switch_ratio = f_const (1 / 10)"

definition modified_dietz :: "injection list \<Rightarrow> eval_bar list \<Rightarrow> f64 \<Rightarrow> f64" where
  "modified_dietz injs bars final =
     (if injs = [] \<or> length bars < 2 then Fin 0
      else
        let start = eb_open_time (hd bars);
            span = f_of_int (sub64 (eb_open_time (last bars)) start);
            sum_c = foldl (\<lambda>s j. f_add s (ij_amount j)) (Fin 0) injs
        in
        if f_le span (Fin 0) then
          (if f_eq sum_c (Fin 0) then Fin 0 else f_div (f_sub final sum_c) sum_c)
        else
          let wsum = foldl (\<lambda>s j. f_add s (f_mul
                (f_div (f_sub span (f_of_int (sub64 (ij_time_ms j) start))) span) (ij_amount j))) (Fin 0) injs
          in if f_eq wsum (Fin 0) then Fin 0 else f_div (f_sub final sum_c) wsum)"

fun twr_growth :: "f64 \<Rightarrow> f64 \<Rightarrow> injection list \<Rightarrow> f64" where
  "twr_growth growth final [] = growth"
| "twr_growth growth final (j # js) =
     (let stop = (case js of [] \<Rightarrow> final | k # _ \<Rightarrow> ij_nav_before k) in
      twr_growth (if f_le (ij_nav_after j) (Fin 0) then growth
                  else f_mul growth (f_div stop (ij_nav_after j))) final js)"

definition twr :: "injection list \<Rightarrow> f64 \<Rightarrow> f64" where
  "twr injs final = (if injs = [] then Fin 0 else f_sub (twr_growth (Fin 1) final injs) (Fin 1))"

definition compute_roi :: "injection list \<Rightarrow> eval_bar list \<Rightarrow> f64 \<Rightarrow> f64" where
  "compute_roi injs bars final =
     (if injs = [] then Fin 0
      else if list_ex (\<lambda>j. f_lt (Fin 0) (ij_nav_before j) \<and>
                f_lt dietz_twr_switch_ratio (f_div (ij_amount j) (ij_nav_before j))) (tl injs)
      then twr injs final
      else modified_dietz injs bars final)"

definition simulate_dca :: "f64 \<Rightarrow> eval_bar list \<Rightarrow> friction_params \<Rightarrow> trigger \<Rightarrow> dca_result" where
  "simulate_dca capital bars fp trig =
     (if bars = [] then zero_dca_result
      else
        let (navs, injs, inj_sum) = dca_path capital bars fp trig; final = last navs
        in \<lparr>dx_final_equity = final, dx_total_injected = inj_sum, dx_max_drawdown = max_drawdown navs,
            dx_roi = compute_roi injs bars final\<rparr>)"

definition simulate_monthly :: "dca_config \<Rightarrow> eval_bar list \<Rightarrow> friction_params \<Rightarrow> dca_result" where
  "simulate_monthly cfg bars fp = simulate_dca (gd_initial_capital cfg) bars fp (monthly_trigger cfg)"

definition simulate_weekly :: "dca_config \<Rightarrow> eval_bar list \<Rightarrow> friction_params \<Rightarrow> dca_result" where
  "simulate_weekly cfg bars fp =
     (if bars = [] then zero_dca_result
      else simulate_dca (gd_initial_capital cfg) bars fp (weekly_trigger cfg (eb_open_time (hd bars))))"

section \<open>Drawdowns\<close>

text \<open>A number between 0 and 1, as the comment of \<open>maxDrawdown\<close> promises.\<close>

definition unit_interval :: "f64 \<Rightarrow> bool" where
  "unit_interval x \<longleftrightarrow> (\<exists>q. x = Fin q \<and> 0 \<le> q \<and> q \<le> 1)"

lemma rnd_le_1: "x \<le> 1 \<Longrightarrow> rnd x \<le> 1"
  using rnd_mono [of x 1] by simp

lemma f_round_Fin: "\<bar>rnd x\<bar> < 2 ^ 1024 \<Longrightarrow> f_round False x = Fin (rnd x)"
  unfolding f_round_def Let_def by (simp del: power_numeral numeral_power_eq_of_int_cancel_iff)

lemma drawdown_step:
  assumes "f_lt (Fin 0) peak" "f_wf peak" "not_negative v" "\<not> f_lt peak v" "f_lt mdd (f_div (f_sub peak v) peak)"
    "unit_interval mdd"
  shows "unit_interval (f_div (f_sub peak v) peak)"
proof (cases peak)
  case (Fin p)
  with assms(1,2) have p: "0 < p" "rnd p = p" "\<bar>p\<bar> < 2 ^ 1024" by auto
  show ?thesis
  proof (cases "f_finite v")
    case True
    have v: "0 \<le> f_val v" using assms(3) True by (cases v) (auto simp: not_negative_def)
    have le: "f_val v \<le> p" using assms(4) True Fin by (cases v) auto
    then have s: "0 \<le> rnd (p - f_val v)" "rnd (p - f_val v) \<le> p"
      using rnd_nonneg [of "p - f_val v"] rnd_mono [of "p - f_val v" p] v p(2) le by auto
    have small: "\<bar>rnd (p - f_val v)\<bar> < 2 ^ 1024" using s p(3) by linarith
    have "f_sub peak v = f_round False (p - f_val v)"
      using Fin True le p(1) by (cases v) (auto simp: f_sub_def f_add_def f_is_nan_def Let_def)
    with small have sub: "f_sub peak v = Fin (rnd (p - f_val v))" by (simp only: f_round_Fin)
    have q: "0 \<le> rnd (p - f_val v) / p" "rnd (p - f_val v) / p \<le> 1" using s p(1) by auto
    have "f_div (f_sub peak v) peak = f_round False (rnd (p - f_val v) / p)"
      unfolding Fin sub [unfolded Fin] using s(1) p(1) by (simp add: f_div_def f_is_nan_def)
    moreover have "f_round False (rnd (p - f_val v) / p) = Fin (rnd (rnd (p - f_val v) / p))"
    proof (rule f_round_Fin)
      have "\<bar>rnd (rnd (p - f_val v) / p)\<bar> \<le> 1" using rnd_nonneg [OF q(1)] rnd_le_1 [OF q(2)] by simp
      also have "1 < (2 ^ 1024 :: rat)" by simp
      finally show "\<bar>rnd (rnd (p - f_val v) / p)\<bar> < 2 ^ 1024" .
    qed
    ultimately show ?thesis
      using rnd_nonneg [OF q(1)] rnd_le_1 [OF q(2)] by (auto simp: unit_interval_def)
  next
    case False
    with Fin assms(3-6) show ?thesis
      by (cases v) (auto simp: f_sub_def f_add_def f_div_def f_is_nan_def not_negative_def unit_interval_def)
  qed
next
  case (Inf s)
  with assms show ?thesis
    by (cases v) (auto simp: f_sub_def f_add_def f_div_def f_is_nan_def split: if_splits)
qed (use assms(1) in auto)

lemma drawdown_loop_unit:
  assumes "f_wf peak" "unit_interval mdd" "\<forall>v\<in>set vs. f_wf v \<and> not_negative v"
  shows "unit_interval (drawdown_loop peak mdd vs)"
  using assms
proof (induction peak mdd vs rule: drawdown_loop.induct)
  case (2 peak mdd v vs)
  let ?peak = "if f_lt peak v then v else peak"
  have wf: "f_wf ?peak" using 2(2,4) by simp
  have "\<not> f_lt ?peak v" by (cases peak; cases v) auto
  then have "unit_interval (if f_lt (Fin 0) ?peak \<and> f_lt mdd (f_div (f_sub ?peak v) ?peak)
      then f_div (f_sub ?peak v) ?peak else mdd)"
    using drawdown_step [OF _ wf, of v mdd] 2(3,4) by auto
  from 2(1) [OF refl refl wf this] 2(4) show ?case by (simp add: Let_def)
qed simp

section \<open>Values of the baseline\<close>

text \<open>Neither negative nor a negative zero; NaN is let through, no comparison holds of it.\<close>

definition plus_sign :: "f64 \<Rightarrow> bool" where
  "plus_sign x \<longleftrightarrow> x = NaN \<or> \<not> f_sign x"

lemma plus_not_negative: "plus_sign x \<Longrightarrow> not_negative x"
  by (cases x) (auto simp: plus_sign_def not_negative_def)

lemma positive_plus: "f_lt (Fin 0) x \<Longrightarrow> plus_sign x"
  by (cases x) (auto simp: plus_sign_def)

lemma not_le_zero_plus: "\<not> f_le x (Fin 0) \<Longrightarrow> plus_sign x"
  by (cases x) (auto simp: plus_sign_def f_le_def f_eq_def f_is_nan_def)

lemma plus_round: "0 \<le> x \<Longrightarrow> plus_sign (f_round False x)"
  using rnd_nonneg [of x] by (auto simp: plus_sign_def f_round_def Let_def)

lemma plus_zero [simp]: "plus_sign (Fin 0)" by (simp add: plus_sign_def)

lemma plus_val: "plus_sign x \<Longrightarrow> 0 \<le> f_val x"
  by (cases x) (auto simp: plus_sign_def)

lemma plus_add: "plus_sign a \<Longrightarrow> plus_sign b \<Longrightarrow> plus_sign (f_add a b)"
  using plus_round [of "f_val a + f_val b"] plus_val [of a] plus_val [of b]
  by (cases a; cases b) (auto simp: plus_sign_def f_add_def f_is_nan_def Let_def split: if_splits)

lemma plus_mul: "plus_sign a \<Longrightarrow> plus_sign b \<Longrightarrow> plus_sign (f_mul a b)"
  using plus_round [of "f_val a * f_val b"] plus_val [of a] plus_val [of b]
  by (cases a; cases b) (auto simp: plus_sign_def f_mul_def f_is_nan_def split: if_splits)

lemma plus_div: "plus_sign a \<Longrightarrow> plus_sign b \<Longrightarrow> plus_sign (f_div a b)"
  using plus_round [of "f_val a / f_val b"] plus_val [of a] plus_val [of b]
  by (cases a; cases b) (auto simp: plus_sign_def f_div_def f_is_nan_def split: if_splits)

lemma rate_not_negative: "not_negative x \<Longrightarrow> not_negative (f_div x (Fin 10000))"
  using f_round_not_negative [of "f_val x / 10000"]
  by (cases x) (auto simp: not_negative_def f_div_def f_is_nan_def)

lemma one_plus: "not_negative x \<Longrightarrow> plus_sign (f_add (Fin 1) x)"
  using plus_round [of "1 + f_val x"]
  by (cases x) (auto simp: plus_sign_def not_negative_def f_add_def f_is_nan_def Let_def)

lemma one_minus:
  assumes "f_le fee (Fin 10000)" shows "plus_sign (f_sub (Fin 1) (f_div fee (Fin 10000)))"
proof (cases "f_finite fee")
  case True
  let ?r = "f_div fee (Fin 10000)"
  have q: "f_val fee \<le> 10000" using assms True by (cases fee) (auto simp: f_le_def f_eq_def)
  then have r: "rnd (f_val fee / 10000) \<le> 1" using rnd_le_1 [of "f_val fee / 10000"] by simp
  have shape: "(f_finite ?r \<and> f_val ?r \<le> 1) \<or> ?r = Inf True"
    using True r by (cases fee) (auto simp: f_div_def f_is_nan_def f_round_def Let_def)
  then show ?thesis
  proof
    assume v: "f_finite ?r \<and> f_val ?r \<le> 1"
    then show ?thesis
      using plus_round [of "1 - f_val ?r"]
      by (cases ?r) (auto simp: f_sub_def f_add_def f_is_nan_def Let_def)
  qed (simp add: f_sub_def f_add_def f_is_nan_def plus_sign_def)
next
  case False
  with assms show ?thesis
    by (cases fee) (auto simp: f_le_def f_eq_def f_is_nan_def f_div_def f_sub_def f_add_def plus_sign_def)
qed

definition friction_sound :: "friction_params \<Rightarrow> bool" where
  \<comment> \<open>no negative slippage, no fee above the notional\<close>
  "friction_sound fp \<longleftrightarrow> not_negative (fp_slippage_bps fp) \<and> f_le (fp_taker_fee_bps fp) (Fin 10000)"

lemma fill_plus:
  assumes "friction_sound fp" shows "plus_sign (fst (apply_buy_friction notional price fp))"
proof (cases "f_le notional (Fin 0) \<or> f_le price (Fin 0)")
  case False
  then have "plus_sign notional" "plus_sign price" by (auto intro: not_le_zero_plus)
  with assms show ?thesis
    by (auto simp: apply_buy_friction_def friction_sound_def Let_def
        intro!: plus_mul plus_div one_plus one_minus rate_not_negative)
qed (simp add: apply_buy_friction_def)

lemma nav_ok: "plus_sign x \<Longrightarrow> plus_sign c \<Longrightarrow> f_wf (f_mul x c) \<and> not_negative (f_mul x c)"
  using plus_not_negative [OF plus_mul] f_wf_mul by blast

lemma dca_loop_navs:
  assumes "friction_sound fp" "\<forall>b\<in>set bs. plus_sign (eb_close b)" "plus_sign qty"
  shows "\<forall>v\<in>set (fst (dca_loop trig fp i prev bs qty tot)). f_wf v \<and> not_negative v"
  using assms(2,3)
proof (induction bs arbitrary: i prev qty tot)
  case (Cons b bs)
  let ?q = "f_add qty (fst (apply_buy_friction (snd (trig prev (eb_open_time b))) (eb_close b) fp))"
  have q: "plus_sign ?q" using Cons.prems(2) fill_plus [OF assms(1)] by (rule plus_add)
  have nav: "f_wf (f_mul x (eb_close b)) \<and> not_negative (f_mul x (eb_close b))" if "plus_sign x" for x
    using nav_ok [OF that] Cons.prems(1) by simp
  have IH: "\<forall>v\<in>set (fst (dca_loop trig fp j t bs x u)). f_wf v \<and> not_negative v" if "plus_sign x" for j t x u
    using Cons.IH [OF _ that] Cons.prems(1) by simp
  show ?case
    using nav [OF q] nav [OF Cons.prems(2)] IH [OF q] IH [OF Cons.prems(2)]
    by (auto simp: Let_def split: prod.splits) (metis fst_conv)+
qed simp

lemma dca_path_navs:
  assumes "friction_sound fp" "\<forall>b\<in>set bars. plus_sign (eb_close b)" "bars \<noteq> []"
  shows "\<forall>v\<in>set (fst (dca_path capital bars fp trig)). f_wf v \<and> not_negative v"
proof -
  let ?b = "hd bars"
  have c: "plus_sign (eb_close ?b)" using assms(2,3) by simp
  have q: "plus_sign (if f_lt (Fin 0) capital \<and> f_lt (Fin 0) (eb_close ?b)
      then f_add (Fin 0) (fst (apply_buy_friction capital (eb_close ?b) fp)) else Fin 0)" (is "plus_sign ?q")
    using fill_plus [OF assms(1)] by (simp add: plus_add)
  have bs: "\<forall>b\<in>set (tl bars). plus_sign (eb_close b)" using assms(2,3) by (meson list.set_sel(2))
  have "f_wf (f_mul ?q (eb_close ?b)) \<and> not_negative (f_mul ?q (eb_close ?b))"
    by (rule nav_ok [OF q c])
  moreover note dca_loop_navs [OF assms(1) bs q, of trig 1 "eb_open_time ?b"]
  ultimately show ?thesis
    unfolding dca_path_def by (auto simp only: Let_def fst_conv list.set split: prod.split) (metis fst_conv)+
qed

lemma max_drawdown_unit:
  assumes "\<forall>v\<in>set navs. f_wf v \<and> not_negative v" shows "unit_interval (max_drawdown navs)"
proof (cases navs)
  case (Cons v vs)
  have "unit_interval (Fin 0)" by (simp add: unit_interval_def)
  with assms Cons show ?thesis by (auto simp: max_drawdown_def simp del: drawdown_loop.simps intro!: drawdown_loop_unit)
qed (simp add: max_drawdown_def unit_interval_def)

text \<open>
  The drawdown of a baseline lies between 0 and 1, whatever the capital, the cadence and the prices,
  as long as no price is negative, the slippage is not and the fee is at most the whole notional.
\<close>
theorem dca_drawdown_bounds:
  assumes "friction_sound fp" "\<forall>b\<in>set bars. plus_sign (eb_close b)"
  shows "unit_interval (dx_max_drawdown (simulate_dca capital bars fp trig))"
proof (cases "bars = []")
  case True
  then show ?thesis by (simp add: simulate_dca_def zero_dca_result_def unit_interval_def)
next
  case False
  from max_drawdown_unit [OF dca_path_navs [OF assms False, of capital trig]] False show ?thesis
    by (auto simp: simulate_dca_def Let_def split: prod.splits)
qed

definition falling_bars :: "eval_bar list" where
  "falling_bars = map (\<lambda>(t, p). \<lparr>eb_open_time = t, eb_open = p, eb_high = p, eb_low = p, eb_close = p,
     eb_volume = Fin 1, eb_is_gap = False, eb_gap_type = []\<rparr>)
     [(0, Fin 100), (86400000, Fin 50), (3000000000, Fin 60)]"

definition spot_friction :: friction_params where
  "spot_friction = \<lparr>fp_taker_fee_bps = Fin 10, fp_slippage_bps = Fin 5\<rparr>"

definition monthly_hundred :: dca_config where
  "monthly_hundred = \<lparr>gd_initial_capital = Fin 1000, gd_monthly_inject = Fin 100\<rparr>"

theorem dca_drawdown_bounds_witness:
  "unit_interval (dx_max_drawdown (simulate_dca (Fin 1000) falling_bars spot_friction (monthly_trigger monthly_hundred)))"
proof (rule dca_drawdown_bounds)
  show "friction_sound spot_friction" by (simp add: friction_sound_def spot_friction_def not_negative_def f_le_def)
  show "\<forall>b\<in>set falling_bars. plus_sign (eb_close b)" by (simp add: falling_bars_def plus_sign_def)
qed

end
