(* ===== verification/Plan.thy ===== *)
theory Plan
  imports GhostDca
begin

text \<open>
  Evaluation plans: the crucible windows cut out of a bar series (\<open>internal/data/crucible.go\<close>), the
  assembly of a plan (\<open>internal/data/plan.go\<close>) and the canonical documents whose SHA-256 are its hashes
  (\<open>internal/quant/canonical_json.go\<close>). A digest is a function of the document, an argument of the model.
  \<open>None\<close> as the result of a builder is a panic.
\<close>

section \<open>Windows (\<open>crucible.go\<close>)\<close>

definition day_ms :: int where "day_ms = 86400000"

definition window_specs :: "(window_name \<times> int) list" where
  "window_specs = [(Window6M, 183), (Window2Y, 730), (Window5Y, 1825), (Window10Y, 0)]"

fun ascending :: "eval_bar list \<Rightarrow> bool" where
  "ascending (a # b # bs) \<longleftrightarrow> eb_open_time a < eb_open_time b \<and> ascending (b # bs)"
| "ascending _ \<longleftrightarrow> True"

definition first_from :: "eval_bar list \<Rightarrow> int \<Rightarrow> nat" where
  \<comment> \<open>\<open>sort.Search\<close> for the first bar at or after a time\<close>
  "first_from bars ts = sort_search (length bars) (\<lambda>i. ts \<le> eb_open_time (bars ! i))"

definition is_window :: "eval_bar list \<Rightarrow> int \<Rightarrow> window_name \<times> int \<Rightarrow> crucible_window option option" where
  \<comment> \<open>one round of the loop over the specs: \<open>Some None\<close> is \<open>continue\<close>\<close>
  "is_window bars warmup_days = (\<lambda>(name, days).
     let warmup_ms = mul64 warmup_days day_ms;
         stop = eb_open_time (last bars);
         span = sub64 stop (eb_open_time (hd bars));
         eval_span = (if 0 < days then mul64 days day_ms else sub64 span warmup_ms)
     in if eval_span \<le> 0 \<or> span < add64 eval_span warmup_ms then Some None
        else
          let eval_start = sub64 stop eval_span;
              warmup_idx = first_from bars (sub64 eval_start warmup_ms);
              eval_idx = first_from bars eval_start
          in if length bars \<le> eval_idx then None
             else Some (Some \<lparr>cw_name = name, cw_start_ts = eb_open_time (bars ! eval_idx), cw_end_ts = stop,
                    cw_warmup_len = int eval_idx - int warmup_idx, cw_bars = drop warmup_idx bars\<rparr>))"

fun collect_windows :: "'a option option list \<Rightarrow> 'a list option" where
  "collect_windows [] = Some []"
| "collect_windows (w # ws) =
     (case w of None \<Rightarrow> None
      | Some None \<Rightarrow> collect_windows ws
      | Some (Some x) \<Rightarrow> map_option (\<lambda>xs. x # xs) (collect_windows ws))"

definition is_windows :: "eval_bar list \<Rightarrow> int \<Rightarrow> crucible_window list option" where
  "is_windows bars warmup_days =
     (if bars = [] then Some [] else collect_windows (map (is_window bars warmup_days) window_specs))"

definition build_crucible_windows ::
  "eval_bar list \<Rightarrow> int \<Rightarrow> int option \<Rightarrow> (string + crucible_window list \<times> crucible_window option) option" where
  "build_crucible_windows bars warmup_days oos_days =
     (if bars = [] then Some (Inl ''empty bars'')
      else if warmup_days < 0 then Some (Inl ''warmupDays'')
      else if \<not> ascending bars then Some (Inl ''bars not strictly ascending'')
      else case oos_days of
        None \<Rightarrow> map_option (\<lambda>ws. Inr (ws, None)) (is_windows bars warmup_days)
      | Some days \<Rightarrow>
          if days \<le> 0 then Some (Inl ''oosDays'')
          else
            let oos_start = sub64 (eb_open_time (last bars)) (mul64 days day_ms);
                idx = first_from bars oos_start;
                warmup_start = sub64 oos_start (mul64 warmup_days day_ms)
            in if idx = 0 then Some (Inl ''oos request consumes entire history'')
               else if eb_open_time (hd bars) \<le> warmup_start then
                 (if length bars \<le> idx then None
                  else
                    let widx = first_from bars warmup_start in
                    map_option (\<lambda>ws. Inr (ws, Some \<lparr>cw_name = WindowOOS, cw_start_ts = eb_open_time (bars ! idx),
                        cw_end_ts = eb_open_time (last bars), cw_warmup_len = int idx - int widx,
                        cw_bars = drop widx bars\<rparr>))
                      (is_windows (take idx bars) warmup_days))
               else map_option (\<lambda>ws. Inr (ws, None)) (is_windows bars warmup_days))"

section \<open>Canonical documents (\<open>canonical_json.go\<close>)\<close>

fun all_some :: "'a option list \<Rightarrow> 'a list option" where
  "all_some [] = Some []"
| "all_some (x # xs) = (case x of None \<Rightarrow> None | Some v \<Rightarrow> map_option (\<lambda>vs. v # vs) (all_some xs))"

definition bar_for_hash :: "eval_bar \<Rightarrow> json option" where
  "bar_for_hash b = map_option (\<lambda>vs. JObj ((''open_time'', JInt (eb_open_time b)) #
       zip [''open'', ''high'', ''low'', ''close'', ''volume''] vs))
     (marshal_floats [eb_open b, eb_high b, eb_low b, eb_close b, eb_volume b])"

definition bars_json :: "eval_bar list \<Rightarrow> json option" where
  "bars_json bars = map_option JArr (all_some (map bar_for_hash bars))"

definition bars_hash :: "(json \<Rightarrow> string) \<Rightarrow> eval_bar list \<Rightarrow> string option" where
  "bars_hash digest bars = map_option digest (bars_json bars)"

definition window_json_name :: "window_name \<Rightarrow> string" where
  "window_json_name w = (case w of Window6M \<Rightarrow> ''6m'' | Window2Y \<Rightarrow> ''2y'' | Window5Y \<Rightarrow> ''5y''
     | Window10Y \<Rightarrow> ''10y'' | WindowOOS \<Rightarrow> ''oos'' | WindowOther s \<Rightarrow> s)"

definition spawn_json_name :: "spawn_mode \<Rightarrow> string" where
  "spawn_json_name s = (case s of SpawnInherit \<Rightarrow> ''inherit'' | SpawnRandomOnce \<Rightarrow> ''random_once''
     | SpawnManual \<Rightarrow> ''manual'' | SpawnOther x \<Rightarrow> x)"

definition omit_none :: "string \<Rightarrow> json option \<Rightarrow> (string \<times> json) list" where
  "omit_none key v = (case v of None \<Rightarrow> [] | Some j \<Rightarrow> [(key, j)])"

definition spawn_point_json :: "spawn_point \<Rightarrow> json" where
  "spawn_point_json s = JObj ((''spawn_mode'', JStr (spawn_json_name (sp_spawn_mode s))) #
     omit_none ''capital_policy'' (map_option JStr (sp_capital_policy s)) @
     omit_none ''risk_bounds'' (sp_risk_bounds s) @ omit_none ''meta'' (sp_meta s))"

definition bar_json :: "eval_bar \<Rightarrow> json option" where
  "bar_json b = map_option (\<lambda>vs. JObj ((''open_time'', JInt (eb_open_time b)) #
       zip [''open'', ''high'', ''low'', ''close'', ''volume''] vs @
       (if eb_is_gap b then [(''is_gap'', JBool True)] else []) @
       (if eb_gap_type b = [] then [] else [(''gap_type'', JStr (eb_gap_type b))])))
     (marshal_floats [eb_open b, eb_high b, eb_low b, eb_close b, eb_volume b])"

definition window_json :: "crucible_window \<Rightarrow> json option" where
  "window_json w = map_option (\<lambda>bs. JObj [(''name'', JStr (window_json_name (cw_name w))),
       (''start_ts'', JInt (cw_start_ts w)), (''end_ts'', JInt (cw_end_ts w)),
       (''warmup_len'', JInt (cw_warmup_len w)), (''bars'', JArr bs)])
     (all_some (map bar_json (cw_bars w)))"

definition baseline_json :: "dca_baseline \<Rightarrow> json option" where
  "baseline_json b = map_option (\<lambda>vs. JObj (zip [''final_equity'', ''total_injected'', ''max_drawdown''] vs))
     (marshal_floats [dc_final_equity b, dc_total_injected b, dc_max_drawdown b])"

definition oos_window_json :: "crucible_window option \<Rightarrow> (string \<times> json) list option" where
  "oos_window_json w =
     (case w of None \<Rightarrow> Some [] | Some x \<Rightarrow> map_option (\<lambda>j. [(''oos_window'', j)]) (window_json x))"

definition plan_json :: "evaluable_plan \<Rightarrow> json option" where
  "plan_json p =
     (case (marshal_floats [pn_lot_step p, pn_lot_min p, pn_fatal_mdd p, pn_initial_usdt p,
              fp_taker_fee_bps (pn_friction p), fp_slippage_bps (pn_friction p)],
            all_some (map window_json (pn_windows p)), baseline_json (pn_dca_monthly p),
            baseline_json (pn_dca_weekly p), oos_window_json (pn_oos_window p)) of
        (Some [step, lmin, mdd, usdt, taker, slip], Some ws, Some monthly, Some weekly, Some oos) \<Rightarrow>
          Some (JObj ([(''pair'', JStr (pn_pair p)), (''spawn'', spawn_point_json (pn_spawn p)),
            (''lot_step'', step), (''lot_min'', lmin), (''fatal_mdd'', mdd), (''initial_usdt'', usdt),
            (''windows'', JArr ws),
            (''dca_baselines'', JObj [(''monthly'', monthly), (''weekly'', weekly)])] @ oos @
            [(''friction'', JObj [(''taker_fee_bps'', taker), (''slippage_bps'', slip)])]))
      | _ \<Rightarrow> None)"

definition plan_hash :: "(json \<Rightarrow> string) \<Rightarrow> evaluable_plan \<Rightarrow> string option" where
  "plan_hash digest p = map_option digest (plan_json p)"

section \<open>Plans (\<open>plan.go\<close>)\<close>

record plan_options =
  po_pair :: string
  po_spawn :: spawn_point
  po_warmup_days :: int
  po_oos_days :: "int option"
  po_friction :: friction_params
  po_lot_step :: f64
  po_lot_min :: f64
  po_fatal_mdd :: f64
  po_initial_usdt :: f64
  po_dca :: dca_config
  po_min_eval_bars :: int

definition baseline_of :: "dca_result \<Rightarrow> dca_baseline" where
  "baseline_of r = \<lparr>dc_final_equity = dx_final_equity r, dc_total_injected = dx_total_injected r,
     dc_max_drawdown = dx_max_drawdown r\<rparr>"

definition baseline_bars :: "crucible_window option \<Rightarrow> eval_bar list \<Rightarrow> eval_bar list" where
  \<comment> \<open>the bars before the out-of-sample evaluation\<close>
  "baseline_bars oos bars =
     (case oos of None \<Rightarrow> bars | Some w \<Rightarrow> takeWhile (\<lambda>b. eb_open_time b < cw_start_ts w) bars)"

definition plan_of :: "plan_options \<Rightarrow> eval_bar list \<Rightarrow> crucible_window list \<Rightarrow> crucible_window option \<Rightarrow> evaluable_plan" where
  "plan_of po bars ws oos =
     \<lparr>pn_pair = po_pair po, pn_spawn = po_spawn po, pn_lot_step = po_lot_step po, pn_lot_min = po_lot_min po,
      pn_fatal_mdd = po_fatal_mdd po, pn_initial_usdt = po_initial_usdt po, pn_windows = ws,
      pn_dca_monthly = baseline_of (simulate_monthly (po_dca po) (baseline_bars oos bars) (po_friction po)),
      pn_dca_weekly = baseline_of (simulate_weekly (po_dca po) (baseline_bars oos bars) (po_friction po)),
      pn_oos_window = oos, pn_friction = po_friction po, pn_capture_returns = False\<rparr>"

definition build_evaluable_plan ::
  "(json \<Rightarrow> string) \<Rightarrow> eval_bar list \<Rightarrow> plan_options \<Rightarrow> (string + evaluable_plan \<times> string \<times> string) option" where
  \<comment> \<open>the plan, the plan hash, the bars hash\<close>
  "build_evaluable_plan digest bars po =
     (case build_crucible_windows bars (po_warmup_days po) (po_oos_days po) of
        None \<Rightarrow> None
      | Some (Inl e) \<Rightarrow> Some (Inl e)
      | Some (Inr (ws, oos)) \<Rightarrow>
          if ws = [] then Some (Inl ''no crucible window fits'')
          else if 0 < po_min_eval_bars po \<and>
                  list_ex (\<lambda>w. int (length (cw_bars w)) < po_min_eval_bars po) ws
          then Some (Inl ''window below MinEvalBars'')
          else
            let plan = plan_of po bars ws oos in
            case (bars_hash digest bars, plan_hash digest plan) of
              (Some bh, Some ph) \<Rightarrow> Some (Inr (plan, ph, bh))
            | _ \<Rightarrow> Some (Inl ''hash''))"

end
