(* ===== verification/Verify.thy ===== *)
theory Verify
  imports Plan Lifecycle "HOL-Library.Word"
begin

unbundle bit_operations_syntax

text \<open>
  The verification of a winner (\<open>internal/verification\<close>): the anchored holdout, the alpha of every
  in-sample window, the deflated Sharpe ratio, the replay that reviews a package, and the stress test by
  stationary block bootstrap. As elsewhere, \<open>None\<close> is a panic and \<open>Inl\<close> an error; texts of notes are
  shortened to the part that tells the cases apart.
\<close>

section \<open>Numbers\<close>

record libm_ext =
  xl_libm :: libm
  xl_erf :: "f64 \<Rightarrow> f64"
  xl_cbrt :: "f64 \<Rightarrow> f64"
  xl_log10 :: "f64 \<Rightarrow> f64"

fun f_floor :: "f64 \<Rightarrow> f64" where
  "f_floor (Fin x) = Fin (of_int \<lfloor>x\<rfloor>)"
| "f_floor a = a"

fun f_ceil :: "f64 \<Rightarrow> f64" where
  "f_ceil (Fin x) = (if \<lceil>x\<rceil> = 0 \<and> x < 0 then NegZero else Fin (of_int \<lceil>x\<rceil>))"
| "f_ceil a = a"

definition year_ms :: f64 where
  \<comment> \<open>\<open>yearDays * float64(dayMs)\<close>, a constant\<close>
  "year_ms = f_const (36525 / 100 * of_int day_ms)"

definition annualize_roi :: "libm \<Rightarrow> f64 \<Rightarrow> f64 \<Rightarrow> f64" where
  "annualize_roi m roi years =
     (let base = f_add (Fin 1) roi in
      if f_le base (Fin 0) then Fin (- 1) else f_sub (m_pow m base (f_div (Fin 1) years)) (Fin 1))"

section \<open>The holdout (\<open>oos.go\<close>)\<close>

definition min_oos_days :: int where "min_oos_days = 90"

definition oos_green_alpha_monthly_ann :: f64 where "oos_green_alpha_monthly_ann = f_const (5 / 100)"

definition oos_red_alpha_monthly_ann :: f64 where "oos_red_alpha_monthly_ann = f_const (- 3 / 100)"

definition classify_oos_color :: "f64 \<Rightarrow> f64 \<Rightarrow> decision_color" where
  "classify_oos_color alpha_month alpha_week =
     (if f_le oos_green_alpha_monthly_ann alpha_month \<and> f_le (Fin 0) alpha_week then ColorGreen
      else if f_le alpha_month oos_red_alpha_monthly_ann then ColorRed
      else ColorYellow)"

definition insufficient_oos :: "string \<Rightarrow> oos_result" where
  "insufficient_oos note = \<lparr>oo_status = VerifInsufficientData, oo_alpha_monthly = None, oo_alpha_weekly = None,
     oo_decision_color = None, oo_notes = Some note\<rparr>"

definition oos_plan :: "evaluable_plan \<Rightarrow> crucible_window \<Rightarrow> evaluable_plan" where
  \<comment> \<open>the holdout as the only window, under the name of the shortest one\<close>
  "oos_plan plan w = plan\<lparr>pn_windows := [w\<lparr>cw_name := Window6M\<rparr>], pn_oos_window := None, pn_capture_returns := False\<rparr>"

definition oos_verdict ::
  "libm \<Rightarrow> dca_config \<Rightarrow> friction_params \<Rightarrow> eval_bar list \<Rightarrow> int \<Rightarrow> crucible_result \<Rightarrow> string + oos_result" where
  \<comment> \<open>what follows the evaluation of the window\<close>
  "oos_verdict m dca fp eval_bars span_ms sw =
     (if sl_fatal (cr_score sw) then
        Inr \<lparr>oo_status = VerifFailed, oo_alpha_monthly = None, oo_alpha_weekly = None,
           oo_decision_color = Some ColorRed,
           oo_notes = Some (case cr_fatal_reason sw of None \<Rightarrow> ''strategy Fatal on OOS''
             | Some why \<Rightarrow> ''strategy Fatal on OOS: '' @ why)\<rparr>
      else case sl_value (cr_score sw) of
        None \<Rightarrow> Inl ''verification.RunOOS: non-Fatal OOS window with nil Value''
      | Some strat_log \<Rightarrow>
          let years = f_div (f_of_int span_ms) year_ms in
          if f_le years (Fin 0) then Inl ''verification.RunOOS: non-positive years''
          else
            let strat_ann = f_sub (m_exp m (f_div strat_log years)) (Fin 1);
                monthly_ann = annualize_roi m (dx_roi (simulate_monthly dca eval_bars fp)) years;
                weekly_ann = annualize_roi m (dx_roi (simulate_weekly dca eval_bars fp)) years;
                alpha_monthly = f_sub strat_ann monthly_ann;
                alpha_weekly = f_sub strat_ann weekly_ann
            in Inr \<lparr>oo_status = VerifOK, oo_alpha_monthly = Some alpha_monthly, oo_alpha_weekly = Some alpha_weekly,
                 oo_decision_color = Some (classify_oos_color alpha_monthly alpha_weekly),
                 oo_notes = Some ''oos eval span''\<rparr>)"

definition replay :: "'r evolvable \<Rightarrow> (raw_result \<Rightarrow> bool) \<Rightarrow> evaluable_plan \<Rightarrow> gene \<Rightarrow> (string + raw_result) option" where
  \<comment> \<open>\<open>NewAdapter\<close>, \<open>Reset\<close>, \<open>Evaluate\<close> and the validator, as the three replays do\<close>
  "replay strat valid plan g =
     (case ev_new_adapter strat plan of
        Some e \<Rightarrow> Some (Inl e)
      | None \<Rightarrow>
        (case ev_reset strat plan of
           Some e \<Rightarrow> Some (Inl e)
         | None \<Rightarrow>
           (case ev_evaluate strat plan g of
              None \<Rightarrow> None
            | Some (Inl e) \<Rightarrow> Some (Inl e)
            | Some (Inr raw) \<Rightarrow> if valid raw then Some (Inr raw) else Some (Inl ''invalid raw''))))"

definition run_oos ::
  "libm \<Rightarrow> 'r evolvable \<Rightarrow> evaluable_plan \<Rightarrow> gene \<Rightarrow> dca_config \<Rightarrow> (string + oos_result) option" where
  "run_oos m strat plan g dca =
     (case pn_oos_window plan of
        None \<Rightarrow> Some (Inr (insufficient_oos ''no oos window in plan''))
      | Some w \<Rightarrow>
          if cw_bars w = [] then Some (Inr (insufficient_oos ''no oos window in plan''))
          else if cw_warmup_len w < 0 \<or> int (length (cw_bars w)) \<le> cw_warmup_len w
          then Some (Inl ''verification.RunOOS: invalid WarmupLen'')
          else
            let eval_bars = drop (nat (cw_warmup_len w)) (cw_bars w);
                span_ms = sub64 (eb_open_time (last eval_bars)) (eb_open_time (hd eval_bars));
                span_days = f_div (f_of_int span_ms) (f_of_int day_ms)
            in if f_lt span_days (f_of_int min_oos_days) then Some (Inr (insufficient_oos ''oos eval span below minimum''))
               else case replay strat valid_for_oos (oos_plan plan w) g of
                 None \<Rightarrow> None
               | Some (Inl e) \<Rightarrow> Some (Inl e)
               | Some (Inr raw) \<Rightarrow> Some (oos_verdict m dca (pn_friction plan) eval_bars span_ms (hd (rw_windows raw))))"

section \<open>Payloads\<close>

definition verification_status_name :: "verification_status \<Rightarrow> string" where
  "verification_status_name s = (case s of VerifNotRun \<Rightarrow> ''not_run'' | VerifOK \<Rightarrow> ''ok'' | VerifFailed \<Rightarrow> ''failed''
     | VerifInsufficientData \<Rightarrow> ''insufficient_data'' | VerifMismatch \<Rightarrow> ''mismatch'' | VerifOther x \<Rightarrow> x)"

definition decision_color_name :: "decision_color \<Rightarrow> string" where
  "decision_color_name c = (case c of ColorGreen \<Rightarrow> ''green'' | ColorYellow \<Rightarrow> ''yellow'' | ColorRed \<Rightarrow> ''red''
     | ColorGray \<Rightarrow> ''gray'')"

definition omit_float :: "string \<Rightarrow> f64 option \<Rightarrow> (string \<times> json) list option" where
  "omit_float key x = (case x of None \<Rightarrow> Some [] | Some v \<Rightarrow> map_option (\<lambda>j. [(key, j)]) (marshal_float v))"

definition marshal_oos_payload :: "oos_result \<Rightarrow> json option" where
  "marshal_oos_payload r =
     (case (omit_float ''oos_alpha_monthly'' (oo_alpha_monthly r), omit_float ''oos_alpha_weekly'' (oo_alpha_weekly r)) of
        (Some monthly, Some weekly) \<Rightarrow>
          Some (JObj ((''status'', JStr (verification_status_name (oo_status r))) # monthly @ weekly @
            omit_none ''decision_color'' (map_option (\<lambda>c. JStr (decision_color_name c)) (oo_decision_color r)) @
            omit_none ''notes'' (map_option JStr (oo_notes r))))
      | _ \<Rightarrow> None)"

definition marshal_review_payload :: "review_summary \<Rightarrow> json" where
  "marshal_review_payload r = JObj ((''status'', JStr (verification_status_name (rv_status r))) #
     omit_none ''notes'' (map_option JStr (rv_notes r)) @
     omit_none ''data_scope'' (map_option JStr (rv_data_scope r)))"

section \<open>Alpha of the in-sample windows (\<open>alpha.go\<close>)\<close>

definition alpha_breakdown_version_v1 :: string where "alpha_breakdown_version_v1 = ''alpha-v1''"

definition all_finite :: "f64 list \<Rightarrow> bool" where
  "all_finite xs = list_all f_finite xs"

definition plan_window_named :: "evaluable_plan \<Rightarrow> window_name \<Rightarrow> crucible_window option" where
  \<comment> \<open>\<open>byName\<close>: the last window of a name\<close>
  "plan_window_named plan n = find (\<lambda>w. cw_name w = n) (rev (pn_windows plan))"

definition window_alpha_of ::
  "libm \<Rightarrow> evaluable_plan \<Rightarrow> dca_config \<Rightarrow> crucible_result \<Rightarrow> window_alpha option" where
  \<comment> \<open>one round of the loop; \<open>None\<close> is \<open>continue\<close>\<close>
  "window_alpha_of m plan dca cr =
     (if sl_fatal (cr_score cr) \<or> cr_skipped_by cr \<noteq> None then None
      else case (sl_value (cr_score cr), plan_window_named plan (cr_window cr)) of
        (Some v, Some pw) \<Rightarrow>
          if cw_warmup_len pw < 0 \<or> int (length (cw_bars pw)) \<le> cw_warmup_len pw then None
          else
            let eval_bars = drop (nat (cw_warmup_len pw)) (cw_bars pw) in
            if length eval_bars < 2 then None
            else
              let span_ms = sub64 (eb_open_time (last eval_bars)) (eb_open_time (hd eval_bars));
                  years = f_div (f_of_int span_ms) year_ms
              in if f_le years (Fin 0) then None
                 else
                   let strat_ann = f_sub (m_exp m (f_div v years)) (Fin 1);
                       monthly_ann = annualize_roi m (dx_roi (simulate_monthly dca eval_bars (pn_friction plan))) years;
                       weekly_ann = annualize_roi m (dx_roi (simulate_weekly dca eval_bars (pn_friction plan))) years;
                       alpha_monthly = f_sub strat_ann monthly_ann;
                       alpha_weekly = f_sub strat_ann weekly_ann
                   in if all_finite [strat_ann, monthly_ann, weekly_ann, alpha_monthly, alpha_weekly]
                      then Some \<lparr>wa_window = window_json_name (cr_window cr), wa_strat_ann = strat_ann,
                        wa_dca_monthly_ann = monthly_ann, wa_dca_weekly_ann = weekly_ann,
                        wa_alpha_monthly_ann = alpha_monthly, wa_alpha_weekly_ann = alpha_weekly\<rparr>
                      else None
      | _ \<Rightarrow> None)"

definition run_is_alpha_breakdown ::
  "libm \<Rightarrow> crucible_result list \<Rightarrow> evaluable_plan \<Rightarrow> dca_config \<Rightarrow> alpha_breakdown" where
  "run_is_alpha_breakdown m ws plan dca =
     \<lparr>ab_version = alpha_breakdown_version_v1, ab_windows = List.map_filter (window_alpha_of m plan dca) ws\<rparr>"

definition window_alpha_json :: "window_alpha \<Rightarrow> json option" where
  "window_alpha_json w = map_option (\<lambda>vs. JObj ((''window'', JStr (wa_window w)) #
       zip [''strat_ann'', ''dca_monthly_ann'', ''dca_weekly_ann'', ''alpha_monthly_ann'', ''alpha_weekly_ann''] vs))
     (marshal_floats [wa_strat_ann w, wa_dca_monthly_ann w, wa_dca_weekly_ann w, wa_alpha_monthly_ann w,
        wa_alpha_weekly_ann w])"

definition alpha_breakdown_json :: "alpha_breakdown \<Rightarrow> json option" where
  \<comment> \<open>a nil slice is \<open>null\<close>\<close>
  "alpha_breakdown_json ab = map_option (\<lambda>ws. JObj [(''version'', JStr (ab_version ab)),
       (''windows'', if ws = [] then JNull else JArr ws)])
     (all_some (map window_alpha_json (ab_windows ab)))"

section \<open>The deflated Sharpe ratio (\<open>dsr.go\<close>)\<close>

record dsr_summary =
  ds_dsr :: "f64 option"
  ds_observed_sharpe :: f64
  ds_sharpe_variance :: f64
  ds_n_trials :: int
  ds_horizon_t :: int
  ds_skew :: f64
  ds_excess_kurt :: f64

definition min_trials_for_dsr :: int where "min_trials_for_dsr = 5"

definition euler_mascheroni :: rat where "euler_mascheroni = 5772156649015329 / 10000000000000000"

definition math_e :: rat where
  "math_e = 2718281828459045235360287471352662497757247093699959574966967627724 / 10 ^ 66"

definition math_sqrt2 :: rat where
  "math_sqrt2 = 141421356237309504880168872420969807856967187537694807317667974 / 10 ^ 62"

definition normal_cdf :: "libm_ext \<Rightarrow> f64 \<Rightarrow> f64" where
  "normal_cdf x v = f_mul f_half (f_add (Fin 1) (xl_erf x (f_div v (f_const math_sqrt2))))"

definition horner :: "rat list \<Rightarrow> f64 \<Rightarrow> f64" where
  \<comment> \<open>\<open>((c1*q+c2)*q+c3)*q+...\<close>\<close>
  "horner cs q = foldl (\<lambda>acc c. f_add (f_mul acc q) (f_const c)) (f_const (hd cs)) (tl cs)"

definition acklam_a :: "rat list" where
  "acklam_a = [- 3969683028665376 / 10 ^ 14, 2209460984245205 / 10 ^ 13, - 2759285104469687 / 10 ^ 13,
     1383577518672690 / 10 ^ 13, - 3066479806614716 / 10 ^ 14, 2506628277459239 / 10 ^ 15]"

definition acklam_b :: "rat list" where
  "acklam_b = [- 5447609879822406 / 10 ^ 14, 1615858368580409 / 10 ^ 13, - 1556989798598866 / 10 ^ 13,
     6680131188771972 / 10 ^ 14, - 1328068155288572 / 10 ^ 14, 1]"

definition acklam_c :: "rat list" where
  "acklam_c = [- 7784894002430293 / 10 ^ 18, - 3223964580411365 / 10 ^ 16, - 2400758277161838 / 10 ^ 15,
     - 2549732539343734 / 10 ^ 15, 4374664141464968 / 10 ^ 15, 2938163982698783 / 10 ^ 15]"

definition acklam_d :: "rat list" where
  "acklam_d = [7784695709041462 / 10 ^ 18, 3224671290700398 / 10 ^ 16, 2445134137142996 / 10 ^ 15,
     3754408661907416 / 10 ^ 15, 1]"

definition normal_inverse :: "libm \<Rightarrow> f64 \<Rightarrow> f64" where
  "normal_inverse m p =
     (if p = NaN then NaN
      else if f_le p (Fin 0) then Inf True
      else if f_le (Fin 1) p then Inf False
      else if f_lt p (f_const (2425 / 100000)) then
        (let q = m_sqrt m (f_mul (Fin (- 2)) (m_log m p)) in f_div (horner acklam_c q) (horner acklam_d q))
      else if f_le p (f_const (1 - 2425 / 100000)) then
        (let q = f_sub p f_half; r = f_mul q q in f_div (f_mul (horner acklam_a r) q) (horner acklam_b r))
      else
        (let q = m_sqrt m (f_mul (Fin (- 2)) (m_log m (f_sub (Fin 1) p)))
         in f_div (f_neg (horner acklam_c q)) (horner acklam_d q)))"

definition compute_dsr :: "libm_ext \<Rightarrow> f64 \<Rightarrow> f64 \<Rightarrow> int \<Rightarrow> int \<Rightarrow> f64 \<Rightarrow> f64 \<Rightarrow> f64" where
  "compute_dsr x observed variance n_trials horizon skew kurt =
     (if n_trials < min_trials_for_dsr then NaN
      else if f_le variance (Fin 0) \<or> horizon < 2 then NaN
      else
        let m = xl_libm x; n = f_of_int n_trials; sd = m_sqrt m variance;
            one = normal_inverse m (f_sub (Fin 1) (f_div (Fin 1) n));
            two = normal_inverse m (f_sub (Fin 1) (f_div (Fin 1) (f_mul n (f_const math_e))));
            sr0 = f_mul sd (f_add (f_mul (f_const (1 - euler_mascheroni)) one) (f_mul (f_const euler_mascheroni) two));
            radicand = f_add (f_sub (Fin 1) (f_mul skew observed))
              (f_mul (f_mul (f_div kurt (Fin 4)) observed) observed)
        in if f_le radicand (Fin 0) then NaN
           else
             let sigma = m_sqrt m (f_div radicand (f_of_int (horizon - 1))) in
             if f_le sigma (Fin 0) then NaN
             else normal_cdf x (f_div (f_sub observed sr0) sigma))"

section \<open>The review (\<open>review.go\<close>)\<close>

definition review_score_tolerance :: f64 where "review_score_tolerance = f_const (1 / 10 ^ 9)"

record review_expectation =
  rx_score :: score_total
  rx_fingerprint :: string
  rx_plan_hash :: string
  rx_bars_hash :: string

definition score_matches :: "score_total \<Rightarrow> score_total \<Rightarrow> bool" where
  "score_matches recorded replayed =
     (if st_fatal recorded \<noteq> st_fatal replayed then False
      else if st_fatal recorded then True
      else case (st_value recorded, st_value replayed) of
        (Some a, Some b) \<Rightarrow> \<not> f_lt review_score_tolerance (f_abs (f_sub a b))
      | _ \<Rightarrow> False)"

definition review_verdict :: "verification_status \<Rightarrow> string \<Rightarrow> review_summary" where
  "review_verdict st note = \<lparr>rv_status = st, rv_notes = Some note, rv_data_scope = Some ''is-windows''\<rparr>"

definition run_review ::
  "libm \<Rightarrow> 'r evolvable \<Rightarrow> evaluable_plan \<Rightarrow> gene \<Rightarrow> review_expectation \<Rightarrow> string \<Rightarrow> string
    \<Rightarrow> (window_name \<Rightarrow> f64) \<Rightarrow> f64 \<Rightarrow> (string + review_summary) option" where
  "run_review m strat plan g expect plan_h bars_h weights lambda =
     (if rx_plan_hash expect \<noteq> plan_h \<or> rx_bars_hash expect \<noteq> bars_h
      then Some (Inr (review_verdict VerifMismatch ''hash drift''))
      else if ev_fingerprint strat g \<noteq> rx_fingerprint expect
      then Some (Inr (review_verdict VerifMismatch ''fingerprint mismatch''))
      else case replay strat valid_for_is plan g of
        None \<Rightarrow> None
      | Some (Inl e) \<Rightarrow> Some (Inl e)
      | Some (Inr raw) \<Rightarrow>
          if score_matches (rx_score expect) (aggregate_score_total m (rw_windows raw) weights lambda)
          then Some (Inr (review_verdict VerifOK ''reproduced''))
          else Some (Inr (review_verdict VerifMismatch ''score mismatch'')))"

end
