(* ===== verification/Stress.thy ===== *)
theory Stress
  imports Verify
begin

text \<open>
  The stress test (\<open>verification/sbb.go\<close>, \<open>verification/stress.go\<close>): the length of the blocks is estimated
  from the autocorrelations of the returns, paths are resampled in circular blocks of geometric length
  by a 64-bit generator, and the report summarises them. The loop that fills a path ends because a block
  has at least one bar.
\<close>

section \<open>The generator\<close>

definition splitmix_next :: "64 word \<Rightarrow> 64 word \<times> 64 word" where
  \<comment> \<open>the value and the new state\<close>
  "splitmix_next s =
     (let s = s + 0x9e3779b97f4a7c15;
          z = (s XOR drop_bit 30 s) * 0xbf58476d1ce4e5b9;
          z = (z XOR drop_bit 27 z) * 0x94d049bb133111eb
      in (z XOR drop_bit 31 z, s))"

definition splitmix_float64 :: "64 word \<Rightarrow> f64 \<times> 64 word" where
  "splitmix_float64 s =
     (let (z, s) = splitmix_next s in (f_div (f_of_int (uint (drop_bit 11 z))) (Fin (2 ^ 53)), s))"

section \<open>The length of the blocks\<close>

definition sbb_block_len_fallback :: int where "sbb_block_len_fallback = 300"

definition sbb_block_len_min :: int where "sbb_block_len_min = 100"

definition sbb_block_len_max :: int where "sbb_block_len_max = 1440"

definition flat_top :: "f64 \<Rightarrow> f64" where
  "flat_top t =
     (let a = f_abs t in
      if f_le a f_half then Fin 1 else if f_le a (Fin 1) then f_mul (Fin 2) (f_sub (Fin 1) a) else Fin 0)"

definition insignificant_run :: "f64 list \<Rightarrow> f64 \<Rightarrow> nat \<Rightarrow> nat \<Rightarrow> bool" where
  "insignificant_run rho bound kn j = list_all (\<lambda>k. \<not> f_le bound (f_abs (rho ! k))) [j..<j + kn]"

definition flat_top_sums :: "f64 list \<Rightarrow> nat \<Rightarrow> f64 \<times> f64" where
  \<comment> \<open>\<open>g\<close> and \<open>sumW\<close>\<close>
  "flat_top_sums rho mhat = foldl (\<lambda>(g, w) k.
       let lam = flat_top (f_div (f_of_int (int k)) (f_of_int (int mhat))) in
       (f_add g (f_mul (f_mul (f_mul (Fin 2) lam) (f_of_int (int k))) (rho ! k)),
        f_add w (f_mul (f_mul (Fin 2) lam) (rho ! k))))
     (Fin 0, rho ! 0) [1..<Suc mhat]"

definition optimal_block_length_raw :: "libm_ext \<Rightarrow> f64 list \<Rightarrow> f64 option option" where
  \<comment> \<open>\<open>Some None\<close>: the estimator cannot run\<close>
  "optimal_block_length_raw x returns =
     (let n = length returns; fn = f_of_int (int n) in
      if n < 2 then Some None
      else
        let log10n = xl_log10 x fn;
            max_lag = f_to_int (f_ceil (f_add (m_sqrt (xl_libm x) fn) log10n))
        in if max_lag < 1 \<or> int n \<le> max_lag then Some None
           else case acf returns max_lag of
             None \<Rightarrow> None
           | Some rho \<Rightarrow>
               let bound = f_mul (Fin 2) (m_sqrt (xl_libm x) (f_div log10n fn));
                   kn = max 5 (f_to_int (f_math_round log10n))
               in case find (insignificant_run rho bound (nat kn)) [1..<nat (max_lag - kn + 2)] of
                 None \<Rightarrow> Some None
               | Some mhat \<Rightarrow>
                   let (g, w) = flat_top_sums rho mhat; dsb = f_mul (f_mul (Fin 2) w) w in
                   if f_le dsb (Fin 0) \<or> \<not> f_finite g then Some None
                   else
                     let b = xl_cbrt x (f_mul (f_div (f_mul (f_mul (Fin 2) g) g) dsb) fn) in
                     if \<not> f_finite b \<or> f_le b (Fin 0) then Some None else Some (Some b))"

definition optimal_block_length :: "libm_ext \<Rightarrow> f64 list \<Rightarrow> int option" where
  "optimal_block_length x returns =
     (case optimal_block_length_raw x returns of
        None \<Rightarrow> None
      | Some None \<Rightarrow> Some sbb_block_len_fallback
      | Some (Some raw) \<Rightarrow>
          (let v = f_to_int (f_math_round raw) in
           Some (if v < sbb_block_len_min then sbb_block_len_min
                 else if sbb_block_len_max < v then sbb_block_len_max else v)))"

section \<open>Paths\<close>

definition geom_block_len :: "libm \<Rightarrow> f64 \<Rightarrow> f64 \<Rightarrow> f64 \<Rightarrow> int" where
  "geom_block_len m u p_geom log_one_minus_p =
     (if f_le (Fin 1) p_geom then 1
      else let l = f_to_int (f_floor (f_div (m_log m (f_sub (Fin 1) u)) log_one_minus_p)) + 1
           in if l < 1 then 1 else l)"

lemma geom_block_len_pos: "1 \<le> geom_block_len m u p l"
  by (simp add: geom_block_len_def Let_def)

lemma block_fills [simp]: "0 < rest \<Longrightarrow> rest - min (nat (geom_block_len m u p l)) rest < rest"
  using geom_block_len_pos [of m u p l] by auto

record mc_path =
  mp_cum_log :: f64
  mp_peak :: f64
  mp_max_dd :: f64
  mp_ruined :: bool

definition mc_bar :: "libm \<Rightarrow> f64 \<Rightarrow> f64 \<Rightarrow> mc_path \<Rightarrow> mc_path" where
  "mc_bar m ruin_floor ret p =
     (let cum = f_add (mp_cum_log p) ret; equity = m_exp m cum;
          dd = f_div (f_sub (mp_peak p) equity) (mp_peak p)
      in \<lparr>mp_cum_log = cum,
          mp_peak = (if f_lt (mp_peak p) equity then equity else mp_peak p),
          mp_max_dd = (if \<not> f_lt (mp_peak p) equity \<and> f_lt (mp_max_dd p) dd then dd else mp_max_dd p),
          mp_ruined = (mp_ruined p \<or> f_le equity ruin_floor)\<rparr>)"

function mc_fill :: "libm \<Rightarrow> f64 list \<Rightarrow> f64 \<Rightarrow> f64 \<Rightarrow> f64 \<Rightarrow> nat \<Rightarrow> 64 word \<Rightarrow> mc_path \<Rightarrow> mc_path \<times> 64 word" where
  \<comment> \<open>the bars still to fill; the series is not empty\<close>
  "mc_fill m returns ruin_floor p_geom log_one_minus_p rest s p =
     (if rest = 0 then (p, s)
      else
        let (z, s) = splitmix_next s;
            start = nat (uint z mod int (length returns));
            (u, s) = splitmix_float64 s;
            k = min (nat (geom_block_len m u p_geom log_one_minus_p)) rest;
            p = foldl (\<lambda>p j. mc_bar m ruin_floor (returns ! ((start + j) mod length returns)) p) p [0..<k]
        in mc_fill m returns ruin_floor p_geom log_one_minus_p (rest - k) s p)"
  by pat_completeness auto
termination by (relation "measure (\<lambda>(_, _, _, _, _, rest, _, _). rest)") auto

definition mc_start :: mc_path where
  "mc_start = \<lparr>mp_cum_log = Fin 0, mp_peak = Fin 1, mp_max_dd = Fin 0, mp_ruined = False\<rparr>"

fun mc_paths :: "libm \<Rightarrow> f64 list \<Rightarrow> f64 \<Rightarrow> f64 \<Rightarrow> f64 \<Rightarrow> nat \<Rightarrow> 64 word \<Rightarrow> mc_path list" where
  "mc_paths m returns ruin_floor p_geom log_one_minus_p 0 s = []"
| "mc_paths m returns ruin_floor p_geom log_one_minus_p (Suc k) s =
     (let (p, s) = mc_fill m returns ruin_floor p_geom log_one_minus_p (length returns) s mc_start
      in p # mc_paths m returns ruin_floor p_geom log_one_minus_p k s)"

section \<open>The report\<close>

record mc_report =
  mc_version :: string
  mc_n_iter :: int
  mc_block_len_mean :: int
  mc_seed :: int
  mc_ruin_probability :: f64
  mc_final_equity_p5 :: f64
  mc_final_equity_p50 :: f64
  mc_final_equity_p95 :: f64
  mc_worst_mdd_1pct :: f64

definition stress_summary_version_v1 :: string where "stress_summary_version_v1 = ''stress-v1''"

definition float_less :: "f64 \<Rightarrow> f64 \<Rightarrow> bool" where
  \<comment> \<open>the order of \<open>sort.Float64s\<close>: NaN first\<close>
  "float_less a b \<longleftrightarrow> f_lt a b \<or> (a = NaN \<and> b \<noteq> NaN)"

definition sort_floats :: "f64 list \<Rightarrow> f64 list" where
  "sort_floats = stable_sort float_less"

definition percentile :: "f64 list \<Rightarrow> f64 \<Rightarrow> f64" where
  \<comment> \<open>for a rank between 0 and 100, so that both indices are in range\<close>
  "percentile xs p =
     (case xs of
        [] \<Rightarrow> Fin 0
      | [x] \<Rightarrow> x
      | _ \<Rightarrow>
          let rank = f_mul (f_div p (Fin 100)) (f_of_int (int (length xs) - 1));
              lo = f_to_int (f_floor rank); hi = f_to_int (f_ceil rank)
          in if lo = hi then xs ! nat lo
             else let frac = f_sub rank (f_of_int lo)
                  in f_add (f_mul (xs ! nat lo) (f_sub (Fin 1) frac)) (f_mul (xs ! nat hi) frac))"

definition run_monte_carlo :: "libm \<Rightarrow> f64 list \<Rightarrow> int \<Rightarrow> int \<Rightarrow> int \<Rightarrow> f64 \<Rightarrow> mc_report" where
  "run_monte_carlo m returns block_len_mean n_iter seed fatal_mdd =
     (let rep = \<lparr>mc_version = stress_summary_version_v1, mc_n_iter = n_iter, mc_block_len_mean = block_len_mean,
                  mc_seed = seed, mc_ruin_probability = Fin 0, mc_final_equity_p5 = Fin 0,
                  mc_final_equity_p50 = Fin 0, mc_final_equity_p95 = Fin 0, mc_worst_mdd_1pct = Fin 0\<rparr>
      in if returns = [] \<or> n_iter \<le> 0 then rep
         else
           let mean = (if block_len_mean < 1 then 1 else block_len_mean);
               p_geom = f_div (Fin 1) (f_of_int mean);
               paths = mc_paths m returns (f_sub (Fin 1) fatal_mdd) p_geom (m_log m (f_sub (Fin 1) p_geom))
                 (nat n_iter) (word_of_int seed);
               finals = sort_floats (map (\<lambda>p. m_exp m (mp_cum_log p)) paths);
               mdds = sort_floats (map mp_max_dd paths)
           in rep\<lparr>mc_ruin_probability := f_div (f_of_int (int (length (filter mp_ruined paths)))) (f_of_int n_iter),
                mc_final_equity_p5 := percentile finals (Fin 5), mc_final_equity_p50 := percentile finals (Fin 50),
                mc_final_equity_p95 := percentile finals (Fin 95), mc_worst_mdd_1pct := percentile mdds (Fin 99)\<rparr>)"

definition default_stress_iters :: int where "default_stress_iters = 1000"

definition run_stress ::
  "libm_ext \<Rightarrow> 'r evolvable \<Rightarrow> evaluable_plan \<Rightarrow> gene \<Rightarrow> int \<Rightarrow> (string + mc_report option) option" where
  "run_stress x strat plan g seed =
     (case replay strat (\<lambda>raw. rw_longest_returns raw = [] \<or> valid_for_stress raw)
             (plan\<lparr>pn_capture_returns := True\<rparr>) g of
        None \<Rightarrow> None
      | Some (Inl e) \<Rightarrow> Some (Inl e)
      | Some (Inr raw) \<Rightarrow>
          let returns = rw_longest_returns raw in
          if returns = [] then Some (Inr None)
          else case optimal_block_length x returns of
            None \<Rightarrow> None
          | Some len \<Rightarrow>
              Some (Inr (Some (run_monte_carlo (xl_libm x) returns len default_stress_iters seed (pn_fatal_mdd plan)))))"

definition mc_report_json :: "mc_report \<Rightarrow> json option" where
  "mc_report_json r = map_option (\<lambda>vs. JObj ([(''version'', JStr (mc_version r)), (''n_iter'', JInt (mc_n_iter r)),
       (''block_len_mean'', JInt (mc_block_len_mean r)), (''seed'', JInt (mc_seed r))] @
       zip [''ruin_probability'', ''final_equity_p5'', ''final_equity_p50'', ''final_equity_p95'', ''worst_mdd_1pct''] vs))
     (marshal_floats [mc_ruin_probability r, mc_final_equity_p5 r, mc_final_equity_p50 r, mc_final_equity_p95 r,
        mc_worst_mdd_1pct r])"

end
