(* ===== verification/PlanTheorems.thy ===== *)
theory PlanTheorems
  imports Plan Requests EpochTheorems "HOL-Library.Sublist"
begin

text \<open>
  What the plan builder promises: every window is a slice of the in-sample bars that ends with them and
  starts its evaluation after its warm-up, no in-sample bar reaches into the out-of-sample evaluation,
  and the plan suits the engine.
\<close>

section \<open>Bars in order\<close>

lemma ascending_nth:
  assumes "ascending bars" "i < j" "j < length bars"
  shows "eb_open_time (bars ! i) < eb_open_time (bars ! j)"
  using assms
proof (induction bars arbitrary: i j rule: ascending.induct)
  case (1 a b bs)
  show ?case
  proof (cases i)
    case 0
    obtain k where k: "j = Suc k" using 1(3) by (cases j) auto
    show ?thesis
    proof (cases k)
      case 0
      with 1(2) k \<open>i = 0\<close> show ?thesis by simp
    next
      case (Suc n)
      have "eb_open_time ((b # bs) ! 0) < eb_open_time ((b # bs) ! k)"
        by (rule 1(1)) (use 1(2,4) k Suc in auto)
      with 1(2) k \<open>i = 0\<close> show ?thesis by simp
    qed
  next
    case (Suc n)
    then obtain k where k: "j = Suc k" using 1(3) by (cases j) auto
    have "eb_open_time ((b # bs) ! n) < eb_open_time ((b # bs) ! k)"
      by (rule 1(1)) (use 1(2,3,4) k Suc in auto)
    with k Suc show ?thesis by simp
  qed
qed auto

lemma ascending_le:
  "ascending bars \<Longrightarrow> i \<le> j \<Longrightarrow> j < length bars \<Longrightarrow> eb_open_time (bars ! i) \<le> eb_open_time (bars ! j)"
  using ascending_nth [of bars i j] by (cases "i = j") auto

lemma ascending_take: "ascending bars \<Longrightarrow> ascending (take n bars)"
proof (induction bars arbitrary: n rule: ascending.induct)
  case (1 a b bs)
  show ?case
  proof (cases n)
    case (Suc m)
    then show ?thesis using 1(1) [of m] 1(2) by (cases m) auto
  qed simp
qed (auto simp: take_Cons split: nat.split)

lemma first_from:
  assumes "ascending bars"
  shows "first_from bars ts \<le> length bars"
    and "k < first_from bars ts \<Longrightarrow> eb_open_time (bars ! k) < ts"
    and "first_from bars ts < length bars \<Longrightarrow> ts \<le> eb_open_time (bars ! first_from bars ts)"
proof -
  have up: "up_closed (length bars) (\<lambda>i. ts \<le> eb_open_time (bars ! i))"
    unfolding up_closed_def
  proof (intro allI impI)
    fix a b assume "a \<le> b" "b < length bars" "ts \<le> eb_open_time (bars ! a)"
    then show "ts \<le> eb_open_time (bars ! b)"
      using ascending_nth [OF assms, of a b] by (cases "a = b") auto
  qed
  note least = sort_search_least [OF up]
  show "first_from bars ts \<le> length bars" unfolding first_from_def by (rule least(1))
  show "k < first_from bars ts \<Longrightarrow> eb_open_time (bars ! k) < ts"
    using least(2) [of k] unfolding first_from_def by simp
  show "first_from bars ts < length bars \<Longrightarrow> ts \<le> eb_open_time (bars ! first_from bars ts)"
    using least(3) unfolding first_from_def .
qed

lemma first_from_mono:
  assumes "ascending bars" "ts \<le> ts'" shows "first_from bars ts \<le> first_from bars ts'"
proof (rule ccontr)
  assume "\<not> ?thesis"
  then have lt: "first_from bars ts' < first_from bars ts" by simp
  then have "first_from bars ts' < length bars" using first_from(1) [OF assms(1), of ts] by simp
  from first_from(3) [OF assms(1) this] first_from(2) [OF assms(1) lt] assms(2) show False by simp
qed

section \<open>Windows\<close>

definition times_ok :: "eval_bar list \<Rightarrow> int \<Rightarrow> bool" where
  \<comment> \<open>no sum of times and spans leaves int64\<close>
  "times_ok bars warmup_days \<longleftrightarrow> (\<forall>b\<in>set bars. 0 \<le> eb_open_time b \<and> eb_open_time b < 2 ^ 61) \<and>
     0 \<le> warmup_days \<and> warmup_days * day_ms < 2 ^ 61"

definition cut_from :: "eval_bar list \<Rightarrow> crucible_window \<Rightarrow> bool" where
  \<comment> \<open>the last bars of a series, with the evaluation starting right after the warm-up\<close>
  "cut_from bars w \<longleftrightarrow> (\<exists>k. cw_bars w = drop k bars) \<and>
     0 \<le> cw_warmup_len w \<and> cw_warmup_len w < int (length (cw_bars w)) \<and>
     cw_start_ts w = eb_open_time (cw_bars w ! nat (cw_warmup_len w)) \<and>
     cw_end_ts w = eb_open_time (last bars)"

lemma cutI:
  assumes "k \<le> i" "i < length bars"
  shows "cut_from bars \<lparr>cw_name = n, cw_start_ts = eb_open_time (bars ! i), cw_end_ts = eb_open_time (last bars),
      cw_warmup_len = int i - int k, cw_bars = drop k bars\<rparr>"
  using assms by (auto simp: cut_from_def nat_diff_distrib)

definition eval_days :: "window_name \<Rightarrow> int" where
  "eval_days n = (case map_of window_specs n of Some d \<Rightarrow> d | None \<Rightarrow> 0)"

definition window_fits :: "eval_bar list \<Rightarrow> int \<Rightarrow> crucible_window \<Rightarrow> bool" where
  \<comment> \<open>the evaluation covers the window's days and leaves the warm-up before it\<close>
  "window_fits bars warmup_days w \<longleftrightarrow>
     (let days = eval_days (cw_name w); stop = eb_open_time (last bars); start = eb_open_time (hd bars);
          span = (if 0 < days then days * day_ms else stop - start - warmup_days * day_ms)
      in 0 < span \<and> start \<le> stop - span - warmup_days * day_ms \<and> stop - span \<le> cw_start_ts w \<and>
         (\<forall>b\<in>set (cw_bars w). stop - span - warmup_days * day_ms \<le> eb_open_time b) \<and>
         (\<forall>j<nat (cw_warmup_len w). eb_open_time (cw_bars w ! j) < stop - span))"

lemma spans_exact:
  assumes "0 \<le> a" "a < 2 ^ 61" "0 \<le> b" "b < 2 ^ 61" "0 \<le> w" "w < 2 ^ 61" "- (2 ^ 62) \<le> s" "s < 2 ^ 62"
  shows "sub64 b a = b - a" "sub64 (b - a) w = b - a - w" "add64 s w = s + w" "sub64 b s = b - s"
    "sub64 (b - s) w = b - s - w" "in64 w"
  using assms by (auto intro!: sub64_exact add64_exact simp: in64_def)

lemma day_spans: "0 \<le> d \<Longrightarrow> d \<le> 1825 \<Longrightarrow> in64 (d * day_ms)"
  by (simp add: in64_def day_ms_def)

lemma is_window_cut:
  assumes "ascending bars" "bars \<noteq> []" "times_ok bars warmup_days" "spec \<in> set window_specs"
  shows "\<exists>r. is_window bars warmup_days spec = Some r \<and>
    (\<forall>w. r = Some w \<longrightarrow> cw_name w = fst spec \<and> cut_from bars w \<and> window_fits bars warmup_days w)"
proof -
  obtain name days where spec: "spec = (name, days)" by (cases spec)
  have days: "0 \<le> days" "days \<le> 1825" "eval_days name = days"
    using assms(4) spec by (auto simp: window_specs_def eval_days_def)
  let ?start = "eb_open_time (hd bars)" and ?stop = "eb_open_time (last bars)" and ?wm = "warmup_days * day_ms"
  have t: "0 \<le> ?start" "?start < 2 ^ 61" "0 \<le> ?stop" "?stop < 2 ^ 61" "0 \<le> ?wm" "?wm < 2 ^ 61"
    using assms(2,3) by (auto simp: times_ok_def day_ms_def)
  let ?span = "if 0 < days then days * day_ms else ?stop - ?start - ?wm"
  have small: "- (2 ^ 62) \<le> ?span" "?span < 2 ^ 62"
    using t days by (auto simp: day_ms_def)
  have ex: "mul64 warmup_days day_ms = ?wm" "sub64 ?stop ?start = ?stop - ?start"
    "mul64 days day_ms = days * day_ms" "sub64 (?stop - ?start) ?wm = ?stop - ?start - ?wm"
    "add64 ?span ?wm = ?span + ?wm" "sub64 ?stop ?span = ?stop - ?span"
    "sub64 (?stop - ?span) ?wm = ?stop - ?span - ?wm"
    using spans_exact [OF t(1-4) t(5,6) small] days by (simp_all only: mul64_def wrap64_id day_spans)
  let ?skip = "?span \<le> 0 \<or> ?stop - ?start < ?span + ?wm"
  let ?wi = "first_from bars (?stop - ?span - ?wm)" and ?ei = "first_from bars (?stop - ?span)"
  have shape: "is_window bars warmup_days spec =
    (if ?skip then Some None
     else if length bars \<le> ?ei then None
     else Some (Some \<lparr>cw_name = name, cw_start_ts = eb_open_time (bars ! ?ei), cw_end_ts = ?stop,
            cw_warmup_len = int ?ei - int ?wi, cw_bars = drop ?wi bars\<rparr>))"
    unfolding is_window_def spec prod.case Let_def ex(1,2,3) unfolding ex(4) ex(5,6) ex(7) ..
  show ?thesis
  proof (cases ?skip)
    case True
    with shape show ?thesis by simp
  next
    case False
    have wi: "?wi \<le> ?ei" using t by (intro first_from_mono [OF assms(1)]) simp
    have ei: "?ei < length bars"
    proof (rule ccontr)
      assume "\<not> ?thesis"
      then have "length bars - 1 < ?ei" using assms(2) by (cases bars) auto
      from first_from(2) [OF assms(1) this] show False using assms(2) False by (simp add: last_conv_nth)
    qed
    let ?w = "\<lparr>cw_name = name, cw_start_ts = eb_open_time (bars ! ?ei), cw_end_ts = ?stop,
            cw_warmup_len = int ?ei - int ?wi, cw_bars = drop ?wi bars\<rparr>"
    have "is_window bars warmup_days spec = Some (Some ?w)" using shape False ei by simp
    moreover have "cut_from bars ?w" by (rule cutI [OF wi ei])
    moreover have "window_fits bars warmup_days ?w"
      unfolding window_fits_def crucible_window.simps days(3) Let_def
    proof (intro conjI ballI allI impI)
      show "0 < ?span" "?start \<le> ?stop - ?span - ?wm" using False by auto
      show "?stop - ?span \<le> eb_open_time (bars ! ?ei)" by (rule first_from(3) [OF assms(1) ei])
      fix b assume "b \<in> set (drop ?wi bars)"
      then obtain i where i: "i < length (drop ?wi bars)" "b = drop ?wi bars ! i" by (auto simp: in_set_conv_nth)
      then have b: "b = bars ! (?wi + i)" "?wi + i < length bars" by auto
      have "?stop - ?span - ?wm \<le> eb_open_time (bars ! ?wi)" using first_from(3) [OF assms(1)] b(2) by simp
      also have "\<dots> \<le> eb_open_time b"
        using ascending_nth [OF assms(1), of ?wi "?wi + i"] b by (cases "i = 0") auto
      finally show "?stop - ?span - ?wm \<le> eb_open_time b" .
    next
      fix j assume "j < nat (int ?ei - int ?wi)"
      then have "?wi + j < ?ei" by linarith
      from first_from(2) [OF assms(1) this] show "eb_open_time (drop ?wi bars ! j) < ?stop - ?span"
        using ei \<open>?wi + j < ?ei\<close> by simp
    qed
    ultimately show ?thesis by (simp add: spec)
  qed
qed

lemma is_windows_cut:
  assumes "ascending bars" "times_ok bars warmup_days"
  shows "\<exists>ws. is_windows bars warmup_days = Some ws \<and> subseq (map cw_name ws) all_windows \<and>
    (\<forall>w\<in>set ws. cut_from bars w \<and> window_fits bars warmup_days w)"
proof (cases "bars = []")
  case True
  then show ?thesis by (simp add: is_windows_def)
next
  case False
  have "\<exists>ws. collect_windows (map (is_window bars warmup_days) specs) = Some ws \<and>
      subseq (map cw_name ws) (map fst specs) \<and> (\<forall>w\<in>set ws. cut_from bars w \<and> window_fits bars warmup_days w)"
    if "set specs \<subseteq> set window_specs" for specs
    using that
  proof (induction specs)
    case (Cons spec specs)
    from Cons obtain ws where ws: "collect_windows (map (is_window bars warmup_days) specs) = Some ws"
      "subseq (map cw_name ws) (map fst specs)" "\<forall>w\<in>set ws. cut_from bars w \<and> window_fits bars warmup_days w"
      by auto
    have "spec \<in> set window_specs" using Cons.prems by simp
    from is_window_cut [OF assms(1) False assms(2) this] obtain r where r: "is_window bars warmup_days spec = Some r"
      "\<forall>w. r = Some w \<longrightarrow> cw_name w = fst spec \<and> cut_from bars w \<and> window_fits bars warmup_days w" by blast
    show ?case
    proof (cases r)
      case None
      with r ws show ?thesis by auto
    next
      case (Some w)
      with r ws show ?thesis by auto
    qed
  qed simp
  from this [of window_specs] False show ?thesis
    by (simp add: is_windows_def window_specs_def all_windows_def)
qed

definition oos_fits :: "int option \<Rightarrow> bool" where
  "oos_fits oos_days \<longleftrightarrow> (case oos_days of None \<Rightarrow> True | Some d \<Rightarrow> d * day_ms < 2 ^ 61)"

lemma takeWhile_before:
  assumes "ascending bars" "i < length bars"
  shows "takeWhile (\<lambda>b. eb_open_time b < eb_open_time (bars ! i)) bars = take i bars"
proof (rule takeWhile_eq_take_P_nth)
  fix k assume "k < i" "k < length bars"
  then show "eb_open_time (bars ! k) < eb_open_time (bars ! i)" using ascending_nth assms by blast
qed simp

lemma times_ok_take: "times_ok bars w \<Longrightarrow> times_ok (take n bars) w"
  by (auto simp: times_ok_def dest: in_set_takeD)

definition window_sound :: "eval_bar list \<Rightarrow> int \<Rightarrow> crucible_window list \<Rightarrow> crucible_window option \<Rightarrow> bool" where
  \<comment> \<open>what the builder promises of its windows\<close>
  "window_sound bars warmup_days ws oos \<longleftrightarrow>
     subseq (map cw_name ws) all_windows \<and>
     (\<forall>w\<in>set ws. cut_from (baseline_bars oos bars) w \<and> window_fits (baseline_bars oos bars) warmup_days w) \<and>
     (case oos of None \<Rightarrow> True
      | Some w \<Rightarrow> cw_name w = WindowOOS \<and> cut_from bars w \<and>
          eb_open_time (hd bars) + warmup_days * day_ms \<le> cw_start_ts w)"

lemma built_windows_helper:
  assumes ok: "times_ok bars warmup_days" "oos_fits oos_days" and valid: "bars \<noteq> []" "ascending bars"
  shows "\<exists>r. build_crucible_windows bars warmup_days oos_days = Some r \<and>
    (\<forall>ws oos. r = Inr (ws, oos) \<longrightarrow> window_sound bars warmup_days ws oos)"
proof -
  have w0: "\<not> warmup_days < 0" using ok(1) by (simp add: times_ok_def)
  from is_windows_cut [OF valid(2) ok(1)] obtain ws where all: "is_windows bars warmup_days = Some ws"
    "subseq (map cw_name ws) all_windows" "\<forall>w\<in>set ws. cut_from bars w \<and> window_fits bars warmup_days w" by blast
  have without: "window_sound bars warmup_days ws None"
    using all by (simp add: window_sound_def baseline_bars_def)
  show ?thesis
  proof (cases oos_days)
    case None
    then show ?thesis using valid w0 all without by (simp add: build_crucible_windows_def)
  next
    case (Some days)
    show ?thesis
    proof (cases "days \<le> 0")
      case True
      then show ?thesis using valid w0 Some by (simp add: build_crucible_windows_def)
    next
      case False
      let ?start = "eb_open_time (hd bars)" and ?stop = "eb_open_time (last bars)" and ?wm = "warmup_days * day_ms"
      let ?os = "?stop - days * day_ms" and ?dm = "days * day_ms"
      have t: "0 \<le> ?start" "?start < 2 ^ 61" "0 \<le> ?stop" "?stop < 2 ^ 61" "0 \<le> ?wm" "?wm < 2 ^ 61"
        using valid(1) ok(1) by (auto simp: times_ok_def day_ms_def)
      have d: "0 < ?dm" "?dm < 2 ^ 61" using ok(2) Some False by (auto simp: oos_fits_def day_ms_def)
      have "in64 ?wm" "in64 ?dm" using t(5,6) d by (simp_all add: in64_def)
      then have mul: "mul64 warmup_days day_ms = ?wm" "mul64 days day_ms = ?dm" by simp_all
      have sub: "sub64 ?stop ?dm = ?os" "sub64 ?os ?wm = ?os - ?wm"
        using spans_exact(4,5) [OF t(1-6), of ?dm] d by simp_all
      let ?i = "first_from bars ?os" and ?k = "first_from bars (?os - ?wm)"
      have i: "?i < length bars"
      proof (rule ccontr)
        assume "\<not> ?thesis"
        then have "length bars - 1 < ?i" using valid(1) by (cases bars) auto
        from first_from(2) [OF valid(2) this] show False using valid(1) d(1) by (simp add: last_conv_nth)
      qed
      let ?o = "\<lparr>cw_name = WindowOOS, cw_start_ts = eb_open_time (bars ! ?i), cw_end_ts = ?stop,
          cw_warmup_len = int ?i - int ?k, cw_bars = drop ?k bars\<rparr>"
      have shape: "build_crucible_windows bars warmup_days oos_days =
        (if ?i = 0 then Some (Inl ''oos request consumes entire history'')
         else if ?start \<le> ?os - ?wm then
           map_option (\<lambda>ws. Inr (ws, Some ?o)) (is_windows (take ?i bars) warmup_days)
         else Some (Inr (ws, None)))"
        unfolding build_crucible_windows_def Some option.case Let_def mul sub all(1) using valid w0 False i by simp
      show ?thesis
      proof (cases "?i \<noteq> 0 \<and> ?start \<le> ?os - ?wm")
        case False
        then show ?thesis unfolding shape using without by auto
      next
        case True
        from is_windows_cut [OF ascending_take [OF valid(2)] times_ok_take [OF ok(1)], of ?i] obtain vs where
          vs: "is_windows (take ?i bars) warmup_days = Some vs" "subseq (map cw_name vs) all_windows"
            "\<forall>w\<in>set vs. cut_from (take ?i bars) w \<and> window_fits (take ?i bars) warmup_days w" by blast
        have k: "?k \<le> ?i" using t(5) by (intro first_from_mono [OF valid(2)]) simp
        have "window_sound bars warmup_days vs (Some ?o)"
          unfolding window_sound_def baseline_bars_def option.case crucible_window.simps
            takeWhile_before [OF valid(2) i]
          using vs(2,3) cutI [OF k i, of WindowOOS] first_from(3) [OF valid(2) i] True by auto
        with shape True vs(1) show ?thesis by simp
      qed
    qed
  qed
qed


definition coarse_bars :: "nat \<Rightarrow> eval_bar list" where
  \<comment> \<open>a bar every 25 days\<close>
  "coarse_bars n = map (\<lambda>i. \<lparr>eb_open_time = int i * 2160000000, eb_open = Fin 100, eb_high = Fin 100, eb_low = Fin 100,
     eb_close = Fin 100, eb_volume = Fin 1, eb_is_gap = False, eb_gap_type = []\<rparr>) [0..<n]"

lemma coarse_times: "times_ok (coarse_bars 17) 30"
  by (auto simp: times_ok_def coarse_bars_def day_ms_def)

definition coarse_windows :: "crucible_window list \<times> crucible_window option" where
  "coarse_windows = (case build_crucible_windows (coarse_bars 17) 30 (Some 100) of Some (Inr r) \<Rightarrow> r | _ \<Rightarrow> ([], None))"


section \<open>The plan and the engine\<close>

lemma built_plan_parts:
  assumes "build_evaluable_plan digest bars po = Some (Inr (plan, ph, bh))"
  obtains ws oos where
    "build_crucible_windows bars (po_warmup_days po) (po_oos_days po) = Some (Inr (ws, oos))" "ws \<noteq> []"
    "plan = plan_of po bars ws oos"
    "0 < po_min_eval_bars po \<longrightarrow> (\<forall>w\<in>set ws. po_min_eval_bars po \<le> int (length (cw_bars w)))"
    "bars_hash digest bars = Some bh" "plan_hash digest plan = Some ph"
proof -
  from assms obtain ws oos where w: "build_crucible_windows bars (po_warmup_days po) (po_oos_days po) = Some (Inr (ws, oos))"
    by (auto simp: build_evaluable_plan_def split: option.splits sum.splits)
  with assms show thesis
    by (intro that [of ws oos]) (fastforce simp: build_evaluable_plan_def Let_def list_ex_iff
        split: if_splits option.splits)+
qed

lemma subseq_all_windows: "subseq (map cw_name ws) all_windows \<Longrightarrow> w \<in> set ws \<Longrightarrow> cw_name w \<in> set all_windows"
  by (elim list_emb_set [of "(=)" _ _ "cw_name w"]) auto

lemma built_plan_windows_ok:
  assumes "times_ok bars (po_warmup_days po)" "oos_fits (po_oos_days po)"
    "build_evaluable_plan digest bars po = Some (Inr (plan, ph, bh))"
  shows "windows_ok plan"
    "0 < po_min_eval_bars po \<Longrightarrow> w \<in> set (pn_windows plan) \<Longrightarrow> po_min_eval_bars po \<le> int (length (cw_bars w))"
proof -
  from assms(3) obtain ws oos where p: "build_crucible_windows bars (po_warmup_days po) (po_oos_days po) = Some (Inr (ws, oos))"
    "ws \<noteq> []" "plan = plan_of po bars ws oos"
    "0 < po_min_eval_bars po \<longrightarrow> (\<forall>w\<in>set ws. po_min_eval_bars po \<le> int (length (cw_bars w)))"
    by (rule built_plan_parts)
  have "bars \<noteq> []" "ascending bars"
    using p(1) by (auto simp: build_crucible_windows_def split: if_splits)
  from built_windows_helper [OF assms(1,2) this] p(1) have s: "window_sound bars (po_warmup_days po) ws oos" by auto
  then have cuts: "\<forall>w\<in>set ws. cw_name w \<in> set all_windows \<and> 0 \<le> cw_warmup_len w \<and> cw_warmup_len w < int (length (cw_bars w))"
    using subseq_all_windows by (auto simp: window_sound_def cut_from_def)
  then have "has_window plan" using p(2,3) by (cases ws) (auto simp: has_window_def plan_of_def)
  with cuts show "windows_ok plan" by (auto simp: windows_ok_def p(3) plan_of_def)
  show "0 < po_min_eval_bars po \<Longrightarrow> w \<in> set (pn_windows plan) \<Longrightarrow> po_min_eval_bars po \<le> int (length (cw_bars w))"
    using p(3,4) by (simp add: plan_of_def)
qed

section \<open>A holdout too long\<close>

text \<open>
  C32: A holdout of 160127986752 days is accepted by the validation of a request, but its milliseconds
  wrap around in 64 bits, the search for its first bar runs off the end, and building the windows panics
  on every series of bars.
\<close>
theorem huge_oos_days_panics:
  assumes "times_ok bars warmup_days" "bars \<noteq> []" "ascending bars"
  shows "build_crucible_windows bars warmup_days (Some 160127986752) = None \<and>
    validate_create_task (r\<lparr>ct_oos_days := Some 160127986752\<rparr>) = validate_create_task (r\<lparr>ct_oos_days := None\<rparr>)"
proof -
  let ?start = "eb_open_time (hd bars)" and ?stop = "eb_open_time (last bars)" and ?wm = "warmup_days * day_ms"
  let ?shift = "mul64 160127986752 day_ms"
  have t: "0 \<le> ?start" "?start < 2 ^ 61" "0 \<le> ?stop" "?stop < 2 ^ 61" "0 \<le> ?wm" "?wm < 2 ^ 61" "0 \<le> warmup_days"
    using assms(1,2) by (auto simp: times_ok_def day_ms_def)
  have neg: "?shift < - (2 ^ 61)" "- (2 ^ 62) \<le> ?shift" by (simp_all add: mul64_def wrap64_def day_ms_def)
  have "in64 ?wm" using t(5,6) by (simp add: in64_def)
  then have wm: "mul64 warmup_days day_ms = ?wm" by simp
  have sub: "sub64 ?stop ?shift = ?stop - ?shift" "sub64 (?stop - ?shift) ?wm = ?stop - ?shift - ?wm"
    using spans_exact(4,5) [OF t(1-6), of ?shift] neg by simp_all
  let ?i = "first_from bars (?stop - ?shift)"
  have "\<not> ?i < length bars"
  proof
    assume i: "?i < length bars"
    have "eb_open_time (bars ! ?i) \<le> ?stop"
      using ascending_le [OF assms(3), of ?i "length bars - 1"] i assms(2) by (simp add: last_conv_nth del: One_nat_def)
    with first_from(3) [OF assms(3) i] neg(1) show False by simp
  qed
  moreover have "?start \<le> ?stop"
    using ascending_le [OF assms(3), of 0 "length bars - 1"] assms(2) by (simp add: hd_conv_nth last_conv_nth del: One_nat_def)
  then have "?start \<le> ?stop - ?shift - ?wm" using t neg(1) by linarith
  moreover from calculation(1) have "?i \<noteq> 0" using assms(2) by (metis length_greater_0_conv)
  ultimately have "build_crucible_windows bars warmup_days (Some 160127986752) = None"
    unfolding build_crucible_windows_def option.case Let_def wm sub using assms(2,3) t(7) by auto
  then show ?thesis by (simp add: validate_create_task_def)
qed

theorem huge_oos_days_panics_witness:
  "build_crucible_windows (coarse_bars 17) 30 (Some 160127986752) = None"
proof -
  have "coarse_bars 17 \<noteq> []" "ascending (coarse_bars 17)" by code_simp+
  from huge_oos_days_panics [OF coarse_times this] show ?thesis by blast
qed

section \<open>What the hashes identify\<close>

definition hashed_fields :: "eval_bar \<Rightarrow> int \<times> f64 list" where
  "hashed_fields b = (eb_open_time b, [eb_open b, eb_high b, eb_low b, eb_close b, eb_volume b])"

lemma marshal_float_inj: "marshal_float x = Some j \<Longrightarrow> marshal_float y = Some j \<Longrightarrow> f_wf x \<Longrightarrow> f_wf y \<Longrightarrow> x = y"
  by (metis json_float_marshal option.inject)

lemma marshal_floats_inj:
  "marshal_floats xs = Some vs \<Longrightarrow> marshal_floats ys = Some vs \<Longrightarrow> list_all f_wf xs \<Longrightarrow> list_all f_wf ys \<Longrightarrow> xs = ys"
  by (metis decode_marshal_floats option.inject)

lemma marshal_floats_length: "marshal_floats xs = Some vs \<Longrightarrow> length vs = length xs"
  by (induction xs arbitrary: vs) (auto split: option.splits)

lemma zip_inj: "length us = length ks \<Longrightarrow> length vs = length ks \<Longrightarrow> zip ks us = zip ks vs \<Longrightarrow> us = vs"
  by (metis map_snd_zip)

lemma bar_for_hash_eq:
  assumes "list_all f_wf (snd (hashed_fields a))" "list_all f_wf (snd (hashed_fields b))" "bar_for_hash a = Some j"
  shows "bar_for_hash b = Some j \<longleftrightarrow> hashed_fields b = hashed_fields a"
proof
  assume "bar_for_hash b = Some j"
  with assms(3) obtain us vs where m: "marshal_floats (snd (hashed_fields a)) = Some us"
    "marshal_floats (snd (hashed_fields b)) = Some vs" "eb_open_time a = eb_open_time b"
    "zip [''open'', ''high'', ''low'', ''close'', ''volume''] us = zip [''open'', ''high'', ''low'', ''close'', ''volume''] vs"
    by (auto simp: bar_for_hash_def hashed_fields_def)
  have "length us = 5" "length vs = 5" 
    using marshal_floats_length [OF m(1)] marshal_floats_length [OF m(2)] by (simp_all add: hashed_fields_def)
  then have "us = vs" by (intro zip_inj [OF _ _ m(4)]) simp_all
  with marshal_floats_inj [OF m(1) _ assms(1,2)] m(2,3) show "hashed_fields b = hashed_fields a"
    by (simp add: hashed_fields_def)
next
  assume "hashed_fields b = hashed_fields a"
  with assms(3) show "bar_for_hash b = Some j" by (simp add: bar_for_hash_def hashed_fields_def)
qed

lemma bar_for_hash_total: "list_all f_finite (snd (hashed_fields b)) \<Longrightarrow> \<exists>j. bar_for_hash b = Some j"
proof -
  assume "list_all f_finite (snd (hashed_fields b))"
  from marshal_finite [OF this] obtain vs where "marshal_floats (snd (hashed_fields b)) = Some vs" by blast
  then have "bar_for_hash b \<noteq> None"
    by (simp only: bar_for_hash_def hashed_fields_def snd_conv option.map_disc_iff option.discI not_False_eq_True)
  then show ?thesis by blast
qed

lemma all_some_map: "\<forall>x\<in>set xs. f x = Some (g x) \<Longrightarrow> all_some (map f xs) = Some (map g xs)"
  by (induction xs) auto

lemma map_eq_agree:
  assumes "\<And>x y. x \<in> set xs \<Longrightarrow> y \<in> set ys \<Longrightarrow> f x = f y \<longleftrightarrow> g x = g y"
  shows "map f xs = map f ys \<longleftrightarrow> map g xs = map g ys"
  using assms by (auto simp: list_eq_iff_nth_eq)

text \<open>
  C33: The document behind the bars hash identifies exactly the times, prices and volumes of a series:
  two series of finite numbers have the same document when they agree on these, whatever their gap
  metadata, and different documents otherwise.
\<close>
theorem bars_document_identifies_series:
  assumes "\<forall>b\<in>set bars \<union> set bars'. list_all (\<lambda>x. f_wf x \<and> f_finite x) (snd (hashed_fields b))"
  shows "bars_json bars \<noteq> None \<and>
    (bars_json bars = bars_json bars' \<longleftrightarrow> map hashed_fields bars = map hashed_fields bars')"
proof -
  let ?doc = "\<lambda>b. the (bar_for_hash b)"
  have doc: "bar_for_hash b = Some (?doc b)" "list_all f_wf (snd (hashed_fields b))"
    if "b \<in> set bars \<union> set bars'" for b
  proof -
    have "list_all f_finite (snd (hashed_fields b))" "list_all f_wf (snd (hashed_fields b))"
      using assms that by (auto simp: list_all_iff)
    from bar_for_hash_total [OF this(1)] this(2)
    show "bar_for_hash b = Some (?doc b)" "list_all f_wf (snd (hashed_fields b))" by (elim exE, simp_all only: option.sel)
  qed
  have "bars_json bars = Some (JArr (map ?doc bars))" "bars_json bars' = Some (JArr (map ?doc bars'))"
    using all_some_map [of bars bar_for_hash ?doc] all_some_map [of bars' bar_for_hash ?doc] doc(1)
    by (simp_all add: bars_json_def)
  moreover have "map ?doc bars = map ?doc bars' \<longleftrightarrow> map hashed_fields bars = map hashed_fields bars'"
  proof (rule map_eq_agree)
    fix a b assume m: "a \<in> set bars" "b \<in> set bars'"
    then show "?doc a = ?doc b \<longleftrightarrow> hashed_fields a = hashed_fields b"
      using bar_for_hash_eq [OF doc(2) doc(2) doc(1), of a b] doc(1) [of b] by (metis UnI1 UnI2 option.sel)
  qed
  ultimately show ?thesis by simp
qed

definition flagged_bars :: "eval_bar list" where
  "flagged_bars = map (\<lambda>b. b\<lparr>eb_is_gap := True, eb_gap_type := ''exchange''\<rparr>) (coarse_bars 17)"

theorem bars_document_identifies_series_witness:
  "bars_json (coarse_bars 17) = bars_json flagged_bars \<and> bars_json (coarse_bars 17) \<noteq> bars_json (coarse_bars 16)"
proof -
  have wf: "f_wf (Fin 100)" "f_wf (Fin 1)"
    using rnd_representable [OF representable_int [of 100]] by simp_all
  then have fin: "\<forall>b\<in>set (coarse_bars 17) \<union> set flagged_bars. list_all (\<lambda>x. f_wf x \<and> f_finite x) (snd (hashed_fields b))"
    "\<forall>b\<in>set (coarse_bars 17) \<union> set (coarse_bars 16). list_all (\<lambda>x. f_wf x \<and> f_finite x) (snd (hashed_fields b))"
    using wf by (simp_all add: coarse_bars_def flagged_bars_def hashed_fields_def ball_Un del: upt_rec_numeral upt.simps)
  have "map hashed_fields (coarse_bars 17) = map hashed_fields flagged_bars"
    by (simp only: flagged_bars_def list.map_comp) (simp add: hashed_fields_def comp_def)
  moreover have "map hashed_fields (coarse_bars 17) \<noteq> map hashed_fields (coarse_bars 16)"
  proof
    assume "map hashed_fields (coarse_bars 17) = map hashed_fields (coarse_bars 16)"
    from arg_cong [OF this, of length] show False by (simp only: length_map coarse_bars_def length_upt)
  qed
  ultimately show ?thesis
    using bars_document_identifies_series [OF fin(1)] bars_document_identifies_series [OF fin(2)] by simp
qed

end
