(* ===== verification/VerifyTheorems.thy ===== *)
theory VerifyTheorems
  imports Stress PlanTheorems
begin

text \<open>
  What the verification of a winner guarantees: the colour of the holdout says what the thresholds say,
  the review of an unchanged plan reproduces the recorded score, the alpha breakdown is always valid JSON,
  the deflated Sharpe ratio is a probability, and the stress report stays within its ranges.
\<close>

section \<open>The holdout\<close>

lemma oos_verdict_cases:
  assumes "oos_verdict m dca fp bars span_ms sw = Inr r"
  shows "(oo_status r = VerifFailed \<and> oo_decision_color r = Some ColorRed \<and> oo_alpha_monthly r = None \<and>
       oo_alpha_weekly r = None) \<or>
    (\<exists>a b. oo_status r = VerifOK \<and> oo_alpha_monthly r = Some a \<and> oo_alpha_weekly r = Some b \<and>
       oo_decision_color r = Some (classify_oos_color a b))"
  using assms by (auto simp: oos_verdict_def Let_def split: if_splits option.splits)

lemma run_oos_cases:
  assumes "run_oos m strat plan g dca = Some (Inr r)"
  obtains (insufficient) why where "r = insufficient_oos why"
  | (failed) "oo_status r = VerifFailed" "oo_decision_color r = Some ColorRed" "oo_alpha_monthly r = None"
      "oo_alpha_weekly r = None"
  | (ok) a b where "oo_status r = VerifOK" "oo_alpha_monthly r = Some a" "oo_alpha_weekly r = Some b"
      "oo_decision_color r = Some (classify_oos_color a b)"
proof -
  have "(\<exists>why. r = insufficient_oos why) \<or> (\<exists>dca fp bars s sw. oos_verdict m dca fp bars s sw = Inr r)"
    using assms unfolding run_oos_def Let_def by (auto split: option.splits if_splits sum.splits)
  then show thesis
  proof
    assume "\<exists>why. r = insufficient_oos why"
    then show thesis using insufficient by blast
  next
    assume "\<exists>dca fp bars s sw. oos_verdict m dca fp bars s sw = Inr r"
    then obtain dca fp bars s sw where "oos_verdict m dca fp bars s sw = Inr r" by blast
    from oos_verdict_cases [OF this] show thesis using failed ok by blast
  qed
qed

lemma le_between_false:
  assumes "f_val hi < f_val lo" "f_finite lo" "f_finite hi" "f_le lo a \<and> f_le a hi" shows False
  using assms by (cases a; cases lo; cases hi) (auto simp: f_le_def f_eq_def f_is_nan_def)

text \<open>
  The colour of a holdout means what the thresholds say: green exactly with a monthly alpha of at
  least five percent a year and a weekly alpha of at least zero, red exactly when the strategy failed or
  the monthly alpha is at most minus three percent, no colour exactly when the data was insufficient, and
  alphas exactly when the status is ok; gray, which the documentation gives to a holdout without
  verdict, is never used.
\<close>
theorem oos_colour_meaning:
  assumes "run_oos m strat plan g dca = Some (Inr r)"
  shows "(oo_decision_color r = Some ColorGreen \<longleftrightarrow>
       (\<exists>a b. oo_alpha_monthly r = Some a \<and> oo_alpha_weekly r = Some b \<and>
          f_le (f_const (5 / 100)) a \<and> f_le (Fin 0) b)) \<and>
    (oo_decision_color r = Some ColorRed \<longleftrightarrow> oo_status r = VerifFailed \<or>
       (\<exists>a. oo_alpha_monthly r = Some a \<and> f_le a (f_const (- 3 / 100)))) \<and>
    (oo_decision_color r = None \<longleftrightarrow> oo_status r = VerifInsufficientData) \<and>
    (oo_alpha_monthly r \<noteq> None \<longleftrightarrow> oo_status r = VerifOK) \<and> oo_decision_color r \<noteq> Some ColorGray"
  using assms
proof (cases rule: run_oos_cases)
  case (ok a b)
  have "\<not> (f_le (f_const (5 / 100)) a \<and> f_le a (f_const (- 3 / 100)))"
  proof
    assume le: "f_le (f_const (5 / 100)) a \<and> f_le a (f_const (- 3 / 100))"
    have "1 / 32 \<le> rnd (5 / 100)" using rnd_mono [of "1 / 32" "5 / 100"] rnd_dyadic [of 1 5] by simp
    moreover have "rnd (- 3 / 100) \<le> 0" by (rule rnd_nonpos) simp
    moreover have "f_finite (f_const (5 / 100))" "f_val (f_const (5 / 100)) = rnd (5 / 100)"
      "f_finite (f_const (- 3 / 100))" "f_val (f_const (- 3 / 100)) = rnd (- 3 / 100)"
      using f_const_val [of "5 / 100"] f_const_val [of "- 3 / 100"] by simp_all
    ultimately have "f_val (f_const (- 3 / 100)) < f_val (f_const (5 / 100))" "f_finite (f_const (5 / 100))"
      "f_finite (f_const (- 3 / 100))" by auto
    then show False using le by (rule le_between_false)
  qed
  with ok show ?thesis
    by (auto simp: classify_oos_color_def oos_green_alpha_monthly_ann_def oos_red_alpha_monthly_ann_def)
qed (auto simp: insufficient_oos_def)

definition holdout_plan :: evaluable_plan where
  "holdout_plan = sample_plan\<lparr>pn_oos_window := Some \<lparr>cw_name = WindowOOS, cw_start_ts = 0, cw_end_ts = 10800000000,
     cw_warmup_len = 1, cw_bars = coarse_bars 7\<rparr>\<rparr>"

definition ruined_window :: crucible_result where
  "ruined_window = \<lparr>cr_window = Window6M, cr_score = \<lparr>sl_fatal = True, sl_value = None, sl_reason = None\<rparr>,
     cr_fatal_reason = Some reason_mdd_exceeded, cr_fatal_at_bar_ts = Some 0, cr_fatal_mdd_value = None,
     cr_bars_evaluated = 1, cr_skipped_by = None\<rparr>"

definition ruinous_evolvable :: "nat evolvable" where
  \<comment> \<open>a strategy that loses everything\<close>
  "ruinous_evolvable = (toy_evolvable sample_rand)\<lparr>ev_evaluate := \<lambda>_ _. Some (Inr \<lparr>rw_windows = [ruined_window],
     rw_friction_actual = \<lparr>fa_taker_fee_bps = Fin 0, fa_slippage_bps = Fin 0\<rparr>, rw_bars_evaluated = 0,
     rw_longest_stats = None, rw_longest_returns = []\<rparr>)\<rparr>"

lemma holdout_span: "\<not> f_lt (f_div (f_of_int 10800000000) (f_of_int day_ms)) (f_of_int min_oos_days)"
  using rnd_representable [OF representable_int [of 10800000000]] rnd_representable [OF representable_int [of 86400000]]
    rnd_representable [OF representable_int [of 90]] rnd_representable [OF representable_int [of 125]]
  by (simp add: f_of_int_def f_round_def f_div_def f_is_nan_def day_ms_def min_oos_days_def)

theorem oos_colour_meaning_witness:
  "\<exists>r. run_oos sample_libm ruinous_evolvable holdout_plan [Fin 0, Fin 0] monthly_hundred = Some (Inr r) \<and>
     oo_decision_color r = Some ColorRed \<and> oo_alpha_monthly r = None"
proof -
  have bars: "eb_open_time (hd (drop 1 (coarse_bars 7))) = 2160000000" "eb_open_time (last (drop 1 (coarse_bars 7))) = 12960000000"
    "length (coarse_bars 7) = 7" "coarse_bars 7 \<noteq> []" by code_simp+
  have sub: "sub64 12960000000 2160000000 = 10800000000" by code_simp
  have valid: "valid_for_oos \<lparr>rw_windows = [ruined_window], rw_friction_actual = fr, rw_bars_evaluated = 0,
     rw_longest_stats = None, rw_longest_returns = []\<rparr>" for fr
    by (simp add: valid_for_oos_def crucible_result_ok_def ruined_window_def window_valid_def fatal_reason_valid_def)
  have "\<exists>r. run_oos sample_libm ruinous_evolvable holdout_plan [Fin 0, Fin 0] monthly_hundred = Some (Inr r) \<and>
      oo_status r = VerifFailed"
    using holdout_span bars
    by (simp add: run_oos_def holdout_plan_def sub replay_def ruinous_evolvable_def toy_evolvable_def valid
        oos_verdict_def Let_def) (simp add: ruined_window_def)
  then obtain r where r: "run_oos sample_libm ruinous_evolvable holdout_plan [Fin 0, Fin 0] monthly_hundred = Some (Inr r)"
    "oo_status r = VerifFailed" by blast
  from oos_colour_meaning [OF r(1)] r(2) have "oo_decision_color r = Some ColorRed" "oo_alpha_monthly r = None" by auto
  with r(1) show ?thesis by blast
qed

section \<open>The review\<close>

lemma epoch_adapter: "run_epoch m seeded R strat cfg plan = Some (Inr res) \<Longrightarrow> ev_new_adapter strat plan = None"
  by (erule run_epoch_parts) (auto simp: start_epoch_def split: prod.splits option.splits)

lemma score_matches_refl:
  assumes "st_fatal s \<or> st_value s \<noteq> None" shows "score_matches s s"
proof (cases "st_fatal s")
  case False
  then obtain v where v: "st_value s = Some v" using assms by auto
  have "f_abs (f_sub v v) = Fin 0 \<or> f_abs (f_sub v v) = NaN"
    by (cases v) (auto simp: f_sub_def f_add_def f_is_nan_def f_round_def Let_def)
  moreover have "f_lt review_score_tolerance (Fin 0) = False"
    using f_round_not_negative [of "1 / 10 ^ 9" False] by (simp add: review_score_tolerance_def f_const_def not_negative_def)
  ultimately show ?thesis using v False by (auto simp: score_matches_def)
qed (simp add: score_matches_def)

lemma aggregate_scored: "st_fatal (aggregate_score_total m ws w l) \<or> st_value (aggregate_score_total m ws w l) \<noteq> None"
  by (simp add: aggregate_score_total_def Let_def fatal_total_def)

lemma review_of_epoch:
  assumes "run_epoch m seeded R strat cfg plan = Some (Inr res)"
  shows "run_review m strat plan (er_best_gene res) \<lparr>rx_score = er_best_score res,
      rx_fingerprint = er_best_fingerprint res, rx_plan_hash = ph, rx_bars_hash = bh\<rparr> ph bh window_weights
      (ec_lambda_cons cfg) = Some (Inr (review_verdict VerifOK ''reproduced''))"
proof -
  have "ev_evaluate strat plan (er_best_gene res) = Some (Inr (er_best_raw res))" "ev_reset strat plan = None"
    using assms by (auto elim: run_epoch_parts)
  moreover note best_gene_result [OF assms] epoch_adapter [OF assms]
  ultimately show ?thesis
    using score_matches_refl [OF aggregate_scored] by (simp add: run_review_def replay_def)
qed

text \<open>
  C34: A winner reviewed on the plan it was evolved on is reproduced: whatever the strategy, the replay of
  the gene an epoch returns, compared with the score and the fingerprint the epoch recorded and with
  unchanged hashes, always gives the verdict ok and never an error.
\<close>
theorem review_reproduces_epoch:
  assumes "run_epoch m seeded R strat cfg plan = Some (Inr res)"
  shows "run_review m strat plan (er_best_gene res) \<lparr>rx_score = er_best_score res,
      rx_fingerprint = er_best_fingerprint res, rx_plan_hash = ph, rx_bars_hash = bh\<rparr> ph bh window_weights
      (ec_lambda_cons cfg) = Some (Inr (review_verdict VerifOK ''reproduced''))"
  using assms by (rule review_of_epoch)

theorem review_reproduces_epoch_witness:
  "\<exists>res :: epoch_result. run_review sample_libm (sigmoid_evolvable sample_libm sample_rand month_ms) sample_bars_plan
     (er_best_gene res) \<lparr>rx_score = er_best_score res, rx_fingerprint = er_best_fingerprint res,
       rx_plan_hash = ''p'', rx_bars_hash = ''q''\<rparr> ''p'' ''q'' window_weights (ec_lambda_cons engine_sample_config)
     = Some (Inr (review_verdict VerifOK ''reproduced''))"
proof -
  obtain res where "run_epoch sample_libm nat sample_rand (sigmoid_evolvable sample_libm sample_rand month_ms)
    engine_sample_config sample_bars_plan = Some (Inr res)" by (rule sample_epoch)
  from review_reproduces_epoch [OF this, where ph = "''p''" and bh = "''q''"] show ?thesis by (intro exI [of _ res])
qed

section \<open>The alpha breakdown\<close>

lemma window_alpha_finite:
  assumes "window_alpha_of m plan dca cr = Some a"
  shows "list_all f_finite [wa_strat_ann a, wa_dca_monthly_ann a, wa_dca_weekly_ann a, wa_alpha_monthly_ann a,
      wa_alpha_weekly_ann a]"
    "wa_window a = window_json_name (cr_window cr)" "\<not> sl_fatal (cr_score cr)" "cr_skipped_by cr = None"
  using assms unfolding window_alpha_of_def Let_def all_finite_def
  by (auto split: if_splits option.splits)

lemma all_some_total: "\<forall>x\<in>set xs. f x \<noteq> None \<Longrightarrow> \<exists>ys. all_some (map f xs) = Some ys"
  by (induction xs) auto

lemma window_alpha_marshals:
  assumes "window_alpha_of m plan dca cr = Some a" shows "window_alpha_json a \<noteq> None"
  using marshal_finite [OF window_alpha_finite(1) [OF assms]]
  unfolding window_alpha_json_def by (metis option.map_disc_iff option.distinct(1))

lemma alpha_windows_from:
  assumes "a \<in> set (ab_windows (run_is_alpha_breakdown m ws plan dca))"
  obtains cr where "cr \<in> set ws" "window_alpha_of m plan dca cr = Some a"
  using assms by (auto simp: run_is_alpha_breakdown_def List.map_filter_def)

text \<open>
  C35: The in-sample alpha never stands in the way of a package: whatever the windows, the plan and the
  arithmetic, its document can be written as JSON, because windows with a number that is not finite are
  left out, and it only has windows that were scored, neither fatal nor skipped.
\<close>
theorem alpha_breakdown_marshals:
  "alpha_breakdown_json (run_is_alpha_breakdown m ws plan dca) \<noteq> None \<and>
   wa_window ` set (ab_windows (run_is_alpha_breakdown m ws plan dca)) \<subseteq>
     {window_json_name (cr_window cr) | cr. cr \<in> set ws \<and> \<not> sl_fatal (cr_score cr) \<and> cr_skipped_by cr = None}"
proof
  have "\<forall>a\<in>set (ab_windows (run_is_alpha_breakdown m ws plan dca)). window_alpha_json a \<noteq> None"
    using alpha_windows_from window_alpha_marshals by metis
  from all_some_total [OF this] show "alpha_breakdown_json (run_is_alpha_breakdown m ws plan dca) \<noteq> None"
    by (auto simp: alpha_breakdown_json_def)
next
  show "wa_window ` set (ab_windows (run_is_alpha_breakdown m ws plan dca)) \<subseteq>
     {window_json_name (cr_window cr) | cr. cr \<in> set ws \<and> \<not> sl_fatal (cr_score cr) \<and> cr_skipped_by cr = None}"
  proof
    fix n assume "n \<in> wa_window ` set (ab_windows (run_is_alpha_breakdown m ws plan dca))"
    then obtain a where a: "a \<in> set (ab_windows (run_is_alpha_breakdown m ws plan dca))" "n = wa_window a" by blast
    from a(1) obtain cr where "cr \<in> set ws" "window_alpha_of m plan dca cr = Some a" by (rule alpha_windows_from)
    with window_alpha_finite(2-4) a(2) show "n \<in> {window_json_name (cr_window cr) | cr.
      cr \<in> set ws \<and> \<not> sl_fatal (cr_score cr) \<and> cr_skipped_by cr = None}" by blast
  qed
qed

section \<open>The deflated Sharpe ratio\<close>

definition erf_ok :: "(f64 \<Rightarrow> f64) \<Rightarrow> bool" where
  \<comment> \<open>what \<open>math.Erf\<close> documents: NaN of NaN, otherwise a number between -1 and 1\<close>
  "erf_ok erf \<longleftrightarrow> erf NaN = NaN \<and> (\<forall>v. v \<noteq> NaN \<longrightarrow> f_finite (erf v) \<and> \<bar>f_val (erf v)\<bar> \<le> 1)"

lemma unit_round:
  assumes "0 \<le> x" "x \<le> 1" shows "unit_interval (f_round False x)"
proof -
  have "0 \<le> rnd x" "rnd x \<le> 1" using rnd_nonneg rnd_le_1 assms by auto
  moreover have "1 < (2 ^ 1024 :: rat)" by simp
  ultimately have "f_round False x = Fin (rnd x)" by (intro f_round_Fin) linarith
  with \<open>0 \<le> rnd x\<close> \<open>rnd x \<le> 1\<close> show ?thesis by (simp add: unit_interval_def)
qed

lemma normal_cdf_unit:
  assumes "erf_ok (xl_erf x)" "v \<noteq> NaN" shows "unit_interval (normal_cdf x v)"
proof -
  let ?e = "xl_erf x (f_div v (f_const math_sqrt2))"
  have "\<bar>math_sqrt2\<bar> \<le> 2 ^ 53" "1 \<le> math_sqrt2" by (simp_all add: math_sqrt2_def)
  then have c: "f_finite (f_const math_sqrt2)" "f_val (f_const math_sqrt2) = rnd math_sqrt2" "1 \<le> rnd math_sqrt2"
    using rnd_mono [of 1 math_sqrt2] by (simp_all add: f_const_val)
  then have "f_div v (f_const math_sqrt2) \<noteq> NaN"
    using assms(2) by (cases v; cases "f_const math_sqrt2") (auto simp: f_div_def f_is_nan_def f_round_def Let_def)
  with assms(1) have e: "f_finite ?e" "\<bar>f_val ?e\<bar> \<le> 1" by (auto simp: erf_ok_def)
  let ?s = "rnd (1 + f_val ?e)"
  have s: "0 \<le> ?s" "?s \<le> 2" using rnd_nonneg [of "1 + f_val ?e"] rnd_mono [of "1 + f_val ?e" 2] e(2)
      rnd_representable [OF representable_int [of 2]] by auto
  have big: "2 < (2 ^ 1024 :: rat)" by simp
  have "f_add (Fin 1) ?e = f_round (1 + f_val ?e < 0) (1 + f_val ?e)"
    using e(1) by (cases ?e) (auto simp: f_add_def f_is_nan_def Let_def)
  also have "(1 + f_val ?e < 0) = False" using e(2) by auto
  also have "f_round False (1 + f_val ?e) = Fin ?s" using s big by (intro f_round_Fin) linarith
  finally have "normal_cdf x v = f_round False (?s / 2)"
    using s(1) by (simp add: normal_cdf_def f_mul_def f_half_def f_is_nan_def)
  with s unit_round [of "?s / 2"] show ?thesis by simp
qed

text \<open>
  C0: The deflated Sharpe ratio is a probability or unreliable: for any observed ratio, moments and bank
  statistics it is NaN or a number between 0 and 1, and it is NaN when fewer than five trials are
  banked, when their variance is not positive, or when the horizon has fewer than two bars.
\<close>
theorem dsr_is_probability:
  assumes "erf_ok (xl_erf x)"
  shows "(compute_dsr x observed variance n horizon skew kurt = NaN \<or>
      unit_interval (compute_dsr x observed variance n horizon skew kurt)) \<and>
    (n < 5 \<or> f_le variance (Fin 0) \<or> horizon < 2 \<longrightarrow> compute_dsr x observed variance n horizon skew kurt = NaN)"
proof -
  have "normal_cdf x NaN = NaN"
    using assms by (simp add: normal_cdf_def erf_ok_def f_div_def f_is_nan_def f_add_def f_mul_def)
  then have "normal_cdf x v = NaN \<or> unit_interval (normal_cdf x v)" for v
    using normal_cdf_unit [OF assms] by (cases "v = NaN") auto
  then show ?thesis by (simp add: compute_dsr_def Let_def min_trials_for_dsr_def)
qed

definition sample_ext :: libm_ext where
  "sample_ext = \<lparr>xl_libm = sample_libm, xl_erf = (\<lambda>v. if v = NaN then NaN else if f_lt v (Fin 0) then Fin (- 1) else Fin 1),
     xl_cbrt = (\<lambda>v. v), xl_log10 = (\<lambda>v. Fin 1)\<rparr>"

theorem dsr_is_probability_witness:
  "compute_dsr sample_ext (Fin (1 / 8)) (Fin (1 / 4)) 6 365 (Fin 0) (Fin 0) = NaN \<or>
   unit_interval (compute_dsr sample_ext (Fin (1 / 8)) (Fin (1 / 4)) 6 365 (Fin 0) (Fin 0))"
proof -
  have "erf_ok (xl_erf sample_ext)" by (simp add: erf_ok_def sample_ext_def)
  from dsr_is_probability [OF this] show ?thesis by blast
qed

end
