(* ===== verification/StressTheorems.thy ===== *)
theory StressTheorems
  imports VerifyTheorems
begin

text \<open>
  The stress report: every path keeps a positive peak and a drawdown between 0 and 1, so that the
  report's probabilities are probabilities and none of its numbers is NaN.
\<close>

section \<open>Paths\<close>

definition exp_ok :: "(f64 \<Rightarrow> f64) \<Rightarrow> bool" where
  \<comment> \<open>\<open>math.Exp\<close> of a number is a number that is not negative\<close>
  "exp_ok e \<longleftrightarrow> (\<forall>v. v \<noteq> NaN \<longrightarrow> e v \<noteq> NaN \<and> f_wf (e v) \<and> \<not> f_sign (e v))"

definition path_ok :: "mc_path \<Rightarrow> bool" where
  "path_ok p \<longleftrightarrow> mp_cum_log p \<noteq> NaN \<and> f_wf (mp_peak p) \<and> f_lt (Fin 0) (mp_peak p) \<and> unit_interval (mp_max_dd p)"

lemma mc_bar_ok:
  assumes "exp_ok (m_exp m)" "path_ok p" "f_finite ret" shows "path_ok (mc_bar m fl ret p)"
proof -
  let ?c = "f_add (mp_cum_log p) ret" and ?e = "m_exp m (f_add (mp_cum_log p) ret)"
  have c: "?c \<noteq> NaN" using assms(2,3) by (intro add_finite_not_nan) (auto simp: path_ok_def)
  then have e: "f_wf ?e" "not_negative ?e"
    using assms(1) plus_not_negative [of ?e] by (auto simp: exp_ok_def plus_sign_def)
  have peak: "f_wf (mp_peak p)" "f_lt (Fin 0) (mp_peak p)" "unit_interval (mp_max_dd p)"
    using assms(2) by (auto simp: path_ok_def)
  show ?thesis
  proof (cases "f_lt (mp_peak p) ?e")
    case True
    with c e(1) peak f_lt_trans [OF peak(2) True] show ?thesis by (simp add: path_ok_def mc_bar_def Let_def)
  next
    case False
    with c peak drawdown_step [OF peak(2,1) e(2) False _ peak(3)] show ?thesis
      by (simp add: path_ok_def mc_bar_def Let_def)
  qed
qed

lemma mc_fold_ok:
  assumes "exp_ok (m_exp m)" "list_all f_finite returns" "returns \<noteq> []" "path_ok p"
  shows "path_ok (foldl (\<lambda>p j. mc_bar m fl (returns ! ((start + j) mod length returns)) p) p js)"
  using assms(4)
proof (induction js arbitrary: p)
  case (Cons j js)
  have "f_finite (returns ! ((start + j) mod length returns))" using assms(2,3) by (simp add: list_all_length)
  from mc_bar_ok [OF assms(1) Cons.prems this] show ?case by (simp add: Cons.IH)
qed simp

lemma mc_fill_ok:
  assumes "exp_ok (m_exp m)" "list_all f_finite returns" "returns \<noteq> []" "path_ok p"
  shows "path_ok (fst (mc_fill m returns fl pg lp rest s p))"
  using assms(4)
proof (induction rest arbitrary: s p rule: less_induct)
  case (less rest)
  show ?case
  proof (cases "rest = 0")
    case True
    with less.prems show ?thesis by (subst mc_fill.simps) simp
  next
    case False
    obtain z s1 where z: "splitmix_next s = (z, s1)" by (cases "splitmix_next s")
    obtain u s2 where u: "splitmix_float64 s1 = (u, s2)" by (cases "splitmix_float64 s1")
    let ?k = "min (nat (geom_block_len m u pg lp)) rest"
    have "rest - ?k < rest" using False by (intro block_fills) simp
    from less.IH [OF this mc_fold_ok [OF assms(1-3) less.prems]] False z u show ?thesis
      by (subst mc_fill.simps) (simp add: Let_def)
  qed
qed

lemma mc_start_ok: "path_ok mc_start"
  by (simp add: path_ok_def mc_start_def unit_interval_def)

lemma mc_paths_ok:
  assumes "exp_ok (m_exp m)" "list_all f_finite returns" "returns \<noteq> []"
  shows "length (mc_paths m returns fl pg lp k s) = k \<and> list_all path_ok (mc_paths m returns fl pg lp k s)"
proof (induction k arbitrary: s)
  case (Suc k)
  obtain p s' where f: "mc_fill m returns fl pg lp (length returns) s mc_start = (p, s')" by fastforce
  with mc_fill_ok [OF assms mc_start_ok, of fl pg lp "length returns" s] Suc show ?case by simp
qed simp

section \<open>Percentiles\<close>

lemma rnd_just_above_1:
  assumes "1 \<le> x" "x < 1 + 1 / 2 ^ 53" shows "rnd x = 1"
proof -
  have pos: "0 < x" and "x < 2" using assms by auto
  note b = flog2_bounds [OF pos]
  have "flog2 x = 0"
  proof (rule antisym)
    show "flog2 x \<le> 0"
    proof (rule ccontr)
      assume "\<not> ?thesis"
      then have "(2::rat) powi 1 \<le> 2 powi flog2 x" by (intro power_int_increasing) auto
      with b(1) \<open>x < 2\<close> show False by simp
    qed
    show "0 \<le> flog2 x"
    proof (rule ccontr)
      assume "\<not> ?thesis"
      then have "(2::rat) powi (flog2 x + 1) \<le> 2 powi 0" by (intro power_int_increasing) auto
      with b(2) assms(1) show False by simp
    qed
  qed
  then have u: "ulp_exp x = - 52" by (simp add: ulp_exp_def)
  have m: "x / 2 powi (- 52) = x * 2 ^ 52" by (simp add: power_int_minus)
  have "\<lfloor>x * 2 ^ 52\<rfloor> = 2 ^ 52" using assms by (simp add: floor_eq_iff)
  then have "round_half_even (x * 2 ^ 52) = 2 ^ 52" using assms(2) by (simp add: round_half_even_def Let_def)
  then have "rnd_pos x = 1" by (simp add: rnd_pos_def u m power_int_minus Let_def)
  with pos show ?thesis by (simp add: rnd_def)
qed

lemma thousand: "f_of_int (int 1000 - 1) = Fin 999" "f_of_int 1000 = Fin 1000"
  using rnd_representable [OF representable_int [of 999]] rnd_representable [OF representable_int [of 1000]]
  by (simp_all add: f_of_int_def f_round_def)

lemma sort_floats_props [simp]: "set (sort_floats xs) = set xs" "length (sort_floats xs) = length xs"
  by (simp_all add: sort_floats_def)

lemma f_round_small: "\<bar>x\<bar> \<le> 2 ^ 53 \<Longrightarrow> 0 \<le> x \<Longrightarrow> f_round False x = Fin (rnd x)"
  using f_round_val [of x False] f_round_pos [of x] by (cases "f_round False x") auto

lemma rank_error:
  assumes "0 \<le> p" "p \<le> 100"
  shows "\<bar>rnd (rnd (p / 100) * 999) - p * 999 / 100\<bar> \<le> 1 / 1024"
proof -
  note tiny = tiny_le
  let ?x = "rnd (p / 100)"
  have "\<bar>?x - p / 100\<bar> \<le> 2 / 2 ^ 53"
    using rnd_error [of "p / 100"] assms tiny by simp
  then have e1: "\<bar>?x - p / 100\<bar> \<le> 1 / 4194304" by (rule order_trans) simp
  have x: "0 \<le> ?x" "?x \<le> 1" using rnd_nonneg [of "p / 100"] rnd_le_1 [of "p / 100"] assms by auto
  have "\<bar>rnd (?x * 999) - ?x * 999\<bar> \<le> 1000 / 2 ^ 53"
    using rnd_error [of "?x * 999"] x tiny by (simp add: abs_mult)
  then have e2: "\<bar>rnd (?x * 999) - ?x * 999\<bar> \<le> 1 / 4194304" by (rule order_trans) simp
  show ?thesis using e1 e2 unfolding abs_le_iff by linarith
qed

lemma rnd_of_nat: "n \<le> 1000 \<Longrightarrow> rnd (of_nat n) = of_nat n"
  using rnd_representable [OF representable_int [of "int n"]] by simp

lemma percentile_shape:
  assumes len: "length xs = 1000" and p: "0 \<le> p" "p \<le> 100"
    and k: "Suc k < 1000" "1 \<le> k" "of_nat k + 1 / 128 \<le> p * 999 / 100" "p * 999 / 100 \<le> of_nat k + 127 / 128"
  obtains t where "1 / 256 \<le> t" "t \<le> 255 / 256" "rnd t = t"
    "percentile xs (Fin p) = f_add (f_mul (xs ! k) (Fin (rnd (1 - t)))) (f_mul (xs ! Suc k) (Fin t))"
proof -
  let ?x = "rnd (p / 100)" and ?r = "rnd (rnd (p / 100) * 999)"
  have x: "0 \<le> ?x" "?x \<le> 1" using rnd_nonneg [of "p / 100"] rnd_le_1 [of "p / 100"] p by auto
  have r1: "of_nat k + 1 / 256 \<le> ?r" and r2: "?r \<le> of_nat k + 255 / 256"
    using rank_error [OF p] k(3,4) unfolding abs_le_iff by linarith+
  have "f_div (Fin p) (Fin 100) = Fin ?x"
    using p f_round_small [of "p / 100"] by (simp add: f_div_def f_is_nan_def)
  then have rank: "f_mul (f_div (Fin p) (Fin 100)) (f_of_int (int (length xs) - 1)) = Fin ?r"
    using x f_round_small [of "?x * 999"] unfolding len thousand by (simp add: f_mul_def f_is_nan_def)
  have fl: "\<lfloor>?r\<rfloor> = int k" "\<lceil>?r\<rceil> = int k + 1" using r1 r2 by (simp_all add: floor_eq_iff ceiling_eq_iff)
  have int_k: "f_to_int (Fin (of_int (int n))) = int n" if "n \<le> 1000" for n
    using that by (simp add: f_to_int_def in64_def)
  have lo: "f_to_int (f_floor (Fin ?r)) = int k" using int_k [of k] k(1) fl by simp
  have hi: "f_to_int (f_ceil (Fin ?r)) = int (Suc k)" using int_k [of "Suc k"] k(1) fl by (simp add: add.commute)
  let ?t = "rnd (?r - of_nat k)"
  have t: "1 / 256 \<le> ?t" "?t \<le> 255 / 256"
    using rnd_mono [of "1 / 256" "?r - of_nat k"] rnd_mono [of "?r - of_nat k" "255 / 256"]
      rnd_dyadic [of 1 8] rnd_dyadic [of 255 8] r1 r2 by simp_all
  have fk: "f_of_int (int k) = Fin (of_nat k)"
    using rnd_of_nat [of k] k(1) f_round_small [of "of_nat k"] by (simp add: f_of_int_def)
  have frac: "f_sub (Fin ?r) (f_of_int (int k)) = Fin ?t"
    using r1 r2 k(2) f_round_small [of "?r - of_nat k"]
    by (simp add: fk f_sub_def f_add_def f_is_nan_def Let_def)
  have rest: "f_sub (Fin 1) (Fin ?t) = Fin (rnd (1 - ?t))"
    using t f_round_small [of "1 - ?t"] by (simp add: f_sub_def f_add_def f_is_nan_def Let_def)
  obtain a b cs where xs: "xs = a # b # cs" using len by (cases xs; cases "tl xs") auto
  have "percentile xs (Fin p) = f_add (f_mul (xs ! k) (Fin (rnd (1 - ?t)))) (f_mul (xs ! Suc k) (Fin ?t))"
    unfolding percentile_def xs list.case unfolding xs [symmetric] rank Let_def lo hi frac rest nat_int
    by simp
  with t show thesis by (intro that [of ?t]) simp_all
qed

lemma percentile_unit:
  assumes len: "length xs = 1000" and p: "0 \<le> p" "p \<le> 100"
    and k: "Suc k < 1000" "1 \<le> k" "of_nat k + 1 / 128 \<le> p * 999 / 100" "p * 999 / 100 \<le> of_nat k + 127 / 128"
    and unit: "\<forall>x\<in>set xs. unit_interval x"
  shows "unit_interval (percentile xs (Fin p))"
proof -
  from percentile_shape [OF len p k] obtain t where t: "1 / 256 \<le> t" "t \<le> 255 / 256" "rnd t = t"
    "percentile xs (Fin p) = f_add (f_mul (xs ! k) (Fin (rnd (1 - t)))) (f_mul (xs ! Suc k) (Fin t))" .
  let ?w = "rnd (1 - t)"
  have w: "0 \<le> ?w" "?w \<le> 1" using rnd_nonneg [of "1 - t"] rnd_le_1 [of "1 - t"] t by auto
  have "xs ! k \<in> set xs" "xs ! Suc k \<in> set xs" using len k(1) by auto
  with unit obtain a b where ab: "xs ! k = Fin a" "0 \<le> a" "a \<le> 1" "xs ! Suc k = Fin b" "0 \<le> b" "b \<le> 1"
    unfolding unit_interval_def by meson
  have m: "0 \<le> a * ?w" "a * ?w \<le> ?w" "0 \<le> b * t" "b * t \<le> t"
    using ab w t by (auto intro: mult_left_le_one_le)
  let ?u = "rnd (a * ?w)" and ?v = "rnd (b * t)"
  have uv: "0 \<le> ?u" "?u \<le> ?w" "0 \<le> ?v" "?v \<le> t"
    using rnd_nonneg [OF m(1)] rnd_mono [OF m(2)] rnd_nonneg [OF m(3)] rnd_mono [OF m(4)] t(3) by simp_all
  have small: "f_round False y = Fin (rnd y)" if "0 \<le> y" "y \<le> 2" for y using f_round_small [of y] that by simp
  have "a * ?w \<le> 2" "b * t \<le> 2" using m w t by linarith+
  then have "f_round False (a * ?w) = Fin ?u" "f_round False (b * t) = Fin ?v" using m by (blast intro: small)+
  then have "f_mul (xs ! k) (Fin ?w) = Fin ?u" "f_mul (xs ! Suc k) (Fin t) = Fin ?v"
    using ab w t by (simp_all add: f_mul_def f_is_nan_def)
  then have eq: "percentile xs (Fin p) = Fin (rnd (?u + ?v))"
    using uv w t small [of "?u + ?v"] small [of 0] by (auto simp: t(4) f_add_def f_is_nan_def Let_def)
  have "\<bar>?w - (1 - t)\<bar> \<le> (1 - t) / 2 ^ 53 + 1 / 2 ^ 1075" using rnd_error [of "1 - t"] t(2) by simp
  moreover have "(1 - t) / 2 ^ 53 \<le> (255 / 256) / 2 ^ 53" using t(1) by (intro divide_right_mono) auto
  moreover have "(255 / 256) / 2 ^ 53 + 1 / 2 ^ 70 < (1 / 2 ^ 53 :: rat)" by simp
  moreover have "1 / 2 ^ 1075 \<le> (1 / 2 ^ 70 :: rat)" by (intro divide_left_mono power_increasing) auto
  ultimately have "?w + t < 1 + 1 / 2 ^ 53" by linarith
  then have s: "?u + ?v < 1 + 1 / 2 ^ 53" "0 \<le> ?u + ?v" using uv by linarith+
  have "rnd (?u + ?v) \<le> 1"
  proof (cases "?u + ?v \<le> 1")
    case False
    then show ?thesis using rnd_just_above_1 [OF _ s(1)] by simp
  qed (rule rnd_le_1)
  with rnd_nonneg [OF s(2)] show ?thesis by (simp add: eq unit_interval_def)
qed

lemma f_round_number: "0 \<le> x \<Longrightarrow> f_round False x \<noteq> NaN \<and> \<not> f_sign (f_round False x)"
  using rnd_nonneg [of x] by (auto simp: f_round_def Let_def)

lemma percentile_number:
  assumes len: "length xs = 1000" and p: "0 \<le> p" "p \<le> 100"
    and k: "Suc k < 1000" "1 \<le> k" "of_nat k + 1 / 128 \<le> p * 999 / 100" "p * 999 / 100 \<le> of_nat k + 127 / 128"
    and num: "\<forall>x\<in>set xs. x \<noteq> NaN \<and> \<not> f_sign x"
  shows "percentile xs (Fin p) \<noteq> NaN \<and> \<not> f_sign (percentile xs (Fin p))"
proof -
  from percentile_shape [OF len p k] obtain t where t: "1 / 256 \<le> t" "t \<le> 255 / 256" "rnd t = t"
    "percentile xs (Fin p) = f_add (f_mul (xs ! k) (Fin (rnd (1 - t)))) (f_mul (xs ! Suc k) (Fin t))" .
  have w: "1 / 256 \<le> rnd (1 - t)" using rnd_mono [of "1 / 256" "1 - t"] rnd_dyadic [of 1 8] t(2) by simp
  have prod: "f_mul e (Fin c) \<noteq> NaN \<and> \<not> f_sign (f_mul e (Fin c))" if "e \<noteq> NaN" "\<not> f_sign e" "0 < c" for e c
    using that f_round_number [of "f_val e * c"] by (cases e) (auto simp: f_mul_def f_is_nan_def)
  have sum: "f_add a b \<noteq> NaN \<and> \<not> f_sign (f_add a b)" if "a \<noteq> NaN" "\<not> f_sign a" "b \<noteq> NaN" "\<not> f_sign b" for a b
    using that f_round_number [of "f_val a + f_val b"] by (cases a; cases b) (auto simp: f_add_def f_is_nan_def Let_def)
  have "xs ! k \<in> set xs" "xs ! Suc k \<in> set xs" using len k(1) by auto
  with num t(1) w show ?thesis unfolding t(4) by (intro sum) (auto simp: prod)
qed

section \<open>The report\<close>

lemma block_length_bounds:
  "optimal_block_length x returns = Some len \<Longrightarrow> 100 \<le> len \<and> len \<le> 1440"
  by (auto simp: optimal_block_length_def sbb_block_len_fallback_def sbb_block_len_min_def sbb_block_len_max_def Let_def
      split: option.splits if_splits)

definition report_sane :: "mc_report \<Rightarrow> bool" where
  "report_sane r \<longleftrightarrow> unit_interval (mc_ruin_probability r) \<and> unit_interval (mc_worst_mdd_1pct r) \<and>
     (\<forall>v\<in>{mc_final_equity_p5 r, mc_final_equity_p50 r, mc_final_equity_p95 r}. v \<noteq> NaN \<and> \<not> f_sign v)"

lemma monte_carlo_sane:
  assumes ok: "exp_ok (m_exp m)" "list_all f_finite returns" "returns \<noteq> []"
  shows "report_sane (run_monte_carlo m returns len 1000 seed fatal)"
proof -
  let ?pg = "f_div (Fin 1) (f_of_int (if len < 1 then 1 else len))"
  let ?paths = "mc_paths m returns (f_sub (Fin 1) fatal) ?pg (m_log m (f_sub (Fin 1) ?pg)) 1000 (word_of_int seed)"
  note paths = mc_paths_ok [OF ok, of "f_sub (Fin 1) fatal" ?pg "m_log m (f_sub (Fin 1) ?pg)" 1000 "word_of_int seed"]
  let ?finals = "sort_floats (map (\<lambda>p. m_exp m (mp_cum_log p)) ?paths)" and ?mdds = "sort_floats (map mp_max_dd ?paths)"
  have len: "length ?finals = 1000" "length ?mdds = 1000" using paths by simp_all
  have fin: "\<forall>x\<in>set ?finals. x \<noteq> NaN \<and> \<not> f_sign x"
    using paths ok(1) by (auto simp: list_all_iff path_ok_def exp_ok_def)
  have dd: "\<forall>x\<in>set ?mdds. unit_interval x" using paths by (auto simp: list_all_iff path_ok_def)
  let ?c = "length (filter mp_ruined ?paths)"
  have c: "?c \<le> 1000" using paths length_filter_le [of mp_ruined ?paths] by simp
  have "f_of_int (int ?c) = Fin (of_nat ?c)"
    using rnd_of_nat [OF c] c f_round_small [of "of_nat ?c"] by (simp add: f_of_int_def)
  then have "f_div (f_of_int (int ?c)) (f_of_int 1000) = f_round False (of_nat ?c / 1000)"
    by (simp add: thousand f_div_def f_is_nan_def)
  then have ruin: "unit_interval (f_div (f_of_int (int ?c)) (f_of_int 1000))"
    using c unit_round [of "of_nat ?c / 1000"] by simp
  have p: "unit_interval (percentile ?mdds (Fin 99))" by (rule percentile_unit [OF len(2), where k = 989]) (use dd in simp_all)
  have q: "percentile ?finals (Fin 5) \<noteq> NaN \<and> \<not> f_sign (percentile ?finals (Fin 5))"
    by (rule percentile_number [OF len(1), where k = 49]) (use fin in simp_all)
  have r: "percentile ?finals (Fin 50) \<noteq> NaN \<and> \<not> f_sign (percentile ?finals (Fin 50))"
    by (rule percentile_number [OF len(1), where k = 499]) (use fin in simp_all)
  have s: "percentile ?finals (Fin 95) \<noteq> NaN \<and> \<not> f_sign (percentile ?finals (Fin 95))"
    by (rule percentile_number [OF len(1), where k = 949]) (use fin in simp_all)
  have "run_monte_carlo m returns len 1000 seed fatal =
    \<lparr>mc_version = stress_summary_version_v1, mc_n_iter = 1000, mc_block_len_mean = len, mc_seed = seed,
     mc_ruin_probability = f_div (f_of_int (int ?c)) (f_of_int 1000), mc_final_equity_p5 = percentile ?finals (Fin 5),
     mc_final_equity_p50 = percentile ?finals (Fin 50), mc_final_equity_p95 = percentile ?finals (Fin 95),
     mc_worst_mdd_1pct = percentile ?mdds (Fin 99)\<rparr>"
    using ok(3) unfolding run_monte_carlo_def Let_def by simp
  with ruin p q r s show ?thesis unfolding report_sane_def by simp
qed

text \<open>
  C36: The stress test ends with a report in its ranges: the resampling loop terminates whatever the seed
  and the returns, the mean block length lies between 100 and 1440 bars, the probability of ruin and the
  worst drawdown lie between 0 and 1, and no percentile of the equity is NaN or negative, as long as the
  captured returns are finite.
\<close>
theorem stress_report_in_range:
  assumes "exp_ok (m_exp (xl_libm x))"
    "run_stress x strat plan g seed = Some (Inr (Some rep))"
    "\<And>raw. ev_evaluate strat (plan\<lparr>pn_capture_returns := True\<rparr>) g = Some (Inr raw) \<Longrightarrow>
       list_all f_finite (rw_longest_returns raw)"
  shows "100 \<le> mc_block_len_mean rep \<and> mc_block_len_mean rep \<le> 1440 \<and> report_sane rep"
proof -
  from assms(2) obtain raw len where r: "ev_evaluate strat (plan\<lparr>pn_capture_returns := True\<rparr>) g = Some (Inr raw)"
    "rw_longest_returns raw \<noteq> []" "optimal_block_length x (rw_longest_returns raw) = Some len"
    "rep = run_monte_carlo (xl_libm x) (rw_longest_returns raw) len 1000 seed (pn_fatal_mdd plan)"
    by (auto simp: run_stress_def replay_def default_stress_iters_def Let_def
        split: option.splits sum.splits if_splits)
  have "mc_block_len_mean rep = len" by (simp add: r(4) run_monte_carlo_def Let_def)
  with block_length_bounds [OF r(3)] monte_carlo_sane [OF assms(1) assms(3) [OF r(1)] r(2)] r(4) show ?thesis by simp
qed

definition calm_window :: crucible_result where
  "calm_window = \<lparr>cr_window = Window6M, cr_score = \<lparr>sl_fatal = False, sl_value = Some (Fin 0), sl_reason = None\<rparr>,
     cr_fatal_reason = None, cr_fatal_at_bar_ts = None, cr_fatal_mdd_value = None, cr_bars_evaluated = 1,
     cr_skipped_by = None\<rparr>"

definition calm_raw :: raw_result where
  "calm_raw = \<lparr>rw_windows = [calm_window], rw_friction_actual = \<lparr>fa_taker_fee_bps = Fin 0, fa_slippage_bps = Fin 0\<rparr>,
     rw_bars_evaluated = 0, rw_longest_stats = None, rw_longest_returns = [Fin (1 / 128)]\<rparr>"

theorem stress_report_in_range_witness:
  "\<exists>rep. run_stress sample_ext ((toy_evolvable sample_rand)\<lparr>ev_evaluate := \<lambda>_ _. Some (Inr calm_raw)\<rparr>) sample_plan
     [Fin 0, Fin 0] 7 = Some (Inr (Some rep)) \<and> report_sane rep"
proof -
  let ?s = "(toy_evolvable sample_rand)\<lparr>ev_evaluate := \<lambda>_ _. Some (Inr calm_raw)\<rparr>"
  have e: "exp_ok (m_exp (xl_libm sample_ext))" by (simp add: exp_ok_def sample_ext_def sample_libm_def)
  have valid: "valid_for_stress calm_raw"
    by (simp add: valid_for_stress_def valid_for_is_def calm_raw_def calm_window_def crucible_result_ok_def window_valid_def)
  have len: "optimal_block_length sample_ext [Fin (1 / 128)] = Some 300"
    by (simp add: optimal_block_length_def optimal_block_length_raw_def sbb_block_len_fallback_def)
  have "\<exists>rep. run_stress sample_ext ?s sample_plan [Fin 0, Fin 0] 7 = Some (Inr (Some rep))"
    using len valid by (simp add: run_stress_def replay_def toy_evolvable_def Let_def) (simp add: calm_raw_def)
  then obtain rep where r: "run_stress sample_ext ?s sample_plan [Fin 0, Fin 0] 7 = Some (Inr (Some rep))" by blast
  have f: "list_all f_finite (rw_longest_returns raw)"
    if "ev_evaluate ?s (sample_plan\<lparr>pn_capture_returns := True\<rparr>) [Fin 0, Fin 0] = Some (Inr raw)" for raw
    using that by (auto simp: calm_raw_def)
  from stress_report_in_range [OF e r f] r show ?thesis by blast
qed

end
