(* ===== verification/EpochService.thy ===== *)
theory EpochService
  imports Stress LifecycleSteps
begin

text \<open>
  The epoch service (\<open>internal/saas/epoch\<close>): a request takes the lock of its strategy and pair, stores a
  queued task and starts a run in the background; the run evolves a winner on a plan built from the
  stored bars, banks its Sharpe statistics, verifies it, stores the package as a challenger and closes
  the task. A run is a sequence of database statements with computations between them; requests and
  other runs interleave with it, and the process can die at any moment.
\<close>

section \<open>Strategies and defaults (\<open>registry.go\<close>)\<close>

record 'r epoch_strategy =
  esg_evolvable :: "'r evolvable"
  esg_encode :: "gene \<Rightarrow> spawn_point \<Rightarrow> repro_metadata \<Rightarrow> ga_config_snapshot \<Rightarrow> evaluation_layer
    \<Rightarrow> verification_layer option \<Rightarrow> diagnostics_layer option \<Rightarrow> challenger_package option"

type_synonym 'r registry = "string \<rightharpoonup> (int \<Rightarrow> 'r epoch_strategy)"

definition registry_register :: "string \<Rightarrow> (int \<Rightarrow> 'r epoch_strategy) \<Rightarrow> 'r registry \<Rightarrow> 'r registry option" where
  \<comment> \<open>an empty id panics\<close>
  "registry_register sid f reg = (if sid = [] then None else Some (reg(sid \<mapsto> f)))"

definition registry_build :: "'r registry \<Rightarrow> string \<Rightarrow> int \<Rightarrow> string + 'r epoch_strategy" where
  "registry_build reg sid interval_ms =
     (case reg sid of None \<Rightarrow> Inl (''epoch.Registry: unknown strategy_id '' @ sid) | Some f \<Rightarrow> Inr (f interval_ms))"

definition sigmoid_factory :: "libm \<Rightarrow> 'r rand_ops \<Rightarrow> int \<Rightarrow> 'r epoch_strategy" where
  "sigmoid_factory m R interval_ms =
     \<lparr>esg_evolvable = sigmoid_evolvable m R interval_ms, esg_encode = sigmoid_encode_result\<rparr>"

definition default_registry :: "libm \<Rightarrow> 'r rand_ops \<Rightarrow> 'r registry option" where
  "default_registry m R = registry_register sigmoid_strategy_id (sigmoid_factory m R) Map.empty"

record build_meta =
  bm_data_version :: string
  bm_engine_version :: string
  bm_strategy_version :: string
  bm_hardware_signature :: string
  bm_go_version :: string
  bm_build_id :: string

record epoch_defaults =
  dft_warmup_days :: int
  dft_lot_step :: f64
  dft_lot_min :: f64
  dft_initial_usdt :: f64
  dft_dca :: dca_config

definition default_defaults :: epoch_defaults where
  "default_defaults = \<lparr>dft_warmup_days = 365, dft_lot_step = f_const (1 / 100000), dft_lot_min = f_const (1 / 100000),
     dft_initial_usdt = Fin 10000, dft_dca = \<lparr>gd_initial_capital = Fin 10000, gd_monthly_inject = Fin 0\<rparr>\<rparr>"

definition opt_or :: "'a option \<Rightarrow> 'a \<Rightarrow> 'a" where
  "opt_or p dflt = (case p of None \<Rightarrow> dflt | Some x \<Rightarrow> x)"

definition resolve_defaults :: "epoch_defaults \<Rightarrow> create_task_request \<Rightarrow> epoch_defaults" where
  "resolve_defaults base r =
     \<lparr>dft_warmup_days = opt_or (ct_warmup_days r) (dft_warmup_days base),
      dft_lot_step = opt_or (ct_lot_step r) (dft_lot_step base),
      dft_lot_min = opt_or (ct_lot_min r) (dft_lot_min base),
      dft_initial_usdt = opt_or (ct_initial_usdt r) (dft_initial_usdt base),
      dft_dca = (case ct_dca r of None \<Rightarrow> dft_dca base
        | Some d \<Rightarrow> \<lparr>gd_initial_capital = dr_initial_capital d, gd_monthly_inject = dr_monthly_inject d\<rparr>)\<rparr>"

definition engine_config_from_request :: "create_task_request \<Rightarrow> int \<Rightarrow> engine_config" where
  "engine_config_from_request r seed =
     default_engine_config\<lparr>ec_pop_size := ct_pop_size r, ec_max_generations := ct_max_generations r,
       ec_elite_ratio := ct_elite_ratio r, ec_epoch_seed := seed,
       ec_fatal_audit_sample_rate := opt_or (ct_fatal_audit_sample_rate r)
         (ec_fatal_audit_sample_rate default_engine_config)\<rparr>"

section \<open>Bars (\<open>data/load_bars.go\<close>)\<close>

type_synonym kline_store = "(string \<times> string \<times> eval_bar) list"

definition interval_to_ms :: "string \<Rightarrow> int option" where
  "interval_to_ms s = map_of [(''1m'', 60000), (''5m'', 5 * 60000), (''15m'', 15 * 60000), (''1h'', 60 * 60000),
     (''4h'', 4 * 60 * 60000), (''1d'', 24 * 60 * 60000)] s"

definition load_eval_bars :: "kline_store option \<Rightarrow> string \<Rightarrow> string \<Rightarrow> int \<Rightarrow> int \<Rightarrow> string + eval_bar list" where
  \<comment> \<open>the rows of the table, or nothing when the query fails; gap marks are not loaded\<close>
  "load_eval_bars rows symbol interval start_ms end_ms =
     (if symbol = [] \<or> interval = [] then Inl ''data.LoadKLines: empty symbol or interval''
      else if end_ms < start_ms then Inl ''data.LoadKLines: endMs < startMs''
      else case rows of
        None \<Rightarrow> Inl ''data.LoadKLines: query''
      | Some rs \<Rightarrow> Inr (map (\<lambda>b. b\<lparr>eb_is_gap := False, eb_gap_type := []\<rparr>)
          (sort_key eb_open_time (map (\<lambda>(_, _, b). b)
            (filter (\<lambda>(s, i, b). s = symbol \<and> i = interval \<and> start_ms \<le> eb_open_time b \<and> eb_open_time b \<le> end_ms) rs)))))"

section \<open>The pipeline (\<open>executeEpoch\<close>)\<close>

record 'r epoch_env =
  ee_ext :: libm_ext
  ee_seeded :: "int \<Rightarrow> 'r"
  ee_rand :: "'r rand_ops"
  ee_registry :: "'r registry"
  ee_digest :: "json \<Rightarrow> string"
  ee_meta :: build_meta
  ee_defaults :: epoch_defaults

record epoch_work =
  ew_task :: string
  ew_seed :: int
  ew_req :: create_task_request

record 'r epoch_found =
  ef_strategy :: "'r epoch_strategy"
  ef_plan :: evaluable_plan
  ef_plan_hash :: string
  ef_bars_hash :: string
  ef_cfg :: engine_config
  ef_result :: epoch_result
  ef_challenger :: string

definition rand_hex16 :: "nat list option \<Rightarrow> string + string" where
  \<comment> \<open>the random bytes, or nothing when the source fails\<close>
  "rand_hex16 bytes =
     (case bytes of None \<Rightarrow> Inl ''rand''
      | Some bs \<Rightarrow> Inr (concat (map (\<lambda>b. [hex_digit (b div 16 mod 16), hex_digit (b mod 16)]) bs)))"

definition load_all_bars :: "kline_store option \<Rightarrow> epoch_work \<Rightarrow> string + eval_bar list" where
  "load_all_bars rows w = load_eval_bars rows (ct_pair (ew_req w)) (ct_interval (ew_req w)) 0 (2 ^ 63 - 1)"

definition effective_friction :: "create_task_request \<Rightarrow> friction_params" where
  "effective_friction r =
     (if ct_test_mode r then \<lparr>fp_taker_fee_bps = Fin 0, fp_slippage_bps = Fin 0\<rparr>
      else \<lparr>fp_taker_fee_bps = ct_taker_fee_bps r, fp_slippage_bps = ct_slippage_bps r\<rparr>)"

definition plan_options_of :: "epoch_defaults \<Rightarrow> create_task_request \<Rightarrow> int \<Rightarrow> plan_options" where
  "plan_options_of defaults r min_bars =
     (let eff = resolve_defaults defaults r in
      \<lparr>po_pair = ct_pair r,
       po_spawn = \<lparr>sp_spawn_mode = ct_spawn_mode r, sp_capital_policy = None, sp_risk_bounds = None,
         sp_meta = ct_spawn_point r\<rparr>,
       po_warmup_days = dft_warmup_days eff, po_oos_days = ct_oos_days r, po_friction = effective_friction r,
       po_lot_step = dft_lot_step eff, po_lot_min = dft_lot_min eff, po_fatal_mdd = ct_fatal_mdd r,
       po_initial_usdt = dft_initial_usdt eff, po_dca = dft_dca eff, po_min_eval_bars = min_bars\<rparr>)"

definition work_options :: "'r epoch_env \<Rightarrow> 'r epoch_strategy \<Rightarrow> epoch_work \<Rightarrow> plan_options" where
  "work_options E strat w = plan_options_of (ee_defaults E) (ew_req w) (ev_min_eval_bars (esg_evolvable strat))"

definition evolve_winner ::
  "'r epoch_env \<Rightarrow> kline_store option \<Rightarrow> nat list option \<Rightarrow> epoch_work \<Rightarrow> (string + 'r epoch_found) option" where
  \<comment> \<open>up to the choice of the challenger's id; nothing is written\<close>
  "evolve_winner E rows bytes w =
     (let r = ew_req w in
      case interval_to_ms (ct_interval r) of
        None \<Rightarrow> Some (Inl ''data.IntervalToMs'')
      | Some ms \<Rightarrow>
        (case registry_build (ee_registry E) (ct_strategy_id r) ms of
           Inl e \<Rightarrow> Some (Inl e)
         | Inr strat \<Rightarrow>
           (case load_all_bars rows w of
              Inl e \<Rightarrow> Some (Inl (''load klines: '' @ e))
            | Inr bars \<Rightarrow>
              if bars = [] then Some (Inl ''no klines'')
              else case build_evaluable_plan (ee_digest E) bars (work_options E strat w) of
                None \<Rightarrow> None
              | Some (Inl e) \<Rightarrow> Some (Inl (''build plan: '' @ e))
              | Some (Inr (plan, ph, bh)) \<Rightarrow>
                  let cfg = engine_config_from_request r (ew_seed w) in
                  (case run_epoch (xl_libm (ee_ext E)) (ee_seeded E) (ee_rand E) (esg_evolvable strat) cfg plan of
                     None \<Rightarrow> None
                   | Some (Inl e) \<Rightarrow> Some (Inl (''run epoch: '' @ e))
                   | Some (Inr res) \<Rightarrow>
                     (case rand_hex16 bytes of
                        Inl e \<Rightarrow> Some (Inl (''gen challengerID: '' @ e))
                      | Inr cid \<Rightarrow> Some (Inr \<lparr>ef_strategy = strat, ef_plan = plan, ef_plan_hash = ph, ef_bars_hash = bh,
                          ef_cfg = cfg, ef_result = res, ef_challenger = cid\<rparr>))))))"

definition dsr_summary_json :: "dsr_summary \<Rightarrow> json option" where
  "dsr_summary_json s =
     (case (case ds_dsr s of None \<Rightarrow> Some JNull | Some v \<Rightarrow> marshal_float v,
            marshal_floats [ds_observed_sharpe s, ds_sharpe_variance s, ds_skew s, ds_excess_kurt s]) of
        (Some dsr, Some [sharpe, variance, skew, kurt]) \<Rightarrow>
          Some (JObj [(''dsr'', dsr), (''observed_sharpe'', sharpe), (''sharpe_variance'', variance),
            (''n_trials'', JInt (ds_n_trials s)), (''horizon_t'', JInt (ds_horizon_t s)), (''skew'', skew),
            (''excess_kurt'', kurt)])
      | _ \<Rightarrow> None)"

definition dsr_blob :: "libm_ext \<Rightarrow> sharpe_stats \<Rightarrow> bank_stats \<Rightarrow> json option option" where
  \<comment> \<open>no blob below the minimum of trials; \<open>None\<close> is a marshalling error\<close>
  "dsr_blob x stats bank =
     (if int (bk_n bank) < min_trials_for_dsr then Some None
      else
        let dsr = compute_dsr x (sh_observed_sharpe stats) (bk_sharpe_variance bank) (int (bk_n bank))
                    (sh_horizon_t stats) (sh_skew stats) (sh_excess_kurt stats)
        in map_option Some (dsr_summary_json
          \<lparr>ds_dsr = (if dsr = NaN then None else Some dsr), ds_observed_sharpe = sh_observed_sharpe stats,
           ds_sharpe_variance = bk_sharpe_variance bank, ds_n_trials = int (bk_n bank),
           ds_horizon_t = sh_horizon_t stats, ds_skew = sh_skew stats, ds_excess_kurt = sh_excess_kurt stats\<rparr>))"

definition build_context_of ::
  "build_meta \<Rightarrow> create_task_request \<Rightarrow> 'r epoch_found \<Rightarrow> json option \<Rightarrow> json \<Rightarrow> json \<Rightarrow> json option \<Rightarrow> json option
    \<Rightarrow> build_context" where
  "build_context_of meta r f dsr oos review alpha stress =
     \<lparr>bc_pair = ct_pair r, bc_test_mode = ct_test_mode r, bc_oos_days = ct_oos_days r,
      bc_fatal_audit_sample_rate = ct_fatal_audit_sample_rate r, bc_data_version = bm_data_version meta,
      bc_engine_version = bm_engine_version meta, bc_strategy_version = bm_strategy_version meta,
      bc_hardware_signature = bm_hardware_signature meta, bc_go_version = bm_go_version meta,
      bc_build_id = bm_build_id meta, bc_plan_hash = ef_plan_hash f, bc_bars_hash = ef_bars_hash f,
      bc_dsr_summary = dsr, bc_oos_payload = Some oos, bc_review_payload = Some review,
      bc_samples = er_samples (ef_result f), bc_search_stats = Some (er_stats (ef_result f)),
      bc_alpha_payload = alpha, bc_stress_payload = stress\<rparr>"

definition stress_payload :: "'r epoch_env \<Rightarrow> epoch_work \<Rightarrow> 'r epoch_found \<Rightarrow> json option option" where
  \<comment> \<open>errors of the stress test only leave the payload out\<close>
  "stress_payload E w f =
     (case run_stress (ee_ext E) (esg_evolvable (ef_strategy f)) (ef_plan f) (er_best_gene (ef_result f))
             (ew_seed w mod 2 ^ 64) of
        None \<Rightarrow> None
      | Some (Inr (Some rep)) \<Rightarrow> Some (mc_report_json rep)
      | _ \<Rightarrow> Some None)"

definition review_winner ::
  "'r epoch_env \<Rightarrow> kline_store option \<Rightarrow> epoch_work \<Rightarrow> 'r epoch_found \<Rightarrow> (string + review_summary) option" where
  \<comment> \<open>the plan is rebuilt from a fresh load\<close>
  "review_winner E rows w f =
     (case load_all_bars rows w of
        Inl e \<Rightarrow> Some (Inl (''review: load klines: '' @ e))
      | Inr bars \<Rightarrow>
        (case build_evaluable_plan (ee_digest E) bars (work_options E (ef_strategy f) w) of
           None \<Rightarrow> None
         | Some (Inl e) \<Rightarrow> Some (Inl (''review: build plan: '' @ e))
         | Some (Inr (plan, ph, bh)) \<Rightarrow>
             map_option (map_sum (\<lambda>e. ''review verification: '' @ e) id)
               (run_review (xl_libm (ee_ext E)) (esg_evolvable (ef_strategy f)) plan (er_best_gene (ef_result f))
                  \<lparr>rx_score = er_best_score (ef_result f), rx_fingerprint = er_best_fingerprint (ef_result f),
                   rx_plan_hash = ef_plan_hash f, rx_bars_hash = ef_bars_hash f\<rparr> ph bh window_weights
                  (ec_lambda_cons (ef_cfg f)))))"

definition package_winner ::
  "'r epoch_env \<Rightarrow> epoch_work \<Rightarrow> 'r epoch_found \<Rightarrow> json option \<Rightarrow> json \<Rightarrow> review_summary
    \<Rightarrow> (string + challenger_package) option" where
  "package_winner E w f dsr oos review =
     (case stress_payload E w f of
        None \<Rightarrow> None
      | Some stress \<Rightarrow>
        (case build_challenger_package (esg_encode (ef_strategy f)) (ev_strategy_id (esg_evolvable (ef_strategy f)))
                (ef_plan f) (er_best_gene (ef_result f)) (er_best_raw (ef_result f)) (er_best_score (ef_result f))
                (ef_cfg f)
                (build_context_of (ee_meta E) (ew_req w) f dsr oos (marshal_review_payload review)
                   (alpha_breakdown_json (run_is_alpha_breakdown (xl_libm (ee_ext E)) (rw_windows (er_best_raw (ef_result f)))
                      (ef_plan f) (dft_dca (resolve_defaults (ee_defaults E) (ew_req w)))))
                   stress) of
           None \<Rightarrow> Some (Inl ''build package'')
         | Some pkg \<Rightarrow> Some (Inr pkg)))"

definition verify_winner ::
  "'r epoch_env \<Rightarrow> kline_store option \<Rightarrow> epoch_work \<Rightarrow> 'r epoch_found \<Rightarrow> json option
    \<Rightarrow> (string + challenger_package) option" where
  "verify_winner E rows w f dsr =
     (case run_oos (xl_libm (ee_ext E)) (esg_evolvable (ef_strategy f)) (ef_plan f) (er_best_gene (ef_result f))
             (dft_dca (resolve_defaults (ee_defaults E) (ew_req w))) of
        None \<Rightarrow> None
      | Some (Inl e) \<Rightarrow> Some (Inl (''oos verification: '' @ e))
      | Some (Inr oos) \<Rightarrow>
        (case marshal_oos_payload oos of
           None \<Rightarrow> Some (Inl ''marshal oos payload'')
         | Some payload \<Rightarrow>
           (case review_winner E rows w f of
              None \<Rightarrow> None
            | Some (Inl e) \<Rightarrow> Some (Inl e)
            | Some (Inr review) \<Rightarrow> package_winner E w f dsr payload review)))"

end
