(* ===== verification/EpochRuns.thy ===== *)
theory EpochRuns
  imports EpochService
begin

text \<open>
  The runs of the epoch service: what one of them does between two points where others can act
  (\<open>Service.run\<close>, \<open>executeEpoch\<close>), the acceptance of a request (\<open>CreateAndRunTask\<close>, the handler above it),
  and the process around them: locks, a crash, the sweep at the next start, requests of other users.
\<close>

section \<open>One run (\<open>run\<close>, \<open>executeEpoch\<close>)\<close>

datatype 'r epoch_run =
    RunCreate epoch_work                                      \<comment> \<open>in the handler, with the lock\<close>
  | RunStart epoch_work
  | RunEvolve epoch_work
  | RunBank epoch_work "'r epoch_found" sharpe_stats
  | RunBankStats epoch_work "'r epoch_found" sharpe_stats
  | RunVerify epoch_work "'r epoch_found" "json option"
  | RunSave epoch_work "'r epoch_found" challenger_package
  | RunSucceed epoch_work "'r epoch_found"
  | RunFail epoch_work string
  | RunOver

definition bank_entry_of :: "epoch_work \<Rightarrow> 'r epoch_found \<Rightarrow> sharpe_stats \<Rightarrow> bank_entry" where
  "bank_entry_of w f stats = \<lparr>be_challenger_id = ef_challenger f, be_spawn_mode = ct_spawn_mode (ew_req w),
     be_stats = stats, be_fingerprint_distance = None\<rparr>"

definition or_fail :: "epoch_work \<Rightarrow> string \<Rightarrow> 'a life_res \<Rightarrow> ('a \<Rightarrow> 'r epoch_run) \<Rightarrow> 'r epoch_run \<times> life_db" where
  \<comment> \<open>\<open>if err != nil { return fmt.Errorf(...) }\<close> after a statement\<close>
  "or_fail w why res k = (case res of (Inl e, d) \<Rightarrow> (RunFail w why, d) | (Inr x, d) \<Rightarrow> (k x, d))"

definition computed :: "epoch_work \<Rightarrow> (string + 'a) option \<Rightarrow> ('a \<Rightarrow> 'r epoch_run) \<Rightarrow> 'r epoch_run" where
  \<comment> \<open>a panic is recovered, an error ends the pipeline; both become the reason of the failure\<close>
  "computed w res k = (case res of None \<Rightarrow> RunFail w ''panic: '' | Some (Inl e) \<Rightarrow> RunFail w (''epoch: '' @ e) | Some (Inr x) \<Rightarrow> k x)"

fun run_advance ::
  "'r epoch_env \<Rightarrow> int \<Rightarrow> kline_store option \<Rightarrow> nat list option \<Rightarrow> 'r epoch_run \<Rightarrow> life_db \<Rightarrow> 'r epoch_run \<times> life_db" where
  "run_advance E now rows bytes (RunCreate w) d =
     (case create_task now (ew_task w) (ew_seed w) (ew_req w) d of
        (Inl e, d) \<Rightarrow> (RunOver, d) | (Inr _, d) \<Rightarrow> (RunStart w, d))"
| "run_advance E now rows bytes (RunStart w) d =
     or_fail w ''mark started: '' (mark_started now (ew_task w) d) (\<lambda>_. RunEvolve w)"
| "run_advance E now rows bytes (RunEvolve w) d =
     (computed w (evolve_winner E rows bytes w) (\<lambda>f.
        case rw_longest_stats (er_best_raw (ef_result f)) of
          None \<Rightarrow> RunVerify w f None | Some stats \<Rightarrow> RunBank w f stats), d)"
| "run_advance E now rows bytes (RunBank w f stats) d =
     or_fail w ''sharpe bank add: ''
       (bank_add (ct_strategy_id (ew_req w)) (ct_pair (ew_req w)) (bank_entry_of w f stats) d)
       (\<lambda>_. RunBankStats w f stats)"
| "run_advance E now rows bytes (RunBankStats w f stats) d =
     or_fail w ''sharpe bank stats: '' (bank_statistics (ct_strategy_id (ew_req w)) (ct_pair (ew_req w)) d)
       (\<lambda>bank. case dsr_blob (ee_ext E) stats bank of
          None \<Rightarrow> RunFail w ''marshal DSR summary: '' | Some dsr \<Rightarrow> RunVerify w f dsr)"
| "run_advance E now rows bytes (RunVerify w f dsr) d =
     (computed w (verify_winner E rows w f dsr) (RunSave w f), d)"
| "run_advance E now rows bytes (RunSave w f pkg) d =
     or_fail w ''save challenger: '' (save_challenger (ef_challenger f) pkg d) (\<lambda>_. RunSucceed w f)"
| "run_advance E now rows bytes (RunSucceed w f) d =
     or_fail w ''mark succeeded: ''
       (mark_succeeded now (ew_task w) (ef_challenger f) (er_generations (ef_result f))
          (st_value (er_best_score (ef_result f))) d) (\<lambda>_. RunOver)"
| "run_advance E now rows bytes (RunFail w why) d = (RunOver, snd (mark_failed now (ew_task w) why d))"
| "run_advance E now rows bytes RunOver d = (RunOver, d)"

fun run_work :: "'r epoch_run \<Rightarrow> epoch_work option" where
  "run_work (RunCreate w) = Some w"
| "run_work (RunStart w) = Some w"
| "run_work (RunEvolve w) = Some w"
| "run_work (RunBank w f s) = Some w"
| "run_work (RunBankStats w f s) = Some w"
| "run_work (RunVerify w f d) = Some w"
| "run_work (RunSave w f p) = Some w"
| "run_work (RunSucceed w f) = Some w"
| "run_work (RunFail w why) = Some w"
| "run_work RunOver = None"

section \<open>Accepting a request (\<open>CreateAndRunTask\<close>)\<close>

datatype create_err = CeUnknownStrategy | CeUnsupportedInterval | CeTaskInProgress | CeTaskId

definition map_create_task_err :: "create_err \<Rightarrow> nat" where
  "map_create_task_err e =
     (case e of CeTaskInProgress \<Rightarrow> 409 | CeUnknownStrategy \<Rightarrow> 400 | CeUnsupportedInterval \<Rightarrow> 400 | CeTaskId \<Rightarrow> 500)"

definition lock_key :: "string \<Rightarrow> string \<Rightarrow> string" where
  "lock_key sid pair = sid @ '':'' @ pair"

definition request_key :: "create_task_request \<Rightarrow> string" where
  "request_key r = lock_key (ct_strategy_id r) (ct_pair r)"

definition accept_task ::
  "'r epoch_env \<Rightarrow> string list \<Rightarrow> nat list option \<Rightarrow> int \<Rightarrow> create_task_request \<Rightarrow> create_err + epoch_work" where
  \<comment> \<open>up to the insert of the row; the lock is taken exactly when there is work\<close>
  "accept_task E locks bytes seed r =
     (if ee_registry E (ct_strategy_id r) = None then Inl CeUnknownStrategy
      else if interval_to_ms (ct_interval r) = None then Inl CeUnsupportedInterval
      else if List.member locks (request_key r) then Inl CeTaskInProgress
      else case rand_hex16 bytes of
        Inl e \<Rightarrow> Inl CeTaskId
      | Inr tid \<Rightarrow> Inr \<lparr>ew_task = tid, ew_seed = seed, ew_req = r\<rparr>)"

definition http_create_task ::
  "'r epoch_env \<Rightarrow> string list \<Rightarrow> nat list option \<Rightarrow> int \<Rightarrow> create_task_request option \<Rightarrow> nat + epoch_work" where
  \<comment> \<open>the status of a refusal\<close>
  "http_create_task E locks bytes seed body =
     (case body of
        None \<Rightarrow> Inl 400
      | Some r \<Rightarrow>
          if validate_create_task r \<noteq> None then Inl 400
          else map_sum map_create_task_err id (accept_task E locks bytes seed r))"

section \<open>The service\<close>

record 'r epoch_service =
  es_db :: life_db
  es_locks :: "string list"
  es_runs :: "'r epoch_run list"
  es_up :: bool
  es_stopping :: bool

definition run_key :: "'r epoch_run \<Rightarrow> string option" where
  "run_key r = map_option (\<lambda>w. request_key (ew_req w)) (run_work r)"

definition release :: "string option \<Rightarrow> string list \<Rightarrow> string list" where
  "release k locks = (case k of None \<Rightarrow> locks | Some x \<Rightarrow> remove1 x locks)"

inductive epoch_step :: "'r epoch_env \<Rightarrow> 'r epoch_service \<Rightarrow> 'r epoch_service \<Rightarrow> bool" for E where
  request: "es_up s \<Longrightarrow> http_create_task E (es_locks s) bytes seed (Some r) = Inr w \<Longrightarrow>
    case bytes of None \<Rightarrow> True | Some bs \<Rightarrow> length bs = 16 \<Longrightarrow>
    epoch_step E s (s\<lparr>es_locks := request_key r # es_locks s, es_runs := es_runs s @ [RunCreate w]\<rparr>)"
| proceed: "k < length (es_runs s) \<Longrightarrow> run_work (es_runs s ! k) \<noteq> None \<Longrightarrow>
    case bytes of None \<Rightarrow> True | Some bs \<Rightarrow> length bs = 16 \<Longrightarrow>
    run_advance E now rows bytes (es_runs s ! k) (es_db s) = (r', d') \<Longrightarrow>
    epoch_step E s (s\<lparr>es_db := d', es_runs := (es_runs s)[k := r'],
      es_locks := (if run_work r' = None then release (run_key (es_runs s ! k)) (es_locks s) else es_locks s)\<rparr>)"
| shutdown: "epoch_step E s (s\<lparr>es_stopping := True\<rparr>)"
| cancelled: "es_stopping s \<Longrightarrow> k < length (es_runs s) \<Longrightarrow> es_runs s ! k = RunEvolve w \<Longrightarrow>
    epoch_step E s (s\<lparr>es_runs := (es_runs s)[k := RunFail w ''context canceled'']\<rparr>)"
| others: "advance cap now q (es_db s) = (q', d') \<Longrightarrow> epoch_step E s (s\<lparr>es_db := d'\<rparr>)"
| died: "epoch_step E s (s\<lparr>es_runs := [], es_locks := [], es_up := False, es_stopping := False\<rparr>)"
| boot: "\<not> es_up s \<Longrightarrow> epoch_step E s (s\<lparr>es_db := snd (sweep_orphans now (es_db s)), es_up := True\<rparr>)"

inductive_cases epoch_stepE: "epoch_step E s s'"

definition epoch_start :: "bool list \<Rightarrow> 'r epoch_service" where
  "epoch_start fs = \<lparr>es_db = empty_life_db fs, es_locks = [], es_runs = [], es_up = True, es_stopping = False\<rparr>"

definition epoch_reachable :: "'r epoch_env \<Rightarrow> 'r epoch_service \<Rightarrow> bool" where
  "epoch_reachable E s \<longleftrightarrow> (\<exists>fs. (epoch_step E)\<^sup>*\<^sup>* (epoch_start fs) s)"

end
