(* ===== verification/EpochEffects.thy ===== *)
theory EpochEffects
  imports EpochRuns LifecycleSafety StressTheorems
begin

text \<open>
  The effects of single statements on what the epoch service depends on: other requests leave the tasks
  alone and lose no challenger, and each statement of a run changes one task or one table.
\<close>

section \<open>What other requests leave alone\<close>

abbreviation no_faults_left :: "life_db \<Rightarrow> bool" where
  "no_faults_left d \<equiv> db_faults (lf_live d) = []"

definition steady :: "life_db \<Rightarrow> life_db \<Rightarrow> bool" where
  \<comment> \<open>the tasks as they were, and no fault out of nothing\<close>
  "steady d d' \<longleftrightarrow> lf_tasks d' = lf_tasks d \<and> (no_faults_left d \<longrightarrow> no_faults_left d')"

lemma steady_refl [simp]: "steady d d" by (simp add: steady_def)

lemma steady_trans [trans]: "steady a b \<Longrightarrow> steady b c \<Longrightarrow> steady a c" by (auto simp: steady_def)

lemma take_fault_steady: "steady d (snd (take_fault d))"
  by (simp add: steady_def take_fault_def)

definition steady_op :: "(life_db \<Rightarrow> 'a life_res) \<Rightarrow> bool" where
  "steady_op f \<longleftrightarrow> (\<forall>d. steady d (snd (f d)))"

lemma steady_opD: "steady_op f \<Longrightarrow> f d = (r, d') \<Longrightarrow> steady d d'"
  unfolding steady_op_def by (metis snd_conv)

lemma steady_stmt: "(\<And>d. steady d (snd (f d))) \<Longrightarrow> steady_op (life_stmt f)"
  unfolding steady_op_def life_stmt_def Let_def
  by (auto split: prod.split) (metis steady_trans snd_conv take_fault_steady)+

lemma steady_bind: "steady_op f \<Longrightarrow> (\<And>x. steady_op (k x)) \<Longrightarrow> steady_op (life_bind f k)"
  unfolding steady_op_def life_bind_def
  by (auto split: prod.split sum.split) (metis steady_trans snd_conv)+

lemma steady_rollback: "steady d d' \<Longrightarrow> steady d (rollback d d')"
  by (simp add: steady_def rollback_def)

lemma steady_transaction:
  assumes "steady_op f" shows "steady_op (transaction f)"
  unfolding steady_op_def
proof
  fix d
  obtain r d1 where f: "f d = (r, d1)" by (cases "f d")
  note q = steady_opD [OF assms f]
  obtain b d2 where t: "take_fault d1 = (b, d2)" by (cases "take_fault d1")
  have "steady d1 d2" using take_fault_steady [of d1] t by simp
  with q have "steady d d2" by (rule steady_trans)
  then show "steady d (snd (transaction f d))"
    using f t q by (auto simp: transaction_def steady_rollback split: sum.split)
qed

definition keeps_steady :: "(saas_db \<Rightarrow> 'a db_res) \<Rightarrow> bool" where
  "keeps_steady f \<longleftrightarrow> (\<forall>db. db_faults db = [] \<longrightarrow> db_faults (snd (f db)) = [])"

lemma steady_live: "keeps_steady f \<Longrightarrow> steady_op (live_stmt f)"
  unfolding steady_op_def live_stmt_def steady_def keeps_steady_def
  by (auto split: prod.split sum.split)

lemma keeps_steady_stmt: "(\<And>db. db_faults (snd (f db)) = db_faults db) \<Longrightarrow> keeps_steady (db_stmt f)"
  unfolding keeps_steady_def db_stmt_def by (auto simp: Let_def)

lemma keeps_steady_guarded: "keeps_steady (guarded_update iid err p f)"
  unfolding keeps_steady_def guarded_update_def update_instances_def classify_instance_no_rows_def db_stmt_def
  by (auto simp: Let_def split: prod.splits sum.splits if_splits)

lemma keeps_steady_ops:
  "keeps_steady (blocking_instance_for_champion cid)" "keeps_steady (get_instance iid)"
  "keeps_steady (create_instance i)" "keeps_steady (set_active_champion iid cid)"
  "keeps_steady (update_status iid from_st to_st)" "keeps_steady (retire_instance iid)"
proof -
  show "keeps_steady (blocking_instance_for_champion cid)"
    unfolding blocking_instance_for_champion_def by (rule keeps_steady_stmt) (simp split: option.split)
  show "keeps_steady (get_instance iid)"
    unfolding get_instance_def by (rule keeps_steady_stmt) (simp split: option.split)
  show "keeps_steady (create_instance i)"
    unfolding create_instance_def by (rule keeps_steady_stmt) simp
  show "keeps_steady (update_status iid from_st to_st)" "keeps_steady (retire_instance iid)"
    unfolding update_status_def retire_instance_def by (rule keeps_steady_guarded)+
  show "keeps_steady (set_active_champion iid cid)"
    unfolding keeps_steady_def set_active_champion_def
    using keeps_steady_guarded unfolding keeps_steady_def by blast
qed

lemma steady_ops:
  "steady_op (promote_read cid)" "steady_op (promote_count g)" "steady_op (promote_write cid g r now n)"
  "steady_op (retire_read cid)" "steady_op (retire_history i c rq now)" "steady_op (get_challenger cid)"
  "steady_op (save_challenger cid p)"
proof -
  show "steady_op (promote_read cid)" "steady_op (promote_count g)" "steady_op (retire_read cid)"
    unfolding promote_read_def promote_count_def retire_read_def
    by (rule steady_stmt, simp split: option.split)+
  have ins: "steady_op (insert_champion row)" for row
    unfolding insert_champion_def by (rule steady_stmt) (simp add: steady_def set_champions_def)
  have upd: "steady_op (update_genes p f)" for p f
    unfolding update_genes_def by (rule steady_stmt) (simp add: steady_def)
  have "steady_op (life_bind (update_genes p f) (\<lambda>_. insert_champion row))" for p f row
    by (rule steady_bind [OF upd ins])
  then show "steady_op (promote_write cid g r now n)"
    unfolding steady_op_def promote_write_def
    by (auto simp: Let_def split: sum.split)
  have hist: "steady_op (life_stmt (\<lambda>d. let rows = lf_champions d in
      if i < length rows \<and> ch_retired_at (rows ! i) = None
      then (Inr (), set_champions (rows[i := upd (rows ! i)]) d) else (Inl LeAlreadyRetired, d)))" for upd
    by (rule steady_stmt) (simp add: steady_def set_champions_def Let_def)
  show "steady_op (retire_history i c rq now)"
    using hist unfolding steady_op_def retire_history_def by (auto split: sum.split)
  have get: "steady_op (life_stmt (\<lambda>d. case find (\<lambda>g. gr_challenger_id g = cid) (lf_genes d) of
      None \<Rightarrow> (Inl LeNotFound, d) | Some g \<Rightarrow> (Inr g, d)))"
    by (rule steady_stmt) (simp split: option.split)
  show "steady_op (get_challenger cid)"
    using get unfolding steady_op_def get_challenger_def by auto
  have save: "steady_op (life_stmt (\<lambda>d. if \<exists>h\<in>set (lf_genes d). gr_challenger_id h = cid
      then (Inl (LeUnique ''idx_gene_records_challenger_id''), d)
      else (Inr (), d\<lparr>lf_genes := lf_genes d @ [g]\<rparr>)))" for g
    by (rule steady_stmt) (simp add: steady_def)
  show "steady_op (save_challenger cid p)"
    using save unfolding steady_op_def save_challenger_def by (auto split: option.split)
qed

lemma done_or_steady:
  assumes "done_or st (f d) k = (q', d')" "steady_op f" shows "steady d d'"
  using assms(1) by (cases rule: done_orE) (auto intro: steady_opD [OF assms(2)])

lemma advance_steady: "advance cap now q d = (q', d') \<Longrightarrow> steady d d'"
  by (cases q)
    (auto elim!: done_or_steady intro!: steady_ops steady_transaction steady_live keeps_steady_ops)

definition genes_kept :: "life_db \<Rightarrow> life_db \<Rightarrow> bool" where
  \<comment> \<open>no challenger is lost or changes identity or score\<close>
  "genes_kept d d' \<longleftrightarrow>
     (\<forall>g\<in>set (lf_genes d). \<exists>h\<in>set (lf_genes d'). same_gene g h \<and> gr_score_total h = gr_score_total g)"

lemma genes_kept_eq: "lf_genes d' = lf_genes d \<Longrightarrow> genes_kept d d'"
  unfolding genes_kept_def by (metis same_gene_refl)

lemma genes_kept_refl [simp]: "genes_kept d d"
  by (rule genes_kept_eq) simp

lemma genes_kept_same: "same_rows d d' \<Longrightarrow> genes_kept d d'"
  by (rule genes_kept_eq) (rule same_rowsD)

lemma save_keeps: "save_challenger cid p d = (res, d') \<Longrightarrow> genes_kept d d'"
proof (erule save_effect)
  fix g assume "lf_genes d' = lf_genes d @ [g]"
  then show "genes_kept d d'" unfolding genes_kept_def by (metis UnCI same_gene_refl set_append)
qed (rule genes_kept_same)

lemma promoted_kept: "same_gene h (promoted_gene r now g h) \<and> gr_score_total (promoted_gene r now g h) = gr_score_total h"
  by (simp add: same_gene_def promoted_gene_def Let_def)

lemma promote_write_keeps:
  assumes "transaction (promote_write cid g r now n) d = (res, d')" shows "genes_kept d d'"
  using assms
proof (cases rule: transactionE)
  case (commit x d0)
  have eq: "lf_genes d' = update_where (\<lambda>h. gr_challenger_id h = cid) (promoted_gene r now g) (lf_genes d)"
    using promote_write_effect(4) [OF commit(2)] same_rowsD(1) [OF commit(3)] by simp
  have "(if gr_challenger_id h = cid then promoted_gene r now g h else h) \<in> set (lf_genes d')"
    if "h \<in> set (lf_genes d)" for h using that unfolding eq set_update_where by blast
  moreover have "same_gene h (if gr_challenger_id h = cid then promoted_gene r now g h else h) \<and>
      gr_score_total (if gr_challenger_id h = cid then promoted_gene r now g h else h) = gr_score_total h" for h
    using promoted_kept by simp
  ultimately show ?thesis unfolding genes_kept_def by blast
qed (rule genes_kept_same)

lemma retire_write_keeps:
  assumes "transaction (retire_history i c r now) d = (res, d')" shows "genes_kept d d'"
  using assms
proof (cases rule: transactionE)
  case (commit x d0)
  show ?thesis
    using retire_history_effect(4) [OF commit(2)] same_rowsD(1) [OF commit(3)] by (intro genes_kept_eq) simp
qed (rule genes_kept_same)

lemma done_or_keeps:
  assumes "done_or st (f d) k = (q', d')" "\<And>res d'. f d = (res, d') \<Longrightarrow> genes_kept d d'"
  shows "genes_kept d d'"
  using assms(1) by (cases rule: done_orE) (auto intro: assms(2))

lemma live_keeps: "live_stmt f d = (res, d') \<Longrightarrow> keeps_champions f \<Longrightarrow> genes_kept d d'"
  by (intro genes_kept_eq live_stmt_keeps)

lemma advance_keeps:
  assumes "advance cap now q d = (q', d')" shows "genes_kept d d'"
proof -
  have same: "genes_kept d d'" if "d' = d" using that by (simp add: genes_kept_eq)
  note reads = genes_kept_same [OF promote_read_effect(1)] genes_kept_same [OF promote_count_effect]
    genes_kept_same [OF retire_read_effect(1)] genes_kept_same [OF get_challenger_effect]
  show ?thesis using assms
    by (cases q)
      (auto elim!: done_or_keeps intro: same reads save_keeps promote_write_keeps retire_write_keeps live_keeps)
qed

section \<open>The statements of a run\<close>

lemma life_stmt_steady: "no_faults_left d \<Longrightarrow> life_stmt f d = f d"
proof -
  assume q: "no_faults_left d"
  then have "(lf_live d)\<lparr>db_faults := []\<rparr> = lf_live d" by (cases "lf_live d") simp
  then have same: "d\<lparr>lf_live := (lf_live d)\<lparr>db_faults := []\<rparr>\<rparr> = d" by (cases d) simp
  have "take_fault d = (False, d\<lparr>lf_live := (lf_live d)\<lparr>db_faults := []\<rparr>\<rparr>)" using q by (simp add: take_fault_def)
  also note same
  finally show ?thesis by (simp add: life_stmt_def)
qed

definition updated :: "string \<Rightarrow> (evolution_task \<Rightarrow> evolution_task) \<Rightarrow> life_db \<Rightarrow> life_db \<Rightarrow> bool" where
  "updated tid f d d' \<longleftrightarrow> lf_genes d' = lf_genes d \<and>
     lf_tasks d' = update_where (\<lambda>t. et_task_id t = tid) f (lf_tasks d)"

lemma mark_task_effect:
  assumes "mark_task tid f d = (res, d')" "t \<in> set (lf_tasks d)" "et_task_id t = tid"
  obtains (failed) e where "res = Inl e" "same_rows d d'" "\<not> no_faults_left d"
  | (done_) "res = Inr ()" "updated tid f d d'" "no_faults_left d \<longrightarrow> no_faults_left d'"
proof -
  from assms(1) show thesis unfolding mark_task_def
  proof (cases rule: life_bindE)
    case (failed e)
    have "\<not> no_faults_left d"
    proof
      assume "no_faults_left d"
      with failed(1) show False by (simp add: update_tasks_def life_stmt_steady)
    qed
    moreover have "same_rows d d'" using failed(1) unfolding update_tasks_def by (elim life_stmtE) auto
    ultimately show thesis using failed(2) that(1) by blast
  next
    case (passed n d0)
    from passed(1) obtain d1 where d1: "same_rows d d1" "n = length (filter (\<lambda>t. et_task_id t = tid) (lf_tasks d1))"
      "d0 = d1\<lparr>lf_tasks := update_where (\<lambda>t. et_task_id t = tid) f (lf_tasks d1)\<rparr>"
      unfolding update_tasks_def by (elim life_stmtE) auto
    have "n \<noteq> 0" using d1(2) same_rowsD(4) [OF d1(1)] assms(2,3) by (auto simp: filter_empty_conv)
    with passed(2) have r: "res = Inr ()" "d' = d0" by auto
    have nf: "no_faults_left d \<longrightarrow> no_faults_left d0"
      using passed(1) by (auto simp: update_tasks_def life_stmt_steady)
    show thesis
      using r d1(3) same_rowsD(1,4) [OF d1(1)] nf by (intro that(2)) (auto simp: updated_def)
  qed
qed

lemma create_task_effect:
  assumes "create_task now tid seed r d = (res, d')"
  obtains (failed) e where "res = Inl e" "same_rows d d'" "no_faults_left d \<longrightarrow> no_faults_left d'"
  | (created) "res = Inr ()" "tid \<noteq> []" "tid \<notin> et_task_id ` set (lf_tasks d)" "lf_genes d' = lf_genes d"
      "lf_tasks d' = lf_tasks d @ [build_evolution_task now tid seed r]" "no_faults_left d \<longrightarrow> no_faults_left d'"
proof (cases "tid = []")
  case True
  with assms show thesis by (intro failed) (auto simp: create_task_def)
next
  case False
  let ?f = "\<lambda>d. if \<exists>t\<in>set (lf_tasks d). et_task_id t = tid
        then (Inl (LeUnique ''idx_evolution_tasks_task_id''), d)
        else (Inr (), d\<lparr>lf_tasks := lf_tasks d @ [build_evolution_task now tid seed r]\<rparr>)"
  from assms False have s: "life_stmt ?f d = (res, d')" by (simp add: create_task_def)
  have nf: "no_faults_left d \<longrightarrow> no_faults_left d'" using s life_stmt_steady [of d ?f] by (auto split: if_splits)
  from s show thesis
  proof (cases rule: life_stmtE)
    case fault
    with nf show thesis by (intro failed) auto
  next
    case (run d0)
    note eq = same_rowsD [OF run(1)]
    show thesis
    proof (cases "\<exists>t\<in>set (lf_tasks d0). et_task_id t = tid")
      case True
      with run nf show thesis by (intro failed) auto
    next
      case no: False
      with run(2) have "res = Inr ()" "d' = d0\<lparr>lf_tasks := lf_tasks d0 @ [build_evolution_task now tid seed r]\<rparr>"
        by (auto split: if_splits)
      with no eq False nf show thesis by (intro created) auto
    qed
  qed
qed

lemma bank_effect:
  "bank_add sid pid e d = (res, d') \<Longrightarrow> steady d d' \<and> lf_genes d' = lf_genes d"
  "bank_statistics sid pid d = (res', d') \<Longrightarrow> steady d d' \<and> lf_genes d' = lf_genes d"
proof -
  have add: "steady_op (life_stmt (\<lambda>d. (Inr (), d\<lparr>lf_banks := lf_banks d @ b\<rparr>)))" for b
    by (rule steady_stmt) (simp add: steady_def)
  have stat: "steady_op (life_stmt (\<lambda>d. (Inr (f d), d)))" for f :: "life_db \<Rightarrow> bank_stats"
    by (rule steady_stmt) simp
  show "bank_add sid pid e d = (res, d') \<Longrightarrow> steady d d' \<and> lf_genes d' = lf_genes d"
    unfolding bank_add_def using steady_opD [OF add]
    by (auto split: if_splits elim!: life_stmtE dest!: same_rowsD(1)) 
  show "bank_statistics sid pid d = (res', d') \<Longrightarrow> steady d d' \<and> lf_genes d' = lf_genes d"
    unfolding bank_statistics_def using steady_opD [OF stat]
    by (auto split: if_splits elim!: life_stmtE dest!: same_rowsD(1))
qed

end
