(* ===== verification/EpochSafety.thy ===== *)
theory EpochSafety
  imports EpochEffects
begin

text \<open>
  The epoch service in any interleaving with other requests: one run at a time for a strategy and pair,
  tasks that only move forward, a stored challenger behind every succeeded task, and runs that end and
  leave no task open.
\<close>

section \<open>The invariant\<close>

definition row_of :: "epoch_work \<Rightarrow> evolution_task \<Rightarrow> bool" where
  "row_of w t \<longleftrightarrow> et_task_id t = ew_task w \<and> et_strategy_id t = ct_strategy_id (ew_req w) \<and>
     et_pair t = ct_pair (ew_req w) \<and> et_test_mode t = ct_test_mode (ew_req w)"

definition gene_of :: "epoch_work \<Rightarrow> 'r epoch_found \<Rightarrow> gene_record \<Rightarrow> bool" where
  "gene_of w f g \<longleftrightarrow> gr_challenger_id g = ef_challenger f \<and> gr_score_total g = st_value (er_best_score (ef_result f)) \<and>
     gr_strategy_id g = ct_strategy_id (ew_req w) \<and> gr_pair g = ct_pair (ew_req w) \<and>
     gr_test_mode g = ct_test_mode (ew_req w)"

definition package_of :: "epoch_work \<Rightarrow> 'r epoch_found \<Rightarrow> challenger_package \<Rightarrow> bool" where
  "package_of w f p \<longleftrightarrow> el_score_total (pk_evaluation p) = er_best_score (ef_result f) \<and>
     rc_strategy_id (pk_core p) = ct_strategy_id (ew_req w) \<and> gc_pair (rc_ga_config (pk_core p)) = ct_pair (ew_req w) \<and>
     gc_test_mode (rc_ga_config (pk_core p)) = ct_test_mode (ew_req w) \<and> package_fresh p"

definition success_backed :: "life_db \<Rightarrow> evolution_task \<Rightarrow> bool" where
  \<comment> \<open>a succeeded task names a stored challenger with its score\<close>
  "success_backed d t \<longleftrightarrow> (et_status t = TaskSucceeded \<longrightarrow>
     (\<exists>g\<in>set (lf_genes d). et_challenger_id t = Some (gr_challenger_id g) \<and> gr_score_total g = et_best_score t \<and>
        gr_strategy_id g = et_strategy_id t \<and> gr_pair g = et_pair t \<and> gr_test_mode g = et_test_mode t))"

fun run_task :: "'r epoch_run \<Rightarrow> (epoch_work \<times> task_status set) option" where
  \<comment> \<open>the row a run has created, and the statuses it can have\<close>
  "run_task (RunCreate w) = None"
| "run_task RunOver = None"
| "run_task (RunStart w) = Some (w, {TaskQueued})"
| "run_task (RunFail w why) = Some (w, {TaskQueued, TaskRunning})"
| "run_task (RunEvolve w) = Some (w, {TaskRunning})"
| "run_task (RunBank w f s) = Some (w, {TaskRunning})"
| "run_task (RunBankStats w f s) = Some (w, {TaskRunning})"
| "run_task (RunVerify w f d) = Some (w, {TaskRunning})"
| "run_task (RunSave w f p) = Some (w, {TaskRunning})"
| "run_task (RunSucceed w f) = Some (w, {TaskRunning})"

definition run_tid :: "'r epoch_run \<Rightarrow> string option" where
  "run_tid r = map_option (\<lambda>(w, _). ew_task w) (run_task r)"

definition found_ok :: "'r epoch_env \<Rightarrow> epoch_work \<Rightarrow> 'r epoch_found \<Rightarrow> bool" where
  "found_ok E w f \<longleftrightarrow> ef_challenger f \<noteq> [] \<and>
     (\<exists>fac ms. ee_registry E (ct_strategy_id (ew_req w)) = Some fac \<and> ef_strategy f = fac ms)"

fun run_extra :: "'r epoch_env \<Rightarrow> life_db \<Rightarrow> 'r epoch_run \<Rightarrow> bool" where
  "run_extra E d (RunBank w f s) \<longleftrightarrow> found_ok E w f"
| "run_extra E d (RunBankStats w f s) \<longleftrightarrow> found_ok E w f"
| "run_extra E d (RunVerify w f b) \<longleftrightarrow> found_ok E w f"
| "run_extra E d (RunSave w f p) \<longleftrightarrow> found_ok E w f \<and> package_of w f p"
| "run_extra E d (RunSucceed w f) \<longleftrightarrow> found_ok E w f \<and> (\<exists>g\<in>set (lf_genes d). gene_of w f g)"
| "run_extra E d (RunFail w why) \<longleftrightarrow> why \<noteq> []"
| "run_extra E d _ \<longleftrightarrow> True"

definition run_ok :: "'r epoch_env \<Rightarrow> life_db \<Rightarrow> 'r epoch_run \<Rightarrow> bool" where
  "run_ok E d r \<longleftrightarrow> run_extra E d r \<and>
     (case run_work r of None \<Rightarrow> True | Some w \<Rightarrow> ew_task w \<noteq> []) \<and>
     (case run_task r of None \<Rightarrow> True | Some (w, sts) \<Rightarrow> \<exists>t\<in>set (lf_tasks d). row_of w t \<and> et_status t \<in> sts)"

definition apart :: "'r epoch_run \<Rightarrow> 'r epoch_run \<Rightarrow> bool" where
  "apart a b \<longleftrightarrow> (run_tid a = None \<or> run_tid a \<noteq> run_tid b) \<and> (run_key a = None \<or> run_key a \<noteq> run_key b)"

definition svc_parts :: "'r epoch_env \<Rightarrow> life_db \<Rightarrow> 'r epoch_run list \<Rightarrow> string list \<Rightarrow> bool \<Rightarrow> bool" where
  "svc_parts E d rs ls up \<longleftrightarrow> distinct (map et_task_id (lf_tasks d)) \<and> (\<forall>r\<in>set rs. run_ok E d r) \<and>
     (\<forall>i<length rs. \<forall>j<length rs. i \<noteq> j \<longrightarrow> apart (rs ! i) (rs ! j)) \<and>
     (\<forall>r\<in>set rs. run_key r \<noteq> None \<longrightarrow> the (run_key r) \<in> set ls) \<and> distinct ls \<and>
     (\<forall>t\<in>set (lf_tasks d). success_backed d t) \<and> (\<not> up \<longrightarrow> rs = [])"

definition svc_inv :: "'r epoch_env \<Rightarrow> 'r epoch_service \<Rightarrow> bool" where
  "svc_inv E s \<longleftrightarrow> svc_parts E (es_db s) (es_runs s) (es_locks s) (es_up s)"

text \<open>The part of the environment the service relies on: the strategies it ships with.\<close>

definition shipped :: "'r epoch_env \<Rightarrow> bool" where
  "shipped E \<longleftrightarrow> default_registry (xl_libm (ee_ext E)) (ee_rand E) = Some (ee_registry E)"

section \<open>What a run computes\<close>

lemma hex16_nonempty:
  assumes "rand_hex16 bytes = Inr cid" "case bytes of None \<Rightarrow> True | Some bs \<Rightarrow> length bs = 16"
  shows "cid \<noteq> []"
proof -
  obtain b bs where "bytes = Some (b # bs)"
    using assms by (cases bytes; cases "the bytes") (auto simp: rand_hex16_def)
  with assms(1) show ?thesis by (auto simp: rand_hex16_def)
qed

lemma evolve_found:
  assumes "evolve_winner E rows bytes w = Some (Inr f)" "case bytes of None \<Rightarrow> True | Some bs \<Rightarrow> length bs = 16"
  shows "found_ok E w f"
proof -
  from assms(1) obtain ms strat where "registry_build (ee_registry E) (ct_strategy_id (ew_req w)) ms = Inr strat"
    "ef_strategy f = strat" "rand_hex16 bytes = Inr (ef_challenger f)"
    unfolding evolve_winner_def Let_def by (auto split: option.splits sum.splits if_splits)
  moreover from this(1) obtain fac where "ee_registry E (ct_strategy_id (ew_req w)) = Some fac" "strat = fac ms"
    by (auto simp: registry_build_def split: option.splits)
  ultimately show ?thesis
    unfolding found_ok_def using hex16_nonempty [OF _ assms(2)] by blast
qed

lemma shipped_strategy:
  assumes "shipped E" "ee_registry E sid = Some fac"
  shows "sid = sigmoid_strategy_id" "esg_encode (fac ms) = sigmoid_encode_result"
    "esg_evolvable (fac ms) = sigmoid_evolvable (xl_libm (ee_ext E)) (ee_rand E) ms"
proof -
  from assms(1) have reg: "ee_registry E = [sigmoid_strategy_id \<mapsto> sigmoid_factory (xl_libm (ee_ext E)) (ee_rand E)]"
    by (simp add: shipped_def default_registry_def registry_register_def split: if_splits)
  with assms(2) show sid: "sid = sigmoid_strategy_id" by (simp split: if_splits)
  from assms(2) have "fac = sigmoid_factory (xl_libm (ee_ext E)) (ee_rand E)" unfolding reg sid by simp
  then show "esg_encode (fac ms) = sigmoid_encode_result"
    "esg_evolvable (fac ms) = sigmoid_evolvable (xl_libm (ee_ext E)) (ee_rand E) ms"
    by (simp_all add: sigmoid_factory_def)
qed

lemma encoded_package:
  assumes "sigmoid_encode_result g sp repro ga ev v diag = Some p"
  shows "package_fresh p" "pk_evaluation p = ev" "rc_ga_config (pk_core p) = ga" "rc_strategy_id (pk_core p) = sigmoid_strategy_id"
  using assms by (auto simp: sigmoid_encode_result_def encode_result_with_def package_fresh_def)

lemma verified_package:
  assumes "shipped E" "found_ok E w f" "verify_winner E rows w f dsr = Some (Inr p)"
  shows "package_of w f p"
proof -
  from assms(3) obtain oos review where p: "package_winner E w f dsr oos review = Some (Inr p)"
    unfolding verify_winner_def by (auto split: option.splits sum.splits)
  from assms(2) obtain fac ms where f: "ee_registry E (ct_strategy_id (ew_req w)) = Some fac" "ef_strategy f = fac ms"
    unfolding found_ok_def by blast
  note ship = shipped_strategy [OF assms(1) f(1)]
  from p obtain bc where b: "build_challenger_package (esg_encode (ef_strategy f)) (ev_strategy_id (esg_evolvable (ef_strategy f)))
      (ef_plan f) (er_best_gene (ef_result f)) (er_best_raw (ef_result f)) (er_best_score (ef_result f)) (ef_cfg f) bc = Some p"
    "bc_pair bc = ct_pair (ew_req w)" "bc_test_mode bc = ct_test_mode (ew_req w)"
    unfolding package_winner_def by (auto simp: build_context_of_def split: option.splits)
  from b(1) obtain sp repro ga ev v diag where
    "sigmoid_encode_result (er_best_gene (ef_result f)) sp repro ga ev v diag = Some p"
    "gc_pair ga = bc_pair bc" "gc_test_mode ga = bc_test_mode bc" "el_score_total ev = er_best_score (ef_result f)"
    unfolding f(2) ship(2) build_challenger_package_def by (auto split: option.splits)
  with encoded_package [OF this(1)] b(2,3) ship(1) show ?thesis by (simp add: package_of_def)
qed

lemma saved_gene_of:
  assumes "package_of w f p" "build_gene_record (ef_challenger f) p = Some g" shows "gene_of w f g"
  using assms by (auto simp: package_of_def gene_of_def build_gene_record_def Let_def split: if_splits)


section \<open>Steps of one run\<close>

fun status_step :: "task_status \<Rightarrow> task_status \<Rightarrow> bool" where
  "status_step TaskQueued TaskRunning \<longleftrightarrow> True"
| "status_step TaskQueued TaskFailed \<longleftrightarrow> True"
| "status_step TaskRunning TaskSucceeded \<longleftrightarrow> True"
| "status_step TaskRunning TaskFailed \<longleftrightarrow> True"
| "status_step _ _ \<longleftrightarrow> False"

definition forward :: "life_db \<Rightarrow> life_db \<Rightarrow> bool" where
  "forward d d' \<longleftrightarrow> (\<forall>t\<in>set (lf_tasks d). \<exists>u\<in>set (lf_tasks d'). et_task_id u = et_task_id t \<and>
     (u = t \<or> status_step (et_status t) (et_status u)))"

lemma forward_same: "lf_tasks d' = lf_tasks d \<Longrightarrow> forward d d'"
  unfolding forward_def by auto

definition run_moves :: "'r epoch_env \<Rightarrow> life_db \<Rightarrow> 'r epoch_run \<Rightarrow> life_db \<Rightarrow> 'r epoch_run \<Rightarrow> bool" where
  \<comment> \<open>what a run may do in one step, and what it leaves to the others\<close>
  "run_moves E d r d' r' \<longleftrightarrow> genes_kept d d' \<and> distinct (map et_task_id (lf_tasks d')) \<and> run_ok E d' r' \<and> forward d d' \<and>
     (run_work r' = run_work r \<or> run_work r' = None) \<and>
     (\<forall>t\<in>set (lf_tasks d). Some (et_task_id t) \<noteq> run_tid r \<longrightarrow> t \<in> set (lf_tasks d')) \<and>
     (\<forall>t\<in>set (lf_tasks d'). t \<in> set (lf_tasks d) \<or> success_backed d' t) \<and>
     (run_tid r' = None \<or> run_tid r' = run_tid r \<or> the (run_tid r') \<notin> et_task_id ` set (lf_tasks d)) \<and>
     (no_faults_left d \<longrightarrow> no_faults_left d' \<and> (\<forall>t\<in>set (lf_tasks d'). task_open t \<longrightarrow>
        Some (et_task_id t) = run_tid r' \<or> t \<in> set (lf_tasks d) \<and> Some (et_task_id t) \<noteq> run_tid r))"

lemma moves_steady:
  assumes "lf_tasks d' = lf_tasks d" "genes_kept d d'" "distinct (map et_task_id (lf_tasks d))" "run_ok E d' r'"
    "run_work r' = run_work r" "run_tid r' = run_tid r" "no_faults_left d \<longrightarrow> no_faults_left d'"
  shows "run_moves E d r d' r'"
  unfolding run_moves_def using assms by (auto intro: forward_same)

lemma gene_of_kept: "genes_kept d d' \<Longrightarrow> \<exists>g\<in>set (lf_genes d). gene_of w f g \<Longrightarrow> \<exists>g\<in>set (lf_genes d'). gene_of w f g"
  unfolding genes_kept_def gene_of_def same_gene_def by metis

lemma backed_kept: "genes_kept d d' \<Longrightarrow> success_backed d t \<Longrightarrow> success_backed d' t"
  unfolding genes_kept_def success_backed_def same_gene_def by metis

lemma extra_kept: "genes_kept d d' \<Longrightarrow> run_extra E d r \<Longrightarrow> run_extra E d' r"
  by (cases r) (auto intro: gene_of_kept)

lemma run_ok_kept:
  assumes "run_ok E d r" "genes_kept d d'" "\<forall>t\<in>set (lf_tasks d). Some (et_task_id t) = run_tid r \<longrightarrow> t \<in> set (lf_tasks d')"
  shows "run_ok E d' r"
proof -
  have "\<exists>t\<in>set (lf_tasks d'). row_of w t \<and> et_status t \<in> sts"
    if r: "run_task r = Some (w, sts)" and old: "\<exists>t\<in>set (lf_tasks d). row_of w t \<and> et_status t \<in> sts" for w sts
    using old assms(3) r by (auto simp: run_tid_def row_of_def)
  with assms(1) extra_kept [OF assms(2)] show ?thesis
    unfolding run_ok_def by (auto split: option.splits prod.splits)
qed

lemma updated_row:
  assumes u: "updated tid f d d'" and t: "t \<in> set (lf_tasks d)" "et_task_id t = tid"
    and dist: "distinct (map et_task_id (lf_tasks d))" and keep: "\<And>t. et_task_id (f t) = et_task_id t"
  shows "f t \<in> set (lf_tasks d')" "distinct (map et_task_id (lf_tasks d'))"
    "\<forall>x\<in>set (lf_tasks d). et_task_id x \<noteq> tid \<longrightarrow> x \<in> set (lf_tasks d')"
    "\<forall>x\<in>set (lf_tasks d'). x = f t \<or> x \<in> set (lf_tasks d) \<and> et_task_id x \<noteq> tid"
proof -
  have eq: "lf_tasks d' = map (\<lambda>x. if et_task_id x = tid then f x else x) (lf_tasks d)"
    using u by (simp add: updated_def update_where_def)
  have "map et_task_id (lf_tasks d') = map et_task_id (lf_tasks d)"
    unfolding eq by (auto simp: keep)
  with dist show "distinct (map et_task_id (lf_tasks d'))" by simp
  show "f t \<in> set (lf_tasks d')" "\<forall>x\<in>set (lf_tasks d). et_task_id x \<noteq> tid \<longrightarrow> x \<in> set (lf_tasks d')"
    unfolding eq using t by force+
  have "x = t" if "x \<in> set (lf_tasks d)" "et_task_id x = tid" for x
    using dist that t by (metis distinct_map inj_onD)
  then show "\<forall>x\<in>set (lf_tasks d'). x = f t \<or> x \<in> set (lf_tasks d) \<and> et_task_id x \<noteq> tid"
    unfolding eq by auto
qed

lemma moves_updated:
  assumes u: "updated (ew_task w) f d d'" and row: "t \<in> set (lf_tasks d)" "row_of w t"
    and dist: "distinct (map et_task_id (lf_tasks d))" and keep: "\<And>t. et_task_id (f t) = et_task_id t"
    and r: "run_tid r = Some (ew_task w)" and r': "run_work r' = run_work r \<or> run_work r' = None" "run_ok E d' r'"
      "run_tid r' = None \<or> run_tid r' = run_tid r"
    and new: "status_step (et_status t) (et_status (f t))" "success_backed d' (f t)"
      "task_open (f t) \<Longrightarrow> run_tid r' = run_tid r" and nf: "no_faults_left d \<longrightarrow> no_faults_left d'"
  shows "run_moves E d r d' r'"
proof -
  have tid: "et_task_id t = ew_task w" using row(2) by (simp add: row_of_def)
  note upd = updated_row [OF u row(1) tid dist keep]
  have "genes_kept d d'" using u by (intro genes_kept_eq) (simp add: updated_def)
  moreover have "forward d d'"
    unfolding forward_def
  proof
    fix x assume x: "x \<in> set (lf_tasks d)"
    show "\<exists>u\<in>set (lf_tasks d'). et_task_id u = et_task_id x \<and> (u = x \<or> status_step (et_status x) (et_status u))"
    proof (cases "et_task_id x = ew_task w")
      case True
      then have "x = t" using dist x row(1) tid by (metis distinct_map inj_onD)
      with upd(1) new(1) keep show ?thesis by metis
    qed (use upd(3) x in blast)
  qed
  ultimately show ?thesis
    unfolding run_moves_def using upd r r' new(2,3) nf tid keep by auto
qed


lemma run_okE:
  assumes "run_ok E d r" "run_task r = Some (w, sts)"
  obtains t where "t \<in> set (lf_tasks d)" "row_of w t" "et_status t \<in> sts" "et_task_id t = ew_task w" "ew_task w \<noteq> []"
proof -
  have "run_work r = Some w" using assms(2) by (cases r) auto
  with assms that show thesis by (auto simp: run_ok_def row_of_def)
qed

lemma same_row_ok:
  assumes "run_ok E d r" "lf_tasks d' = lf_tasks d" "run_extra E d' r'" "run_work r' = run_work r"
    "\<And>w sts. run_task r = Some (w, sts) \<Longrightarrow> \<exists>sts'. run_task r' = Some (w, sts') \<and> sts \<subseteq> sts'" "run_tid r \<noteq> None"
  shows "run_ok E d' r'" "run_tid r' = run_tid r"
proof -
  obtain w sts where r: "run_task r = Some (w, sts)" using assms(6) by (auto simp: run_tid_def)
  obtain t where t: "t \<in> set (lf_tasks d)" "row_of w t" "et_status t \<in> sts" "ew_task w \<noteq> []"
    using run_okE [OF assms(1) r] by metis
  obtain sts' where r': "run_task r' = Some (w, sts')" "sts \<subseteq> sts'" using assms(5) [OF r] by blast
  have "run_work r = Some w" using r by (cases r) auto
  with assms(2-4) t r r' show "run_ok E d' r'" "run_tid r' = run_tid r"
    unfolding run_ok_def run_tid_def by auto
qed

lemma or_failE:
  assumes "or_fail w why (f d) k = (r', d')"
  obtains (failed) e where "f d = (Inl e, d')" "r' = RunFail w why"
  | (passed) x where "f d = (Inr x, d')" "r' = k x"
  using assms unfolding or_fail_def by (auto split: prod.splits sum.splits)

lemma computedE:
  assumes "computed w res k = r'"
  obtains (failed) why where "r' = RunFail w why" "why \<noteq> []"
  | (passed) x where "res = Some (Inr x)" "r' = k x"
  using assms unfolding computed_def by (auto split: option.splits sum.splits)

lemma mark_failed_moves:
  assumes "run_ok E d r" "distinct (map et_task_id (lf_tasks d))" "r = RunFail w why"
    "run_advance E now rows bytes r d = (r', d')"
  shows "run_moves E d r d' r'"
proof -
  obtain t where t: "t \<in> set (lf_tasks d)" "row_of w t" "et_status t \<in> {TaskQueued, TaskRunning}"
    "et_task_id t = ew_task w" "ew_task w \<noteq> []"
    using run_okE [OF assms(1), of w] unfolding assms(3) by auto
  have why: "why \<noteq> []" using assms(1,3) by (simp add: run_ok_def)
  let ?f = "\<lambda>t. t\<lparr>et_status := TaskFailed, et_finished_at := Some now, et_failure_reason := Some why\<rparr>"
  obtain res where m: "mark_task (ew_task w) ?f d = (res, d')" "r' = RunOver"
    using assms(3,4) why t(5) by (cases "mark_task (ew_task w) ?f d") (auto simp: mark_failed_def)
  have over: "run_ok E d' r'" "run_tid r' = None" "run_work r' = None" using m(2) by (auto simp: run_ok_def run_tid_def)
  from m(1) t(1,4) show ?thesis
  proof (cases rule: mark_task_effect)
    case (failed e)
    note eq = same_rowsD [OF failed(2)]
    show ?thesis unfolding run_moves_def
      using failed(3) over assms(2) genes_kept_same [OF failed(2)] eq(4) by (auto intro: forward_same)
  next
    case done_
    from done_(2) t(1,2) assms(2) show ?thesis
    proof (rule moves_updated)
      show "run_tid r = Some (ew_task w)" using assms(3) by (simp add: run_tid_def)
      show "status_step (et_status t) (et_status (?f t))" using t(3) by auto
    qed (use over done_(3) in \<open>auto simp: success_backed_def task_open_def\<close>)
  qed
qed

lemma mark_started_moves:
  assumes "run_ok E d r" "distinct (map et_task_id (lf_tasks d))" "r = RunStart w"
    "run_advance E now rows bytes r d = (r', d')"
  shows "run_moves E d r d' r'"
proof -
  obtain t where t: "t \<in> set (lf_tasks d)" "row_of w t" "et_status t \<in> {TaskQueued}" "et_task_id t = ew_task w" "ew_task w \<noteq> []"
    using run_okE [OF assms(1), of w] unfolding assms(3) by auto
  let ?f = "\<lambda>t. t\<lparr>et_status := TaskRunning, et_started_at := Some now\<rparr>"
  have ms: "mark_started now (ew_task w) d = mark_task (ew_task w) ?f d" using t(5) by (simp add: mark_started_def)
  have tid: "run_tid r = Some (ew_task w)" using assms(3) by (simp add: run_tid_def)
  obtain res where m: "mark_task (ew_task w) ?f d = (res, d')"
    "r' = (case res of Inl e \<Rightarrow> RunFail w ''mark started: '' | Inr _ \<Rightarrow> RunEvolve w)"
    using assms(3,4) unfolding ms [symmetric] or_fail_def by (auto simp: or_fail_def split: prod.splits sum.splits)
  from m(1) t(1,4) show ?thesis
  proof (cases rule: mark_task_effect)
    case (failed e)
    note eq = same_rowsD [OF failed(2)]
    have r': "r' = RunFail w ''mark started: ''" using m(2) failed(1) by simp
    have ok: "run_ok E d' r'" "run_tid r' = run_tid r"
      by (rule same_row_ok [OF assms(1) eq(4)]; use r' assms(3) tid in simp)+
    show ?thesis
      using ok eq(4) genes_kept_same [OF failed(2)] assms(2) r' assms(3) failed(3) by (intro moves_steady) auto
  next
    case done_
    have r': "r' = RunEvolve w" using m(2) done_(1) by simp
    from done_(2) t(1,2) assms(2) show ?thesis
    proof (rule moves_updated [OF _ _ _ _ _ tid])
      have "?f t \<in> set (lf_tasks d')" using updated_row(1) [OF done_(2) t(1,4) assms(2)] by simp
      moreover have "row_of w (?f t)" using t(2) by (simp add: row_of_def)
      ultimately show "run_ok E d' r'" unfolding r' run_ok_def using t(5) by auto
    qed (use r' t(3) assms(3) done_(3) in \<open>auto simp: run_tid_def success_backed_def\<close>)
  qed
qed

lemma mark_succeeded_moves:
  assumes "run_ok E d r" "distinct (map et_task_id (lf_tasks d))" "r = RunSucceed w f"
    "run_advance E now rows bytes r d = (r', d')"
  shows "run_moves E d r d' r'"
proof -
  obtain t where t: "t \<in> set (lf_tasks d)" "row_of w t" "et_status t \<in> {TaskRunning}" "et_task_id t = ew_task w" "ew_task w \<noteq> []"
    using run_okE [OF assms(1), of w] unfolding assms(3) by auto
  obtain g where g: "g \<in> set (lf_genes d)" "gene_of w f g" and cid: "ef_challenger f \<noteq> []"
    using assms(1,3) by (auto simp: run_ok_def found_ok_def)
  let ?f = "\<lambda>t. t\<lparr>et_status := TaskSucceeded, et_finished_at := Some now, et_challenger_id := Some (ef_challenger f),
    et_best_score := st_value (er_best_score (ef_result f)), et_current_generation := er_generations (ef_result f)\<rparr>"
  have ms: "mark_succeeded now (ew_task w) (ef_challenger f) (er_generations (ef_result f)) (st_value (er_best_score (ef_result f))) d
      = mark_task (ew_task w) ?f d"
    using t(5) cid by (simp add: mark_succeeded_def)
  have tid: "run_tid r = Some (ew_task w)" using assms(3) by (simp add: run_tid_def)
  obtain res where m: "mark_task (ew_task w) ?f d = (res, d')"
    "r' = (case res of Inl e \<Rightarrow> RunFail w ''mark succeeded: '' | Inr _ \<Rightarrow> RunOver)"
    using assms(3,4) unfolding ms [symmetric] by (auto simp: or_fail_def split: prod.splits sum.splits)
  from m(1) t(1,4) show ?thesis
  proof (cases rule: mark_task_effect)
    case (failed e)
    note eq = same_rowsD [OF failed(2)]
    have r': "r' = RunFail w ''mark succeeded: ''" using m(2) failed(1) by simp
    have ok: "run_ok E d' r'" "run_tid r' = run_tid r"
      by (rule same_row_ok [OF assms(1) eq(4)]; use r' assms(3) tid in simp)+
    show ?thesis
      using ok eq(4) genes_kept_same [OF failed(2)] assms(2) r' assms(3) failed(3) by (intro moves_steady) auto
  next
    case done_
    have r': "r' = RunOver" using m(2) done_(1) by simp
    have genes: "lf_genes d' = lf_genes d" using done_(2) by (simp add: updated_def)
    from done_(2) t(1,2) assms(2) show ?thesis
    proof (rule moves_updated [OF _ _ _ _ _ tid])
      have "row_of w (?f t)" using t(2) by (simp add: row_of_def)
      then show "success_backed d' (?f t)"
        unfolding success_backed_def genes using g by (intro impI bexI [of _ g]) (auto simp: gene_of_def row_of_def)
    qed (use r' t(3) assms(3) done_(3) in \<open>auto simp: run_tid_def run_ok_def task_open_def\<close>)
  qed
qed


lemma create_moves:
  assumes "run_ok E d r" "distinct (map et_task_id (lf_tasks d))" "r = RunCreate w"
    "run_advance E now rows bytes r d = (r', d')"
  shows "run_moves E d r d' r'"
proof -
  obtain res where c: "create_task now (ew_task w) (ew_seed w) (ew_req w) d = (res, d')"
    "r' = (case res of Inl e \<Rightarrow> RunOver | Inr _ \<Rightarrow> RunStart w)"
    using assms(3,4) by (auto split: prod.splits sum.splits)
  from c(1) show ?thesis
  proof (cases rule: create_task_effect)
    case (failed e)
    note eq = same_rowsD [OF failed(2)]
    have "r' = RunOver" using c(2) failed(1) by simp
    then show ?thesis unfolding run_moves_def
      using assms(2,3) failed(3) genes_kept_same [OF failed(2)] eq(4)
      by (auto simp: run_ok_def run_tid_def intro: forward_same)
  next
    case created
    let ?t = "build_evolution_task now (ew_task w) (ew_seed w) (ew_req w)"
    have r': "r' = RunStart w" using c(2) created(1) by simp
    have t: "row_of w ?t" "et_status ?t = TaskQueued" "et_task_id ?t = ew_task w"
      by (simp_all add: row_of_def build_evolution_task_def)
    have "run_ok E d' r'" unfolding r' run_ok_def using created(2,5) t by auto
    moreover have "forward d d'" unfolding forward_def created(5) by auto
    moreover have "genes_kept d d'" by (rule genes_kept_eq [OF created(4)])
    ultimately show ?thesis unfolding run_moves_def
      using assms(2,3) created(3,5,6) t r' by (auto simp: run_tid_def success_backed_def)
  qed
qed

lemma same_row_moves:
  assumes "run_ok E d r" "distinct (map et_task_id (lf_tasks d))" "lf_tasks d' = lf_tasks d" "genes_kept d d'"
    "no_faults_left d \<longrightarrow> no_faults_left d'" "run_extra E d' r'" "run_work r' = run_work r" "run_tid r \<noteq> None"
    "\<And>w sts. run_task r = Some (w, sts) \<Longrightarrow> \<exists>sts'. run_task r' = Some (w, sts') \<and> sts \<subseteq> sts'"
  shows "run_moves E d r d' r'"
  using assms same_row_ok [OF assms(1,3,6,7,9,8)] by (intro moves_steady) auto

lemma save_moves:
  assumes "run_ok E d r" "distinct (map et_task_id (lf_tasks d))" "r = RunSave w f p"
    "run_advance E now rows bytes r d = (r', d')"
  shows "run_moves E d r d' r'"
proof -
  have ok: "found_ok E w f" "package_of w f p" using assms(1,3) by (auto simp: run_ok_def)
  obtain res where s: "save_challenger (ef_challenger f) p d = (res, d')"
    "r' = (case res of Inl e \<Rightarrow> RunFail w ''save challenger: '' | Inr _ \<Rightarrow> RunSucceed w f)"
    using assms(3,4) by (auto simp: or_fail_def split: prod.splits sum.splits)
  have q: "steady d d'" using steady_opD [OF steady_ops(7) s(1)] .
  have "run_extra E d' r'"
    using s(1)
  proof (cases rule: save_effect)
    case failed
    then show ?thesis using s(2) by auto
  next
    case (saved g)
    then have "gene_of w f g" "g \<in> set (lf_genes d')" using saved_gene_of [OF ok(2)] by auto
    then show ?thesis using s(2) ok(1) by (auto split: sum.split)
  qed
  then show ?thesis
    using assms(1-3) q save_keeps [OF s(1)] s(2)
    by (intro same_row_moves) (auto simp: steady_def run_tid_def split: sum.splits)
qed

lemma bank_moves:
  assumes "run_ok E d r" "distinct (map et_task_id (lf_tasks d))" "run_advance E now rows bytes r d = (r', d')"
    "r = RunBank w f s \<or> r = RunBankStats w f s"
  shows "run_moves E d r d' r'"
  using assms(4)
proof
  assume r: "r = RunBank w f s"
  obtain res where b: "bank_add (ct_strategy_id (ew_req w)) (ct_pair (ew_req w)) (bank_entry_of w f s) d = (res, d')"
    "r' = (case res of Inl e \<Rightarrow> RunFail w ''sharpe bank add: '' | Inr _ \<Rightarrow> RunBankStats w f s)"
    using assms(3) r by (auto simp: or_fail_def split: prod.splits sum.splits)
  show ?thesis
    using assms(1,2) r b(2) bank_effect(1) [OF b(1)]
    by (intro same_row_moves) (auto simp: steady_def run_tid_def run_ok_def genes_kept_eq split: sum.splits)
next
  assume r: "r = RunBankStats w f s"
  obtain res where b: "bank_statistics (ct_strategy_id (ew_req w)) (ct_pair (ew_req w)) d = (res, d')"
    "r' = (case res of Inl e \<Rightarrow> RunFail w ''sharpe bank stats: '' | Inr bank \<Rightarrow>
       (case dsr_blob (ee_ext E) s bank of None \<Rightarrow> RunFail w ''marshal DSR summary: '' | Some dsr \<Rightarrow> RunVerify w f dsr))"
    using assms(3) r by (auto simp: or_fail_def split: prod.splits sum.splits option.splits)
  show ?thesis
    using assms(1,2) r b(2) bank_effect(2) [OF b(1)]
    by (intro same_row_moves) (auto simp: steady_def run_tid_def run_ok_def genes_kept_eq split: sum.splits option.splits)
qed

lemma computed_moves:
  assumes "run_ok E d r" "distinct (map et_task_id (lf_tasks d))" "run_advance E now rows bytes r d = (r', d')" "shipped E"
    "case bytes of None \<Rightarrow> True | Some bs \<Rightarrow> length bs = 16" "r = RunEvolve w \<or> r = RunVerify w f dsr"
  shows "run_moves E d r d' r'"
  using assms(6)
proof
  assume r: "r = RunEvolve w"
  let ?k = "\<lambda>f. case rw_longest_stats (er_best_raw (ef_result f)) of
     None \<Rightarrow> RunVerify w f None | Some stats \<Rightarrow> RunBank w f stats"
  have d: "d' = d" and c: "computed w (evolve_winner E rows bytes w) ?k = r'" using assms(3) r by auto
  from c show ?thesis
  proof (cases rule: computedE)
    case (failed why)
    with assms(1,2) r d show ?thesis by (intro same_row_moves) (auto simp: run_tid_def)
  next
    case (passed f)
    with assms(1,2) r d evolve_found [OF passed(1) assms(5)] show ?thesis
      by (intro same_row_moves) (auto simp: run_tid_def split: option.split)
  qed
next
  assume r: "r = RunVerify w f dsr"
  have d: "d' = d" and c: "computed w (verify_winner E rows w f dsr) (RunSave w f) = r'" using assms(3) r by auto
  have f: "found_ok E w f" using assms(1) r by (simp add: run_ok_def)
  from c show ?thesis
  proof (cases rule: computedE)
    case (failed why)
    with assms(1,2) r d show ?thesis by (intro same_row_moves) (auto simp: run_tid_def)
  next
    case (passed p)
    with assms(1,2) r d f verified_package [OF assms(4) f passed(1)] show ?thesis
      by (intro same_row_moves) (auto simp: run_tid_def)
  qed
qed

lemma run_advance_moves:
  assumes "run_advance E now rows bytes r d = (r', d')" "run_ok E d r" "distinct (map et_task_id (lf_tasks d))"
    "shipped E" "case bytes of None \<Rightarrow> True | Some bs \<Rightarrow> length bs = 16" "run_work r \<noteq> None"
  shows "run_moves E d r d' r'"
proof (cases r)
  case (RunCreate w) show ?thesis by (rule create_moves [OF assms(2,3) RunCreate assms(1)])
next
  case (RunStart w) show ?thesis by (rule mark_started_moves [OF assms(2,3) RunStart assms(1)])
next
  case (RunEvolve w) with computed_moves [OF assms(2,3,1,4,5), of w] show ?thesis by simp
next
  case (RunBank w f x) with bank_moves [OF assms(2,3,1), of w f x] show ?thesis by simp
next
  case (RunBankStats w f x) with bank_moves [OF assms(2,3,1), of w f x] show ?thesis by simp
next
  case (RunVerify w f b) with computed_moves [OF assms(2,3,1,4,5), of w f b] show ?thesis by simp
next
  case (RunSave w f p) show ?thesis by (rule save_moves [OF assms(2,3) RunSave assms(1)])
next
  case (RunSucceed w f) show ?thesis by (rule mark_succeeded_moves [OF assms(2,3) RunSucceed assms(1)])
next
  case (RunFail w why) show ?thesis by (rule mark_failed_moves [OF assms(2,3) RunFail assms(1)])
qed (use assms(6) in simp)

section \<open>Steps of the service\<close>

lemma svc_invD:
  assumes "svc_inv E s"
  shows "distinct (map et_task_id (lf_tasks (es_db s)))" "\<And>r. r \<in> set (es_runs s) \<Longrightarrow> run_ok E (es_db s) r"
    "\<And>i j. i < length (es_runs s) \<Longrightarrow> j < length (es_runs s) \<Longrightarrow> i \<noteq> j \<Longrightarrow> apart (es_runs s ! i) (es_runs s ! j)"
    "\<And>r k. r \<in> set (es_runs s) \<Longrightarrow> run_key r = Some k \<Longrightarrow> k \<in> set (es_locks s)" "distinct (es_locks s)"
    "\<And>t. t \<in> set (lf_tasks (es_db s)) \<Longrightarrow> success_backed (es_db s) t" "\<not> es_up s \<Longrightarrow> es_runs s = []"
  using assms unfolding svc_inv_def svc_parts_def by auto

lemma apart_new:
  assumes "apart r x" "run_key r' = run_key r \<or> run_key r' = None"
    "run_tid r' = None \<or> run_tid r' = run_tid r \<or> run_tid x \<noteq> run_tid r'"
  shows "apart r' x" "apart x r'"
  using assms unfolding apart_def by auto

lemma run_key_tid: "run_work r' = run_work r \<or> run_work r' = None \<Longrightarrow> run_key r' = run_key r \<or> run_key r' = None"
  by (auto simp: run_key_def)

lemma all_updated: "(\<And>j. j < length xs \<Longrightarrow> P (xs[k := y] ! j)) \<Longrightarrow> \<forall>x\<in>set (xs[k := y]). P x"
  by (auto simp: in_set_conv_nth)

lemma proceed_inv:
  assumes inv: "svc_inv E s" and k: "k < length (es_runs s)" and r: "es_runs s ! k = r" "run_work r \<noteq> None"
    and mv: "run_moves E (es_db s) r d' r'"
  shows "svc_inv E (s\<lparr>es_db := d', es_runs := (es_runs s)[k := r'],
    es_locks := (if run_work r' = None then release (run_key r) (es_locks s) else es_locks s)\<rparr>)"
proof -
  note I = svc_invD [OF inv]
  note mv = mv [unfolded run_moves_def]
  from mv have work: "run_work r' = run_work r \<or> run_work r' = None" by (elim conjE)
  have key: "run_key r' = run_key r \<or> run_key r' = None" by (rule run_key_tid [OF work])
  have others: "run_ok E d' (es_runs s ! j)" "apart r' (es_runs s ! j)" "apart (es_runs s ! j) r'"
    if j: "j < length (es_runs s)" "j \<noteq> k" for j
  proof -
    let ?x = "es_runs s ! j"
    have ap: "apart r ?x" "apart ?x r" using I(3) [OF k j(1)] I(3) [OF j(1) k] j(2) r(1) by auto
    have x: "run_ok E (es_db s) ?x" using I(2) j(1) by simp
    show "run_ok E d' ?x"
      by (rule run_ok_kept [OF x]) (use mv ap in \<open>auto simp: apart_def\<close>)
    have "run_tid ?x \<noteq> run_tid r'" if "run_tid r' \<noteq> None" "the (run_tid r') \<notin> et_task_id ` set (lf_tasks (es_db s))"
    proof
      assume "run_tid ?x = run_tid r'"
      with that(1) obtain w sts where t: "run_task ?x = Some (w, sts)" "run_tid r' = Some (ew_task w)"
        by (auto simp: run_tid_def)
      from run_okE [OF x t(1)] show False using that(2) t(2) by (metis image_eqI option.sel)
    qed
    with mv have tid: "run_tid r' = None \<or> run_tid r' = run_tid r \<or> run_tid ?x \<noteq> run_tid r'" by blast
    show "apart r' ?x" "apart ?x r'" by (rule apart_new [OF ap(1) key tid])+
  qed
  let ?locks = "if run_work r' = None then release (run_key r) (es_locks s) else es_locks s"
  have locks: "kx \<in> set ?locks" if j: "j < length (es_runs s)" and kx: "run_key ((es_runs s)[k := r'] ! j) = Some kx" for j kx
  proof (cases "j = k")
    case True
    then have "run_work r' \<noteq> None" "run_key r' = Some kx" using kx k by (auto simp: run_key_def)
    moreover from this mv have "run_key r = Some kx" by (auto simp: run_key_def)
    ultimately show ?thesis using I(4) [of r kx] k r(1) by auto
  next
    case False
    have "apart (es_runs s ! j) r" using I(3) [OF j k] False r(1) by simp
    then have "run_key r \<noteq> Some kx" using kx False by (auto simp: apart_def)
    moreover have "kx \<in> set (es_locks s)" using I(4) [of "es_runs s ! j"] j kx False by auto
    ultimately show ?thesis using I(5) by (auto simp: release_def split: option.split)
  qed
  have "svc_parts E d' ((es_runs s)[k := r']) ?locks (es_up s)" unfolding svc_parts_def
  proof (intro conjI)
    show "distinct (map et_task_id (lf_tasks d'))" using mv by (elim conjE)
    have "run_ok E d' r'" using mv by (elim conjE)
    then show "\<forall>x\<in>set ((es_runs s)[k := r']). run_ok E d' x"
      using others(1) k by (intro all_updated) (auto simp: nth_list_update)
    show "\<forall>i<length ((es_runs s)[k := r']). \<forall>j<length ((es_runs s)[k := r']). i \<noteq> j \<longrightarrow>
        apart ((es_runs s)[k := r'] ! i) ((es_runs s)[k := r'] ! j)"
      using others(2,3) I(3) k by (auto simp: nth_list_update)
    show "\<forall>x\<in>set ((es_runs s)[k := r']). run_key x \<noteq> None \<longrightarrow> the (run_key x) \<in> set ?locks"
      using locks by (intro all_updated) auto
    show "distinct ?locks" using I(5) by (auto simp: release_def split: option.split)
    have "success_backed d' t" if "t \<in> set (lf_tasks d')" for t
      using mv that I(6) backed_kept by blast
    then show "\<forall>t\<in>set (lf_tasks d'). success_backed d' t" by blast
    show "\<not> es_up s \<longrightarrow> (es_runs s)[k := r'] = []" using I(7) by auto
  qed
  then show ?thesis by (simp add: svc_inv_def)
qed


lemma svc_invI:
  assumes "svc_parts E (es_db s') (es_runs s') (es_locks s') (es_up s')" shows "svc_inv E s'"
  using assms by (simp add: svc_inv_def)

lemma request_inv:
  assumes inv: "svc_inv E s" and up: "es_up s" and acc: "http_create_task E (es_locks s) bytes seed (Some r) = Inr w"
    and bytes: "case bytes of None \<Rightarrow> True | Some bs \<Rightarrow> length bs = 16"
  shows "svc_inv E (s\<lparr>es_locks := request_key r # es_locks s, es_runs := es_runs s @ [RunCreate w]\<rparr>)"
proof -
  note I = svc_invD [OF inv]
  from acc have a: "accept_task E (es_locks s) bytes seed r = Inr w"
    unfolding http_create_task_def by (cases "accept_task E (es_locks s) bytes seed r") (auto split: if_splits)
  then obtain tid where w: "request_key r \<notin> set (es_locks s)" "rand_hex16 bytes = Inr tid" "w = \<lparr>ew_task = tid, ew_seed = seed, ew_req = r\<rparr>"
    unfolding accept_task_def by (auto split: if_splits sum.splits)
  have tid: "tid \<noteq> []" by (rule hex16_nonempty [OF w(2) bytes])
  have new: "run_tid (RunCreate w :: 'a epoch_run) = None" "run_key (RunCreate w :: 'a epoch_run) = Some (request_key r)"
    using w(3) by (simp_all add: run_tid_def run_key_def)
  have key: "run_key x \<noteq> Some (request_key r)" if "x \<in> set (es_runs s)" for x using I(4) [OF that] w(1) by blast
  then have key': "run_key (es_runs s ! j) \<noteq> Some (request_key r)" if "j < length (es_runs s)" for j using that by simp
  have "svc_parts E (es_db s) (es_runs s @ [RunCreate w]) (request_key r # es_locks s) True"
    unfolding svc_parts_def
  proof (intro conjI)
    show "\<forall>x\<in>set (es_runs s @ [RunCreate w]). run_ok E (es_db s) x" using I(2) w(3) tid by (auto simp: run_ok_def)
    show "\<forall>i<length (es_runs s @ [RunCreate w]). \<forall>j<length (es_runs s @ [RunCreate w]). i \<noteq> j \<longrightarrow>
        apart ((es_runs s @ [RunCreate w]) ! i) ((es_runs s @ [RunCreate w]) ! j)"
      using I(3) key' new by (auto simp: nth_append apart_def less_Suc_eq dest: sym)
    show "\<forall>x\<in>set (es_runs s @ [RunCreate w]). run_key x \<noteq> None \<longrightarrow> the (run_key x) \<in> set (request_key r # es_locks s)"
      using I(4) new(2) by auto
  qed (use I w(1) in auto)
  then show ?thesis using up by (intro svc_invI) simp
qed

lemma others_inv:
  assumes inv: "svc_inv E s" and q: "steady (es_db s) d'" and g: "genes_kept (es_db s) d'"
  shows "svc_inv E (s\<lparr>es_db := d'\<rparr>)"
proof -
  note I = svc_invD [OF inv]
  have eq: "lf_tasks d' = lf_tasks (es_db s)" using q by (simp add: steady_def)
  have "run_ok E d' x" if "x \<in> set (es_runs s)" for x by (rule run_ok_kept [OF I(2) [OF that] g]) (simp add: eq)
  moreover have "success_backed d' t" if "t \<in> set (lf_tasks d')" for t
    using backed_kept [OF g] I(6) that by (simp add: eq)
  ultimately have "svc_parts E d' (es_runs s) (es_locks s) (es_up s)" unfolding svc_parts_def using I eq by auto
  then show ?thesis by (intro svc_invI) simp
qed

lemma cancelled_inv:
  assumes inv: "svc_inv E s" and k: "k < length (es_runs s)" and r: "es_runs s ! k = RunEvolve w"
  shows "svc_inv E (s\<lparr>es_runs := (es_runs s)[k := RunFail w ''context canceled'']\<rparr>)"
proof -
  note I = svc_invD [OF inv]
  have "run_ok E (es_db s) (RunEvolve w)" using I(2) [of "RunEvolve w"] k r by (metis nth_mem)
  then have "run_moves E (es_db s) (RunEvolve w) (es_db s) (RunFail w ''context canceled'')"
    using I(1) by (intro same_row_moves) (auto simp: run_tid_def)
  from proceed_inv [OF inv k r _ this] show ?thesis by simp
qed

lemma sweep_effect:
  assumes "sweep_orphans now d = (res, d')"
  shows "lf_genes d' = lf_genes d" "no_faults_left d \<longrightarrow> no_faults_left d'"
    "\<exists>f. (\<forall>t. et_task_id (f t) = et_task_id t \<and> (f t = t \<or> task_open t \<and> et_status (f t) = TaskFailed)) \<and>
       (no_faults_left d \<longrightarrow> (\<forall>t. \<not> task_open (f t))) \<and> lf_tasks d' = map f (lf_tasks d)"
proof -
  let ?u = "\<lambda>t. t\<lparr>et_status := TaskFailed, et_finished_at := Some now,
        et_failure_reason := Some ''interrupted by server restart''\<rparr>"
  let ?s = "\<lambda>d. (Inr (length (filter task_open (lf_tasks d))), d\<lparr>lf_tasks := update_where task_open ?u (lf_tasks d)\<rparr>)"
  have s: "life_stmt ?s d = (res, d')" using assms by (simp add: sweep_orphans_def update_tasks_def)
  show nf: "no_faults_left d \<longrightarrow> no_faults_left d'" using s life_stmt_steady [of d ?s] by auto
  from s show "lf_genes d' = lf_genes d" by (cases rule: life_stmtE) (auto dest: same_rowsD)
  have steady: "lf_tasks d' = map (\<lambda>t. if task_open t then ?u t else t) (lf_tasks d)" if "no_faults_left d"
    using s life_stmt_steady [OF that, of ?s] by (auto simp: update_where_def)
  show "\<exists>f. (\<forall>t. et_task_id (f t) = et_task_id t \<and> (f t = t \<or> task_open t \<and> et_status (f t) = TaskFailed)) \<and>
       (no_faults_left d \<longrightarrow> (\<forall>t. \<not> task_open (f t))) \<and> lf_tasks d' = map f (lf_tasks d)"
  proof (cases "no_faults_left d")
    case True
    show ?thesis
      by (rule exI [of _ "\<lambda>t. if task_open t then ?u t else t"]) (use steady True in \<open>auto simp: task_open_def\<close>)
  next
    case False
    from s show ?thesis
    proof (cases rule: life_stmtE)
      case fault
      then show ?thesis using False by (intro exI [of _ id]) (auto dest: same_rowsD)
    next
      case (run d0)
      then show ?thesis using False
        by (intro exI [of _ "\<lambda>t. if task_open t then ?u t else t"]) (auto simp: update_where_def dest: same_rowsD)
    qed
  qed
qed

lemma boot_inv:
  assumes inv: "svc_inv E s" and down: "\<not> es_up s" and sw: "sweep_orphans now (es_db s) = (res, d')"
  shows "svc_inv E (s\<lparr>es_db := d', es_up := True\<rparr>)"
proof -
  note I = svc_invD [OF inv] and S = sweep_effect [OF sw]
  obtain f where f: "\<forall>t. et_task_id (f t) = et_task_id t \<and> (f t = t \<or> task_open t \<and> et_status (f t) = TaskFailed)"
    "lf_tasks d' = map f (lf_tasks (es_db s))" using S(3) by blast
  have "map et_task_id (lf_tasks d') = map et_task_id (lf_tasks (es_db s))" using f by simp
  moreover have "success_backed d' t" if "t \<in> set (lf_tasks d')" for t
  proof -
    from that f obtain u where u: "u \<in> set (lf_tasks (es_db s))" "t = u \<or> et_status t = TaskFailed" by auto
    with I(6) [OF u(1)] show ?thesis unfolding success_backed_def S(1) by auto
  qed
  ultimately have "svc_parts E d' (es_runs s) (es_locks s) True"
    unfolding svc_parts_def using I(1,5) I(7) [OF down] by auto
  then show ?thesis by (intro svc_invI) simp
qed

lemma epoch_step_inv:
  assumes "epoch_step E s s'" "svc_inv E s" "shipped E" shows "svc_inv E s'"
  using assms(1)
proof (cases rule: epoch_stepE [consumes 1, case_names request proceed shutdown cancelled others died boot])
  case (request bytes seed r w)
  then show ?thesis using request_inv [OF assms(2)] by blast
next
  case (proceed k bytes now rows r' d' w)
  note I = svc_invD [OF assms(2)]
  have "run_ok E (es_db s) (es_runs s ! k)" using I(2) proceed(2) by simp
  from run_advance_moves [OF proceed(4) this I(1) assms(3) proceed(3)] show ?thesis
    using proceed_inv [OF assms(2) proceed(2) refl] proceed(1,5) by simp
next
  case shutdown
  then show ?thesis using assms(2) by (simp add: svc_inv_def)
next
  case (cancelled k w)
  then show ?thesis using cancelled_inv [OF assms(2)] by blast
next
  case (others cap now q q' d')
  then show ?thesis using others_inv [OF assms(2) advance_steady advance_keeps] by blast
next
  case died
  have "svc_parts E (es_db s) [] [] False" using svc_invD [OF assms(2)] by (simp add: svc_parts_def)
  then show ?thesis using died by (intro svc_invI) simp
next
  case (boot now)
  then show ?thesis using boot_inv [OF assms(2)] by (metis prod.collapse)
qed

lemma reachable_inv: "epoch_reachable E s \<Longrightarrow> shipped E \<Longrightarrow> svc_inv E s"
proof -
  assume "epoch_reachable E s" and ship: "shipped E"
  then obtain fs where "(epoch_step E)\<^sup>*\<^sup>* (epoch_start fs) s" by (auto simp: epoch_reachable_def)
  then show ?thesis
  proof (induction rule: rtranclp_induct)
    case base
    show ?case by (simp add: svc_inv_def svc_parts_def epoch_start_def empty_life_db_def)
  next
    case (step s s')
    then show ?case using epoch_step_inv ship by blast
  qed
qed

end
