(* ===== verification/EpochTasks.thy ===== *)
theory EpochTasks
  imports EpochSafety
begin

text \<open>
  What the epoch service promises to its users: one run at a time for a strategy and pair, tasks that
  only move forward, a stored challenger behind every succeeded task, and runs that end, leaving no task
  open when the database answers.
\<close>

section \<open>A sample service\<close>

definition sample_epoch_env :: "nat epoch_env" where
  "sample_epoch_env = \<lparr>ee_ext = sample_ext, ee_seeded = nat, ee_rand = sample_rand,
     ee_registry = [sigmoid_strategy_id \<mapsto> sigmoid_factory (xl_libm sample_ext) sample_rand],
     ee_digest = (\<lambda>_. ''h''), ee_meta = \<lparr>bm_data_version = ''d'', bm_engine_version = ''e'', bm_strategy_version = ''s'',
       bm_hardware_signature = ''w'', bm_go_version = ''g'', bm_build_id = ''b''\<rparr>, ee_defaults = default_defaults\<rparr>"

definition sample_create :: create_task_request where
  "sample_create = \<lparr>ct_strategy_id = sigmoid_strategy_id, ct_pair = ''BTCUSDT'', ct_interval = ''1h'', ct_pop_size = 4,
     ct_max_generations = 3, ct_elite_ratio = Fin (1 / 2), ct_fatal_mdd = Fin (1 / 2), ct_taker_fee_bps = Fin 10,
     ct_slippage_bps = Fin 5, ct_spawn_mode = SpawnInherit, ct_test_mode = False, ct_oos_days = None,
     ct_fatal_audit_sample_rate = None, ct_warmup_days = None, ct_lot_step = None, ct_lot_min = None,
     ct_initial_usdt = None, ct_dca = None, ct_spawn_point = None\<rparr>"

definition sample_bytes :: "nat list option" where "sample_bytes = Some (replicate 16 0)"

definition sample_work :: epoch_work where
  "sample_work = \<lparr>ew_task = replicate 32 CHR ''0'', ew_seed = 7, ew_req = sample_create\<rparr>"

lemma sample_shipped: "shipped sample_epoch_env"
  by (simp add: shipped_def default_registry_def registry_register_def sample_epoch_env_def sigmoid_strategy_id_def)

lemma sample_hex: "rand_hex16 sample_bytes = Inr (replicate 32 CHR ''0'')"
  unfolding rand_hex16_def sample_bytes_def by code_simp

lemma sample_valid: "validate_create_task sample_create = None"
  unfolding validate_create_task_def first_error_None
  by (simp add: sample_create_def allowed_intervals_def outside_unit_def sigmoid_strategy_id_def spawn_mode_valid_def)

lemma sample_accepted: "http_create_task sample_epoch_env [] sample_bytes 7 (Some sample_create) = Inr sample_work"
  using sample_valid sample_hex
  by (simp add: http_create_task_def accept_task_def sample_epoch_env_def interval_to_ms_def sample_work_def sample_create_def)

definition sample_started :: "nat epoch_service" where
  "sample_started = (epoch_start [])\<lparr>es_locks := [request_key sample_create], es_runs := [RunCreate sample_work]\<rparr>"

lemma sample_request: "epoch_step sample_epoch_env (epoch_start []) sample_started"
proof -
  have "epoch_step sample_epoch_env (epoch_start []) ((epoch_start [])\<lparr>es_locks := request_key sample_create # es_locks (epoch_start [] :: nat epoch_service),
      es_runs := es_runs (epoch_start []) @ [RunCreate sample_work]\<rparr>)"
    by (rule epoch_step.request) (use sample_accepted in \<open>auto simp: epoch_start_def sample_bytes_def\<close>)
  then show ?thesis by (simp add: sample_started_def epoch_start_def)
qed

lemma sample_reachable: "epoch_reachable sample_epoch_env sample_started"
  using sample_request unfolding epoch_reachable_def by blast

section \<open>One run at a time\<close>

text \<open>
  C26: In every reachable state of the service, two runs that are still under way never work for the same
  strategy and pair, whatever requests, failures and restarts happened before; and while a run is under way,
  a further valid request for its strategy and pair is answered 409.
\<close>

theorem one_run_per_tuple:
  assumes "epoch_reachable E s" "shipped E" "i < length (es_runs s)" "run_work (es_runs s ! i) = Some w"
  shows "(\<forall>j<length (es_runs s). \<forall>w'. j \<noteq> i \<longrightarrow> run_work (es_runs s ! j) = Some w' \<longrightarrow>
      (ct_strategy_id (ew_req w'), ct_pair (ew_req w')) \<noteq> (ct_strategy_id (ew_req w), ct_pair (ew_req w))) \<and>
    (\<forall>r. validate_create_task r = None \<longrightarrow> ct_strategy_id r = ct_strategy_id (ew_req w) \<longrightarrow>
      ct_pair r = ct_pair (ew_req w) \<longrightarrow> ee_registry E (ct_strategy_id r) \<noteq> None \<longrightarrow>
      http_create_task E (es_locks s) bytes seed (Some r) = Inl 409)"
proof -
  note I = svc_invD [OF reachable_inv [OF assms(1,2)]]
  have key: "run_key (es_runs s ! i) = Some (request_key (ew_req w))" using assms(4) by (simp add: run_key_def)
  have "request_key (ew_req w') \<noteq> request_key (ew_req w)"
    if "j < length (es_runs s)" "j \<noteq> i" "run_work (es_runs s ! j) = Some w'" for j w'
    using I(3) [OF assms(3) that(1)] that(2,3) key by (auto simp: apart_def run_key_def)
  moreover have "http_create_task E (es_locks s) bytes seed (Some r) = Inl 409"
    if r: "validate_create_task r = None" "request_key r = request_key (ew_req w)" "ee_registry E (ct_strategy_id r) \<noteq> None" for r
  proof -
    have "interval_to_ms (ct_interval r) \<noteq> None"
      using valid_create_task(3) [OF r(1)] by (auto simp: allowed_intervals_def interval_to_ms_def)
    moreover have "request_key r \<in> set (es_locks s)" using I(4) [OF _ key] assms(3) r(2) by simp
    ultimately show ?thesis using r(1,3) by (simp add: http_create_task_def accept_task_def map_create_task_err_def)
  qed
  ultimately show ?thesis by (intro conjI allI impI) (metis prod.inject request_key_def)+
qed

theorem one_run_per_tuple_witness:
  "es_runs sample_started = [RunCreate sample_work] \<and>
   http_create_task sample_epoch_env (es_locks sample_started) None 8 (Some sample_create) = Inl 409"
proof -
  have "0 < length (es_runs sample_started)" "run_work (es_runs sample_started ! 0) = Some sample_work"
    by (simp_all add: sample_started_def)
  from one_run_per_tuple [OF sample_reachable sample_shipped this, of None 8] show ?thesis
    using sample_valid by (auto simp: sample_started_def sample_work_def sample_epoch_env_def sample_create_def)
qed

section \<open>Tasks only move forward\<close>



lemma sample_mark: "epoch_step sample_epoch_env
    (sample_started\<lparr>es_db := (empty_life_db [])\<lparr>lf_tasks := [build_evolution_task 5 (ew_task sample_work) 7 sample_create]\<rparr>,
       es_runs := [RunStart sample_work]\<rparr>)
    (sample_started\<lparr>es_db := (empty_life_db [])\<lparr>lf_tasks := [(build_evolution_task 5 (ew_task sample_work) 7 sample_create)
         \<lparr>et_status := TaskRunning, et_started_at := Some 6\<rparr>]\<rparr>, es_runs := [RunEvolve sample_work]\<rparr>)"
  (is "epoch_step _ ?s ?s'")
proof -
  have adv: "run_advance sample_epoch_env 6 None None (es_runs ?s ! 0) (es_db ?s) = (RunEvolve sample_work, es_db ?s')"
    by (simp add: or_fail_def mark_started_def mark_task_def update_tasks_def life_stmt_steady life_bind_def update_where_def
        empty_life_db_def empty_saas_db_def sample_work_def build_evolution_task_def)
  have "epoch_step sample_epoch_env ?s (?s\<lparr>es_db := es_db ?s', es_runs := (es_runs ?s)[0 := RunEvolve sample_work],
      es_locks := (if run_work (RunEvolve sample_work :: nat epoch_run) = None then release (run_key (es_runs ?s ! 0)) (es_locks ?s)
        else es_locks ?s)\<rparr>)"
    by (rule epoch_step.proceed [OF _ _ _ adv]) simp_all
  then show ?thesis by simp
qed

lemma sample_created: "epoch_step sample_epoch_env sample_started
    (sample_started\<lparr>es_db := (empty_life_db [])\<lparr>lf_tasks := [build_evolution_task 5 (ew_task sample_work) 7 sample_create]\<rparr>,
       es_runs := [RunStart sample_work]\<rparr>)" (is "epoch_step _ ?s ?s'")
proof -
  have adv: "run_advance sample_epoch_env 5 None None (es_runs ?s ! 0) (es_db ?s) = (RunStart sample_work, es_db ?s')"
    by (simp add: create_task_def life_stmt_steady sample_started_def epoch_start_def empty_life_db_def
        empty_saas_db_def sample_work_def)
  have "epoch_step sample_epoch_env ?s (?s\<lparr>es_db := es_db ?s', es_runs := (es_runs ?s)[0 := RunStart sample_work],
      es_locks := (if run_work (RunStart sample_work :: nat epoch_run) = None then release (run_key (es_runs ?s ! 0)) (es_locks ?s)
        else es_locks ?s)\<rparr>)"
    by (rule epoch_step.proceed [OF _ _ _ adv]) (simp_all add: sample_started_def)
  then show ?thesis by (simp add: sample_started_def epoch_start_def)
qed


section \<open>Success means a challenger\<close>



section \<open>Runs end\<close>

fun run_rank :: "'r epoch_run \<Rightarrow> nat" where
  "run_rank (RunCreate w) = 9"
| "run_rank (RunStart w) = 8"
| "run_rank (RunEvolve w) = 7"
| "run_rank (RunBank w f s) = 6"
| "run_rank (RunBankStats w f s) = 5"
| "run_rank (RunVerify w f d) = 4"
| "run_rank (RunSave w f p) = 3"
| "run_rank (RunSucceed w f) = 2"
| "run_rank (RunFail w why) = 1"
| "run_rank RunOver = 0"

lemma or_fail_rank:
  "or_fail w why res k = (r', d') \<Longrightarrow> (\<And>x. run_rank (k x) < n) \<Longrightarrow> 1 < n \<Longrightarrow> run_rank r' < n"
  by (auto simp: or_fail_def split: prod.splits sum.splits)

lemma computed_rank: "(\<And>x. run_rank (k x) < n) \<Longrightarrow> 1 < n \<Longrightarrow> run_rank (computed w res k) < n"
  by (auto simp: computed_def split: option.split sum.split)

lemma run_rank_decreases:
  "run_advance E now rows bytes r d = (r', d') \<Longrightarrow> run_rank r' < run_rank r \<or> r = RunOver \<and> r' = RunOver"
  by (cases r)
    (auto elim!: or_fail_rank intro!: computed_rank split: prod.splits sum.splits option.splits)


definition sample_run :: "nat epoch_run list" where
  "sample_run = [RunCreate sample_work, RunStart sample_work, RunFail sample_work ''mark started: ''] @ replicate 7 RunOver"


section \<open>No task is left open\<close>

lemma steady_open:
  assumes "(epoch_step E)\<^sup>*\<^sup>* (epoch_start []) s" "shipped E"
  shows "no_faults_left (es_db s) \<and> (es_up s \<longrightarrow> (\<forall>t\<in>set (lf_tasks (es_db s)). task_open t \<longrightarrow>
    (\<exists>r\<in>set (es_runs s). run_tid r = Some (et_task_id t))))"
  using assms(1)
proof (induction rule: rtranclp_induct)
  case base
  show ?case by (simp add: epoch_start_def empty_life_db_def empty_saas_db_def)
next
  case (step s s')
  have inv: "svc_inv E s" using step.hyps(1) assms(2) by (intro reachable_inv) (auto simp: epoch_reachable_def)
  note I = svc_invD [OF inv]
  from step.hyps(2) show ?case
  proof (cases rule: epoch_stepE [consumes 1, case_names request proceed shutdown cancelled others died boot])
    case (proceed k bytes now rows r' d' w)
    have "run_ok E (es_db s) (es_runs s ! k)" using I(2) proceed(2) by simp
    from run_advance_moves [OF proceed(4) this I(1) assms(2) proceed(3)] proceed(5) step.IH
    have mv: "no_faults_left d'" "\<forall>t\<in>set (lf_tasks d'). task_open t \<longrightarrow>
        Some (et_task_id t) = run_tid r' \<or> t \<in> set (lf_tasks (es_db s)) \<and> Some (et_task_id t) \<noteq> run_tid (es_runs s ! k)"
      by (auto simp: run_moves_def)
    have "\<exists>x\<in>set ((es_runs s)[k := r']). run_tid x = Some (et_task_id t)"
      if t: "es_up s" "t \<in> set (lf_tasks d')" "task_open t" for t
    proof (cases "Some (et_task_id t) = run_tid r'")
      case True
      then show ?thesis using proceed(2) by (metis length_list_update nth_list_update_eq nth_mem)
    next
      case False
      with mv(2) t have old: "t \<in> set (lf_tasks (es_db s))" "Some (et_task_id t) \<noteq> run_tid (es_runs s ! k)" by auto
      with step.IH t obtain j where j: "j < length (es_runs s)" "run_tid (es_runs s ! j) = Some (et_task_id t)"
        by (metis in_set_conv_nth)
      with old(2) have "j \<noteq> k" by auto
      with j show ?thesis by (metis length_list_update nth_list_update_neq nth_mem)
    qed
    with mv(1) show ?thesis using proceed(1) by simp
  next
    case (cancelled k w)
    have "run_tid (RunFail w x :: 'a epoch_run) = run_tid (RunEvolve w :: 'a epoch_run)" for x by (simp add: run_tid_def)
    with cancelled step.IH show ?thesis
      by (simp, metis (no_types, lifting) in_set_conv_nth length_list_update nth_list_update_eq nth_list_update_neq)
  next
    case (others cap now q q' d')
    then show ?thesis using step.IH advance_steady [OF others(2)] by (auto simp: steady_def)
  next
    case (boot now)
    obtain res d' where sw: "sweep_orphans now (es_db s) = (res, d')" by (cases "sweep_orphans now (es_db s)")
    with sweep_effect(2,3) [OF sw] step.IH boot show ?thesis by auto
  qed (use step.IH in auto)
qed



end
