(* ===== verification/Binance.thy ===== *)
theory Binance
  imports AgentClient
begin

text \<open>
  The Binance adapter of the agent (\<open>internal/agent/binance\<close>): the REST client with its clock correction,
  signature and error taxonomy, the order filters of a symbol, market and limit orders, balances, and the
  user data stream. The HTTP exchange is an environment that answers the n-th request; every request that
  goes out is kept, so that a statement can speak about what the exchange was sent.
\<close>

section \<open>Requests and replies (\<open>client.go\<close>)\<close>

type_synonym url_values = "(string \<times> string) list"

record http_request =
  hq_method :: string
  hq_path :: string
  hq_params :: url_values          \<comment> \<open>sorted by key\<close>
  hq_signature :: "string option"
  hq_api_key :: string

record http_reply =
  hr_status :: int
  hr_used_weight :: string
  hr_retry_after :: string
  hr_body :: "json option"         \<comment> \<open>nothing: not a JSON document\<close>
  hr_text :: string                \<comment> \<open>the bytes\<close>

record bin_env =
  be_http :: "nat \<Rightarrow> http_request \<Rightarrow> string + http_reply"
  be_now_ms :: "nat \<Rightarrow> int"
  be_hmac :: "string \<Rightarrow> string \<Rightarrow> string"
  be_http_date :: "string \<Rightarrow> int option"

record 'd symbol_filter =
  sf_step_size :: 'd
  sf_min_qty :: 'd
  sf_tick_size :: 'd
  sf_min_notional :: 'd

record bin_config =
  bo_base_url :: string
  bo_api_key :: string
  bo_api_secret :: string
  bo_recv_window_ms :: int

record 'd bin_client =
  bn_config :: bin_config
  bn_offset_ms :: int
  bn_used_weight :: int
  bn_filters :: "string \<Rightarrow> 'd symbol_filter option"
  bn_ticks :: nat                  \<comment> \<open>readings of the clock so far\<close>
  bn_sent :: "http_request list"   \<comment> \<open>requests sent, oldest first\<close>

datatype bin_err =
    BeEmptyKey
  | BeEmptySecret
  | BeNetwork string
  | BeApi int int string           \<comment> \<open>\<open>APIError\<close>: HTTP status, code, message\<close>
  | BeRateLimit bool int int int string  \<comment> \<open>\<open>RateLimitError\<close>: banned, retry after in ns, then the inner error\<close>
  | BeHttp int string
  | BeDecode string
  | BeRejected string              \<comment> \<open>wraps \<open>agent.ErrExchangeRejected\<close>\<close>
  | BeInvalid string

type_synonym ('d, 'a) bin_res = "(bin_err + 'a) \<times> 'd bin_client"

definition bin_bind :: "('d, 'a) bin_res \<Rightarrow> ('a \<Rightarrow> 'd bin_client \<Rightarrow> ('d, 'b) bin_res) \<Rightarrow> ('d, 'b) bin_res" where
  \<comment> \<open>\<open>if err != nil { return ... }\<close>\<close>
  "bin_bind r k = (case r of (Inl e, c) \<Rightarrow> (Inl e, c) | (Inr x, c) \<Rightarrow> k x c)"

definition base_url_mainnet :: string where "base_url_mainnet = ''https://api.binance.com''"

definition base_url_testnet :: string where "base_url_testnet = ''https://testnet.binance.vision''"

definition default_recv_window_ms :: int where "default_recv_window_ms = 5000"

definition new_client :: "bin_config \<Rightarrow> 'd bin_client" where
  "new_client o' = \<lparr>bn_config = o'\<lparr>bo_base_url := (if bo_base_url o' = [] then base_url_mainnet else bo_base_url o'),
       bo_recv_window_ms := (if bo_recv_window_ms o' = 0 then default_recv_window_ms else bo_recv_window_ms o')\<rparr>,
     bn_offset_ms = 0, bn_used_weight = 0, bn_filters = Map.empty, bn_ticks = 0, bn_sent = []\<rparr>"

definition read_clock :: "bin_env \<Rightarrow> 'd bin_client \<Rightarrow> int \<times> 'd bin_client" where
  "read_clock B c = (be_now_ms B (bn_ticks c), c\<lparr>bn_ticks := Suc (bn_ticks c)\<rparr>)"

text \<open>\<open>url.Values\<close>: \<open>Set\<close> replaces, \<open>Encode\<close> sorts by key and escapes.\<close>

fun bytes_before :: "string \<Rightarrow> string \<Rightarrow> bool" where
  "bytes_before [] t \<longleftrightarrow> t \<noteq> []"
| "bytes_before s [] \<longleftrightarrow> False"
| "bytes_before (a # s) (b # t) \<longleftrightarrow> (of_char a :: nat) < of_char b \<or> a = b \<and> bytes_before s t"

fun values_set :: "string \<Rightarrow> string \<Rightarrow> url_values \<Rightarrow> url_values" where
  "values_set k v [] = [(k, v)]"
| "values_set k v (p # ps) =
     (if fst p = k then (k, v) # ps else if bytes_before k (fst p) then (k, v) # p # ps else p # values_set k v ps)"

definition upper_hex :: "nat \<Rightarrow> char" where
  "upper_hex d = (if d < 10 then char_of (48 + d) else char_of (55 + d))"

definition query_escape :: "string \<Rightarrow> string" where
  "query_escape s = concat (map (\<lambda>c. let n = of_char c :: nat in
     if is_digit c \<or> 65 \<le> n \<and> n \<le> 90 \<or> 97 \<le> n \<and> n \<le> 122 \<or> c \<in> {CHR ''-'', CHR ''_'', CHR ''.'', CHR ''~''} then [c]
     else if c = CHR '' '' then ''+'' else [CHR ''%'', upper_hex (n div 16), upper_hex (n mod 16)]) s)"

fun values_encode :: "url_values \<Rightarrow> string" where
  "values_encode [] = []"
| "values_encode [(k, v)] = query_escape k @ ''='' @ query_escape v"
| "values_encode ((k, v) # ps) = query_escape k @ ''='' @ query_escape v @ ''&'' @ values_encode ps"

text \<open>\<open>strconv.Atoi\<close> and the two forms of a \<open>Retry-After\<close> header.\<close>

definition atoi :: "string \<Rightarrow> int option" where
  "atoi s =
     (let signed = (s \<noteq> [] \<and> (hd s = CHR ''-'' \<or> hd s = CHR ''+'')); ds = (if signed then tl s else s);
          n = (if s \<noteq> [] \<and> hd s = CHR ''-'' then - int (digits_val ds) else int (digits_val ds))
      in if ds = [] \<or> \<not> list_all is_digit ds \<or> \<not> in64 n then None else Some n)"

definition parse_retry_after :: "bin_env \<Rightarrow> string \<Rightarrow> int \<Rightarrow> int" where
  \<comment> \<open>in nanoseconds; the clock is read in milliseconds\<close>
  "parse_retry_after B hdr now =
     (if hdr = [] then 0
      else case atoi hdr of
        Some secs \<Rightarrow> if 0 \<le> secs then mul64 secs 1000000000
          else (case be_http_date B hdr of None \<Rightarrow> 0 | Some t \<Rightarrow> max 0 (min ((t - now) * 1000000) (2 ^ 63 - 1)))
      | None \<Rightarrow> (case be_http_date B hdr of None \<Rightarrow> 0 | Some t \<Rightarrow> max 0 (min ((t - now) * 1000000) (2 ^ 63 - 1))))"

definition int32 :: "int \<Rightarrow> int" where
  "int32 n = (n + 2 ^ 31) mod 2 ^ 32 - 2 ^ 31"

definition decode_api_error :: "http_reply \<Rightarrow> (int \<times> string) \<times> bool" where
  "decode_api_error rep =
     (case Option.bind (hr_body rep) (\<lambda>j. unmarshal [(''code'', int_field apfst), (''msg'', str_field apsnd)] j (0, [])) of
        Some (code, msg) \<Rightarrow> if msg \<noteq> [] then ((code, msg), True) else ((0, take 256 (hr_text rep)), False)
      | None \<Rightarrow> ((0, take 256 (hr_text rep)), False))"

definition note_weight :: "http_reply \<Rightarrow> 'd bin_client \<Rightarrow> 'd bin_client" where
  "note_weight rep c =
     (case atoi (hr_used_weight rep) of
        Some w \<Rightarrow> if 0 \<le> w then c\<lparr>bn_used_weight := int32 w\<rparr> else c | None \<Rightarrow> c)"

definition do_request :: "bin_env \<Rightarrow> http_request \<Rightarrow> 'd bin_client \<Rightarrow> ('d, json option) bin_res" where
  "do_request B rq c =
     (let n = length (bn_sent c); c = c\<lparr>bn_sent := bn_sent c @ [rq]\<rparr> in
      case be_http B n rq of
        Inl e \<Rightarrow> (Inl (BeNetwork e), c)
      | Inr rep \<Rightarrow>
          let c = note_weight rep c; st = hr_status rep; ((code, msg), from_json) = decode_api_error rep in
          if 200 \<le> st \<and> st < 300 then (Inr (hr_body rep), c)
          else if st = 429 \<or> st = 418 then
            (let (now, c) = read_clock B c in
             (Inl (BeRateLimit (st = 418) (parse_retry_after B (hr_retry_after rep) now) st code msg), c))
          else if from_json then (Inl (BeApi st code msg), c)
          else (Inl (BeHttp st (take 256 (hr_text rep))), c))"

definition unsigned_request :: "bin_env \<Rightarrow> string \<Rightarrow> string \<Rightarrow> url_values \<Rightarrow> 'd bin_client \<Rightarrow> ('d, json option) bin_res" where
  "unsigned_request B meth path ps =
     do_request B \<lparr>hq_method = meth, hq_path = path, hq_params = ps, hq_signature = None, hq_api_key = []\<rparr>"

definition signed_request :: "bin_env \<Rightarrow> string \<Rightarrow> string \<Rightarrow> url_values \<Rightarrow> 'd bin_client \<Rightarrow> ('d, json option) bin_res" where
  "signed_request B meth path ps c =
     (if bo_api_key (bn_config c) = [] then (Inl BeEmptyKey, c)
      else if bo_api_secret (bn_config c) = [] then (Inl BeEmptySecret, c)
      else
        let (now, c) = read_clock B c;
            ps = values_set ''recvWindow'' (show_int (bo_recv_window_ms (bn_config c)))
                   (values_set ''timestamp'' (show_int (add64 now (bn_offset_ms c))) ps)
        in do_request B \<lparr>hq_method = meth, hq_path = path, hq_params = ps,
             hq_signature = Some (be_hmac B (bo_api_secret (bn_config c)) (values_encode ps)),
             hq_api_key = bo_api_key (bn_config c)\<rparr> c)"

definition go_half :: "int \<Rightarrow> int" where
  \<comment> \<open>division by two truncates towards zero\<close>
  "go_half n = (if n < 0 then - ((- n) div 2) else n div 2)"

definition body_of :: "(string \<times> 's setter) list \<Rightarrow> 's \<Rightarrow> json option \<Rightarrow> 's option" where
  "body_of fs z body = Option.bind body (\<lambda>j. unmarshal fs j z)"

definition sync_time :: "bin_env \<Rightarrow> 'd bin_client \<Rightarrow> ('d, unit) bin_res" where
  "sync_time B c =
     (let (t0, c) = read_clock B c in
      bin_bind (unsigned_request B ''GET'' ''/api/v3/time'' [] c) (\<lambda>body c.
        let (t2, c) = read_clock B c in
        case body_of [(''serverTime'', int_field id)] 0 body of
          None \<Rightarrow> (Inl (BeDecode ''binance.SyncTime: decode''), c)
        | Some t \<Rightarrow>
            if t \<le> 0 then (Inl (BeInvalid ''binance.SyncTime: serverTime not positive''), c)
            else (Inr (), c\<lparr>bn_offset_ms := sub64 t (go_half (add64 t0 t2))\<rparr>)))"

section \<open>Queries (\<open>queries.go\<close>)\<close>

definition bin_ping :: "bin_env \<Rightarrow> 'd bin_client \<Rightarrow> ('d, unit) bin_res" where
  "bin_ping B c = bin_bind (unsigned_request B ''GET'' ''/api/v3/ping'' [] c) (\<lambda>_ c. (Inr (), c))"

record raw_book_ticker =
  rb_symbol :: string
  rb_bid_price :: string
  rb_bid_qty :: string
  rb_ask_price :: string
  rb_ask_qty :: string

record 'd book_ticker =
  bk_symbol :: string
  bk_bid_price :: 'd
  bk_bid_qty :: 'd
  bk_ask_price :: 'd
  bk_ask_qty :: 'd

definition raw_book_fields :: "(string \<times> raw_book_ticker setter) list" where
  "raw_book_fields = [(''symbol'', str_field rb_symbol_update), (''bidPrice'', str_field rb_bid_price_update),
     (''bidQty'', str_field rb_bid_qty_update), (''askPrice'', str_field rb_ask_price_update),
     (''askQty'', str_field rb_ask_qty_update)]"

definition fetch_book_ticker :: "bin_env \<Rightarrow> 'd dec_ops \<Rightarrow> string \<Rightarrow> 'd bin_client \<Rightarrow> ('d, 'd book_ticker) bin_res" where
  "fetch_book_ticker B D symbol c =
     (if symbol = [] then (Inl (BeInvalid ''binance.BookTicker: empty symbol''), c)
      else bin_bind (unsigned_request B ''GET'' ''/api/v3/ticker/bookTicker'' (values_set ''symbol'' symbol []) c) (\<lambda>body c.
        case body_of raw_book_fields \<lparr>rb_symbol = [], rb_bid_price = [], rb_bid_qty = [], rb_ask_price = [], rb_ask_qty = []\<rparr> body of
          None \<Rightarrow> (Inl (BeDecode ''binance.BookTicker: decode''), c)
        | Some raw \<Rightarrow>
          (case (d_parse D (rb_bid_price raw), d_parse D (rb_bid_qty raw), d_parse D (rb_ask_price raw), d_parse D (rb_ask_qty raw)) of
             (Some bid, Some bid_qty, Some ask, Some ask_qty) \<Rightarrow>
               (Inr \<lparr>bk_symbol = rb_symbol raw, bk_bid_price = bid, bk_bid_qty = bid_qty, bk_ask_price = ask, bk_ask_qty = ask_qty\<rparr>, c)
           | _ \<Rightarrow> (Inl (BeDecode ''binance.BookTicker: decimal''), c))))"

record raw_balance =
  rl_asset :: string
  rl_free :: string
  rl_locked :: string

definition raw_balance_of :: "json \<Rightarrow> raw_balance option" where
  "raw_balance_of j = unmarshal [(''asset'', str_field rl_asset_update), (''free'', str_field rl_free_update),
     (''locked'', str_field rl_locked_update)] j \<lparr>rl_asset = [], rl_free = [], rl_locked = []\<rparr>"

fun account_positions :: "'d dec_ops \<Rightarrow> raw_balance list \<Rightarrow> 'd ag_position list option" where
  "account_positions D [] = Some []"
| "account_positions D (b # bs) =
     (case (d_parse D (rl_free b), d_parse D (rl_locked b)) of
        (Some free, Some locked) \<Rightarrow>
          map_option (\<lambda>rest. if d_is_zero D free \<and> d_is_zero D locked then rest
            else \<lparr>ap_symbol = rl_asset b, ap_free = free, ap_locked = locked\<rparr> # rest) (account_positions D bs)
      | _ \<Rightarrow> None)"

definition account :: "bin_env \<Rightarrow> 'd dec_ops \<Rightarrow> 'd bin_client \<Rightarrow> ('d, 'd ag_position list) bin_res" where
  "account B D c = bin_bind (signed_request B ''GET'' ''/api/v3/account'' [] c) (\<lambda>body c.
     case body_of [(''balances'', list_field raw_balance_of id)] [] body of
       None \<Rightarrow> (Inl (BeDecode ''binance.Account: decode''), c)
     | Some bs \<Rightarrow> (case account_positions D bs of
         None \<Rightarrow> (Inl (BeDecode ''binance.Account: decimal''), c) | Some ps \<Rightarrow> (Inr ps, c)))"

section \<open>Order filters (\<open>symbolfilters.go\<close>)\<close>

record raw_filter =
  rf_type :: string
  rf_step_size :: string
  rf_min_qty :: string
  rf_tick_size :: string
  rf_min_notional :: string

definition raw_filter_of :: "json \<Rightarrow> raw_filter option" where
  "raw_filter_of j = unmarshal [(''filterType'', str_field rf_type_update), (''stepSize'', str_field rf_step_size_update),
     (''minQty'', str_field rf_min_qty_update), (''tickSize'', str_field rf_tick_size_update),
     (''minNotional'', str_field rf_min_notional_update)] j
     \<lparr>rf_type = [], rf_step_size = [], rf_min_qty = [], rf_tick_size = [], rf_min_notional = []\<rparr>"

definition raw_symbol_of :: "json \<Rightarrow> (string \<times> raw_filter list) option" where
  "raw_symbol_of j = unmarshal [(''symbol'', str_field apfst), (''filters'', list_field raw_filter_of apsnd)] j ([], [])"

definition filter_dec :: "'d dec_ops \<Rightarrow> string \<Rightarrow> 'd option" where
  "filter_dec D s = (if s = [] then Some (d_zero D) else d_parse D s)"

definition apply_filter :: "'d dec_ops \<Rightarrow> raw_filter \<Rightarrow> 'd symbol_filter \<Rightarrow> 'd symbol_filter option" where
  "apply_filter D rf f =
     (if rf_type rf = ''LOT_SIZE'' then
        (case (filter_dec D (rf_step_size rf), filter_dec D (rf_min_qty rf)) of
           (Some step, Some min_qty) \<Rightarrow> Some (f\<lparr>sf_step_size := step, sf_min_qty := min_qty\<rparr>) | _ \<Rightarrow> None)
      else if rf_type rf = ''PRICE_FILTER'' then
        map_option (\<lambda>tick. f\<lparr>sf_tick_size := tick\<rparr>) (filter_dec D (rf_tick_size rf))
      else if rf_type rf = ''NOTIONAL'' \<or> rf_type rf = ''MIN_NOTIONAL'' then
        map_option (\<lambda>mn. if d_is_positive D mn then f\<lparr>sf_min_notional := mn\<rparr> else f) (filter_dec D (rf_min_notional rf))
      else Some f)"

fun apply_filters :: "'d dec_ops \<Rightarrow> raw_filter list \<Rightarrow> 'd symbol_filter \<Rightarrow> 'd symbol_filter option" where
  "apply_filters D [] f = Some f"
| "apply_filters D (rf # rfs) f = Option.bind (apply_filter D rf f) (apply_filters D rfs)"

definition parse_symbol_filter :: "'d dec_ops \<Rightarrow> json option \<Rightarrow> 'd symbol_filter option" where
  "parse_symbol_filter D body =
     (case body_of [(''symbols'', list_field raw_symbol_of id)] [] body of
        Some (sb # _) \<Rightarrow> apply_filters D (snd sb)
          \<lparr>sf_step_size = d_zero D, sf_min_qty = d_zero D, sf_tick_size = d_zero D, sf_min_notional = d_zero D\<rparr>
      | _ \<Rightarrow> None)"

definition symbol_filter_for :: "bin_env \<Rightarrow> 'd dec_ops \<Rightarrow> string \<Rightarrow> 'd bin_client \<Rightarrow> ('d, 'd symbol_filter) bin_res" where
  "symbol_filter_for B D symbol c =
     (case bn_filters c symbol of
        Some f \<Rightarrow> (Inr f, c)
      | None \<Rightarrow> bin_bind (unsigned_request B ''GET'' ''/api/v3/exchangeInfo'' (values_set ''symbol'' symbol []) c) (\<lambda>body c.
          case parse_symbol_filter D body of
            None \<Rightarrow> (Inl (BeDecode ''binance.exchangeInfo''), c)
          | Some f \<Rightarrow> (Inr f, c\<lparr>bn_filters := (bn_filters c)(symbol \<mapsto> f)\<rparr>)))"

definition compliant_quantity :: "'d dec_ops \<Rightarrow> 'd \<Rightarrow> 'd \<Rightarrow> 'd symbol_filter \<Rightarrow> bin_err + 'd" where
  "compliant_quantity D qty ref_price f =
     (let steps = d_div D qty (sf_step_size f);
          out = (if d_is_positive D (sf_step_size f) \<and> \<not> d_eq D (d_floor D steps) steps
                 then d_mul D (d_floor D steps) (sf_step_size f) else qty)
      in if \<not> d_is_positive D out then Inl (BeRejected ''quantity floored to zero by step_size'')
         else if d_is_positive D (sf_min_qty f) \<and> d_lt D out (sf_min_qty f) then Inl (BeRejected ''quantity below min_qty'')
         else if d_is_positive D (sf_min_notional f) \<and> d_is_positive D ref_price \<and>
           d_lt D (d_mul D out ref_price) (sf_min_notional f) then Inl (BeRejected ''notional below min_notional'')
         else Inr out)"

definition compliant_price :: "'d dec_ops \<Rightarrow> 'd \<Rightarrow> 'd symbol_filter \<Rightarrow> 'd" where
  "compliant_price D price f =
     (let ticks = d_div D price (sf_tick_size f) in
      if \<not> d_is_positive D (sf_tick_size f) then price
      else if d_eq D ticks (d_round D ticks) then price
      else d_mul D (d_round D ticks) (sf_tick_size f))"

section \<open>Orders (\<open>order.go\<close>)\<close>

definition upper_ascii :: "string \<Rightarrow> string" where
  "upper_ascii s = map (\<lambda>c. let n = of_char c :: nat in if 97 \<le> n \<and> n \<le> 122 then char_of (n - 32) else c) s"

definition map_side :: "string \<Rightarrow> bin_err + string" where
  "map_side s = (if lower_ascii s = ''buy'' then Inr ''BUY'' else if lower_ascii s = ''sell'' then Inr ''SELL''
     else Inl (BeInvalid ''binance: invalid side''))"

definition normalize_time_in_force :: "string \<Rightarrow> bin_err + string" where
  "normalize_time_in_force tif =
     (let u = upper_ascii tif in
      if u = [] then Inr ''GTC'' else if u \<in> {''GTC'', ''IOC'', ''FOK''} then Inr u
      else Inl (BeInvalid ''unsupported time_in_force''))"

definition wrap_submit_err :: "bin_err \<Rightarrow> bin_err" where
  "wrap_submit_err e = (case e of
     BeRateLimit banned _ _ _ _ \<Rightarrow> BeRejected (if banned then ''ip_banned'' else ''rate_limited'')
   | BeApi _ _ msg \<Rightarrow> BeRejected msg
   | _ \<Rightarrow> e)"

record raw_fill =
  rw_price :: string
  rw_qty :: string
  rw_commission :: string
  rw_commission_asset :: string
  rw_trade_id :: int

record raw_order_response =
  ro_order_id :: int
  ro_transact_time :: int
  ro_status :: string
  ro_fills :: "raw_fill list"

definition raw_fill_of :: "json \<Rightarrow> raw_fill option" where
  "raw_fill_of j = unmarshal [(''price'', str_field rw_price_update), (''qty'', str_field rw_qty_update),
     (''commission'', str_field rw_commission_update), (''commissionAsset'', str_field rw_commission_asset_update),
     (''tradeId'', int_field rw_trade_id_update)] j
     \<lparr>rw_price = [], rw_qty = [], rw_commission = [], rw_commission_asset = [], rw_trade_id = 0\<rparr>"

definition raw_order_fields :: "(string \<times> raw_order_response setter) list" where
  "raw_order_fields = [(''orderId'', int_field ro_order_id_update), (''transactTime'', int_field ro_transact_time_update),
     (''status'', str_field ro_status_update), (''fills'', list_field raw_fill_of ro_fills_update)]"

fun decode_fills :: "'d dec_ops \<Rightarrow> int \<Rightarrow> raw_fill list \<Rightarrow> 'd exchange_fill list option" where
  "decode_fills D t [] = Some []"
| "decode_fills D t (f # fs) =
     (case (d_parse D (rw_qty f), d_parse D (rw_price f), d_parse D (rw_commission f)) of
        (Some q, Some p, Some fee) \<Rightarrow>
          map_option (\<lambda>rest. \<lparr>xf_quantity = q, xf_price = p, xf_fee_asset = rw_commission_asset f, xf_fee_amount = fee,
            xf_filled_at_exchange_ms = t, xf_trade_id = rw_trade_id f\<rparr> # rest) (decode_fills D t fs)
      | _ \<Rightarrow> None)"

definition submit_reply :: "'d dec_ops \<Rightarrow> 'd \<Rightarrow> json option \<Rightarrow> 'd bin_client \<Rightarrow> ('d, 'd submit_result) bin_res" where
  \<comment> \<open>the common tail of both submissions\<close>
  "submit_reply D market_ref body c =
     (case body_of raw_order_fields \<lparr>ro_order_id = 0, ro_transact_time = 0, ro_status = [], ro_fills = []\<rparr> body of
        None \<Rightarrow> (Inl (BeDecode ''decode response''), c)
      | Some raw \<Rightarrow>
          if ro_order_id raw = 0 then (Inl (BeDecode ''response missing orderId''), c)
          else (case decode_fills D (ro_transact_time raw) (ro_fills raw) of
            None \<Rightarrow> (Inl (BeDecode ''fill''), c)
          | Some fills \<Rightarrow> (Inr \<lparr>sr_exchange_order_id = show_int (ro_order_id raw), sr_accepted_at_ms = ro_transact_time raw,
              sr_market_ref = market_ref, sr_fills = fills\<rparr>, c)))"

definition order_params :: "'d dec_ops \<Rightarrow> 'd exchange_order \<Rightarrow> string \<Rightarrow> string \<Rightarrow> url_values" where
  "order_params D ord side typ =
     values_set ''newOrderRespType'' ''FULL'' (values_set ''newClientOrderId'' (eo_client_order_id ord)
       (values_set ''quantity'' (d_string D (eo_quantity ord)) (values_set ''type'' typ
         (values_set ''side'' side (values_set ''symbol'' (eo_symbol ord) [])))))"

definition post_order :: "bin_env \<Rightarrow> url_values \<Rightarrow> 'd bin_client \<Rightarrow> ('d, json option) bin_res" where
  "post_order B ps c =
     (case signed_request B ''POST'' ''/api/v3/order'' ps c of (Inl e, c) \<Rightarrow> (Inl (wrap_submit_err e), c) | r \<Rightarrow> r)"

definition order_checked :: "'d dec_ops \<Rightarrow> string \<Rightarrow> 'd exchange_order \<Rightarrow> bin_err option" where
  "order_checked D typ ord =
     (if eo_order_type ord \<noteq> typ then Some (BeInvalid ''order_type'')
      else if eo_symbol ord = [] then Some (BeInvalid ''empty symbol'')
      else if eo_client_order_id ord = [] then Some (BeInvalid ''empty client_order_id'')
      else if \<not> d_is_positive D (eo_quantity ord) then Some (BeInvalid ''quantity must be positive'')
      else if typ = ''limit'' \<and> \<not> d_is_positive D (eo_limit_price ord) then Some (BeInvalid ''limit_price must be positive'')
      else None)"

definition submit_market :: "bin_env \<Rightarrow> 'd dec_ops \<Rightarrow> 'd exchange_order \<Rightarrow> 'd bin_client \<Rightarrow> ('d, 'd submit_result) bin_res" where
  "submit_market B D ord c =
     (case order_checked D ''market'' ord of
        Some e \<Rightarrow> (Inl e, c)
      | None \<Rightarrow>
        bin_bind (map_side (eo_side ord), c) (\<lambda>side c.
        bin_bind (fetch_book_ticker B D (eo_symbol ord) c) (\<lambda>book c.
        let market_ref = (if side = ''BUY'' then bk_ask_price book else bk_bid_price book) in
        bin_bind (symbol_filter_for B D (eo_symbol ord) c) (\<lambda>f c.
        bin_bind (compliant_quantity D (eo_quantity ord) market_ref f, c) (\<lambda>qty c.
        bin_bind (post_order B (order_params D (ord\<lparr>eo_quantity := qty\<rparr>) side ''MARKET'') c) (submit_reply D market_ref))))))"

definition submit_limit :: "bin_env \<Rightarrow> 'd dec_ops \<Rightarrow> 'd exchange_order \<Rightarrow> 'd bin_client \<Rightarrow> ('d, 'd submit_result) bin_res" where
  "submit_limit B D ord c =
     (case order_checked D ''limit'' ord of
        Some e \<Rightarrow> (Inl e, c)
      | None \<Rightarrow>
        bin_bind (map_side (eo_side ord), c) (\<lambda>side c.
        bin_bind (symbol_filter_for B D (eo_symbol ord) c) (\<lambda>f c.
        let price = compliant_price D (eo_limit_price ord) f in
        bin_bind (compliant_quantity D (eo_quantity ord) price f, c) (\<lambda>qty c.
        bin_bind (normalize_time_in_force (eo_time_in_force ord), c) (\<lambda>tif c.
        bin_bind (post_order B (values_set ''price'' (d_string D price) (values_set ''timeInForce'' tif
          (order_params D (ord\<lparr>eo_quantity := qty\<rparr>) side ''LIMIT''))) c) (submit_reply D price))))))"

section \<open>The exchange (\<open>exchange.go\<close>)\<close>

definition exchange_submit :: "bin_env \<Rightarrow> 'd dec_ops \<Rightarrow> 'd exchange_order \<Rightarrow> 'd bin_client \<Rightarrow> ('d, 'd submit_result) bin_res" where
  "exchange_submit B D ord c =
     (if eo_order_type ord = ''market'' then submit_market B D ord c
      else if eo_order_type ord = ''limit'' then submit_limit B D ord c
      else (Inl (BeRejected ''unsupported order_type''), c))"

text \<open>
  A callback of the event stream is named by a number. Both subscriptions of a callback, the one kept by the
  exchange and the one of the stream, are last-wins.
\<close>

record 'd bin_exchange =
  bx_client :: "'d bin_client"
  bx_reachable :: bool
  bx_stream :: bool                \<comment> \<open>the user data stream is enabled\<close>
  bx_pending_sub :: "nat option"
  bx_callback :: "nat option"      \<comment> \<open>the callback of the stream\<close>
  bx_started :: bool
  bx_closed :: bool

definition new_exchange :: "bin_config \<Rightarrow> bool \<Rightarrow> 'd bin_exchange" where
  "new_exchange o' uds_disabled = \<lparr>bx_client = new_client o', bx_reachable = False, bx_stream = (\<not> uds_disabled),
     bx_pending_sub = None, bx_callback = None, bx_started = False, bx_closed = False\<rparr>"

definition exchange_start :: "'d bin_exchange \<Rightarrow> 'd bin_exchange" where
  "exchange_start x =
     (if bx_started x then x
      else let x = x\<lparr>bx_started := True\<rparr> in
        if bx_stream x \<and> bx_pending_sub x \<noteq> None then x\<lparr>bx_callback := bx_pending_sub x\<rparr> else x)"

definition exchange_close :: "'d bin_exchange \<Rightarrow> 'd bin_exchange" where
  "exchange_close x = x\<lparr>bx_closed := True\<rparr>"

definition exchange_subscribe :: "nat \<Rightarrow> 'd bin_exchange \<Rightarrow> 'd bin_exchange" where
  "exchange_subscribe cb x =
     (if bx_stream x then x\<lparr>bx_pending_sub := Some cb, bx_callback := Some cb\<rparr> else x\<lparr>bx_pending_sub := Some cb\<rparr>)"

definition stream_dispatch :: "'d bin_exchange \<Rightarrow> 'd order_event \<Rightarrow> (nat \<times> 'd order_event) option" where
  "stream_dispatch x ev = map_option (\<lambda>cb. (cb, ev)) (bx_callback x)"

definition do_ping :: "bin_env \<Rightarrow> 'd bin_exchange \<Rightarrow> 'd bin_exchange" where
  "do_ping B x = (case bin_ping B (bx_client x) of (r, c) \<Rightarrow> x\<lparr>bx_client := c, bx_reachable := (r = Inr ())\<rparr>)"

definition do_time_sync :: "bin_env \<Rightarrow> 'd bin_exchange \<Rightarrow> 'd bin_exchange" where
  "do_time_sync B x = x\<lparr>bx_client := snd (sync_time B (bx_client x))\<rparr>"

definition default_ping_interval_ms :: int where "default_ping_interval_ms = 30000"

definition default_time_sync_interval_ms :: int where "default_time_sync_interval_ms = 300000"

definition effective_ping_interval :: "int \<Rightarrow> int" where
  "effective_ping_interval n = (if n \<le> 0 then default_ping_interval_ms else n)"

definition effective_time_sync_interval :: "int \<Rightarrow> int option" where
  \<comment> \<open>nothing: one synchronisation at the start only\<close>
  "effective_time_sync_interval n = (if n = 0 then Some default_time_sync_interval_ms else if n < 0 then None else Some n)"

end
