(* ===== verification/BinanceStream.thy ===== *)
theory BinanceStream
  imports Binance
begin

text \<open>
  The user data stream of the Binance adapter (\<open>uds_stream.go\<close>, \<open>userdatastream.go\<close>): the signed
  subscription on the WebSocket API, the decoding of execution reports whose one-letter keys differ only
  in case, the sessions and the reconnect loop.
\<close>

section \<open>Subscription (\<open>userdatastream.go\<close>)\<close>

definition ws_method_subscribe_signature :: string where
  "ws_method_subscribe_signature = ''userDataStream.subscribe.signature''"

definition ws_subscribe_params :: "bin_env \<Rightarrow> 'd bin_client \<Rightarrow> ('d, json) bin_res" where
  "ws_subscribe_params B c =
     (let cfg = bn_config c in
      if bo_api_key cfg = [] then (Inl BeEmptyKey, c)
      else if bo_api_secret cfg = [] then (Inl BeEmptySecret, c)
      else
        let (now, c) = read_clock B c; ts = add64 now (bn_offset_ms c);
            payload = values_encode [(''apiKey'', bo_api_key cfg), (''recvWindow'', show_int (bo_recv_window_ms cfg)),
              (''timestamp'', show_int ts)]
        in (Inr (JObj [(''apiKey'', JStr (bo_api_key cfg)), (''recvWindow'', JInt (bo_recv_window_ms cfg)),
             (''signature'', JStr (be_hmac B (bo_api_secret cfg) payload)), (''timestamp'', JInt ts)]), c))"

definition build_subscribe_request :: "bin_env \<Rightarrow> string \<Rightarrow> 'd bin_client \<Rightarrow> ('d, json) bin_res" where
  "build_subscribe_request B rid c = bin_bind (ws_subscribe_params B c) (\<lambda>ps c.
     (Inr (JObj [(''id'', JStr rid), (''method'', JStr ws_method_subscribe_signature), (''params'', ps)]), c))"

definition opt_int_field :: "((int option \<Rightarrow> int option) \<Rightarrow> 's \<Rightarrow> 's) \<Rightarrow> 's setter" where
  "opt_int_field upd v s =
     (case v of JInt n \<Rightarrow> if in64 n then Some (upd (\<lambda>_. Some n) s) else None
      | JNull \<Rightarrow> Some (upd (\<lambda>_. None) s) | _ \<Rightarrow> None)"

record ws_event_envelope =
  we_subscription_id :: "int option"
  we_event :: "json option"

record ws_response =
  wr_id :: string
  wr_status :: int
  wr_subscription_id :: int
  wr_error :: "(int \<times> string) option"

definition ws_error_field :: "ws_response setter" where
  \<comment> \<open>a pointer: \<open>null\<close> clears it, an object is decoded over what it holds\<close>
  "ws_error_field v s =
     (case v of JNull \<Rightarrow> Some (s\<lparr>wr_error := None\<rparr>)
      | _ \<Rightarrow> map_option (\<lambda>e. s\<lparr>wr_error := Some e\<rparr>)
          (unmarshal [(''code'', int_field apfst), (''msg'', str_field apsnd)] v
             (case wr_error s of None \<Rightarrow> (0, []) | Some e \<Rightarrow> e)))"

definition ws_response_fields :: "(string \<times> ws_response setter) list" where
  "ws_response_fields = [(''id'', str_field wr_id_update), (''status'', int_field wr_status_update),
     (''result'', obj_field [(''subscriptionId'', int_field id)] wr_subscription_id wr_subscription_id_update),
     (''error'', ws_error_field)]"

definition decode_ack :: "json option \<Rightarrow> ws_response option" where
  "decode_ack frame = body_of ws_response_fields
     \<lparr>wr_id = [], wr_status = 0, wr_subscription_id = 0, wr_error = None\<rparr> frame"

section \<open>Execution reports\<close>

text \<open>
  A struct with fields whose keys differ in case only: \<open>encoding/json\<close> takes the field with exactly the
  key of the payload and falls back to one that agrees up to case.
\<close>

definition field_for :: "(string \<times> 's setter) list \<Rightarrow> string \<Rightarrow> (string \<times> 's setter) option" where
  "field_for fs k = (case find (\<lambda>f. fst f = k) fs of
     Some f \<Rightarrow> Some f | None \<Rightarrow> find (\<lambda>f. fold_key (fst f) = fold_key k) fs)"

fun set_exact_fields :: "(string \<times> 's setter) list \<Rightarrow> (string \<times> json) list \<Rightarrow> 's \<Rightarrow> 's option" where
  "set_exact_fields fs [] s = Some s"
| "set_exact_fields fs (kv # kvs) s =
     (case field_for fs (fst kv) of
        None \<Rightarrow> set_exact_fields fs kvs s
      | Some f \<Rightarrow> Option.bind (snd f (snd kv) s) (set_exact_fields fs kvs))"

definition unmarshal_exact :: "(string \<times> 's setter) list \<Rightarrow> json \<Rightarrow> 's \<Rightarrow> 's option" where
  "unmarshal_exact fs j s = (case j of JObj kvs \<Rightarrow> set_exact_fields fs kvs s | JNull \<Rightarrow> Some s | _ \<Rightarrow> None)"

record raw_execution_report =
  xr_event_type :: string
  xr_symbol :: string
  xr_client_order_id :: string
  xr_side :: string
  xr_order_type :: string
  xr_execution_type :: string
  xr_order_status :: string
  xr_order_id :: int
  xr_last_fill_qty :: string
  xr_last_fill_price :: string
  xr_commission :: string
  xr_commission_asset :: string
  xr_transact_time :: int
  xr_cumulative_qty :: string
  xr_event_time :: int
  xr_order_creation_time :: int
  xr_orig_client_order_id :: string
  xr_execution_id :: int
  xr_trade_id :: int
  xr_cumulative_quote_qty :: string

definition zero_execution_report :: raw_execution_report where
  "zero_execution_report = \<lparr>xr_event_type = [], xr_symbol = [], xr_client_order_id = [], xr_side = [], xr_order_type = [],
     xr_execution_type = [], xr_order_status = [], xr_order_id = 0, xr_last_fill_qty = [], xr_last_fill_price = [],
     xr_commission = [], xr_commission_asset = [], xr_transact_time = 0, xr_cumulative_qty = [], xr_event_time = 0,
     xr_order_creation_time = 0, xr_orig_client_order_id = [], xr_execution_id = 0, xr_trade_id = 0,
     xr_cumulative_quote_qty = []\<rparr>"

definition execution_report_fields :: "(string \<times> raw_execution_report setter) list" where
  "execution_report_fields =
     [(''e'', str_field xr_event_type_update), (''s'', str_field xr_symbol_update),
      (''c'', str_field xr_client_order_id_update), (''S'', str_field xr_side_update),
      (''o'', str_field xr_order_type_update), (''x'', str_field xr_execution_type_update),
      (''X'', str_field xr_order_status_update), (''i'', int_field xr_order_id_update),
      (''l'', str_field xr_last_fill_qty_update), (''L'', str_field xr_last_fill_price_update),
      (''n'', str_field xr_commission_update), (''N'', str_field xr_commission_asset_update),
      (''T'', int_field xr_transact_time_update), (''z'', str_field xr_cumulative_qty_update),
      (''E'', int_field xr_event_time_update), (''O'', int_field xr_order_creation_time_update),
      (''C'', str_field xr_orig_client_order_id_update), (''I'', int_field xr_execution_id_update),
      (''t'', int_field xr_trade_id_update), (''Z'', str_field xr_cumulative_quote_qty_update)]"

definition build_fill_from_execution :: "'d dec_ops \<Rightarrow> raw_execution_report \<Rightarrow> 'd exchange_fill option" where
  "build_fill_from_execution D raw =
     (case (d_parse D (xr_last_fill_qty raw), d_parse D (xr_last_fill_price raw),
            if xr_commission raw = [] then Some (d_zero D) else d_parse D (xr_commission raw)) of
        (Some qty, Some price, Some fee) \<Rightarrow>
          Some \<lparr>xf_quantity = qty, xf_price = price, xf_fee_asset = xr_commission_asset raw, xf_fee_amount = fee,
            xf_filled_at_exchange_ms = xr_transact_time raw, xf_trade_id = xr_trade_id raw\<rparr>
      | _ \<Rightarrow> None)"

definition event_of_report :: "'d dec_ops \<Rightarrow> raw_execution_report \<Rightarrow> string + 'd order_event option" where
  \<comment> \<open>what follows the decoding: nothing for an event that is dropped\<close>
  "event_of_report D raw =
     (if xr_client_order_id raw = [] then Inl ''executionReport missing client_order_id (c)''
      else
        let ev = \<lparr>oe_client_order_id = xr_client_order_id raw, oe_exchange_order_id = show_int (xr_order_id raw),
              oe_status = [], oe_side = lower_ascii (xr_side raw), oe_fill = None, oe_cumulative = d_zero D\<rparr>;
            what = upper_ascii (xr_execution_type raw)
        in if what = ''TRADE'' then
             (case build_fill_from_execution D raw of
                None \<Rightarrow> Inl ''decimal''
              | Some fill \<Rightarrow> Inr (Some (ev\<lparr>oe_fill := Some fill,
                  oe_cumulative := (if xr_cumulative_qty raw = [] then d_zero D
                    else case d_parse D (xr_cumulative_qty raw) of None \<Rightarrow> d_zero D | Some q \<Rightarrow> q),
                  oe_status := (if upper_ascii (xr_order_status raw) = ''FILLED'' then ''filled'' else ''partial_filled'')\<rparr>)))
           else if what = ''CANCELED'' then Inr (Some (ev\<lparr>oe_status := ''cancelled''\<rparr>))
           else if what = ''REJECTED'' then Inr (Some (ev\<lparr>oe_status := ''rejected''\<rparr>))
           else if what = ''EXPIRED'' then Inr (Some (ev\<lparr>oe_status := ''cancelled''\<rparr>))
           else Inr None)"

definition decode_execution_report :: "'d dec_ops \<Rightarrow> json \<Rightarrow> string + 'd order_event option" where
  "decode_execution_report D j =
     (case unmarshal_exact execution_report_fields j zero_execution_report of
        None \<Rightarrow> Inl ''decode executionReport'' | Some raw \<Rightarrow> event_of_report D raw)"

section \<open>Frames and sessions\<close>

datatype 'd frame_effect = FrameIgnored | FrameEvent "'d order_event" | FrameShutdown

definition handle_event :: "'d dec_ops \<Rightarrow> json \<Rightarrow> 'd frame_effect" where
  "handle_event D payload =
     (case unmarshal_exact [(''e'', str_field apfst), (''E'', int_field apsnd)] payload ([], 0) of
        None \<Rightarrow> FrameIgnored
      | Some (what, _) \<Rightarrow>
          if what = ''executionReport'' then
            (case decode_execution_report D payload of Inr (Some ev) \<Rightarrow> FrameEvent ev | _ \<Rightarrow> FrameIgnored)
          else if what = ''serverShutdown'' then FrameShutdown else FrameIgnored)"

definition handle_frame :: "'d dec_ops \<Rightarrow> json option \<Rightarrow> 'd frame_effect" where
  "handle_frame D frame =
     (case body_of [(''subscriptionId'', opt_int_field we_subscription_id_update), (''event'', raw_field we_event_update)]
             \<lparr>we_subscription_id = None, we_event = None\<rparr> frame of
        None \<Rightarrow> FrameIgnored
      | Some env \<Rightarrow> (case we_event env of None \<Rightarrow> FrameIgnored | Some payload \<Rightarrow> handle_event D payload))"

fun read_loop :: "'d dec_ops \<Rightarrow> json option list \<Rightarrow> 'd order_event list \<times> bool" where
  \<comment> \<open>the events handed to the callback, and whether a shutdown was announced; then the connection fails\<close>
  "read_loop D [] = ([], False)"
| "read_loop D (f # fs) =
     (case handle_frame D f of
        FrameIgnored \<Rightarrow> read_loop D fs
      | FrameEvent ev \<Rightarrow> apfst (\<lambda>evs. ev # evs) (read_loop D fs)
      | FrameShutdown \<Rightarrow> ([], True))"

record uds_session =
  us_dial_ok :: bool
  us_write_ok :: bool
  us_ack :: "json option option"   \<comment> \<open>nothing: reading it failed\<close>
  us_frames :: "json option list"

definition subscribe_session :: "bin_env \<Rightarrow> string \<Rightarrow> uds_session \<Rightarrow> 'd bin_client \<Rightarrow> bool \<times> 'd bin_client" where
  "subscribe_session B rid u c =
     (case build_subscribe_request B rid c of
        (Inl e, c) \<Rightarrow> (False, c)
      | (Inr rq, c) \<Rightarrow>
          (us_write_ok u \<and> (case us_ack u of None \<Rightarrow> False
             | Some frame \<Rightarrow> (case decode_ack frame of None \<Rightarrow> False | Some ack \<Rightarrow> wr_status ack = 200)), c))"

definition run_uds_session ::
  "bin_env \<Rightarrow> 'd dec_ops \<Rightarrow> string \<Rightarrow> uds_session \<Rightarrow> 'd bin_client \<Rightarrow> 'd order_event list \<times> 'd bin_client" where
  "run_uds_session B D rid u c =
     (if \<not> us_dial_ok u then ([], c)
      else let (ok, c) = subscribe_session B rid u c in if ok then (fst (read_loop D (us_frames u)), c) else ([], c))"

definition uds_min_ms :: "int \<Rightarrow> int" where "uds_min_ms n = (if n \<le> 0 then 1000 else n)"

definition uds_max_ms :: "int \<Rightarrow> int \<Rightarrow> int" where
  "uds_max_ms lo hi = max (uds_min_ms lo) (if hi \<le> 0 then 60000 else hi)"

fun uds_run ::
  "bin_env \<Rightarrow> 'd dec_ops \<Rightarrow> int \<Rightarrow> int \<Rightarrow> (string \<times> uds_session) list \<Rightarrow> 'd bin_client \<Rightarrow> ('d order_event list \<times> int) list" where
  \<comment> \<open>for every session its events and the pause that follows, until the process stops\<close>
  "uds_run B D backoff most [] c = []"
| "uds_run B D backoff most ((rid, u) # us) c =
     (let (evs, c) = run_uds_session B D rid u c in
      (evs, backoff) # uds_run B D (min (2 * backoff) most) most us c)"

definition default_stream_base_url :: "string \<Rightarrow> string" where
  "default_stream_base_url rest =
     (if rest = base_url_testnet then ''wss://ws-api.testnet.binance.vision/ws-api/v3''
      else if rest = base_url_mainnet \<or> rest = [] then ''wss://ws-api.binance.com/ws-api/v3'' else [])"

end
