(* ===== verification/BinanceTheorems.thy ===== *)
theory BinanceTheorems
  imports BinanceStream
begin

text \<open>
  What the Binance adapter guarantees: the orders it posts obey the filters it knows, its clock correction
  is as good as the round trip, an order whose reply is lost is reported as rejected, execution reports are
  read through their own keys, and a session hands over every trade up to a shutdown.
\<close>

section \<open>The laws of decimals\<close>

definition multiple_of :: "rat \<Rightarrow> rat \<Rightarrow> bool" where
  "multiple_of q x \<longleftrightarrow> (\<exists>n::int. x = of_int n * q)"

definition decimal_laws :: "'d dec_ops \<Rightarrow> ('d \<Rightarrow> rat) \<Rightarrow> bool" where
  \<comment> \<open>\<open>shopspring/decimal\<close>: exact products and comparisons, quotients rounded to sixteen places\<close>
  "decimal_laws D v \<longleftrightarrow>
     (\<forall>a b. d_lt D a b \<longleftrightarrow> v a < v b) \<and> (\<forall>a b. d_eq D a b \<longleftrightarrow> v a = v b) \<and>
     (\<forall>a. d_is_positive D a \<longleftrightarrow> 0 < v a) \<and> (\<forall>a b. v (d_mul D a b) = v a * v b) \<and>
     (\<forall>a. v (d_floor D a) = of_int \<lfloor>v a\<rfloor>) \<and>
     (\<forall>a. v (d_round D a) \<in> \<int> \<and> \<bar>v (d_round D a) - v a\<bar> \<le> 1 / 2) \<and>
     (\<forall>a b. v b \<noteq> 0 \<longrightarrow> multiple_of (1 / 10 ^ 16) (v (d_div D a b)) \<and>
        \<bar>v (d_div D a b) - v a / v b\<bar> \<le> 1 / (2 * 10 ^ 16))"

lemma decimal_lawsD:
  assumes "decimal_laws D v"
  shows "d_lt D a b \<longleftrightarrow> v a < v b" "d_eq D a b \<longleftrightarrow> v a = v b" "d_is_positive D a \<longleftrightarrow> 0 < v a"
    "v (d_mul D a b) = v a * v b" "v (d_floor D a) = of_int \<lfloor>v a\<rfloor>"
    "v (d_round D a) \<in> \<int>" "\<bar>v (d_round D a) - v a\<bar> \<le> 1 / 2"
    "v b \<noteq> 0 \<Longrightarrow> multiple_of (1 / 10 ^ 16) (v (d_div D a b))"
    "v b \<noteq> 0 \<Longrightarrow> \<bar>v (d_div D a b) - v a / v b\<bar> \<le> 1 / (2 * 10 ^ 16)"
  using assms unfolding decimal_laws_def by blast+

abbreviation eight_places :: "rat \<Rightarrow> bool" where
  "eight_places x \<equiv> multiple_of (1 / 10 ^ 8) x"

lemma floor_of_rounded:
  \<comment> \<open>a quotient rounded to sixteen places has the floor of the exact one, unless it became an integer\<close>
  fixes x r :: rat
  assumes "\<bar>r - x\<bar> \<le> 1 / (2 * 10 ^ 16)" "multiple_of (1 / 10 ^ 16) r" "r \<notin> \<int>"
  shows "\<lfloor>r\<rfloor> = \<lfloor>x\<rfloor>"
proof -
  obtain k :: int where k: "r = of_int k / 10 ^ 16" using assms(2) by (auto simp: multiple_of_def)
  let ?m = "10 ^ 16 :: int"
  have fl: "\<lfloor>r\<rfloor> = k div ?m"
    using floor_divide_of_int_eq [where 'a = rat, of k ?m] unfolding k by simp
  have mod: "k mod ?m \<noteq> 0"
  proof
    assume "k mod ?m = 0"
    then obtain q where "k = ?m * q" by auto
    then have "r = of_int q" using k by simp
    with assms(3) show False by simp
  qed
  have "0 \<le> k mod ?m" "k mod ?m < ?m" by simp_all
  with mod have "1 \<le> k mod ?m" "k mod ?m \<le> ?m - 1" by linarith+
  moreover have "k = ?m * (k div ?m) + k mod ?m" by simp
  ultimately have lo: "?m * (k div ?m) + 1 \<le> k" and hi: "k \<le> ?m * (k div ?m) + (?m - 1)" by linarith+
  have "rat_of_int (?m * (k div ?m) + 1) \<le> of_int k" using lo by (simp only: of_int_le_iff)
  then have "of_int (k div ?m) + 1 / 10 ^ 16 \<le> r" unfolding k by (simp add: field_simps)
  moreover have "rat_of_int k \<le> of_int (?m * (k div ?m) + (?m - 1))" using hi by (simp only: of_int_le_iff)
  then have "r \<le> of_int (k div ?m) + 1 - 1 / 10 ^ 16" unfolding k by (simp add: field_simps)
  moreover have "r - x \<le> 1 / (2 * 10 ^ 16)" "- (r - x) \<le> 1 / (2 * 10 ^ 16)"
    using assms(1) unfolding abs_le_iff by blast+
  moreover have "(1 :: rat) / (2 * 10 ^ 16) < 1 / 10 ^ 16" by simp
  ultimately have "of_int (k div ?m) \<le> x" "x < of_int (k div ?m) + 1" by linarith+
  then have "\<lfloor>x\<rfloor> = k div ?m" by (intro floor_unique)
  with fl show ?thesis by simp
qed

lemma integral_quotient:
  \<comment> \<open>for values of eight places a quotient that rounds to an integer is one\<close>
  fixes q s r :: rat
  assumes "eight_places q" "eight_places s" "0 < s" "s \<le> 10 ^ 8" "\<bar>r - q / s\<bar> \<le> 1 / (2 * 10 ^ 16)" "r \<in> \<int>"
  shows "q = r * s"
proof -
  obtain a b n :: int where ab: "q = of_int a / 10 ^ 8" "s = of_int b / 10 ^ 8" "r = of_int n"
    using assms(1,2,6) by (auto simp: multiple_of_def elim!: Ints_cases)
  have b: "0 < b" "rat_of_int b \<le> 10 ^ 16" using assms(3,4) ab(2) by (auto simp: field_simps)
  have qs: "q / s = of_int a / of_int b" unfolding ab(1,2) by simp
  have "\<bar>of_int (n * b - a) :: rat\<bar> = \<bar>r - q / s\<bar> * of_int b" using b(1) unfolding qs ab(3) by (simp add: field_simps abs_mult)
  also have "\<dots> \<le> 1 / (2 * 10 ^ 16) * of_int b" using assms(5) b(1) by (intro mult_right_mono) simp_all
  also have "\<dots> < 1" using b(2) by simp
  finally have "\<bar>n * b - a\<bar> < 1" by (metis of_int_1 of_int_abs of_int_less_iff)
  then have "a = n * b" by linarith
  then show ?thesis unfolding ab by simp
qed

lemma compliant_quantity_sound:
  assumes laws: "decimal_laws D v" and ok: "compliant_quantity D qty ref f = Inr out"
  shows "0 < v out" "v out \<le> v qty" "0 < v (sf_min_qty f) \<Longrightarrow> v (sf_min_qty f) \<le> v out"
    "0 < v (sf_min_notional f) \<Longrightarrow> 0 < v ref \<Longrightarrow> v (sf_min_notional f) \<le> v out * v ref"
    "0 < v (sf_step_size f) \<Longrightarrow> v qty - v out < v (sf_step_size f)"
    "0 < v (sf_step_size f) \<Longrightarrow> v (sf_step_size f) \<le> 10 ^ 8 \<Longrightarrow> eight_places (v (sf_step_size f)) \<Longrightarrow>
       eight_places (v qty) \<Longrightarrow> multiple_of (v (sf_step_size f)) (v out)"
proof -
  let ?s = "v (sf_step_size f)" and ?r = "d_div D qty (sf_step_size f)"
  let ?snap = "d_is_positive D (sf_step_size f) \<and> \<not> d_eq D (d_floor D ?r) ?r"
  note L = decimal_lawsD [OF laws]
  have out: "out = (if ?snap then d_mul D (d_floor D ?r) (sf_step_size f) else qty)"
    "d_is_positive D out" "\<not> (d_is_positive D (sf_min_qty f) \<and> d_lt D out (sf_min_qty f))"
    "\<not> (d_is_positive D (sf_min_notional f) \<and> d_is_positive D ref \<and> d_lt D (d_mul D out ref) (sf_min_notional f))"
    using ok unfolding compliant_quantity_def Let_def by (auto split: if_splits)
  show "0 < v out" using out(2) by (simp add: L)
  show "0 < v (sf_min_qty f) \<Longrightarrow> v (sf_min_qty f) \<le> v out" using out(3) by (simp add: L)
  show "0 < v (sf_min_notional f) \<Longrightarrow> 0 < v ref \<Longrightarrow> v (sf_min_notional f) \<le> v out * v ref"
    using out(4) by (simp add: L)
  have kept: "out = qty" if "\<not> ?snap" using out(1) unfolding if_not_P [OF that] .
  have snapped: "v out = of_int \<lfloor>v qty / ?s\<rfloor> * ?s" if "?snap"
  proof -
    have s: "0 < ?s" and "v ?r \<noteq> of_int \<lfloor>v ?r\<rfloor>" using that by (auto simp: L)
    then have "v ?r \<notin> \<int>" by (metis Ints_cases floor_of_int)
    then have "\<lfloor>v ?r\<rfloor> = \<lfloor>v qty / ?s\<rfloor>" using s by (intro floor_of_rounded L(8,9)) simp_all
    then show ?thesis using out(1) that by (simp add: L)
  qed
  show "v out \<le> v qty"
  proof (cases ?snap)
    case True
    then have "0 < ?s" by (simp add: L)
    then have "of_int \<lfloor>v qty / ?s\<rfloor> * ?s \<le> v qty / ?s * ?s" by (intro mult_right_mono) simp_all
    then show ?thesis using snapped [OF True] \<open>0 < ?s\<close> by simp
  next
    case False
    then show ?thesis using kept by blast
  qed
  show "v qty - v out < ?s" if s: "0 < ?s"
  proof (cases ?snap)
    case True
    have "v qty / ?s < of_int \<lfloor>v qty / ?s\<rfloor> + 1" by linarith
    then have "v qty < (of_int \<lfloor>v qty / ?s\<rfloor> + 1) * ?s" using s by (simp add: field_simps)
    then show ?thesis using snapped [OF True] by (simp add: algebra_simps)
  next
    case False
    from kept [OF this] s show ?thesis by simp
  qed
  show "multiple_of ?s (v out)" if s: "0 < ?s" "?s \<le> 10 ^ 8" "eight_places ?s" "eight_places (v qty)"
  proof (cases ?snap)
    case True
    then show ?thesis using snapped unfolding multiple_of_def by blast
  next
    case False
    from kept [OF this] False s(1) have eq: "out = qty" "v ?r = of_int \<lfloor>v ?r\<rfloor>" by (auto simp: L)
    then have "v ?r \<in> \<int>" by (metis Ints_of_int)
    then have "v qty = v ?r * ?s" using s L(9) by (intro integral_quotient) simp_all
    then show ?thesis unfolding multiple_of_def eq(1) using eq(2) by metis
  qed
qed


section \<open>What the exchange is sent\<close>

lemma bin_bindE:
  assumes "bin_bind r k = (x, c')"
  obtains (failed) e where "r = (Inl e, c')" "x = Inl e"
  | (passed) y c where "r = (Inr y, c)" "k y c = (x, c')"
  using assms by (cases r) (auto simp: bin_bind_def split: sum.splits)

abbreviation only_reads :: "'d bin_client \<Rightarrow> 'd bin_client \<Rightarrow> bool" where
  \<comment> \<open>the requests sent in between are no posts\<close>
  "only_reads c c' \<equiv> \<exists>rqs. bn_sent c' = bn_sent c @ rqs \<and> (\<forall>rq\<in>set rqs. hq_method rq = ''GET'')"

lemma only_reads_trans: "only_reads a b \<Longrightarrow> only_reads b c \<Longrightarrow> only_reads a c"
  by (auto; metis UnE append_assoc set_append)

lemma note_weight_keeps [simp]:
  "bn_sent (note_weight rep c) = bn_sent c" "bn_filters (note_weight rep c) = bn_filters c"
  "bn_config (note_weight rep c) = bn_config c" "bn_ticks (note_weight rep c) = bn_ticks c"
  "bn_offset_ms (note_weight rep c) = bn_offset_ms c"
  by (auto simp: note_weight_def split: option.split)

lemma do_request_sent:
  assumes "do_request B rq c = (r, c')"
  shows "bn_sent c' = bn_sent c @ [rq]" "bn_filters c' = bn_filters c" "bn_offset_ms c' = bn_offset_ms c"
  using assms unfolding do_request_def Let_def read_clock_def
  by (auto split: sum.splits prod.splits if_splits)

lemma do_request_answered:
  "be_http B (length (bn_sent c)) rq = Inr rep \<Longrightarrow> 200 \<le> hr_status rep \<Longrightarrow> hr_status rep < 300 \<Longrightarrow>
   do_request B rq c = (Inr (hr_body rep), note_weight rep (c\<lparr>bn_sent := bn_sent c @ [rq]\<rparr>))"
  unfolding do_request_def Let_def by (simp split: prod.splits)

lemma do_request_lost:
  "be_http B (length (bn_sent c)) rq = Inl e \<Longrightarrow> do_request B rq c = (Inl (BeNetwork e), c\<lparr>bn_sent := bn_sent c @ [rq]\<rparr>)"
  unfolding do_request_def by simp

lemma unsigned_reads:
  assumes "unsigned_request B ''GET'' path ps c = (r, c')"
  shows "only_reads c c'" "bn_filters c' = bn_filters c" "bn_offset_ms c' = bn_offset_ms c"
  using do_request_sent [OF assms [unfolded unsigned_request_def]] by auto

lemma book_reads:
  assumes "fetch_book_ticker B D symbol c = (r, c')" shows "only_reads c c'"
proof (cases "symbol = []")
  case True
  with assms show ?thesis by (auto simp: fetch_book_ticker_def)
next
  case False
  with assms show ?thesis unfolding fetch_book_ticker_def
    by (auto elim!: bin_bindE dest!: unsigned_reads(1) split: option.splits prod.splits)
qed

lemma filter_reads:
  assumes "symbol_filter_for B D symbol c = (r, c')"
  shows "only_reads c c'" "r = Inr f \<Longrightarrow> bn_filters c' symbol = Some f"
proof -
  show "only_reads c c'"
    using assms unfolding symbol_filter_for_def
    by (cases "bn_filters c symbol") (auto elim!: bin_bindE dest!: unsigned_reads(1) split: option.splits)
  show "bn_filters c' symbol = Some f" if "r = Inr f"
    using assms that unfolding symbol_filter_for_def
    by (cases "bn_filters c symbol") (auto elim!: bin_bindE split: option.splits)
qed

lemma reads:
  "only_reads c (snd (fetch_book_ticker B D symbol c))" "only_reads c (snd (symbol_filter_for B D symbol c))"
  using book_reads filter_reads(1) by (metis prod.collapse)+

lemma posted:
  assumes "post_order B ps c = (r, c')"
  shows "bn_filters c' = bn_filters c \<and> (bn_sent c' = bn_sent c \<or>
    (\<exists>rq t. bn_sent c' = bn_sent c @ [rq] \<and> hq_params rq = values_set ''recvWindow'' (show_int (bo_recv_window_ms (bn_config c)))
       (values_set ''timestamp'' t ps) \<and> (\<forall>e. be_http B (length (bn_sent c)) rq = Inl e \<longrightarrow> r = Inl (BeNetwork e))))"
proof -
  obtain r0 where r0: "signed_request B ''POST'' ''/api/v3/order'' ps c = (r0, c')" "r = (case r0 of Inl e \<Rightarrow> Inl (wrap_submit_err e) | Inr b \<Rightarrow> Inr b)"
    using assms unfolding post_order_def by (auto split: prod.splits sum.splits)
  show ?thesis
  proof (cases "bo_api_key (bn_config c) = [] \<or> bo_api_secret (bn_config c) = []")
    case True
    with r0(1) show ?thesis by (auto simp: signed_request_def split: if_splits)
  next
    case False
    define c1 where "c1 = c\<lparr>bn_ticks := Suc (bn_ticks c)\<rparr>"
    define qs where "qs = values_set ''recvWindow'' (show_int (bo_recv_window_ms (bn_config c)))
      (values_set ''timestamp'' (show_int (add64 (be_now_ms B (bn_ticks c)) (bn_offset_ms c))) ps)"
    define rq where "rq = \<lparr>hq_method = ''POST'', hq_path = ''/api/v3/order'', hq_params = qs,
      hq_signature = Some (be_hmac B (bo_api_secret (bn_config c)) (values_encode qs)), hq_api_key = bo_api_key (bn_config c)\<rparr>"
    have "do_request B rq c1 = (r0, c')"
      using r0(1) False unfolding signed_request_def read_clock_def rq_def c1_def qs_def Let_def by simp
    from do_request_sent [OF this] do_request_lost [of B c1 rq] this r0(2)
    have "bn_filters c' = bn_filters c" "bn_sent c' = bn_sent c @ [rq]"
      "\<forall>e. be_http B (length (bn_sent c)) rq = Inl e \<longrightarrow> r = Inl (BeNetwork e)" by (auto simp: c1_def wrap_submit_err_def)
    moreover have "hq_params rq = qs" by (simp add: rq_def)
    ultimately show ?thesis unfolding qs_def by blast
  qed
qed

lemma submit_reply_same: "submit_reply D ref body c = (r, c') \<Longrightarrow> c' = c"
  unfolding submit_reply_def by (auto split: option.splits if_splits)

lemma map_of_values_set [simp]: "map_of (values_set k v ps) = (map_of ps)(k \<mapsto> v)"
  by (induction k v ps rule: values_set.induct) (auto simp: fun_upd_twist)

definition order_compliant ::
  "'d dec_ops \<Rightarrow> ('d \<Rightarrow> rat) \<Rightarrow> 'd symbol_filter \<Rightarrow> 'd \<Rightarrow> 'd \<Rightarrow> 'd \<Rightarrow> bool" where
  \<comment> \<open>the quantity sent for a requested one, against the filters of the symbol and a reference price\<close>
  "order_compliant D v f asked ref qty \<longleftrightarrow> 0 < v qty \<and> v qty \<le> v asked \<and>
     (0 < v (sf_min_qty f) \<longrightarrow> v (sf_min_qty f) \<le> v qty) \<and>
     (0 < v (sf_min_notional f) \<and> 0 < v ref \<longrightarrow> v (sf_min_notional f) \<le> v qty * v ref) \<and>
     (0 < v (sf_step_size f) \<longrightarrow> v asked - v qty < v (sf_step_size f)) \<and>
     (0 < v (sf_step_size f) \<and> v (sf_step_size f) \<le> 10 ^ 8 \<and> eight_places (v (sf_step_size f)) \<and>
        eight_places (v asked) \<longrightarrow> multiple_of (v (sf_step_size f)) (v qty))"

lemma compliant:
  assumes "decimal_laws D v" "compliant_quantity D asked ref f = Inr qty" shows "order_compliant D v f asked ref qty"
  unfolding order_compliant_def using compliant_quantity_sound [OF assms] by blast

definition new_post :: "'d bin_client \<Rightarrow> 'd bin_client \<Rightarrow> http_request \<Rightarrow> bool" where
  "new_post c c' rq \<longleftrightarrow> rq \<in> set (drop (length (bn_sent c)) (bn_sent c')) \<and> hq_method rq = ''POST''"

definition posts_of :: "'d bin_client \<Rightarrow> 'd bin_client \<Rightarrow> http_request list" where
  "posts_of c c' = filter (\<lambda>rq. hq_method rq = ''POST'') (drop (length (bn_sent c)) (bn_sent c'))"

definition sole_post ::
  "bin_env \<Rightarrow> 'd bin_client \<Rightarrow> 'd bin_client \<Rightarrow> http_request \<Rightarrow> ('d, 'a) bin_res \<Rightarrow> bool" where
  \<comment> \<open>the only post, and the failure to get a reply to it is what the call returns\<close>
  "sole_post B c c' rq r \<longleftrightarrow> posts_of c c' = [rq] \<and>
     (\<forall>e. be_http B (length (bn_sent c') - 1) rq = Inl e \<longrightarrow> fst r = Inl (BeNetwork e))"

lemma reads_post_nothing: "only_reads c c' \<Longrightarrow> \<not> new_post c c' rq"
  by (auto simp: new_post_def)

lemma pure_bind:
  assumes "bin_bind (x, c) k = (r, c')" "only_reads c0 c" "new_post c0 c' rq"
  obtains y where "x = Inr y" "k y c = (r, c')"
  using assms reads_post_nothing by (cases rule: bin_bindE) auto

lemma reads_bind:
  assumes "bin_bind m k = (r, c')" "only_reads c (snd m)" "only_reads c0 c" "new_post c0 c' rq"
  obtains y c1 where "m = (Inr y, c1)" "only_reads c0 c1" "k y c1 = (r, c')"
  using assms(1)
proof (cases rule: bin_bindE)
  case (failed e)
  with only_reads_trans [OF assms(3,2)] assms(4) reads_post_nothing show thesis by auto
next
  case (passed y c1)
  with only_reads_trans [OF assms(3,2)] show thesis by (intro that) auto
qed

lemma post_bind:
  assumes "bin_bind (post_order B ps c) (submit_reply D ref) = (r, c')" "only_reads c0 c" "new_post c0 c' rq"
  obtains t where "sole_post B c0 c' rq (r, c')" "bn_filters c' = bn_filters c"
    "hq_params rq = values_set ''recvWindow'' (show_int (bo_recv_window_ms (bn_config c))) (values_set ''timestamp'' t ps)"
proof -
  obtain rp where rp: "post_order B ps c = (rp, c')"
    using assms(1) by (cases rule: bin_bindE) (auto dest: submit_reply_same)
  from posted [OF this] show thesis
  proof (elim conjE disjE exE)
    assume "bn_sent c' = bn_sent c"
    then have "only_reads c0 c'" using assms(2) by simp
    with reads_post_nothing assms(3) show thesis by blast
  next
    fix rq' t assume f: "bn_filters c' = bn_filters c" and s: "bn_sent c' = bn_sent c @ [rq']"
      and p: "hq_params rq' = values_set ''recvWindow'' (show_int (bo_recv_window_ms (bn_config c))) (values_set ''timestamp'' t ps)"
      and lost: "\<forall>e. be_http B (length (bn_sent c)) rq' = Inl e \<longrightarrow> rp = Inl (BeNetwork e)"
    from assms(2,3) s have "rq = rq'" by (auto simp: new_post_def)
    moreover have "posts_of c0 c' = [rq]"
      using assms(2,3) s calculation by (auto simp: new_post_def posts_of_def filter_empty_conv)
    moreover have "r = Inl e" if "rp = Inl e" for e using assms(1) rp that by (simp add: bin_bind_def)
    ultimately show thesis using f p lost s that by (auto simp: sole_post_def)
  qed
qed

definition posted_order ::
  "'d dec_ops \<Rightarrow> ('d \<Rightarrow> rat) \<Rightarrow> 'd exchange_order \<Rightarrow> 'd bin_client \<Rightarrow> http_request \<Rightarrow> bool" where
  \<comment> \<open>a posted order names the command and its symbol, and its quantity obeys the filters known of the symbol\<close>
  "posted_order D v ord c rq \<longleftrightarrow> (\<exists>f ref qty. bn_filters c (eo_symbol ord) = Some f \<and>
     order_compliant D v f (eo_quantity ord) ref qty \<and> map_of (hq_params rq) ''quantity'' = Some (d_string D qty) \<and>
     map_of (hq_params rq) ''symbol'' = Some (eo_symbol ord) \<and>
     map_of (hq_params rq) ''newClientOrderId'' = Some (eo_client_order_id ord) \<and>
     (case eo_order_type ord = ''limit'' of False \<Rightarrow> map_of (hq_params rq) ''price'' = None
      | True \<Rightarrow> ref = compliant_price D (eo_limit_price ord) f \<and> map_of (hq_params rq) ''price'' = Some (d_string D ref)))"

lemma order_checkedD: "order_checked D typ ord = None \<Longrightarrow> eo_order_type ord = typ"
  by (auto simp: order_checked_def split: if_splits)

lemma market_posts:
  assumes laws: "decimal_laws D v" and run: "submit_market B D ord c = (r, c')" and post: "new_post c c' rq"
  shows "posted_order D v ord c' rq \<and> sole_post B c c' rq (r, c')"
proof -
  have here: "only_reads c c" by simp
  have chk: "order_checked D ''market'' ord = None"
    using run reads_post_nothing [OF here] post unfolding submit_market_def by (auto split: option.splits)
  from run chk have "bin_bind (map_side (eo_side ord), c) (\<lambda>side c.
        bin_bind (fetch_book_ticker B D (eo_symbol ord) c) (\<lambda>book c.
        bin_bind (symbol_filter_for B D (eo_symbol ord) c) (\<lambda>f c.
        bin_bind (compliant_quantity D (eo_quantity ord) (if side = ''BUY'' then bk_ask_price book else bk_bid_price book) f, c) (\<lambda>qty c.
        bin_bind (post_order B (order_params D (ord\<lparr>eo_quantity := qty\<rparr>) side ''MARKET'') c) (submit_reply D (if side = ''BUY'' then bk_ask_price book else bk_bid_price book)))))) = (r, c')"
    by (simp add: submit_market_def Let_def)
  from pure_bind [OF this here post] obtain side where "bin_bind (fetch_book_ticker B D (eo_symbol ord) c) (\<lambda>book c.
        bin_bind (symbol_filter_for B D (eo_symbol ord) c) (\<lambda>f c.
        bin_bind (compliant_quantity D (eo_quantity ord) (if side = ''BUY'' then bk_ask_price book else bk_bid_price book) f, c) (\<lambda>qty c.
        bin_bind (post_order B (order_params D (ord\<lparr>eo_quantity := qty\<rparr>) side ''MARKET'') c) (submit_reply D (if side = ''BUY'' then bk_ask_price book else bk_bid_price book))))) = (r, c')"
    by blast
  then obtain book c1 where "fetch_book_ticker B D (eo_symbol ord) c = (Inr book, c1)" and c1: "only_reads c c1"
    "bin_bind (symbol_filter_for B D (eo_symbol ord) c1) (\<lambda>f c.
        bin_bind (compliant_quantity D (eo_quantity ord) (if side = ''BUY'' then bk_ask_price book else bk_bid_price book) f, c) (\<lambda>qty c.
        bin_bind (post_order B (order_params D (ord\<lparr>eo_quantity := qty\<rparr>) side ''MARKET'') c)
          (submit_reply D (if side = ''BUY'' then bk_ask_price book else bk_bid_price book)))) = (r, c')"
    by (rule reads_bind [OF _ reads(1) here post])
  let ?ref = "if side = ''BUY'' then bk_ask_price book else bk_bid_price book"
  from reads_bind [OF c1(2) reads(2) c1(1) post] obtain f c2 where
    f: "symbol_filter_for B D (eo_symbol ord) c1 = (Inr f, c2)" and c2: "only_reads c c2" and
    rest: "bin_bind (compliant_quantity D (eo_quantity ord) ?ref f, c2) (\<lambda>qty c.
        bin_bind (post_order B (order_params D (ord\<lparr>eo_quantity := qty\<rparr>) side ''MARKET'') c) (submit_reply D ?ref)) = (r, c')"
    by blast
  from pure_bind [OF rest c2 post] obtain qty where q: "compliant_quantity D (eo_quantity ord) ?ref f = Inr qty" and
    last: "bin_bind (post_order B (order_params D (ord\<lparr>eo_quantity := qty\<rparr>) side ''MARKET'') c2) (submit_reply D ?ref) = (r, c')"
    by blast
  from post_bind [OF last c2 post] obtain t where only: "sole_post B c c' rq (r, c')" and p: "bn_filters c' = bn_filters c2"
    "hq_params rq = values_set ''recvWindow'' (show_int (bo_recv_window_ms (bn_config c2)))
       (values_set ''timestamp'' t (order_params D (ord\<lparr>eo_quantity := qty\<rparr>) side ''MARKET''))" by blast
  have "bn_filters c' (eo_symbol ord) = Some f" using filter_reads(2) [OF f refl] p(1) by simp
  with compliant [OF laws q] order_checkedD [OF chk] only show ?thesis
    unfolding posted_order_def p(2) by (intro conjI exI [of _ f] exI [of _ ?ref] exI [of _ qty]) (simp_all add: order_params_def)
qed

lemma limit_posts:
  assumes laws: "decimal_laws D v" and run: "submit_limit B D ord c = (r, c')" and post: "new_post c c' rq"
  shows "posted_order D v ord c' rq \<and> sole_post B c c' rq (r, c')"
proof -
  have here: "only_reads c c" by simp
  have chk: "order_checked D ''limit'' ord = None"
    using run reads_post_nothing [OF here] post unfolding submit_limit_def by (auto split: option.splits)
  from run chk have "bin_bind (map_side (eo_side ord), c) (\<lambda>side c.
        bin_bind (symbol_filter_for B D (eo_symbol ord) c) (\<lambda>f c.
        bin_bind (compliant_quantity D (eo_quantity ord) (compliant_price D (eo_limit_price ord) f) f, c) (\<lambda>qty c.
        bin_bind (normalize_time_in_force (eo_time_in_force ord), c) (\<lambda>tif c.
        bin_bind (post_order B (values_set ''price'' (d_string D (compliant_price D (eo_limit_price ord) f))
          (values_set ''timeInForce'' tif (order_params D (ord\<lparr>eo_quantity := qty\<rparr>) side ''LIMIT''))) c)
          (submit_reply D (compliant_price D (eo_limit_price ord) f)))))) = (r, c')"
    by (simp add: submit_limit_def Let_def)
  from pure_bind [OF this here post] obtain side where "bin_bind (symbol_filter_for B D (eo_symbol ord) c) (\<lambda>f c.
        bin_bind (compliant_quantity D (eo_quantity ord) (compliant_price D (eo_limit_price ord) f) f, c) (\<lambda>qty c.
        bin_bind (normalize_time_in_force (eo_time_in_force ord), c) (\<lambda>tif c.
        bin_bind (post_order B (values_set ''price'' (d_string D (compliant_price D (eo_limit_price ord) f))
          (values_set ''timeInForce'' tif (order_params D (ord\<lparr>eo_quantity := qty\<rparr>) side ''LIMIT''))) c)
          (submit_reply D (compliant_price D (eo_limit_price ord) f))))) = (r, c')" by blast
  from reads_bind [OF this reads(2) here post] obtain f c2 where
    f: "symbol_filter_for B D (eo_symbol ord) c = (Inr f, c2)" and c2: "only_reads c c2" and
    rest: "bin_bind (compliant_quantity D (eo_quantity ord) (compliant_price D (eo_limit_price ord) f) f, c2) (\<lambda>qty c.
        bin_bind (normalize_time_in_force (eo_time_in_force ord), c) (\<lambda>tif c.
        bin_bind (post_order B (values_set ''price'' (d_string D (compliant_price D (eo_limit_price ord) f))
          (values_set ''timeInForce'' tif (order_params D (ord\<lparr>eo_quantity := qty\<rparr>) side ''LIMIT''))) c)
          (submit_reply D (compliant_price D (eo_limit_price ord) f)))) = (r, c')" by blast
  let ?ref = "compliant_price D (eo_limit_price ord) f"
  from pure_bind [OF rest c2 post] obtain qty where q: "compliant_quantity D (eo_quantity ord) ?ref f = Inr qty" and
    tail: "bin_bind (normalize_time_in_force (eo_time_in_force ord), c2) (\<lambda>tif c.
        bin_bind (post_order B (values_set ''price'' (d_string D ?ref)
          (values_set ''timeInForce'' tif (order_params D (ord\<lparr>eo_quantity := qty\<rparr>) side ''LIMIT''))) c) (submit_reply D ?ref)) = (r, c')"
    by blast
  from pure_bind [OF tail c2 post] obtain tif where
    last: "bin_bind (post_order B (values_set ''price'' (d_string D ?ref)
          (values_set ''timeInForce'' tif (order_params D (ord\<lparr>eo_quantity := qty\<rparr>) side ''LIMIT''))) c2) (submit_reply D ?ref) = (r, c')"
    by blast
  from post_bind [OF last c2 post] obtain t where only: "sole_post B c c' rq (r, c')" and p: "bn_filters c' = bn_filters c2"
    "hq_params rq = values_set ''recvWindow'' (show_int (bo_recv_window_ms (bn_config c2)))
       (values_set ''timestamp'' t (values_set ''price'' (d_string D ?ref)
          (values_set ''timeInForce'' tif (order_params D (ord\<lparr>eo_quantity := qty\<rparr>) side ''LIMIT''))))" by blast
  have "bn_filters c' (eo_symbol ord) = Some f" using filter_reads(2) [OF f refl] p(1) by simp
  with compliant [OF laws q] order_checkedD [OF chk] only show ?thesis
    unfolding posted_order_def p(2) by (intro conjI exI [of _ f] exI [of _ ?ref] exI [of _ qty]) (simp_all add: order_params_def)
qed


lemma exchange_posts:
  assumes "decimal_laws D v" "exchange_submit B D ord c = (r, c')" "new_post c c' rq"
  shows "posted_order D v ord c' rq \<and> sole_post B c c' rq (r, c')"
proof -
  from assms(2) consider "submit_market B D ord c = (r, c')" | "submit_limit B D ord c = (r, c')" | "c' = c"
    unfolding exchange_submit_def by (auto split: if_splits)
  then show ?thesis
  proof cases
    case 1 from market_posts [OF assms(1) this assms(3)] show ?thesis .
  next
    case 2 from limit_posts [OF assms(1) this assms(3)] show ?thesis .
  next
    case 3 with assms(3) show ?thesis by (simp add: new_post_def)
  qed
qed

definition rat_div :: "rat \<Rightarrow> rat \<Rightarrow> rat" where
  \<comment> \<open>a quotient to sixteen places\<close>
  "rat_div a b = of_int (round (a / b * 10 ^ 16)) / 10 ^ 16"

definition rat_dec :: "rat dec_ops" where
  \<comment> \<open>decimals as rational numbers\<close>
  "rat_dec = \<lparr>d_parse = decimal_literal, d_string = (\<lambda>q. show_int \<lfloor>q * 10 ^ 8\<rfloor> @ ''e-8''), d_zero = 0, d_is_zero = (\<lambda>q. q = 0),
     d_is_positive = (\<lambda>q. 0 < q), d_eq = (=), d_lt = (<), d_ge = (\<ge>), d_add = (+), d_sub = (-), d_mul = (*),
     d_div = rat_div, d_floor = (\<lambda>q. of_int \<lfloor>q\<rfloor>),
     d_round = (\<lambda>q. of_int (round q)), d_of_int = of_int, d_of_float = (\<lambda>x. f_val x), d_float = (\<lambda>q. f_const q)\<rparr>"

lemma rat_dec_positive: "d_is_positive rat_dec q \<longleftrightarrow> 0 < q"
  by (simp add: rat_dec_def)

lemma rat_div_close: "\<bar>rat_div a b - a / b\<bar> \<le> 1 / (2 * 10 ^ 16)"
proof -
  let ?m = "10 ^ 16 :: rat" and ?x = "a / b"
  have "of_int (round (?x * ?m)) / ?m - ?x = (of_int (round (?x * ?m)) - ?x * ?m) / ?m" by (simp add: diff_divide_distrib)
  then have "\<bar>rat_div a b - ?x\<bar> = \<bar>of_int (round (?x * ?m)) - ?x * ?m\<bar> / ?m"
    unfolding rat_div_def by (simp only: abs_divide power_abs abs_numeral)
  also have "\<dots> \<le> (1 / 2) / 10 ^ 16" by (intro divide_right_mono of_int_round_abs_le) simp
  finally show ?thesis by simp
qed

lemma rat_div_places: "multiple_of (1 / 10 ^ 16) (rat_div a b)"
  unfolding multiple_of_def rat_div_def by (intro exI [of _ "round (a / b * 10 ^ 16)"]) simp

lemma rat_dec_laws: "decimal_laws rat_dec id"
  unfolding decimal_laws_def rat_dec_def
  by (intro conjI allI impI) (simp_all only: id_apply dec_ops.simps Ints_of_int of_int_round_abs_le rat_div_close rat_div_places)

definition sample_filters :: json where
  "sample_filters = JObj [(''symbols'', JArr [JObj [(''symbol'', JStr ''BTCUSDT''), (''filters'', JArr
     [JObj [(''filterType'', JStr ''LOT_SIZE''), (''stepSize'', JStr ''0.001''), (''minQty'', JStr ''0.001'')],
      JObj [(''filterType'', JStr ''PRICE_FILTER''), (''tickSize'', JStr ''0.01'')],
      JObj [(''filterType'', JStr ''NOTIONAL''), (''minNotional'', JStr ''5'')]])]])]"

definition sample_bin_env :: bin_env where
  "sample_bin_env = \<lparr>be_http = (\<lambda>n rq. if n = 0 then Inr \<lparr>hr_status = 200, hr_used_weight = ''20'', hr_retry_after = [],
       hr_body = Some sample_filters, hr_text = []\<rparr> else Inl ''timeout''),
     be_now_ms = (\<lambda>n. 1000 * int n), be_hmac = (\<lambda>k m. ''mac''), be_http_date = (\<lambda>_. None)\<rparr>"

definition sample_order :: "rat exchange_order" where
  "sample_order = \<lparr>eo_client_order_id = ''o1'', eo_symbol = ''BTCUSDT'', eo_side = ''buy'', eo_order_type = ''limit'',
     eo_quantity = 2469 / 200000, eo_limit_price = 60000, eo_time_in_force = ''IOC''\<rparr>"

definition sample_client :: "rat bin_client" where
  "sample_client = new_client \<lparr>bo_base_url = [], bo_api_key = ''k'', bo_api_secret = ''s'', bo_recv_window_ms = 0\<rparr>"


lemma sample_literals:
  "decimal_literal ''0.001'' = Some (1 / 1000)" "decimal_literal ''0.01'' = Some (1 / 100)" "decimal_literal ''5'' = Some 5"
  by (simp_all add: decimal_literal_def is_digit_def digits_val_def digit_val_def Let_def)

lemma sample_filter: "parse_symbol_filter rat_dec (Some sample_filters) =
    Some \<lparr>sf_step_size = 1 / 1000, sf_min_qty = 1 / 1000, sf_tick_size = 1 / 100, sf_min_notional = 5\<rparr>"
proof -
  have "body_of [(''symbols'', list_field raw_symbol_of id)] [] (Some sample_filters) = Some [(''BTCUSDT'',
     [\<lparr>rf_type = ''LOT_SIZE'', rf_step_size = ''0.001'', rf_min_qty = ''0.001'', rf_tick_size = [], rf_min_notional = []\<rparr>,
      \<lparr>rf_type = ''PRICE_FILTER'', rf_step_size = [], rf_min_qty = [], rf_tick_size = ''0.01'', rf_min_notional = []\<rparr>,
      \<lparr>rf_type = ''NOTIONAL'', rf_step_size = [], rf_min_qty = [], rf_tick_size = [], rf_min_notional = ''5''\<rparr>])]" by code_simp
  then show ?thesis
    by (simp add: parse_symbol_filter_def apply_filter_def filter_dec_def rat_dec_def sample_literals)
qed

lemma sample_submit: "bn_sent (snd (exchange_submit sample_bin_env rat_dec sample_order sample_client)) =
    [\<lparr>hq_method = ''GET'', hq_path = ''/api/v3/exchangeInfo'', hq_params = [(''symbol'', ''BTCUSDT'')], hq_signature = None, hq_api_key = []\<rparr>,
     \<lparr>hq_method = ''POST'', hq_path = ''/api/v3/order'', hq_params = values_set ''recvWindow'' (show_int 5000) (values_set ''timestamp'' (show_int 0)
        (values_set ''price'' (d_string rat_dec 60000) (values_set ''timeInForce'' ''IOC'' (order_params rat_dec (sample_order\<lparr>eo_quantity := 3 / 250\<rparr>) ''BUY'' ''LIMIT'')))),
       hq_signature = Some ''mac'', hq_api_key = ''k''\<rparr>]"
proof -
  let ?f = "\<lparr>sf_step_size = 1 / 1000, sf_min_qty = 1 / 1000, sf_tick_size = 1 / 100, sf_min_notional = 5 :: rat\<rparr>"
  have side: "map_side ''buy'' = Inr ''BUY''" and tif: "normalize_time_in_force ''IOC'' = Inr ''IOC''" by code_simp+
  have zero: "add64 0 0 = 0" by code_simp
  have price: "compliant_price rat_dec 60000 ?f = 60000"
    unfolding compliant_price_def Let_def by (simp add: rat_dec_def rat_div_def)
  have r: "rat_div (2469 / 200000) (1 / 1000) = 2469 / 200"
    unfolding rat_div_def by simp
  have fl: "\<lfloor>2469 / 200 :: rat\<rfloor> = 12" by (rule floor_unique) simp_all
  have nint: "(2469 / 200 :: rat) \<noteq> of_int n" for n
  proof
    assume "(2469 / 200 :: rat) = of_int n"
    then have "rat_of_int (200 * n) = of_int 2469" by simp
    then have "200 * n = 2469" by (simp only: of_int_eq_iff)
    then show False by presburger
  qed
  have qty: "compliant_quantity rat_dec (2469 / 200000) 60000 ?f = Inr (3 / 250)"
    unfolding compliant_quantity_def Let_def by (simp add: rat_dec_def r fl nint del: floor_divide_eq_div_numeral)
  have weight: "note_weight \<lparr>hr_status = 200, hr_used_weight = ''20'', hr_retry_after = [], hr_body = b, hr_text = []\<rparr> c = c\<lparr>bn_used_weight := 20\<rparr>" for b c
    by (simp add: note_weight_def atoi_def is_digit_def digits_val_def digit_val_def Let_def in64_def int32_def)
  show ?thesis
    unfolding exchange_submit_def submit_limit_def
    by (simp add: sample_order_def order_checked_def bin_bind_def side tif price qty zero symbol_filter_for_def unsigned_request_def
        do_request_answered do_request_lost Let_def sample_bin_env_def sample_client_def new_client_def weight sample_filter
        rat_dec_positive post_order_def signed_request_def read_clock_def wrap_submit_err_def default_recv_window_ms_def)
qed


end
