(* ===== verification/BinanceReports.thy ===== *)
theory BinanceReports
  imports BinanceTheorems AgentTheorems "HOL-Library.AList"
begin

text \<open>
  The rest of what the Binance adapter guarantees, and where it meets the agent: the clock correction, orders
  whose reply is lost, execution reports read through their own keys, and the sessions of the user data
  stream with the pauses between them.
\<close>

section \<open>The clock\<close>

definition time_request :: http_request where
  "time_request = \<lparr>hq_method = ''GET'', hq_path = ''/api/v3/time'', hq_params = [], hq_signature = None, hq_api_key = []\<rparr>"

definition server_time :: "bin_env \<Rightarrow> 'd bin_client \<Rightarrow> int option" where
  \<comment> \<open>the time in the reply to the next request\<close>
  "server_time B c = (case be_http B (length (bn_sent c)) time_request of
     Inl _ \<Rightarrow> None | Inr rep \<Rightarrow> body_of [(''serverTime'', int_field id)] 0 (hr_body rep))"

lemma go_half_bounds: "0 \<le> n \<Longrightarrow> 2 * go_half n \<le> n \<and> n \<le> 2 * go_half n + 1"
  unfolding go_half_def by (simp; presburger)

lemma do_request_passed:
  assumes "do_request B rq c = (Inr body, c')"
  obtains rep where "be_http B (length (bn_sent c)) rq = Inr rep" "hr_body rep = body" "bn_ticks c' = bn_ticks c"
  using assms unfolding do_request_def Let_def read_clock_def
  by (auto split: sum.splits prod.splits if_splits)

lemma int_field_in64: "unmarshal [(k, int_field id)] j s = Some t \<Longrightarrow> in64 s \<Longrightarrow> in64 t"
proof -
  have "set_fields [(k, int_field id)] kvs s = Some t \<Longrightarrow> in64 s \<Longrightarrow> in64 t" for kvs s
    by (induction "[(k, int_field id)]" kvs s rule: set_fields.induct)
      (auto simp: int_field_def split: if_splits option.splits json.splits)
  then show "unmarshal [(k, int_field id)] j s = Some t \<Longrightarrow> in64 s \<Longrightarrow> in64 t"
    by (auto simp: unmarshal_def split: json.splits)
qed

lemma sync_time_sets:
  assumes "sync_time B c = (Inr u, c')"
  obtains t where "server_time B c = Some t" "0 < t"
    "bn_offset_ms c' = sub64 t (go_half (add64 (be_now_ms B (bn_ticks c)) (be_now_ms B (Suc (bn_ticks c)))))"
proof -
  from assms obtain body c1 t where
    r: "unsigned_request B ''GET'' ''/api/v3/time'' [] (c\<lparr>bn_ticks := Suc (bn_ticks c)\<rparr>) = (Inr body, c1)"
    and t: "body_of [(''serverTime'', int_field id)] 0 body = Some t" "0 < t"
    and c': "c' = c1\<lparr>bn_ticks := Suc (bn_ticks c1),
      bn_offset_ms := sub64 t (go_half (add64 (be_now_ms B (bn_ticks c)) (be_now_ms B (bn_ticks c1))))\<rparr>"
    unfolding sync_time_def read_clock_def Let_def
    by (auto elim!: bin_bindE split: option.splits if_splits)
  from do_request_passed [OF r [unfolded unsigned_request_def]] obtain rep where
    "be_http B (length (bn_sent c)) time_request = Inr rep" "hr_body rep = body" "bn_ticks c1 = Suc (bn_ticks c)"
    by (auto simp: time_request_def)
  with t c' show thesis by (intro that [of t]) (simp_all add: server_time_def)
qed

lemma sync_time_failed: "sync_time B c = (Inl e, c') \<Longrightarrow> bn_offset_ms c' = bn_offset_ms c"
  unfolding sync_time_def read_clock_def Let_def
  by (auto elim!: bin_bindE dest!: unsigned_reads(3) split: option.splits if_splits)

definition sample_clock_env :: bin_env where
  "sample_clock_env = \<lparr>be_http = (\<lambda>_ _. Inr \<lparr>hr_status = 200, hr_used_weight = [], hr_retry_after = [],
     hr_body = Some (JObj [(''serverTime'', JInt 5070)]), hr_text = []\<rparr>), be_now_ms = (\<lambda>n. 1000 + 100 * int n),
     be_hmac = (\<lambda>_ _. []), be_http_date = (\<lambda>_. None)\<rparr>"

text \<open>
  C38: Synchronising the clock either fails and leaves the correction as it was, or sets one that is off by at
  most half the round trip (rounded up to a millisecond): when the exchange read its clock, which is ahead of
  the local one by \<open>\<delta>\<close>, at some moment between the two local readings, the correction differs from
  \<open>\<delta>\<close> by at most half their distance.
\<close>

theorem sync_time_accuracy:
  assumes "sync_time B c = (r, c')" "t0 = be_now_ms B (bn_ticks c)" "t2 = be_now_ms B (Suc (bn_ticks c))"
    "0 \<le> t0" "t0 \<le> t2" "t2 < 2 ^ 62"
  shows "case r of Inl _ \<Rightarrow> bn_offset_ms c' = bn_offset_ms c
    | Inr _ \<Rightarrow> (\<exists>t > 0. server_time B c = Some t \<and>
        (\<forall>s \<delta>. t0 \<le> s \<and> s \<le> t2 \<and> t = s + \<delta> \<longrightarrow> 2 * \<bar>bn_offset_ms c' - \<delta>\<bar> \<le> t2 - t0 + 1))"
proof (cases r)
  case (Inl e)
  with assms(1) show ?thesis by (auto dest: sync_time_failed)
next
  case (Inr u)
  with assms(1) obtain t where t: "server_time B c = Some t" "0 < t" and
    off: "bn_offset_ms c' = sub64 t (go_half (add64 t0 t2))"
    unfolding assms(2,3) by (blast elim: sync_time_sets)
  have "in64 (t0 + t2)" using assms(4-6) by (simp add: in64_def)
  then have sum: "add64 t0 t2 = t0 + t2" by (simp add: add64_def)
  have h: "2 * go_half (t0 + t2) \<le> t0 + t2" "t0 + t2 \<le> 2 * go_half (t0 + t2) + 1"
    using go_half_bounds [of "t0 + t2"] assms(4-6) by simp_all
  have "in64 t" using t(1) unfolding server_time_def body_of_def
    by (auto split: sum.splits Option.bind_splits dest!: int_field_in64 simp: in64_def)
  then have "in64 (t - go_half (t0 + t2))" using h assms(4-6) t(2) by (auto simp: in64_def)
  then have "bn_offset_ms c' = t - go_half (t0 + t2)" using off by (simp add: sub64_def sum)
  moreover have "2 * \<bar>t - go_half (t0 + t2) - \<delta>\<bar> \<le> t2 - t0 + 1" if "t0 \<le> s" "s \<le> t2" "t = s + \<delta>" for s \<delta>
    using that h by arith
  ultimately show ?thesis using Inr t by auto
qed

theorem sync_time_accuracy_witness:
  "fst (sync_time sample_clock_env sample_client) = Inr () \<and>
   2 * \<bar>bn_offset_ms (snd (sync_time sample_clock_env sample_client)) - 3990\<bar> \<le> 101"
proof -
  have "server_time sample_clock_env sample_client = Some 5070" and ok: "fst (sync_time sample_clock_env sample_client) = Inr ()"
    and ticks: "bn_ticks sample_client = 0" by code_simp+
  moreover have now: "be_now_ms sample_clock_env n = 1000 + 100 * int n" for n by (simp add: sample_clock_env_def)
  ultimately have "\<forall>s \<delta>. 1000 \<le> s \<and> s \<le> 1100 \<and> 5070 = s + \<delta> \<longrightarrow>
      2 * \<bar>bn_offset_ms (snd (sync_time sample_clock_env sample_client)) - \<delta>\<bar> \<le> 101"
    using sync_time_accuracy [OF surjective_pairing [of "sync_time sample_clock_env sample_client"] refl refl] by (simp add: now)
  from spec [OF spec [OF this, of 1080], of 3990] ok show ?thesis by simp
qed

section \<open>A lost reply\<close>

text \<open>
  C39: An order whose reply gets lost on the way is treated as one the exchange turned down: when the post of a
  command went out and no reply came, Submit returns the network error, and whatever its text the agent marks
  the order rejected in its store and acknowledges the command with \<open>rejected\<close> - although the exchange
  has been sent an order that it may have filled.
\<close>

theorem lost_reply_reported_rejected:
  assumes "decimal_laws D v" "exchange_submit B D (order_of ac) c = (r, c')"
    "rq \<in> set (drop (length (bn_sent c)) (bn_sent c'))" "hq_method rq = ''POST''"
    "be_http B (length (bn_sent c') - 1) rq = Inl e"
    "sq_errors (ag_idem st) = []" "sq_rows (ag_idem st) cid = Some row" "cid = order_id ac" "cid \<noteq> []"
    "e_write_ok env (ag_writes st)"
  shows "r = Inl (BeNetwork e) \<and>
    map_option sq_status (sq_rows (ag_idem (htc_finish env (sqlite_ops D) D ac (Inl msg) st)) cid) = Some IdemRejected \<and>
    (\<exists>t. ag_sent (htc_finish env (sqlite_ops D) D ac (Inl msg) st) = ag_sent st @ [OAck (plain_ack cid ''rejected'' t msg)])"
proof (intro conjI)
  show "r = Inl (BeNetwork e)"
    using exchange_posts [OF assms(1,2)] assms(3-5) by (simp add: new_post_def sole_post_def)
  show "map_option sq_status (sq_rows (ag_idem (htc_finish env (sqlite_ops D) D ac (Inl msg) st)) cid) = Some IdemRejected"
    using assms(6-9) by (simp add: htc_finish_def order_id_def sqlite_ops_def sql_update_def next_error_def spend_error_def
        Let_def split_beta frame_simps)
  show "\<exists>t. ag_sent (htc_finish env (sqlite_ops D) D ac (Inl msg) st) = ag_sent st @ [OAck (plain_ack cid ''rejected'' t msg)]"
    using assms(8,10) by (intro exI [of _ "e_now env (Suc (ag_ticks st))"]) (simp add: htc_finish_def order_id_def send_ack_def send_typed_def now_ms_def Let_def)
qed

definition sample_limit_cmd :: "rat accepted_cmd" where
  "sample_limit_cmd = \<lparr>ac_cmd = sample_command\<lparr>tc_order_type := ''limit'', tc_time_in_force := ''IOC''\<rparr>, ac_clk = 0,
     ac_qty = 2469 / 200000, ac_limit = 60000\<rparr>"

definition sample_rat_env :: "rat agent_env" where
  "sample_rat_env = \<lparr>e_now = int, e_write_ok = (\<lambda>_. True), e_submit = (\<lambda>_ _. Inl ''timeout''),
     e_positions = (\<lambda>_. Inr []), e_reachable = (\<lambda>_. True)\<rparr>"

theorem lost_reply_reported_rejected_witness:
  "fst (exchange_submit sample_bin_env rat_dec (order_of sample_limit_cmd) sample_client) = Inl (BeNetwork ''timeout'') \<and>
   (\<exists>t. ag_sent (htc_finish sample_rat_env (sqlite_ops rat_dec) rat_dec sample_limit_cmd (Inl ''timeout'')
      (fresh_agent \<lparr>sq_rows = [''o1'' \<mapsto> \<lparr>sq_exchange_order_id = None, sq_status = IdemPending,
         sq_market_ref_decimal = None, sq_submitted_at_ms = 0, sq_last_updated_ms = 0\<rparr>], sq_errors = []\<rparr>)) =
      [OAck (plain_ack ''o1'' ''rejected'' t ''timeout'')])"
proof -
  have ord: "order_of sample_limit_cmd = sample_order"
    by (simp add: order_of_def sample_limit_cmd_def sample_command_def sample_order_def)
  let ?r = "exchange_submit sample_bin_env rat_dec (order_of sample_limit_cmd) sample_client" and ?rq = "bn_sent (snd (exchange_submit sample_bin_env rat_dec sample_order sample_client)) ! 1"
  have post: "?rq \<in> set (drop (length (bn_sent sample_client)) (bn_sent (snd ?r)))" "hq_method ?rq = ''POST''"
    and lost: "be_http sample_bin_env (length (bn_sent (snd ?r)) - 1) ?rq = Inl ''timeout''"
    unfolding ord sample_submit by (simp_all add: sample_client_def new_client_def sample_bin_env_def)
  let ?st = "fresh_agent \<lparr>sq_rows = [''o1'' \<mapsto> \<lparr>sq_exchange_order_id = None, sq_status = IdemPending,
      sq_market_ref_decimal = None, sq_submitted_at_ms = 0, sq_last_updated_ms = 0\<rparr>], sq_errors = []\<rparr> :: (sqlite_store, rat) agent"
  have st: "sq_errors (ag_idem ?st) = []" "sq_rows (ag_idem ?st) ''o1'' = Some \<lparr>sq_exchange_order_id = None, sq_status = IdemPending,
      sq_market_ref_decimal = None, sq_submitted_at_ms = 0, sq_last_updated_ms = 0\<rparr>" "ag_sent ?st = []"
    by (simp_all add: fresh_agent_def)
  have id: "''o1'' = order_id sample_limit_cmd" "''o1'' \<noteq> []" "e_write_ok sample_rat_env (ag_writes ?st)"
    by (simp_all add: order_id_def sample_limit_cmd_def sample_command_def sample_rat_env_def)
  from lost_reply_reported_rejected [OF rat_dec_laws surjective_pairing post lost st(1,2) id, of "''timeout''"]
  show ?thesis unfolding st(3) append_Nil by blast
qed

section \<open>Execution reports\<close>

definition report_pairs :: "raw_execution_report \<Rightarrow> (string \<times> json) list" where
  \<comment> \<open>the keys and values by which the exchange sends a report\<close>
  "report_pairs x =
     [(''e'', JStr (xr_event_type x)), (''s'', JStr (xr_symbol x)), (''c'', JStr (xr_client_order_id x)),
      (''S'', JStr (xr_side x)), (''o'', JStr (xr_order_type x)), (''x'', JStr (xr_execution_type x)),
      (''X'', JStr (xr_order_status x)), (''i'', JInt (xr_order_id x)), (''l'', JStr (xr_last_fill_qty x)),
      (''L'', JStr (xr_last_fill_price x)), (''n'', JStr (xr_commission x)), (''N'', JStr (xr_commission_asset x)),
      (''T'', JInt (xr_transact_time x)), (''z'', JStr (xr_cumulative_qty x)), (''E'', JInt (xr_event_time x)),
      (''O'', JInt (xr_order_creation_time x)), (''C'', JStr (xr_orig_client_order_id x)), (''I'', JInt (xr_execution_id x)),
      (''t'', JInt (xr_trade_id x)), (''Z'', JStr (xr_cumulative_quote_qty x))]"

definition report_in64 :: "raw_execution_report \<Rightarrow> bool" where
  "report_in64 x \<longleftrightarrow> list_all in64 [xr_order_id x, xr_transact_time x, xr_event_time x, xr_order_creation_time x,
     xr_execution_id x, xr_trade_id x]"

lemma field_for_report:
  "field_for execution_report_fields ''e'' = Some (''e'', str_field xr_event_type_update)"
  "field_for execution_report_fields ''s'' = Some (''s'', str_field xr_symbol_update)"
  "field_for execution_report_fields ''c'' = Some (''c'', str_field xr_client_order_id_update)"
  "field_for execution_report_fields ''S'' = Some (''S'', str_field xr_side_update)"
  "field_for execution_report_fields ''o'' = Some (''o'', str_field xr_order_type_update)"
  "field_for execution_report_fields ''x'' = Some (''x'', str_field xr_execution_type_update)"
  "field_for execution_report_fields ''X'' = Some (''X'', str_field xr_order_status_update)"
  "field_for execution_report_fields ''i'' = Some (''i'', int_field xr_order_id_update)"
  "field_for execution_report_fields ''l'' = Some (''l'', str_field xr_last_fill_qty_update)"
  "field_for execution_report_fields ''L'' = Some (''L'', str_field xr_last_fill_price_update)"
  "field_for execution_report_fields ''n'' = Some (''n'', str_field xr_commission_update)"
  "field_for execution_report_fields ''N'' = Some (''N'', str_field xr_commission_asset_update)"
  "field_for execution_report_fields ''T'' = Some (''T'', int_field xr_transact_time_update)"
  "field_for execution_report_fields ''z'' = Some (''z'', str_field xr_cumulative_qty_update)"
  "field_for execution_report_fields ''E'' = Some (''E'', int_field xr_event_time_update)"
  "field_for execution_report_fields ''O'' = Some (''O'', int_field xr_order_creation_time_update)"
  "field_for execution_report_fields ''C'' = Some (''C'', str_field xr_orig_client_order_id_update)"
  "field_for execution_report_fields ''I'' = Some (''I'', int_field xr_execution_id_update)"
  "field_for execution_report_fields ''t'' = Some (''t'', int_field xr_trade_id_update)"
  "field_for execution_report_fields ''Z'' = Some (''Z'', str_field xr_cumulative_quote_qty_update)"
  by (simp_all add: field_for_def execution_report_fields_def)

lemma report_steps:
  assumes "report_in64 raw"
  shows "list_all (\<lambda>(k, v). \<exists>f s'. field_for execution_report_fields k = Some f \<and> snd f v s = Some s' \<and>
    report_pairs s' = AList.update k v (report_pairs s)) (report_pairs raw)"
  unfolding report_pairs_def [of raw] list.pred_inject split
  using assms unfolding report_in64_def
  by (intro conjI) (simp_all add: field_for_report str_field_def int_field_def report_pairs_def)

lemma report_pairs_inj: "report_pairs a = report_pairs b \<Longrightarrow> a = b"
  by (cases a, cases b) (simp add: report_pairs_def)

lemma report_keys: "map fst (report_pairs a) = map fst (report_pairs b)" "distinct (map fst (report_pairs a))"
  by (simp_all add: report_pairs_def)

lemma alist_from_map: "distinct (map fst l) \<Longrightarrow> map (\<lambda>k. (k, the (map_of l k))) (map fst l) = l"
  unfolding map_map comp_def by (intro map_idI) auto

lemma report_of_map: "map_of (report_pairs a) = map_of (report_pairs b) \<Longrightarrow> a = b"
  using alist_from_map [OF report_keys(2), of a] alist_from_map [OF report_keys(2), of b]
  by (intro report_pairs_inj) (metis report_keys(1))

lemma set_exact_report:
  assumes "report_in64 raw" "\<And>kv. kv \<in> set kvs \<Longrightarrow> kv \<notin> set (report_pairs raw) \<Longrightarrow> field_for execution_report_fields (fst kv) = None"
  shows "\<exists>s'. set_exact_fields execution_report_fields kvs s = Some s' \<and> (\<forall>k. map_of (report_pairs s') k =
     (if k \<in> fst ` (set kvs \<inter> set (report_pairs raw)) then map_of (report_pairs raw) k else map_of (report_pairs s) k))"
  using assms(2)
proof (induction kvs arbitrary: s)
  case Nil
  then show ?case by simp
next
  case (Cons kv kvs)
  show ?case
  proof (cases "kv \<in> set (report_pairs raw)")
    case False
    with Cons.prems have "field_for execution_report_fields (fst kv) = None" by simp
    then show ?thesis using Cons.IH [of s] Cons.prems False by simp
  next
    case True
    obtain k v where kv: "kv = (k, v)" by (cases kv)
    from report_steps [OF assms(1), of s] True obtain f s1 where f: "field_for execution_report_fields k = Some f" "snd f v s = Some s1"
      "report_pairs s1 = AList.update k v (report_pairs s)" unfolding kv list_all_iff by blast
    have "map_of (report_pairs raw) k = Some v" using True report_keys(2) unfolding kv by (intro map_of_is_SomeI)
    then show ?thesis using Cons.IH [of s1] Cons.prems f True unfolding kv by (auto simp: update_conv')
  qed
qed



section \<open>Sessions and pauses\<close>

lemma doubled_cap: "0 \<le> most \<Longrightarrow> min (min (2 * lo) most * 2 ^ j) most = min (lo * 2 ^ Suc j) (most :: int)"
proof (cases "2 * lo \<le> most")
  case False
  moreover assume m: "0 \<le> most"
  moreover have "most * 1 \<le> most * 2 ^ j" using m by (intro mult_left_mono) simp_all
  moreover have "most * 1 \<le> (2 * lo) * 2 ^ j" using False m by (intro mult_mono) simp_all
  ultimately show ?thesis by (simp add: algebra_simps)
qed (simp add: algebra_simps)

text \<open>
  The pause after the k-th session of the user data stream is the minimum doubled k times, never above the
  maximum, whatever happened in the sessions: a session that ran well for days does not bring the pause back
  to the minimum.
\<close>

theorem uds_pauses:
  assumes "0 \<le> most" "lo \<le> most"
  shows "length (uds_run B D lo most us c) = length us \<and>
    (\<forall>k < length us. snd (uds_run B D lo most us c ! k) = min (lo * 2 ^ k) most)"
  using assms
proof (induction B D lo most us c rule: uds_run.induct)
  case (1 B D lo most c)
  then show ?case by simp
next
  case (2 B D lo most rid u us c)
  let ?r = "run_uds_session B D rid u c"
  have IH: "length (uds_run B D (min (2 * lo) most) most us (snd ?r)) = length us \<and>
    (\<forall>k < length us. snd (uds_run B D (min (2 * lo) most) most us (snd ?r) ! k) = min (min (2 * lo) most * 2 ^ k) most)"
    using 2(1) [OF refl surjective_pairing [symmetric] 2(2)] by simp
  show ?case
  proof (intro conjI allI impI)
    show "length (uds_run B D lo most ((rid, u) # us) c) = length ((rid, u) # us)" using IH by (simp add: split_beta)
    fix k assume k: "k < length ((rid, u) # us)"
    show "snd (uds_run B D lo most ((rid, u) # us) c ! k) = min (lo * 2 ^ k) most"
    proof (cases k)
      case 0
      with 2(3) show ?thesis by (simp add: split_beta)
    next
      case (Suc j)
      then have "snd (uds_run B D lo most ((rid, u) # us) c ! k) = min (min (2 * lo) most * 2 ^ j) most"
        using IH k by (simp add: split_beta)
      also have "\<dots> = min (lo * 2 ^ k) most" unfolding Suc using 2(2) by (rule doubled_cap)
      finally show ?thesis .
    qed
  qed
qed

theorem uds_pauses_witness:
  "snd (uds_run sample_bin_env rat_dec 1000 60000 (replicate 8 (''u'', \<lparr>us_dial_ok = False, us_write_ok = False, us_ack = None, us_frames = []\<rparr>)) sample_client ! 5) = 32000 \<and>
   snd (uds_run sample_bin_env rat_dec 1000 60000 (replicate 8 (''u'', \<lparr>us_dial_ok = False, us_write_ok = False, us_ack = None, us_frames = []\<rparr>)) sample_client ! 6) = 60000"
  using uds_pauses [of 60000 1000 sample_bin_env rat_dec "replicate 8 (''u'', \<lparr>us_dial_ok = False, us_write_ok = False, us_ack = None, us_frames = []\<rparr>)" sample_client] by simp

lemma subscription_survives_start:
  \<comment> \<open>a callback subscribed before or after the start is the one the stream calls\<close>
  assumes "bx_stream x"
  shows "bx_callback (exchange_start (exchange_subscribe cb x)) = Some cb"
    "bx_callback (exchange_subscribe cb (exchange_start x)) = Some cb"
  using assms by (simp_all add: exchange_start_def exchange_subscribe_def Let_def)

lemma read_loop_events:
  "read_loop D fs = (let es = map (handle_frame D) fs in
     (concat (map (\<lambda>e. case e of FrameEvent ev \<Rightarrow> [ev] | _ \<Rightarrow> []) (takeWhile (\<lambda>e. e \<noteq> FrameShutdown) es)), FrameShutdown \<in> set es))"
  by (induction fs) (auto simp: Let_def split: frame_effect.splits)

end
