(* ===== verification/Spec2Isabelle.thy ===== *)
theory Spec2Isabelle
  imports AgentTheorems LiveTheorems SigmoidTheorems EpochTheorems LifecycleSafety StressTheorems EpochTasks BinanceReports
begin

text \<open>
  A verification development for quantlab: a trading system whose strategies are evolved offline by a
  genetic algorithm, reviewed and promoted by people, and run live by a server (\<open>cmd/saas\<close>) that sends
  orders over a websocket to an agent (\<open>cmd/agent\<close>) sitting next to the exchange.

  \<^bold>\<open>How the parts interact.\<close> An evolution task (\<open>internal/saas/epoch\<close>) runs the engine
  (\<open>internal/engine\<close>) on a strategy (\<open>internal/strategies\<close>) and stores its best gene as a challenger
  (\<open>internal/repository/challenger.go\<close>). A reviewer promotes a challenger to champion of its strategy and
  pair and deploys it on an instance (\<open>internal/api/handlers.go\<close>). Every bar the instance manager
  (\<open>internal/saas/instance\<close>) folds the reported fills into the ledger, runs one step of the strategy and
  dispatches its orders, each recorded before it is sent. The hub (\<open>internal/saas/wshub\<close>) keeps one
  connection per account; the agent (\<open>internal/agent\<close>) executes each command at most once and reports
  fills back, which the server stores exactly once (\<open>cmd/saas/agentmsg.go\<close>). A kill switch freezes an
  account; its latch is the audit log.

  \<^bold>\<open>Shared ground.\<close> \<open>Prelude\<close> (int64, Go strings, binary search, statements that may fail), \<open>Float64\<close>
  (IEEE binary64 on rationals, round to nearest even), \<open>Strconv\<close> (number formatting and parsing), \<open>Json\<close>
  (decoding of a JSON tree into a struct).

  \<^bold>\<open>The wire and the agent.\<close> \<open>Wire\<close> is \<open>internal/wire\<close>; \<open>AgentAuth\<close> the agent tokens
  (\<open>internal/saas/agentauth\<close>); \<open>Idempotency\<close> the two stores of \<open>internal/agent\<close> behind one locale, with
  the refinement of the one by the other; \<open>AgentClient\<close> and \<open>AgentSession\<close> the command pipeline, fill
  events, delta reports, handshake and configuration; \<open>AgentSafety\<close> and \<open>AgentTheorems\<close> their invariants:
  no command is submitted twice, a frozen agent submits nothing, fills are conserved until reported.

  \<^bold>\<open>The live server.\<close> \<open>Dispatch\<close> is the price cap and the rendering of a command; \<open>WsHub\<close> and
  \<open>WsHubSafety\<close> the connections; \<open>SaasDb\<close> the tables and repositories of the live side; \<open>KillLatch\<close> the
  kill switch; \<open>AgentMsg\<close> and \<open>LiveSafety\<close> the handling of agent messages; \<open>LiveTick\<close>, \<open>Ledger\<close> and
  \<open>LiveTheorems\<close> the decision cycle, with the invariant that every stored fill enters the ledger once.

  \<^bold>\<open>Strategies and the engine.\<close> \<open>Quant\<close> is the numeric library; \<open>ResultPkg\<close> the result packages and
  their validators; \<open>SigmoidGene\<close>, \<open>SigmoidStep\<close>, \<open>SigmoidSim\<close> and \<open>SigmoidTheorems\<close> the sigmoid strategy
  (genes, one step, the simulator) with wallet and equivalence theorems; \<open>Evolve\<close> and \<open>Strategies\<close> the
  engine, the toy strategy and the package builder; \<open>StrategyLaws\<close> states what the engine needs from a
  strategy as the locale \<open>evolvable_laws\<close>, \<open>EvolveTheorems\<close> holds what follows for an epoch, \<open>SigmoidLaws\<close>
  interprets the locale on the sigmoid strategy, \<open>Workers\<close> is the parallel evaluation as a step relation,
  and \<open>EpochTheorems\<close> the properties of an epoch.

  \<^bold>\<open>Evolution tasks, challengers, champions.\<close> \<open>Requests\<close> holds the request bodies and validators of
  \<open>internal/api\<close>; \<open>Lifecycle\<close> the tables and repositories (\<open>internal/repository\<close>: task, challenger,
  sharpe_bank, champion); \<open>Api\<close> the handlers; \<open>LifecycleSteps\<close> the interleaving of concurrent requests.

  \<^bold>\<open>Conventions.\<close> A Go \<open>int\<close> or \<open>int64\<close> is an integer with the wrap-around written out, a \<open>float64\<close> a
  value of \<open>Float64\<close>, a string a byte list, a pointer an option. Errors are values of a sum or option
  type. A database table is the list of its rows in insertion order; every statement takes a flag that
  says whether the driver fails. Loops are structural recursions, so they end without fuel; the agent's and
  the hub's concurrency and that of the requests are step relations or explicit sequences of steps.

  \<^bold>\<open>Parameters and their laws.\<close> Code that is not part of the repository is an argument: the decimal
  library, bcrypt, the math functions of libm, the random generator, the exchange, the clock. What the
  program relies on is a named hypothesis of the theorems that use it, and each of these has a witness.

  \<^bold>\<open>Simplifications.\<close> A frame or a JSON column is a parsed tree, not bytes; the shortest decimal of a
  float is represented by the float itself. The stable sort of the engine is insertion of equal elements
  in order, which agrees with Go's for the weak orders it is used with. Conversion of a float out of the
  range of int64 follows amd64. Contexts are not cancelled inside a statement.

  \<^bold>\<open>Not modelled.\<close> Market data download and import (\<open>internal/data\<close>: network and files), the Binance
  client (\<open>internal/agent/binance\<close>), out-of-sample verification and cost baselines
  (\<open>internal/verification\<close>, \<open>internal/fitness/ghost_dca.go\<close>), the epoch service around the engine, blob
  migration, configuration files, JWT users and the wiring of the processes, the read-only diagnostic
  endpoints, and the research scripts.
\<close>

end
